(* ===== verification/Prelude.thy ===== *)
theory Prelude
  imports Main "HOL-Library.Word"
begin

text \<open>
  Types, error plumbing and generic lemmas shared by the components.
  Machine integers keep their width (\<open>u8\<close>, \<open>u16\<close>, \<open>u32\<close>); a fallible routine returns
  \<open>error + value\<close> and is sequenced with \<open>bind_r\<close>; reading a byte outside the mapped bytes is
  an error of its own, never an unspecified value.
\<close>

unbundle bit_operations_syntax

type_synonym u8 = "8 word"
type_synonym u16 = "16 word"
type_synonym u32 = "32 word"

named_theorems libdasm_consts \<open>values of the preprocessor constants of libdasm.h\<close>
named_theorems libdasm_tables \<open>the rows of opcode_tables.h\<close>
named_theorems bind_r_simps \<open>inversion of sequenced computations\<close>

subsection \<open>Sequencing of fallible computations\<close>

definition bind_r :: "'e + 'a \<Rightarrow> ('a \<Rightarrow> 'e + 'b) \<Rightarrow> 'e + 'b" where
  "bind_r m f = (case m of Inl e \<Rightarrow> Inl e | Inr x \<Rightarrow> f x)"

lemma bind_r_Inl [simp]: "bind_r (Inl e) f = Inl e"
  by (simp add: bind_r_def)

lemma bind_r_Inr [simp]: "bind_r (Inr x) f = f x"
  by (simp add: bind_r_def)

lemma bind_r_eq_Inr [bind_r_simps]: "bind_r m f = Inr y \<longleftrightarrow> (\<exists>x. m = Inr x \<and> f x = Inr y)"
  by (cases m) auto

lemma bind_r_eq_Inl [bind_r_simps]:
  "bind_r m f = Inl e \<longleftrightarrow> m = Inl e \<or> (\<exists>x. m = Inr x \<and> f x = Inl e)"
  by (cases m) auto

lemma bind_r_cong [fundef_cong]:
  "m = m' \<Longrightarrow> (\<And>x. m' = Inr x \<Longrightarrow> f x = g x) \<Longrightarrow> bind_r m f = bind_r m' g"
  by (cases m') auto

subsection \<open>Words as numbers\<close>

lemma unat_add_no_wrap:
  fixes a :: u32
  assumes "unat a + n < 2 ^ 32"
  shows "unat (a + of_nat n) = unat a + n"
  using assms by (simp add: unat_word_ariths unat_of_nat)

lemma unat_diff_le: "(b :: u32) \<le> a \<Longrightarrow> unat (a - b) = unat a - unat b"
  by (simp add: unat_sub)

lemma u32_bound: "unat (a :: u32) < 2 ^ 32"
  using unsigned_less [of a] by simp

lemma u8_bound: "unat (b :: u8) < 256"
  using unsigned_less [of b] by simp

end
