(* ===== verification/Libdasm_Base.thy ===== *)
theory Libdasm_Base
  imports Prelude
begin

text \<open>
  The data model of the disassembler: the enumerations, the structures and the preprocessor
  constants of \<^verbatim>\<open>libdasm/libdasm.h\<close>, under the names they have there.
  C's \<open>int\<close> bit sets (operand flags, instruction flags, implied-operand masks) are \<open>u32\<close>,
  its \<open>short\<close> eflags masks \<open>u16\<close>; lengths, offsets and register numbers, which the decoder
  only adds and compares, are \<open>nat\<close>. \<open>InstructionType\<close> is a number, not a datatype, because
  the code packs its values with the flag \<open>TYPE_3\<close> into one \<open>DWORD\<close> and takes them apart by masking.
\<close>

subsection \<open>Enumerations\<close>

type_synonym InstructionType = u32

definition INSTRUCTION_TYPE_ASC :: InstructionType where [libdasm_consts]: "INSTRUCTION_TYPE_ASC = 0"
definition INSTRUCTION_TYPE_DCL :: InstructionType where [libdasm_consts]: "INSTRUCTION_TYPE_DCL = 1"
definition INSTRUCTION_TYPE_MOV :: InstructionType where [libdasm_consts]: "INSTRUCTION_TYPE_MOV = 2"
definition INSTRUCTION_TYPE_MOVSR :: InstructionType where [libdasm_consts]: "INSTRUCTION_TYPE_MOVSR = 3"
definition INSTRUCTION_TYPE_ADD :: InstructionType where [libdasm_consts]: "INSTRUCTION_TYPE_ADD = 4"
definition INSTRUCTION_TYPE_XADD :: InstructionType where [libdasm_consts]: "INSTRUCTION_TYPE_XADD = 5"
definition INSTRUCTION_TYPE_ADC :: InstructionType where [libdasm_consts]: "INSTRUCTION_TYPE_ADC = 6"
definition INSTRUCTION_TYPE_SUB :: InstructionType where [libdasm_consts]: "INSTRUCTION_TYPE_SUB = 7"
definition INSTRUCTION_TYPE_SBB :: InstructionType where [libdasm_consts]: "INSTRUCTION_TYPE_SBB = 8"
definition INSTRUCTION_TYPE_INC :: InstructionType where [libdasm_consts]: "INSTRUCTION_TYPE_INC = 9"
definition INSTRUCTION_TYPE_DEC :: InstructionType where [libdasm_consts]: "INSTRUCTION_TYPE_DEC = 10"
definition INSTRUCTION_TYPE_DIV :: InstructionType where [libdasm_consts]: "INSTRUCTION_TYPE_DIV = 11"
definition INSTRUCTION_TYPE_IDIV :: InstructionType where [libdasm_consts]: "INSTRUCTION_TYPE_IDIV = 12"
definition INSTRUCTION_TYPE_NOT :: InstructionType where [libdasm_consts]: "INSTRUCTION_TYPE_NOT = 13"
definition INSTRUCTION_TYPE_NEG :: InstructionType where [libdasm_consts]: "INSTRUCTION_TYPE_NEG = 14"
definition INSTRUCTION_TYPE_STOS :: InstructionType where [libdasm_consts]: "INSTRUCTION_TYPE_STOS = 15"
definition INSTRUCTION_TYPE_LODS :: InstructionType where [libdasm_consts]: "INSTRUCTION_TYPE_LODS = 16"
definition INSTRUCTION_TYPE_SCAS :: InstructionType where [libdasm_consts]: "INSTRUCTION_TYPE_SCAS = 17"
definition INSTRUCTION_TYPE_MOVS :: InstructionType where [libdasm_consts]: "INSTRUCTION_TYPE_MOVS = 18"
definition INSTRUCTION_TYPE_MOVSX :: InstructionType where [libdasm_consts]: "INSTRUCTION_TYPE_MOVSX = 19"
definition INSTRUCTION_TYPE_MOVZX :: InstructionType where [libdasm_consts]: "INSTRUCTION_TYPE_MOVZX = 20"
definition INSTRUCTION_TYPE_CMPS :: InstructionType where [libdasm_consts]: "INSTRUCTION_TYPE_CMPS = 21"
definition INSTRUCTION_TYPE_SHX :: InstructionType where [libdasm_consts]: "INSTRUCTION_TYPE_SHX = 22"
definition INSTRUCTION_TYPE_ROX :: InstructionType where [libdasm_consts]: "INSTRUCTION_TYPE_ROX = 23"
definition INSTRUCTION_TYPE_MUL :: InstructionType where [libdasm_consts]: "INSTRUCTION_TYPE_MUL = 24"
definition INSTRUCTION_TYPE_IMUL :: InstructionType where [libdasm_consts]: "INSTRUCTION_TYPE_IMUL = 25"
definition INSTRUCTION_TYPE_EIMUL :: InstructionType where [libdasm_consts]: "INSTRUCTION_TYPE_EIMUL = 26"
definition INSTRUCTION_TYPE_XOR :: InstructionType where [libdasm_consts]: "INSTRUCTION_TYPE_XOR = 27"
definition INSTRUCTION_TYPE_LEA :: InstructionType where [libdasm_consts]: "INSTRUCTION_TYPE_LEA = 28"
definition INSTRUCTION_TYPE_XCHG :: InstructionType where [libdasm_consts]: "INSTRUCTION_TYPE_XCHG = 29"
definition INSTRUCTION_TYPE_CMP :: InstructionType where [libdasm_consts]: "INSTRUCTION_TYPE_CMP = 30"
definition INSTRUCTION_TYPE_TEST :: InstructionType where [libdasm_consts]: "INSTRUCTION_TYPE_TEST = 31"
definition INSTRUCTION_TYPE_PUSH :: InstructionType where [libdasm_consts]: "INSTRUCTION_TYPE_PUSH = 32"
definition INSTRUCTION_TYPE_AND :: InstructionType where [libdasm_consts]: "INSTRUCTION_TYPE_AND = 33"
definition INSTRUCTION_TYPE_OR :: InstructionType where [libdasm_consts]: "INSTRUCTION_TYPE_OR = 34"
definition INSTRUCTION_TYPE_POP :: InstructionType where [libdasm_consts]: "INSTRUCTION_TYPE_POP = 35"
definition INSTRUCTION_TYPE_JMP :: InstructionType where [libdasm_consts]: "INSTRUCTION_TYPE_JMP = 36"
definition INSTRUCTION_TYPE_JMPC :: InstructionType where [libdasm_consts]: "INSTRUCTION_TYPE_JMPC = 37"
definition INSTRUCTION_TYPE_JECXZ :: InstructionType where [libdasm_consts]: "INSTRUCTION_TYPE_JECXZ = 38"
definition INSTRUCTION_TYPE_SETC :: InstructionType where [libdasm_consts]: "INSTRUCTION_TYPE_SETC = 39"
definition INSTRUCTION_TYPE_MOVC :: InstructionType where [libdasm_consts]: "INSTRUCTION_TYPE_MOVC = 40"
definition INSTRUCTION_TYPE_LOOP :: InstructionType where [libdasm_consts]: "INSTRUCTION_TYPE_LOOP = 41"
definition INSTRUCTION_TYPE_CALL :: InstructionType where [libdasm_consts]: "INSTRUCTION_TYPE_CALL = 42"
definition INSTRUCTION_TYPE_RET :: InstructionType where [libdasm_consts]: "INSTRUCTION_TYPE_RET = 43"
definition INSTRUCTION_TYPE_ENTER :: InstructionType where [libdasm_consts]: "INSTRUCTION_TYPE_ENTER = 44"
definition INSTRUCTION_TYPE_INT :: InstructionType where [libdasm_consts]: "INSTRUCTION_TYPE_INT = 45"
definition INSTRUCTION_TYPE_BT :: InstructionType where [libdasm_consts]: "INSTRUCTION_TYPE_BT = 46"
definition INSTRUCTION_TYPE_BTS :: InstructionType where [libdasm_consts]: "INSTRUCTION_TYPE_BTS = 47"
definition INSTRUCTION_TYPE_BTR :: InstructionType where [libdasm_consts]: "INSTRUCTION_TYPE_BTR = 48"
definition INSTRUCTION_TYPE_BTC :: InstructionType where [libdasm_consts]: "INSTRUCTION_TYPE_BTC = 49"
definition INSTRUCTION_TYPE_BSF :: InstructionType where [libdasm_consts]: "INSTRUCTION_TYPE_BSF = 50"
definition INSTRUCTION_TYPE_BSR :: InstructionType where [libdasm_consts]: "INSTRUCTION_TYPE_BSR = 51"
definition INSTRUCTION_TYPE_BSWAP :: InstructionType where [libdasm_consts]: "INSTRUCTION_TYPE_BSWAP = 52"
definition INSTRUCTION_TYPE_SGDT :: InstructionType where [libdasm_consts]: "INSTRUCTION_TYPE_SGDT = 53"
definition INSTRUCTION_TYPE_SIDT :: InstructionType where [libdasm_consts]: "INSTRUCTION_TYPE_SIDT = 54"
definition INSTRUCTION_TYPE_SLDT :: InstructionType where [libdasm_consts]: "INSTRUCTION_TYPE_SLDT = 55"
definition INSTRUCTION_TYPE_LFP :: InstructionType where [libdasm_consts]: "INSTRUCTION_TYPE_LFP = 56"
definition INSTRUCTION_TYPE_CLD :: InstructionType where [libdasm_consts]: "INSTRUCTION_TYPE_CLD = 57"
definition INSTRUCTION_TYPE_STD :: InstructionType where [libdasm_consts]: "INSTRUCTION_TYPE_STD = 58"
definition INSTRUCTION_TYPE_XLAT :: InstructionType where [libdasm_consts]: "INSTRUCTION_TYPE_XLAT = 59"
definition INSTRUCTION_TYPE_FCMOVC :: InstructionType where [libdasm_consts]: "INSTRUCTION_TYPE_FCMOVC = 60"
definition INSTRUCTION_TYPE_FADD :: InstructionType where [libdasm_consts]: "INSTRUCTION_TYPE_FADD = 61"
definition INSTRUCTION_TYPE_FADDP :: InstructionType where [libdasm_consts]: "INSTRUCTION_TYPE_FADDP = 62"
definition INSTRUCTION_TYPE_FIADD :: InstructionType where [libdasm_consts]: "INSTRUCTION_TYPE_FIADD = 63"
definition INSTRUCTION_TYPE_FSUB :: InstructionType where [libdasm_consts]: "INSTRUCTION_TYPE_FSUB = 64"
definition INSTRUCTION_TYPE_FSUBP :: InstructionType where [libdasm_consts]: "INSTRUCTION_TYPE_FSUBP = 65"
definition INSTRUCTION_TYPE_FISUB :: InstructionType where [libdasm_consts]: "INSTRUCTION_TYPE_FISUB = 66"
definition INSTRUCTION_TYPE_FSUBR :: InstructionType where [libdasm_consts]: "INSTRUCTION_TYPE_FSUBR = 67"
definition INSTRUCTION_TYPE_FSUBRP :: InstructionType where [libdasm_consts]: "INSTRUCTION_TYPE_FSUBRP = 68"
definition INSTRUCTION_TYPE_FISUBR :: InstructionType where [libdasm_consts]: "INSTRUCTION_TYPE_FISUBR = 69"
definition INSTRUCTION_TYPE_FMUL :: InstructionType where [libdasm_consts]: "INSTRUCTION_TYPE_FMUL = 70"
definition INSTRUCTION_TYPE_FMULP :: InstructionType where [libdasm_consts]: "INSTRUCTION_TYPE_FMULP = 71"
definition INSTRUCTION_TYPE_FIMUL :: InstructionType where [libdasm_consts]: "INSTRUCTION_TYPE_FIMUL = 72"
definition INSTRUCTION_TYPE_FDIV :: InstructionType where [libdasm_consts]: "INSTRUCTION_TYPE_FDIV = 73"
definition INSTRUCTION_TYPE_FDIVP :: InstructionType where [libdasm_consts]: "INSTRUCTION_TYPE_FDIVP = 74"
definition INSTRUCTION_TYPE_FDIVR :: InstructionType where [libdasm_consts]: "INSTRUCTION_TYPE_FDIVR = 75"
definition INSTRUCTION_TYPE_FDIVRP :: InstructionType where [libdasm_consts]: "INSTRUCTION_TYPE_FDIVRP = 76"
definition INSTRUCTION_TYPE_FIDIV :: InstructionType where [libdasm_consts]: "INSTRUCTION_TYPE_FIDIV = 77"
definition INSTRUCTION_TYPE_FIDIVR :: InstructionType where [libdasm_consts]: "INSTRUCTION_TYPE_FIDIVR = 78"
definition INSTRUCTION_TYPE_FCOM :: InstructionType where [libdasm_consts]: "INSTRUCTION_TYPE_FCOM = 79"
definition INSTRUCTION_TYPE_FCOMP :: InstructionType where [libdasm_consts]: "INSTRUCTION_TYPE_FCOMP = 80"
definition INSTRUCTION_TYPE_FCOMPP :: InstructionType where [libdasm_consts]: "INSTRUCTION_TYPE_FCOMPP = 81"
definition INSTRUCTION_TYPE_FCOMI :: InstructionType where [libdasm_consts]: "INSTRUCTION_TYPE_FCOMI = 82"
definition INSTRUCTION_TYPE_FCOMIP :: InstructionType where [libdasm_consts]: "INSTRUCTION_TYPE_FCOMIP = 83"
definition INSTRUCTION_TYPE_FUCOM :: InstructionType where [libdasm_consts]: "INSTRUCTION_TYPE_FUCOM = 84"
definition INSTRUCTION_TYPE_FUCOMP :: InstructionType where [libdasm_consts]: "INSTRUCTION_TYPE_FUCOMP = 85"
definition INSTRUCTION_TYPE_FUCOMPP :: InstructionType where [libdasm_consts]: "INSTRUCTION_TYPE_FUCOMPP = 86"
definition INSTRUCTION_TYPE_FUCOMI :: InstructionType where [libdasm_consts]: "INSTRUCTION_TYPE_FUCOMI = 87"
definition INSTRUCTION_TYPE_FUCOMIP :: InstructionType where [libdasm_consts]: "INSTRUCTION_TYPE_FUCOMIP = 88"
definition INSTRUCTION_TYPE_FST :: InstructionType where [libdasm_consts]: "INSTRUCTION_TYPE_FST = 89"
definition INSTRUCTION_TYPE_FSTP :: InstructionType where [libdasm_consts]: "INSTRUCTION_TYPE_FSTP = 90"
definition INSTRUCTION_TYPE_FIST :: InstructionType where [libdasm_consts]: "INSTRUCTION_TYPE_FIST = 91"
definition INSTRUCTION_TYPE_FISTP :: InstructionType where [libdasm_consts]: "INSTRUCTION_TYPE_FISTP = 92"
definition INSTRUCTION_TYPE_FISTTP :: InstructionType where [libdasm_consts]: "INSTRUCTION_TYPE_FISTTP = 93"
definition INSTRUCTION_TYPE_FLD :: InstructionType where [libdasm_consts]: "INSTRUCTION_TYPE_FLD = 94"
definition INSTRUCTION_TYPE_FILD :: InstructionType where [libdasm_consts]: "INSTRUCTION_TYPE_FILD = 95"
definition INSTRUCTION_TYPE_FICOM :: InstructionType where [libdasm_consts]: "INSTRUCTION_TYPE_FICOM = 96"
definition INSTRUCTION_TYPE_FICOMP :: InstructionType where [libdasm_consts]: "INSTRUCTION_TYPE_FICOMP = 97"
definition INSTRUCTION_TYPE_FFREE :: InstructionType where [libdasm_consts]: "INSTRUCTION_TYPE_FFREE = 98"
definition INSTRUCTION_TYPE_FFREEP :: InstructionType where [libdasm_consts]: "INSTRUCTION_TYPE_FFREEP = 99"
definition INSTRUCTION_TYPE_FXCH :: InstructionType where [libdasm_consts]: "INSTRUCTION_TYPE_FXCH = 100"
definition INSTRUCTION_TYPE_SYSENTER :: InstructionType where [libdasm_consts]: "INSTRUCTION_TYPE_SYSENTER = 101"
definition INSTRUCTION_TYPE_FPU_CTRL :: InstructionType where [libdasm_consts]: "INSTRUCTION_TYPE_FPU_CTRL = 102"
definition INSTRUCTION_TYPE_FPU :: InstructionType where [libdasm_consts]: "INSTRUCTION_TYPE_FPU = 103"
definition INSTRUCTION_TYPE_MMX :: InstructionType where [libdasm_consts]: "INSTRUCTION_TYPE_MMX = 104"
definition INSTRUCTION_TYPE_SSE :: InstructionType where [libdasm_consts]: "INSTRUCTION_TYPE_SSE = 105"
definition INSTRUCTION_TYPE_OTHER :: InstructionType where [libdasm_consts]: "INSTRUCTION_TYPE_OTHER = 106"
definition INSTRUCTION_TYPE_PRIV :: InstructionType where [libdasm_consts]: "INSTRUCTION_TYPE_PRIV = 107"
definition TYPE_3 :: u32 where [libdasm_consts]: "TYPE_3 = 0x80000000"

datatype Mode = MODE_32 | MODE_16

datatype Operand =
    OPERAND_TYPE_NONE
  | OPERAND_TYPE_MEMORY
  | OPERAND_TYPE_LIBDASM_REGISTER
  | OPERAND_TYPE_IMMEDIATE

subsection \<open>Register numbers\<close>

text \<open>As register numbers the decoder compares (\<open>LIBDASM_REGISTER_X\<close>), and as the bits of an operand flag (\<open>LIBDASM_REG_X\<close>, with the aliases the tables use).\<close>

definition LIBDASM_REGISTER_EAX :: nat where [libdasm_consts]: "LIBDASM_REGISTER_EAX = 0"
definition LIBDASM_REGISTER_ECX :: nat where [libdasm_consts]: "LIBDASM_REGISTER_ECX = 1"
definition LIBDASM_REGISTER_EDX :: nat where [libdasm_consts]: "LIBDASM_REGISTER_EDX = 2"
definition LIBDASM_REGISTER_EBX :: nat where [libdasm_consts]: "LIBDASM_REGISTER_EBX = 3"
definition LIBDASM_REGISTER_ESP :: nat where [libdasm_consts]: "LIBDASM_REGISTER_ESP = 4"
definition LIBDASM_REGISTER_EBP :: nat where [libdasm_consts]: "LIBDASM_REGISTER_EBP = 5"
definition LIBDASM_REGISTER_ESI :: nat where [libdasm_consts]: "LIBDASM_REGISTER_ESI = 6"
definition LIBDASM_REGISTER_EDI :: nat where [libdasm_consts]: "LIBDASM_REGISTER_EDI = 7"
definition LIBDASM_REGISTER_NOP :: nat where [libdasm_consts]: "LIBDASM_REGISTER_NOP = 8"

definition LIBDASM_REG_EAX :: u32 where [libdasm_consts]: "LIBDASM_REG_EAX = 0"
definition LIBDASM_REG_ECX :: u32 where [libdasm_consts]: "LIBDASM_REG_ECX = 1"
definition LIBDASM_REG_EDX :: u32 where [libdasm_consts]: "LIBDASM_REG_EDX = 2"
definition LIBDASM_REG_EBX :: u32 where [libdasm_consts]: "LIBDASM_REG_EBX = 3"
definition LIBDASM_REG_ESP :: u32 where [libdasm_consts]: "LIBDASM_REG_ESP = 4"
definition LIBDASM_REG_EBP :: u32 where [libdasm_consts]: "LIBDASM_REG_EBP = 5"
definition LIBDASM_REG_ESI :: u32 where [libdasm_consts]: "LIBDASM_REG_ESI = 6"
definition LIBDASM_REG_EDI :: u32 where [libdasm_consts]: "LIBDASM_REG_EDI = 7"

abbreviation LIBDASM_REG_AL :: u32 where "LIBDASM_REG_AL \<equiv> LIBDASM_REG_EAX"
abbreviation LIBDASM_REG_ES :: u32 where "LIBDASM_REG_ES \<equiv> LIBDASM_REG_EAX"
abbreviation LIBDASM_REG_ST0 :: u32 where "LIBDASM_REG_ST0 \<equiv> LIBDASM_REG_EAX"
abbreviation LIBDASM_REG_CL :: u32 where "LIBDASM_REG_CL \<equiv> LIBDASM_REG_ECX"
abbreviation LIBDASM_REG_CS :: u32 where "LIBDASM_REG_CS \<equiv> LIBDASM_REG_ECX"
abbreviation LIBDASM_REG_ST1 :: u32 where "LIBDASM_REG_ST1 \<equiv> LIBDASM_REG_ECX"
abbreviation LIBDASM_REG_DL :: u32 where "LIBDASM_REG_DL \<equiv> LIBDASM_REG_EDX"
abbreviation LIBDASM_REG_SS :: u32 where "LIBDASM_REG_SS \<equiv> LIBDASM_REG_EDX"
abbreviation LIBDASM_REG_ST2 :: u32 where "LIBDASM_REG_ST2 \<equiv> LIBDASM_REG_EDX"
abbreviation LIBDASM_REG_BL :: u32 where "LIBDASM_REG_BL \<equiv> LIBDASM_REG_EBX"
abbreviation LIBDASM_REG_DS :: u32 where "LIBDASM_REG_DS \<equiv> LIBDASM_REG_EBX"
abbreviation LIBDASM_REG_ST3 :: u32 where "LIBDASM_REG_ST3 \<equiv> LIBDASM_REG_EBX"
abbreviation LIBDASM_REG_AH :: u32 where "LIBDASM_REG_AH \<equiv> LIBDASM_REG_ESP"
abbreviation LIBDASM_REG_FS :: u32 where "LIBDASM_REG_FS \<equiv> LIBDASM_REG_ESP"
abbreviation LIBDASM_REG_ST4 :: u32 where "LIBDASM_REG_ST4 \<equiv> LIBDASM_REG_ESP"
abbreviation LIBDASM_REG_CH :: u32 where "LIBDASM_REG_CH \<equiv> LIBDASM_REG_EBP"
abbreviation LIBDASM_REG_GS :: u32 where "LIBDASM_REG_GS \<equiv> LIBDASM_REG_EBP"
abbreviation LIBDASM_REG_ST5 :: u32 where "LIBDASM_REG_ST5 \<equiv> LIBDASM_REG_EBP"
abbreviation LIBDASM_REG_DH :: u32 where "LIBDASM_REG_DH \<equiv> LIBDASM_REG_ESI"
abbreviation LIBDASM_REG_ST6 :: u32 where "LIBDASM_REG_ST6 \<equiv> LIBDASM_REG_ESI"
abbreviation LIBDASM_REG_BH :: u32 where "LIBDASM_REG_BH \<equiv> LIBDASM_REG_EDI"
abbreviation LIBDASM_REG_ST7 :: u32 where "LIBDASM_REG_ST7 \<equiv> LIBDASM_REG_EDI"

subsection \<open>Prefixes, extensions and operand flags\<close>

definition PREFIX_LOCK :: u32 where [libdasm_consts]: "PREFIX_LOCK = 0x01000000"
definition PREFIX_REPNE :: u32 where [libdasm_consts]: "PREFIX_REPNE = 0x02000000"
definition PREFIX_REP :: u32 where [libdasm_consts]: "PREFIX_REP = 0x03000000"
definition PREFIX_REPE :: u32 where [libdasm_consts]: "PREFIX_REPE = 0x03000000"
definition PREFIX_ES_OVERRIDE :: u32 where [libdasm_consts]: "PREFIX_ES_OVERRIDE = 0x00010000"
definition PREFIX_CS_OVERRIDE :: u32 where [libdasm_consts]: "PREFIX_CS_OVERRIDE = 0x00020000"
definition PREFIX_SS_OVERRIDE :: u32 where [libdasm_consts]: "PREFIX_SS_OVERRIDE = 0x00030000"
definition PREFIX_DS_OVERRIDE :: u32 where [libdasm_consts]: "PREFIX_DS_OVERRIDE = 0x00040000"
definition PREFIX_FS_OVERRIDE :: u32 where [libdasm_consts]: "PREFIX_FS_OVERRIDE = 0x00050000"
definition PREFIX_GS_OVERRIDE :: u32 where [libdasm_consts]: "PREFIX_GS_OVERRIDE = 0x00060000"
definition PREFIX_OPERAND_SIZE_OVERRIDE :: u32 where [libdasm_consts]: "PREFIX_OPERAND_SIZE_OVERRIDE = 0x00000100"
definition PREFIX_ADDR_SIZE_OVERRIDE :: u32 where [libdasm_consts]: "PREFIX_ADDR_SIZE_OVERRIDE = 0x00001000"
definition EXT_G1_1 :: u32 where [libdasm_consts]: "EXT_G1_1 = 0x00000001"
definition EXT_G1_2 :: u32 where [libdasm_consts]: "EXT_G1_2 = 0x00000002"
definition EXT_G1_3 :: u32 where [libdasm_consts]: "EXT_G1_3 = 0x00000003"
definition EXT_G2_1 :: u32 where [libdasm_consts]: "EXT_G2_1 = 0x00000004"
definition EXT_G2_2 :: u32 where [libdasm_consts]: "EXT_G2_2 = 0x00000005"
definition EXT_G2_3 :: u32 where [libdasm_consts]: "EXT_G2_3 = 0x00000006"
definition EXT_G2_4 :: u32 where [libdasm_consts]: "EXT_G2_4 = 0x00000007"
definition EXT_G2_5 :: u32 where [libdasm_consts]: "EXT_G2_5 = 0x00000008"
definition EXT_G2_6 :: u32 where [libdasm_consts]: "EXT_G2_6 = 0x00000009"
definition EXT_G3_1 :: u32 where [libdasm_consts]: "EXT_G3_1 = 0x0000000a"
definition EXT_G3_2 :: u32 where [libdasm_consts]: "EXT_G3_2 = 0x0000000b"
definition EXT_G4 :: u32 where [libdasm_consts]: "EXT_G4 = 0x0000000c"
definition EXT_G5 :: u32 where [libdasm_consts]: "EXT_G5 = 0x0000000d"
definition EXT_G6 :: u32 where [libdasm_consts]: "EXT_G6 = 0x0000000e"
definition EXT_G7 :: u32 where [libdasm_consts]: "EXT_G7 = 0x0000000f"
definition EXT_G8 :: u32 where [libdasm_consts]: "EXT_G8 = 0x00000010"
definition EXT_G9 :: u32 where [libdasm_consts]: "EXT_G9 = 0x00000011"
definition EXT_GA :: u32 where [libdasm_consts]: "EXT_GA = 0x00000012"
definition EXT_GB :: u32 where [libdasm_consts]: "EXT_GB = 0x00000013"
definition EXT_GC :: u32 where [libdasm_consts]: "EXT_GC = 0x00000014"
definition EXT_GD :: u32 where [libdasm_consts]: "EXT_GD = 0x00000015"
definition EXT_GE :: u32 where [libdasm_consts]: "EXT_GE = 0x00000016"
definition EXT_GF :: u32 where [libdasm_consts]: "EXT_GF = 0x00000017"
definition EXT_G0 :: u32 where [libdasm_consts]: "EXT_G0 = 0x00000018"
definition EXT_T2 :: u32 where [libdasm_consts]: "EXT_T2 = 0x00000020"
definition EXT_CP :: u32 where [libdasm_consts]: "EXT_CP = 0x00000030"
definition AM_A :: u32 where [libdasm_consts]: "AM_A = 0x00010000"
definition AM_C :: u32 where [libdasm_consts]: "AM_C = 0x00020000"
definition AM_D :: u32 where [libdasm_consts]: "AM_D = 0x00030000"
definition AM_E :: u32 where [libdasm_consts]: "AM_E = 0x00040000"
definition AM_G :: u32 where [libdasm_consts]: "AM_G = 0x00050000"
definition AM_I :: u32 where [libdasm_consts]: "AM_I = 0x00060000"
definition AM_J :: u32 where [libdasm_consts]: "AM_J = 0x00070000"
definition AM_M :: u32 where [libdasm_consts]: "AM_M = 0x00080000"
definition AM_O :: u32 where [libdasm_consts]: "AM_O = 0x00090000"
definition AM_P :: u32 where [libdasm_consts]: "AM_P = 0x000a0000"
definition AM_Q :: u32 where [libdasm_consts]: "AM_Q = 0x000b0000"
definition AM_R :: u32 where [libdasm_consts]: "AM_R = 0x000c0000"
definition AM_S :: u32 where [libdasm_consts]: "AM_S = 0x000d0000"
definition AM_T :: u32 where [libdasm_consts]: "AM_T = 0x000e0000"
definition AM_V :: u32 where [libdasm_consts]: "AM_V = 0x000f0000"
definition AM_W :: u32 where [libdasm_consts]: "AM_W = 0x00100000"
definition AM_I1 :: u32 where [libdasm_consts]: "AM_I1 = 0x00200000"
definition AM_LIBDASM_REG :: u32 where [libdasm_consts]: "AM_LIBDASM_REG = 0x00210000"
definition AM_IND :: u32 where [libdasm_consts]: "AM_IND = 0x00220000"
definition OT_a :: u32 where [libdasm_consts]: "OT_a = 0x01000000"
definition OT_b :: u32 where [libdasm_consts]: "OT_b = 0x02000000"
definition OT_c :: u32 where [libdasm_consts]: "OT_c = 0x03000000"
definition OT_d :: u32 where [libdasm_consts]: "OT_d = 0x04000000"
definition OT_q :: u32 where [libdasm_consts]: "OT_q = 0x05000000"
definition OT_dq :: u32 where [libdasm_consts]: "OT_dq = 0x06000000"
definition OT_v :: u32 where [libdasm_consts]: "OT_v = 0x07000000"
definition OT_w :: u32 where [libdasm_consts]: "OT_w = 0x08000000"
definition OT_p :: u32 where [libdasm_consts]: "OT_p = 0x09000000"
definition OT_pi :: u32 where [libdasm_consts]: "OT_pi = 0x0a000000"
definition OT_pd :: u32 where [libdasm_consts]: "OT_pd = 0x0b000000"
definition OT_ps :: u32 where [libdasm_consts]: "OT_ps = 0x0c000000"
definition OT_s :: u32 where [libdasm_consts]: "OT_s = 0x0d000000"
definition OT_sd :: u32 where [libdasm_consts]: "OT_sd = 0x0e000000"
definition OT_ss :: u32 where [libdasm_consts]: "OT_ss = 0x0f000000"
definition OT_si :: u32 where [libdasm_consts]: "OT_si = 0x10000000"
definition OT_t :: u32 where [libdasm_consts]: "OT_t = 0x11000000"
definition P_r :: u32 where [libdasm_consts]: "P_r = 0x00004000"
definition P_w :: u32 where [libdasm_consts]: "P_w = 0x00002000"
definition P_x :: u32 where [libdasm_consts]: "P_x = 0x00001000"
definition F_s :: u32 where [libdasm_consts]: "F_s = 0x00000100"
definition F_r :: u32 where [libdasm_consts]: "F_r = 0x00000200"
definition F_f :: u32 where [libdasm_consts]: "F_f = 0x00000400"
definition FLAGS_NONE :: u32 where [libdasm_consts]: "FLAGS_NONE = 0"

subsection \<open>Eflags and implied operands\<close>

definition EFL_CF :: u16 where [libdasm_consts]: "EFL_CF = 1"
definition EFL_PF :: u16 where [libdasm_consts]: "EFL_PF = 4"
definition EFL_AF :: u16 where [libdasm_consts]: "EFL_AF = 16"
definition EFL_ZF :: u16 where [libdasm_consts]: "EFL_ZF = 64"
definition EFL_SF :: u16 where [libdasm_consts]: "EFL_SF = 128"
definition EFL_IF :: u16 where [libdasm_consts]: "EFL_IF = 512"
definition EFL_DF :: u16 where [libdasm_consts]: "EFL_DF = 1024"
definition EFL_OF :: u16 where [libdasm_consts]: "EFL_OF = 2048"
definition EFL_MATH :: u16 where [libdasm_consts]:
  "EFL_MATH = EFL_OF OR EFL_SF OR EFL_ZF OR EFL_AF OR EFL_PF OR EFL_CF"
definition EFL_BITWISE :: u16 where [libdasm_consts]:
  "EFL_BITWISE = EFL_OF OR EFL_CF OR EFL_SF OR EFL_ZF OR EFL_PF"
definition EFL_ALL_COMMON :: u16 where [libdasm_consts]:
  "EFL_ALL_COMMON = EFL_CF OR EFL_OF OR EFL_SF OR EFL_ZF OR EFL_AF OR EFL_PF"

definition IOP_EAX :: u32 where [libdasm_consts]: "IOP_EAX = 1"
definition IOP_ECX :: u32 where [libdasm_consts]: "IOP_ECX = 2"
definition IOP_EDX :: u32 where [libdasm_consts]: "IOP_EDX = 4"
definition IOP_EBX :: u32 where [libdasm_consts]: "IOP_EBX = 8"
definition IOP_ESP :: u32 where [libdasm_consts]: "IOP_ESP = 16"
definition IOP_EBP :: u32 where [libdasm_consts]: "IOP_EBP = 32"
definition IOP_ESI :: u32 where [libdasm_consts]: "IOP_ESI = 64"
definition IOP_EDI :: u32 where [libdasm_consts]: "IOP_EDI = 128"
definition IOP_ALL :: u32 where [libdasm_consts]:
  "IOP_ALL = IOP_EAX OR IOP_ECX OR IOP_EDX OR IOP_ESP OR IOP_EBP OR IOP_ESI OR IOP_EDI"

subsection \<open>Field extraction\<close>

definition MASK_PREFIX_G1 :: "u32 \<Rightarrow> u32" where "MASK_PREFIX_G1 x = drop_bit 24 (x AND 0xff000000)"
definition MASK_PREFIX_G2 :: "u32 \<Rightarrow> u32" where "MASK_PREFIX_G2 x = drop_bit 16 (x AND 0x00ff0000)"
definition MASK_PREFIX_OPERAND :: "u32 \<Rightarrow> u32" where "MASK_PREFIX_OPERAND x = drop_bit 8 (x AND 0x00000f00)"
definition MASK_PREFIX_ADDR :: "u32 \<Rightarrow> u32" where "MASK_PREFIX_ADDR x = drop_bit 12 (x AND 0x0000f000)"
definition MASK_EXT :: "u32 \<Rightarrow> u32" where "MASK_EXT x = x AND 0x000000ff"
definition MASK_TYPE_FLAGS :: "u32 \<Rightarrow> u32" where "MASK_TYPE_FLAGS x = x AND 0xff000000"
definition MASK_TYPE_VALUE :: "u32 \<Rightarrow> u32" where "MASK_TYPE_VALUE x = x AND 0x00ffffff"
definition MASK_AM :: "u32 \<Rightarrow> u32" where "MASK_AM x = x AND 0x00ff0000"
definition MASK_OT :: "u32 \<Rightarrow> u32" where "MASK_OT x = x AND 0xff000000"
definition MASK_FLAGS :: "u32 \<Rightarrow> u32" where "MASK_FLAGS x = x AND 0x00000f00"
definition MASK_LIBDASM_REG :: "u32 \<Rightarrow> nat" where "MASK_LIBDASM_REG x = unat (x AND 0x0000000f)"
definition MASK_MODRM_MOD :: "u8 \<Rightarrow> nat" where "MASK_MODRM_MOD x = unat (drop_bit 6 (x AND 0xc0))"
definition MASK_MODRM_LIBDASM_REG :: "u8 \<Rightarrow> nat" where "MASK_MODRM_LIBDASM_REG x = unat (drop_bit 3 (x AND 0x38))"
definition MASK_MODRM_RM :: "u8 \<Rightarrow> nat" where "MASK_MODRM_RM x = unat (x AND 0x7)"
definition MASK_SIB_SCALE :: "u8 \<Rightarrow> nat" where "MASK_SIB_SCALE x = MASK_MODRM_MOD x"
definition MASK_SIB_INDEX :: "u8 \<Rightarrow> nat" where "MASK_SIB_INDEX x = MASK_MODRM_LIBDASM_REG x"
definition MASK_SIB_BASE :: "u8 \<Rightarrow> nat" where "MASK_SIB_BASE x = MASK_MODRM_RM x"

lemmas mask_defs = MASK_PREFIX_G1_def MASK_PREFIX_G2_def MASK_PREFIX_OPERAND_def
  MASK_PREFIX_ADDR_def MASK_EXT_def MASK_TYPE_FLAGS_def MASK_TYPE_VALUE_def MASK_AM_def MASK_OT_def MASK_FLAGS_def MASK_LIBDASM_REG_def
  MASK_MODRM_MOD_def MASK_MODRM_LIBDASM_REG_def MASK_MODRM_RM_def
  MASK_SIB_SCALE_def MASK_SIB_INDEX_def MASK_SIB_BASE_def

subsection \<open>Structures\<close>

datatype INST = INST
  (inst_type: u32)
  (mnemonic: "string option")
  (flags1: u32)
  (flags2: u32)
  (flags3: u32)
  (inst_modrm: bool)
  (inst_eflags_affected: u16)
  (inst_eflags_used: u16)
  (inst_iop_written: u32)
  (inst_iop_read: u32)

text \<open>The rows without a mnemonic: \<open>{ type, NULL, FLAGS_NONE, FLAGS_NONE, FLAGS_NONE, 0, 0, 0, 0, 0 }\<close>.\<close>

definition NO_INST :: "InstructionType \<Rightarrow> INST" where [libdasm_tables]:
  "NO_INST t = INST t None FLAGS_NONE FLAGS_NONE FLAGS_NONE False 0 0 0 0"

record OPERAND =
  op_type :: Operand
  reg :: nat
  basereg :: nat
  indexreg :: nat
  op_scale :: nat
  op_dispbytes :: nat
  dispoffset :: nat
  op_immbytes :: nat
  immoffset :: nat
  section_val :: u16
  displacement :: u32
  immediate :: u32
  op_flags :: u32

record INSTRUCTION =
  ilength :: nat
  itype :: InstructionType
  imode :: Mode
  opcode :: u8
  modrm :: u8
  sib :: u8
  modrm_offset :: nat
  extindex :: nat
  fpuindex :: nat
  dispbytes :: nat
  immbytes :: nat
  sectionbytes :: nat
  op1 :: OPERAND
  op2 :: OPERAND
  op3 :: OPERAND
  ptr :: "INST option"
  iflags :: u32
  eflags_affected :: u16
  eflags_used :: u16
  iop_written :: u32
  iop_read :: u32

text \<open>
  The values \<open>memset(inst, 0, sizeof(INSTRUCTION))\<close> leaves: every number 0 (an enumeration its first
  constant). (The field \<open>sectionbytes\<close> of an operand is never read or written.)
\<close>

definition zero_OPERAND :: OPERAND where
  "zero_OPERAND = \<lparr>op_type = OPERAND_TYPE_NONE, reg = 0, basereg = 0, indexreg = 0, op_scale = 0,
     op_dispbytes = 0, dispoffset = 0, op_immbytes = 0, immoffset = 0, section_val = 0,
     displacement = 0, immediate = 0, op_flags = 0\<rparr>"

definition zero_INSTRUCTION :: INSTRUCTION where
  "zero_INSTRUCTION = \<lparr>ilength = 0, itype = 0, imode = MODE_32, opcode = 0,
     modrm = 0, sib = 0, modrm_offset = 0, extindex = 0, fpuindex = 0, dispbytes = 0, immbytes = 0,
     sectionbytes = 0, op1 = zero_OPERAND, op2 = zero_OPERAND, op3 = zero_OPERAND, ptr = None,
     iflags = 0, eflags_affected = 0, eflags_used = 0, iop_written = 0, iop_read = 0\<rparr>"

text \<open>A decoder call fails on a byte it cannot read, on an opcode it rejects (the code returns 0),
  or, as the model makes checkable, on a table index out of range or a null table pointer.\<close>

datatype dasm_error = ReadFault | IllegalInstruction | TableOverrun | NullDereference

lemma MASK_MODRM_MOD_less: "MASK_MODRM_MOD b < 4"
proof -
  have "MASK_MODRM_MOD b = unat (b AND 0xc0) div 64"
    by (simp only: MASK_MODRM_MOD_def unat_drop_bit_eq drop_bit_nat_def) simp
  moreover have "unat (b AND 0xc0) \<le> 0xc0"
    using word_and_le1 [of b "0xc0"] by (simp add: word_le_nat_alt)
  ultimately show ?thesis by simp
qed

lemma MASK_MODRM_REG_less: "MASK_MODRM_LIBDASM_REG b < 8"
proof -
  have "MASK_MODRM_LIBDASM_REG b = unat (b AND 0x38) div 8"
    by (simp only: MASK_MODRM_LIBDASM_REG_def unat_drop_bit_eq drop_bit_nat_def) simp
  moreover have "unat (b AND 0x38) \<le> 0x38"
    using word_and_le1 [of b "0x38"] by (simp add: word_le_nat_alt)
  ultimately show ?thesis by simp
qed

lemma MASK_MODRM_RM_less: "MASK_MODRM_RM b < 8"
  using word_and_le1 [of b "7"] by (simp add: MASK_MODRM_RM_def word_le_nat_alt)

end
