(* ===== verification/Opcode_Table1.thy ===== *)
theory Opcode_Table1
  imports Libdasm_Base
begin

text \<open>
  The table \<open>inst_table1\<close> of one-byte opcodes of \<^verbatim>\<open>libdasm/opcode_tables.h\<close>, row by row, the fields in the order of
  the C initialisers. A row with a field missing there has 0, as C gives it.
\<close>

definition inst_table1_lo :: "INST list" where [libdasm_tables]:
  "inst_table1_lo = [
    INST INSTRUCTION_TYPE_ADD (Some ''add'') (AM_E OR OT_b OR P_w) (AM_G OR OT_b OR P_r) FLAGS_NONE True EFL_MATH 0 0 0,
    INST INSTRUCTION_TYPE_ADD (Some ''add'') (AM_E OR OT_v OR P_w) (AM_G OR OT_v OR P_r) FLAGS_NONE True EFL_MATH 0 0 0,
    INST INSTRUCTION_TYPE_ADD (Some ''add'') (AM_G OR OT_b OR P_w) (AM_E OR OT_b OR P_r) FLAGS_NONE True EFL_MATH 0 0 0,
    INST INSTRUCTION_TYPE_ADD (Some ''add'') (AM_G OR OT_v OR P_w) (AM_E OR OT_v OR P_r) FLAGS_NONE True EFL_MATH 0 0 0,
    INST INSTRUCTION_TYPE_ADD (Some ''add'') (AM_LIBDASM_REG OR LIBDASM_REG_EAX OR OT_b OR P_w) (AM_I OR OT_b OR P_r) FLAGS_NONE False EFL_MATH 0 0 0,
    INST INSTRUCTION_TYPE_ADD (Some ''add'') (AM_LIBDASM_REG OR LIBDASM_REG_EAX OR OT_v OR P_w) (AM_I OR OT_v OR P_r) FLAGS_NONE False EFL_MATH 0 0 0,
    INST INSTRUCTION_TYPE_PUSH (Some ''push'') (AM_LIBDASM_REG OR LIBDASM_REG_ES OR F_r OR P_r) FLAGS_NONE FLAGS_NONE False 0 0 IOP_ESP IOP_ESP,
    INST INSTRUCTION_TYPE_POP (Some ''pop'') (AM_LIBDASM_REG OR LIBDASM_REG_ES OR F_r OR P_w) FLAGS_NONE FLAGS_NONE False 0 0 IOP_ESP IOP_ESP,
    INST INSTRUCTION_TYPE_OR (Some ''or'') (AM_E OR OT_b OR P_w) (AM_G OR OT_b OR P_r) FLAGS_NONE True EFL_BITWISE 0 0 0,
    INST INSTRUCTION_TYPE_OR (Some ''or'') (AM_E OR OT_v OR P_w) (AM_G OR OT_v OR P_r) FLAGS_NONE True EFL_BITWISE 0 0 0,
    INST INSTRUCTION_TYPE_OR (Some ''or'') (AM_G OR OT_b OR P_w) (AM_E OR OT_b OR P_r) FLAGS_NONE True EFL_BITWISE 0 0 0,
    INST INSTRUCTION_TYPE_OR (Some ''or'') (AM_G OR OT_v OR P_w) (AM_E OR OT_v OR P_r) FLAGS_NONE True EFL_BITWISE 0 0 0,
    INST INSTRUCTION_TYPE_OR (Some ''or'') (AM_LIBDASM_REG OR LIBDASM_REG_EAX OR OT_b OR P_w) (AM_I OR OT_b OR P_r) FLAGS_NONE False EFL_BITWISE 0 0 0,
    INST INSTRUCTION_TYPE_OR (Some ''or'') (AM_LIBDASM_REG OR LIBDASM_REG_EAX OR OT_v OR P_w) (AM_I OR OT_v OR P_r) FLAGS_NONE False EFL_BITWISE 0 0 0,
    INST INSTRUCTION_TYPE_PUSH (Some ''push'') (AM_LIBDASM_REG OR LIBDASM_REG_CS OR F_r OR P_r) FLAGS_NONE FLAGS_NONE False 0 0 IOP_ESP IOP_ESP,
    NO_INST INSTRUCTION_TYPE_OTHER,
    INST INSTRUCTION_TYPE_ADC (Some ''adc'') (AM_E OR OT_b OR P_w) (AM_G OR OT_b OR P_r) FLAGS_NONE True EFL_MATH EFL_CF 0 0,
    INST INSTRUCTION_TYPE_ADC (Some ''adc'') (AM_E OR OT_v OR P_w) (AM_G OR OT_v OR P_r) FLAGS_NONE True EFL_MATH EFL_CF 0 0,
    INST INSTRUCTION_TYPE_ADC (Some ''adc'') (AM_G OR OT_b OR P_w) (AM_E OR OT_b OR P_r) FLAGS_NONE True EFL_MATH EFL_CF 0 0,
    INST INSTRUCTION_TYPE_ADC (Some ''adc'') (AM_G OR OT_v OR P_w) (AM_E OR OT_v OR P_r) FLAGS_NONE True EFL_MATH EFL_CF 0 0,
    INST INSTRUCTION_TYPE_ADC (Some ''adc'') (AM_LIBDASM_REG OR LIBDASM_REG_EAX OR OT_b OR P_w) (AM_I OR OT_b OR P_r) FLAGS_NONE False EFL_MATH EFL_CF 0 0,
    INST INSTRUCTION_TYPE_ADC (Some ''adc'') (AM_LIBDASM_REG OR LIBDASM_REG_EAX OR OT_v OR P_w) (AM_I OR OT_v OR P_r) FLAGS_NONE False EFL_MATH EFL_CF 0 0,
    INST INSTRUCTION_TYPE_PUSH (Some ''push'') (AM_LIBDASM_REG OR LIBDASM_REG_SS OR F_r OR P_r) FLAGS_NONE FLAGS_NONE False 0 0 IOP_ESP IOP_ESP,
    INST INSTRUCTION_TYPE_POP (Some ''pop'') (AM_LIBDASM_REG OR LIBDASM_REG_SS OR F_r OR P_w) FLAGS_NONE FLAGS_NONE False 0 0 IOP_ESP IOP_ESP,
    INST INSTRUCTION_TYPE_SBB (Some ''sbb'') (AM_E OR OT_b OR P_w) (AM_G OR OT_b OR P_r) FLAGS_NONE True EFL_MATH EFL_CF 0 0,
    INST INSTRUCTION_TYPE_SBB (Some ''sbb'') (AM_E OR OT_v OR P_w) (AM_G OR OT_v OR P_r) FLAGS_NONE True EFL_MATH EFL_CF 0 0,
    INST INSTRUCTION_TYPE_SBB (Some ''sbb'') (AM_G OR OT_b OR P_w) (AM_E OR OT_b OR P_r) FLAGS_NONE True EFL_MATH EFL_CF 0 0,
    INST INSTRUCTION_TYPE_SBB (Some ''sbb'') (AM_G OR OT_v OR P_w) (AM_E OR OT_v OR P_r) FLAGS_NONE True EFL_MATH EFL_CF 0 0,
    INST INSTRUCTION_TYPE_SBB (Some ''sbb'') (AM_LIBDASM_REG OR LIBDASM_REG_EAX OR OT_b OR P_w) (AM_I OR OT_b OR P_r) FLAGS_NONE False EFL_MATH EFL_CF 0 0,
    INST INSTRUCTION_TYPE_SBB (Some ''sbb'') (AM_LIBDASM_REG OR LIBDASM_REG_EAX OR OT_v OR P_w) (AM_I OR OT_v OR P_r) FLAGS_NONE False EFL_MATH EFL_CF 0 0,
    INST INSTRUCTION_TYPE_PUSH (Some ''push'') (AM_LIBDASM_REG OR LIBDASM_REG_DS OR F_r OR P_r) FLAGS_NONE FLAGS_NONE False 0 0 IOP_ESP IOP_ESP,
    INST INSTRUCTION_TYPE_POP (Some ''pop'') (AM_LIBDASM_REG OR LIBDASM_REG_DS OR F_r OR P_w) FLAGS_NONE FLAGS_NONE False 0 0 IOP_ESP IOP_ESP,
    INST INSTRUCTION_TYPE_AND (Some ''and'') (AM_E OR OT_b OR P_w) (AM_G OR OT_b OR P_r) FLAGS_NONE True EFL_BITWISE 0 0 0,
    INST INSTRUCTION_TYPE_AND (Some ''and'') (AM_E OR OT_v OR P_w) (AM_G OR OT_v OR P_r) FLAGS_NONE True EFL_BITWISE 0 0 0,
    INST INSTRUCTION_TYPE_AND (Some ''and'') (AM_G OR OT_b OR P_w) (AM_E OR OT_b OR P_r) FLAGS_NONE True EFL_BITWISE 0 0 0,
    INST INSTRUCTION_TYPE_AND (Some ''and'') (AM_G OR OT_v OR P_w) (AM_E OR OT_v OR P_r) FLAGS_NONE True EFL_BITWISE 0 0 0,
    INST INSTRUCTION_TYPE_AND (Some ''and'') (AM_LIBDASM_REG OR LIBDASM_REG_EAX OR OT_b OR P_w) (AM_I OR OT_b OR P_r) FLAGS_NONE False EFL_BITWISE 0 0 0,
    INST INSTRUCTION_TYPE_AND (Some ''and'') (AM_LIBDASM_REG OR LIBDASM_REG_EAX OR OT_v OR P_w) (AM_I OR OT_v OR P_r) FLAGS_NONE False EFL_BITWISE 0 0 0,
    NO_INST INSTRUCTION_TYPE_OTHER,
    INST INSTRUCTION_TYPE_DCL (Some ''daa'') FLAGS_NONE FLAGS_NONE FLAGS_NONE False (EFL_CF OR EFL_AF OR EFL_SF OR EFL_ZF OR EFL_PF) EFL_CF IOP_EAX IOP_EAX,
    INST INSTRUCTION_TYPE_SUB (Some ''sub'') (AM_E OR OT_b OR P_w) (AM_G OR OT_b OR P_r) FLAGS_NONE True EFL_MATH 0 0 0,
    INST INSTRUCTION_TYPE_SUB (Some ''sub'') (AM_E OR OT_v OR P_w) (AM_G OR OT_v OR P_r) FLAGS_NONE True EFL_MATH 0 0 0,
    INST INSTRUCTION_TYPE_SUB (Some ''sub'') (AM_G OR OT_b OR P_w) (AM_E OR OT_b OR P_r) FLAGS_NONE True EFL_MATH 0 0 0,
    INST INSTRUCTION_TYPE_SUB (Some ''sub'') (AM_G OR OT_v OR P_w) (AM_E OR OT_v OR P_r) FLAGS_NONE True EFL_MATH 0 0 0,
    INST INSTRUCTION_TYPE_SUB (Some ''sub'') (AM_LIBDASM_REG OR LIBDASM_REG_EAX OR OT_b OR P_w) (AM_I OR OT_b OR P_r) FLAGS_NONE False EFL_MATH 0 0 0,
    INST INSTRUCTION_TYPE_SUB (Some ''sub'') (AM_LIBDASM_REG OR LIBDASM_REG_EAX OR OT_v OR P_w) (AM_I OR OT_v OR P_r) FLAGS_NONE False EFL_MATH 0 0 0,
    NO_INST INSTRUCTION_TYPE_OTHER,
    INST INSTRUCTION_TYPE_DCL (Some ''das'') FLAGS_NONE FLAGS_NONE FLAGS_NONE False (EFL_CF OR EFL_AF OR EFL_SF OR EFL_ZF OR EFL_PF) EFL_CF IOP_EAX IOP_EAX,
    INST INSTRUCTION_TYPE_XOR (Some ''xor'') (AM_E OR OT_b OR P_w) (AM_G OR OT_b OR P_r) FLAGS_NONE True EFL_BITWISE 0 0 0,
    INST INSTRUCTION_TYPE_XOR (Some ''xor'') (AM_E OR OT_v OR P_w) (AM_G OR OT_v OR P_r) FLAGS_NONE True EFL_BITWISE 0 0 0,
    INST INSTRUCTION_TYPE_XOR (Some ''xor'') (AM_G OR OT_b OR P_w) (AM_E OR OT_b OR P_r) FLAGS_NONE True EFL_BITWISE 0 0 0,
    INST INSTRUCTION_TYPE_XOR (Some ''xor'') (AM_G OR OT_v OR P_w) (AM_E OR OT_v OR P_r) FLAGS_NONE True EFL_BITWISE 0 0 0,
    INST INSTRUCTION_TYPE_XOR (Some ''xor'') (AM_LIBDASM_REG OR LIBDASM_REG_EAX OR OT_b OR P_w) (AM_I OR OT_b OR P_r) FLAGS_NONE False EFL_BITWISE 0 0 0,
    INST INSTRUCTION_TYPE_XOR (Some ''xor'') (AM_LIBDASM_REG OR LIBDASM_REG_EAX OR OT_v OR P_w) (AM_I OR OT_v OR P_r) FLAGS_NONE False EFL_BITWISE 0 0 0,
    NO_INST INSTRUCTION_TYPE_OTHER,
    INST INSTRUCTION_TYPE_ASC (Some ''aaa'') FLAGS_NONE FLAGS_NONE FLAGS_NONE False (EFL_AF OR EFL_CF) 0 IOP_EAX IOP_EAX,
    INST INSTRUCTION_TYPE_CMP (Some ''cmp'') (AM_E OR OT_b OR P_r) (AM_G OR OT_b OR P_r) FLAGS_NONE True EFL_ALL_COMMON 0 0 0,
    INST INSTRUCTION_TYPE_CMP (Some ''cmp'') (AM_E OR OT_v OR P_r) (AM_G OR OT_v OR P_r) FLAGS_NONE True EFL_ALL_COMMON 0 0 0,
    INST INSTRUCTION_TYPE_CMP (Some ''cmp'') (AM_G OR OT_b OR P_r) (AM_E OR OT_b OR P_r) FLAGS_NONE True EFL_ALL_COMMON 0 0 0,
    INST INSTRUCTION_TYPE_CMP (Some ''cmp'') (AM_G OR OT_v OR P_r) (AM_E OR OT_v OR P_r) FLAGS_NONE True EFL_ALL_COMMON 0 0 0,
    INST INSTRUCTION_TYPE_CMP (Some ''cmp'') (AM_LIBDASM_REG OR LIBDASM_REG_EAX OR OT_b OR P_r) (AM_I OR OT_b OR P_r) FLAGS_NONE False EFL_ALL_COMMON 0 0 0,
    INST INSTRUCTION_TYPE_CMP (Some ''cmp'') (AM_LIBDASM_REG OR LIBDASM_REG_EAX OR OT_v OR P_r) (AM_I OR OT_v OR P_r) FLAGS_NONE False EFL_ALL_COMMON 0 0 0,
    NO_INST INSTRUCTION_TYPE_OTHER,
    INST INSTRUCTION_TYPE_ASC (Some ''aas'') FLAGS_NONE FLAGS_NONE FLAGS_NONE False (EFL_AF OR EFL_CF) 0 IOP_EAX IOP_EAX,
    INST INSTRUCTION_TYPE_INC (Some ''inc'') (AM_LIBDASM_REG OR LIBDASM_REG_EAX OR OT_v OR P_r) FLAGS_NONE FLAGS_NONE False (EFL_OF OR EFL_SF OR EFL_ZF OR EFL_AF OR EFL_PF) 0 0 0,
    INST INSTRUCTION_TYPE_INC (Some ''inc'') (AM_LIBDASM_REG OR LIBDASM_REG_ECX OR OT_v OR P_r) FLAGS_NONE FLAGS_NONE False (EFL_OF OR EFL_SF OR EFL_ZF OR EFL_AF OR EFL_PF) 0 0 0,
    INST INSTRUCTION_TYPE_INC (Some ''inc'') (AM_LIBDASM_REG OR LIBDASM_REG_EDX OR OT_v OR P_r) FLAGS_NONE FLAGS_NONE False (EFL_OF OR EFL_SF OR EFL_ZF OR EFL_AF OR EFL_PF) 0 0 0,
    INST INSTRUCTION_TYPE_INC (Some ''inc'') (AM_LIBDASM_REG OR LIBDASM_REG_EBX OR OT_v OR P_r) FLAGS_NONE FLAGS_NONE False (EFL_OF OR EFL_SF OR EFL_ZF OR EFL_AF OR EFL_PF) 0 0 0,
    INST INSTRUCTION_TYPE_INC (Some ''inc'') (AM_LIBDASM_REG OR LIBDASM_REG_ESP OR OT_v OR P_r) FLAGS_NONE FLAGS_NONE False (EFL_OF OR EFL_SF OR EFL_ZF OR EFL_AF OR EFL_PF) 0 0 0,
    INST INSTRUCTION_TYPE_INC (Some ''inc'') (AM_LIBDASM_REG OR LIBDASM_REG_EBP OR OT_v OR P_r) FLAGS_NONE FLAGS_NONE False (EFL_OF OR EFL_SF OR EFL_ZF OR EFL_AF OR EFL_PF) 0 0 0,
    INST INSTRUCTION_TYPE_INC (Some ''inc'') (AM_LIBDASM_REG OR LIBDASM_REG_ESI OR OT_v OR P_r) FLAGS_NONE FLAGS_NONE False (EFL_OF OR EFL_SF OR EFL_ZF OR EFL_AF OR EFL_PF) 0 0 0,
    INST INSTRUCTION_TYPE_INC (Some ''inc'') (AM_LIBDASM_REG OR LIBDASM_REG_EDI OR OT_v OR P_r) FLAGS_NONE FLAGS_NONE False (EFL_OF OR EFL_SF OR EFL_ZF OR EFL_AF OR EFL_PF) 0 0 0,
    INST INSTRUCTION_TYPE_DEC (Some ''dec'') (AM_LIBDASM_REG OR LIBDASM_REG_EAX OR OT_v) FLAGS_NONE FLAGS_NONE False (EFL_OF OR EFL_SF OR EFL_ZF OR EFL_AF OR EFL_PF) 0 0 0,
    INST INSTRUCTION_TYPE_DEC (Some ''dec'') (AM_LIBDASM_REG OR LIBDASM_REG_ECX OR OT_v) FLAGS_NONE FLAGS_NONE False (EFL_OF OR EFL_SF OR EFL_ZF OR EFL_AF OR EFL_PF) 0 0 0,
    INST INSTRUCTION_TYPE_DEC (Some ''dec'') (AM_LIBDASM_REG OR LIBDASM_REG_EDX OR OT_v) FLAGS_NONE FLAGS_NONE False (EFL_OF OR EFL_SF OR EFL_ZF OR EFL_AF OR EFL_PF) 0 0 0,
    INST INSTRUCTION_TYPE_DEC (Some ''dec'') (AM_LIBDASM_REG OR LIBDASM_REG_EBX OR OT_v) FLAGS_NONE FLAGS_NONE False (EFL_OF OR EFL_SF OR EFL_ZF OR EFL_AF OR EFL_PF) 0 0 0,
    INST INSTRUCTION_TYPE_DEC (Some ''dec'') (AM_LIBDASM_REG OR LIBDASM_REG_ESP OR OT_v) FLAGS_NONE FLAGS_NONE False (EFL_OF OR EFL_SF OR EFL_ZF OR EFL_AF OR EFL_PF) 0 0 0,
    INST INSTRUCTION_TYPE_DEC (Some ''dec'') (AM_LIBDASM_REG OR LIBDASM_REG_EBP OR OT_v) FLAGS_NONE FLAGS_NONE False (EFL_OF OR EFL_SF OR EFL_ZF OR EFL_AF OR EFL_PF) 0 0 0,
    INST INSTRUCTION_TYPE_DEC (Some ''dec'') (AM_LIBDASM_REG OR LIBDASM_REG_ESI OR OT_v) FLAGS_NONE FLAGS_NONE False (EFL_OF OR EFL_SF OR EFL_ZF OR EFL_AF OR EFL_PF) 0 0 0,
    INST INSTRUCTION_TYPE_DEC (Some ''dec'') (AM_LIBDASM_REG OR LIBDASM_REG_EDI OR OT_v) FLAGS_NONE FLAGS_NONE False (EFL_OF OR EFL_SF OR EFL_ZF OR EFL_AF OR EFL_PF) 0 0 0,
    INST INSTRUCTION_TYPE_PUSH (Some ''push'') (AM_LIBDASM_REG OR LIBDASM_REG_EAX OR OT_v OR P_r) FLAGS_NONE FLAGS_NONE False 0 0 IOP_ESP IOP_ESP,
    INST INSTRUCTION_TYPE_PUSH (Some ''push'') (AM_LIBDASM_REG OR LIBDASM_REG_ECX OR OT_v OR P_r) FLAGS_NONE FLAGS_NONE False 0 0 IOP_ESP IOP_ESP,
    INST INSTRUCTION_TYPE_PUSH (Some ''push'') (AM_LIBDASM_REG OR LIBDASM_REG_EDX OR OT_v OR P_r) FLAGS_NONE FLAGS_NONE False 0 0 IOP_ESP IOP_ESP,
    INST INSTRUCTION_TYPE_PUSH (Some ''push'') (AM_LIBDASM_REG OR LIBDASM_REG_EBX OR OT_v OR P_r) FLAGS_NONE FLAGS_NONE False 0 0 IOP_ESP IOP_ESP,
    INST INSTRUCTION_TYPE_PUSH (Some ''push'') (AM_LIBDASM_REG OR LIBDASM_REG_ESP OR OT_v OR P_r) FLAGS_NONE FLAGS_NONE False 0 0 IOP_ESP IOP_ESP,
    INST INSTRUCTION_TYPE_PUSH (Some ''push'') (AM_LIBDASM_REG OR LIBDASM_REG_EBP OR OT_v OR P_r) FLAGS_NONE FLAGS_NONE False 0 0 IOP_ESP IOP_ESP,
    INST INSTRUCTION_TYPE_PUSH (Some ''push'') (AM_LIBDASM_REG OR LIBDASM_REG_ESI OR OT_v OR P_r) FLAGS_NONE FLAGS_NONE False 0 0 IOP_ESP IOP_ESP,
    INST INSTRUCTION_TYPE_PUSH (Some ''push'') (AM_LIBDASM_REG OR LIBDASM_REG_EDI OR OT_v OR P_r) FLAGS_NONE FLAGS_NONE False 0 0 IOP_ESP IOP_ESP,
    INST INSTRUCTION_TYPE_POP (Some ''pop'') (AM_LIBDASM_REG OR LIBDASM_REG_EAX OR OT_v OR P_w) FLAGS_NONE FLAGS_NONE False 0 0 IOP_ESP IOP_ESP,
    INST INSTRUCTION_TYPE_POP (Some ''pop'') (AM_LIBDASM_REG OR LIBDASM_REG_ECX OR OT_v OR P_w) FLAGS_NONE FLAGS_NONE False 0 0 IOP_ESP IOP_ESP,
    INST INSTRUCTION_TYPE_POP (Some ''pop'') (AM_LIBDASM_REG OR LIBDASM_REG_EDX OR OT_v OR P_w) FLAGS_NONE FLAGS_NONE False 0 0 IOP_ESP IOP_ESP,
    INST INSTRUCTION_TYPE_POP (Some ''pop'') (AM_LIBDASM_REG OR LIBDASM_REG_EBX OR OT_v OR P_w) FLAGS_NONE FLAGS_NONE False 0 0 IOP_ESP IOP_ESP,
    INST INSTRUCTION_TYPE_POP (Some ''pop'') (AM_LIBDASM_REG OR LIBDASM_REG_ESP OR OT_v OR P_w) FLAGS_NONE FLAGS_NONE False 0 0 IOP_ESP IOP_ESP,
    INST INSTRUCTION_TYPE_POP (Some ''pop'') (AM_LIBDASM_REG OR LIBDASM_REG_EBP OR OT_v OR P_w) FLAGS_NONE FLAGS_NONE False 0 0 IOP_ESP IOP_ESP,
    INST INSTRUCTION_TYPE_POP (Some ''pop'') (AM_LIBDASM_REG OR LIBDASM_REG_ESI OR OT_v OR P_w) FLAGS_NONE FLAGS_NONE False 0 0 IOP_ESP IOP_ESP,
    INST INSTRUCTION_TYPE_POP (Some ''pop'') (AM_LIBDASM_REG OR LIBDASM_REG_EDI OR OT_v OR P_w) FLAGS_NONE FLAGS_NONE False 0 0 IOP_ESP IOP_ESP,
    INST INSTRUCTION_TYPE_PUSH (Some ''pusha'') (FLAGS_NONE OR P_r) FLAGS_NONE FLAGS_NONE False 0 0 IOP_ESP IOP_ALL,
    INST INSTRUCTION_TYPE_POP (Some ''popa'') (FLAGS_NONE OR P_w) FLAGS_NONE FLAGS_NONE False 0 0 IOP_ALL IOP_ESP,
    INST INSTRUCTION_TYPE_OTHER (Some ''bound'') (AM_G OR OT_v OR P_r) (AM_M OR OT_v OR P_r) FLAGS_NONE True 0 0 0 0,
    INST INSTRUCTION_TYPE_PRIV (Some ''arpl'') (AM_E OR OT_w OR P_r) (AM_G OR OT_w OR P_r) FLAGS_NONE True EFL_ZF 0 0 0,
    NO_INST INSTRUCTION_TYPE_OTHER,
    NO_INST INSTRUCTION_TYPE_OTHER,
    NO_INST INSTRUCTION_TYPE_OTHER,
    NO_INST INSTRUCTION_TYPE_OTHER,
    INST INSTRUCTION_TYPE_PUSH (Some ''push'') (AM_I OR OT_v OR P_r) FLAGS_NONE FLAGS_NONE False 0 0 IOP_ESP IOP_ESP,
    INST INSTRUCTION_TYPE_EIMUL (Some ''imul'') (AM_G OR OT_v OR P_r) (AM_E OR OT_v OR P_r) (AM_I OR OT_v OR P_r) True (EFL_CF OR EFL_OF) 0 0 0,
    INST INSTRUCTION_TYPE_PUSH (Some ''push'') (AM_I OR OT_b OR F_s OR P_r) FLAGS_NONE FLAGS_NONE False 0 0 IOP_ESP IOP_ESP,
    INST INSTRUCTION_TYPE_EIMUL (Some ''imul'') (AM_G OR OT_v OR P_r) (AM_E OR OT_v OR P_r) (AM_I OR OT_b OR F_s OR P_r) True (EFL_CF OR EFL_OF) 0 0 0,
    INST INSTRUCTION_TYPE_PRIV (Some ''insb'') (FLAGS_NONE OR P_w) (FLAGS_NONE OR P_r) FLAGS_NONE False 0 0 IOP_EDI (IOP_EDX OR IOP_EDI),
    INST INSTRUCTION_TYPE_PRIV (Some ''insv'') (FLAGS_NONE OR P_w) (FLAGS_NONE OR P_r) FLAGS_NONE False 0 0 IOP_EDI (IOP_EDX OR IOP_EDI),
    INST INSTRUCTION_TYPE_PRIV (Some ''outsb'') (FLAGS_NONE OR P_w) (FLAGS_NONE OR P_r) FLAGS_NONE False 0 0 IOP_ESI (IOP_EDX OR IOP_ESI),
    INST INSTRUCTION_TYPE_PRIV (Some ''outsv'') (FLAGS_NONE OR P_w) (FLAGS_NONE OR P_r) FLAGS_NONE False 0 0 IOP_ESI (IOP_EDX OR IOP_ESI),
    INST INSTRUCTION_TYPE_JMPC (Some ''jo'') (AM_J OR OT_b OR P_x) FLAGS_NONE FLAGS_NONE False 0 EFL_OF 0 0,
    INST INSTRUCTION_TYPE_JMPC (Some ''jno'') (AM_J OR OT_b OR P_x) FLAGS_NONE FLAGS_NONE False 0 EFL_OF 0 0,
    INST INSTRUCTION_TYPE_JMPC (Some ''jc'') (AM_J OR OT_b OR P_x) FLAGS_NONE FLAGS_NONE False 0 EFL_CF 0 0,
    INST INSTRUCTION_TYPE_JMPC (Some ''jnc'') (AM_J OR OT_b OR P_x) FLAGS_NONE FLAGS_NONE False 0 EFL_CF 0 0,
    INST INSTRUCTION_TYPE_JMPC (Some ''jz'') (AM_J OR OT_b OR P_x) FLAGS_NONE FLAGS_NONE False 0 EFL_ZF 0 0,
    INST INSTRUCTION_TYPE_JMPC (Some ''jnz'') (AM_J OR OT_b OR P_x) FLAGS_NONE FLAGS_NONE False 0 EFL_ZF 0 0,
    INST INSTRUCTION_TYPE_JMPC (Some ''jna'') (AM_J OR OT_b OR P_x) FLAGS_NONE FLAGS_NONE False 0 (EFL_ZF OR EFL_CF) 0 0,
    INST INSTRUCTION_TYPE_JMPC (Some ''ja'') (AM_J OR OT_b OR P_x) FLAGS_NONE FLAGS_NONE False 0 (EFL_ZF OR EFL_CF) 0 0,
    INST INSTRUCTION_TYPE_JMPC (Some ''js'') (AM_J OR OT_b OR P_x) FLAGS_NONE FLAGS_NONE False 0 EFL_SF 0 0,
    INST INSTRUCTION_TYPE_JMPC (Some ''jns'') (AM_J OR OT_b OR P_x) FLAGS_NONE FLAGS_NONE False 0 EFL_SF 0 0,
    INST INSTRUCTION_TYPE_JMPC (Some ''jp'') (AM_J OR OT_b OR P_x) FLAGS_NONE FLAGS_NONE False 0 EFL_PF 0 0,
    INST INSTRUCTION_TYPE_JMPC (Some ''jpo'') (AM_J OR OT_b OR P_x) FLAGS_NONE FLAGS_NONE False 0 EFL_PF 0 0,
    INST INSTRUCTION_TYPE_JMPC (Some ''jl'') (AM_J OR OT_b OR P_x) FLAGS_NONE FLAGS_NONE False 0 (EFL_SF OR EFL_OF) 0 0,
    INST INSTRUCTION_TYPE_JMPC (Some ''jnl'') (AM_J OR OT_b OR P_x) FLAGS_NONE FLAGS_NONE False 0 (EFL_SF OR EFL_OF) 0 0,
    INST INSTRUCTION_TYPE_JMPC (Some ''jng'') (AM_J OR OT_b OR P_x) FLAGS_NONE FLAGS_NONE False 0 (EFL_SF OR EFL_OF OR EFL_ZF) 0 0,
    INST INSTRUCTION_TYPE_JMPC (Some ''jg'') (AM_J OR OT_b OR P_x) FLAGS_NONE FLAGS_NONE False 0 (EFL_SF OR EFL_OF OR EFL_ZF) 0 0
  ]"

definition inst_table1_hi :: "INST list" where [libdasm_tables]:
  "inst_table1_hi = [
    INST INSTRUCTION_TYPE_OTHER (Some ''g1'') (AM_E OR OT_b) (AM_I OR OT_b) FLAGS_NONE True 0 0 0 0,
    INST INSTRUCTION_TYPE_OTHER (Some ''g1'') (AM_E OR OT_v) (AM_I OR OT_v) FLAGS_NONE True 0 0 0 0,
    INST INSTRUCTION_TYPE_OTHER (Some ''g1'') (AM_E OR OT_b) (AM_I OR OT_b) FLAGS_NONE True 0 0 0 0,
    INST INSTRUCTION_TYPE_OTHER (Some ''g1'') (AM_E OR OT_v) (AM_I OR OT_b OR F_s) FLAGS_NONE True 0 0 0 0,
    INST INSTRUCTION_TYPE_TEST (Some ''test'') (AM_E OR OT_b OR P_r) (AM_G OR OT_b OR P_r) FLAGS_NONE True (EFL_OF OR EFL_CF OR EFL_SF OR EFL_ZF OR EFL_PF) 0 0 0,
    INST INSTRUCTION_TYPE_TEST (Some ''test'') (AM_E OR OT_v OR P_r) (AM_G OR OT_v OR P_r) FLAGS_NONE True (EFL_OF OR EFL_CF OR EFL_SF OR EFL_ZF OR EFL_PF) 0 0 0,
    INST INSTRUCTION_TYPE_XCHG (Some ''xchg'') (AM_E OR OT_b OR P_w) (AM_G OR OT_b OR P_w) FLAGS_NONE True 0 0 0 0,
    INST INSTRUCTION_TYPE_XCHG (Some ''xchg'') (AM_E OR OT_v OR P_w) (AM_G OR OT_v OR P_w) FLAGS_NONE True 0 0 0 0,
    INST INSTRUCTION_TYPE_MOV (Some ''mov'') (AM_E OR OT_b OR P_w) (AM_G OR OT_b OR P_r) FLAGS_NONE True 0 0 0 0,
    INST INSTRUCTION_TYPE_MOV (Some ''mov'') (AM_E OR OT_v OR P_w) (AM_G OR OT_v OR P_r) FLAGS_NONE True 0 0 0 0,
    INST INSTRUCTION_TYPE_MOV (Some ''mov'') (AM_G OR OT_b OR P_w) (AM_E OR OT_b OR P_r) FLAGS_NONE True 0 0 0 0,
    INST INSTRUCTION_TYPE_MOV (Some ''mov'') (AM_G OR OT_v OR P_w) (AM_E OR OT_v OR P_r) FLAGS_NONE True 0 0 0 0,
    INST INSTRUCTION_TYPE_MOVSR (Some ''mov'') (AM_E OR OT_w OR P_w) (AM_S OR OT_w OR P_r) FLAGS_NONE True 0 0 0 0,
    INST INSTRUCTION_TYPE_LEA (Some ''lea'') (AM_G OR OT_v OR P_w) (AM_M OR OT_v OR P_r) FLAGS_NONE True 0 0 0 0,
    INST INSTRUCTION_TYPE_MOVSR (Some ''mov'') (AM_S OR OT_w OR P_w) (AM_E OR OT_w OR P_r) FLAGS_NONE True 0 0 0 0,
    INST INSTRUCTION_TYPE_POP (Some ''pop'') (AM_E OR OT_v OR P_w) FLAGS_NONE FLAGS_NONE True 0 0 IOP_ESP IOP_ESP,
    INST INSTRUCTION_TYPE_OTHER (Some ''nop'') FLAGS_NONE FLAGS_NONE FLAGS_NONE False 0 0 0 0,
    INST INSTRUCTION_TYPE_XCHG (Some ''xchg'') (AM_LIBDASM_REG OR LIBDASM_REG_EAX OR OT_v OR P_w) (AM_LIBDASM_REG OR LIBDASM_REG_ECX OR OT_v OR P_w) FLAGS_NONE False 0 0 0 0,
    INST INSTRUCTION_TYPE_XCHG (Some ''xchg'') (AM_LIBDASM_REG OR LIBDASM_REG_EAX OR OT_v OR P_w) (AM_LIBDASM_REG OR LIBDASM_REG_EDX OR OT_v OR P_w) FLAGS_NONE False 0 0 0 0,
    INST INSTRUCTION_TYPE_XCHG (Some ''xchg'') (AM_LIBDASM_REG OR LIBDASM_REG_EAX OR OT_v OR P_w) (AM_LIBDASM_REG OR LIBDASM_REG_EBX OR OT_v OR P_w) FLAGS_NONE False 0 0 0 0,
    INST INSTRUCTION_TYPE_XCHG (Some ''xchg'') (AM_LIBDASM_REG OR LIBDASM_REG_EAX OR OT_v OR P_w) (AM_LIBDASM_REG OR LIBDASM_REG_ESP OR OT_v OR P_w) FLAGS_NONE False 0 0 0 0,
    INST INSTRUCTION_TYPE_XCHG (Some ''xchg'') (AM_LIBDASM_REG OR LIBDASM_REG_EAX OR OT_v OR P_w) (AM_LIBDASM_REG OR LIBDASM_REG_EBP OR OT_v OR P_w) FLAGS_NONE False 0 0 0 0,
    INST INSTRUCTION_TYPE_XCHG (Some ''xchg'') (AM_LIBDASM_REG OR LIBDASM_REG_EAX OR OT_v OR P_w) (AM_LIBDASM_REG OR LIBDASM_REG_ESI OR OT_v OR P_w) FLAGS_NONE False 0 0 0 0,
    INST INSTRUCTION_TYPE_XCHG (Some ''xchg'') (AM_LIBDASM_REG OR LIBDASM_REG_EAX OR OT_v OR P_w) (AM_LIBDASM_REG OR LIBDASM_REG_EDI OR OT_v OR P_w) FLAGS_NONE False 0 0 0 0,
    INST INSTRUCTION_TYPE_OTHER (Some ''cbw'') FLAGS_NONE FLAGS_NONE FLAGS_NONE False 0 0 LIBDASM_REG_EAX IOP_EAX,
    INST INSTRUCTION_TYPE_OTHER (Some ''cwd'') FLAGS_NONE FLAGS_NONE FLAGS_NONE False 0 0 (LIBDASM_REG_EAX OR LIBDASM_REG_EDX) IOP_EAX,
    INST INSTRUCTION_TYPE_CALL (Some ''callf'') (AM_A OR OT_v OR P_x) FLAGS_NONE FLAGS_NONE False 0 0 IOP_ESP 0,
    INST INSTRUCTION_TYPE_FPU_CTRL (Some ''wait'') FLAGS_NONE FLAGS_NONE FLAGS_NONE False 0 0 0 0,
    INST INSTRUCTION_TYPE_PUSH (Some ''pushf'') (FLAGS_NONE OR P_r) FLAGS_NONE FLAGS_NONE False 0 0 IOP_ESP IOP_ESP,
    INST INSTRUCTION_TYPE_POP (Some ''popf'') (FLAGS_NONE OR P_w) FLAGS_NONE FLAGS_NONE False 0 0 IOP_ESP IOP_ESP,
    INST INSTRUCTION_TYPE_OTHER (Some ''sahf'') FLAGS_NONE FLAGS_NONE FLAGS_NONE False (EFL_SF OR EFL_ZF OR EFL_AF OR EFL_PF OR EFL_CF) 0 IOP_EAX 0,
    INST INSTRUCTION_TYPE_OTHER (Some ''lahf'') (FLAGS_NONE OR P_w) (FLAGS_NONE OR P_r) FLAGS_NONE False 0 0 IOP_EAX 0,
    INST INSTRUCTION_TYPE_MOV (Some ''mov'') (AM_LIBDASM_REG OR LIBDASM_REG_EAX OR OT_b OR P_w) (AM_O OR OT_v OR P_r) FLAGS_NONE False 0 0 0 0,
    INST INSTRUCTION_TYPE_MOV (Some ''mov'') (AM_LIBDASM_REG OR LIBDASM_REG_EAX OR OT_v OR P_w) (AM_O OR OT_v OR P_r) FLAGS_NONE False 0 0 0 0,
    INST INSTRUCTION_TYPE_MOV (Some ''mov'') (AM_O OR OT_v OR P_w) (AM_LIBDASM_REG OR LIBDASM_REG_EAX OR OT_b OR P_r) FLAGS_NONE False 0 0 0 0,
    INST INSTRUCTION_TYPE_MOV (Some ''mov'') (AM_O OR OT_v OR P_w) (AM_LIBDASM_REG OR LIBDASM_REG_EAX OR OT_v OR P_r) FLAGS_NONE False 0 0 0 0,
    INST INSTRUCTION_TYPE_MOVS (Some ''movsb'') (FLAGS_NONE OR P_w) (FLAGS_NONE OR P_r) FLAGS_NONE False 0 EFL_DF (IOP_EDI OR IOP_ESI) (IOP_EDI OR IOP_ESI),
    INST INSTRUCTION_TYPE_MOVS (Some ''movsd'') (FLAGS_NONE OR P_w) (FLAGS_NONE OR P_r) FLAGS_NONE False 0 EFL_DF (IOP_EDI OR IOP_ESI) (IOP_EDI OR IOP_ESI),
    INST INSTRUCTION_TYPE_CMPS (Some ''cmpsb'') (FLAGS_NONE OR P_r) (FLAGS_NONE OR P_r) FLAGS_NONE False EFL_ALL_COMMON EFL_DF (IOP_EDI OR IOP_ESI) (IOP_EDI OR IOP_ESI),
    INST INSTRUCTION_TYPE_CMPS (Some ''cmpsd'') (FLAGS_NONE OR P_r) (FLAGS_NONE OR P_r) FLAGS_NONE False EFL_ALL_COMMON EFL_DF (IOP_EDI OR IOP_ESI) (IOP_EDI OR IOP_ESI),
    INST INSTRUCTION_TYPE_TEST (Some ''test'') (AM_LIBDASM_REG OR LIBDASM_REG_EAX OR OT_b OR P_r) (AM_I OR OT_b OR P_r) FLAGS_NONE False (EFL_OF OR EFL_CF OR EFL_SF OR EFL_ZF OR EFL_PF) 0 0 0,
    INST INSTRUCTION_TYPE_TEST (Some ''test'') (AM_LIBDASM_REG OR LIBDASM_REG_EAX OR OT_v OR P_r) (AM_I OR OT_v OR P_r) FLAGS_NONE False (EFL_OF OR EFL_CF OR EFL_SF OR EFL_ZF OR EFL_PF) 0 0 0,
    INST INSTRUCTION_TYPE_STOS (Some ''stosb'') FLAGS_NONE FLAGS_NONE FLAGS_NONE False 0 EFL_DF IOP_EDI (IOP_EAX OR IOP_EDI),
    INST INSTRUCTION_TYPE_STOS (Some ''stosd'') FLAGS_NONE FLAGS_NONE FLAGS_NONE False 0 EFL_DF IOP_EDI (IOP_EAX OR IOP_EDI),
    INST INSTRUCTION_TYPE_LODS (Some ''lodsb'') FLAGS_NONE FLAGS_NONE FLAGS_NONE False 0 EFL_DF (IOP_EAX OR IOP_ESI) IOP_ESI,
    INST INSTRUCTION_TYPE_LODS (Some ''lodsd'') FLAGS_NONE FLAGS_NONE FLAGS_NONE False 0 EFL_DF (IOP_EAX OR IOP_ESI) IOP_ESI,
    INST INSTRUCTION_TYPE_SCAS (Some ''scasb'') FLAGS_NONE FLAGS_NONE FLAGS_NONE False EFL_ALL_COMMON EFL_DF IOP_EDI (IOP_EAX OR IOP_EDI),
    INST INSTRUCTION_TYPE_SCAS (Some ''scasd'') FLAGS_NONE FLAGS_NONE FLAGS_NONE False EFL_ALL_COMMON EFL_DF IOP_EDI (IOP_EAX OR IOP_EDI),
    INST INSTRUCTION_TYPE_MOV (Some ''mov'') (AM_LIBDASM_REG OR LIBDASM_REG_AL OR OT_b OR P_w) (AM_I OR OT_b OR P_r) FLAGS_NONE False 0 0 0 0,
    INST INSTRUCTION_TYPE_MOV (Some ''mov'') (AM_LIBDASM_REG OR LIBDASM_REG_CL OR OT_b OR P_w) (AM_I OR OT_b OR P_r) FLAGS_NONE False 0 0 0 0,
    INST INSTRUCTION_TYPE_MOV (Some ''mov'') (AM_LIBDASM_REG OR LIBDASM_REG_DL OR OT_b OR P_w) (AM_I OR OT_b OR P_r) FLAGS_NONE False 0 0 0 0,
    INST INSTRUCTION_TYPE_MOV (Some ''mov'') (AM_LIBDASM_REG OR LIBDASM_REG_BL OR OT_b OR P_w) (AM_I OR OT_b OR P_r) FLAGS_NONE False 0 0 0 0,
    INST INSTRUCTION_TYPE_MOV (Some ''mov'') (AM_LIBDASM_REG OR LIBDASM_REG_AH OR OT_b OR P_w) (AM_I OR OT_b OR P_r) FLAGS_NONE False 0 0 0 0,
    INST INSTRUCTION_TYPE_MOV (Some ''mov'') (AM_LIBDASM_REG OR LIBDASM_REG_CH OR OT_b OR P_w) (AM_I OR OT_b OR P_r) FLAGS_NONE False 0 0 0 0,
    INST INSTRUCTION_TYPE_MOV (Some ''mov'') (AM_LIBDASM_REG OR LIBDASM_REG_DH OR OT_b OR P_w) (AM_I OR OT_b OR P_r) FLAGS_NONE False 0 0 0 0,
    INST INSTRUCTION_TYPE_MOV (Some ''mov'') (AM_LIBDASM_REG OR LIBDASM_REG_BH OR OT_b OR P_w) (AM_I OR OT_b OR P_r) FLAGS_NONE False 0 0 0 0,
    INST INSTRUCTION_TYPE_MOV (Some ''mov'') (AM_LIBDASM_REG OR LIBDASM_REG_EAX OR OT_v OR P_w) (AM_I OR OT_v OR P_r) FLAGS_NONE False 0 0 0 0,
    INST INSTRUCTION_TYPE_MOV (Some ''mov'') (AM_LIBDASM_REG OR LIBDASM_REG_ECX OR OT_v OR P_w) (AM_I OR OT_v OR P_r) FLAGS_NONE False 0 0 0 0,
    INST INSTRUCTION_TYPE_MOV (Some ''mov'') (AM_LIBDASM_REG OR LIBDASM_REG_EDX OR OT_v OR P_w) (AM_I OR OT_v OR P_r) FLAGS_NONE False 0 0 0 0,
    INST INSTRUCTION_TYPE_MOV (Some ''mov'') (AM_LIBDASM_REG OR LIBDASM_REG_EBX OR OT_v OR P_w) (AM_I OR OT_v OR P_r) FLAGS_NONE False 0 0 0 0,
    INST INSTRUCTION_TYPE_MOV (Some ''mov'') (AM_LIBDASM_REG OR LIBDASM_REG_ESP OR OT_v OR P_w) (AM_I OR OT_v OR P_r) FLAGS_NONE False 0 0 0 0,
    INST INSTRUCTION_TYPE_MOV (Some ''mov'') (AM_LIBDASM_REG OR LIBDASM_REG_EBP OR OT_v OR P_w) (AM_I OR OT_v OR P_r) FLAGS_NONE False 0 0 0 0,
    INST INSTRUCTION_TYPE_MOV (Some ''mov'') (AM_LIBDASM_REG OR LIBDASM_REG_ESI OR OT_v OR P_w) (AM_I OR OT_v OR P_r) FLAGS_NONE False 0 0 0 0,
    INST INSTRUCTION_TYPE_MOV (Some ''mov'') (AM_LIBDASM_REG OR LIBDASM_REG_EDI OR OT_v OR P_w) (AM_I OR OT_v OR P_r) FLAGS_NONE False 0 0 0 0,
    INST INSTRUCTION_TYPE_OTHER (Some ''g2'') (AM_E OR OT_b) (AM_I OR OT_b) FLAGS_NONE True 0 0 0 0,
    INST INSTRUCTION_TYPE_OTHER (Some ''g2'') (AM_E OR OT_v) (AM_I OR OT_b) FLAGS_NONE True 0 0 0 0,
    INST INSTRUCTION_TYPE_RET (Some ''retn'') (AM_I OR OT_w OR P_r) FLAGS_NONE FLAGS_NONE False 0 0 IOP_ESP IOP_ESP,
    INST INSTRUCTION_TYPE_RET (Some ''ret'') (FLAGS_NONE OR P_r) FLAGS_NONE FLAGS_NONE False 0 0 IOP_ESP IOP_ESP,
    INST INSTRUCTION_TYPE_LFP (Some ''les'') (AM_G OR OT_v OR P_w) (AM_M OR OT_v OR P_r) FLAGS_NONE True 0 0 0 0,
    INST INSTRUCTION_TYPE_LFP (Some ''lds'') (AM_G OR OT_v OR P_w) (AM_M OR OT_v OR P_r) FLAGS_NONE True 0 0 0 0,
    INST INSTRUCTION_TYPE_MOV (Some ''mov'') (AM_E OR OT_b OR P_w) (AM_I OR OT_b OR P_r) FLAGS_NONE True 0 0 0 0,
    INST INSTRUCTION_TYPE_MOV (Some ''mov'') (AM_E OR OT_v OR P_w) (AM_I OR OT_v OR P_r) FLAGS_NONE True 0 0 0 0,
    INST INSTRUCTION_TYPE_ENTER (Some ''enter'') (AM_I OR OT_w OR P_w) (AM_I OR OT_b OR P_r) FLAGS_NONE False 0 0 (IOP_ESP OR IOP_EBP) (IOP_ESP OR IOP_EBP),
    INST INSTRUCTION_TYPE_POP (Some ''leave'') FLAGS_NONE FLAGS_NONE FLAGS_NONE False 0 0 (IOP_ESP OR IOP_EBP) (IOP_ESP OR IOP_EBP),
    INST INSTRUCTION_TYPE_RET (Some ''retf'') (AM_I OR OT_w OR P_r) FLAGS_NONE FLAGS_NONE False 0 0 IOP_ESP 0,
    INST INSTRUCTION_TYPE_OTHER (Some ''retf'') (FLAGS_NONE OR P_r) FLAGS_NONE FLAGS_NONE False 0 0 IOP_ESP 0,
    INST INSTRUCTION_TYPE_INT (Some ''int3'') FLAGS_NONE FLAGS_NONE FLAGS_NONE False 0 0 0 0,
    INST INSTRUCTION_TYPE_INT (Some ''int'') (AM_I OR OT_b OR P_r) FLAGS_NONE FLAGS_NONE False 0 0 0 0,
    INST INSTRUCTION_TYPE_INT (Some ''into'') FLAGS_NONE FLAGS_NONE FLAGS_NONE False 0 0 0 0,
    INST INSTRUCTION_TYPE_OTHER (Some ''iret'') FLAGS_NONE FLAGS_NONE FLAGS_NONE False 0 0 0 0,
    INST INSTRUCTION_TYPE_OTHER (Some ''g2'') (AM_E OR OT_b) (AM_I1 OR OT_b) FLAGS_NONE True 0 0 0 0,
    INST INSTRUCTION_TYPE_OTHER (Some ''g2'') (AM_E OR OT_v) (AM_I1 OR OT_b) FLAGS_NONE True 0 0 0 0,
    INST INSTRUCTION_TYPE_OTHER (Some ''g2'') (AM_E OR OT_b) (AM_LIBDASM_REG OR LIBDASM_REG_CL OR OT_b) FLAGS_NONE True 0 0 0 0,
    INST INSTRUCTION_TYPE_OTHER (Some ''g2'') (AM_E OR OT_v) (AM_LIBDASM_REG OR LIBDASM_REG_CL OR OT_b) FLAGS_NONE True 0 0 0 0,
    INST INSTRUCTION_TYPE_ASC (Some ''aam'') (AM_I OR OT_b OR P_w) FLAGS_NONE FLAGS_NONE False (EFL_SF OR EFL_ZF OR EFL_PF) 0 IOP_EAX IOP_EAX,
    INST INSTRUCTION_TYPE_ASC (Some ''aad'') (AM_I OR OT_b OR P_w) FLAGS_NONE FLAGS_NONE False (EFL_SF OR EFL_ZF OR EFL_PF) 0 IOP_EAX IOP_EAX,
    INST INSTRUCTION_TYPE_OTHER (Some ''salc'') (FLAGS_NONE OR P_w) (FLAGS_NONE OR P_r) FLAGS_NONE False (EFL_CF OR EFL_SF OR EFL_ZF OR EFL_PF) 0 0 0,
    INST INSTRUCTION_TYPE_XLAT (Some ''xlat'') FLAGS_NONE FLAGS_NONE FLAGS_NONE False 0 0 IOP_EAX (IOP_EAX OR IOP_EBX),
    INST INSTRUCTION_TYPE_OTHER (Some ''esc'') FLAGS_NONE FLAGS_NONE FLAGS_NONE False 0 0 0 0,
    INST INSTRUCTION_TYPE_OTHER (Some ''esc'') FLAGS_NONE FLAGS_NONE FLAGS_NONE False 0 0 0 0,
    INST INSTRUCTION_TYPE_OTHER (Some ''esc'') FLAGS_NONE FLAGS_NONE FLAGS_NONE False 0 0 0 0,
    INST INSTRUCTION_TYPE_OTHER (Some ''esc'') FLAGS_NONE FLAGS_NONE FLAGS_NONE False 0 0 0 0,
    INST INSTRUCTION_TYPE_OTHER (Some ''esc'') FLAGS_NONE FLAGS_NONE FLAGS_NONE False 0 0 0 0,
    INST INSTRUCTION_TYPE_OTHER (Some ''esc'') FLAGS_NONE FLAGS_NONE FLAGS_NONE False 0 0 0 0,
    INST INSTRUCTION_TYPE_OTHER (Some ''esc'') FLAGS_NONE FLAGS_NONE FLAGS_NONE False 0 0 0 0,
    INST INSTRUCTION_TYPE_OTHER (Some ''esc'') FLAGS_NONE FLAGS_NONE FLAGS_NONE False 0 0 0 0,
    INST INSTRUCTION_TYPE_LOOP (Some ''loopne'') (AM_J OR OT_b OR P_x) FLAGS_NONE FLAGS_NONE False 0 EFL_ZF IOP_ECX IOP_ECX,
    INST INSTRUCTION_TYPE_LOOP (Some ''loope'') (AM_J OR OT_b OR P_x) FLAGS_NONE FLAGS_NONE False 0 EFL_ZF IOP_ECX IOP_ECX,
    INST INSTRUCTION_TYPE_LOOP (Some ''loop'') (AM_J OR OT_b OR P_x) FLAGS_NONE FLAGS_NONE False 0 0 IOP_ECX IOP_ECX,
    INST INSTRUCTION_TYPE_JECXZ (Some ''jecxz'') (AM_J OR OT_b OR P_x) FLAGS_NONE FLAGS_NONE False 0 0 0 IOP_ECX,
    INST INSTRUCTION_TYPE_PRIV (Some ''in'') (AM_LIBDASM_REG OR LIBDASM_REG_AL OR OT_b OR P_w) (AM_I OR OT_b OR P_r) FLAGS_NONE False 0 0 0 0,
    INST INSTRUCTION_TYPE_PRIV (Some ''in'') (AM_LIBDASM_REG OR LIBDASM_REG_EAX OR OT_v OR P_w) (AM_I OR OT_b OR P_r) FLAGS_NONE False 0 0 0 0,
    INST INSTRUCTION_TYPE_PRIV (Some ''out'') (AM_I OR OT_b OR P_w) (AM_LIBDASM_REG OR LIBDASM_REG_AL OR OT_b OR P_r) FLAGS_NONE False 0 0 0 0,
    INST INSTRUCTION_TYPE_PRIV (Some ''out'') (AM_I OR OT_b OR P_w) (AM_LIBDASM_REG OR LIBDASM_REG_EAX OR OT_v OR P_r) FLAGS_NONE False 0 0 0 0,
    INST INSTRUCTION_TYPE_CALL (Some ''call'') (AM_J OR OT_v OR P_x) FLAGS_NONE FLAGS_NONE False 0 0 0 0,
    INST INSTRUCTION_TYPE_JMP (Some ''jmp'') (AM_J OR OT_v OR P_x) FLAGS_NONE FLAGS_NONE False 0 0 0 0,
    INST INSTRUCTION_TYPE_JMP (Some ''jmpf'') (AM_A OR OT_v OR P_x) FLAGS_NONE FLAGS_NONE False 0 0 0 0,
    INST INSTRUCTION_TYPE_JMP (Some ''jmp'') (AM_J OR OT_b OR P_x) FLAGS_NONE FLAGS_NONE False 0 0 0 0,
    INST INSTRUCTION_TYPE_PRIV (Some ''in'') (AM_LIBDASM_REG OR LIBDASM_REG_EAX OR OT_b OR P_w) (AM_LIBDASM_REG OR LIBDASM_REG_EDX OR OT_w OR P_r) FLAGS_NONE False 0 0 0 0,
    INST INSTRUCTION_TYPE_PRIV (Some ''in'') (AM_LIBDASM_REG OR LIBDASM_REG_EAX OR OT_v OR P_w) (AM_LIBDASM_REG OR LIBDASM_REG_EDX OR OT_w OR P_r) FLAGS_NONE False 0 0 0 0,
    INST INSTRUCTION_TYPE_PRIV (Some ''out'') (AM_LIBDASM_REG OR LIBDASM_REG_EDX OR OT_w OR P_w) (AM_LIBDASM_REG OR LIBDASM_REG_EAX OR OT_b OR P_r) FLAGS_NONE False 0 0 0 0,
    INST INSTRUCTION_TYPE_PRIV (Some ''out'') (AM_LIBDASM_REG OR LIBDASM_REG_EDX OR OT_w OR P_w) (AM_LIBDASM_REG OR LIBDASM_REG_EAX OR OT_v OR P_r) FLAGS_NONE False 0 0 0 0,
    INST INSTRUCTION_TYPE_OTHER (Some ''ext'') FLAGS_NONE FLAGS_NONE FLAGS_NONE False 0 0 0 0,
    INST INSTRUCTION_TYPE_OTHER (Some ''int1'') FLAGS_NONE FLAGS_NONE FLAGS_NONE False 0 0 0 0,
    INST INSTRUCTION_TYPE_OTHER (Some ''ext'') FLAGS_NONE FLAGS_NONE FLAGS_NONE False 0 0 0 0,
    INST INSTRUCTION_TYPE_OTHER (Some ''ext'') FLAGS_NONE FLAGS_NONE FLAGS_NONE False 0 0 0 0,
    INST INSTRUCTION_TYPE_PRIV (Some ''hlt'') FLAGS_NONE FLAGS_NONE FLAGS_NONE False 0 0 0 0,
    INST INSTRUCTION_TYPE_OTHER (Some ''cmc'') FLAGS_NONE FLAGS_NONE FLAGS_NONE False EFL_CF 0 0 0,
    INST INSTRUCTION_TYPE_OTHER (Some ''g3'') (AM_E OR OT_b) FLAGS_NONE FLAGS_NONE True 0 0 0 0,
    INST INSTRUCTION_TYPE_OTHER (Some ''g3'') (AM_E OR OT_v) FLAGS_NONE FLAGS_NONE True 0 0 0 0,
    INST INSTRUCTION_TYPE_OTHER (Some ''clc'') FLAGS_NONE FLAGS_NONE FLAGS_NONE False EFL_CF 0 0 0,
    INST INSTRUCTION_TYPE_OTHER (Some ''stc'') FLAGS_NONE FLAGS_NONE FLAGS_NONE False EFL_CF 0 0 0,
    INST INSTRUCTION_TYPE_OTHER (Some ''cli'') FLAGS_NONE FLAGS_NONE FLAGS_NONE False EFL_IF 0 0 0,
    INST INSTRUCTION_TYPE_OTHER (Some ''sti'') FLAGS_NONE FLAGS_NONE FLAGS_NONE False EFL_IF 0 0 0,
    INST INSTRUCTION_TYPE_CLD (Some ''cld'') FLAGS_NONE FLAGS_NONE FLAGS_NONE False EFL_DF 0 0 0,
    INST INSTRUCTION_TYPE_STD (Some ''std'') FLAGS_NONE FLAGS_NONE FLAGS_NONE False EFL_DF 0 0 0,
    INST INSTRUCTION_TYPE_OTHER (Some ''g4'') (AM_E OR OT_b) FLAGS_NONE FLAGS_NONE True 0 0 0 0,
    INST INSTRUCTION_TYPE_OTHER (Some ''g5'') (AM_E OR OT_v) FLAGS_NONE FLAGS_NONE True 0 0 0 0
  ]"

definition inst_table1 :: "INST list" where [libdasm_tables]:
  "inst_table1 = inst_table1_lo @ inst_table1_hi"

end
