(* ===== verification/Opcode_Table2.thy ===== *)
theory Opcode_Table2
  imports Libdasm_Base
begin

text \<open>
  The table \<open>inst_table2\<close> of the opcodes behind \<open>0x0f\<close> of \<^verbatim>\<open>libdasm/opcode_tables.h\<close>, row by row, the fields in the order of
  the C initialisers. The rows 0x7c and
  0x7d have the type \<open>INSTRUCTION_TYPE_OTHER||TYPE_3\<close> there, a logical or, whose value is 1.
\<close>

definition inst_table2_lo :: "INST list" where [libdasm_tables]:
  "inst_table2_lo = [
    INST INSTRUCTION_TYPE_OTHER (Some ''g6'') (AM_E OR OT_w) FLAGS_NONE FLAGS_NONE True 0 0 0 0,
    INST INSTRUCTION_TYPE_OTHER (Some ''g7'') (AM_M OR OT_w) FLAGS_NONE FLAGS_NONE True 0 0 0 0,
    INST INSTRUCTION_TYPE_PRIV (Some ''lar'') (AM_G OR OT_v OR P_w) (AM_E OR OT_w OR P_r) FLAGS_NONE True EFL_ZF 0 0 0,
    INST INSTRUCTION_TYPE_PRIV (Some ''lsl'') (AM_G OR OT_v OR P_w) (AM_E OR OT_w OR P_r) FLAGS_NONE True EFL_ZF 0 0 0,
    NO_INST INSTRUCTION_TYPE_OTHER,
    INST INSTRUCTION_TYPE_OTHER (Some ''loadall286'') FLAGS_NONE FLAGS_NONE FLAGS_NONE False 0 0 0 0,
    INST INSTRUCTION_TYPE_PRIV (Some ''clts'') FLAGS_NONE FLAGS_NONE FLAGS_NONE False 0 0 IOP_EAX 0,
    INST INSTRUCTION_TYPE_OTHER (Some ''loadall'') FLAGS_NONE FLAGS_NONE FLAGS_NONE False 0 0 0 0,
    INST INSTRUCTION_TYPE_PRIV (Some ''invd'') FLAGS_NONE FLAGS_NONE FLAGS_NONE False 0 0 0 0,
    INST INSTRUCTION_TYPE_OTHER (Some ''wbinvd'') FLAGS_NONE FLAGS_NONE FLAGS_NONE False 0 0 0 0,
    NO_INST INSTRUCTION_TYPE_OTHER,
    INST INSTRUCTION_TYPE_OTHER (Some ''ud2'') FLAGS_NONE FLAGS_NONE FLAGS_NONE False 0 0 0 0,
    NO_INST INSTRUCTION_TYPE_OTHER,
    NO_INST INSTRUCTION_TYPE_OTHER,
    NO_INST INSTRUCTION_TYPE_OTHER,
    NO_INST INSTRUCTION_TYPE_OTHER,
    INST (INSTRUCTION_TYPE_SSE OR TYPE_3) (Some ''movups'') (AM_V OR OT_ps OR P_w) (AM_W OR OT_ps OR P_r) FLAGS_NONE True 0 0 0 0,
    INST (INSTRUCTION_TYPE_SSE OR TYPE_3) (Some ''movups'') (AM_W OR OT_ps OR P_w) (AM_V OR OT_ps OR P_r) FLAGS_NONE True 0 0 0 0,
    INST (INSTRUCTION_TYPE_SSE OR TYPE_3) (Some ''movlps'') (AM_V OR OT_q OR P_w) (AM_M OR OT_q OR P_r) FLAGS_NONE True 0 0 0 0,
    INST (INSTRUCTION_TYPE_SSE OR TYPE_3) (Some ''movlps'') (AM_M OR OT_q OR P_w) (AM_V OR OT_q OR P_r) FLAGS_NONE True 0 0 0 0,
    INST (INSTRUCTION_TYPE_SSE OR TYPE_3) (Some ''unpcklps'') (AM_V OR OT_ps OR P_w) (AM_W OR OT_ps OR P_r) FLAGS_NONE True 0 0 0 0,
    INST (INSTRUCTION_TYPE_SSE OR TYPE_3) (Some ''unpcklps'') (AM_V OR OT_ps OR P_w) (AM_W OR OT_ps OR P_r) FLAGS_NONE True 0 0 0 0,
    INST (INSTRUCTION_TYPE_SSE OR TYPE_3) (Some ''movhps'') (AM_V OR OT_q OR P_w) (AM_M OR OT_q OR P_r) FLAGS_NONE True 0 0 0 0,
    INST (INSTRUCTION_TYPE_SSE OR TYPE_3) (Some ''movhps'') (AM_M OR OT_q OR P_w) (AM_V OR OT_ps OR P_r) FLAGS_NONE True 0 0 0 0,
    NO_INST INSTRUCTION_TYPE_OTHER,
    NO_INST INSTRUCTION_TYPE_OTHER,
    NO_INST INSTRUCTION_TYPE_OTHER,
    NO_INST INSTRUCTION_TYPE_OTHER,
    NO_INST INSTRUCTION_TYPE_OTHER,
    NO_INST INSTRUCTION_TYPE_OTHER,
    NO_INST INSTRUCTION_TYPE_OTHER,
    NO_INST INSTRUCTION_TYPE_OTHER,
    INST INSTRUCTION_TYPE_PRIV (Some ''mov'') (AM_R OR OT_d OR P_w) (AM_C OR OT_d OR P_r) FLAGS_NONE True 0 0 0 0,
    INST INSTRUCTION_TYPE_PRIV (Some ''mov'') (AM_R OR OT_d OR P_w) (AM_D OR OT_d OR P_r) FLAGS_NONE True 0 0 0 0,
    INST INSTRUCTION_TYPE_PRIV (Some ''mov'') (AM_C OR OT_d OR P_w) (AM_R OR OT_d OR P_r) FLAGS_NONE True 0 0 0 0,
    INST INSTRUCTION_TYPE_PRIV (Some ''mov'') (AM_D OR OT_d OR P_w) (AM_R OR OT_d OR P_r) FLAGS_NONE True 0 0 0 0,
    INST INSTRUCTION_TYPE_PRIV (Some ''mov'') (AM_R OR OT_d OR P_w) (AM_T OR OT_d OR P_r) FLAGS_NONE True 0 0 0 0,
    NO_INST INSTRUCTION_TYPE_OTHER,
    INST INSTRUCTION_TYPE_PRIV (Some ''mov'') (AM_T OR OT_d OR P_w) (AM_R OR OT_d OR P_r) FLAGS_NONE True 0 0 0 0,
    NO_INST INSTRUCTION_TYPE_OTHER,
    INST (INSTRUCTION_TYPE_SSE OR TYPE_3) (Some ''movaps'') (AM_V OR OT_ps OR P_w) (AM_W OR OT_ps OR P_r) FLAGS_NONE True 0 0 0 0,
    INST (INSTRUCTION_TYPE_SSE OR TYPE_3) (Some ''movaps'') (AM_W OR OT_ps OR P_w) (AM_V OR OT_ps OR P_r) FLAGS_NONE True 0 0 0 0,
    INST (INSTRUCTION_TYPE_SSE OR TYPE_3) (Some ''cvtpi2ps'') (AM_V OR OT_ps OR P_r) (AM_Q OR OT_q OR P_r) FLAGS_NONE True 0 0 0 0,
    INST (INSTRUCTION_TYPE_SSE OR TYPE_3) (Some ''movntps'') (AM_M OR OT_ps OR P_w) (AM_V OR OT_ps OR P_r) FLAGS_NONE True 0 0 0 0,
    INST (INSTRUCTION_TYPE_SSE OR TYPE_3) (Some ''cvttps2pi'') (AM_P OR OT_q OR P_r) (AM_W OR OT_q OR P_r) FLAGS_NONE True 0 0 0 0,
    INST (INSTRUCTION_TYPE_SSE OR TYPE_3) (Some ''cvtps2pi'') (AM_P OR OT_q OR P_r) (AM_W OR OT_q OR P_r) FLAGS_NONE True 0 0 0 0,
    INST (INSTRUCTION_TYPE_SSE OR TYPE_3) (Some ''ucomiss'') (AM_V OR OT_ss OR P_w) (AM_W OR OT_ss OR P_r) FLAGS_NONE True 0 0 0 0,
    INST (INSTRUCTION_TYPE_SSE OR TYPE_3) (Some ''comiss'') (AM_V OR OT_ss OR P_w) (AM_W OR OT_ss OR P_w) FLAGS_NONE True 0 0 0 0,
    INST INSTRUCTION_TYPE_OTHER (Some ''wrmsr'') FLAGS_NONE FLAGS_NONE FLAGS_NONE False 0 0 (IOP_EAX OR IOP_EDX) IOP_ECX,
    INST INSTRUCTION_TYPE_OTHER (Some ''rdtsc'') FLAGS_NONE FLAGS_NONE FLAGS_NONE False 0 0 (IOP_EAX OR IOP_EDX) 0,
    INST INSTRUCTION_TYPE_PRIV (Some ''rdmsr'') FLAGS_NONE FLAGS_NONE FLAGS_NONE False 0 0 (IOP_EAX OR IOP_EDX) IOP_ECX,
    INST INSTRUCTION_TYPE_OTHER (Some ''rdpmc'') FLAGS_NONE FLAGS_NONE FLAGS_NONE False 0 0 (IOP_EAX OR IOP_EDX) IOP_ECX,
    INST INSTRUCTION_TYPE_SYSENTER (Some ''sysenter'') FLAGS_NONE FLAGS_NONE FLAGS_NONE False 0 0 0 0,
    INST INSTRUCTION_TYPE_PRIV (Some ''sysexit'') FLAGS_NONE FLAGS_NONE FLAGS_NONE False 0 0 0 0,
    NO_INST INSTRUCTION_TYPE_OTHER,
    NO_INST INSTRUCTION_TYPE_OTHER,
    NO_INST INSTRUCTION_TYPE_OTHER,
    NO_INST INSTRUCTION_TYPE_OTHER,
    NO_INST INSTRUCTION_TYPE_OTHER,
    NO_INST INSTRUCTION_TYPE_OTHER,
    NO_INST INSTRUCTION_TYPE_OTHER,
    NO_INST INSTRUCTION_TYPE_OTHER,
    NO_INST INSTRUCTION_TYPE_OTHER,
    NO_INST INSTRUCTION_TYPE_OTHER,
    INST INSTRUCTION_TYPE_MOVC (Some ''cmovo'') (AM_G OR OT_v OR P_w) (AM_E OR OT_v OR P_r) FLAGS_NONE True 0 0 0 0,
    INST INSTRUCTION_TYPE_MOVC (Some ''cmovno'') (AM_G OR OT_v OR P_w) (AM_E OR OT_v OR P_r) FLAGS_NONE True 0 0 0 0,
    INST INSTRUCTION_TYPE_MOVC (Some ''cmovb'') (AM_G OR OT_v OR P_w) (AM_E OR OT_v OR P_r) FLAGS_NONE True 0 0 0 0,
    INST INSTRUCTION_TYPE_MOVC (Some ''cmovae'') (AM_G OR OT_v OR P_w) (AM_E OR OT_v OR P_r) FLAGS_NONE True 0 0 0 0,
    INST INSTRUCTION_TYPE_MOVC (Some ''cmove'') (AM_G OR OT_v OR P_w) (AM_E OR OT_v OR P_r) FLAGS_NONE True 0 0 0 0,
    INST INSTRUCTION_TYPE_MOVC (Some ''cmovne'') (AM_G OR OT_v OR P_w) (AM_E OR OT_v OR P_r) FLAGS_NONE True 0 0 0 0,
    INST INSTRUCTION_TYPE_MOVC (Some ''cmovbe'') (AM_G OR OT_v OR P_w) (AM_E OR OT_v OR P_r) FLAGS_NONE True 0 0 0 0,
    INST INSTRUCTION_TYPE_MOVC (Some ''cmova'') (AM_G OR OT_v OR P_w) (AM_E OR OT_v OR P_r) FLAGS_NONE True 0 0 0 0,
    INST INSTRUCTION_TYPE_MOVC (Some ''cmovs'') (AM_G OR OT_v OR P_w) (AM_E OR OT_v OR P_r) FLAGS_NONE True 0 0 0 0,
    INST INSTRUCTION_TYPE_MOVC (Some ''cmovns'') (AM_G OR OT_v OR P_w) (AM_E OR OT_v OR P_r) FLAGS_NONE True 0 0 0 0,
    INST INSTRUCTION_TYPE_MOVC (Some ''cmovp'') (AM_G OR OT_v OR P_w) (AM_E OR OT_v OR P_r) FLAGS_NONE True 0 0 0 0,
    INST INSTRUCTION_TYPE_MOVC (Some ''cmovnp'') (AM_G OR OT_v OR P_w) (AM_E OR OT_v OR P_r) FLAGS_NONE True 0 0 0 0,
    INST INSTRUCTION_TYPE_MOVC (Some ''cmovl'') (AM_G OR OT_v OR P_w) (AM_E OR OT_v OR P_r) FLAGS_NONE True 0 0 0 0,
    INST INSTRUCTION_TYPE_MOVC (Some ''cmovge'') (AM_G OR OT_v OR P_w) (AM_E OR OT_v OR P_r) FLAGS_NONE True 0 0 0 0,
    INST INSTRUCTION_TYPE_MOVC (Some ''cmovle'') (AM_G OR OT_v OR P_w) (AM_E OR OT_v OR P_r) FLAGS_NONE True 0 0 0 0,
    INST INSTRUCTION_TYPE_MOVC (Some ''cmovg'') (AM_G OR OT_v OR P_w) (AM_E OR OT_v OR P_r) FLAGS_NONE True 0 0 0 0,
    INST (INSTRUCTION_TYPE_SSE OR TYPE_3) (Some ''movmskps'') (AM_G OR OT_d OR P_w) (AM_V OR OT_ps OR P_r) FLAGS_NONE True 0 0 0 0,
    INST (INSTRUCTION_TYPE_SSE OR TYPE_3) (Some ''sqrtps'') (AM_V OR OT_ps OR P_w) (AM_W OR OT_ps OR P_r) FLAGS_NONE True 0 0 0 0,
    INST (INSTRUCTION_TYPE_SSE OR TYPE_3) (Some ''rsqrtps'') (AM_V OR OT_ps OR P_w) (AM_W OR OT_ps OR P_r) FLAGS_NONE True 0 0 0 0,
    INST (INSTRUCTION_TYPE_SSE OR TYPE_3) (Some ''rcpps'') (AM_V OR OT_ps OR P_w) (AM_W OR OT_ps OR P_r) FLAGS_NONE True 0 0 0 0,
    INST (INSTRUCTION_TYPE_SSE OR TYPE_3) (Some ''andps'') (AM_V OR OT_ps OR P_w) (AM_W OR OT_ps OR P_r) FLAGS_NONE True 0 0 0 0,
    INST (INSTRUCTION_TYPE_SSE OR TYPE_3) (Some ''andnps'') (AM_V OR OT_ps OR P_w) (AM_W OR OT_ps OR P_r) FLAGS_NONE True 0 0 0 0,
    INST (INSTRUCTION_TYPE_SSE OR TYPE_3) (Some ''orps'') (AM_V OR OT_ps OR P_w) (AM_W OR OT_ps OR P_r) FLAGS_NONE True 0 0 0 0,
    INST (INSTRUCTION_TYPE_SSE OR TYPE_3) (Some ''xorps'') (AM_V OR OT_ps OR P_w) (AM_W OR OT_ps OR P_r) FLAGS_NONE True 0 0 0 0,
    INST (INSTRUCTION_TYPE_SSE OR TYPE_3) (Some ''addps'') (AM_V OR OT_ps OR P_w) (AM_W OR OT_ps OR P_r) FLAGS_NONE True 0 0 0 0,
    INST (INSTRUCTION_TYPE_SSE OR TYPE_3) (Some ''mulps'') (AM_V OR OT_ps OR P_w) (AM_W OR OT_ps OR P_r) FLAGS_NONE True 0 0 0 0,
    INST (INSTRUCTION_TYPE_SSE OR TYPE_3) (Some ''cvtps2pd'') (AM_V OR OT_pd OR P_r) (AM_W OR OT_q OR P_r) FLAGS_NONE True 0 0 0 0,
    INST (INSTRUCTION_TYPE_SSE OR TYPE_3) (Some ''cvtdq2ps'') (AM_V OR OT_ps OR P_r) (AM_W OR OT_dq OR P_r) FLAGS_NONE True 0 0 0 0,
    INST (INSTRUCTION_TYPE_SSE OR TYPE_3) (Some ''subps'') (AM_V OR OT_ps OR P_w) (AM_W OR OT_ps OR P_r) FLAGS_NONE True 0 0 0 0,
    INST (INSTRUCTION_TYPE_SSE OR TYPE_3) (Some ''minps'') (AM_V OR OT_ps OR P_w) (AM_W OR OT_ps OR P_r) FLAGS_NONE True 0 0 0 0,
    INST (INSTRUCTION_TYPE_SSE OR TYPE_3) (Some ''divps'') (AM_V OR OT_ps OR P_w) (AM_W OR OT_ps OR P_r) FLAGS_NONE True 0 0 0 0,
    INST (INSTRUCTION_TYPE_SSE OR TYPE_3) (Some ''maxps'') (AM_V OR OT_ps OR P_w) (AM_W OR OT_ps OR P_r) FLAGS_NONE True 0 0 0 0,
    INST (INSTRUCTION_TYPE_MMX OR TYPE_3) (Some ''punpcklbw'') (AM_P OR OT_q OR P_w) (AM_Q OR OT_d OR P_r) FLAGS_NONE True 0 0 0 0,
    INST (INSTRUCTION_TYPE_MMX OR TYPE_3) (Some ''punpcklwd'') (AM_P OR OT_q OR P_w) (AM_Q OR OT_d OR P_r) FLAGS_NONE True 0 0 0 0,
    INST (INSTRUCTION_TYPE_MMX OR TYPE_3) (Some ''punpckldq'') (AM_P OR OT_q OR P_w) (AM_Q OR OT_d OR P_r) FLAGS_NONE True 0 0 0 0,
    INST (INSTRUCTION_TYPE_MMX OR TYPE_3) (Some ''packusdw'') (AM_P OR OT_q OR P_w) (AM_Q OR OT_d OR P_r) FLAGS_NONE True 0 0 0 0,
    INST (INSTRUCTION_TYPE_MMX OR TYPE_3) (Some ''pcmpgtb'') (AM_P OR OT_q OR P_w) (AM_Q OR OT_d OR P_r) FLAGS_NONE True 0 0 0 0,
    INST (INSTRUCTION_TYPE_MMX OR TYPE_3) (Some ''pcmpgtw'') (AM_P OR OT_q OR P_w) (AM_Q OR OT_d OR P_r) FLAGS_NONE True 0 0 0 0,
    INST (INSTRUCTION_TYPE_MMX OR TYPE_3) (Some ''pcmpgtd'') (AM_P OR OT_q OR P_w) (AM_Q OR OT_d OR P_r) FLAGS_NONE True 0 0 0 0,
    INST (INSTRUCTION_TYPE_MMX OR TYPE_3) (Some ''packsswb'') (AM_P OR OT_q OR P_w) (AM_Q OR OT_d OR P_r) FLAGS_NONE True 0 0 0 0,
    INST (INSTRUCTION_TYPE_MMX OR TYPE_3) (Some ''punpckhbw'') (AM_P OR OT_q OR P_w) (AM_Q OR OT_d OR P_r) FLAGS_NONE True 0 0 0 0,
    INST (INSTRUCTION_TYPE_MMX OR TYPE_3) (Some ''punpckhbd'') (AM_P OR OT_q OR P_w) (AM_Q OR OT_d OR P_r) FLAGS_NONE True 0 0 0 0,
    INST (INSTRUCTION_TYPE_MMX OR TYPE_3) (Some ''punpckhdq'') (AM_P OR OT_q OR P_w) (AM_Q OR OT_d OR P_r) FLAGS_NONE True 0 0 0 0,
    INST (INSTRUCTION_TYPE_MMX OR TYPE_3) (Some ''packssdw'') (AM_P OR OT_q OR P_w) (AM_Q OR OT_d OR P_r) FLAGS_NONE True 0 0 0 0,
    NO_INST (INSTRUCTION_TYPE_OTHER OR TYPE_3),
    NO_INST (INSTRUCTION_TYPE_OTHER OR TYPE_3),
    INST (INSTRUCTION_TYPE_MMX OR TYPE_3) (Some ''movd'') (AM_P OR OT_d OR P_w) (AM_E OR OT_d OR P_r) FLAGS_NONE True 0 0 0 0,
    INST (INSTRUCTION_TYPE_MMX OR TYPE_3) (Some ''movq'') (AM_P OR OT_q OR P_w) (AM_Q OR OT_q OR P_r) FLAGS_NONE True 0 0 0 0,
    INST (INSTRUCTION_TYPE_MMX OR TYPE_3) (Some ''pshufw'') (AM_P OR OT_q OR P_w) (AM_Q OR OT_q OR P_r) (AM_I OR OT_b) True 0 0 0 0,
    INST INSTRUCTION_TYPE_MMX (Some ''g12'') (AM_P OR OT_q) (AM_I OR OT_b) FLAGS_NONE True 0 0 0 0,
    INST INSTRUCTION_TYPE_MMX (Some ''g13'') (AM_P OR OT_q) (AM_I OR OT_b) FLAGS_NONE True 0 0 0 0,
    INST INSTRUCTION_TYPE_MMX (Some ''g14'') (AM_P OR OT_q) (AM_I OR OT_b) FLAGS_NONE True 0 0 0 0,
    INST (INSTRUCTION_TYPE_MMX OR TYPE_3) (Some ''pcmpeqb'') (AM_P OR OT_q OR P_w) (AM_Q OR OT_q OR P_r) FLAGS_NONE True 0 0 0 0,
    INST (INSTRUCTION_TYPE_MMX OR TYPE_3) (Some ''pcmpeqw'') (AM_P OR OT_q OR P_w) (AM_Q OR OT_q OR P_r) FLAGS_NONE True 0 0 0 0,
    INST (INSTRUCTION_TYPE_MMX OR TYPE_3) (Some ''pcmpeqd'') (AM_P OR OT_q OR P_w) (AM_Q OR OT_q OR P_r) FLAGS_NONE True 0 0 0 0,
    INST INSTRUCTION_TYPE_MMX (Some ''emms'') FLAGS_NONE FLAGS_NONE FLAGS_NONE False 0 0 0 0,
    NO_INST INSTRUCTION_TYPE_OTHER,
    NO_INST INSTRUCTION_TYPE_OTHER,
    NO_INST INSTRUCTION_TYPE_OTHER,
    NO_INST INSTRUCTION_TYPE_OTHER,
    NO_INST 1,
    NO_INST 1,
    INST (INSTRUCTION_TYPE_MMX OR TYPE_3) (Some ''movd'') (AM_E OR OT_d OR P_w) (AM_P OR OT_d OR P_r) FLAGS_NONE True 0 0 0 0,
    INST (INSTRUCTION_TYPE_MMX OR TYPE_3) (Some ''movq'') (AM_Q OR OT_q OR P_w) (AM_P OR OT_q OR P_r) FLAGS_NONE True 0 0 0 0
  ]"

definition inst_table2_hi :: "INST list" where [libdasm_tables]:
  "inst_table2_hi = [
    INST INSTRUCTION_TYPE_JMPC (Some ''jo'') (AM_J OR OT_v OR P_x) FLAGS_NONE FLAGS_NONE False 0 EFL_OF 0 0,
    INST INSTRUCTION_TYPE_JMPC (Some ''jno'') (AM_J OR OT_v OR P_x) FLAGS_NONE FLAGS_NONE False 0 EFL_OF 0 0,
    INST INSTRUCTION_TYPE_JMPC (Some ''jc'') (AM_J OR OT_v OR P_x) FLAGS_NONE FLAGS_NONE False 0 EFL_CF 0 0,
    INST INSTRUCTION_TYPE_JMPC (Some ''jnc'') (AM_J OR OT_v OR P_x) FLAGS_NONE FLAGS_NONE False 0 EFL_CF 0 0,
    INST INSTRUCTION_TYPE_JMPC (Some ''jz'') (AM_J OR OT_v OR P_x) FLAGS_NONE FLAGS_NONE False 0 EFL_ZF 0 0,
    INST INSTRUCTION_TYPE_JMPC (Some ''jnz'') (AM_J OR OT_v OR P_x) FLAGS_NONE FLAGS_NONE False 0 EFL_ZF 0 0,
    INST INSTRUCTION_TYPE_JMPC (Some ''jna'') (AM_J OR OT_v OR P_x) FLAGS_NONE FLAGS_NONE False 0 (EFL_CF OR EFL_ZF) 0 0,
    INST INSTRUCTION_TYPE_JMPC (Some ''ja'') (AM_J OR OT_v OR P_x) FLAGS_NONE FLAGS_NONE False 0 (EFL_CF OR EFL_ZF) 0 0,
    INST INSTRUCTION_TYPE_JMPC (Some ''js'') (AM_J OR OT_v OR P_x) FLAGS_NONE FLAGS_NONE False 0 EFL_SF 0 0,
    INST INSTRUCTION_TYPE_JMPC (Some ''jns'') (AM_J OR OT_v OR P_x) FLAGS_NONE FLAGS_NONE False 0 EFL_SF 0 0,
    INST INSTRUCTION_TYPE_JMPC (Some ''jp'') (AM_J OR OT_v OR P_x) FLAGS_NONE FLAGS_NONE False 0 EFL_PF 0 0,
    INST INSTRUCTION_TYPE_JMPC (Some ''jpo'') (AM_J OR OT_v OR P_x) FLAGS_NONE FLAGS_NONE False 0 EFL_PF 0 0,
    INST INSTRUCTION_TYPE_JMPC (Some ''jl'') (AM_J OR OT_v OR P_x) FLAGS_NONE FLAGS_NONE False 0 (EFL_SF OR EFL_OF) 0 0,
    INST INSTRUCTION_TYPE_JMPC (Some ''jnl'') (AM_J OR OT_v OR P_x) FLAGS_NONE FLAGS_NONE False 0 (EFL_SF OR EFL_OF) 0 0,
    INST INSTRUCTION_TYPE_JMPC (Some ''jng'') (AM_J OR OT_v OR P_x) FLAGS_NONE FLAGS_NONE False 0 (EFL_ZF OR EFL_SF OR EFL_OF) 0 0,
    INST INSTRUCTION_TYPE_JMPC (Some ''jg'') (AM_J OR OT_v OR P_x) FLAGS_NONE FLAGS_NONE False 0 (EFL_ZF OR EFL_SF OR EFL_OF) 0 0,
    INST INSTRUCTION_TYPE_SETC (Some ''seto'') (AM_E OR OT_b OR P_w) FLAGS_NONE FLAGS_NONE True 0 EFL_OF 0 0,
    INST INSTRUCTION_TYPE_SETC (Some ''setno'') (AM_E OR OT_b OR P_w) FLAGS_NONE FLAGS_NONE True 0 EFL_OF 0 0,
    INST INSTRUCTION_TYPE_SETC (Some ''setb'') (AM_E OR OT_b OR P_w) FLAGS_NONE FLAGS_NONE True 0 EFL_CF 0 0,
    INST INSTRUCTION_TYPE_SETC (Some ''setnb'') (AM_E OR OT_b OR P_w) FLAGS_NONE FLAGS_NONE True 0 EFL_CF 0 0,
    INST INSTRUCTION_TYPE_SETC (Some ''setz'') (AM_E OR OT_b OR P_w) FLAGS_NONE FLAGS_NONE True 0 EFL_ZF 0 0,
    INST INSTRUCTION_TYPE_SETC (Some ''setnz'') (AM_E OR OT_b OR P_w) FLAGS_NONE FLAGS_NONE True 0 EFL_ZF 0 0,
    INST INSTRUCTION_TYPE_SETC (Some ''setbe'') (AM_E OR OT_b OR P_w) FLAGS_NONE FLAGS_NONE True 0 (EFL_CF OR EFL_ZF) 0 0,
    INST INSTRUCTION_TYPE_SETC (Some ''setnbe'') (AM_E OR OT_b OR P_w) FLAGS_NONE FLAGS_NONE True 0 (EFL_CF OR EFL_ZF) 0 0,
    INST INSTRUCTION_TYPE_SETC (Some ''sets'') (AM_E OR OT_b OR P_w) FLAGS_NONE FLAGS_NONE True 0 EFL_SF 0 0,
    INST INSTRUCTION_TYPE_SETC (Some ''setns'') (AM_E OR OT_b OR P_w) FLAGS_NONE FLAGS_NONE True 0 EFL_SF 0 0,
    INST INSTRUCTION_TYPE_SETC (Some ''setp'') (AM_E OR OT_b OR P_w) FLAGS_NONE FLAGS_NONE True 0 EFL_PF 0 0,
    INST INSTRUCTION_TYPE_SETC (Some ''setnp'') (AM_E OR OT_b OR P_w) FLAGS_NONE FLAGS_NONE True 0 EFL_PF 0 0,
    INST INSTRUCTION_TYPE_SETC (Some ''setl'') (AM_E OR OT_b OR P_w) FLAGS_NONE FLAGS_NONE True 0 (EFL_SF OR EFL_OF) 0 0,
    INST INSTRUCTION_TYPE_SETC (Some ''setnl'') (AM_E OR OT_b OR P_w) FLAGS_NONE FLAGS_NONE True 0 (EFL_SF OR EFL_OF) 0 0,
    INST INSTRUCTION_TYPE_SETC (Some ''setle'') (AM_E OR OT_b OR P_w) FLAGS_NONE FLAGS_NONE True 0 (EFL_ZF OR EFL_SF OR EFL_OF) 0 0,
    INST INSTRUCTION_TYPE_SETC (Some ''setnle'') (AM_E OR OT_b OR P_w) FLAGS_NONE FLAGS_NONE True 0 (EFL_ZF OR EFL_SF OR EFL_OF) 0 0,
    INST INSTRUCTION_TYPE_PUSH (Some ''push'') (AM_LIBDASM_REG OR LIBDASM_REG_FS OR F_r OR P_r) FLAGS_NONE FLAGS_NONE False 0 0 IOP_ESP IOP_ESP,
    INST INSTRUCTION_TYPE_POP (Some ''pop'') (AM_LIBDASM_REG OR LIBDASM_REG_FS OR F_r OR P_w) FLAGS_NONE FLAGS_NONE False 0 0 IOP_ESP IOP_ESP,
    INST INSTRUCTION_TYPE_OTHER (Some ''cpuid'') FLAGS_NONE FLAGS_NONE FLAGS_NONE False 0 0 (IOP_EAX OR IOP_EBX OR IOP_ECX OR IOP_EDX) IOP_EAX,
    INST INSTRUCTION_TYPE_BT (Some ''bt'') (AM_E OR OT_v OR P_r) (AM_G OR OT_v OR P_r) FLAGS_NONE True EFL_CF 0 0 0,
    INST INSTRUCTION_TYPE_OTHER (Some ''shld'') (AM_E OR OT_v OR P_w) (AM_G OR OT_v OR P_r) (AM_I OR OT_b OR P_r) True (EFL_CF OR EFL_SF OR EFL_ZF OR EFL_PF OR EFL_OF OR EFL_AF) 0 0 0,
    INST INSTRUCTION_TYPE_OTHER (Some ''shld'') (AM_E OR OT_v OR P_w) (AM_G OR OT_v OR P_r) (AM_LIBDASM_REG OR LIBDASM_REG_ECX OR OT_b OR P_r) True (EFL_CF OR EFL_SF OR EFL_ZF OR EFL_PF OR EFL_OF OR EFL_AF) 0 0 0,
    NO_INST INSTRUCTION_TYPE_OTHER,
    NO_INST INSTRUCTION_TYPE_OTHER,
    INST INSTRUCTION_TYPE_PUSH (Some ''push'') (AM_LIBDASM_REG OR LIBDASM_REG_GS OR F_r OR P_r) FLAGS_NONE FLAGS_NONE False 0 0 IOP_ESP IOP_ESP,
    INST INSTRUCTION_TYPE_POP (Some ''pop'') (AM_LIBDASM_REG OR LIBDASM_REG_GS OR F_r OR P_w) FLAGS_NONE FLAGS_NONE False 0 0 IOP_ESP IOP_ESP,
    INST INSTRUCTION_TYPE_OTHER (Some ''rsm'') FLAGS_NONE FLAGS_NONE FLAGS_NONE False 0 0 0 0,
    INST INSTRUCTION_TYPE_BTS (Some ''bts'') (AM_E OR OT_v OR P_r) (AM_G OR OT_v OR P_r) FLAGS_NONE True EFL_CF 0 0 0,
    INST INSTRUCTION_TYPE_OTHER (Some ''shrd'') (AM_E OR OT_v OR P_w) (AM_G OR OT_v OR P_r) (AM_I OR OT_b OR P_r) True (EFL_CF OR EFL_SF OR EFL_ZF OR EFL_PF OR EFL_OF OR EFL_AF) 0 0 0,
    INST INSTRUCTION_TYPE_OTHER (Some ''shrd'') (AM_E OR OT_v OR P_w) (AM_G OR OT_v OR P_r) (AM_LIBDASM_REG OR LIBDASM_REG_ECX OR OT_b OR P_r) True (EFL_CF OR EFL_SF OR EFL_ZF OR EFL_PF OR EFL_OF OR EFL_AF) 0 0 0,
    INST INSTRUCTION_TYPE_OTHER (Some ''grp15'') (AM_E OR OT_v) FLAGS_NONE FLAGS_NONE True 0 0 0 0,
    INST INSTRUCTION_TYPE_EIMUL (Some ''imul'') (AM_G OR OT_v OR P_r) (AM_E OR OT_v OR P_r) (FLAGS_NONE OR P_r) True (EFL_CF OR EFL_OF) 0 0 0,
    INST INSTRUCTION_TYPE_OTHER (Some ''cmpxchg'') (AM_E OR OT_b OR P_w) (AM_G OR OT_b OR P_w) FLAGS_NONE True EFL_ALL_COMMON 0 IOP_EAX IOP_EAX,
    INST INSTRUCTION_TYPE_OTHER (Some ''cmpxchg'') (AM_E OR OT_v OR P_w) (AM_G OR OT_v OR P_w) FLAGS_NONE True EFL_ALL_COMMON 0 IOP_EAX IOP_EAX,
    INST INSTRUCTION_TYPE_LFP (Some ''lss'') (AM_G OR OT_v OR P_w) (AM_M OR OT_v OR P_r) FLAGS_NONE True 0 0 0 0,
    INST INSTRUCTION_TYPE_BTR (Some ''btr'') (AM_E OR OT_v OR P_r) (AM_G OR OT_v OR P_r) FLAGS_NONE True EFL_CF 0 0 0,
    INST INSTRUCTION_TYPE_LFP (Some ''lfs'') (AM_G OR OT_v OR P_w) (AM_M OR OT_v OR P_r) FLAGS_NONE True 0 0 0 0,
    INST INSTRUCTION_TYPE_LFP (Some ''lgs'') (AM_G OR OT_v OR P_w) (AM_M OR OT_v OR P_r) FLAGS_NONE True 0 0 0 0,
    INST INSTRUCTION_TYPE_MOVZX (Some ''movzx'') (AM_G OR OT_v OR P_w) (AM_E OR OT_v OR P_r) FLAGS_NONE True 0 0 0 0,
    INST INSTRUCTION_TYPE_MOVZX (Some ''movzx'') (AM_G OR OT_d OR P_w) (AM_E OR OT_v OR P_r) FLAGS_NONE True 0 0 0 0,
    NO_INST INSTRUCTION_TYPE_OTHER,
    NO_INST INSTRUCTION_TYPE_OTHER,
    INST INSTRUCTION_TYPE_OTHER (Some ''g8'') (AM_E OR OT_v) (AM_I OR OT_b) FLAGS_NONE True 0 0 0 0,
    INST INSTRUCTION_TYPE_BTC (Some ''btc'') (AM_E OR OT_v OR P_r) (AM_G OR OT_v OR P_r) FLAGS_NONE True EFL_CF 0 0 0,
    INST INSTRUCTION_TYPE_BSF (Some ''bsf'') (AM_G OR OT_v OR P_r) (AM_E OR OT_v OR P_r) FLAGS_NONE True EFL_ZF 0 0 0,
    INST INSTRUCTION_TYPE_BSR (Some ''bsr'') (AM_G OR OT_v OR P_r) (AM_E OR OT_v OR P_r) FLAGS_NONE True EFL_ZF 0 0 0,
    INST INSTRUCTION_TYPE_MOVSX (Some ''movsx'') (AM_G OR OT_v OR P_w) (AM_E OR OT_b OR P_r) FLAGS_NONE True 0 0 0 0,
    INST INSTRUCTION_TYPE_MOVSX (Some ''movsx'') (AM_G OR OT_v OR P_w) (AM_E OR OT_w OR P_r) FLAGS_NONE True 0 0 0 0,
    INST INSTRUCTION_TYPE_XADD (Some ''xadd'') (AM_E OR OT_b OR P_w) (AM_G OR OT_b OR P_w) FLAGS_NONE True EFL_ALL_COMMON 0 0 0,
    INST INSTRUCTION_TYPE_XADD (Some ''xadd'') (AM_E OR OT_v OR P_w) (AM_G OR OT_v OR P_w) FLAGS_NONE True EFL_ALL_COMMON 0 0 0,
    INST (INSTRUCTION_TYPE_SSE OR TYPE_3) (Some ''cmpps'') (AM_V OR OT_ps OR P_r) (AM_W OR OT_ps OR P_r) (AM_I OR OT_b) True 0 0 0 0,
    INST INSTRUCTION_TYPE_OTHER (Some ''movnti'') (AM_M OR OT_d OR P_w) (AM_G OR OT_d OR P_r) FLAGS_NONE True 0 0 0 0,
    INST (INSTRUCTION_TYPE_SSE OR TYPE_3) (Some ''pinsrw'') (AM_P OR OT_w OR P_w) (AM_E OR OT_w OR P_r) (AM_I OR OT_b) True 0 0 0 0,
    INST (INSTRUCTION_TYPE_SSE OR TYPE_3) (Some ''pextrv'') (AM_G OR OT_w OR P_w) (AM_P OR OT_w OR P_r) (AM_I OR OT_b OR P_r) True 0 0 0 0,
    INST (INSTRUCTION_TYPE_SSE OR TYPE_3) (Some ''shufps'') (AM_V OR OT_ps OR P_w) (AM_W OR OT_ps OR P_r) (AM_I OR OT_b OR P_r) True 0 0 0 0,
    INST INSTRUCTION_TYPE_OTHER (Some ''g9'') FLAGS_NONE FLAGS_NONE FLAGS_NONE False 0 0 0 0,
    INST INSTRUCTION_TYPE_BSWAP (Some ''bswap'') (AM_LIBDASM_REG OR LIBDASM_REG_EAX OR OT_v OR P_w) FLAGS_NONE FLAGS_NONE False 0 0 0 0,
    INST INSTRUCTION_TYPE_BSWAP (Some ''bswap'') (AM_LIBDASM_REG OR LIBDASM_REG_ECX OR OT_v OR P_w) FLAGS_NONE FLAGS_NONE False 0 0 0 0,
    INST INSTRUCTION_TYPE_BSWAP (Some ''bswap'') (AM_LIBDASM_REG OR LIBDASM_REG_EDX OR OT_v OR P_w) FLAGS_NONE FLAGS_NONE False 0 0 0 0,
    INST INSTRUCTION_TYPE_BSWAP (Some ''bswap'') (AM_LIBDASM_REG OR LIBDASM_REG_EBX OR OT_v OR P_w) FLAGS_NONE FLAGS_NONE False 0 0 0 0,
    INST INSTRUCTION_TYPE_BSWAP (Some ''bswap'') (AM_LIBDASM_REG OR LIBDASM_REG_ESP OR OT_v OR P_w) FLAGS_NONE FLAGS_NONE False 0 0 0 0,
    INST INSTRUCTION_TYPE_BSWAP (Some ''bswap'') (AM_LIBDASM_REG OR LIBDASM_REG_EBP OR OT_v OR P_w) FLAGS_NONE FLAGS_NONE False 0 0 0 0,
    INST INSTRUCTION_TYPE_BSWAP (Some ''bswap'') (AM_LIBDASM_REG OR LIBDASM_REG_ESI OR OT_v OR P_w) FLAGS_NONE FLAGS_NONE False 0 0 0 0,
    INST INSTRUCTION_TYPE_BSWAP (Some ''bswap'') (AM_LIBDASM_REG OR LIBDASM_REG_EDI OR OT_v OR P_w) FLAGS_NONE FLAGS_NONE False 0 0 0 0,
    NO_INST (INSTRUCTION_TYPE_OTHER OR TYPE_3),
    INST (INSTRUCTION_TYPE_MMX OR TYPE_3) (Some ''psrlw'') (AM_P OR OT_q OR P_w) (AM_Q OR OT_q OR P_r) FLAGS_NONE True 0 0 0 0,
    INST (INSTRUCTION_TYPE_MMX OR TYPE_3) (Some ''psrld'') (AM_P OR OT_q OR P_w) (AM_Q OR OT_q OR P_r) FLAGS_NONE True 0 0 0 0,
    INST (INSTRUCTION_TYPE_MMX OR TYPE_3) (Some ''psrlq'') (AM_P OR OT_q OR P_w) (AM_Q OR OT_q OR P_r) FLAGS_NONE True 0 0 0 0,
    INST (INSTRUCTION_TYPE_MMX OR TYPE_3) (Some ''paddq'') (AM_P OR OT_q OR P_w) (AM_Q OR OT_q OR P_r) FLAGS_NONE True 0 0 0 0,
    INST (INSTRUCTION_TYPE_MMX OR TYPE_3) (Some ''pmullw'') (AM_P OR OT_q OR P_w) (AM_Q OR OT_q OR P_r) FLAGS_NONE True 0 0 0 0,
    NO_INST (INSTRUCTION_TYPE_OTHER OR TYPE_3),
    INST (INSTRUCTION_TYPE_MMX OR TYPE_3) (Some ''pmovmskb'') (AM_G OR OT_q OR P_w) (AM_P OR OT_q OR P_r) FLAGS_NONE True 0 0 0 0,
    INST (INSTRUCTION_TYPE_MMX OR TYPE_3) (Some ''psubusb'') (AM_P OR OT_q OR P_w) (AM_Q OR OT_q OR P_r) FLAGS_NONE True 0 0 0 0,
    INST (INSTRUCTION_TYPE_MMX OR TYPE_3) (Some ''psubusw'') (AM_P OR OT_q OR P_w) (AM_Q OR OT_q OR P_r) FLAGS_NONE True 0 0 0 0,
    INST (INSTRUCTION_TYPE_MMX OR TYPE_3) (Some ''pminub'') (AM_P OR OT_q OR P_w) (AM_Q OR OT_q OR P_r) FLAGS_NONE True 0 0 0 0,
    INST (INSTRUCTION_TYPE_MMX OR TYPE_3) (Some ''pand'') (AM_P OR OT_q OR P_w) (AM_Q OR OT_q OR P_r) FLAGS_NONE True 0 0 0 0,
    INST (INSTRUCTION_TYPE_MMX OR TYPE_3) (Some ''paddusb'') (AM_P OR OT_q OR P_w) (AM_Q OR OT_q OR P_r) FLAGS_NONE True 0 0 0 0,
    INST (INSTRUCTION_TYPE_MMX OR TYPE_3) (Some ''paddusw'') (AM_P OR OT_q OR P_w) (AM_Q OR OT_q OR P_r) FLAGS_NONE True 0 0 0 0,
    INST (INSTRUCTION_TYPE_MMX OR TYPE_3) (Some ''pmaxsw'') (AM_P OR OT_q OR P_w) (AM_Q OR OT_q OR P_r) FLAGS_NONE True 0 0 0 0,
    INST (INSTRUCTION_TYPE_MMX OR TYPE_3) (Some ''pandn'') (AM_P OR OT_q OR P_w) (AM_Q OR OT_q OR P_r) FLAGS_NONE True 0 0 0 0,
    INST (INSTRUCTION_TYPE_MMX OR TYPE_3) (Some ''pavgb'') (AM_P OR OT_q OR P_w) (AM_Q OR OT_q OR P_r) FLAGS_NONE True 0 0 0 0,
    INST (INSTRUCTION_TYPE_MMX OR TYPE_3) (Some ''psraw'') (AM_P OR OT_q OR P_w) (AM_Q OR OT_q OR P_r) FLAGS_NONE True 0 0 0 0,
    INST (INSTRUCTION_TYPE_MMX OR TYPE_3) (Some ''psrad'') (AM_P OR OT_q OR P_w) (AM_Q OR OT_q OR P_r) FLAGS_NONE True 0 0 0 0,
    INST (INSTRUCTION_TYPE_MMX OR TYPE_3) (Some ''pavgw'') (AM_P OR OT_q OR P_w) (AM_Q OR OT_q OR P_r) FLAGS_NONE True 0 0 0 0,
    INST (INSTRUCTION_TYPE_MMX OR TYPE_3) (Some ''pmulhuw'') (AM_P OR OT_q OR P_w) (AM_Q OR OT_q OR P_r) FLAGS_NONE True 0 0 0 0,
    INST (INSTRUCTION_TYPE_MMX OR TYPE_3) (Some ''pmulhw'') (AM_P OR OT_q OR P_w) (AM_Q OR OT_q OR P_r) FLAGS_NONE True 0 0 0 0,
    NO_INST (INSTRUCTION_TYPE_OTHER OR TYPE_3),
    INST (INSTRUCTION_TYPE_MMX OR TYPE_3) (Some ''movntq'') (AM_M OR OT_q OR P_w) (AM_V OR OT_q OR P_r) FLAGS_NONE True 0 0 0 0,
    INST (INSTRUCTION_TYPE_MMX OR TYPE_3) (Some ''psubsb'') (AM_P OR OT_q OR P_w) (AM_Q OR OT_q OR P_r) FLAGS_NONE True 0 0 0 0,
    INST (INSTRUCTION_TYPE_MMX OR TYPE_3) (Some ''psubsw'') (AM_P OR OT_q OR P_w) (AM_Q OR OT_q OR P_r) FLAGS_NONE True 0 0 0 0,
    INST (INSTRUCTION_TYPE_MMX OR TYPE_3) (Some ''pminsw'') (AM_P OR OT_q OR P_w) (AM_Q OR OT_q OR P_r) FLAGS_NONE True 0 0 0 0,
    INST (INSTRUCTION_TYPE_MMX OR TYPE_3) (Some ''por'') (AM_P OR OT_q OR P_w) (AM_Q OR OT_q OR P_r) FLAGS_NONE True 0 0 0 0,
    INST (INSTRUCTION_TYPE_MMX OR TYPE_3) (Some ''paddsb'') (AM_P OR OT_q OR P_w) (AM_Q OR OT_q OR P_r) FLAGS_NONE True 0 0 0 0,
    INST (INSTRUCTION_TYPE_MMX OR TYPE_3) (Some ''paddsw'') (AM_P OR OT_q OR P_w) (AM_Q OR OT_q OR P_r) FLAGS_NONE True 0 0 0 0,
    INST (INSTRUCTION_TYPE_MMX OR TYPE_3) (Some ''pmaxsw'') (AM_P OR OT_q OR P_w) (AM_Q OR OT_q OR P_r) FLAGS_NONE True 0 0 0 0,
    INST (INSTRUCTION_TYPE_MMX OR TYPE_3) (Some ''pxor'') (AM_P OR OT_q) (AM_Q OR OT_q) FLAGS_NONE True 0 0 0 0,
    NO_INST (INSTRUCTION_TYPE_OTHER OR TYPE_3),
    INST (INSTRUCTION_TYPE_MMX OR TYPE_3) (Some ''psllw'') (AM_P OR OT_q OR P_w) (AM_Q OR OT_q OR P_r) FLAGS_NONE True 0 0 0 0,
    INST (INSTRUCTION_TYPE_MMX OR TYPE_3) (Some ''pslld'') (AM_P OR OT_q OR P_w) (AM_Q OR OT_q OR P_r) FLAGS_NONE True 0 0 0 0,
    INST (INSTRUCTION_TYPE_MMX OR TYPE_3) (Some ''psllq'') (AM_P OR OT_q OR P_w) (AM_Q OR OT_q OR P_r) FLAGS_NONE True 0 0 0 0,
    INST (INSTRUCTION_TYPE_MMX OR TYPE_3) (Some ''pmuludq'') (AM_P OR OT_q OR P_w) (AM_Q OR OT_q OR P_r) FLAGS_NONE True 0 0 0 0,
    INST (INSTRUCTION_TYPE_MMX OR TYPE_3) (Some ''pmaddwd'') (AM_P OR OT_q OR P_w) (AM_Q OR OT_q OR P_r) FLAGS_NONE True 0 0 0 0,
    INST (INSTRUCTION_TYPE_MMX OR TYPE_3) (Some ''psadbw'') (AM_P OR OT_q OR P_w) (AM_Q OR OT_q OR P_r) FLAGS_NONE True 0 0 0 0,
    INST (INSTRUCTION_TYPE_MMX OR TYPE_3) (Some ''maskmovq'') (AM_P OR OT_q OR P_w) (AM_Q OR OT_q OR P_r) FLAGS_NONE True 0 0 0 0,
    INST (INSTRUCTION_TYPE_MMX OR TYPE_3) (Some ''psubb'') (AM_P OR OT_q OR P_w) (AM_Q OR OT_q OR P_r) FLAGS_NONE True 0 0 0 0,
    INST (INSTRUCTION_TYPE_MMX OR TYPE_3) (Some ''psubw'') (AM_P OR OT_q OR P_w) (AM_Q OR OT_q OR P_r) FLAGS_NONE True 0 0 0 0,
    INST (INSTRUCTION_TYPE_MMX OR TYPE_3) (Some ''psubd'') (AM_P OR OT_q OR P_w) (AM_Q OR OT_q OR P_r) FLAGS_NONE True 0 0 0 0,
    INST (INSTRUCTION_TYPE_MMX OR TYPE_3) (Some ''psubq'') (AM_P OR OT_q OR P_w) (AM_Q OR OT_q OR P_r) FLAGS_NONE True 0 0 0 0,
    INST (INSTRUCTION_TYPE_MMX OR TYPE_3) (Some ''paddb'') (AM_P OR OT_q OR P_w) (AM_Q OR OT_q OR P_r) FLAGS_NONE True 0 0 0 0,
    INST (INSTRUCTION_TYPE_MMX OR TYPE_3) (Some ''paddw'') (AM_P OR OT_q OR P_w) (AM_Q OR OT_q OR P_r) FLAGS_NONE True 0 0 0 0,
    INST (INSTRUCTION_TYPE_MMX OR TYPE_3) (Some ''paddd'') (AM_P OR OT_q OR P_w) (AM_Q OR OT_q OR P_r) FLAGS_NONE True 0 0 0 0,
    NO_INST INSTRUCTION_TYPE_OTHER
  ]"

definition inst_table2 :: "INST list" where [libdasm_tables]:
  "inst_table2 = inst_table2_lo @ inst_table2_hi"

end
