(* ===== verification/Opcode_Table3.thy ===== *)
theory Opcode_Table3
  imports Libdasm_Base
begin

text \<open>
  The three tables of three-byte opcodes, one for each prefix \<open>0x66\<close>, \<open>0xf2\<close>, \<open>0xf3\<close>, of \<^verbatim>\<open>libdasm/opcode_tables.h\<close>, row by row, the fields in the order of
  the C initialisers.
\<close>

definition inst_table3_66_lo :: "INST list" where [libdasm_tables]:
  "inst_table3_66_lo = [
    NO_INST INSTRUCTION_TYPE_OTHER,
    NO_INST INSTRUCTION_TYPE_OTHER,
    NO_INST INSTRUCTION_TYPE_OTHER,
    NO_INST INSTRUCTION_TYPE_OTHER,
    NO_INST INSTRUCTION_TYPE_OTHER,
    NO_INST INSTRUCTION_TYPE_OTHER,
    NO_INST INSTRUCTION_TYPE_OTHER,
    NO_INST INSTRUCTION_TYPE_OTHER,
    NO_INST INSTRUCTION_TYPE_OTHER,
    NO_INST INSTRUCTION_TYPE_OTHER,
    NO_INST INSTRUCTION_TYPE_OTHER,
    NO_INST INSTRUCTION_TYPE_OTHER,
    NO_INST INSTRUCTION_TYPE_OTHER,
    NO_INST INSTRUCTION_TYPE_OTHER,
    NO_INST INSTRUCTION_TYPE_OTHER,
    NO_INST INSTRUCTION_TYPE_OTHER,
    INST INSTRUCTION_TYPE_SSE (Some ''movupd'') (AM_V OR OT_pd OR P_w) (AM_W OR OT_pd OR P_r) FLAGS_NONE True 0 0 0 0,
    INST INSTRUCTION_TYPE_SSE (Some ''movupd'') (AM_W OR OT_pd OR P_w) (AM_V OR OT_pd OR P_r) FLAGS_NONE True 0 0 0 0,
    INST INSTRUCTION_TYPE_SSE (Some ''movlpd'') (AM_V OR OT_q OR P_w) (AM_M OR OT_q OR P_r) FLAGS_NONE True 0 0 0 0,
    INST INSTRUCTION_TYPE_SSE (Some ''movlpd'') (AM_M OR OT_q OR P_w) (AM_V OR OT_q OR P_r) FLAGS_NONE True 0 0 0 0,
    INST INSTRUCTION_TYPE_SSE (Some ''unpcklpd'') (AM_V OR OT_pd OR P_w) (AM_W OR OT_pd OR P_r) FLAGS_NONE True 0 0 0 0,
    INST INSTRUCTION_TYPE_SSE (Some ''unpcklpd'') (AM_V OR OT_pd OR P_w) (AM_W OR OT_pd OR P_r) FLAGS_NONE True 0 0 0 0,
    INST INSTRUCTION_TYPE_SSE (Some ''movhpd'') (AM_V OR OT_q OR P_w) (AM_M OR OT_q OR P_r) FLAGS_NONE True 0 0 0 0,
    INST INSTRUCTION_TYPE_SSE (Some ''movhpd'') (AM_M OR OT_q OR P_w) (AM_V OR OT_pd OR P_r) FLAGS_NONE True 0 0 0 0,
    NO_INST INSTRUCTION_TYPE_OTHER,
    NO_INST INSTRUCTION_TYPE_OTHER,
    NO_INST INSTRUCTION_TYPE_OTHER,
    NO_INST INSTRUCTION_TYPE_OTHER,
    NO_INST INSTRUCTION_TYPE_OTHER,
    NO_INST INSTRUCTION_TYPE_OTHER,
    NO_INST INSTRUCTION_TYPE_OTHER,
    NO_INST INSTRUCTION_TYPE_OTHER,
    NO_INST INSTRUCTION_TYPE_OTHER,
    NO_INST INSTRUCTION_TYPE_OTHER,
    NO_INST INSTRUCTION_TYPE_OTHER,
    NO_INST INSTRUCTION_TYPE_OTHER,
    NO_INST INSTRUCTION_TYPE_OTHER,
    NO_INST INSTRUCTION_TYPE_OTHER,
    NO_INST INSTRUCTION_TYPE_OTHER,
    NO_INST INSTRUCTION_TYPE_OTHER,
    INST INSTRUCTION_TYPE_SSE (Some ''movapd'') (AM_V OR OT_pd OR P_w) (AM_W OR OT_pd OR P_r) FLAGS_NONE True 0 0 0 0,
    INST INSTRUCTION_TYPE_SSE (Some ''movapd'') (AM_W OR OT_pd OR P_w) (AM_V OR OT_pd OR P_r) FLAGS_NONE True 0 0 0 0,
    INST INSTRUCTION_TYPE_SSE (Some ''cvtpi2pd'') (AM_V OR OT_pd OR P_r) (AM_Q OR OT_q OR P_r) FLAGS_NONE True 0 0 0 0,
    INST INSTRUCTION_TYPE_SSE (Some ''movntpd'') (AM_M OR OT_pd OR P_w) (AM_V OR OT_pd OR P_r) FLAGS_NONE True 0 0 0 0,
    INST INSTRUCTION_TYPE_SSE (Some ''cvttpd2pi'') (AM_P OR OT_q OR P_r) (AM_W OR OT_pd OR P_r) FLAGS_NONE True 0 0 0 0,
    INST INSTRUCTION_TYPE_SSE (Some ''cvtpd2pi'') (AM_P OR OT_q OR P_r) (AM_W OR OT_pd OR P_r) FLAGS_NONE True 0 0 0 0,
    INST INSTRUCTION_TYPE_SSE (Some ''ucomisd'') (AM_V OR OT_sd OR P_w) (AM_W OR OT_sd OR P_r) FLAGS_NONE True 0 0 0 0,
    INST INSTRUCTION_TYPE_SSE (Some ''comisd'') (AM_V OR OT_sd OR P_w) (AM_W OR OT_sd OR P_w) FLAGS_NONE True 0 0 0 0,
    NO_INST INSTRUCTION_TYPE_OTHER,
    NO_INST INSTRUCTION_TYPE_OTHER,
    NO_INST INSTRUCTION_TYPE_OTHER,
    NO_INST INSTRUCTION_TYPE_OTHER,
    NO_INST INSTRUCTION_TYPE_OTHER,
    NO_INST INSTRUCTION_TYPE_OTHER,
    NO_INST INSTRUCTION_TYPE_OTHER,
    NO_INST INSTRUCTION_TYPE_OTHER,
    NO_INST INSTRUCTION_TYPE_OTHER,
    NO_INST INSTRUCTION_TYPE_OTHER,
    NO_INST INSTRUCTION_TYPE_OTHER,
    NO_INST INSTRUCTION_TYPE_OTHER,
    NO_INST INSTRUCTION_TYPE_OTHER,
    NO_INST INSTRUCTION_TYPE_OTHER,
    NO_INST INSTRUCTION_TYPE_OTHER,
    NO_INST INSTRUCTION_TYPE_OTHER,
    NO_INST INSTRUCTION_TYPE_OTHER,
    NO_INST INSTRUCTION_TYPE_OTHER,
    NO_INST INSTRUCTION_TYPE_OTHER,
    NO_INST INSTRUCTION_TYPE_OTHER,
    NO_INST INSTRUCTION_TYPE_OTHER,
    NO_INST INSTRUCTION_TYPE_OTHER,
    NO_INST INSTRUCTION_TYPE_OTHER,
    NO_INST INSTRUCTION_TYPE_OTHER,
    NO_INST INSTRUCTION_TYPE_OTHER,
    NO_INST INSTRUCTION_TYPE_OTHER,
    NO_INST INSTRUCTION_TYPE_OTHER,
    NO_INST INSTRUCTION_TYPE_OTHER,
    NO_INST INSTRUCTION_TYPE_OTHER,
    NO_INST INSTRUCTION_TYPE_OTHER,
    NO_INST INSTRUCTION_TYPE_OTHER,
    NO_INST INSTRUCTION_TYPE_OTHER,
    INST INSTRUCTION_TYPE_SSE (Some ''movmskpd'') (AM_G OR OT_d OR P_w) (AM_V OR OT_pd OR P_r) FLAGS_NONE True 0 0 0 0,
    INST INSTRUCTION_TYPE_SSE (Some ''sqrtpd'') (AM_V OR OT_pd OR P_w) (AM_W OR OT_pd OR P_r) FLAGS_NONE True 0 0 0 0,
    NO_INST INSTRUCTION_TYPE_OTHER,
    NO_INST INSTRUCTION_TYPE_OTHER,
    INST INSTRUCTION_TYPE_SSE (Some ''andpd'') (AM_V OR OT_pd OR P_w) (AM_W OR OT_pd OR P_r) FLAGS_NONE True 0 0 0 0,
    INST INSTRUCTION_TYPE_SSE (Some ''andnpd'') (AM_V OR OT_pd OR P_w) (AM_W OR OT_pd OR P_r) FLAGS_NONE True 0 0 0 0,
    INST INSTRUCTION_TYPE_SSE (Some ''orpd'') (AM_V OR OT_pd OR P_w) (AM_W OR OT_pd OR P_r) FLAGS_NONE True 0 0 0 0,
    INST INSTRUCTION_TYPE_SSE (Some ''xorpd'') (AM_V OR OT_pd OR P_w) (AM_W OR OT_pd OR P_r) FLAGS_NONE True 0 0 0 0,
    INST INSTRUCTION_TYPE_SSE (Some ''addpd'') (AM_V OR OT_pd OR P_w) (AM_W OR OT_ps OR P_r) FLAGS_NONE True 0 0 0 0,
    INST INSTRUCTION_TYPE_SSE (Some ''mulpd'') (AM_V OR OT_pd OR P_w) (AM_W OR OT_ps OR P_r) FLAGS_NONE True 0 0 0 0,
    INST INSTRUCTION_TYPE_SSE (Some ''cvtpd2ps'') (AM_V OR OT_pd OR P_r) (AM_W OR OT_pd OR P_r) FLAGS_NONE True 0 0 0 0,
    INST INSTRUCTION_TYPE_SSE (Some ''cvtps2dq'') (AM_V OR OT_pd OR P_r) (AM_W OR OT_ps OR P_r) FLAGS_NONE True 0 0 0 0,
    INST INSTRUCTION_TYPE_SSE (Some ''subpd'') (AM_V OR OT_pd OR P_w) (AM_W OR OT_ps OR P_r) FLAGS_NONE True 0 0 0 0,
    INST INSTRUCTION_TYPE_SSE (Some ''minpd'') (AM_V OR OT_pd OR P_w) (AM_W OR OT_pd OR P_r) FLAGS_NONE True 0 0 0 0,
    INST INSTRUCTION_TYPE_SSE (Some ''divpd'') (AM_V OR OT_pd OR P_w) (AM_W OR OT_pd OR P_r) FLAGS_NONE True 0 0 0 0,
    INST INSTRUCTION_TYPE_SSE (Some ''maxpd'') (AM_V OR OT_pd OR P_w) (AM_W OR OT_pd OR P_r) FLAGS_NONE True 0 0 0 0,
    INST INSTRUCTION_TYPE_SSE (Some ''punpcklbw'') (AM_V OR OT_dq OR P_w) (AM_W OR OT_dq OR P_r) FLAGS_NONE True 0 0 0 0,
    INST INSTRUCTION_TYPE_SSE (Some ''punpcklwd'') (AM_V OR OT_dq OR P_w) (AM_W OR OT_dq OR P_r) FLAGS_NONE True 0 0 0 0,
    INST INSTRUCTION_TYPE_SSE (Some ''punockldq'') (AM_V OR OT_dq OR P_w) (AM_W OR OT_dq OR P_r) FLAGS_NONE True 0 0 0 0,
    INST INSTRUCTION_TYPE_SSE (Some ''packusdw'') (AM_V OR OT_dq OR P_w) (AM_W OR OT_dq OR P_r) FLAGS_NONE True 0 0 0 0,
    INST INSTRUCTION_TYPE_SSE (Some ''pcmpgtb'') (AM_V OR OT_dq OR P_w) (AM_W OR OT_dq OR P_r) FLAGS_NONE True 0 0 0 0,
    INST INSTRUCTION_TYPE_SSE (Some ''pcmpgtw'') (AM_V OR OT_dq OR P_w) (AM_W OR OT_dq OR P_r) FLAGS_NONE True 0 0 0 0,
    INST INSTRUCTION_TYPE_SSE (Some ''pcmpgtd'') (AM_V OR OT_dq OR P_w) (AM_W OR OT_dq OR P_r) FLAGS_NONE True 0 0 0 0,
    INST INSTRUCTION_TYPE_SSE (Some ''packsswb'') (AM_V OR OT_dq OR P_w) (AM_W OR OT_dq OR P_r) FLAGS_NONE True 0 0 0 0,
    INST INSTRUCTION_TYPE_SSE (Some ''punpckhbw'') (AM_V OR OT_dq OR P_w) (AM_Q OR OT_dq OR P_r) FLAGS_NONE True 0 0 0 0,
    INST INSTRUCTION_TYPE_SSE (Some ''punpckhbd'') (AM_V OR OT_dq OR P_w) (AM_Q OR OT_dq OR P_r) FLAGS_NONE True 0 0 0 0,
    INST INSTRUCTION_TYPE_SSE (Some ''punpckhdq'') (AM_V OR OT_dq OR P_w) (AM_Q OR OT_dq OR P_r) FLAGS_NONE True 0 0 0 0,
    INST INSTRUCTION_TYPE_SSE (Some ''packssdw'') (AM_V OR OT_dq OR P_w) (AM_Q OR OT_dq OR P_r) FLAGS_NONE True 0 0 0 0,
    INST INSTRUCTION_TYPE_SSE (Some ''punpcklqdq'') (AM_V OR OT_dq OR P_w) (AM_W OR OT_dq OR P_r) FLAGS_NONE True 0 0 0 0,
    INST INSTRUCTION_TYPE_SSE (Some ''punpckhqd'') (AM_V OR OT_dq OR P_w) (AM_W OR OT_dq OR P_r) FLAGS_NONE True 0 0 0 0,
    INST INSTRUCTION_TYPE_SSE (Some ''movd'') (AM_V OR OT_d OR P_w) (AM_E OR OT_dq OR P_r) FLAGS_NONE True 0 0 0 0,
    INST INSTRUCTION_TYPE_SSE (Some ''movdqa'') (AM_V OR OT_dq OR P_w) (AM_W OR OT_dq OR P_r) FLAGS_NONE True 0 0 0 0,
    INST INSTRUCTION_TYPE_SSE (Some ''pshufd'') (AM_V OR OT_dq OR P_w) (AM_W OR OT_dq OR P_r) (AM_I OR OT_b) True 0 0 0 0,
    INST INSTRUCTION_TYPE_SSE (Some ''g12'') (AM_P OR OT_dq) (AM_I OR OT_b) FLAGS_NONE True 0 0 0 0,
    INST INSTRUCTION_TYPE_SSE (Some ''g13'') (AM_W OR OT_dq) (AM_I OR OT_b) FLAGS_NONE True 0 0 0 0,
    INST INSTRUCTION_TYPE_SSE (Some ''g14'') (AM_W OR OT_dq) (AM_I OR OT_b) FLAGS_NONE True 0 0 0 0,
    INST INSTRUCTION_TYPE_SSE (Some ''pcmpeqb'') (AM_V OR OT_dq OR P_w) (AM_W OR OT_dq OR P_r) FLAGS_NONE True 0 0 0 0,
    INST INSTRUCTION_TYPE_SSE (Some ''pcmpeqw'') (AM_V OR OT_dq OR P_w) (AM_W OR OT_dq OR P_r) FLAGS_NONE True 0 0 0 0,
    INST INSTRUCTION_TYPE_SSE (Some ''pcmpeqd'') (AM_V OR OT_dq OR P_w) (AM_W OR OT_dq OR P_r) FLAGS_NONE True 0 0 0 0,
    NO_INST INSTRUCTION_TYPE_OTHER,
    NO_INST INSTRUCTION_TYPE_OTHER,
    NO_INST INSTRUCTION_TYPE_OTHER,
    NO_INST INSTRUCTION_TYPE_OTHER,
    NO_INST INSTRUCTION_TYPE_OTHER,
    INST INSTRUCTION_TYPE_SSE (Some ''haddpd'') (AM_V OR OT_pd) (AM_W OR OT_pd) FLAGS_NONE True 0 0 0 0,
    INST INSTRUCTION_TYPE_SSE (Some ''hsubpd'') (AM_V OR OT_pd) (AM_W OR OT_pd) FLAGS_NONE True 0 0 0 0,
    INST INSTRUCTION_TYPE_SSE (Some ''movd'') (AM_E OR OT_d OR P_w) (AM_V OR OT_d OR P_r) FLAGS_NONE True 0 0 0 0,
    INST INSTRUCTION_TYPE_SSE (Some ''movdqa'') (AM_W OR OT_dq OR P_w) (AM_V OR OT_dq OR P_r) FLAGS_NONE True 0 0 0 0
  ]"

definition inst_table3_66_hi :: "INST list" where [libdasm_tables]:
  "inst_table3_66_hi = [
    NO_INST INSTRUCTION_TYPE_OTHER,
    NO_INST INSTRUCTION_TYPE_OTHER,
    NO_INST INSTRUCTION_TYPE_OTHER,
    NO_INST INSTRUCTION_TYPE_OTHER,
    NO_INST INSTRUCTION_TYPE_OTHER,
    NO_INST INSTRUCTION_TYPE_OTHER,
    NO_INST INSTRUCTION_TYPE_OTHER,
    NO_INST INSTRUCTION_TYPE_OTHER,
    NO_INST INSTRUCTION_TYPE_OTHER,
    NO_INST INSTRUCTION_TYPE_OTHER,
    NO_INST INSTRUCTION_TYPE_OTHER,
    NO_INST INSTRUCTION_TYPE_OTHER,
    NO_INST INSTRUCTION_TYPE_OTHER,
    NO_INST INSTRUCTION_TYPE_OTHER,
    NO_INST INSTRUCTION_TYPE_OTHER,
    NO_INST INSTRUCTION_TYPE_OTHER,
    NO_INST INSTRUCTION_TYPE_OTHER,
    NO_INST INSTRUCTION_TYPE_OTHER,
    NO_INST INSTRUCTION_TYPE_OTHER,
    NO_INST INSTRUCTION_TYPE_OTHER,
    NO_INST INSTRUCTION_TYPE_OTHER,
    NO_INST INSTRUCTION_TYPE_OTHER,
    NO_INST INSTRUCTION_TYPE_OTHER,
    NO_INST INSTRUCTION_TYPE_OTHER,
    NO_INST INSTRUCTION_TYPE_OTHER,
    NO_INST INSTRUCTION_TYPE_OTHER,
    NO_INST INSTRUCTION_TYPE_OTHER,
    NO_INST INSTRUCTION_TYPE_OTHER,
    NO_INST INSTRUCTION_TYPE_OTHER,
    NO_INST INSTRUCTION_TYPE_OTHER,
    NO_INST INSTRUCTION_TYPE_OTHER,
    NO_INST INSTRUCTION_TYPE_OTHER,
    NO_INST INSTRUCTION_TYPE_OTHER,
    NO_INST INSTRUCTION_TYPE_OTHER,
    NO_INST INSTRUCTION_TYPE_OTHER,
    NO_INST INSTRUCTION_TYPE_OTHER,
    NO_INST INSTRUCTION_TYPE_OTHER,
    NO_INST INSTRUCTION_TYPE_OTHER,
    NO_INST INSTRUCTION_TYPE_OTHER,
    NO_INST INSTRUCTION_TYPE_OTHER,
    NO_INST INSTRUCTION_TYPE_OTHER,
    NO_INST INSTRUCTION_TYPE_OTHER,
    NO_INST INSTRUCTION_TYPE_OTHER,
    NO_INST INSTRUCTION_TYPE_OTHER,
    NO_INST INSTRUCTION_TYPE_OTHER,
    NO_INST INSTRUCTION_TYPE_OTHER,
    NO_INST INSTRUCTION_TYPE_OTHER,
    NO_INST INSTRUCTION_TYPE_OTHER,
    NO_INST INSTRUCTION_TYPE_OTHER,
    NO_INST INSTRUCTION_TYPE_OTHER,
    NO_INST INSTRUCTION_TYPE_OTHER,
    NO_INST INSTRUCTION_TYPE_OTHER,
    NO_INST INSTRUCTION_TYPE_OTHER,
    NO_INST INSTRUCTION_TYPE_OTHER,
    NO_INST INSTRUCTION_TYPE_OTHER,
    NO_INST INSTRUCTION_TYPE_OTHER,
    NO_INST INSTRUCTION_TYPE_OTHER,
    NO_INST INSTRUCTION_TYPE_OTHER,
    NO_INST INSTRUCTION_TYPE_OTHER,
    NO_INST INSTRUCTION_TYPE_OTHER,
    NO_INST INSTRUCTION_TYPE_OTHER,
    NO_INST INSTRUCTION_TYPE_OTHER,
    NO_INST INSTRUCTION_TYPE_OTHER,
    NO_INST INSTRUCTION_TYPE_OTHER,
    NO_INST INSTRUCTION_TYPE_OTHER,
    NO_INST INSTRUCTION_TYPE_OTHER,
    INST INSTRUCTION_TYPE_SSE (Some ''cmppd'') (AM_V OR OT_pd OR P_r) (AM_W OR OT_pd OR P_r) (AM_I OR OT_b) True 0 0 0 0,
    NO_INST INSTRUCTION_TYPE_OTHER,
    INST INSTRUCTION_TYPE_SSE (Some ''pinsrw'') (AM_V OR OT_w OR P_w) (AM_E OR OT_w OR P_r) (AM_I OR OT_b) True 0 0 0 0,
    INST INSTRUCTION_TYPE_SSE (Some ''pextrv'') (AM_G OR OT_w OR P_w) (AM_V OR OT_w OR P_r) (AM_I OR OT_b OR P_r) True 0 0 0 0,
    INST INSTRUCTION_TYPE_SSE (Some ''shufpd'') (AM_V OR OT_pd OR P_w) (AM_W OR OT_pd OR P_r) (AM_I OR OT_b OR P_r) True 0 0 0 0,
    NO_INST INSTRUCTION_TYPE_OTHER,
    NO_INST INSTRUCTION_TYPE_OTHER,
    NO_INST INSTRUCTION_TYPE_OTHER,
    NO_INST INSTRUCTION_TYPE_OTHER,
    NO_INST INSTRUCTION_TYPE_OTHER,
    NO_INST INSTRUCTION_TYPE_OTHER,
    NO_INST INSTRUCTION_TYPE_OTHER,
    NO_INST INSTRUCTION_TYPE_OTHER,
    NO_INST INSTRUCTION_TYPE_OTHER,
    INST INSTRUCTION_TYPE_SSE (Some ''addsubpd'') (AM_V OR OT_pd OR P_w) (AM_W OR OT_pd OR P_r) FLAGS_NONE True 0 0 0 0,
    INST INSTRUCTION_TYPE_SSE (Some ''psrlw'') (AM_V OR OT_dq OR P_w) (AM_Q OR OT_dq OR P_r) FLAGS_NONE True 0 0 0 0,
    INST INSTRUCTION_TYPE_SSE (Some ''psrld'') (AM_V OR OT_dq OR P_w) (AM_W OR OT_dq OR P_r) FLAGS_NONE True 0 0 0 0,
    INST INSTRUCTION_TYPE_SSE (Some ''psrlq'') (AM_V OR OT_dq OR P_w) (AM_W OR OT_dq OR P_r) FLAGS_NONE True 0 0 0 0,
    INST INSTRUCTION_TYPE_SSE (Some ''paddq'') (AM_V OR OT_dq OR P_w) (AM_W OR OT_dq OR P_r) FLAGS_NONE True 0 0 0 0,
    INST INSTRUCTION_TYPE_SSE (Some ''pmullw'') (AM_V OR OT_dq OR P_w) (AM_W OR OT_dq OR P_r) FLAGS_NONE True 0 0 0 0,
    INST INSTRUCTION_TYPE_SSE (Some ''movq'') (AM_W OR OT_q OR P_w) (AM_V OR OT_q OR P_r) FLAGS_NONE True 0 0 0 0,
    INST INSTRUCTION_TYPE_SSE (Some ''pmovmskb'') (AM_G OR OT_d OR P_w) (AM_V OR OT_dq OR P_r) FLAGS_NONE True 0 0 0 0,
    INST INSTRUCTION_TYPE_SSE (Some ''psubusb'') (AM_V OR OT_dq OR P_w) (AM_W OR OT_dq OR P_r) FLAGS_NONE True 0 0 0 0,
    INST INSTRUCTION_TYPE_SSE (Some ''psubusw'') (AM_V OR OT_dq OR P_w) (AM_W OR OT_dq OR P_r) FLAGS_NONE True 0 0 0 0,
    INST INSTRUCTION_TYPE_SSE (Some ''pminub'') (AM_V OR OT_dq OR P_w) (AM_W OR OT_dq OR P_r) FLAGS_NONE True 0 0 0 0,
    INST INSTRUCTION_TYPE_SSE (Some ''pand'') (AM_V OR OT_dq OR P_w) (AM_W OR OT_dq OR P_r) FLAGS_NONE True 0 0 0 0,
    INST INSTRUCTION_TYPE_SSE (Some ''paddusb'') (AM_V OR OT_dq OR P_w) (AM_W OR OT_dq OR P_r) FLAGS_NONE True 0 0 0 0,
    INST INSTRUCTION_TYPE_SSE (Some ''paddusw'') (AM_V OR OT_dq OR P_w) (AM_W OR OT_dq OR P_r) FLAGS_NONE True 0 0 0 0,
    INST INSTRUCTION_TYPE_SSE (Some ''pmaxsw'') (AM_V OR OT_dq OR P_w) (AM_W OR OT_dq OR P_r) FLAGS_NONE True 0 0 0 0,
    INST INSTRUCTION_TYPE_SSE (Some ''pandn'') (AM_V OR OT_dq OR P_w) (AM_W OR OT_dq OR P_r) FLAGS_NONE True 0 0 0 0,
    INST INSTRUCTION_TYPE_SSE (Some ''pavgb'') (AM_V OR OT_dq OR P_w) (AM_W OR OT_dq OR P_r) FLAGS_NONE True 0 0 0 0,
    INST INSTRUCTION_TYPE_SSE (Some ''psraw'') (AM_V OR OT_dq OR P_w) (AM_W OR OT_dq OR P_r) FLAGS_NONE True 0 0 0 0,
    INST INSTRUCTION_TYPE_SSE (Some ''psrad'') (AM_V OR OT_dq OR P_w) (AM_W OR OT_dq OR P_r) FLAGS_NONE True 0 0 0 0,
    INST INSTRUCTION_TYPE_SSE (Some ''pavgw'') (AM_V OR OT_dq OR P_w) (AM_W OR OT_dq OR P_r) FLAGS_NONE True 0 0 0 0,
    INST INSTRUCTION_TYPE_SSE (Some ''pmulhuw'') (AM_V OR OT_dq OR P_w) (AM_W OR OT_dq OR P_r) FLAGS_NONE True 0 0 0 0,
    INST INSTRUCTION_TYPE_SSE (Some ''pmulhw'') (AM_V OR OT_dq OR P_w) (AM_W OR OT_dq OR P_r) FLAGS_NONE True 0 0 0 0,
    INST INSTRUCTION_TYPE_SSE (Some ''cvttpd2dq'') (AM_V OR OT_dq OR P_r) (AM_W OR OT_pd OR P_r) FLAGS_NONE True 0 0 0 0,
    INST INSTRUCTION_TYPE_SSE (Some ''movntq'') (AM_M OR OT_dq OR P_w) (AM_V OR OT_dq OR P_r) FLAGS_NONE True 0 0 0 0,
    INST INSTRUCTION_TYPE_SSE (Some ''psubsb'') (AM_V OR OT_dq OR P_w) (AM_W OR OT_dq OR P_r) FLAGS_NONE True 0 0 0 0,
    INST INSTRUCTION_TYPE_SSE (Some ''psubsw'') (AM_V OR OT_dq OR P_w) (AM_W OR OT_dq OR P_r) FLAGS_NONE True 0 0 0 0,
    INST INSTRUCTION_TYPE_SSE (Some ''pminsw'') (AM_V OR OT_dq OR P_w) (AM_W OR OT_dq OR P_r) FLAGS_NONE True 0 0 0 0,
    INST INSTRUCTION_TYPE_SSE (Some ''por'') (AM_V OR OT_dq OR P_w) (AM_W OR OT_dq OR P_r) FLAGS_NONE True 0 0 0 0,
    INST INSTRUCTION_TYPE_SSE (Some ''paddsb'') (AM_V OR OT_dq OR P_w) (AM_W OR OT_dq OR P_r) FLAGS_NONE True 0 0 0 0,
    INST INSTRUCTION_TYPE_SSE (Some ''paddsw'') (AM_V OR OT_dq OR P_w) (AM_W OR OT_dq OR P_r) FLAGS_NONE True 0 0 0 0,
    INST INSTRUCTION_TYPE_SSE (Some ''pmaxsw'') (AM_V OR OT_dq OR P_w) (AM_W OR OT_dq OR P_r) FLAGS_NONE True 0 0 0 0,
    INST INSTRUCTION_TYPE_SSE (Some ''pxor'') (AM_V OR OT_dq) (AM_W OR OT_dq) FLAGS_NONE True 0 0 0 0,
    NO_INST INSTRUCTION_TYPE_OTHER,
    INST INSTRUCTION_TYPE_SSE (Some ''psllw'') (AM_V OR OT_dq OR P_w) (AM_W OR OT_dq OR P_r) FLAGS_NONE True 0 0 0 0,
    INST INSTRUCTION_TYPE_SSE (Some ''pslld'') (AM_V OR OT_dq OR P_w) (AM_W OR OT_dq OR P_r) FLAGS_NONE True 0 0 0 0,
    INST INSTRUCTION_TYPE_SSE (Some ''psllq'') (AM_V OR OT_dq OR P_w) (AM_W OR OT_dq OR P_r) FLAGS_NONE True 0 0 0 0,
    INST INSTRUCTION_TYPE_SSE (Some ''pmuludq'') (AM_V OR OT_dq OR P_w) (AM_W OR OT_dq OR P_r) FLAGS_NONE True 0 0 0 0,
    INST INSTRUCTION_TYPE_SSE (Some ''pmaddwd'') (AM_V OR OT_dq OR P_w) (AM_W OR OT_dq OR P_r) FLAGS_NONE True 0 0 0 0,
    INST INSTRUCTION_TYPE_SSE (Some ''psadbw'') (AM_V OR OT_dq OR P_w) (AM_W OR OT_dq OR P_r) FLAGS_NONE True 0 0 0 0,
    INST INSTRUCTION_TYPE_SSE (Some ''maskmovdqu'') (AM_V OR OT_dq OR P_w) (AM_W OR OT_dq OR P_r) FLAGS_NONE True 0 0 0 0,
    INST INSTRUCTION_TYPE_SSE (Some ''psubb'') (AM_V OR OT_dq OR P_w) (AM_W OR OT_dq OR P_r) FLAGS_NONE True 0 0 0 0,
    INST INSTRUCTION_TYPE_SSE (Some ''psubw'') (AM_V OR OT_dq OR P_w) (AM_W OR OT_dq OR P_r) FLAGS_NONE True 0 0 0 0,
    INST INSTRUCTION_TYPE_SSE (Some ''psubd'') (AM_V OR OT_dq OR P_w) (AM_W OR OT_dq OR P_r) FLAGS_NONE True 0 0 0 0,
    INST INSTRUCTION_TYPE_SSE (Some ''psubq'') (AM_V OR OT_dq OR P_w) (AM_W OR OT_dq OR P_r) FLAGS_NONE True 0 0 0 0,
    INST INSTRUCTION_TYPE_SSE (Some ''paddb'') (AM_V OR OT_dq OR P_w) (AM_W OR OT_dq OR P_r) FLAGS_NONE True 0 0 0 0,
    INST INSTRUCTION_TYPE_SSE (Some ''paddw'') (AM_V OR OT_dq OR P_w) (AM_W OR OT_dq OR P_r) FLAGS_NONE True 0 0 0 0,
    INST INSTRUCTION_TYPE_SSE (Some ''paddd'') (AM_V OR OT_dq OR P_w) (AM_W OR OT_dq OR P_r) FLAGS_NONE True 0 0 0 0,
    NO_INST INSTRUCTION_TYPE_OTHER
  ]"

definition inst_table3_66 :: "INST list" where [libdasm_tables]:
  "inst_table3_66 = inst_table3_66_lo @ inst_table3_66_hi"

definition inst_table3_f2_lo :: "INST list" where [libdasm_tables]:
  "inst_table3_f2_lo = [
    NO_INST INSTRUCTION_TYPE_OTHER,
    NO_INST INSTRUCTION_TYPE_OTHER,
    NO_INST INSTRUCTION_TYPE_OTHER,
    NO_INST INSTRUCTION_TYPE_OTHER,
    NO_INST INSTRUCTION_TYPE_OTHER,
    NO_INST INSTRUCTION_TYPE_OTHER,
    NO_INST INSTRUCTION_TYPE_OTHER,
    NO_INST INSTRUCTION_TYPE_OTHER,
    NO_INST INSTRUCTION_TYPE_OTHER,
    NO_INST INSTRUCTION_TYPE_OTHER,
    NO_INST INSTRUCTION_TYPE_OTHER,
    NO_INST INSTRUCTION_TYPE_OTHER,
    NO_INST INSTRUCTION_TYPE_OTHER,
    NO_INST INSTRUCTION_TYPE_OTHER,
    NO_INST INSTRUCTION_TYPE_OTHER,
    NO_INST INSTRUCTION_TYPE_OTHER,
    INST INSTRUCTION_TYPE_SSE (Some ''movsd'') (AM_V OR OT_sd OR P_w) (AM_W OR OT_sd OR P_r) FLAGS_NONE True 0 0 0 0,
    INST INSTRUCTION_TYPE_SSE (Some ''movsd'') (AM_W OR OT_sd OR P_w) (AM_V OR OT_sd OR P_r) FLAGS_NONE True 0 0 0 0,
    INST INSTRUCTION_TYPE_SSE (Some ''movddup'') (AM_V OR OT_q OR P_w) (AM_W OR OT_q OR P_r) FLAGS_NONE True 0 0 0 0,
    NO_INST INSTRUCTION_TYPE_OTHER,
    NO_INST INSTRUCTION_TYPE_OTHER,
    NO_INST INSTRUCTION_TYPE_OTHER,
    NO_INST INSTRUCTION_TYPE_OTHER,
    NO_INST INSTRUCTION_TYPE_OTHER,
    NO_INST INSTRUCTION_TYPE_OTHER,
    NO_INST INSTRUCTION_TYPE_OTHER,
    NO_INST INSTRUCTION_TYPE_OTHER,
    NO_INST INSTRUCTION_TYPE_OTHER,
    NO_INST INSTRUCTION_TYPE_OTHER,
    NO_INST INSTRUCTION_TYPE_OTHER,
    NO_INST INSTRUCTION_TYPE_OTHER,
    NO_INST INSTRUCTION_TYPE_OTHER,
    NO_INST INSTRUCTION_TYPE_OTHER,
    NO_INST INSTRUCTION_TYPE_OTHER,
    NO_INST INSTRUCTION_TYPE_OTHER,
    NO_INST INSTRUCTION_TYPE_OTHER,
    NO_INST INSTRUCTION_TYPE_OTHER,
    NO_INST INSTRUCTION_TYPE_OTHER,
    NO_INST INSTRUCTION_TYPE_OTHER,
    NO_INST INSTRUCTION_TYPE_OTHER,
    NO_INST INSTRUCTION_TYPE_OTHER,
    NO_INST INSTRUCTION_TYPE_OTHER,
    INST INSTRUCTION_TYPE_SSE (Some ''cvtsi2sd'') (AM_V OR OT_sd OR P_r) (AM_E OR OT_d OR P_r) FLAGS_NONE True 0 0 0 0,
    NO_INST INSTRUCTION_TYPE_OTHER,
    INST INSTRUCTION_TYPE_SSE (Some ''cvttsd2si'') (AM_G OR OT_d OR P_r) (AM_W OR OT_sd OR P_r) FLAGS_NONE True 0 0 0 0,
    INST INSTRUCTION_TYPE_SSE (Some ''cvtsd2si'') (AM_G OR OT_d OR P_r) (AM_W OR OT_sd OR P_r) FLAGS_NONE True 0 0 0 0,
    NO_INST INSTRUCTION_TYPE_OTHER,
    NO_INST INSTRUCTION_TYPE_OTHER,
    NO_INST INSTRUCTION_TYPE_OTHER,
    NO_INST INSTRUCTION_TYPE_OTHER,
    NO_INST INSTRUCTION_TYPE_OTHER,
    NO_INST INSTRUCTION_TYPE_OTHER,
    NO_INST INSTRUCTION_TYPE_OTHER,
    NO_INST INSTRUCTION_TYPE_OTHER,
    NO_INST INSTRUCTION_TYPE_OTHER,
    NO_INST INSTRUCTION_TYPE_OTHER,
    NO_INST INSTRUCTION_TYPE_OTHER,
    NO_INST INSTRUCTION_TYPE_OTHER,
    NO_INST INSTRUCTION_TYPE_OTHER,
    NO_INST INSTRUCTION_TYPE_OTHER,
    NO_INST INSTRUCTION_TYPE_OTHER,
    NO_INST INSTRUCTION_TYPE_OTHER,
    NO_INST INSTRUCTION_TYPE_OTHER,
    NO_INST INSTRUCTION_TYPE_OTHER,
    NO_INST INSTRUCTION_TYPE_OTHER,
    NO_INST INSTRUCTION_TYPE_OTHER,
    NO_INST INSTRUCTION_TYPE_OTHER,
    NO_INST INSTRUCTION_TYPE_OTHER,
    NO_INST INSTRUCTION_TYPE_OTHER,
    NO_INST INSTRUCTION_TYPE_OTHER,
    NO_INST INSTRUCTION_TYPE_OTHER,
    NO_INST INSTRUCTION_TYPE_OTHER,
    NO_INST INSTRUCTION_TYPE_OTHER,
    NO_INST INSTRUCTION_TYPE_OTHER,
    NO_INST INSTRUCTION_TYPE_OTHER,
    NO_INST INSTRUCTION_TYPE_OTHER,
    NO_INST INSTRUCTION_TYPE_OTHER,
    NO_INST INSTRUCTION_TYPE_OTHER,
    NO_INST INSTRUCTION_TYPE_OTHER,
    NO_INST INSTRUCTION_TYPE_OTHER,
    NO_INST INSTRUCTION_TYPE_OTHER,
    INST INSTRUCTION_TYPE_SSE (Some ''sqrtsd'') (AM_V OR OT_sd OR P_w) (AM_W OR OT_sd OR P_r) FLAGS_NONE True 0 0 0 0,
    NO_INST INSTRUCTION_TYPE_OTHER,
    NO_INST INSTRUCTION_TYPE_OTHER,
    NO_INST INSTRUCTION_TYPE_OTHER,
    NO_INST INSTRUCTION_TYPE_OTHER,
    NO_INST INSTRUCTION_TYPE_OTHER,
    NO_INST INSTRUCTION_TYPE_OTHER,
    INST INSTRUCTION_TYPE_SSE (Some ''addsd'') (AM_V OR OT_sd OR P_w) (AM_W OR OT_sd OR P_r) FLAGS_NONE True 0 0 0 0,
    INST INSTRUCTION_TYPE_SSE (Some ''mulsd'') (AM_V OR OT_sd OR P_w) (AM_W OR OT_sd OR P_r) FLAGS_NONE True 0 0 0 0,
    INST INSTRUCTION_TYPE_SSE (Some ''cvtsd2ss'') (AM_V OR OT_ss OR P_r) (AM_W OR OT_sd OR P_r) FLAGS_NONE True 0 0 0 0,
    NO_INST INSTRUCTION_TYPE_OTHER,
    INST INSTRUCTION_TYPE_SSE (Some ''subsd'') (AM_V OR OT_sd OR P_w) (AM_W OR OT_sd OR P_r) FLAGS_NONE True 0 0 0 0,
    INST INSTRUCTION_TYPE_SSE (Some ''minsd'') (AM_V OR OT_sd OR P_w) (AM_W OR OT_sd OR P_r) FLAGS_NONE True 0 0 0 0,
    INST INSTRUCTION_TYPE_SSE (Some ''divsd'') (AM_V OR OT_sd OR P_w) (AM_W OR OT_sd OR P_r) FLAGS_NONE True 0 0 0 0,
    INST INSTRUCTION_TYPE_SSE (Some ''maxsd'') (AM_V OR OT_sd OR P_w) (AM_W OR OT_sd OR P_r) FLAGS_NONE True 0 0 0 0,
    NO_INST INSTRUCTION_TYPE_OTHER,
    NO_INST INSTRUCTION_TYPE_OTHER,
    NO_INST INSTRUCTION_TYPE_OTHER,
    NO_INST INSTRUCTION_TYPE_OTHER,
    NO_INST INSTRUCTION_TYPE_OTHER,
    NO_INST INSTRUCTION_TYPE_OTHER,
    NO_INST INSTRUCTION_TYPE_OTHER,
    NO_INST INSTRUCTION_TYPE_OTHER,
    NO_INST INSTRUCTION_TYPE_OTHER,
    NO_INST INSTRUCTION_TYPE_OTHER,
    NO_INST INSTRUCTION_TYPE_OTHER,
    NO_INST INSTRUCTION_TYPE_OTHER,
    NO_INST INSTRUCTION_TYPE_OTHER,
    NO_INST INSTRUCTION_TYPE_OTHER,
    NO_INST INSTRUCTION_TYPE_OTHER,
    NO_INST INSTRUCTION_TYPE_OTHER,
    INST INSTRUCTION_TYPE_SSE (Some ''pshuflw'') (AM_V OR OT_dq OR P_w) (AM_W OR OT_dq OR P_r) (AM_I OR OT_b) True 0 0 0 0,
    NO_INST INSTRUCTION_TYPE_OTHER,
    NO_INST INSTRUCTION_TYPE_OTHER,
    NO_INST INSTRUCTION_TYPE_OTHER,
    NO_INST INSTRUCTION_TYPE_OTHER,
    NO_INST INSTRUCTION_TYPE_OTHER,
    NO_INST INSTRUCTION_TYPE_OTHER,
    NO_INST INSTRUCTION_TYPE_OTHER,
    NO_INST INSTRUCTION_TYPE_OTHER,
    NO_INST INSTRUCTION_TYPE_OTHER,
    NO_INST INSTRUCTION_TYPE_OTHER,
    NO_INST INSTRUCTION_TYPE_OTHER,
    INST INSTRUCTION_TYPE_SSE (Some ''haddps'') (AM_V OR OT_ps) (AM_W OR OT_ps) FLAGS_NONE True 0 0 0 0,
    INST INSTRUCTION_TYPE_SSE (Some ''hsubps'') (AM_V OR OT_ps) (AM_W OR OT_ps) FLAGS_NONE True 0 0 0 0,
    NO_INST INSTRUCTION_TYPE_OTHER,
    NO_INST INSTRUCTION_TYPE_OTHER
  ]"

definition inst_table3_f2_hi :: "INST list" where [libdasm_tables]:
  "inst_table3_f2_hi = [
    NO_INST INSTRUCTION_TYPE_OTHER,
    NO_INST INSTRUCTION_TYPE_OTHER,
    NO_INST INSTRUCTION_TYPE_OTHER,
    NO_INST INSTRUCTION_TYPE_OTHER,
    NO_INST INSTRUCTION_TYPE_OTHER,
    NO_INST INSTRUCTION_TYPE_OTHER,
    NO_INST INSTRUCTION_TYPE_OTHER,
    NO_INST INSTRUCTION_TYPE_OTHER,
    NO_INST INSTRUCTION_TYPE_OTHER,
    NO_INST INSTRUCTION_TYPE_OTHER,
    NO_INST INSTRUCTION_TYPE_OTHER,
    NO_INST INSTRUCTION_TYPE_OTHER,
    NO_INST INSTRUCTION_TYPE_OTHER,
    NO_INST INSTRUCTION_TYPE_OTHER,
    NO_INST INSTRUCTION_TYPE_OTHER,
    NO_INST INSTRUCTION_TYPE_OTHER,
    NO_INST INSTRUCTION_TYPE_OTHER,
    NO_INST INSTRUCTION_TYPE_OTHER,
    NO_INST INSTRUCTION_TYPE_OTHER,
    NO_INST INSTRUCTION_TYPE_OTHER,
    NO_INST INSTRUCTION_TYPE_OTHER,
    NO_INST INSTRUCTION_TYPE_OTHER,
    NO_INST INSTRUCTION_TYPE_OTHER,
    NO_INST INSTRUCTION_TYPE_OTHER,
    NO_INST INSTRUCTION_TYPE_OTHER,
    NO_INST INSTRUCTION_TYPE_OTHER,
    NO_INST INSTRUCTION_TYPE_OTHER,
    NO_INST INSTRUCTION_TYPE_OTHER,
    NO_INST INSTRUCTION_TYPE_OTHER,
    NO_INST INSTRUCTION_TYPE_OTHER,
    NO_INST INSTRUCTION_TYPE_OTHER,
    NO_INST INSTRUCTION_TYPE_OTHER,
    NO_INST INSTRUCTION_TYPE_OTHER,
    NO_INST INSTRUCTION_TYPE_OTHER,
    NO_INST INSTRUCTION_TYPE_OTHER,
    NO_INST INSTRUCTION_TYPE_OTHER,
    NO_INST INSTRUCTION_TYPE_OTHER,
    NO_INST INSTRUCTION_TYPE_OTHER,
    NO_INST INSTRUCTION_TYPE_OTHER,
    NO_INST INSTRUCTION_TYPE_OTHER,
    NO_INST INSTRUCTION_TYPE_OTHER,
    NO_INST INSTRUCTION_TYPE_OTHER,
    NO_INST INSTRUCTION_TYPE_OTHER,
    NO_INST INSTRUCTION_TYPE_OTHER,
    NO_INST INSTRUCTION_TYPE_OTHER,
    NO_INST INSTRUCTION_TYPE_OTHER,
    NO_INST INSTRUCTION_TYPE_OTHER,
    NO_INST INSTRUCTION_TYPE_OTHER,
    NO_INST INSTRUCTION_TYPE_OTHER,
    NO_INST INSTRUCTION_TYPE_OTHER,
    NO_INST INSTRUCTION_TYPE_OTHER,
    NO_INST INSTRUCTION_TYPE_OTHER,
    NO_INST INSTRUCTION_TYPE_OTHER,
    NO_INST INSTRUCTION_TYPE_OTHER,
    NO_INST INSTRUCTION_TYPE_OTHER,
    NO_INST INSTRUCTION_TYPE_OTHER,
    NO_INST INSTRUCTION_TYPE_OTHER,
    NO_INST INSTRUCTION_TYPE_OTHER,
    NO_INST INSTRUCTION_TYPE_OTHER,
    NO_INST INSTRUCTION_TYPE_OTHER,
    NO_INST INSTRUCTION_TYPE_OTHER,
    NO_INST INSTRUCTION_TYPE_OTHER,
    NO_INST INSTRUCTION_TYPE_OTHER,
    NO_INST INSTRUCTION_TYPE_OTHER,
    NO_INST INSTRUCTION_TYPE_OTHER,
    NO_INST INSTRUCTION_TYPE_OTHER,
    INST INSTRUCTION_TYPE_SSE (Some ''cmpsd'') (AM_V OR OT_sd OR P_r) (AM_W OR OT_sd OR P_r) (AM_I OR OT_b) True 0 0 0 0,
    NO_INST INSTRUCTION_TYPE_OTHER,
    NO_INST INSTRUCTION_TYPE_OTHER,
    NO_INST INSTRUCTION_TYPE_OTHER,
    NO_INST INSTRUCTION_TYPE_OTHER,
    NO_INST INSTRUCTION_TYPE_OTHER,
    NO_INST INSTRUCTION_TYPE_OTHER,
    NO_INST INSTRUCTION_TYPE_OTHER,
    NO_INST INSTRUCTION_TYPE_OTHER,
    NO_INST INSTRUCTION_TYPE_OTHER,
    NO_INST INSTRUCTION_TYPE_OTHER,
    NO_INST INSTRUCTION_TYPE_OTHER,
    NO_INST INSTRUCTION_TYPE_OTHER,
    NO_INST INSTRUCTION_TYPE_OTHER,
    INST INSTRUCTION_TYPE_SSE (Some ''addsubpd'') (AM_V OR OT_ps OR P_w) (AM_W OR OT_ps OR P_r) FLAGS_NONE True 0 0 0 0,
    NO_INST INSTRUCTION_TYPE_OTHER,
    NO_INST INSTRUCTION_TYPE_OTHER,
    NO_INST INSTRUCTION_TYPE_OTHER,
    NO_INST INSTRUCTION_TYPE_OTHER,
    NO_INST INSTRUCTION_TYPE_OTHER,
    INST INSTRUCTION_TYPE_SSE (Some ''movdq2q'') (AM_P OR OT_q OR P_w) (AM_V OR OT_q OR P_r) FLAGS_NONE True 0 0 0 0,
    NO_INST INSTRUCTION_TYPE_OTHER,
    NO_INST INSTRUCTION_TYPE_OTHER,
    NO_INST INSTRUCTION_TYPE_OTHER,
    NO_INST INSTRUCTION_TYPE_OTHER,
    NO_INST INSTRUCTION_TYPE_OTHER,
    NO_INST INSTRUCTION_TYPE_OTHER,
    NO_INST INSTRUCTION_TYPE_OTHER,
    NO_INST INSTRUCTION_TYPE_OTHER,
    NO_INST INSTRUCTION_TYPE_OTHER,
    NO_INST INSTRUCTION_TYPE_OTHER,
    NO_INST INSTRUCTION_TYPE_OTHER,
    NO_INST INSTRUCTION_TYPE_OTHER,
    NO_INST INSTRUCTION_TYPE_OTHER,
    NO_INST INSTRUCTION_TYPE_OTHER,
    NO_INST INSTRUCTION_TYPE_OTHER,
    INST INSTRUCTION_TYPE_SSE (Some ''cvtpd2dq'') (AM_V OR OT_dq OR P_r) (AM_W OR OT_pd OR P_r) FLAGS_NONE True 0 0 0 0,
    NO_INST INSTRUCTION_TYPE_OTHER,
    NO_INST INSTRUCTION_TYPE_OTHER,
    NO_INST INSTRUCTION_TYPE_OTHER,
    NO_INST INSTRUCTION_TYPE_OTHER,
    NO_INST INSTRUCTION_TYPE_OTHER,
    NO_INST INSTRUCTION_TYPE_OTHER,
    NO_INST INSTRUCTION_TYPE_OTHER,
    NO_INST INSTRUCTION_TYPE_OTHER,
    NO_INST INSTRUCTION_TYPE_OTHER,
    INST INSTRUCTION_TYPE_SSE (Some ''lddqu'') (AM_V OR OT_dq) (AM_M OR OT_dq) FLAGS_NONE True 0 0 0 0,
    NO_INST INSTRUCTION_TYPE_OTHER,
    NO_INST INSTRUCTION_TYPE_OTHER,
    NO_INST INSTRUCTION_TYPE_OTHER,
    NO_INST INSTRUCTION_TYPE_OTHER,
    NO_INST INSTRUCTION_TYPE_OTHER,
    NO_INST INSTRUCTION_TYPE_OTHER,
    NO_INST INSTRUCTION_TYPE_OTHER,
    NO_INST INSTRUCTION_TYPE_OTHER,
    NO_INST INSTRUCTION_TYPE_OTHER,
    NO_INST INSTRUCTION_TYPE_OTHER,
    NO_INST INSTRUCTION_TYPE_OTHER,
    NO_INST INSTRUCTION_TYPE_OTHER,
    NO_INST INSTRUCTION_TYPE_OTHER,
    NO_INST INSTRUCTION_TYPE_OTHER,
    NO_INST INSTRUCTION_TYPE_OTHER
  ]"

definition inst_table3_f2 :: "INST list" where [libdasm_tables]:
  "inst_table3_f2 = inst_table3_f2_lo @ inst_table3_f2_hi"

definition inst_table3_f3_lo :: "INST list" where [libdasm_tables]:
  "inst_table3_f3_lo = [
    NO_INST INSTRUCTION_TYPE_OTHER,
    NO_INST INSTRUCTION_TYPE_OTHER,
    NO_INST INSTRUCTION_TYPE_OTHER,
    NO_INST INSTRUCTION_TYPE_OTHER,
    NO_INST INSTRUCTION_TYPE_OTHER,
    NO_INST INSTRUCTION_TYPE_OTHER,
    NO_INST INSTRUCTION_TYPE_OTHER,
    NO_INST INSTRUCTION_TYPE_OTHER,
    NO_INST INSTRUCTION_TYPE_OTHER,
    NO_INST INSTRUCTION_TYPE_OTHER,
    NO_INST INSTRUCTION_TYPE_OTHER,
    NO_INST INSTRUCTION_TYPE_OTHER,
    NO_INST INSTRUCTION_TYPE_OTHER,
    NO_INST INSTRUCTION_TYPE_OTHER,
    NO_INST INSTRUCTION_TYPE_OTHER,
    NO_INST INSTRUCTION_TYPE_OTHER,
    INST INSTRUCTION_TYPE_SSE (Some ''movss'') (AM_V OR OT_ss OR P_w) (AM_W OR OT_ss OR P_r) FLAGS_NONE True 0 0 0 0,
    INST INSTRUCTION_TYPE_SSE (Some ''movss'') (AM_W OR OT_ss OR P_w) (AM_V OR OT_ss OR P_r) FLAGS_NONE True 0 0 0 0,
    INST INSTRUCTION_TYPE_SSE (Some ''movsldup'') (AM_V OR OT_ps OR P_w) (AM_W OR OT_ps OR P_r) FLAGS_NONE True 0 0 0 0,
    NO_INST INSTRUCTION_TYPE_OTHER,
    NO_INST INSTRUCTION_TYPE_OTHER,
    NO_INST INSTRUCTION_TYPE_OTHER,
    INST INSTRUCTION_TYPE_SSE (Some ''movshdup'') (AM_V OR OT_ps OR P_w) (AM_W OR OT_ps OR P_r) FLAGS_NONE True 0 0 0 0,
    NO_INST INSTRUCTION_TYPE_OTHER,
    NO_INST INSTRUCTION_TYPE_OTHER,
    NO_INST INSTRUCTION_TYPE_OTHER,
    NO_INST INSTRUCTION_TYPE_OTHER,
    NO_INST INSTRUCTION_TYPE_OTHER,
    NO_INST INSTRUCTION_TYPE_OTHER,
    NO_INST INSTRUCTION_TYPE_OTHER,
    NO_INST INSTRUCTION_TYPE_OTHER,
    NO_INST INSTRUCTION_TYPE_OTHER,
    NO_INST INSTRUCTION_TYPE_OTHER,
    NO_INST INSTRUCTION_TYPE_OTHER,
    NO_INST INSTRUCTION_TYPE_OTHER,
    NO_INST INSTRUCTION_TYPE_OTHER,
    NO_INST INSTRUCTION_TYPE_OTHER,
    NO_INST INSTRUCTION_TYPE_OTHER,
    NO_INST INSTRUCTION_TYPE_OTHER,
    NO_INST INSTRUCTION_TYPE_OTHER,
    NO_INST INSTRUCTION_TYPE_OTHER,
    NO_INST INSTRUCTION_TYPE_OTHER,
    INST INSTRUCTION_TYPE_SSE (Some ''cvtsi2ss'') (AM_V OR OT_ss OR P_r) (AM_E OR OT_d OR P_r) FLAGS_NONE True 0 0 0 0,
    NO_INST INSTRUCTION_TYPE_OTHER,
    INST INSTRUCTION_TYPE_SSE (Some ''cvttss2si'') (AM_G OR OT_d OR P_r) (AM_W OR OT_ss OR P_r) FLAGS_NONE True 0 0 0 0,
    INST INSTRUCTION_TYPE_SSE (Some ''cvtss2si'') (AM_G OR OT_d OR P_r) (AM_W OR OT_ss OR P_r) FLAGS_NONE True 0 0 0 0,
    NO_INST INSTRUCTION_TYPE_OTHER,
    NO_INST INSTRUCTION_TYPE_OTHER,
    NO_INST INSTRUCTION_TYPE_OTHER,
    NO_INST INSTRUCTION_TYPE_OTHER,
    NO_INST INSTRUCTION_TYPE_OTHER,
    NO_INST INSTRUCTION_TYPE_OTHER,
    NO_INST INSTRUCTION_TYPE_OTHER,
    NO_INST INSTRUCTION_TYPE_OTHER,
    NO_INST INSTRUCTION_TYPE_OTHER,
    NO_INST INSTRUCTION_TYPE_OTHER,
    NO_INST INSTRUCTION_TYPE_OTHER,
    NO_INST INSTRUCTION_TYPE_OTHER,
    NO_INST INSTRUCTION_TYPE_OTHER,
    NO_INST INSTRUCTION_TYPE_OTHER,
    NO_INST INSTRUCTION_TYPE_OTHER,
    NO_INST INSTRUCTION_TYPE_OTHER,
    NO_INST INSTRUCTION_TYPE_OTHER,
    NO_INST INSTRUCTION_TYPE_OTHER,
    NO_INST INSTRUCTION_TYPE_OTHER,
    NO_INST INSTRUCTION_TYPE_OTHER,
    NO_INST INSTRUCTION_TYPE_OTHER,
    NO_INST INSTRUCTION_TYPE_OTHER,
    NO_INST INSTRUCTION_TYPE_OTHER,
    NO_INST INSTRUCTION_TYPE_OTHER,
    NO_INST INSTRUCTION_TYPE_OTHER,
    NO_INST INSTRUCTION_TYPE_OTHER,
    NO_INST INSTRUCTION_TYPE_OTHER,
    NO_INST INSTRUCTION_TYPE_OTHER,
    NO_INST INSTRUCTION_TYPE_OTHER,
    NO_INST INSTRUCTION_TYPE_OTHER,
    NO_INST INSTRUCTION_TYPE_OTHER,
    NO_INST INSTRUCTION_TYPE_OTHER,
    NO_INST INSTRUCTION_TYPE_OTHER,
    NO_INST INSTRUCTION_TYPE_OTHER,
    NO_INST INSTRUCTION_TYPE_OTHER,
    INST INSTRUCTION_TYPE_SSE (Some ''sqrtss'') (AM_V OR OT_ss OR P_w) (AM_W OR OT_ss OR P_r) FLAGS_NONE True 0 0 0 0,
    INST INSTRUCTION_TYPE_SSE (Some ''rsqrtss'') (AM_V OR OT_ss OR P_w) (AM_W OR OT_ss OR P_r) FLAGS_NONE True 0 0 0 0,
    INST INSTRUCTION_TYPE_SSE (Some ''rcpss'') (AM_V OR OT_ss OR P_w) (AM_W OR OT_ss OR P_r) FLAGS_NONE True 0 0 0 0,
    NO_INST INSTRUCTION_TYPE_OTHER,
    NO_INST INSTRUCTION_TYPE_OTHER,
    NO_INST INSTRUCTION_TYPE_OTHER,
    NO_INST INSTRUCTION_TYPE_OTHER,
    INST INSTRUCTION_TYPE_SSE (Some ''addss'') (AM_V OR OT_ss OR P_w) (AM_W OR OT_ss OR P_r) FLAGS_NONE True 0 0 0 0,
    INST INSTRUCTION_TYPE_SSE (Some ''mulss'') (AM_V OR OT_ss OR P_w) (AM_W OR OT_ss OR P_r) FLAGS_NONE True 0 0 0 0,
    INST INSTRUCTION_TYPE_SSE (Some ''cvtsd2sd'') (AM_V OR OT_sd OR P_r) (AM_W OR OT_ss OR P_r) FLAGS_NONE True 0 0 0 0,
    INST INSTRUCTION_TYPE_SSE (Some ''cvttps2dq'') (AM_V OR OT_dq OR P_r) (AM_W OR OT_ps OR P_r) FLAGS_NONE True 0 0 0 0,
    INST INSTRUCTION_TYPE_SSE (Some ''subss'') (AM_V OR OT_ss OR P_w) (AM_W OR OT_ss OR P_r) FLAGS_NONE True 0 0 0 0,
    INST INSTRUCTION_TYPE_SSE (Some ''minss'') (AM_V OR OT_ss OR P_w) (AM_W OR OT_ss OR P_r) FLAGS_NONE True 0 0 0 0,
    INST INSTRUCTION_TYPE_SSE (Some ''divss'') (AM_V OR OT_ss OR P_w) (AM_W OR OT_ss OR P_r) FLAGS_NONE True 0 0 0 0,
    INST INSTRUCTION_TYPE_SSE (Some ''maxss'') (AM_V OR OT_ss OR P_w) (AM_W OR OT_ss OR P_r) FLAGS_NONE True 0 0 0 0,
    NO_INST INSTRUCTION_TYPE_OTHER,
    NO_INST INSTRUCTION_TYPE_OTHER,
    NO_INST INSTRUCTION_TYPE_OTHER,
    NO_INST INSTRUCTION_TYPE_OTHER,
    NO_INST INSTRUCTION_TYPE_OTHER,
    NO_INST INSTRUCTION_TYPE_OTHER,
    NO_INST INSTRUCTION_TYPE_OTHER,
    NO_INST INSTRUCTION_TYPE_OTHER,
    NO_INST INSTRUCTION_TYPE_OTHER,
    NO_INST INSTRUCTION_TYPE_OTHER,
    NO_INST INSTRUCTION_TYPE_OTHER,
    NO_INST INSTRUCTION_TYPE_OTHER,
    NO_INST INSTRUCTION_TYPE_OTHER,
    NO_INST INSTRUCTION_TYPE_OTHER,
    NO_INST INSTRUCTION_TYPE_OTHER,
    INST INSTRUCTION_TYPE_SSE (Some ''movdqu'') (AM_V OR OT_dq OR P_w) (AM_W OR OT_dq OR P_r) (AM_I OR OT_b) True 0 0 0 0,
    INST INSTRUCTION_TYPE_SSE (Some ''pshufhw'') (AM_V OR OT_dq OR P_w) (AM_W OR OT_dq OR P_r) (AM_I OR OT_b) True 0 0 0 0,
    NO_INST INSTRUCTION_TYPE_OTHER,
    NO_INST INSTRUCTION_TYPE_OTHER,
    NO_INST INSTRUCTION_TYPE_OTHER,
    NO_INST INSTRUCTION_TYPE_OTHER,
    NO_INST INSTRUCTION_TYPE_OTHER,
    NO_INST INSTRUCTION_TYPE_OTHER,
    NO_INST INSTRUCTION_TYPE_OTHER,
    NO_INST INSTRUCTION_TYPE_OTHER,
    NO_INST INSTRUCTION_TYPE_OTHER,
    NO_INST INSTRUCTION_TYPE_OTHER,
    NO_INST INSTRUCTION_TYPE_OTHER,
    NO_INST INSTRUCTION_TYPE_OTHER,
    NO_INST INSTRUCTION_TYPE_OTHER,
    INST INSTRUCTION_TYPE_SSE (Some ''movq'') (AM_V OR OT_q OR P_w) (AM_W OR OT_q OR P_r) FLAGS_NONE True 0 0 0 0,
    INST INSTRUCTION_TYPE_SSE (Some ''movdqu'') (AM_V OR OT_dq OR P_w) (AM_W OR OT_dq OR P_r) FLAGS_NONE True 0 0 0 0
  ]"

definition inst_table3_f3_hi :: "INST list" where [libdasm_tables]:
  "inst_table3_f3_hi = [
    NO_INST INSTRUCTION_TYPE_OTHER,
    NO_INST INSTRUCTION_TYPE_OTHER,
    NO_INST INSTRUCTION_TYPE_OTHER,
    NO_INST INSTRUCTION_TYPE_OTHER,
    NO_INST INSTRUCTION_TYPE_OTHER,
    NO_INST INSTRUCTION_TYPE_OTHER,
    NO_INST INSTRUCTION_TYPE_OTHER,
    NO_INST INSTRUCTION_TYPE_OTHER,
    NO_INST INSTRUCTION_TYPE_OTHER,
    NO_INST INSTRUCTION_TYPE_OTHER,
    NO_INST INSTRUCTION_TYPE_OTHER,
    NO_INST INSTRUCTION_TYPE_OTHER,
    NO_INST INSTRUCTION_TYPE_OTHER,
    NO_INST INSTRUCTION_TYPE_OTHER,
    NO_INST INSTRUCTION_TYPE_OTHER,
    NO_INST INSTRUCTION_TYPE_OTHER,
    NO_INST INSTRUCTION_TYPE_OTHER,
    NO_INST INSTRUCTION_TYPE_OTHER,
    NO_INST INSTRUCTION_TYPE_OTHER,
    NO_INST INSTRUCTION_TYPE_OTHER,
    NO_INST INSTRUCTION_TYPE_OTHER,
    NO_INST INSTRUCTION_TYPE_OTHER,
    NO_INST INSTRUCTION_TYPE_OTHER,
    NO_INST INSTRUCTION_TYPE_OTHER,
    NO_INST INSTRUCTION_TYPE_OTHER,
    NO_INST INSTRUCTION_TYPE_OTHER,
    NO_INST INSTRUCTION_TYPE_OTHER,
    NO_INST INSTRUCTION_TYPE_OTHER,
    NO_INST INSTRUCTION_TYPE_OTHER,
    NO_INST INSTRUCTION_TYPE_OTHER,
    NO_INST INSTRUCTION_TYPE_OTHER,
    NO_INST INSTRUCTION_TYPE_OTHER,
    NO_INST INSTRUCTION_TYPE_OTHER,
    NO_INST INSTRUCTION_TYPE_OTHER,
    NO_INST INSTRUCTION_TYPE_OTHER,
    NO_INST INSTRUCTION_TYPE_OTHER,
    NO_INST INSTRUCTION_TYPE_OTHER,
    NO_INST INSTRUCTION_TYPE_OTHER,
    NO_INST INSTRUCTION_TYPE_OTHER,
    NO_INST INSTRUCTION_TYPE_OTHER,
    NO_INST INSTRUCTION_TYPE_OTHER,
    NO_INST INSTRUCTION_TYPE_OTHER,
    NO_INST INSTRUCTION_TYPE_OTHER,
    NO_INST INSTRUCTION_TYPE_OTHER,
    NO_INST INSTRUCTION_TYPE_OTHER,
    NO_INST INSTRUCTION_TYPE_OTHER,
    NO_INST INSTRUCTION_TYPE_OTHER,
    NO_INST INSTRUCTION_TYPE_OTHER,
    NO_INST INSTRUCTION_TYPE_OTHER,
    NO_INST INSTRUCTION_TYPE_OTHER,
    NO_INST INSTRUCTION_TYPE_OTHER,
    NO_INST INSTRUCTION_TYPE_OTHER,
    NO_INST INSTRUCTION_TYPE_OTHER,
    NO_INST INSTRUCTION_TYPE_OTHER,
    NO_INST INSTRUCTION_TYPE_OTHER,
    NO_INST INSTRUCTION_TYPE_OTHER,
    NO_INST INSTRUCTION_TYPE_OTHER,
    NO_INST INSTRUCTION_TYPE_OTHER,
    NO_INST INSTRUCTION_TYPE_OTHER,
    NO_INST INSTRUCTION_TYPE_OTHER,
    NO_INST INSTRUCTION_TYPE_OTHER,
    NO_INST INSTRUCTION_TYPE_OTHER,
    NO_INST INSTRUCTION_TYPE_OTHER,
    NO_INST INSTRUCTION_TYPE_OTHER,
    NO_INST INSTRUCTION_TYPE_OTHER,
    NO_INST INSTRUCTION_TYPE_OTHER,
    INST INSTRUCTION_TYPE_SSE (Some ''cmpss'') (AM_V OR OT_ss OR P_r) (AM_W OR OT_ss OR P_r) (AM_I OR OT_b) True 0 0 0 0,
    NO_INST INSTRUCTION_TYPE_OTHER,
    NO_INST INSTRUCTION_TYPE_OTHER,
    NO_INST INSTRUCTION_TYPE_OTHER,
    NO_INST INSTRUCTION_TYPE_OTHER,
    NO_INST INSTRUCTION_TYPE_OTHER,
    NO_INST INSTRUCTION_TYPE_OTHER,
    NO_INST INSTRUCTION_TYPE_OTHER,
    NO_INST INSTRUCTION_TYPE_OTHER,
    NO_INST INSTRUCTION_TYPE_OTHER,
    NO_INST INSTRUCTION_TYPE_OTHER,
    NO_INST INSTRUCTION_TYPE_OTHER,
    NO_INST INSTRUCTION_TYPE_OTHER,
    NO_INST INSTRUCTION_TYPE_OTHER,
    NO_INST INSTRUCTION_TYPE_OTHER,
    NO_INST INSTRUCTION_TYPE_OTHER,
    NO_INST INSTRUCTION_TYPE_OTHER,
    NO_INST INSTRUCTION_TYPE_OTHER,
    NO_INST INSTRUCTION_TYPE_OTHER,
    NO_INST INSTRUCTION_TYPE_OTHER,
    INST INSTRUCTION_TYPE_SSE (Some ''movq2dq'') (AM_V OR OT_dq OR P_w) (AM_Q OR OT_q OR P_r) FLAGS_NONE True 0 0 0 0,
    NO_INST INSTRUCTION_TYPE_OTHER,
    NO_INST INSTRUCTION_TYPE_OTHER,
    NO_INST INSTRUCTION_TYPE_OTHER,
    NO_INST INSTRUCTION_TYPE_OTHER,
    NO_INST INSTRUCTION_TYPE_OTHER,
    NO_INST INSTRUCTION_TYPE_OTHER,
    NO_INST INSTRUCTION_TYPE_OTHER,
    NO_INST INSTRUCTION_TYPE_OTHER,
    NO_INST INSTRUCTION_TYPE_OTHER,
    NO_INST INSTRUCTION_TYPE_OTHER,
    NO_INST INSTRUCTION_TYPE_OTHER,
    NO_INST INSTRUCTION_TYPE_OTHER,
    NO_INST INSTRUCTION_TYPE_OTHER,
    NO_INST INSTRUCTION_TYPE_OTHER,
    NO_INST INSTRUCTION_TYPE_OTHER,
    INST INSTRUCTION_TYPE_SSE (Some ''cvtdq2pd'') (AM_V OR OT_pd OR P_r) (AM_W OR OT_q OR P_r) FLAGS_NONE True 0 0 0 0,
    NO_INST INSTRUCTION_TYPE_OTHER,
    NO_INST INSTRUCTION_TYPE_OTHER,
    NO_INST INSTRUCTION_TYPE_OTHER,
    NO_INST INSTRUCTION_TYPE_OTHER,
    NO_INST INSTRUCTION_TYPE_OTHER,
    NO_INST INSTRUCTION_TYPE_OTHER,
    NO_INST INSTRUCTION_TYPE_OTHER,
    NO_INST INSTRUCTION_TYPE_OTHER,
    NO_INST INSTRUCTION_TYPE_OTHER,
    NO_INST INSTRUCTION_TYPE_OTHER,
    NO_INST INSTRUCTION_TYPE_OTHER,
    NO_INST INSTRUCTION_TYPE_OTHER,
    NO_INST INSTRUCTION_TYPE_OTHER,
    NO_INST INSTRUCTION_TYPE_OTHER,
    NO_INST INSTRUCTION_TYPE_OTHER,
    NO_INST INSTRUCTION_TYPE_OTHER,
    NO_INST INSTRUCTION_TYPE_OTHER,
    NO_INST INSTRUCTION_TYPE_OTHER,
    NO_INST INSTRUCTION_TYPE_OTHER,
    NO_INST INSTRUCTION_TYPE_OTHER,
    NO_INST INSTRUCTION_TYPE_OTHER,
    NO_INST INSTRUCTION_TYPE_OTHER,
    NO_INST INSTRUCTION_TYPE_OTHER,
    NO_INST INSTRUCTION_TYPE_OTHER,
    NO_INST INSTRUCTION_TYPE_OTHER
  ]"

definition inst_table3_f3 :: "INST list" where [libdasm_tables]:
  "inst_table3_f3 = inst_table3_f3_lo @ inst_table3_f3_hi"

end
