(* ===== verification/Opcode_Table_Ext.thy ===== *)
theory Opcode_Table_Ext
  imports Libdasm_Base
begin

text \<open>
  The tables of opcode extensions (groups 1 to 16) of \<^verbatim>\<open>libdasm/opcode_tables.h\<close>, row by row, the fields in the order of
  the C initialisers. The row is chosen by the \<open>reg\<close> field of the MODRM byte.
\<close>

definition inst_table_ext1_1 :: "INST list" where [libdasm_tables]:
  "inst_table_ext1_1 = [
    INST INSTRUCTION_TYPE_ADD (Some ''add'') (AM_E OR OT_b OR P_w) (AM_I OR OT_b OR P_r) FLAGS_NONE True EFL_MATH 0 0 0,
    INST INSTRUCTION_TYPE_OR (Some ''or'') (AM_E OR OT_b OR P_w) (AM_I OR OT_b OR P_r) FLAGS_NONE True EFL_BITWISE 0 0 0,
    INST INSTRUCTION_TYPE_ADC (Some ''adc'') (AM_E OR OT_b OR P_w) (AM_I OR OT_b OR P_r) FLAGS_NONE True EFL_MATH 0 0 0,
    INST INSTRUCTION_TYPE_SBB (Some ''sbb'') (AM_E OR OT_b OR P_w) (AM_I OR OT_b OR P_r) FLAGS_NONE True EFL_MATH 0 0 0,
    INST INSTRUCTION_TYPE_AND (Some ''and'') (AM_E OR OT_b OR P_w) (AM_I OR OT_b OR P_r) FLAGS_NONE True EFL_BITWISE 0 0 0,
    INST INSTRUCTION_TYPE_SUB (Some ''sub'') (AM_E OR OT_b OR P_w) (AM_I OR OT_b OR P_r) FLAGS_NONE True EFL_MATH 0 0 0,
    INST INSTRUCTION_TYPE_XOR (Some ''xor'') (AM_E OR OT_b OR P_w) (AM_I OR OT_b OR P_r) FLAGS_NONE True EFL_BITWISE 0 0 0,
    INST INSTRUCTION_TYPE_CMP (Some ''cmp'') (AM_E OR OT_b OR P_r) (AM_I OR OT_b OR P_r) FLAGS_NONE True EFL_ALL_COMMON 0 0 0
  ]"

definition inst_table_ext1_2 :: "INST list" where [libdasm_tables]:
  "inst_table_ext1_2 = [
    INST INSTRUCTION_TYPE_ADD (Some ''add'') (AM_E OR OT_v OR P_w) (AM_I OR OT_v OR P_r) FLAGS_NONE True EFL_MATH 0 0 0,
    INST INSTRUCTION_TYPE_OR (Some ''or'') (AM_E OR OT_v OR P_w) (AM_I OR OT_v OR P_r) FLAGS_NONE True EFL_BITWISE 0 0 0,
    INST INSTRUCTION_TYPE_ADC (Some ''adc'') (AM_E OR OT_v OR P_w) (AM_I OR OT_v OR P_r) FLAGS_NONE True EFL_MATH 0 0 0,
    INST INSTRUCTION_TYPE_SBB (Some ''sbb'') (AM_E OR OT_v OR P_w) (AM_I OR OT_v OR P_r) FLAGS_NONE True EFL_MATH 0 0 0,
    INST INSTRUCTION_TYPE_AND (Some ''and'') (AM_E OR OT_v OR P_w) (AM_I OR OT_v OR P_r) FLAGS_NONE True EFL_BITWISE 0 0 0,
    INST INSTRUCTION_TYPE_SUB (Some ''sub'') (AM_E OR OT_v OR P_w) (AM_I OR OT_v OR P_r) FLAGS_NONE True EFL_MATH 0 0 0,
    INST INSTRUCTION_TYPE_XOR (Some ''xor'') (AM_E OR OT_v OR P_w) (AM_I OR OT_v OR P_r) FLAGS_NONE True EFL_BITWISE 0 0 0,
    INST INSTRUCTION_TYPE_CMP (Some ''cmp'') (AM_E OR OT_v OR P_r) (AM_I OR OT_v OR P_r) FLAGS_NONE True EFL_ALL_COMMON 0 0 0
  ]"

definition inst_table_ext1_3 :: "INST list" where [libdasm_tables]:
  "inst_table_ext1_3 = [
    INST INSTRUCTION_TYPE_ADD (Some ''add'') (AM_E OR OT_v OR P_w) (AM_I OR OT_b OR F_s OR P_r) FLAGS_NONE True EFL_MATH 0 0 0,
    INST INSTRUCTION_TYPE_OR (Some ''or'') (AM_E OR OT_v OR P_w) (AM_I OR OT_b OR F_s OR P_r) FLAGS_NONE True EFL_BITWISE 0 0 0,
    INST INSTRUCTION_TYPE_ADC (Some ''adc'') (AM_E OR OT_v OR P_w) (AM_I OR OT_b OR F_s OR P_r) FLAGS_NONE True EFL_MATH 0 0 0,
    INST INSTRUCTION_TYPE_SBB (Some ''sbb'') (AM_E OR OT_v OR P_w) (AM_I OR OT_b OR F_s OR P_r) FLAGS_NONE True EFL_MATH 0 0 0,
    INST INSTRUCTION_TYPE_AND (Some ''and'') (AM_E OR OT_v OR P_w) (AM_I OR OT_b OR F_s OR P_r) FLAGS_NONE True EFL_BITWISE 0 0 0,
    INST INSTRUCTION_TYPE_SUB (Some ''sub'') (AM_E OR OT_v OR P_w) (AM_I OR OT_b OR F_s OR P_r) FLAGS_NONE True EFL_MATH 0 0 0,
    INST INSTRUCTION_TYPE_XOR (Some ''xor'') (AM_E OR OT_v OR P_w) (AM_I OR OT_b OR F_s OR P_r) FLAGS_NONE True EFL_BITWISE 0 0 0,
    INST INSTRUCTION_TYPE_CMP (Some ''cmp'') (AM_E OR OT_v OR P_r) (AM_I OR OT_b OR F_s OR P_r) FLAGS_NONE True EFL_ALL_COMMON 0 0 0
  ]"

definition inst_table_ext2_1 :: "INST list" where [libdasm_tables]:
  "inst_table_ext2_1 = [
    INST INSTRUCTION_TYPE_ROX (Some ''rol'') (AM_E OR OT_b OR P_w) (AM_I OR OT_b OR P_r) FLAGS_NONE True (EFL_CF OR EFL_OF) 0 0 0,
    INST INSTRUCTION_TYPE_ROX (Some ''ror'') (AM_E OR OT_b OR P_w) (AM_I OR OT_b OR P_r) FLAGS_NONE True (EFL_CF OR EFL_OF) 0 0 0,
    INST INSTRUCTION_TYPE_ROX (Some ''rcl'') (AM_E OR OT_b OR P_w) (AM_I OR OT_b OR P_r) FLAGS_NONE True (EFL_CF OR EFL_OF) 0 0 0,
    INST INSTRUCTION_TYPE_ROX (Some ''rcr'') (AM_E OR OT_b OR P_w) (AM_I OR OT_b OR P_r) FLAGS_NONE True (EFL_CF OR EFL_OF) 0 0 0,
    INST INSTRUCTION_TYPE_SHX (Some ''shl'') (AM_E OR OT_b OR P_w) (AM_I OR OT_b OR P_r) FLAGS_NONE True (EFL_CF OR EFL_OF OR EFL_SF OR EFL_ZF OR EFL_PF) 0 0 0,
    INST INSTRUCTION_TYPE_SHX (Some ''shr'') (AM_E OR OT_b OR P_w) (AM_I OR OT_b OR P_r) FLAGS_NONE True (EFL_CF OR EFL_OF OR EFL_SF OR EFL_ZF OR EFL_PF) 0 0 0,
    NO_INST INSTRUCTION_TYPE_OTHER,
    INST INSTRUCTION_TYPE_SHX (Some ''sar'') (AM_E OR OT_b OR P_w) (AM_I OR OT_b OR P_r) FLAGS_NONE True (EFL_CF OR EFL_OF OR EFL_SF OR EFL_ZF OR EFL_PF) 0 0 0
  ]"

definition inst_table_ext2_2 :: "INST list" where [libdasm_tables]:
  "inst_table_ext2_2 = [
    INST INSTRUCTION_TYPE_ROX (Some ''rol'') (AM_E OR OT_v OR P_w) (AM_I OR OT_b OR P_r) FLAGS_NONE True (EFL_CF OR EFL_OF) 0 0 0,
    INST INSTRUCTION_TYPE_ROX (Some ''ror'') (AM_E OR OT_v OR P_w) (AM_I OR OT_b OR P_r) FLAGS_NONE True (EFL_CF OR EFL_OF) 0 0 0,
    INST INSTRUCTION_TYPE_ROX (Some ''rcl'') (AM_E OR OT_v OR P_w) (AM_I OR OT_b OR P_r) FLAGS_NONE True (EFL_CF OR EFL_OF) 0 0 0,
    INST INSTRUCTION_TYPE_ROX (Some ''rcr'') (AM_E OR OT_v OR P_w) (AM_I OR OT_b OR P_r) FLAGS_NONE True (EFL_CF OR EFL_OF) 0 0 0,
    INST INSTRUCTION_TYPE_SHX (Some ''shl'') (AM_E OR OT_v OR P_w) (AM_I OR OT_b OR P_r) FLAGS_NONE True (EFL_CF OR EFL_OF OR EFL_SF OR EFL_ZF OR EFL_PF) 0 0 0,
    INST INSTRUCTION_TYPE_SHX (Some ''shr'') (AM_E OR OT_v OR P_w) (AM_I OR OT_b OR P_r) FLAGS_NONE True (EFL_CF OR EFL_OF OR EFL_SF OR EFL_ZF OR EFL_PF) 0 0 0,
    NO_INST INSTRUCTION_TYPE_OTHER,
    INST INSTRUCTION_TYPE_SHX (Some ''sar'') (AM_E OR OT_v OR P_w) (AM_I OR OT_b OR P_r) FLAGS_NONE True (EFL_CF OR EFL_OF OR EFL_SF OR EFL_ZF OR EFL_PF) 0 0 0
  ]"

definition inst_table_ext2_3 :: "INST list" where [libdasm_tables]:
  "inst_table_ext2_3 = [
    INST INSTRUCTION_TYPE_ROX (Some ''rol'') (AM_E OR OT_b OR P_w) (AM_I1 OR OT_b OR P_r) FLAGS_NONE True (EFL_CF OR EFL_OF) 0 0 0,
    INST INSTRUCTION_TYPE_ROX (Some ''ror'') (AM_E OR OT_b OR P_w) (AM_I1 OR OT_b OR P_r) FLAGS_NONE True (EFL_CF OR EFL_OF) 0 0 0,
    INST INSTRUCTION_TYPE_ROX (Some ''rcl'') (AM_E OR OT_b OR P_w) (AM_I1 OR OT_b OR P_r) FLAGS_NONE True (EFL_CF OR EFL_OF) 0 0 0,
    INST INSTRUCTION_TYPE_ROX (Some ''rcr'') (AM_E OR OT_b OR P_w) (AM_I1 OR OT_b OR P_r) FLAGS_NONE True (EFL_CF OR EFL_OF) 0 0 0,
    INST INSTRUCTION_TYPE_SHX (Some ''shl'') (AM_E OR OT_b OR P_w) (AM_I1 OR OT_b OR P_r) FLAGS_NONE True (EFL_CF OR EFL_OF OR EFL_SF OR EFL_ZF OR EFL_PF) 0 0 0,
    INST INSTRUCTION_TYPE_SHX (Some ''shr'') (AM_E OR OT_b OR P_w) (AM_I1 OR OT_b OR P_r) FLAGS_NONE True (EFL_CF OR EFL_OF OR EFL_SF OR EFL_ZF OR EFL_PF) 0 0 0,
    NO_INST INSTRUCTION_TYPE_OTHER,
    INST INSTRUCTION_TYPE_SHX (Some ''sar'') (AM_E OR OT_b OR P_w) (AM_I1 OR OT_b OR P_r) FLAGS_NONE True (EFL_CF OR EFL_OF OR EFL_SF OR EFL_ZF OR EFL_PF) 0 0 0
  ]"

definition inst_table_ext2_4 :: "INST list" where [libdasm_tables]:
  "inst_table_ext2_4 = [
    INST INSTRUCTION_TYPE_ROX (Some ''rol'') (AM_E OR OT_v OR P_w) (AM_I1 OR OT_b OR P_r) FLAGS_NONE True (EFL_CF OR EFL_OF) 0 0 0,
    INST INSTRUCTION_TYPE_ROX (Some ''ror'') (AM_E OR OT_v OR P_w) (AM_I1 OR OT_b OR P_r) FLAGS_NONE True (EFL_CF OR EFL_OF) 0 0 0,
    INST INSTRUCTION_TYPE_ROX (Some ''rcl'') (AM_E OR OT_v OR P_w) (AM_I1 OR OT_b OR P_r) FLAGS_NONE True (EFL_CF OR EFL_OF) 0 0 0,
    INST INSTRUCTION_TYPE_ROX (Some ''rcr'') (AM_E OR OT_v OR P_w) (AM_I1 OR OT_b OR P_r) FLAGS_NONE True (EFL_CF OR EFL_OF) 0 0 0,
    INST INSTRUCTION_TYPE_SHX (Some ''shl'') (AM_E OR OT_v OR P_w) (AM_I1 OR OT_b OR P_r) FLAGS_NONE True (EFL_CF OR EFL_OF OR EFL_SF OR EFL_ZF OR EFL_PF) 0 0 0,
    INST INSTRUCTION_TYPE_SHX (Some ''shr'') (AM_E OR OT_v OR P_w) (AM_I1 OR OT_b OR P_r) FLAGS_NONE True (EFL_CF OR EFL_OF OR EFL_SF OR EFL_ZF OR EFL_PF) 0 0 0,
    NO_INST INSTRUCTION_TYPE_OTHER,
    INST INSTRUCTION_TYPE_SHX (Some ''sar'') (AM_E OR OT_v OR P_w) (AM_I1 OR OT_b OR P_r) FLAGS_NONE True (EFL_CF OR EFL_OF OR EFL_SF OR EFL_ZF OR EFL_PF) 0 0 0
  ]"

definition inst_table_ext2_5 :: "INST list" where [libdasm_tables]:
  "inst_table_ext2_5 = [
    INST INSTRUCTION_TYPE_ROX (Some ''rol'') (AM_E OR OT_b OR P_w) (AM_LIBDASM_REG OR LIBDASM_REG_CL OR OT_b OR P_r) FLAGS_NONE True (EFL_CF OR EFL_OF) 0 0 0,
    INST INSTRUCTION_TYPE_ROX (Some ''ror'') (AM_E OR OT_b OR P_w) (AM_LIBDASM_REG OR LIBDASM_REG_CL OR OT_b OR P_r) FLAGS_NONE True (EFL_CF OR EFL_OF) 0 0 0,
    INST INSTRUCTION_TYPE_ROX (Some ''rcl'') (AM_E OR OT_b OR P_w) (AM_LIBDASM_REG OR LIBDASM_REG_CL OR OT_b OR P_r) FLAGS_NONE True (EFL_CF OR EFL_OF) 0 0 0,
    INST INSTRUCTION_TYPE_ROX (Some ''rcr'') (AM_E OR OT_b OR P_w) (AM_LIBDASM_REG OR LIBDASM_REG_CL OR OT_b OR P_r) FLAGS_NONE True (EFL_CF OR EFL_OF) 0 0 0,
    INST INSTRUCTION_TYPE_SHX (Some ''shl'') (AM_E OR OT_b OR P_w) (AM_LIBDASM_REG OR LIBDASM_REG_CL OR OT_b OR P_r) FLAGS_NONE True (EFL_CF OR EFL_OF OR EFL_SF OR EFL_ZF OR EFL_PF) 0 0 0,
    INST INSTRUCTION_TYPE_SHX (Some ''shr'') (AM_E OR OT_b OR P_w) (AM_LIBDASM_REG OR LIBDASM_REG_CL OR OT_b OR P_r) FLAGS_NONE True (EFL_CF OR EFL_OF OR EFL_SF OR EFL_ZF OR EFL_PF) 0 0 0,
    NO_INST INSTRUCTION_TYPE_OTHER,
    INST INSTRUCTION_TYPE_SHX (Some ''sar'') (AM_E OR OT_b OR P_w) (AM_LIBDASM_REG OR LIBDASM_REG_CL OR OT_b OR P_r) FLAGS_NONE True (EFL_CF OR EFL_OF OR EFL_SF OR EFL_ZF OR EFL_PF) 0 0 0
  ]"

definition inst_table_ext2_6 :: "INST list" where [libdasm_tables]:
  "inst_table_ext2_6 = [
    INST INSTRUCTION_TYPE_ROX (Some ''rol'') (AM_E OR OT_v OR P_w) (AM_LIBDASM_REG OR LIBDASM_REG_CL OR OT_b OR P_r) FLAGS_NONE True (EFL_CF OR EFL_OF) 0 0 0,
    INST INSTRUCTION_TYPE_ROX (Some ''ror'') (AM_E OR OT_v OR P_w) (AM_LIBDASM_REG OR LIBDASM_REG_CL OR OT_b OR P_r) FLAGS_NONE True (EFL_CF OR EFL_OF) 0 0 0,
    INST INSTRUCTION_TYPE_ROX (Some ''rcl'') (AM_E OR OT_v OR P_w) (AM_LIBDASM_REG OR LIBDASM_REG_CL OR OT_b OR P_r) FLAGS_NONE True (EFL_CF OR EFL_OF) 0 0 0,
    INST INSTRUCTION_TYPE_ROX (Some ''rcr'') (AM_E OR OT_v OR P_w) (AM_LIBDASM_REG OR LIBDASM_REG_CL OR OT_b OR P_r) FLAGS_NONE True (EFL_CF OR EFL_OF) 0 0 0,
    INST INSTRUCTION_TYPE_SHX (Some ''shl'') (AM_E OR OT_v OR P_w) (AM_LIBDASM_REG OR LIBDASM_REG_CL OR OT_b OR P_r) FLAGS_NONE True (EFL_CF OR EFL_OF OR EFL_SF OR EFL_ZF OR EFL_PF) 0 0 0,
    INST INSTRUCTION_TYPE_SHX (Some ''shr'') (AM_E OR OT_v OR P_w) (AM_LIBDASM_REG OR LIBDASM_REG_CL OR OT_b OR P_r) FLAGS_NONE True (EFL_CF OR EFL_OF OR EFL_SF OR EFL_ZF OR EFL_PF) 0 0 0,
    NO_INST INSTRUCTION_TYPE_OTHER,
    INST INSTRUCTION_TYPE_SHX (Some ''sar'') (AM_E OR OT_v OR P_w) (AM_LIBDASM_REG OR LIBDASM_REG_CL OR OT_b OR P_r) FLAGS_NONE True (EFL_CF OR EFL_OF OR EFL_SF OR EFL_ZF OR EFL_PF) 0 0 0
  ]"

definition inst_table_ext3_1 :: "INST list" where [libdasm_tables]:
  "inst_table_ext3_1 = [
    INST INSTRUCTION_TYPE_TEST (Some ''test'') (AM_E OR OT_b OR P_r) (AM_I OR OT_b OR P_r) FLAGS_NONE True (EFL_OF OR EFL_CF OR EFL_SF OR EFL_ZF OR EFL_PF) 0 0 0,
    NO_INST INSTRUCTION_TYPE_OTHER,
    INST INSTRUCTION_TYPE_NOT (Some ''not'') (AM_E OR OT_b OR P_w) FLAGS_NONE FLAGS_NONE True 0 0 0 0,
    INST INSTRUCTION_TYPE_NEG (Some ''neg'') (AM_E OR OT_b OR P_w) FLAGS_NONE FLAGS_NONE True EFL_CF 0 0 0,
    INST INSTRUCTION_TYPE_MUL (Some ''mul'') (AM_E OR OT_b OR P_w) (FLAGS_NONE OR P_r) FLAGS_NONE True (EFL_CF OR EFL_OF) 0 IOP_EAX IOP_EAX,
    INST INSTRUCTION_TYPE_IMUL (Some ''imul'') (AM_E OR OT_b OR P_r) (FLAGS_NONE OR P_r) (FLAGS_NONE OR P_r) True (EFL_CF OR EFL_OF) 0 IOP_EAX IOP_EAX,
    INST INSTRUCTION_TYPE_DIV (Some ''div'') (AM_E OR OT_b OR P_w) (FLAGS_NONE OR P_r) FLAGS_NONE True 0 0 IOP_EAX IOP_EAX,
    INST INSTRUCTION_TYPE_IDIV (Some ''idiv'') (AM_E OR OT_b OR P_w) (FLAGS_NONE OR P_r) FLAGS_NONE True 0 0 IOP_EAX IOP_EAX
  ]"

definition inst_table_ext3_2 :: "INST list" where [libdasm_tables]:
  "inst_table_ext3_2 = [
    INST INSTRUCTION_TYPE_TEST (Some ''test'') (AM_E OR OT_v OR P_r) (AM_I OR OT_v OR P_r) FLAGS_NONE True (EFL_OF OR EFL_CF OR EFL_SF OR EFL_ZF OR EFL_PF) 0 0 0,
    NO_INST INSTRUCTION_TYPE_OTHER,
    INST INSTRUCTION_TYPE_NOT (Some ''not'') (AM_E OR OT_v OR P_w) FLAGS_NONE FLAGS_NONE True 0 0 0 0,
    INST INSTRUCTION_TYPE_NEG (Some ''neg'') (AM_E OR OT_v OR P_w) FLAGS_NONE FLAGS_NONE True EFL_CF 0 0 0,
    INST INSTRUCTION_TYPE_MUL (Some ''mul'') (AM_E OR OT_v OR P_w) (FLAGS_NONE OR P_r) FLAGS_NONE True (EFL_CF OR EFL_OF) 0 (IOP_EAX OR IOP_EDX) IOP_EAX,
    INST INSTRUCTION_TYPE_IMUL (Some ''imul'') (AM_E OR OT_v OR P_r) (FLAGS_NONE OR P_r) (FLAGS_NONE OR P_r) True (EFL_CF OR EFL_OF) 0 (IOP_EAX OR IOP_EDX) IOP_EAX,
    INST INSTRUCTION_TYPE_DIV (Some ''div'') (AM_E OR OT_v OR P_w) (FLAGS_NONE OR P_r) FLAGS_NONE True 0 0 (IOP_EAX OR IOP_EDX) (IOP_EAX OR IOP_EDX),
    INST INSTRUCTION_TYPE_IDIV (Some ''idiv'') (AM_E OR OT_v OR P_w) (FLAGS_NONE OR P_r) FLAGS_NONE True 0 0 (IOP_EAX OR IOP_EDX) (IOP_EAX OR IOP_EDX)
  ]"

definition inst_table_ext4 :: "INST list" where [libdasm_tables]:
  "inst_table_ext4 = [
    INST INSTRUCTION_TYPE_INC (Some ''inc'') (AM_E OR OT_b OR P_r) FLAGS_NONE FLAGS_NONE True (EFL_OF OR EFL_SF OR EFL_ZF OR EFL_AF OR EFL_PF) 0 0 0,
    INST INSTRUCTION_TYPE_DEC (Some ''dec'') (AM_E OR OT_b) FLAGS_NONE FLAGS_NONE True (EFL_OF OR EFL_SF OR EFL_ZF OR EFL_AF OR EFL_PF) 0 0 0,
    NO_INST INSTRUCTION_TYPE_OTHER,
    NO_INST INSTRUCTION_TYPE_OTHER,
    NO_INST INSTRUCTION_TYPE_OTHER,
    NO_INST INSTRUCTION_TYPE_OTHER,
    NO_INST INSTRUCTION_TYPE_OTHER,
    NO_INST INSTRUCTION_TYPE_OTHER
  ]"

definition inst_table_ext5 :: "INST list" where [libdasm_tables]:
  "inst_table_ext5 = [
    INST INSTRUCTION_TYPE_INC (Some ''inc'') (AM_E OR OT_v OR P_r) FLAGS_NONE FLAGS_NONE True (EFL_OF OR EFL_SF OR EFL_ZF OR EFL_AF OR EFL_PF) 0 0 0,
    INST INSTRUCTION_TYPE_DEC (Some ''dec'') (AM_E OR OT_v) FLAGS_NONE FLAGS_NONE True (EFL_OF OR EFL_SF OR EFL_ZF OR EFL_AF OR EFL_PF) 0 0 0,
    INST INSTRUCTION_TYPE_CALL (Some ''call'') (AM_E OR OT_v OR P_x) FLAGS_NONE FLAGS_NONE True 0 0 IOP_ESP IOP_ESP,
    INST INSTRUCTION_TYPE_CALL (Some ''callf'') (AM_E OR OT_v OR P_x) FLAGS_NONE FLAGS_NONE True 0 0 IOP_ESP IOP_ESP,
    INST INSTRUCTION_TYPE_JMP (Some ''jmp'') (AM_E OR OT_v OR P_x) FLAGS_NONE FLAGS_NONE True 0 0 0 0,
    INST INSTRUCTION_TYPE_JMP (Some ''jmpf'') (AM_E OR OT_v OR P_x) FLAGS_NONE FLAGS_NONE True 0 0 0 0,
    INST INSTRUCTION_TYPE_PUSH (Some ''push'') (AM_E OR OT_v OR P_r) FLAGS_NONE FLAGS_NONE True 0 0 IOP_ESP IOP_ESP,
    NO_INST INSTRUCTION_TYPE_OTHER
  ]"

definition inst_table_ext6 :: "INST list" where [libdasm_tables]:
  "inst_table_ext6 = [
    INST INSTRUCTION_TYPE_SLDT (Some ''sldt'') (AM_E OR OT_w OR P_r) FLAGS_NONE FLAGS_NONE True 0 0 0 0,
    INST INSTRUCTION_TYPE_PRIV (Some ''str'') (AM_E OR OT_w OR P_w) FLAGS_NONE FLAGS_NONE True 0 0 0 0,
    INST INSTRUCTION_TYPE_PRIV (Some ''lldt'') (AM_E OR OT_w OR P_w) FLAGS_NONE FLAGS_NONE True 0 0 0 0,
    INST INSTRUCTION_TYPE_PRIV (Some ''ltr'') (AM_E OR OT_w OR P_w) FLAGS_NONE FLAGS_NONE True 0 0 0 0,
    INST INSTRUCTION_TYPE_PRIV (Some ''verr'') (AM_E OR OT_w OR P_r) FLAGS_NONE FLAGS_NONE True EFL_ZF 0 0 0,
    INST INSTRUCTION_TYPE_PRIV (Some ''verw'') (AM_E OR OT_w OR P_r) FLAGS_NONE FLAGS_NONE True EFL_ZF 0 0 0,
    NO_INST INSTRUCTION_TYPE_OTHER,
    NO_INST INSTRUCTION_TYPE_OTHER
  ]"

definition inst_table_ext7 :: "INST list" where [libdasm_tables]:
  "inst_table_ext7 = [
    INST INSTRUCTION_TYPE_SGDT (Some ''sgdt'') (AM_M OR OT_d OR P_w) FLAGS_NONE FLAGS_NONE True 0 0 0 0,
    INST INSTRUCTION_TYPE_SIDT (Some ''sidt'') (AM_M OR OT_d OR P_w) FLAGS_NONE FLAGS_NONE True 0 0 0 0,
    INST INSTRUCTION_TYPE_PRIV (Some ''lgdt'') (AM_M OR OT_d OR P_w) FLAGS_NONE FLAGS_NONE True 0 0 0 0,
    INST INSTRUCTION_TYPE_PRIV (Some ''lidt'') (AM_M OR OT_d OR P_w) FLAGS_NONE FLAGS_NONE True 0 0 0 0,
    INST INSTRUCTION_TYPE_PRIV (Some ''smsw'') (AM_E OR OT_w OR P_w) FLAGS_NONE FLAGS_NONE True 0 0 0 0,
    NO_INST INSTRUCTION_TYPE_OTHER,
    INST INSTRUCTION_TYPE_PRIV (Some ''lmsw'') (AM_E OR OT_w OR P_w) FLAGS_NONE FLAGS_NONE True 0 0 IOP_EAX 0,
    INST INSTRUCTION_TYPE_PRIV (Some ''invlpg'') (AM_M OR OT_b OR P_r) FLAGS_NONE FLAGS_NONE True 0 0 0 0
  ]"

definition inst_table_ext8 :: "INST list" where [libdasm_tables]:
  "inst_table_ext8 = [
    NO_INST INSTRUCTION_TYPE_OTHER,
    NO_INST INSTRUCTION_TYPE_OTHER,
    NO_INST INSTRUCTION_TYPE_OTHER,
    NO_INST INSTRUCTION_TYPE_OTHER,
    INST INSTRUCTION_TYPE_BT (Some ''bt'') (AM_E OR OT_v OR P_r) (AM_I OR OT_b OR P_r) FLAGS_NONE True EFL_CF 0 0 0,
    INST INSTRUCTION_TYPE_BTS (Some ''bts'') (AM_E OR OT_v OR P_r) (AM_I OR OT_b OR P_r) FLAGS_NONE True EFL_CF 0 0 0,
    INST INSTRUCTION_TYPE_BTR (Some ''btr'') (AM_E OR OT_v OR P_r) (AM_I OR OT_b OR P_r) FLAGS_NONE True EFL_CF 0 0 0,
    INST INSTRUCTION_TYPE_BTC (Some ''btc'') (AM_E OR OT_v OR P_r) (AM_I OR OT_b OR P_r) FLAGS_NONE True EFL_CF 0 0 0
  ]"

definition inst_table_ext9 :: "INST list" where [libdasm_tables]:
  "inst_table_ext9 = [
    NO_INST INSTRUCTION_TYPE_OTHER,
    INST INSTRUCTION_TYPE_SSE (Some ''cmpxch8b'') (AM_M OR OT_q) FLAGS_NONE FLAGS_NONE True EFL_ALL_COMMON 0 (IOP_EAX OR IOP_EDX) (IOP_EAX OR IOP_EBX OR IOP_ECX OR IOP_EDX),
    NO_INST INSTRUCTION_TYPE_OTHER,
    NO_INST INSTRUCTION_TYPE_OTHER,
    NO_INST INSTRUCTION_TYPE_OTHER,
    NO_INST INSTRUCTION_TYPE_OTHER,
    NO_INST INSTRUCTION_TYPE_OTHER,
    NO_INST INSTRUCTION_TYPE_OTHER
  ]"

definition inst_table_ext10 :: "INST list" where [libdasm_tables]:
  "inst_table_ext10 = [
    NO_INST INSTRUCTION_TYPE_OTHER,
    NO_INST INSTRUCTION_TYPE_OTHER,
    NO_INST INSTRUCTION_TYPE_OTHER,
    NO_INST INSTRUCTION_TYPE_OTHER,
    NO_INST INSTRUCTION_TYPE_OTHER,
    NO_INST INSTRUCTION_TYPE_OTHER,
    NO_INST INSTRUCTION_TYPE_OTHER,
    NO_INST INSTRUCTION_TYPE_OTHER
  ]"

definition inst_table_ext11 :: "INST list" where [libdasm_tables]:
  "inst_table_ext11 = [
    NO_INST INSTRUCTION_TYPE_OTHER,
    NO_INST INSTRUCTION_TYPE_OTHER,
    NO_INST INSTRUCTION_TYPE_OTHER,
    NO_INST INSTRUCTION_TYPE_OTHER,
    NO_INST INSTRUCTION_TYPE_OTHER,
    NO_INST INSTRUCTION_TYPE_OTHER,
    NO_INST INSTRUCTION_TYPE_OTHER,
    NO_INST INSTRUCTION_TYPE_OTHER
  ]"

definition inst_table_ext12 :: "INST list" where [libdasm_tables]:
  "inst_table_ext12 = [
    NO_INST INSTRUCTION_TYPE_OTHER,
    NO_INST INSTRUCTION_TYPE_OTHER,
    INST INSTRUCTION_TYPE_MMX (Some ''psrlw'') (AM_Q OR OT_q OR P_w) (AM_I OR OT_b OR P_r) FLAGS_NONE True 0 0 0 0,
    NO_INST INSTRUCTION_TYPE_OTHER,
    INST INSTRUCTION_TYPE_MMX (Some ''psraw'') (AM_Q OR OT_q OR P_w) (AM_I OR OT_b OR P_r) FLAGS_NONE True 0 0 0 0,
    NO_INST INSTRUCTION_TYPE_OTHER,
    INST INSTRUCTION_TYPE_MMX (Some ''psllw'') (AM_Q OR OT_q OR P_w) (AM_I OR OT_b OR P_r) FLAGS_NONE True 0 0 0 0,
    NO_INST INSTRUCTION_TYPE_OTHER
  ]"

definition inst_table_ext12_66 :: "INST list" where [libdasm_tables]:
  "inst_table_ext12_66 = [
    NO_INST INSTRUCTION_TYPE_OTHER,
    NO_INST INSTRUCTION_TYPE_OTHER,
    INST INSTRUCTION_TYPE_SSE (Some ''psrlw'') (AM_W OR OT_dq OR P_w) (AM_I OR OT_b OR P_r) FLAGS_NONE True 0 0 0 0,
    NO_INST INSTRUCTION_TYPE_OTHER,
    INST INSTRUCTION_TYPE_SSE (Some ''psraw'') (AM_W OR OT_dq OR P_w) (AM_I OR OT_b OR P_r) FLAGS_NONE True 0 0 0 0,
    NO_INST INSTRUCTION_TYPE_OTHER,
    INST INSTRUCTION_TYPE_SSE (Some ''psllw'') (AM_W OR OT_dq OR P_w) (AM_I OR OT_b OR P_r) FLAGS_NONE True 0 0 0 0,
    NO_INST INSTRUCTION_TYPE_OTHER
  ]"

definition inst_table_ext13 :: "INST list" where [libdasm_tables]:
  "inst_table_ext13 = [
    NO_INST INSTRUCTION_TYPE_OTHER,
    NO_INST INSTRUCTION_TYPE_OTHER,
    INST INSTRUCTION_TYPE_MMX (Some ''psrld'') (AM_Q OR OT_q OR P_w) (AM_I OR OT_b OR P_r) FLAGS_NONE True 0 0 0 0,
    NO_INST INSTRUCTION_TYPE_OTHER,
    INST INSTRUCTION_TYPE_MMX (Some ''psrad'') (AM_Q OR OT_q OR P_w) (AM_I OR OT_b OR P_r) FLAGS_NONE True 0 0 0 0,
    NO_INST INSTRUCTION_TYPE_OTHER,
    INST INSTRUCTION_TYPE_MMX (Some ''pslld'') (AM_Q OR OT_q OR P_w) (AM_I OR OT_b OR P_r) FLAGS_NONE True 0 0 0 0,
    NO_INST INSTRUCTION_TYPE_OTHER
  ]"

definition inst_table_ext13_66 :: "INST list" where [libdasm_tables]:
  "inst_table_ext13_66 = [
    NO_INST INSTRUCTION_TYPE_OTHER,
    NO_INST INSTRUCTION_TYPE_OTHER,
    INST INSTRUCTION_TYPE_SSE (Some ''psrld'') (AM_W OR OT_dq OR P_w) (AM_I OR OT_b OR P_r) FLAGS_NONE True 0 0 0 0,
    NO_INST INSTRUCTION_TYPE_OTHER,
    INST INSTRUCTION_TYPE_SSE (Some ''psrad'') (AM_W OR OT_dq OR P_w) (AM_I OR OT_b OR P_r) FLAGS_NONE True 0 0 0 0,
    NO_INST INSTRUCTION_TYPE_OTHER,
    INST INSTRUCTION_TYPE_SSE (Some ''pslld'') (AM_W OR OT_dq OR P_w) (AM_I OR OT_b OR P_r) FLAGS_NONE True 0 0 0 0,
    NO_INST INSTRUCTION_TYPE_OTHER
  ]"

definition inst_table_ext14 :: "INST list" where [libdasm_tables]:
  "inst_table_ext14 = [
    NO_INST INSTRUCTION_TYPE_OTHER,
    NO_INST INSTRUCTION_TYPE_OTHER,
    INST INSTRUCTION_TYPE_MMX (Some ''psrlq'') (AM_Q OR OT_q OR P_w) (AM_I OR OT_b OR P_r) FLAGS_NONE True 0 0 0 0,
    NO_INST INSTRUCTION_TYPE_OTHER,
    NO_INST INSTRUCTION_TYPE_OTHER,
    NO_INST INSTRUCTION_TYPE_OTHER,
    INST INSTRUCTION_TYPE_MMX (Some ''psllq'') (AM_Q OR OT_q OR P_w) (AM_I OR OT_b OR P_r) FLAGS_NONE True 0 0 0 0,
    NO_INST INSTRUCTION_TYPE_OTHER
  ]"

definition inst_table_ext14_66 :: "INST list" where [libdasm_tables]:
  "inst_table_ext14_66 = [
    NO_INST INSTRUCTION_TYPE_OTHER,
    NO_INST INSTRUCTION_TYPE_OTHER,
    INST INSTRUCTION_TYPE_SSE (Some ''psrlq'') (AM_W OR OT_dq OR P_w) (AM_I OR OT_b OR P_r) FLAGS_NONE True 0 0 0 0,
    INST INSTRUCTION_TYPE_SSE (Some ''psrldq'') (AM_W OR OT_dq OR P_w) (AM_I OR OT_b OR P_r) FLAGS_NONE True 0 0 0 0,
    NO_INST INSTRUCTION_TYPE_OTHER,
    NO_INST INSTRUCTION_TYPE_OTHER,
    INST INSTRUCTION_TYPE_SSE (Some ''psllq'') (AM_W OR OT_dq OR P_w) (AM_I OR OT_b OR P_r) FLAGS_NONE True 0 0 0 0,
    INST INSTRUCTION_TYPE_SSE (Some ''pslldq'') (AM_W OR OT_dq OR P_w) (AM_I OR OT_b OR P_r) FLAGS_NONE True 0 0 0 0
  ]"

definition inst_table_ext15 :: "INST list" where [libdasm_tables]:
  "inst_table_ext15 = [
    INST INSTRUCTION_TYPE_OTHER (Some ''fxsave'') (AM_E OR OT_v) FLAGS_NONE FLAGS_NONE True 0 0 0 0,
    INST INSTRUCTION_TYPE_OTHER (Some ''fxrstor'') (AM_E OR OT_v) FLAGS_NONE FLAGS_NONE True 0 0 0 0,
    INST INSTRUCTION_TYPE_OTHER (Some ''ldmxcsr'') (AM_E OR OT_v) FLAGS_NONE FLAGS_NONE True 0 0 0 0,
    INST INSTRUCTION_TYPE_OTHER (Some ''stmxcsr'') (AM_E OR OT_v) FLAGS_NONE FLAGS_NONE True 0 0 0 0,
    NO_INST INSTRUCTION_TYPE_OTHER,
    NO_INST INSTRUCTION_TYPE_OTHER,
    NO_INST INSTRUCTION_TYPE_OTHER,
    INST INSTRUCTION_TYPE_OTHER (Some ''sfence'') (AM_E OR OT_v) FLAGS_NONE FLAGS_NONE True 0 0 0 0
  ]"

definition inst_table_ext16 :: "INST list" where [libdasm_tables]:
  "inst_table_ext16 = [
    NO_INST INSTRUCTION_TYPE_OTHER,
    NO_INST INSTRUCTION_TYPE_OTHER,
    NO_INST INSTRUCTION_TYPE_OTHER,
    NO_INST INSTRUCTION_TYPE_OTHER,
    NO_INST INSTRUCTION_TYPE_OTHER,
    NO_INST INSTRUCTION_TYPE_OTHER,
    NO_INST INSTRUCTION_TYPE_OTHER,
    NO_INST INSTRUCTION_TYPE_OTHER
  ]"

definition inst_monitor :: INST where [libdasm_tables]:
  "inst_monitor = INST INSTRUCTION_TYPE_OTHER (Some ''monitor'') (FLAGS_NONE OR P_w) (FLAGS_NONE OR P_r) FLAGS_NONE False 0 0 (IOP_EAX OR IOP_ECX OR IOP_EDX) (IOP_EAX OR IOP_ECX OR IOP_EDX)"

definition inst_mwait :: INST where [libdasm_tables]:
  "inst_mwait = INST INSTRUCTION_TYPE_OTHER (Some ''mwait'') FLAGS_NONE FLAGS_NONE FLAGS_NONE False 0 0 (IOP_EAX OR IOP_ECX) (IOP_EAX OR IOP_ECX)"

text \<open>The table of extension tables. It is declared with 25 entries and initialised with 24;
  the last one is a null pointer, which has no rows.\<close>

definition inst_table_ext :: "INST list list" where [libdasm_tables]:
  "inst_table_ext = [
    inst_table_ext1_1, inst_table_ext1_2, inst_table_ext1_3, inst_table_ext2_1, inst_table_ext2_2, inst_table_ext2_3, inst_table_ext2_4, inst_table_ext2_5, inst_table_ext2_6, inst_table_ext3_1, inst_table_ext3_2, inst_table_ext4, inst_table_ext5, inst_table_ext6, inst_table_ext7, inst_table_ext8, inst_table_ext9, inst_table_ext10, inst_table_ext11, inst_table_ext12, inst_table_ext13, inst_table_ext14, inst_table_ext15, inst_table_ext16, []]"

end
