(* ===== verification/Opcode_Table_Fpu.thy ===== *)
theory Opcode_Table_Fpu
  imports Libdasm_Base
begin

text \<open>
  The tables of the floating-point opcodes, one for each escape byte \<open>0xd8\<close> to \<open>0xdf\<close>, of \<^verbatim>\<open>libdasm/opcode_tables.h\<close>, row by row, the fields in the order of
  the C initialisers. Every table is
  declared with 72 entries; \<open>inst_table_fpu_d9\<close> has initialisers for 68, and its last four rows
  are the zeroes C puts there (\<open>NO_INST 0\<close>).
\<close>

definition inst_table_fpu_d8 :: "INST list" where [libdasm_tables]:
  "inst_table_fpu_d8 = [
    INST INSTRUCTION_TYPE_FADD (Some ''fadds'') (AM_E OR OT_d OR P_w) (FLAGS_NONE OR P_r) FLAGS_NONE True 0 0 0 0,
    INST INSTRUCTION_TYPE_FMUL (Some ''fmuls'') (AM_E OR OT_d OR P_w) (FLAGS_NONE OR P_r) FLAGS_NONE True 0 0 0 0,
    INST INSTRUCTION_TYPE_FCOM (Some ''fcoms'') (AM_E OR OT_d OR P_w) (FLAGS_NONE OR P_r) FLAGS_NONE True 0 0 0 0,
    INST INSTRUCTION_TYPE_FCOMP (Some ''fcomps'') (AM_E OR OT_d OR P_w) (FLAGS_NONE OR P_r) FLAGS_NONE True 0 0 0 0,
    INST INSTRUCTION_TYPE_FSUB (Some ''fsubs'') (AM_E OR OT_d OR P_w) (FLAGS_NONE OR P_r) FLAGS_NONE True 0 0 0 0,
    INST INSTRUCTION_TYPE_FSUBR (Some ''fsubrs'') (AM_E OR OT_d OR P_w) (FLAGS_NONE OR P_r) FLAGS_NONE True 0 0 0 0,
    INST INSTRUCTION_TYPE_FDIV (Some ''fdivs'') (AM_E OR OT_d OR P_w) (FLAGS_NONE OR P_r) FLAGS_NONE True 0 0 0 0,
    INST INSTRUCTION_TYPE_FDIVR (Some ''fdivrs'') (AM_E OR OT_d OR P_w) (FLAGS_NONE OR P_r) FLAGS_NONE True 0 0 0 0,
    INST INSTRUCTION_TYPE_FADD (Some ''fadd'') (AM_LIBDASM_REG OR LIBDASM_REG_ST0 OR F_f OR P_w) (AM_LIBDASM_REG OR LIBDASM_REG_ST0 OR F_f OR P_r) FLAGS_NONE False 0 0 0 0,
    INST INSTRUCTION_TYPE_FADD (Some ''fadd'') (AM_LIBDASM_REG OR LIBDASM_REG_ST0 OR F_f OR P_w) (AM_LIBDASM_REG OR LIBDASM_REG_ST1 OR F_f OR P_r) FLAGS_NONE False 0 0 0 0,
    INST INSTRUCTION_TYPE_FADD (Some ''fadd'') (AM_LIBDASM_REG OR LIBDASM_REG_ST0 OR F_f OR P_w) (AM_LIBDASM_REG OR LIBDASM_REG_ST2 OR F_f OR P_r) FLAGS_NONE False 0 0 0 0,
    INST INSTRUCTION_TYPE_FADD (Some ''fadd'') (AM_LIBDASM_REG OR LIBDASM_REG_ST0 OR F_f OR P_w) (AM_LIBDASM_REG OR LIBDASM_REG_ST3 OR F_f OR P_r) FLAGS_NONE False 0 0 0 0,
    INST INSTRUCTION_TYPE_FADD (Some ''fadd'') (AM_LIBDASM_REG OR LIBDASM_REG_ST0 OR F_f OR P_w) (AM_LIBDASM_REG OR LIBDASM_REG_ST4 OR F_f OR P_r) FLAGS_NONE False 0 0 0 0,
    INST INSTRUCTION_TYPE_FADD (Some ''fadd'') (AM_LIBDASM_REG OR LIBDASM_REG_ST0 OR F_f OR P_w) (AM_LIBDASM_REG OR LIBDASM_REG_ST5 OR F_f OR P_r) FLAGS_NONE False 0 0 0 0,
    INST INSTRUCTION_TYPE_FADD (Some ''fadd'') (AM_LIBDASM_REG OR LIBDASM_REG_ST0 OR F_f OR P_w) (AM_LIBDASM_REG OR LIBDASM_REG_ST6 OR F_f OR P_r) FLAGS_NONE False 0 0 0 0,
    INST INSTRUCTION_TYPE_FADD (Some ''fadd'') (AM_LIBDASM_REG OR LIBDASM_REG_ST0 OR F_f OR P_w) (AM_LIBDASM_REG OR LIBDASM_REG_ST7 OR F_f OR P_r) FLAGS_NONE False 0 0 0 0,
    INST INSTRUCTION_TYPE_FMUL (Some ''fmul'') (AM_LIBDASM_REG OR LIBDASM_REG_ST0 OR F_f OR P_w) (AM_LIBDASM_REG OR LIBDASM_REG_ST0 OR F_f OR P_r) FLAGS_NONE False 0 0 0 0,
    INST INSTRUCTION_TYPE_FMUL (Some ''fmul'') (AM_LIBDASM_REG OR LIBDASM_REG_ST0 OR F_f OR P_w) (AM_LIBDASM_REG OR LIBDASM_REG_ST1 OR F_f OR P_r) FLAGS_NONE False 0 0 0 0,
    INST INSTRUCTION_TYPE_FMUL (Some ''fmul'') (AM_LIBDASM_REG OR LIBDASM_REG_ST0 OR F_f OR P_w) (AM_LIBDASM_REG OR LIBDASM_REG_ST2 OR F_f OR P_r) FLAGS_NONE False 0 0 0 0,
    INST INSTRUCTION_TYPE_FMUL (Some ''fmul'') (AM_LIBDASM_REG OR LIBDASM_REG_ST0 OR F_f OR P_w) (AM_LIBDASM_REG OR LIBDASM_REG_ST3 OR F_f OR P_r) FLAGS_NONE False 0 0 0 0,
    INST INSTRUCTION_TYPE_FMUL (Some ''fmul'') (AM_LIBDASM_REG OR LIBDASM_REG_ST0 OR F_f OR P_w) (AM_LIBDASM_REG OR LIBDASM_REG_ST4 OR F_f OR P_r) FLAGS_NONE False 0 0 0 0,
    INST INSTRUCTION_TYPE_FMUL (Some ''fmul'') (AM_LIBDASM_REG OR LIBDASM_REG_ST0 OR F_f OR P_w) (AM_LIBDASM_REG OR LIBDASM_REG_ST5 OR F_f OR P_r) FLAGS_NONE False 0 0 0 0,
    INST INSTRUCTION_TYPE_FMUL (Some ''fmul'') (AM_LIBDASM_REG OR LIBDASM_REG_ST0 OR F_f OR P_w) (AM_LIBDASM_REG OR LIBDASM_REG_ST6 OR F_f OR P_r) FLAGS_NONE False 0 0 0 0,
    INST INSTRUCTION_TYPE_FMUL (Some ''fmul'') (AM_LIBDASM_REG OR LIBDASM_REG_ST0 OR F_f OR P_w) (AM_LIBDASM_REG OR LIBDASM_REG_ST7 OR F_f OR P_r) FLAGS_NONE False 0 0 0 0,
    INST INSTRUCTION_TYPE_FCOM (Some ''fcom'') (AM_LIBDASM_REG OR LIBDASM_REG_ST0 OR F_f OR P_w) (AM_LIBDASM_REG OR LIBDASM_REG_ST0 OR F_f OR P_r) FLAGS_NONE False 0 0 0 0,
    INST INSTRUCTION_TYPE_FCOM (Some ''fcom'') (AM_LIBDASM_REG OR LIBDASM_REG_ST0 OR F_f OR P_w) (AM_LIBDASM_REG OR LIBDASM_REG_ST1 OR F_f OR P_r) FLAGS_NONE False 0 0 0 0,
    INST INSTRUCTION_TYPE_FCOM (Some ''fcom'') (AM_LIBDASM_REG OR LIBDASM_REG_ST0 OR F_f OR P_w) (AM_LIBDASM_REG OR LIBDASM_REG_ST2 OR F_f OR P_r) FLAGS_NONE False 0 0 0 0,
    INST INSTRUCTION_TYPE_FCOM (Some ''fcom'') (AM_LIBDASM_REG OR LIBDASM_REG_ST0 OR F_f OR P_w) (AM_LIBDASM_REG OR LIBDASM_REG_ST3 OR F_f OR P_r) FLAGS_NONE False 0 0 0 0,
    INST INSTRUCTION_TYPE_FCOM (Some ''fcom'') (AM_LIBDASM_REG OR LIBDASM_REG_ST0 OR F_f OR P_w) (AM_LIBDASM_REG OR LIBDASM_REG_ST4 OR F_f OR P_r) FLAGS_NONE False 0 0 0 0,
    INST INSTRUCTION_TYPE_FCOM (Some ''fcom'') (AM_LIBDASM_REG OR LIBDASM_REG_ST0 OR F_f OR P_w) (AM_LIBDASM_REG OR LIBDASM_REG_ST5 OR F_f OR P_r) FLAGS_NONE False 0 0 0 0,
    INST INSTRUCTION_TYPE_FCOM (Some ''fcom'') (AM_LIBDASM_REG OR LIBDASM_REG_ST0 OR F_f OR P_w) (AM_LIBDASM_REG OR LIBDASM_REG_ST6 OR F_f OR P_r) FLAGS_NONE False 0 0 0 0,
    INST INSTRUCTION_TYPE_FCOM (Some ''fcom'') (AM_LIBDASM_REG OR LIBDASM_REG_ST0 OR F_f OR P_w) (AM_LIBDASM_REG OR LIBDASM_REG_ST7 OR F_f OR P_r) FLAGS_NONE False 0 0 0 0,
    INST INSTRUCTION_TYPE_FCOMP (Some ''fcomp'') (AM_LIBDASM_REG OR LIBDASM_REG_ST0 OR F_f OR P_w) (AM_LIBDASM_REG OR LIBDASM_REG_ST0 OR F_f OR P_r) FLAGS_NONE False 0 0 0 0,
    INST INSTRUCTION_TYPE_FCOMP (Some ''fcomp'') (AM_LIBDASM_REG OR LIBDASM_REG_ST0 OR F_f OR P_w) (AM_LIBDASM_REG OR LIBDASM_REG_ST1 OR F_f OR P_r) FLAGS_NONE False 0 0 0 0,
    INST INSTRUCTION_TYPE_FCOMP (Some ''fcomp'') (AM_LIBDASM_REG OR LIBDASM_REG_ST0 OR F_f OR P_w) (AM_LIBDASM_REG OR LIBDASM_REG_ST2 OR F_f OR P_r) FLAGS_NONE False 0 0 0 0,
    INST INSTRUCTION_TYPE_FCOMP (Some ''fcomp'') (AM_LIBDASM_REG OR LIBDASM_REG_ST0 OR F_f OR P_w) (AM_LIBDASM_REG OR LIBDASM_REG_ST3 OR F_f OR P_r) FLAGS_NONE False 0 0 0 0,
    INST INSTRUCTION_TYPE_FCOMP (Some ''fcomp'') (AM_LIBDASM_REG OR LIBDASM_REG_ST0 OR F_f OR P_w) (AM_LIBDASM_REG OR LIBDASM_REG_ST4 OR F_f OR P_r) FLAGS_NONE False 0 0 0 0,
    INST INSTRUCTION_TYPE_FCOMP (Some ''fcomp'') (AM_LIBDASM_REG OR LIBDASM_REG_ST0 OR F_f OR P_w) (AM_LIBDASM_REG OR LIBDASM_REG_ST5 OR F_f OR P_r) FLAGS_NONE False 0 0 0 0,
    INST INSTRUCTION_TYPE_FCOMP (Some ''fcomp'') (AM_LIBDASM_REG OR LIBDASM_REG_ST0 OR F_f OR P_w) (AM_LIBDASM_REG OR LIBDASM_REG_ST6 OR F_f OR P_r) FLAGS_NONE False 0 0 0 0,
    INST INSTRUCTION_TYPE_FCOMP (Some ''fcomp'') (AM_LIBDASM_REG OR LIBDASM_REG_ST0 OR F_f OR P_w) (AM_LIBDASM_REG OR LIBDASM_REG_ST7 OR F_f OR P_r) FLAGS_NONE False 0 0 0 0,
    INST INSTRUCTION_TYPE_FSUB (Some ''fsub'') (AM_LIBDASM_REG OR LIBDASM_REG_ST0 OR F_f OR P_w) (AM_LIBDASM_REG OR LIBDASM_REG_ST0 OR F_f OR P_r) FLAGS_NONE False 0 0 0 0,
    INST INSTRUCTION_TYPE_FSUB (Some ''fsub'') (AM_LIBDASM_REG OR LIBDASM_REG_ST0 OR F_f OR P_w) (AM_LIBDASM_REG OR LIBDASM_REG_ST1 OR F_f OR P_r) FLAGS_NONE False 0 0 0 0,
    INST INSTRUCTION_TYPE_FSUB (Some ''fsub'') (AM_LIBDASM_REG OR LIBDASM_REG_ST0 OR F_f OR P_w) (AM_LIBDASM_REG OR LIBDASM_REG_ST2 OR F_f OR P_r) FLAGS_NONE False 0 0 0 0,
    INST INSTRUCTION_TYPE_FSUB (Some ''fsub'') (AM_LIBDASM_REG OR LIBDASM_REG_ST0 OR F_f OR P_w) (AM_LIBDASM_REG OR LIBDASM_REG_ST3 OR F_f OR P_r) FLAGS_NONE False 0 0 0 0,
    INST INSTRUCTION_TYPE_FSUB (Some ''fsub'') (AM_LIBDASM_REG OR LIBDASM_REG_ST0 OR F_f OR P_w) (AM_LIBDASM_REG OR LIBDASM_REG_ST4 OR F_f OR P_r) FLAGS_NONE False 0 0 0 0,
    INST INSTRUCTION_TYPE_FSUB (Some ''fsub'') (AM_LIBDASM_REG OR LIBDASM_REG_ST0 OR F_f OR P_w) (AM_LIBDASM_REG OR LIBDASM_REG_ST5 OR F_f OR P_r) FLAGS_NONE False 0 0 0 0,
    INST INSTRUCTION_TYPE_FSUB (Some ''fsub'') (AM_LIBDASM_REG OR LIBDASM_REG_ST0 OR F_f OR P_w) (AM_LIBDASM_REG OR LIBDASM_REG_ST6 OR F_f OR P_r) FLAGS_NONE False 0 0 0 0,
    INST INSTRUCTION_TYPE_FSUB (Some ''fsub'') (AM_LIBDASM_REG OR LIBDASM_REG_ST0 OR F_f OR P_w) (AM_LIBDASM_REG OR LIBDASM_REG_ST7 OR F_f OR P_r) FLAGS_NONE False 0 0 0 0,
    INST INSTRUCTION_TYPE_FSUBR (Some ''fsubr'') (AM_LIBDASM_REG OR LIBDASM_REG_ST0 OR F_f OR P_w) (AM_LIBDASM_REG OR LIBDASM_REG_ST0 OR F_f OR P_r) FLAGS_NONE False 0 0 0 0,
    INST INSTRUCTION_TYPE_FSUBR (Some ''fsubr'') (AM_LIBDASM_REG OR LIBDASM_REG_ST0 OR F_f OR P_w) (AM_LIBDASM_REG OR LIBDASM_REG_ST1 OR F_f OR P_r) FLAGS_NONE False 0 0 0 0,
    INST INSTRUCTION_TYPE_FSUBR (Some ''fsubr'') (AM_LIBDASM_REG OR LIBDASM_REG_ST0 OR F_f OR P_w) (AM_LIBDASM_REG OR LIBDASM_REG_ST2 OR F_f OR P_r) FLAGS_NONE False 0 0 0 0,
    INST INSTRUCTION_TYPE_FSUBR (Some ''fsubr'') (AM_LIBDASM_REG OR LIBDASM_REG_ST0 OR F_f OR P_w) (AM_LIBDASM_REG OR LIBDASM_REG_ST3 OR F_f OR P_r) FLAGS_NONE False 0 0 0 0,
    INST INSTRUCTION_TYPE_FSUBR (Some ''fsubr'') (AM_LIBDASM_REG OR LIBDASM_REG_ST0 OR F_f OR P_w) (AM_LIBDASM_REG OR LIBDASM_REG_ST4 OR F_f OR P_r) FLAGS_NONE False 0 0 0 0,
    INST INSTRUCTION_TYPE_FSUBR (Some ''fsubr'') (AM_LIBDASM_REG OR LIBDASM_REG_ST0 OR F_f OR P_w) (AM_LIBDASM_REG OR LIBDASM_REG_ST5 OR F_f OR P_r) FLAGS_NONE False 0 0 0 0,
    INST INSTRUCTION_TYPE_FSUBR (Some ''fsubr'') (AM_LIBDASM_REG OR LIBDASM_REG_ST0 OR F_f OR P_w) (AM_LIBDASM_REG OR LIBDASM_REG_ST6 OR F_f OR P_r) FLAGS_NONE False 0 0 0 0,
    INST INSTRUCTION_TYPE_FSUBR (Some ''fsubr'') (AM_LIBDASM_REG OR LIBDASM_REG_ST0 OR F_f OR P_w) (AM_LIBDASM_REG OR LIBDASM_REG_ST7 OR F_f OR P_r) FLAGS_NONE False 0 0 0 0,
    INST INSTRUCTION_TYPE_FDIV (Some ''fdiv'') (AM_LIBDASM_REG OR LIBDASM_REG_ST0 OR F_f OR P_w) (AM_LIBDASM_REG OR LIBDASM_REG_ST0 OR F_f OR P_r) FLAGS_NONE False 0 0 0 0,
    INST INSTRUCTION_TYPE_FDIV (Some ''fdiv'') (AM_LIBDASM_REG OR LIBDASM_REG_ST0 OR F_f OR P_w) (AM_LIBDASM_REG OR LIBDASM_REG_ST1 OR F_f OR P_r) FLAGS_NONE False 0 0 0 0,
    INST INSTRUCTION_TYPE_FDIV (Some ''fdiv'') (AM_LIBDASM_REG OR LIBDASM_REG_ST0 OR F_f OR P_w) (AM_LIBDASM_REG OR LIBDASM_REG_ST2 OR F_f OR P_r) FLAGS_NONE False 0 0 0 0,
    INST INSTRUCTION_TYPE_FDIV (Some ''fdiv'') (AM_LIBDASM_REG OR LIBDASM_REG_ST0 OR F_f OR P_w) (AM_LIBDASM_REG OR LIBDASM_REG_ST3 OR F_f OR P_r) FLAGS_NONE False 0 0 0 0,
    INST INSTRUCTION_TYPE_FDIV (Some ''fdiv'') (AM_LIBDASM_REG OR LIBDASM_REG_ST0 OR F_f OR P_w) (AM_LIBDASM_REG OR LIBDASM_REG_ST4 OR F_f OR P_r) FLAGS_NONE False 0 0 0 0,
    INST INSTRUCTION_TYPE_FDIV (Some ''fdiv'') (AM_LIBDASM_REG OR LIBDASM_REG_ST0 OR F_f OR P_w) (AM_LIBDASM_REG OR LIBDASM_REG_ST5 OR F_f OR P_r) FLAGS_NONE False 0 0 0 0,
    INST INSTRUCTION_TYPE_FDIV (Some ''fdiv'') (AM_LIBDASM_REG OR LIBDASM_REG_ST0 OR F_f OR P_w) (AM_LIBDASM_REG OR LIBDASM_REG_ST6 OR F_f OR P_r) FLAGS_NONE False 0 0 0 0,
    INST INSTRUCTION_TYPE_FDIV (Some ''fdiv'') (AM_LIBDASM_REG OR LIBDASM_REG_ST0 OR F_f OR P_w) (AM_LIBDASM_REG OR LIBDASM_REG_ST7 OR F_f OR P_r) FLAGS_NONE False 0 0 0 0,
    INST INSTRUCTION_TYPE_FDIVR (Some ''fdivr'') (AM_LIBDASM_REG OR LIBDASM_REG_ST0 OR F_f OR P_w) (AM_LIBDASM_REG OR LIBDASM_REG_ST0 OR F_f OR P_r) FLAGS_NONE False 0 0 0 0,
    INST INSTRUCTION_TYPE_FDIVR (Some ''fdivr'') (AM_LIBDASM_REG OR LIBDASM_REG_ST0 OR F_f OR P_w) (AM_LIBDASM_REG OR LIBDASM_REG_ST1 OR F_f OR P_r) FLAGS_NONE False 0 0 0 0,
    INST INSTRUCTION_TYPE_FDIVR (Some ''fdivr'') (AM_LIBDASM_REG OR LIBDASM_REG_ST0 OR F_f OR P_w) (AM_LIBDASM_REG OR LIBDASM_REG_ST2 OR F_f OR P_r) FLAGS_NONE False 0 0 0 0,
    INST INSTRUCTION_TYPE_FDIVR (Some ''fdivr'') (AM_LIBDASM_REG OR LIBDASM_REG_ST0 OR F_f OR P_w) (AM_LIBDASM_REG OR LIBDASM_REG_ST3 OR F_f OR P_r) FLAGS_NONE False 0 0 0 0,
    INST INSTRUCTION_TYPE_FDIVR (Some ''fdivr'') (AM_LIBDASM_REG OR LIBDASM_REG_ST0 OR F_f OR P_w) (AM_LIBDASM_REG OR LIBDASM_REG_ST4 OR F_f OR P_r) FLAGS_NONE False 0 0 0 0,
    INST INSTRUCTION_TYPE_FDIVR (Some ''fdivr'') (AM_LIBDASM_REG OR LIBDASM_REG_ST0 OR F_f OR P_w) (AM_LIBDASM_REG OR LIBDASM_REG_ST5 OR F_f OR P_r) FLAGS_NONE False 0 0 0 0,
    INST INSTRUCTION_TYPE_FDIVR (Some ''fdivr'') (AM_LIBDASM_REG OR LIBDASM_REG_ST0 OR F_f OR P_w) (AM_LIBDASM_REG OR LIBDASM_REG_ST6 OR F_f OR P_r) FLAGS_NONE False 0 0 0 0,
    INST INSTRUCTION_TYPE_FDIVR (Some ''fdivr'') (AM_LIBDASM_REG OR LIBDASM_REG_ST0 OR F_f OR P_w) (AM_LIBDASM_REG OR LIBDASM_REG_ST7 OR F_f OR P_r) FLAGS_NONE False 0 0 0 0
  ]"

definition inst_table_fpu_d9 :: "INST list" where [libdasm_tables]:
  "inst_table_fpu_d9 = [
    INST INSTRUCTION_TYPE_FLD (Some ''flds'') (AM_E OR OT_d) FLAGS_NONE FLAGS_NONE True 0 0 0 0,
    NO_INST INSTRUCTION_TYPE_FPU,
    INST INSTRUCTION_TYPE_FST (Some ''fst'') (AM_E OR OT_d OR P_w) FLAGS_NONE FLAGS_NONE True 0 0 0 0,
    INST INSTRUCTION_TYPE_FSTP (Some ''fstp'') (AM_E OR OT_d OR P_w) FLAGS_NONE FLAGS_NONE True 0 0 0 0,
    INST INSTRUCTION_TYPE_FPU_CTRL (Some ''fldenv'') (AM_E OR OT_v OR P_w) FLAGS_NONE FLAGS_NONE True 0 0 0 0,
    INST INSTRUCTION_TYPE_FPU_CTRL (Some ''fldcw'') (AM_E OR OT_v OR P_w) FLAGS_NONE FLAGS_NONE True 0 0 0 0,
    INST INSTRUCTION_TYPE_FPU_CTRL (Some ''fstenv'') (AM_E OR OT_v OR P_w) FLAGS_NONE FLAGS_NONE True 0 0 0 0,
    INST INSTRUCTION_TYPE_FPU_CTRL (Some ''fstcw'') (AM_E OR OT_v OR P_w) FLAGS_NONE FLAGS_NONE True 0 0 0 0,
    INST INSTRUCTION_TYPE_FLD (Some ''fld'') (AM_LIBDASM_REG OR LIBDASM_REG_ST0 OR F_f OR P_w) (AM_LIBDASM_REG OR LIBDASM_REG_ST0 OR F_f OR P_r) FLAGS_NONE False 0 0 0 0,
    INST INSTRUCTION_TYPE_FLD (Some ''fld'') (AM_LIBDASM_REG OR LIBDASM_REG_ST0 OR F_f OR P_w) (AM_LIBDASM_REG OR LIBDASM_REG_ST1 OR F_f OR P_r) FLAGS_NONE False 0 0 0 0,
    INST INSTRUCTION_TYPE_FLD (Some ''fld'') (AM_LIBDASM_REG OR LIBDASM_REG_ST0 OR F_f OR P_w) (AM_LIBDASM_REG OR LIBDASM_REG_ST2 OR F_f OR P_r) FLAGS_NONE False 0 0 0 0,
    INST INSTRUCTION_TYPE_FLD (Some ''fld'') (AM_LIBDASM_REG OR LIBDASM_REG_ST0 OR F_f OR P_w) (AM_LIBDASM_REG OR LIBDASM_REG_ST3 OR F_f OR P_r) FLAGS_NONE False 0 0 0 0,
    INST INSTRUCTION_TYPE_FLD (Some ''fld'') (AM_LIBDASM_REG OR LIBDASM_REG_ST0 OR F_f OR P_w) (AM_LIBDASM_REG OR LIBDASM_REG_ST4 OR F_f OR P_r) FLAGS_NONE False 0 0 0 0,
    INST INSTRUCTION_TYPE_FLD (Some ''fld'') (AM_LIBDASM_REG OR LIBDASM_REG_ST0 OR F_f OR P_w) (AM_LIBDASM_REG OR LIBDASM_REG_ST5 OR F_f OR P_r) FLAGS_NONE False 0 0 0 0,
    INST INSTRUCTION_TYPE_FLD (Some ''fld'') (AM_LIBDASM_REG OR LIBDASM_REG_ST0 OR F_f OR P_w) (AM_LIBDASM_REG OR LIBDASM_REG_ST6 OR F_f OR P_r) FLAGS_NONE False 0 0 0 0,
    INST INSTRUCTION_TYPE_FLD (Some ''fld'') (AM_LIBDASM_REG OR LIBDASM_REG_ST0 OR F_f OR P_w) (AM_LIBDASM_REG OR LIBDASM_REG_ST7 OR F_f OR P_r) FLAGS_NONE False 0 0 0 0,
    INST INSTRUCTION_TYPE_FXCH (Some ''fxch'') (AM_LIBDASM_REG OR LIBDASM_REG_ST0 OR F_f OR P_w) (AM_LIBDASM_REG OR LIBDASM_REG_ST0 OR F_f OR P_r) FLAGS_NONE False 0 0 0 0,
    INST INSTRUCTION_TYPE_FXCH (Some ''fxch'') (AM_LIBDASM_REG OR LIBDASM_REG_ST0 OR F_f OR P_w) (AM_LIBDASM_REG OR LIBDASM_REG_ST1 OR F_f OR P_r) FLAGS_NONE False 0 0 0 0,
    INST INSTRUCTION_TYPE_FXCH (Some ''fxch'') (AM_LIBDASM_REG OR LIBDASM_REG_ST0 OR F_f OR P_w) (AM_LIBDASM_REG OR LIBDASM_REG_ST2 OR F_f OR P_r) FLAGS_NONE False 0 0 0 0,
    INST INSTRUCTION_TYPE_FXCH (Some ''fxch'') (AM_LIBDASM_REG OR LIBDASM_REG_ST0 OR F_f OR P_w) (AM_LIBDASM_REG OR LIBDASM_REG_ST3 OR F_f OR P_r) FLAGS_NONE False 0 0 0 0,
    INST INSTRUCTION_TYPE_FXCH (Some ''fxch'') (AM_LIBDASM_REG OR LIBDASM_REG_ST0 OR F_f OR P_w) (AM_LIBDASM_REG OR LIBDASM_REG_ST4 OR F_f OR P_r) FLAGS_NONE False 0 0 0 0,
    INST INSTRUCTION_TYPE_FXCH (Some ''fxch'') (AM_LIBDASM_REG OR LIBDASM_REG_ST0 OR F_f OR P_w) (AM_LIBDASM_REG OR LIBDASM_REG_ST5 OR F_f OR P_r) FLAGS_NONE False 0 0 0 0,
    INST INSTRUCTION_TYPE_FXCH (Some ''fxch'') (AM_LIBDASM_REG OR LIBDASM_REG_ST0 OR F_f OR P_w) (AM_LIBDASM_REG OR LIBDASM_REG_ST6 OR F_f OR P_r) FLAGS_NONE False 0 0 0 0,
    INST INSTRUCTION_TYPE_FXCH (Some ''fxch'') (AM_LIBDASM_REG OR LIBDASM_REG_ST0 OR F_f OR P_w) (AM_LIBDASM_REG OR LIBDASM_REG_ST7 OR F_f OR P_r) FLAGS_NONE False 0 0 0 0,
    INST INSTRUCTION_TYPE_FPU (Some ''fnop'') FLAGS_NONE FLAGS_NONE FLAGS_NONE False 0 0 0 0,
    NO_INST INSTRUCTION_TYPE_FPU,
    NO_INST INSTRUCTION_TYPE_FPU,
    NO_INST INSTRUCTION_TYPE_FPU,
    NO_INST INSTRUCTION_TYPE_FPU,
    NO_INST INSTRUCTION_TYPE_FPU,
    NO_INST INSTRUCTION_TYPE_FPU,
    NO_INST INSTRUCTION_TYPE_FPU,
    NO_INST INSTRUCTION_TYPE_FPU,
    NO_INST INSTRUCTION_TYPE_FPU,
    NO_INST INSTRUCTION_TYPE_FPU,
    NO_INST INSTRUCTION_TYPE_FPU,
    INST INSTRUCTION_TYPE_FPU (Some ''fchs'') FLAGS_NONE FLAGS_NONE FLAGS_NONE False 0 0 0 0,
    INST INSTRUCTION_TYPE_FPU (Some ''fabs'') FLAGS_NONE FLAGS_NONE FLAGS_NONE False 0 0 0 0,
    NO_INST INSTRUCTION_TYPE_FPU,
    NO_INST INSTRUCTION_TYPE_FPU,
    INST INSTRUCTION_TYPE_FPU (Some ''ftst'') FLAGS_NONE FLAGS_NONE FLAGS_NONE False 0 0 0 0,
    INST INSTRUCTION_TYPE_FPU (Some ''fxam'') FLAGS_NONE FLAGS_NONE FLAGS_NONE False 0 0 0 0,
    NO_INST INSTRUCTION_TYPE_FPU,
    NO_INST INSTRUCTION_TYPE_FPU,
    INST INSTRUCTION_TYPE_FPU (Some ''fld1'') FLAGS_NONE FLAGS_NONE FLAGS_NONE False 0 0 0 0,
    INST INSTRUCTION_TYPE_FPU (Some ''fldl2t'') FLAGS_NONE FLAGS_NONE FLAGS_NONE False 0 0 0 0,
    INST INSTRUCTION_TYPE_FPU (Some ''fldl2e'') FLAGS_NONE FLAGS_NONE FLAGS_NONE False 0 0 0 0,
    INST INSTRUCTION_TYPE_FPU (Some ''fldpi'') FLAGS_NONE FLAGS_NONE FLAGS_NONE False 0 0 0 0,
    INST INSTRUCTION_TYPE_FPU (Some ''fldlg2'') FLAGS_NONE FLAGS_NONE FLAGS_NONE False 0 0 0 0,
    INST INSTRUCTION_TYPE_FPU (Some ''fldln2'') FLAGS_NONE FLAGS_NONE FLAGS_NONE False 0 0 0 0,
    INST INSTRUCTION_TYPE_FPU (Some ''fldz'') FLAGS_NONE FLAGS_NONE FLAGS_NONE False 0 0 0 0,
    NO_INST INSTRUCTION_TYPE_FPU,
    INST INSTRUCTION_TYPE_FPU (Some ''f2xm1'') FLAGS_NONE FLAGS_NONE FLAGS_NONE False 0 0 0 0,
    INST INSTRUCTION_TYPE_FPU (Some ''fyl2x'') FLAGS_NONE FLAGS_NONE FLAGS_NONE False 0 0 0 0,
    INST INSTRUCTION_TYPE_FPU (Some ''fptan'') FLAGS_NONE FLAGS_NONE FLAGS_NONE False 0 0 0 0,
    INST INSTRUCTION_TYPE_FPU (Some ''fpatan'') FLAGS_NONE FLAGS_NONE FLAGS_NONE False 0 0 0 0,
    INST INSTRUCTION_TYPE_FPU (Some ''fxtract'') FLAGS_NONE FLAGS_NONE FLAGS_NONE False 0 0 0 0,
    INST INSTRUCTION_TYPE_FPU (Some ''fprem1'') FLAGS_NONE FLAGS_NONE FLAGS_NONE False 0 0 0 0,
    INST INSTRUCTION_TYPE_FPU (Some ''fdecstp'') FLAGS_NONE FLAGS_NONE FLAGS_NONE False 0 0 0 0,
    INST INSTRUCTION_TYPE_FPU (Some ''fincstp'') (FLAGS_NONE OR P_w) FLAGS_NONE FLAGS_NONE False 0 0 0 0,
    INST INSTRUCTION_TYPE_FPU (Some ''fprem'') FLAGS_NONE FLAGS_NONE FLAGS_NONE False 0 0 0 0,
    INST INSTRUCTION_TYPE_FPU (Some ''fyl2xp1'') FLAGS_NONE FLAGS_NONE FLAGS_NONE False 0 0 0 0,
    INST INSTRUCTION_TYPE_FPU (Some ''fsqrt'') FLAGS_NONE FLAGS_NONE FLAGS_NONE False 0 0 0 0,
    INST INSTRUCTION_TYPE_FPU (Some ''fsincos'') FLAGS_NONE FLAGS_NONE FLAGS_NONE False 0 0 0 0,
    INST INSTRUCTION_TYPE_FPU (Some ''frndint'') FLAGS_NONE FLAGS_NONE FLAGS_NONE False 0 0 0 0,
    INST INSTRUCTION_TYPE_FPU (Some ''fscale'') FLAGS_NONE FLAGS_NONE FLAGS_NONE False 0 0 0 0,
    INST INSTRUCTION_TYPE_FPU (Some ''fsin'') FLAGS_NONE FLAGS_NONE FLAGS_NONE False 0 0 0 0,
    INST INSTRUCTION_TYPE_FPU (Some ''fcos'') FLAGS_NONE FLAGS_NONE FLAGS_NONE False 0 0 0 0,
    NO_INST 0,
    NO_INST 0,
    NO_INST 0,
    NO_INST 0
  ]"

definition inst_table_fpu_da :: "INST list" where [libdasm_tables]:
  "inst_table_fpu_da = [
    INST INSTRUCTION_TYPE_FIADD (Some ''fiaddl'') (AM_E OR OT_d OR P_w) FLAGS_NONE FLAGS_NONE True 0 0 0 0,
    INST INSTRUCTION_TYPE_FIMUL (Some ''fimull'') (AM_E OR OT_d OR P_w) FLAGS_NONE FLAGS_NONE True 0 0 0 0,
    INST INSTRUCTION_TYPE_FICOM (Some ''ficoml'') (AM_E OR OT_d OR P_w) FLAGS_NONE FLAGS_NONE True 0 0 0 0,
    INST INSTRUCTION_TYPE_FICOMP (Some ''ficompl'') (AM_E OR OT_d OR P_w) FLAGS_NONE FLAGS_NONE True 0 0 0 0,
    INST INSTRUCTION_TYPE_FISUB (Some ''fisubl'') (AM_E OR OT_d OR P_w) FLAGS_NONE FLAGS_NONE True 0 0 0 0,
    INST INSTRUCTION_TYPE_FISUBR (Some ''fisubrl'') (AM_E OR OT_d OR P_w) FLAGS_NONE FLAGS_NONE True 0 0 0 0,
    INST INSTRUCTION_TYPE_FIDIV (Some ''fidivl'') (AM_E OR OT_d OR P_w) FLAGS_NONE FLAGS_NONE True 0 0 0 0,
    INST INSTRUCTION_TYPE_FIDIVR (Some ''fidivrl'') (AM_E OR OT_d OR P_w) FLAGS_NONE FLAGS_NONE True 0 0 0 0,
    INST INSTRUCTION_TYPE_FCMOVC (Some ''fcmovb'') (AM_LIBDASM_REG OR LIBDASM_REG_ST0 OR F_f OR P_w) (AM_LIBDASM_REG OR LIBDASM_REG_ST0 OR F_f OR P_r) FLAGS_NONE False 0 0 0 0,
    INST INSTRUCTION_TYPE_FCMOVC (Some ''fcmovb'') (AM_LIBDASM_REG OR LIBDASM_REG_ST0 OR F_f OR P_w) (AM_LIBDASM_REG OR LIBDASM_REG_ST1 OR F_f OR P_r) FLAGS_NONE False 0 0 0 0,
    INST INSTRUCTION_TYPE_FCMOVC (Some ''fcmovb'') (AM_LIBDASM_REG OR LIBDASM_REG_ST0 OR F_f OR P_w) (AM_LIBDASM_REG OR LIBDASM_REG_ST2 OR F_f OR P_r) FLAGS_NONE False 0 0 0 0,
    INST INSTRUCTION_TYPE_FCMOVC (Some ''fcmovb'') (AM_LIBDASM_REG OR LIBDASM_REG_ST0 OR F_f OR P_w) (AM_LIBDASM_REG OR LIBDASM_REG_ST3 OR F_f OR P_r) FLAGS_NONE False 0 0 0 0,
    INST INSTRUCTION_TYPE_FCMOVC (Some ''fcmovb'') (AM_LIBDASM_REG OR LIBDASM_REG_ST0 OR F_f OR P_w) (AM_LIBDASM_REG OR LIBDASM_REG_ST4 OR F_f OR P_r) FLAGS_NONE False 0 0 0 0,
    INST INSTRUCTION_TYPE_FCMOVC (Some ''fcmovb'') (AM_LIBDASM_REG OR LIBDASM_REG_ST0 OR F_f OR P_w) (AM_LIBDASM_REG OR LIBDASM_REG_ST5 OR F_f OR P_r) FLAGS_NONE False 0 0 0 0,
    INST INSTRUCTION_TYPE_FCMOVC (Some ''fcmovb'') (AM_LIBDASM_REG OR LIBDASM_REG_ST0 OR F_f OR P_w) (AM_LIBDASM_REG OR LIBDASM_REG_ST6 OR F_f OR P_r) FLAGS_NONE False 0 0 0 0,
    INST INSTRUCTION_TYPE_FCMOVC (Some ''fcmovb'') (AM_LIBDASM_REG OR LIBDASM_REG_ST0 OR F_f OR P_w) (AM_LIBDASM_REG OR LIBDASM_REG_ST7 OR F_f OR P_r) FLAGS_NONE False 0 0 0 0,
    INST INSTRUCTION_TYPE_FCMOVC (Some ''fcmove'') (AM_LIBDASM_REG OR LIBDASM_REG_ST0 OR F_f OR P_w) (AM_LIBDASM_REG OR LIBDASM_REG_ST0 OR F_f OR P_r) FLAGS_NONE False 0 0 0 0,
    INST INSTRUCTION_TYPE_FCMOVC (Some ''fcmove'') (AM_LIBDASM_REG OR LIBDASM_REG_ST0 OR F_f OR P_w) (AM_LIBDASM_REG OR LIBDASM_REG_ST1 OR F_f OR P_r) FLAGS_NONE False 0 0 0 0,
    INST INSTRUCTION_TYPE_FCMOVC (Some ''fcmove'') (AM_LIBDASM_REG OR LIBDASM_REG_ST0 OR F_f OR P_w) (AM_LIBDASM_REG OR LIBDASM_REG_ST2 OR F_f OR P_r) FLAGS_NONE False 0 0 0 0,
    INST INSTRUCTION_TYPE_FCMOVC (Some ''fcmove'') (AM_LIBDASM_REG OR LIBDASM_REG_ST0 OR F_f OR P_w) (AM_LIBDASM_REG OR LIBDASM_REG_ST3 OR F_f OR P_r) FLAGS_NONE False 0 0 0 0,
    INST INSTRUCTION_TYPE_FCMOVC (Some ''fcmove'') (AM_LIBDASM_REG OR LIBDASM_REG_ST0 OR F_f OR P_w) (AM_LIBDASM_REG OR LIBDASM_REG_ST4 OR F_f OR P_r) FLAGS_NONE False 0 0 0 0,
    INST INSTRUCTION_TYPE_FCMOVC (Some ''fcmove'') (AM_LIBDASM_REG OR LIBDASM_REG_ST0 OR F_f OR P_w) (AM_LIBDASM_REG OR LIBDASM_REG_ST5 OR F_f OR P_r) FLAGS_NONE False 0 0 0 0,
    INST INSTRUCTION_TYPE_FCMOVC (Some ''fcmove'') (AM_LIBDASM_REG OR LIBDASM_REG_ST0 OR F_f OR P_w) (AM_LIBDASM_REG OR LIBDASM_REG_ST6 OR F_f OR P_r) FLAGS_NONE False 0 0 0 0,
    INST INSTRUCTION_TYPE_FCMOVC (Some ''fcmove'') (AM_LIBDASM_REG OR LIBDASM_REG_ST0 OR F_f OR P_w) (AM_LIBDASM_REG OR LIBDASM_REG_ST7 OR F_f OR P_r) FLAGS_NONE False 0 0 0 0,
    INST INSTRUCTION_TYPE_FCMOVC (Some ''fcmovbe'') (AM_LIBDASM_REG OR LIBDASM_REG_ST0 OR F_f OR P_w) (AM_LIBDASM_REG OR LIBDASM_REG_ST0 OR F_f OR P_r) FLAGS_NONE False 0 0 0 0,
    INST INSTRUCTION_TYPE_FCMOVC (Some ''fcmovbe'') (AM_LIBDASM_REG OR LIBDASM_REG_ST0 OR F_f OR P_w) (AM_LIBDASM_REG OR LIBDASM_REG_ST1 OR F_f OR P_r) FLAGS_NONE False 0 0 0 0,
    INST INSTRUCTION_TYPE_FCMOVC (Some ''fcmovbe'') (AM_LIBDASM_REG OR LIBDASM_REG_ST0 OR F_f OR P_w) (AM_LIBDASM_REG OR LIBDASM_REG_ST2 OR F_f OR P_r) FLAGS_NONE False 0 0 0 0,
    INST INSTRUCTION_TYPE_FCMOVC (Some ''fcmovbe'') (AM_LIBDASM_REG OR LIBDASM_REG_ST0 OR F_f OR P_w) (AM_LIBDASM_REG OR LIBDASM_REG_ST3 OR F_f OR P_r) FLAGS_NONE False 0 0 0 0,
    INST INSTRUCTION_TYPE_FCMOVC (Some ''fcmovbe'') (AM_LIBDASM_REG OR LIBDASM_REG_ST0 OR F_f OR P_w) (AM_LIBDASM_REG OR LIBDASM_REG_ST4 OR F_f OR P_r) FLAGS_NONE False 0 0 0 0,
    INST INSTRUCTION_TYPE_FCMOVC (Some ''fcmovbe'') (AM_LIBDASM_REG OR LIBDASM_REG_ST0 OR F_f OR P_w) (AM_LIBDASM_REG OR LIBDASM_REG_ST5 OR F_f OR P_r) FLAGS_NONE False 0 0 0 0,
    INST INSTRUCTION_TYPE_FCMOVC (Some ''fcmovbe'') (AM_LIBDASM_REG OR LIBDASM_REG_ST0 OR F_f OR P_w) (AM_LIBDASM_REG OR LIBDASM_REG_ST6 OR F_f OR P_r) FLAGS_NONE False 0 0 0 0,
    INST INSTRUCTION_TYPE_FCMOVC (Some ''fcmovbe'') (AM_LIBDASM_REG OR LIBDASM_REG_ST0 OR F_f OR P_w) (AM_LIBDASM_REG OR LIBDASM_REG_ST7 OR F_f OR P_r) FLAGS_NONE False 0 0 0 0,
    INST INSTRUCTION_TYPE_FCMOVC (Some ''fcmovu'') (AM_LIBDASM_REG OR LIBDASM_REG_ST0 OR F_f OR P_w) (AM_LIBDASM_REG OR LIBDASM_REG_ST0 OR F_f OR P_r) FLAGS_NONE False 0 0 0 0,
    INST INSTRUCTION_TYPE_FCMOVC (Some ''fcmovu'') (AM_LIBDASM_REG OR LIBDASM_REG_ST0 OR F_f OR P_w) (AM_LIBDASM_REG OR LIBDASM_REG_ST1 OR F_f OR P_r) FLAGS_NONE False 0 0 0 0,
    INST INSTRUCTION_TYPE_FCMOVC (Some ''fcmovu'') (AM_LIBDASM_REG OR LIBDASM_REG_ST0 OR F_f OR P_w) (AM_LIBDASM_REG OR LIBDASM_REG_ST2 OR F_f OR P_r) FLAGS_NONE False 0 0 0 0,
    INST INSTRUCTION_TYPE_FCMOVC (Some ''fcmovu'') (AM_LIBDASM_REG OR LIBDASM_REG_ST0 OR F_f OR P_w) (AM_LIBDASM_REG OR LIBDASM_REG_ST3 OR F_f OR P_r) FLAGS_NONE False 0 0 0 0,
    INST INSTRUCTION_TYPE_FCMOVC (Some ''fcmovu'') (AM_LIBDASM_REG OR LIBDASM_REG_ST0 OR F_f OR P_w) (AM_LIBDASM_REG OR LIBDASM_REG_ST4 OR F_f OR P_r) FLAGS_NONE False 0 0 0 0,
    INST INSTRUCTION_TYPE_FCMOVC (Some ''fcmovu'') (AM_LIBDASM_REG OR LIBDASM_REG_ST0 OR F_f OR P_w) (AM_LIBDASM_REG OR LIBDASM_REG_ST5 OR F_f OR P_r) FLAGS_NONE False 0 0 0 0,
    INST INSTRUCTION_TYPE_FCMOVC (Some ''fcmovu'') (AM_LIBDASM_REG OR LIBDASM_REG_ST0 OR F_f OR P_w) (AM_LIBDASM_REG OR LIBDASM_REG_ST6 OR F_f OR P_r) FLAGS_NONE False 0 0 0 0,
    INST INSTRUCTION_TYPE_FCMOVC (Some ''fcmovu'') (AM_LIBDASM_REG OR LIBDASM_REG_ST0 OR F_f OR P_w) (AM_LIBDASM_REG OR LIBDASM_REG_ST7 OR F_f OR P_r) FLAGS_NONE False 0 0 0 0,
    NO_INST INSTRUCTION_TYPE_FPU,
    NO_INST INSTRUCTION_TYPE_FPU,
    NO_INST INSTRUCTION_TYPE_FPU,
    NO_INST INSTRUCTION_TYPE_FPU,
    NO_INST INSTRUCTION_TYPE_FPU,
    NO_INST INSTRUCTION_TYPE_FPU,
    NO_INST INSTRUCTION_TYPE_FPU,
    NO_INST INSTRUCTION_TYPE_FPU,
    NO_INST INSTRUCTION_TYPE_FPU,
    INST INSTRUCTION_TYPE_FUCOMP (Some ''fucompp'') (FLAGS_NONE OR P_w) FLAGS_NONE FLAGS_NONE False 0 0 0 0,
    NO_INST INSTRUCTION_TYPE_FPU,
    NO_INST INSTRUCTION_TYPE_FPU,
    NO_INST INSTRUCTION_TYPE_FPU,
    NO_INST INSTRUCTION_TYPE_FPU,
    NO_INST INSTRUCTION_TYPE_FPU,
    NO_INST INSTRUCTION_TYPE_FPU,
    NO_INST INSTRUCTION_TYPE_FPU,
    NO_INST INSTRUCTION_TYPE_FPU,
    NO_INST INSTRUCTION_TYPE_FPU,
    NO_INST INSTRUCTION_TYPE_FPU,
    NO_INST INSTRUCTION_TYPE_FPU,
    NO_INST INSTRUCTION_TYPE_FPU,
    NO_INST INSTRUCTION_TYPE_FPU,
    NO_INST INSTRUCTION_TYPE_FPU,
    NO_INST INSTRUCTION_TYPE_FPU,
    NO_INST INSTRUCTION_TYPE_FPU,
    NO_INST INSTRUCTION_TYPE_FPU,
    NO_INST INSTRUCTION_TYPE_FPU,
    NO_INST INSTRUCTION_TYPE_FPU,
    NO_INST INSTRUCTION_TYPE_FPU,
    NO_INST INSTRUCTION_TYPE_FPU,
    NO_INST INSTRUCTION_TYPE_FPU
  ]"

definition inst_table_fpu_db :: "INST list" where [libdasm_tables]:
  "inst_table_fpu_db = [
    INST INSTRUCTION_TYPE_FILD (Some ''fildl'') (AM_E OR OT_d OR P_w) FLAGS_NONE FLAGS_NONE True 0 0 0 0,
    INST INSTRUCTION_TYPE_FISTTP (Some ''fisttp'') (AM_E OR OT_d OR P_w) FLAGS_NONE FLAGS_NONE True 0 0 0 0,
    INST INSTRUCTION_TYPE_FIST (Some ''fistl'') (AM_E OR OT_d OR P_w) FLAGS_NONE FLAGS_NONE True 0 0 0 0,
    INST INSTRUCTION_TYPE_FISTP (Some ''fistp'') (AM_E OR OT_d OR P_w) FLAGS_NONE FLAGS_NONE True 0 0 0 0,
    NO_INST INSTRUCTION_TYPE_FPU,
    INST INSTRUCTION_TYPE_FLD (Some ''fldt'') (AM_E OR OT_t) FLAGS_NONE FLAGS_NONE True 0 0 0 0,
    NO_INST INSTRUCTION_TYPE_FPU,
    INST INSTRUCTION_TYPE_FSTP (Some ''fstpl'') (AM_E OR OT_t OR P_w) FLAGS_NONE FLAGS_NONE True 0 0 0 0,
    INST INSTRUCTION_TYPE_FCMOVC (Some ''fcmovnb'') (AM_LIBDASM_REG OR LIBDASM_REG_ST0 OR F_f OR P_w) (AM_LIBDASM_REG OR LIBDASM_REG_ST0 OR F_f OR P_r) FLAGS_NONE False 0 0 0 0,
    INST INSTRUCTION_TYPE_FCMOVC (Some ''fcmovnb'') (AM_LIBDASM_REG OR LIBDASM_REG_ST0 OR F_f OR P_w) (AM_LIBDASM_REG OR LIBDASM_REG_ST1 OR F_f OR P_r) FLAGS_NONE False 0 0 0 0,
    INST INSTRUCTION_TYPE_FCMOVC (Some ''fcmovnb'') (AM_LIBDASM_REG OR LIBDASM_REG_ST0 OR F_f OR P_w) (AM_LIBDASM_REG OR LIBDASM_REG_ST2 OR F_f OR P_r) FLAGS_NONE False 0 0 0 0,
    INST INSTRUCTION_TYPE_FCMOVC (Some ''fcmovnb'') (AM_LIBDASM_REG OR LIBDASM_REG_ST0 OR F_f OR P_w) (AM_LIBDASM_REG OR LIBDASM_REG_ST3 OR F_f OR P_r) FLAGS_NONE False 0 0 0 0,
    INST INSTRUCTION_TYPE_FCMOVC (Some ''fcmovnb'') (AM_LIBDASM_REG OR LIBDASM_REG_ST0 OR F_f OR P_w) (AM_LIBDASM_REG OR LIBDASM_REG_ST4 OR F_f OR P_r) FLAGS_NONE False 0 0 0 0,
    INST INSTRUCTION_TYPE_FCMOVC (Some ''fcmovnb'') (AM_LIBDASM_REG OR LIBDASM_REG_ST0 OR F_f OR P_w) (AM_LIBDASM_REG OR LIBDASM_REG_ST5 OR F_f OR P_r) FLAGS_NONE False 0 0 0 0,
    INST INSTRUCTION_TYPE_FCMOVC (Some ''fcmovnb'') (AM_LIBDASM_REG OR LIBDASM_REG_ST0 OR F_f OR P_w) (AM_LIBDASM_REG OR LIBDASM_REG_ST6 OR F_f OR P_r) FLAGS_NONE False 0 0 0 0,
    INST INSTRUCTION_TYPE_FCMOVC (Some ''fcmovnb'') (AM_LIBDASM_REG OR LIBDASM_REG_ST0 OR F_f OR P_w) (AM_LIBDASM_REG OR LIBDASM_REG_ST7 OR F_f OR P_r) FLAGS_NONE False 0 0 0 0,
    INST INSTRUCTION_TYPE_FCMOVC (Some ''fcmovne'') (AM_LIBDASM_REG OR LIBDASM_REG_ST0 OR F_f OR P_w) (AM_LIBDASM_REG OR LIBDASM_REG_ST0 OR F_f OR P_r) FLAGS_NONE False 0 0 0 0,
    INST INSTRUCTION_TYPE_FCMOVC (Some ''fcmovne'') (AM_LIBDASM_REG OR LIBDASM_REG_ST0 OR F_f OR P_w) (AM_LIBDASM_REG OR LIBDASM_REG_ST1 OR F_f OR P_r) FLAGS_NONE False 0 0 0 0,
    INST INSTRUCTION_TYPE_FCMOVC (Some ''fcmovne'') (AM_LIBDASM_REG OR LIBDASM_REG_ST0 OR F_f OR P_w) (AM_LIBDASM_REG OR LIBDASM_REG_ST2 OR F_f OR P_r) FLAGS_NONE False 0 0 0 0,
    INST INSTRUCTION_TYPE_FCMOVC (Some ''fcmovne'') (AM_LIBDASM_REG OR LIBDASM_REG_ST0 OR F_f OR P_w) (AM_LIBDASM_REG OR LIBDASM_REG_ST3 OR F_f OR P_r) FLAGS_NONE False 0 0 0 0,
    INST INSTRUCTION_TYPE_FCMOVC (Some ''fcmovne'') (AM_LIBDASM_REG OR LIBDASM_REG_ST0 OR F_f OR P_w) (AM_LIBDASM_REG OR LIBDASM_REG_ST4 OR F_f OR P_r) FLAGS_NONE False 0 0 0 0,
    INST INSTRUCTION_TYPE_FCMOVC (Some ''fcmovne'') (AM_LIBDASM_REG OR LIBDASM_REG_ST0 OR F_f OR P_w) (AM_LIBDASM_REG OR LIBDASM_REG_ST5 OR F_f OR P_r) FLAGS_NONE False 0 0 0 0,
    INST INSTRUCTION_TYPE_FCMOVC (Some ''fcmovne'') (AM_LIBDASM_REG OR LIBDASM_REG_ST0 OR F_f OR P_w) (AM_LIBDASM_REG OR LIBDASM_REG_ST6 OR F_f OR P_r) FLAGS_NONE False 0 0 0 0,
    INST INSTRUCTION_TYPE_FCMOVC (Some ''fcmovne'') (AM_LIBDASM_REG OR LIBDASM_REG_ST0 OR F_f OR P_w) (AM_LIBDASM_REG OR LIBDASM_REG_ST7 OR F_f OR P_r) FLAGS_NONE False 0 0 0 0,
    INST INSTRUCTION_TYPE_FCMOVC (Some ''fcmovnbe'') (AM_LIBDASM_REG OR LIBDASM_REG_ST0 OR F_f OR P_w) (AM_LIBDASM_REG OR LIBDASM_REG_ST0 OR F_f OR P_r) FLAGS_NONE False 0 0 0 0,
    INST INSTRUCTION_TYPE_FCMOVC (Some ''fcmovnbe'') (AM_LIBDASM_REG OR LIBDASM_REG_ST0 OR F_f OR P_w) (AM_LIBDASM_REG OR LIBDASM_REG_ST1 OR F_f OR P_r) FLAGS_NONE False 0 0 0 0,
    INST INSTRUCTION_TYPE_FCMOVC (Some ''fcmovnbe'') (AM_LIBDASM_REG OR LIBDASM_REG_ST0 OR F_f OR P_w) (AM_LIBDASM_REG OR LIBDASM_REG_ST2 OR F_f OR P_r) FLAGS_NONE False 0 0 0 0,
    INST INSTRUCTION_TYPE_FCMOVC (Some ''fcmovnbe'') (AM_LIBDASM_REG OR LIBDASM_REG_ST0 OR F_f OR P_w) (AM_LIBDASM_REG OR LIBDASM_REG_ST3 OR F_f OR P_r) FLAGS_NONE False 0 0 0 0,
    INST INSTRUCTION_TYPE_FCMOVC (Some ''fcmovnbe'') (AM_LIBDASM_REG OR LIBDASM_REG_ST0 OR F_f OR P_w) (AM_LIBDASM_REG OR LIBDASM_REG_ST4 OR F_f OR P_r) FLAGS_NONE False 0 0 0 0,
    INST INSTRUCTION_TYPE_FCMOVC (Some ''fcmovnbe'') (AM_LIBDASM_REG OR LIBDASM_REG_ST0 OR F_f OR P_w) (AM_LIBDASM_REG OR LIBDASM_REG_ST5 OR F_f OR P_r) FLAGS_NONE False 0 0 0 0,
    INST INSTRUCTION_TYPE_FCMOVC (Some ''fcmovnbe'') (AM_LIBDASM_REG OR LIBDASM_REG_ST0 OR F_f OR P_w) (AM_LIBDASM_REG OR LIBDASM_REG_ST6 OR F_f OR P_r) FLAGS_NONE False 0 0 0 0,
    INST INSTRUCTION_TYPE_FCMOVC (Some ''fcmovnbe'') (AM_LIBDASM_REG OR LIBDASM_REG_ST0 OR F_f OR P_w) (AM_LIBDASM_REG OR LIBDASM_REG_ST7 OR F_f OR P_r) FLAGS_NONE False 0 0 0 0,
    INST INSTRUCTION_TYPE_FCMOVC (Some ''fcmovnu'') (AM_LIBDASM_REG OR LIBDASM_REG_ST0 OR F_f OR P_w) (AM_LIBDASM_REG OR LIBDASM_REG_ST0 OR F_f OR P_r) FLAGS_NONE False 0 0 0 0,
    INST INSTRUCTION_TYPE_FCMOVC (Some ''fcmovnu'') (AM_LIBDASM_REG OR LIBDASM_REG_ST0 OR F_f OR P_w) (AM_LIBDASM_REG OR LIBDASM_REG_ST1 OR F_f OR P_r) FLAGS_NONE False 0 0 0 0,
    INST INSTRUCTION_TYPE_FCMOVC (Some ''fcmovnu'') (AM_LIBDASM_REG OR LIBDASM_REG_ST0 OR F_f OR P_w) (AM_LIBDASM_REG OR LIBDASM_REG_ST2 OR F_f OR P_r) FLAGS_NONE False 0 0 0 0,
    INST INSTRUCTION_TYPE_FCMOVC (Some ''fcmovnu'') (AM_LIBDASM_REG OR LIBDASM_REG_ST0 OR F_f OR P_w) (AM_LIBDASM_REG OR LIBDASM_REG_ST3 OR F_f OR P_r) FLAGS_NONE False 0 0 0 0,
    INST INSTRUCTION_TYPE_FCMOVC (Some ''fcmovnu'') (AM_LIBDASM_REG OR LIBDASM_REG_ST0 OR F_f OR P_w) (AM_LIBDASM_REG OR LIBDASM_REG_ST4 OR F_f OR P_r) FLAGS_NONE False 0 0 0 0,
    INST INSTRUCTION_TYPE_FCMOVC (Some ''fcmovnu'') (AM_LIBDASM_REG OR LIBDASM_REG_ST0 OR F_f OR P_w) (AM_LIBDASM_REG OR LIBDASM_REG_ST5 OR F_f OR P_r) FLAGS_NONE False 0 0 0 0,
    INST INSTRUCTION_TYPE_FCMOVC (Some ''fcmovnu'') (AM_LIBDASM_REG OR LIBDASM_REG_ST0 OR F_f OR P_w) (AM_LIBDASM_REG OR LIBDASM_REG_ST6 OR F_f OR P_r) FLAGS_NONE False 0 0 0 0,
    INST INSTRUCTION_TYPE_FCMOVC (Some ''fcmovnu'') (AM_LIBDASM_REG OR LIBDASM_REG_ST0 OR F_f OR P_w) (AM_LIBDASM_REG OR LIBDASM_REG_ST7 OR F_f OR P_r) FLAGS_NONE False 0 0 0 0,
    NO_INST INSTRUCTION_TYPE_FPU,
    NO_INST INSTRUCTION_TYPE_FPU,
    INST INSTRUCTION_TYPE_FPU_CTRL (Some ''fclex'') FLAGS_NONE FLAGS_NONE FLAGS_NONE False 0 0 0 0,
    INST INSTRUCTION_TYPE_FPU_CTRL (Some ''finit'') (FLAGS_NONE OR P_w) FLAGS_NONE FLAGS_NONE False 0 0 0 0,
    NO_INST INSTRUCTION_TYPE_FPU,
    NO_INST INSTRUCTION_TYPE_FPU,
    NO_INST INSTRUCTION_TYPE_FPU,
    NO_INST INSTRUCTION_TYPE_FPU,
    INST INSTRUCTION_TYPE_FUCOMI (Some ''fucomi'') (AM_LIBDASM_REG OR LIBDASM_REG_ST0 OR F_f OR P_w) (AM_LIBDASM_REG OR LIBDASM_REG_ST0 OR F_f OR P_r) FLAGS_NONE False 0 0 0 0,
    INST INSTRUCTION_TYPE_FUCOMI (Some ''fucomi'') (AM_LIBDASM_REG OR LIBDASM_REG_ST0 OR F_f OR P_w) (AM_LIBDASM_REG OR LIBDASM_REG_ST1 OR F_f OR P_r) FLAGS_NONE False 0 0 0 0,
    INST INSTRUCTION_TYPE_FUCOMI (Some ''fucomi'') (AM_LIBDASM_REG OR LIBDASM_REG_ST0 OR F_f OR P_w) (AM_LIBDASM_REG OR LIBDASM_REG_ST2 OR F_f OR P_r) FLAGS_NONE False 0 0 0 0,
    INST INSTRUCTION_TYPE_FUCOMI (Some ''fucomi'') (AM_LIBDASM_REG OR LIBDASM_REG_ST0 OR F_f OR P_w) (AM_LIBDASM_REG OR LIBDASM_REG_ST3 OR F_f OR P_r) FLAGS_NONE False 0 0 0 0,
    INST INSTRUCTION_TYPE_FUCOMI (Some ''fucomi'') (AM_LIBDASM_REG OR LIBDASM_REG_ST0 OR F_f OR P_w) (AM_LIBDASM_REG OR LIBDASM_REG_ST4 OR F_f OR P_r) FLAGS_NONE False 0 0 0 0,
    INST INSTRUCTION_TYPE_FUCOMI (Some ''fucomi'') (AM_LIBDASM_REG OR LIBDASM_REG_ST0 OR F_f OR P_w) (AM_LIBDASM_REG OR LIBDASM_REG_ST5 OR F_f OR P_r) FLAGS_NONE False 0 0 0 0,
    INST INSTRUCTION_TYPE_FUCOMI (Some ''fucomi'') (AM_LIBDASM_REG OR LIBDASM_REG_ST0 OR F_f OR P_w) (AM_LIBDASM_REG OR LIBDASM_REG_ST6 OR F_f OR P_r) FLAGS_NONE False 0 0 0 0,
    INST INSTRUCTION_TYPE_FUCOMI (Some ''fucomi'') (AM_LIBDASM_REG OR LIBDASM_REG_ST0 OR F_f OR P_w) (AM_LIBDASM_REG OR LIBDASM_REG_ST7 OR F_f OR P_r) FLAGS_NONE False 0 0 0 0,
    INST INSTRUCTION_TYPE_FCOMI (Some ''fcomi'') (AM_LIBDASM_REG OR LIBDASM_REG_ST0 OR F_f OR P_w) (AM_LIBDASM_REG OR LIBDASM_REG_ST0 OR F_f OR P_r) FLAGS_NONE False 0 0 0 0,
    INST INSTRUCTION_TYPE_FCOMI (Some ''fcomi'') (AM_LIBDASM_REG OR LIBDASM_REG_ST0 OR F_f OR P_w) (AM_LIBDASM_REG OR LIBDASM_REG_ST1 OR F_f OR P_r) FLAGS_NONE False 0 0 0 0,
    INST INSTRUCTION_TYPE_FCOMI (Some ''fcomi'') (AM_LIBDASM_REG OR LIBDASM_REG_ST0 OR F_f OR P_w) (AM_LIBDASM_REG OR LIBDASM_REG_ST2 OR F_f OR P_r) FLAGS_NONE False 0 0 0 0,
    INST INSTRUCTION_TYPE_FCOMI (Some ''fcomi'') (AM_LIBDASM_REG OR LIBDASM_REG_ST0 OR F_f OR P_w) (AM_LIBDASM_REG OR LIBDASM_REG_ST3 OR F_f OR P_r) FLAGS_NONE False 0 0 0 0,
    INST INSTRUCTION_TYPE_FCOMI (Some ''fcomi'') (AM_LIBDASM_REG OR LIBDASM_REG_ST0 OR F_f OR P_w) (AM_LIBDASM_REG OR LIBDASM_REG_ST4 OR F_f OR P_r) FLAGS_NONE False 0 0 0 0,
    INST INSTRUCTION_TYPE_FCOMI (Some ''fcomi'') (AM_LIBDASM_REG OR LIBDASM_REG_ST0 OR F_f OR P_w) (AM_LIBDASM_REG OR LIBDASM_REG_ST5 OR F_f OR P_r) FLAGS_NONE False 0 0 0 0,
    INST INSTRUCTION_TYPE_FCOMI (Some ''fcomi'') (AM_LIBDASM_REG OR LIBDASM_REG_ST0 OR F_f OR P_w) (AM_LIBDASM_REG OR LIBDASM_REG_ST6 OR F_f OR P_r) FLAGS_NONE False 0 0 0 0,
    INST INSTRUCTION_TYPE_FCOMI (Some ''fcomi'') (AM_LIBDASM_REG OR LIBDASM_REG_ST0 OR F_f OR P_w) (AM_LIBDASM_REG OR LIBDASM_REG_ST7 OR F_f OR P_r) FLAGS_NONE False 0 0 0 0,
    NO_INST INSTRUCTION_TYPE_FPU,
    NO_INST INSTRUCTION_TYPE_FPU,
    NO_INST INSTRUCTION_TYPE_FPU,
    NO_INST INSTRUCTION_TYPE_FPU,
    NO_INST INSTRUCTION_TYPE_FPU,
    NO_INST INSTRUCTION_TYPE_FPU,
    NO_INST INSTRUCTION_TYPE_FPU,
    NO_INST INSTRUCTION_TYPE_FPU
  ]"

definition inst_table_fpu_dc :: "INST list" where [libdasm_tables]:
  "inst_table_fpu_dc = [
    INST INSTRUCTION_TYPE_FADD (Some ''faddl'') (AM_E OR OT_q OR P_w) (FLAGS_NONE OR P_r) FLAGS_NONE True 0 0 0 0,
    INST INSTRUCTION_TYPE_FMUL (Some ''fmull'') (AM_E OR OT_q OR P_w) (FLAGS_NONE OR P_r) FLAGS_NONE True 0 0 0 0,
    INST INSTRUCTION_TYPE_FCOM (Some ''fcoml'') (AM_E OR OT_q OR P_w) (FLAGS_NONE OR P_r) FLAGS_NONE True 0 0 0 0,
    INST INSTRUCTION_TYPE_FCOMP (Some ''fcompl'') (AM_E OR OT_q OR P_w) (FLAGS_NONE OR P_r) FLAGS_NONE True 0 0 0 0,
    INST INSTRUCTION_TYPE_FSUB (Some ''fsubl'') (AM_E OR OT_q OR P_w) (FLAGS_NONE OR P_r) FLAGS_NONE True 0 0 0 0,
    INST INSTRUCTION_TYPE_FSUBR (Some ''fsubrl'') (AM_E OR OT_q OR P_w) (FLAGS_NONE OR P_r) FLAGS_NONE True 0 0 0 0,
    INST INSTRUCTION_TYPE_FDIV (Some ''fdivl'') (AM_E OR OT_q OR P_w) (FLAGS_NONE OR P_r) FLAGS_NONE True 0 0 0 0,
    INST INSTRUCTION_TYPE_FDIVR (Some ''fdivrl'') (AM_E OR OT_q OR P_w) (FLAGS_NONE OR P_r) FLAGS_NONE True 0 0 0 0,
    INST INSTRUCTION_TYPE_FADD (Some ''fadd'') (AM_LIBDASM_REG OR LIBDASM_REG_ST0 OR F_f OR P_w) (AM_LIBDASM_REG OR LIBDASM_REG_ST0 OR F_f OR P_r) FLAGS_NONE False 0 0 0 0,
    INST INSTRUCTION_TYPE_FADD (Some ''fadd'') (AM_LIBDASM_REG OR LIBDASM_REG_ST1 OR F_f OR P_w) (AM_LIBDASM_REG OR LIBDASM_REG_ST0 OR F_f OR P_r) FLAGS_NONE False 0 0 0 0,
    INST INSTRUCTION_TYPE_FADD (Some ''fadd'') (AM_LIBDASM_REG OR LIBDASM_REG_ST2 OR F_f OR P_w) (AM_LIBDASM_REG OR LIBDASM_REG_ST0 OR F_f OR P_r) FLAGS_NONE False 0 0 0 0,
    INST INSTRUCTION_TYPE_FADD (Some ''fadd'') (AM_LIBDASM_REG OR LIBDASM_REG_ST3 OR F_f OR P_w) (AM_LIBDASM_REG OR LIBDASM_REG_ST0 OR F_f OR P_r) FLAGS_NONE False 0 0 0 0,
    INST INSTRUCTION_TYPE_FADD (Some ''fadd'') (AM_LIBDASM_REG OR LIBDASM_REG_ST4 OR F_f OR P_w) (AM_LIBDASM_REG OR LIBDASM_REG_ST0 OR F_f OR P_r) FLAGS_NONE False 0 0 0 0,
    INST INSTRUCTION_TYPE_FADD (Some ''fadd'') (AM_LIBDASM_REG OR LIBDASM_REG_ST5 OR F_f OR P_w) (AM_LIBDASM_REG OR LIBDASM_REG_ST0 OR F_f OR P_r) FLAGS_NONE False 0 0 0 0,
    INST INSTRUCTION_TYPE_FADD (Some ''fadd'') (AM_LIBDASM_REG OR LIBDASM_REG_ST6 OR F_f OR P_w) (AM_LIBDASM_REG OR LIBDASM_REG_ST0 OR F_f OR P_r) FLAGS_NONE False 0 0 0 0,
    INST INSTRUCTION_TYPE_FADD (Some ''fadd'') (AM_LIBDASM_REG OR LIBDASM_REG_ST7 OR F_f OR P_w) (AM_LIBDASM_REG OR LIBDASM_REG_ST0 OR F_f OR P_r) FLAGS_NONE False 0 0 0 0,
    INST INSTRUCTION_TYPE_FMUL (Some ''fmul'') (AM_LIBDASM_REG OR LIBDASM_REG_ST0 OR F_f OR P_w) (AM_LIBDASM_REG OR LIBDASM_REG_ST0 OR F_f OR P_r) FLAGS_NONE False 0 0 0 0,
    INST INSTRUCTION_TYPE_FMUL (Some ''fmul'') (AM_LIBDASM_REG OR LIBDASM_REG_ST1 OR F_f OR P_w) (AM_LIBDASM_REG OR LIBDASM_REG_ST0 OR F_f OR P_r) FLAGS_NONE False 0 0 0 0,
    INST INSTRUCTION_TYPE_FMUL (Some ''fmul'') (AM_LIBDASM_REG OR LIBDASM_REG_ST2 OR F_f OR P_w) (AM_LIBDASM_REG OR LIBDASM_REG_ST0 OR F_f OR P_r) FLAGS_NONE False 0 0 0 0,
    INST INSTRUCTION_TYPE_FMUL (Some ''fmul'') (AM_LIBDASM_REG OR LIBDASM_REG_ST3 OR F_f OR P_w) (AM_LIBDASM_REG OR LIBDASM_REG_ST0 OR F_f OR P_r) FLAGS_NONE False 0 0 0 0,
    INST INSTRUCTION_TYPE_FMUL (Some ''fmul'') (AM_LIBDASM_REG OR LIBDASM_REG_ST4 OR F_f OR P_w) (AM_LIBDASM_REG OR LIBDASM_REG_ST0 OR F_f OR P_r) FLAGS_NONE False 0 0 0 0,
    INST INSTRUCTION_TYPE_FMUL (Some ''fmul'') (AM_LIBDASM_REG OR LIBDASM_REG_ST5 OR F_f OR P_w) (AM_LIBDASM_REG OR LIBDASM_REG_ST0 OR F_f OR P_r) FLAGS_NONE False 0 0 0 0,
    INST INSTRUCTION_TYPE_FMUL (Some ''fmul'') (AM_LIBDASM_REG OR LIBDASM_REG_ST6 OR F_f OR P_w) (AM_LIBDASM_REG OR LIBDASM_REG_ST0 OR F_f OR P_r) FLAGS_NONE False 0 0 0 0,
    INST INSTRUCTION_TYPE_FMUL (Some ''fmul'') (AM_LIBDASM_REG OR LIBDASM_REG_ST7 OR F_f OR P_w) (AM_LIBDASM_REG OR LIBDASM_REG_ST0 OR F_f OR P_r) FLAGS_NONE False 0 0 0 0,
    NO_INST INSTRUCTION_TYPE_FPU,
    NO_INST INSTRUCTION_TYPE_FPU,
    NO_INST INSTRUCTION_TYPE_FPU,
    NO_INST INSTRUCTION_TYPE_FPU,
    NO_INST INSTRUCTION_TYPE_FPU,
    NO_INST INSTRUCTION_TYPE_FPU,
    NO_INST INSTRUCTION_TYPE_FPU,
    NO_INST INSTRUCTION_TYPE_FPU,
    NO_INST INSTRUCTION_TYPE_FPU,
    NO_INST INSTRUCTION_TYPE_FPU,
    NO_INST INSTRUCTION_TYPE_FPU,
    NO_INST INSTRUCTION_TYPE_FPU,
    NO_INST INSTRUCTION_TYPE_FPU,
    NO_INST INSTRUCTION_TYPE_FPU,
    NO_INST INSTRUCTION_TYPE_FPU,
    NO_INST INSTRUCTION_TYPE_FPU,
    INST INSTRUCTION_TYPE_FSUBR (Some ''fsubr'') (AM_LIBDASM_REG OR LIBDASM_REG_ST0 OR F_f OR P_w) (AM_LIBDASM_REG OR LIBDASM_REG_ST0 OR F_f OR P_r) FLAGS_NONE False 0 0 0 0,
    INST INSTRUCTION_TYPE_FSUBR (Some ''fsubr'') (AM_LIBDASM_REG OR LIBDASM_REG_ST1 OR F_f OR P_w) (AM_LIBDASM_REG OR LIBDASM_REG_ST0 OR F_f OR P_r) FLAGS_NONE False 0 0 0 0,
    INST INSTRUCTION_TYPE_FSUBR (Some ''fsubr'') (AM_LIBDASM_REG OR LIBDASM_REG_ST2 OR F_f OR P_w) (AM_LIBDASM_REG OR LIBDASM_REG_ST0 OR F_f OR P_r) FLAGS_NONE False 0 0 0 0,
    INST INSTRUCTION_TYPE_FSUBR (Some ''fsubr'') (AM_LIBDASM_REG OR LIBDASM_REG_ST3 OR F_f OR P_w) (AM_LIBDASM_REG OR LIBDASM_REG_ST0 OR F_f OR P_r) FLAGS_NONE False 0 0 0 0,
    INST INSTRUCTION_TYPE_FSUBR (Some ''fsubr'') (AM_LIBDASM_REG OR LIBDASM_REG_ST4 OR F_f OR P_w) (AM_LIBDASM_REG OR LIBDASM_REG_ST0 OR F_f OR P_r) FLAGS_NONE False 0 0 0 0,
    INST INSTRUCTION_TYPE_FSUBR (Some ''fsubr'') (AM_LIBDASM_REG OR LIBDASM_REG_ST5 OR F_f OR P_w) (AM_LIBDASM_REG OR LIBDASM_REG_ST0 OR F_f OR P_r) FLAGS_NONE False 0 0 0 0,
    INST INSTRUCTION_TYPE_FSUBR (Some ''fsubr'') (AM_LIBDASM_REG OR LIBDASM_REG_ST6 OR F_f OR P_w) (AM_LIBDASM_REG OR LIBDASM_REG_ST0 OR F_f OR P_r) FLAGS_NONE False 0 0 0 0,
    INST INSTRUCTION_TYPE_FSUBR (Some ''fsubr'') (AM_LIBDASM_REG OR LIBDASM_REG_ST7 OR F_f OR P_w) (AM_LIBDASM_REG OR LIBDASM_REG_ST0 OR F_f OR P_r) FLAGS_NONE False 0 0 0 0,
    INST INSTRUCTION_TYPE_FSUB (Some ''fsub'') (AM_LIBDASM_REG OR LIBDASM_REG_ST0 OR F_f OR P_w) (AM_LIBDASM_REG OR LIBDASM_REG_ST0 OR F_f OR P_r) FLAGS_NONE False 0 0 0 0,
    INST INSTRUCTION_TYPE_FSUB (Some ''fsub'') (AM_LIBDASM_REG OR LIBDASM_REG_ST1 OR F_f OR P_w) (AM_LIBDASM_REG OR LIBDASM_REG_ST0 OR F_f OR P_r) FLAGS_NONE False 0 0 0 0,
    INST INSTRUCTION_TYPE_FSUB (Some ''fsub'') (AM_LIBDASM_REG OR LIBDASM_REG_ST2 OR F_f OR P_w) (AM_LIBDASM_REG OR LIBDASM_REG_ST0 OR F_f OR P_r) FLAGS_NONE False 0 0 0 0,
    INST INSTRUCTION_TYPE_FSUB (Some ''fsub'') (AM_LIBDASM_REG OR LIBDASM_REG_ST3 OR F_f OR P_w) (AM_LIBDASM_REG OR LIBDASM_REG_ST0 OR F_f OR P_r) FLAGS_NONE False 0 0 0 0,
    INST INSTRUCTION_TYPE_FSUB (Some ''fsub'') (AM_LIBDASM_REG OR LIBDASM_REG_ST4 OR F_f OR P_w) (AM_LIBDASM_REG OR LIBDASM_REG_ST0 OR F_f OR P_r) FLAGS_NONE False 0 0 0 0,
    INST INSTRUCTION_TYPE_FSUB (Some ''fsub'') (AM_LIBDASM_REG OR LIBDASM_REG_ST5 OR F_f OR P_w) (AM_LIBDASM_REG OR LIBDASM_REG_ST0 OR F_f OR P_r) FLAGS_NONE False 0 0 0 0,
    INST INSTRUCTION_TYPE_FSUB (Some ''fsub'') (AM_LIBDASM_REG OR LIBDASM_REG_ST6 OR F_f OR P_w) (AM_LIBDASM_REG OR LIBDASM_REG_ST0 OR F_f OR P_r) FLAGS_NONE False 0 0 0 0,
    INST INSTRUCTION_TYPE_FSUB (Some ''fsub'') (AM_LIBDASM_REG OR LIBDASM_REG_ST7 OR F_f OR P_w) (AM_LIBDASM_REG OR LIBDASM_REG_ST0 OR F_f OR P_r) FLAGS_NONE False 0 0 0 0,
    INST INSTRUCTION_TYPE_FDIVR (Some ''fdivr'') (AM_LIBDASM_REG OR LIBDASM_REG_ST0 OR F_f OR P_w) (AM_LIBDASM_REG OR LIBDASM_REG_ST0 OR F_f OR P_r) FLAGS_NONE False 0 0 0 0,
    INST INSTRUCTION_TYPE_FDIVR (Some ''fdivr'') (AM_LIBDASM_REG OR LIBDASM_REG_ST1 OR F_f OR P_w) (AM_LIBDASM_REG OR LIBDASM_REG_ST0 OR F_f OR P_r) FLAGS_NONE False 0 0 0 0,
    INST INSTRUCTION_TYPE_FDIVR (Some ''fdivr'') (AM_LIBDASM_REG OR LIBDASM_REG_ST2 OR F_f OR P_w) (AM_LIBDASM_REG OR LIBDASM_REG_ST0 OR F_f OR P_r) FLAGS_NONE False 0 0 0 0,
    INST INSTRUCTION_TYPE_FDIVR (Some ''fdivr'') (AM_LIBDASM_REG OR LIBDASM_REG_ST3 OR F_f OR P_w) (AM_LIBDASM_REG OR LIBDASM_REG_ST0 OR F_f OR P_r) FLAGS_NONE False 0 0 0 0,
    INST INSTRUCTION_TYPE_FDIVR (Some ''fdivr'') (AM_LIBDASM_REG OR LIBDASM_REG_ST4 OR F_f OR P_w) (AM_LIBDASM_REG OR LIBDASM_REG_ST0 OR F_f OR P_r) FLAGS_NONE False 0 0 0 0,
    INST INSTRUCTION_TYPE_FDIVR (Some ''fdivr'') (AM_LIBDASM_REG OR LIBDASM_REG_ST5 OR F_f OR P_w) (AM_LIBDASM_REG OR LIBDASM_REG_ST0 OR F_f OR P_r) FLAGS_NONE False 0 0 0 0,
    INST INSTRUCTION_TYPE_FDIVR (Some ''fdivr'') (AM_LIBDASM_REG OR LIBDASM_REG_ST6 OR F_f OR P_w) (AM_LIBDASM_REG OR LIBDASM_REG_ST0 OR F_f OR P_r) FLAGS_NONE False 0 0 0 0,
    INST INSTRUCTION_TYPE_FDIVR (Some ''fdivr'') (AM_LIBDASM_REG OR LIBDASM_REG_ST7 OR F_f OR P_w) (AM_LIBDASM_REG OR LIBDASM_REG_ST0 OR F_f OR P_r) FLAGS_NONE False 0 0 0 0,
    INST INSTRUCTION_TYPE_FDIV (Some ''fdiv'') (AM_LIBDASM_REG OR LIBDASM_REG_ST0 OR F_f OR P_w) (AM_LIBDASM_REG OR LIBDASM_REG_ST0 OR F_f OR P_r) FLAGS_NONE False 0 0 0 0,
    INST INSTRUCTION_TYPE_FDIV (Some ''fdiv'') (AM_LIBDASM_REG OR LIBDASM_REG_ST1 OR F_f OR P_w) (AM_LIBDASM_REG OR LIBDASM_REG_ST0 OR F_f OR P_r) FLAGS_NONE False 0 0 0 0,
    INST INSTRUCTION_TYPE_FDIV (Some ''fdiv'') (AM_LIBDASM_REG OR LIBDASM_REG_ST2 OR F_f OR P_w) (AM_LIBDASM_REG OR LIBDASM_REG_ST0 OR F_f OR P_r) FLAGS_NONE False 0 0 0 0,
    INST INSTRUCTION_TYPE_FDIV (Some ''fdiv'') (AM_LIBDASM_REG OR LIBDASM_REG_ST3 OR F_f OR P_w) (AM_LIBDASM_REG OR LIBDASM_REG_ST0 OR F_f OR P_r) FLAGS_NONE False 0 0 0 0,
    INST INSTRUCTION_TYPE_FDIV (Some ''fdiv'') (AM_LIBDASM_REG OR LIBDASM_REG_ST4 OR F_f OR P_w) (AM_LIBDASM_REG OR LIBDASM_REG_ST0 OR F_f OR P_r) FLAGS_NONE False 0 0 0 0,
    INST INSTRUCTION_TYPE_FDIV (Some ''fdiv'') (AM_LIBDASM_REG OR LIBDASM_REG_ST5 OR F_f OR P_w) (AM_LIBDASM_REG OR LIBDASM_REG_ST0 OR F_f OR P_r) FLAGS_NONE False 0 0 0 0,
    INST INSTRUCTION_TYPE_FDIV (Some ''fdiv'') (AM_LIBDASM_REG OR LIBDASM_REG_ST6 OR F_f OR P_w) (AM_LIBDASM_REG OR LIBDASM_REG_ST0 OR F_f OR P_r) FLAGS_NONE False 0 0 0 0,
    INST INSTRUCTION_TYPE_FDIV (Some ''fdiv'') (AM_LIBDASM_REG OR LIBDASM_REG_ST7 OR F_f OR P_w) (AM_LIBDASM_REG OR LIBDASM_REG_ST0 OR F_f OR P_r) FLAGS_NONE False 0 0 0 0
  ]"

definition inst_table_fpu_dd :: "INST list" where [libdasm_tables]:
  "inst_table_fpu_dd = [
    INST INSTRUCTION_TYPE_FLD (Some ''fldl'') (AM_E OR OT_q) FLAGS_NONE FLAGS_NONE True 0 0 0 0,
    INST INSTRUCTION_TYPE_FISTTP (Some ''fisttp'') (AM_E OR OT_q OR P_w) FLAGS_NONE FLAGS_NONE True 0 0 0 0,
    INST INSTRUCTION_TYPE_FST (Some ''fstl'') (AM_E OR OT_q OR P_w) FLAGS_NONE FLAGS_NONE True 0 0 0 0,
    INST INSTRUCTION_TYPE_FSTP (Some ''fstpl'') (AM_E OR OT_q OR P_w) FLAGS_NONE FLAGS_NONE True 0 0 0 0,
    INST INSTRUCTION_TYPE_FPU_CTRL (Some ''frstor'') (AM_E OR OT_d OR P_w) FLAGS_NONE FLAGS_NONE True 0 0 0 0,
    NO_INST INSTRUCTION_TYPE_FPU,
    INST INSTRUCTION_TYPE_FPU_CTRL (Some ''fsave'') (AM_E OR OT_d OR P_w) FLAGS_NONE FLAGS_NONE True 0 0 0 0,
    INST INSTRUCTION_TYPE_FPU_CTRL (Some ''fstsw'') (AM_E OR OT_d OR P_w) FLAGS_NONE FLAGS_NONE True 0 0 0 0,
    INST INSTRUCTION_TYPE_FFREE (Some ''ffree'') (AM_LIBDASM_REG OR LIBDASM_REG_ST0 OR F_f OR P_w) FLAGS_NONE FLAGS_NONE False 0 0 0 0,
    INST INSTRUCTION_TYPE_FFREE (Some ''ffree'') (AM_LIBDASM_REG OR LIBDASM_REG_ST1 OR F_f OR P_w) FLAGS_NONE FLAGS_NONE False 0 0 0 0,
    INST INSTRUCTION_TYPE_FFREE (Some ''ffree'') (AM_LIBDASM_REG OR LIBDASM_REG_ST2 OR F_f OR P_w) FLAGS_NONE FLAGS_NONE False 0 0 0 0,
    INST INSTRUCTION_TYPE_FFREE (Some ''ffree'') (AM_LIBDASM_REG OR LIBDASM_REG_ST3 OR F_f OR P_w) FLAGS_NONE FLAGS_NONE False 0 0 0 0,
    INST INSTRUCTION_TYPE_FFREE (Some ''ffree'') (AM_LIBDASM_REG OR LIBDASM_REG_ST4 OR F_f OR P_w) FLAGS_NONE FLAGS_NONE False 0 0 0 0,
    INST INSTRUCTION_TYPE_FFREE (Some ''ffree'') (AM_LIBDASM_REG OR LIBDASM_REG_ST5 OR F_f OR P_w) FLAGS_NONE FLAGS_NONE False 0 0 0 0,
    INST INSTRUCTION_TYPE_FFREE (Some ''ffree'') (AM_LIBDASM_REG OR LIBDASM_REG_ST6 OR F_f OR P_w) FLAGS_NONE FLAGS_NONE False 0 0 0 0,
    INST INSTRUCTION_TYPE_FFREE (Some ''ffree'') (AM_LIBDASM_REG OR LIBDASM_REG_ST7 OR F_f OR P_w) FLAGS_NONE FLAGS_NONE False 0 0 0 0,
    NO_INST INSTRUCTION_TYPE_FPU,
    NO_INST INSTRUCTION_TYPE_FPU,
    NO_INST INSTRUCTION_TYPE_FPU,
    NO_INST INSTRUCTION_TYPE_FPU,
    NO_INST INSTRUCTION_TYPE_FPU,
    NO_INST INSTRUCTION_TYPE_FPU,
    NO_INST INSTRUCTION_TYPE_FPU,
    NO_INST INSTRUCTION_TYPE_FPU,
    INST INSTRUCTION_TYPE_FST (Some ''fst'') (AM_LIBDASM_REG OR LIBDASM_REG_ST0 OR F_f OR P_w) FLAGS_NONE FLAGS_NONE False 0 0 0 0,
    INST INSTRUCTION_TYPE_FST (Some ''fst'') (AM_LIBDASM_REG OR LIBDASM_REG_ST1 OR F_f OR P_w) FLAGS_NONE FLAGS_NONE False 0 0 0 0,
    INST INSTRUCTION_TYPE_FST (Some ''fst'') (AM_LIBDASM_REG OR LIBDASM_REG_ST2 OR F_f OR P_w) FLAGS_NONE FLAGS_NONE False 0 0 0 0,
    INST INSTRUCTION_TYPE_FST (Some ''fst'') (AM_LIBDASM_REG OR LIBDASM_REG_ST3 OR F_f OR P_w) FLAGS_NONE FLAGS_NONE False 0 0 0 0,
    INST INSTRUCTION_TYPE_FST (Some ''fst'') (AM_LIBDASM_REG OR LIBDASM_REG_ST4 OR F_f OR P_w) FLAGS_NONE FLAGS_NONE False 0 0 0 0,
    INST INSTRUCTION_TYPE_FST (Some ''fst'') (AM_LIBDASM_REG OR LIBDASM_REG_ST5 OR F_f OR P_w) FLAGS_NONE FLAGS_NONE False 0 0 0 0,
    INST INSTRUCTION_TYPE_FST (Some ''fst'') (AM_LIBDASM_REG OR LIBDASM_REG_ST6 OR F_f OR P_w) FLAGS_NONE FLAGS_NONE False 0 0 0 0,
    INST INSTRUCTION_TYPE_FST (Some ''fst'') (AM_LIBDASM_REG OR LIBDASM_REG_ST7 OR F_f OR P_w) FLAGS_NONE FLAGS_NONE False 0 0 0 0,
    INST INSTRUCTION_TYPE_FSTP (Some ''fstp'') (AM_LIBDASM_REG OR LIBDASM_REG_ST0 OR F_f OR P_w) FLAGS_NONE FLAGS_NONE False 0 0 0 0,
    INST INSTRUCTION_TYPE_FSTP (Some ''fstp'') (AM_LIBDASM_REG OR LIBDASM_REG_ST1 OR F_f OR P_w) FLAGS_NONE FLAGS_NONE False 0 0 0 0,
    INST INSTRUCTION_TYPE_FSTP (Some ''fstp'') (AM_LIBDASM_REG OR LIBDASM_REG_ST2 OR F_f OR P_w) FLAGS_NONE FLAGS_NONE False 0 0 0 0,
    INST INSTRUCTION_TYPE_FSTP (Some ''fstp'') (AM_LIBDASM_REG OR LIBDASM_REG_ST3 OR F_f OR P_w) FLAGS_NONE FLAGS_NONE False 0 0 0 0,
    INST INSTRUCTION_TYPE_FSTP (Some ''fstp'') (AM_LIBDASM_REG OR LIBDASM_REG_ST4 OR F_f OR P_w) FLAGS_NONE FLAGS_NONE False 0 0 0 0,
    INST INSTRUCTION_TYPE_FSTP (Some ''fstp'') (AM_LIBDASM_REG OR LIBDASM_REG_ST5 OR F_f OR P_w) FLAGS_NONE FLAGS_NONE False 0 0 0 0,
    INST INSTRUCTION_TYPE_FSTP (Some ''fstp'') (AM_LIBDASM_REG OR LIBDASM_REG_ST6 OR F_f OR P_w) FLAGS_NONE FLAGS_NONE False 0 0 0 0,
    INST INSTRUCTION_TYPE_FSTP (Some ''fstp'') (AM_LIBDASM_REG OR LIBDASM_REG_ST7 OR F_f OR P_w) FLAGS_NONE FLAGS_NONE False 0 0 0 0,
    INST INSTRUCTION_TYPE_FUCOM (Some ''fucom'') (AM_LIBDASM_REG OR LIBDASM_REG_ST0 OR F_f OR P_w) (AM_LIBDASM_REG OR LIBDASM_REG_ST0 OR F_f OR P_r) FLAGS_NONE False 0 0 0 0,
    INST INSTRUCTION_TYPE_FUCOM (Some ''fucom'') (AM_LIBDASM_REG OR LIBDASM_REG_ST1 OR F_f OR P_w) (AM_LIBDASM_REG OR LIBDASM_REG_ST0 OR F_f OR P_r) FLAGS_NONE False 0 0 0 0,
    INST INSTRUCTION_TYPE_FUCOM (Some ''fucom'') (AM_LIBDASM_REG OR LIBDASM_REG_ST2 OR F_f OR P_w) (AM_LIBDASM_REG OR LIBDASM_REG_ST0 OR F_f OR P_r) FLAGS_NONE False 0 0 0 0,
    INST INSTRUCTION_TYPE_FUCOM (Some ''fucom'') (AM_LIBDASM_REG OR LIBDASM_REG_ST3 OR F_f OR P_w) (AM_LIBDASM_REG OR LIBDASM_REG_ST0 OR F_f OR P_r) FLAGS_NONE False 0 0 0 0,
    INST INSTRUCTION_TYPE_FUCOM (Some ''fucom'') (AM_LIBDASM_REG OR LIBDASM_REG_ST4 OR F_f OR P_w) (AM_LIBDASM_REG OR LIBDASM_REG_ST0 OR F_f OR P_r) FLAGS_NONE False 0 0 0 0,
    INST INSTRUCTION_TYPE_FUCOM (Some ''fucom'') (AM_LIBDASM_REG OR LIBDASM_REG_ST5 OR F_f OR P_w) (AM_LIBDASM_REG OR LIBDASM_REG_ST0 OR F_f OR P_r) FLAGS_NONE False 0 0 0 0,
    INST INSTRUCTION_TYPE_FUCOM (Some ''fucom'') (AM_LIBDASM_REG OR LIBDASM_REG_ST6 OR F_f OR P_w) (AM_LIBDASM_REG OR LIBDASM_REG_ST0 OR F_f OR P_r) FLAGS_NONE False 0 0 0 0,
    INST INSTRUCTION_TYPE_FUCOM (Some ''fucom'') (AM_LIBDASM_REG OR LIBDASM_REG_ST7 OR F_f OR P_w) (AM_LIBDASM_REG OR LIBDASM_REG_ST0 OR F_f OR P_r) FLAGS_NONE False 0 0 0 0,
    INST INSTRUCTION_TYPE_FUCOMP (Some ''fucomp'') (AM_LIBDASM_REG OR LIBDASM_REG_ST0 OR F_f OR P_w) FLAGS_NONE FLAGS_NONE False 0 0 0 0,
    INST INSTRUCTION_TYPE_FUCOMP (Some ''fucomp'') (AM_LIBDASM_REG OR LIBDASM_REG_ST1 OR F_f OR P_w) FLAGS_NONE FLAGS_NONE False 0 0 0 0,
    INST INSTRUCTION_TYPE_FUCOMP (Some ''fucomp'') (AM_LIBDASM_REG OR LIBDASM_REG_ST2 OR F_f OR P_w) FLAGS_NONE FLAGS_NONE False 0 0 0 0,
    INST INSTRUCTION_TYPE_FUCOMP (Some ''fucomp'') (AM_LIBDASM_REG OR LIBDASM_REG_ST3 OR F_f OR P_w) FLAGS_NONE FLAGS_NONE False 0 0 0 0,
    INST INSTRUCTION_TYPE_FUCOMP (Some ''fucomp'') (AM_LIBDASM_REG OR LIBDASM_REG_ST4 OR F_f OR P_w) FLAGS_NONE FLAGS_NONE False 0 0 0 0,
    INST INSTRUCTION_TYPE_FUCOMP (Some ''fucomp'') (AM_LIBDASM_REG OR LIBDASM_REG_ST5 OR F_f OR P_w) FLAGS_NONE FLAGS_NONE False 0 0 0 0,
    INST INSTRUCTION_TYPE_FUCOMP (Some ''fucomp'') (AM_LIBDASM_REG OR LIBDASM_REG_ST6 OR F_f OR P_w) FLAGS_NONE FLAGS_NONE False 0 0 0 0,
    INST INSTRUCTION_TYPE_FUCOMP (Some ''fucomp'') (AM_LIBDASM_REG OR LIBDASM_REG_ST7 OR F_f OR P_w) FLAGS_NONE FLAGS_NONE False 0 0 0 0,
    NO_INST INSTRUCTION_TYPE_FPU,
    NO_INST INSTRUCTION_TYPE_FPU,
    NO_INST INSTRUCTION_TYPE_FPU,
    NO_INST INSTRUCTION_TYPE_FPU,
    NO_INST INSTRUCTION_TYPE_FPU,
    NO_INST INSTRUCTION_TYPE_FPU,
    NO_INST INSTRUCTION_TYPE_FPU,
    NO_INST INSTRUCTION_TYPE_FPU,
    NO_INST INSTRUCTION_TYPE_FPU,
    NO_INST INSTRUCTION_TYPE_FPU,
    NO_INST INSTRUCTION_TYPE_FPU,
    NO_INST INSTRUCTION_TYPE_FPU,
    NO_INST INSTRUCTION_TYPE_FPU,
    NO_INST INSTRUCTION_TYPE_FPU,
    NO_INST INSTRUCTION_TYPE_FPU,
    NO_INST INSTRUCTION_TYPE_FPU
  ]"

definition inst_table_fpu_de :: "INST list" where [libdasm_tables]:
  "inst_table_fpu_de = [
    INST INSTRUCTION_TYPE_FIADD (Some ''fiadd'') (AM_E OR OT_w OR P_w) FLAGS_NONE FLAGS_NONE True 0 0 0 0,
    INST INSTRUCTION_TYPE_FIMUL (Some ''fimul'') (AM_E OR OT_w OR P_w) FLAGS_NONE FLAGS_NONE True 0 0 0 0,
    INST INSTRUCTION_TYPE_FICOM (Some ''ficom'') (AM_E OR OT_w OR P_w) FLAGS_NONE FLAGS_NONE True 0 0 0 0,
    INST INSTRUCTION_TYPE_FICOMP (Some ''ficomp'') (AM_E OR OT_w OR P_w) FLAGS_NONE FLAGS_NONE True 0 0 0 0,
    INST INSTRUCTION_TYPE_FISUB (Some ''fisub'') (AM_E OR OT_w OR P_w) FLAGS_NONE FLAGS_NONE True 0 0 0 0,
    INST INSTRUCTION_TYPE_FISUBR (Some ''fisubr'') (AM_E OR OT_w OR P_w) FLAGS_NONE FLAGS_NONE True 0 0 0 0,
    INST INSTRUCTION_TYPE_FIDIV (Some ''fidiv'') (AM_E OR OT_w OR P_w) FLAGS_NONE FLAGS_NONE True 0 0 0 0,
    INST INSTRUCTION_TYPE_FIDIVR (Some ''fidivr'') (AM_E OR OT_w OR P_w) FLAGS_NONE FLAGS_NONE True 0 0 0 0,
    INST INSTRUCTION_TYPE_FADDP (Some ''faddp'') (AM_LIBDASM_REG OR LIBDASM_REG_ST0 OR F_f OR P_w) (AM_LIBDASM_REG OR LIBDASM_REG_ST0 OR F_f OR P_r) FLAGS_NONE False 0 0 0 0,
    INST INSTRUCTION_TYPE_FADDP (Some ''faddp'') (AM_LIBDASM_REG OR LIBDASM_REG_ST1 OR F_f OR P_w) (AM_LIBDASM_REG OR LIBDASM_REG_ST0 OR F_f OR P_r) FLAGS_NONE False 0 0 0 0,
    INST INSTRUCTION_TYPE_FADDP (Some ''faddp'') (AM_LIBDASM_REG OR LIBDASM_REG_ST2 OR F_f OR P_w) (AM_LIBDASM_REG OR LIBDASM_REG_ST0 OR F_f OR P_r) FLAGS_NONE False 0 0 0 0,
    INST INSTRUCTION_TYPE_FADDP (Some ''faddp'') (AM_LIBDASM_REG OR LIBDASM_REG_ST3 OR F_f OR P_w) (AM_LIBDASM_REG OR LIBDASM_REG_ST0 OR F_f OR P_r) FLAGS_NONE False 0 0 0 0,
    INST INSTRUCTION_TYPE_FADDP (Some ''faddp'') (AM_LIBDASM_REG OR LIBDASM_REG_ST4 OR F_f OR P_w) (AM_LIBDASM_REG OR LIBDASM_REG_ST0 OR F_f OR P_r) FLAGS_NONE False 0 0 0 0,
    INST INSTRUCTION_TYPE_FADDP (Some ''faddp'') (AM_LIBDASM_REG OR LIBDASM_REG_ST5 OR F_f OR P_w) (AM_LIBDASM_REG OR LIBDASM_REG_ST0 OR F_f OR P_r) FLAGS_NONE False 0 0 0 0,
    INST INSTRUCTION_TYPE_FADDP (Some ''faddp'') (AM_LIBDASM_REG OR LIBDASM_REG_ST6 OR F_f OR P_w) (AM_LIBDASM_REG OR LIBDASM_REG_ST0 OR F_f OR P_r) FLAGS_NONE False 0 0 0 0,
    INST INSTRUCTION_TYPE_FADDP (Some ''faddp'') (AM_LIBDASM_REG OR LIBDASM_REG_ST7 OR F_f OR P_w) (AM_LIBDASM_REG OR LIBDASM_REG_ST0 OR F_f OR P_r) FLAGS_NONE False 0 0 0 0,
    INST INSTRUCTION_TYPE_FMULP (Some ''fmulp'') (AM_LIBDASM_REG OR LIBDASM_REG_ST0 OR F_f OR P_w) (AM_LIBDASM_REG OR LIBDASM_REG_ST0 OR F_f OR P_r) FLAGS_NONE False 0 0 0 0,
    INST INSTRUCTION_TYPE_FMULP (Some ''fmulp'') (AM_LIBDASM_REG OR LIBDASM_REG_ST1 OR F_f OR P_w) (AM_LIBDASM_REG OR LIBDASM_REG_ST0 OR F_f OR P_r) FLAGS_NONE False 0 0 0 0,
    INST INSTRUCTION_TYPE_FMULP (Some ''fmulp'') (AM_LIBDASM_REG OR LIBDASM_REG_ST2 OR F_f OR P_w) (AM_LIBDASM_REG OR LIBDASM_REG_ST0 OR F_f OR P_r) FLAGS_NONE False 0 0 0 0,
    INST INSTRUCTION_TYPE_FMULP (Some ''fmulp'') (AM_LIBDASM_REG OR LIBDASM_REG_ST3 OR F_f OR P_w) (AM_LIBDASM_REG OR LIBDASM_REG_ST0 OR F_f OR P_r) FLAGS_NONE False 0 0 0 0,
    INST INSTRUCTION_TYPE_FMULP (Some ''fmulp'') (AM_LIBDASM_REG OR LIBDASM_REG_ST4 OR F_f OR P_w) (AM_LIBDASM_REG OR LIBDASM_REG_ST0 OR F_f OR P_r) FLAGS_NONE False 0 0 0 0,
    INST INSTRUCTION_TYPE_FMULP (Some ''fmulp'') (AM_LIBDASM_REG OR LIBDASM_REG_ST5 OR F_f OR P_w) (AM_LIBDASM_REG OR LIBDASM_REG_ST0 OR F_f OR P_r) FLAGS_NONE False 0 0 0 0,
    INST INSTRUCTION_TYPE_FMULP (Some ''fmulp'') (AM_LIBDASM_REG OR LIBDASM_REG_ST6 OR F_f OR P_w) (AM_LIBDASM_REG OR LIBDASM_REG_ST0 OR F_f OR P_r) FLAGS_NONE False 0 0 0 0,
    INST INSTRUCTION_TYPE_FMULP (Some ''fmulp'') (AM_LIBDASM_REG OR LIBDASM_REG_ST7 OR F_f OR P_w) (AM_LIBDASM_REG OR LIBDASM_REG_ST0 OR F_f OR P_r) FLAGS_NONE False 0 0 0 0,
    NO_INST INSTRUCTION_TYPE_FPU,
    NO_INST INSTRUCTION_TYPE_FPU,
    NO_INST INSTRUCTION_TYPE_FPU,
    NO_INST INSTRUCTION_TYPE_FPU,
    NO_INST INSTRUCTION_TYPE_FPU,
    NO_INST INSTRUCTION_TYPE_FPU,
    NO_INST INSTRUCTION_TYPE_FPU,
    NO_INST INSTRUCTION_TYPE_FPU,
    NO_INST INSTRUCTION_TYPE_FPU,
    INST INSTRUCTION_TYPE_FCOMPP (Some ''fcompp'') (FLAGS_NONE OR P_w) (FLAGS_NONE OR P_r) FLAGS_NONE False 0 0 0 0,
    NO_INST INSTRUCTION_TYPE_FPU,
    NO_INST INSTRUCTION_TYPE_FPU,
    NO_INST INSTRUCTION_TYPE_FPU,
    NO_INST INSTRUCTION_TYPE_FPU,
    NO_INST INSTRUCTION_TYPE_FPU,
    NO_INST INSTRUCTION_TYPE_FPU,
    INST INSTRUCTION_TYPE_FSUBRP (Some ''fsubrp'') (AM_LIBDASM_REG OR LIBDASM_REG_ST0 OR F_f OR P_w) (AM_LIBDASM_REG OR LIBDASM_REG_ST0 OR F_f OR P_r) FLAGS_NONE False 0 0 0 0,
    INST INSTRUCTION_TYPE_FSUBRP (Some ''fsubrp'') (AM_LIBDASM_REG OR LIBDASM_REG_ST1 OR F_f OR P_w) (AM_LIBDASM_REG OR LIBDASM_REG_ST0 OR F_f OR P_r) FLAGS_NONE False 0 0 0 0,
    INST INSTRUCTION_TYPE_FSUBRP (Some ''fsubrp'') (AM_LIBDASM_REG OR LIBDASM_REG_ST2 OR F_f OR P_w) (AM_LIBDASM_REG OR LIBDASM_REG_ST0 OR F_f OR P_r) FLAGS_NONE False 0 0 0 0,
    INST INSTRUCTION_TYPE_FSUBRP (Some ''fsubrp'') (AM_LIBDASM_REG OR LIBDASM_REG_ST3 OR F_f OR P_w) (AM_LIBDASM_REG OR LIBDASM_REG_ST0 OR F_f OR P_r) FLAGS_NONE False 0 0 0 0,
    INST INSTRUCTION_TYPE_FSUBRP (Some ''fsubrp'') (AM_LIBDASM_REG OR LIBDASM_REG_ST4 OR F_f OR P_w) (AM_LIBDASM_REG OR LIBDASM_REG_ST0 OR F_f OR P_r) FLAGS_NONE False 0 0 0 0,
    INST INSTRUCTION_TYPE_FSUBRP (Some ''fsubrp'') (AM_LIBDASM_REG OR LIBDASM_REG_ST5 OR F_f OR P_w) (AM_LIBDASM_REG OR LIBDASM_REG_ST0 OR F_f OR P_r) FLAGS_NONE False 0 0 0 0,
    INST INSTRUCTION_TYPE_FSUBRP (Some ''fsubrp'') (AM_LIBDASM_REG OR LIBDASM_REG_ST6 OR F_f OR P_w) (AM_LIBDASM_REG OR LIBDASM_REG_ST0 OR F_f OR P_r) FLAGS_NONE False 0 0 0 0,
    INST INSTRUCTION_TYPE_FSUBRP (Some ''fsubrp'') (AM_LIBDASM_REG OR LIBDASM_REG_ST7 OR F_f OR P_w) (AM_LIBDASM_REG OR LIBDASM_REG_ST0 OR F_f OR P_r) FLAGS_NONE False 0 0 0 0,
    INST INSTRUCTION_TYPE_FSUBP (Some ''fsubp'') (AM_LIBDASM_REG OR LIBDASM_REG_ST0 OR F_f OR P_w) (AM_LIBDASM_REG OR LIBDASM_REG_ST0 OR F_f OR P_r) FLAGS_NONE False 0 0 0 0,
    INST INSTRUCTION_TYPE_FSUBP (Some ''fsubp'') (AM_LIBDASM_REG OR LIBDASM_REG_ST1 OR F_f OR P_w) (AM_LIBDASM_REG OR LIBDASM_REG_ST0 OR F_f OR P_r) FLAGS_NONE False 0 0 0 0,
    INST INSTRUCTION_TYPE_FSUBP (Some ''fsubp'') (AM_LIBDASM_REG OR LIBDASM_REG_ST2 OR F_f OR P_w) (AM_LIBDASM_REG OR LIBDASM_REG_ST0 OR F_f OR P_r) FLAGS_NONE False 0 0 0 0,
    INST INSTRUCTION_TYPE_FSUBP (Some ''fsubp'') (AM_LIBDASM_REG OR LIBDASM_REG_ST3 OR F_f OR P_w) (AM_LIBDASM_REG OR LIBDASM_REG_ST0 OR F_f OR P_r) FLAGS_NONE False 0 0 0 0,
    INST INSTRUCTION_TYPE_FSUBP (Some ''fsubp'') (AM_LIBDASM_REG OR LIBDASM_REG_ST4 OR F_f OR P_w) (AM_LIBDASM_REG OR LIBDASM_REG_ST0 OR F_f OR P_r) FLAGS_NONE False 0 0 0 0,
    INST INSTRUCTION_TYPE_FSUBP (Some ''fsubp'') (AM_LIBDASM_REG OR LIBDASM_REG_ST5 OR F_f OR P_w) (AM_LIBDASM_REG OR LIBDASM_REG_ST0 OR F_f OR P_r) FLAGS_NONE False 0 0 0 0,
    INST INSTRUCTION_TYPE_FSUBP (Some ''fsubp'') (AM_LIBDASM_REG OR LIBDASM_REG_ST6 OR F_f OR P_w) (AM_LIBDASM_REG OR LIBDASM_REG_ST0 OR F_f OR P_r) FLAGS_NONE False 0 0 0 0,
    INST INSTRUCTION_TYPE_FSUBP (Some ''fsubp'') (AM_LIBDASM_REG OR LIBDASM_REG_ST7 OR F_f OR P_w) (AM_LIBDASM_REG OR LIBDASM_REG_ST0 OR F_f OR P_r) FLAGS_NONE False 0 0 0 0,
    INST INSTRUCTION_TYPE_FDIVRP (Some ''fdivrp'') (AM_LIBDASM_REG OR LIBDASM_REG_ST0 OR F_f OR P_w) (AM_LIBDASM_REG OR LIBDASM_REG_ST0 OR F_f OR P_r) FLAGS_NONE False 0 0 0 0,
    INST INSTRUCTION_TYPE_FDIVRP (Some ''fdivrp'') (AM_LIBDASM_REG OR LIBDASM_REG_ST1 OR F_f OR P_w) (AM_LIBDASM_REG OR LIBDASM_REG_ST0 OR F_f OR P_r) FLAGS_NONE False 0 0 0 0,
    INST INSTRUCTION_TYPE_FDIVRP (Some ''fdivrp'') (AM_LIBDASM_REG OR LIBDASM_REG_ST2 OR F_f OR P_w) (AM_LIBDASM_REG OR LIBDASM_REG_ST0 OR F_f OR P_r) FLAGS_NONE False 0 0 0 0,
    INST INSTRUCTION_TYPE_FDIVRP (Some ''fdivrp'') (AM_LIBDASM_REG OR LIBDASM_REG_ST3 OR F_f OR P_w) (AM_LIBDASM_REG OR LIBDASM_REG_ST0 OR F_f OR P_r) FLAGS_NONE False 0 0 0 0,
    INST INSTRUCTION_TYPE_FDIVRP (Some ''fdivrp'') (AM_LIBDASM_REG OR LIBDASM_REG_ST4 OR F_f OR P_w) (AM_LIBDASM_REG OR LIBDASM_REG_ST0 OR F_f OR P_r) FLAGS_NONE False 0 0 0 0,
    INST INSTRUCTION_TYPE_FDIVRP (Some ''fdivrp'') (AM_LIBDASM_REG OR LIBDASM_REG_ST5 OR F_f OR P_w) (AM_LIBDASM_REG OR LIBDASM_REG_ST0 OR F_f OR P_r) FLAGS_NONE False 0 0 0 0,
    INST INSTRUCTION_TYPE_FDIVRP (Some ''fdivrp'') (AM_LIBDASM_REG OR LIBDASM_REG_ST6 OR F_f OR P_w) (AM_LIBDASM_REG OR LIBDASM_REG_ST0 OR F_f OR P_r) FLAGS_NONE False 0 0 0 0,
    INST INSTRUCTION_TYPE_FDIVRP (Some ''fdivrp'') (AM_LIBDASM_REG OR LIBDASM_REG_ST7 OR F_f OR P_w) (AM_LIBDASM_REG OR LIBDASM_REG_ST0 OR F_f OR P_r) FLAGS_NONE False 0 0 0 0,
    INST INSTRUCTION_TYPE_FDIVP (Some ''fdivp'') (AM_LIBDASM_REG OR LIBDASM_REG_ST0 OR F_f OR P_w) (AM_LIBDASM_REG OR LIBDASM_REG_ST0 OR F_f OR P_r) FLAGS_NONE False 0 0 0 0,
    INST INSTRUCTION_TYPE_FDIVP (Some ''fdivp'') (AM_LIBDASM_REG OR LIBDASM_REG_ST1 OR F_f OR P_w) (AM_LIBDASM_REG OR LIBDASM_REG_ST0 OR F_f OR P_r) FLAGS_NONE False 0 0 0 0,
    INST INSTRUCTION_TYPE_FDIVP (Some ''fdivp'') (AM_LIBDASM_REG OR LIBDASM_REG_ST2 OR F_f OR P_w) (AM_LIBDASM_REG OR LIBDASM_REG_ST0 OR F_f OR P_r) FLAGS_NONE False 0 0 0 0,
    INST INSTRUCTION_TYPE_FDIVP (Some ''fdivp'') (AM_LIBDASM_REG OR LIBDASM_REG_ST3 OR F_f OR P_w) (AM_LIBDASM_REG OR LIBDASM_REG_ST0 OR F_f OR P_r) FLAGS_NONE False 0 0 0 0,
    INST INSTRUCTION_TYPE_FDIVP (Some ''fdivp'') (AM_LIBDASM_REG OR LIBDASM_REG_ST4 OR F_f OR P_w) (AM_LIBDASM_REG OR LIBDASM_REG_ST0 OR F_f OR P_r) FLAGS_NONE False 0 0 0 0,
    INST INSTRUCTION_TYPE_FDIVP (Some ''fdivp'') (AM_LIBDASM_REG OR LIBDASM_REG_ST5 OR F_f OR P_w) (AM_LIBDASM_REG OR LIBDASM_REG_ST0 OR F_f OR P_r) FLAGS_NONE False 0 0 0 0,
    INST INSTRUCTION_TYPE_FDIVP (Some ''fdivp'') (AM_LIBDASM_REG OR LIBDASM_REG_ST6 OR F_f OR P_w) (AM_LIBDASM_REG OR LIBDASM_REG_ST0 OR F_f OR P_r) FLAGS_NONE False 0 0 0 0,
    INST INSTRUCTION_TYPE_FDIVP (Some ''fdivp'') (AM_LIBDASM_REG OR LIBDASM_REG_ST7 OR F_f OR P_w) (AM_LIBDASM_REG OR LIBDASM_REG_ST0 OR F_f OR P_r) FLAGS_NONE False 0 0 0 0
  ]"

definition inst_table_fpu_df :: "INST list" where [libdasm_tables]:
  "inst_table_fpu_df = [
    INST INSTRUCTION_TYPE_FILD (Some ''fild'') (AM_E OR OT_w OR P_w) FLAGS_NONE FLAGS_NONE True 0 0 0 0,
    INST INSTRUCTION_TYPE_FISTTP (Some ''fisttp'') (AM_E OR OT_w OR P_w) FLAGS_NONE FLAGS_NONE True 0 0 0 0,
    INST INSTRUCTION_TYPE_FIST (Some ''fist'') (AM_E OR OT_w OR P_w) FLAGS_NONE FLAGS_NONE True 0 0 0 0,
    INST INSTRUCTION_TYPE_FISTP (Some ''fistp'') (AM_E OR OT_w OR P_w) FLAGS_NONE FLAGS_NONE True 0 0 0 0,
    INST INSTRUCTION_TYPE_FPU (Some ''fbld'') (AM_E OR OT_t OR P_w) FLAGS_NONE FLAGS_NONE True 0 0 0 0,
    INST INSTRUCTION_TYPE_FILD (Some ''fild'') (AM_E OR OT_t OR P_w) FLAGS_NONE FLAGS_NONE True 0 0 0 0,
    INST INSTRUCTION_TYPE_FPU (Some ''fbstp'') (AM_E OR OT_t OR P_w) FLAGS_NONE FLAGS_NONE True 0 0 0 0,
    INST INSTRUCTION_TYPE_FISTP (Some ''fistp'') (AM_E OR OT_t OR P_w) FLAGS_NONE FLAGS_NONE True 0 0 0 0,
    INST INSTRUCTION_TYPE_FFREEP (Some ''ffreep'') (AM_LIBDASM_REG OR LIBDASM_REG_ST0 OR F_f OR P_w) FLAGS_NONE FLAGS_NONE False 0 0 0 0,
    INST INSTRUCTION_TYPE_FFREEP (Some ''ffreep'') (AM_LIBDASM_REG OR LIBDASM_REG_ST1 OR F_f OR P_w) FLAGS_NONE FLAGS_NONE False 0 0 0 0,
    INST INSTRUCTION_TYPE_FFREEP (Some ''ffreep'') (AM_LIBDASM_REG OR LIBDASM_REG_ST2 OR F_f OR P_w) FLAGS_NONE FLAGS_NONE False 0 0 0 0,
    INST INSTRUCTION_TYPE_FFREEP (Some ''ffreep'') (AM_LIBDASM_REG OR LIBDASM_REG_ST3 OR F_f OR P_w) FLAGS_NONE FLAGS_NONE False 0 0 0 0,
    INST INSTRUCTION_TYPE_FFREEP (Some ''ffreep'') (AM_LIBDASM_REG OR LIBDASM_REG_ST4 OR F_f OR P_w) FLAGS_NONE FLAGS_NONE False 0 0 0 0,
    INST INSTRUCTION_TYPE_FFREEP (Some ''ffreep'') (AM_LIBDASM_REG OR LIBDASM_REG_ST5 OR F_f OR P_w) FLAGS_NONE FLAGS_NONE False 0 0 0 0,
    INST INSTRUCTION_TYPE_FFREEP (Some ''ffreep'') (AM_LIBDASM_REG OR LIBDASM_REG_ST6 OR F_f OR P_w) FLAGS_NONE FLAGS_NONE False 0 0 0 0,
    INST INSTRUCTION_TYPE_FFREEP (Some ''ffreep'') (AM_LIBDASM_REG OR LIBDASM_REG_ST7 OR F_f OR P_w) FLAGS_NONE FLAGS_NONE False 0 0 0 0,
    NO_INST INSTRUCTION_TYPE_FPU,
    NO_INST INSTRUCTION_TYPE_FPU,
    NO_INST INSTRUCTION_TYPE_FPU,
    NO_INST INSTRUCTION_TYPE_FPU,
    NO_INST INSTRUCTION_TYPE_FPU,
    NO_INST INSTRUCTION_TYPE_FPU,
    NO_INST INSTRUCTION_TYPE_FPU,
    NO_INST INSTRUCTION_TYPE_FPU,
    NO_INST INSTRUCTION_TYPE_FPU,
    NO_INST INSTRUCTION_TYPE_FPU,
    NO_INST INSTRUCTION_TYPE_FPU,
    NO_INST INSTRUCTION_TYPE_FPU,
    NO_INST INSTRUCTION_TYPE_FPU,
    NO_INST INSTRUCTION_TYPE_FPU,
    NO_INST INSTRUCTION_TYPE_FPU,
    NO_INST INSTRUCTION_TYPE_FPU,
    NO_INST INSTRUCTION_TYPE_FPU,
    NO_INST INSTRUCTION_TYPE_FPU,
    NO_INST INSTRUCTION_TYPE_FPU,
    NO_INST INSTRUCTION_TYPE_FPU,
    NO_INST INSTRUCTION_TYPE_FPU,
    NO_INST INSTRUCTION_TYPE_FPU,
    NO_INST INSTRUCTION_TYPE_FPU,
    NO_INST INSTRUCTION_TYPE_FPU,
    INST INSTRUCTION_TYPE_FPU (Some ''fstsw'') (FLAGS_NONE OR P_w) FLAGS_NONE FLAGS_NONE False 0 0 0 0,
    NO_INST INSTRUCTION_TYPE_FPU,
    NO_INST INSTRUCTION_TYPE_FPU,
    NO_INST INSTRUCTION_TYPE_FPU,
    NO_INST INSTRUCTION_TYPE_FPU,
    NO_INST INSTRUCTION_TYPE_FPU,
    NO_INST INSTRUCTION_TYPE_FPU,
    NO_INST INSTRUCTION_TYPE_FPU,
    INST INSTRUCTION_TYPE_FUCOMIP (Some ''fucomip'') (AM_LIBDASM_REG OR LIBDASM_REG_ST0 OR F_f OR P_w) (AM_LIBDASM_REG OR LIBDASM_REG_ST0 OR F_f OR P_r) FLAGS_NONE False 0 0 0 0,
    INST INSTRUCTION_TYPE_FUCOMIP (Some ''fucomip'') (AM_LIBDASM_REG OR LIBDASM_REG_ST0 OR F_f OR P_w) (AM_LIBDASM_REG OR LIBDASM_REG_ST1 OR F_f OR P_r) FLAGS_NONE False 0 0 0 0,
    INST INSTRUCTION_TYPE_FUCOMIP (Some ''fucomip'') (AM_LIBDASM_REG OR LIBDASM_REG_ST0 OR F_f OR P_w) (AM_LIBDASM_REG OR LIBDASM_REG_ST2 OR F_f OR P_r) FLAGS_NONE False 0 0 0 0,
    INST INSTRUCTION_TYPE_FUCOMIP (Some ''fucomip'') (AM_LIBDASM_REG OR LIBDASM_REG_ST0 OR F_f OR P_w) (AM_LIBDASM_REG OR LIBDASM_REG_ST3 OR F_f OR P_r) FLAGS_NONE False 0 0 0 0,
    INST INSTRUCTION_TYPE_FUCOMIP (Some ''fucomip'') (AM_LIBDASM_REG OR LIBDASM_REG_ST0 OR F_f OR P_w) (AM_LIBDASM_REG OR LIBDASM_REG_ST4 OR F_f OR P_r) FLAGS_NONE False 0 0 0 0,
    INST INSTRUCTION_TYPE_FUCOMIP (Some ''fucomip'') (AM_LIBDASM_REG OR LIBDASM_REG_ST0 OR F_f OR P_w) (AM_LIBDASM_REG OR LIBDASM_REG_ST5 OR F_f OR P_r) FLAGS_NONE False 0 0 0 0,
    INST INSTRUCTION_TYPE_FUCOMIP (Some ''fucomip'') (AM_LIBDASM_REG OR LIBDASM_REG_ST0 OR F_f OR P_w) (AM_LIBDASM_REG OR LIBDASM_REG_ST6 OR F_f OR P_r) FLAGS_NONE False 0 0 0 0,
    INST INSTRUCTION_TYPE_FUCOMIP (Some ''fucomip'') (AM_LIBDASM_REG OR LIBDASM_REG_ST0 OR F_f OR P_w) (AM_LIBDASM_REG OR LIBDASM_REG_ST7 OR F_f OR P_r) FLAGS_NONE False 0 0 0 0,
    INST INSTRUCTION_TYPE_FCOMIP (Some ''fcomip'') (AM_LIBDASM_REG OR LIBDASM_REG_ST0 OR F_f OR P_w) (AM_LIBDASM_REG OR LIBDASM_REG_ST0 OR F_f OR P_r) FLAGS_NONE False 0 0 0 0,
    INST INSTRUCTION_TYPE_FCOMIP (Some ''fcomip'') (AM_LIBDASM_REG OR LIBDASM_REG_ST0 OR F_f OR P_w) (AM_LIBDASM_REG OR LIBDASM_REG_ST1 OR F_f OR P_r) FLAGS_NONE False 0 0 0 0,
    INST INSTRUCTION_TYPE_FCOMIP (Some ''fcomip'') (AM_LIBDASM_REG OR LIBDASM_REG_ST0 OR F_f OR P_w) (AM_LIBDASM_REG OR LIBDASM_REG_ST2 OR F_f OR P_r) FLAGS_NONE False 0 0 0 0,
    INST INSTRUCTION_TYPE_FCOMIP (Some ''fcomip'') (AM_LIBDASM_REG OR LIBDASM_REG_ST0 OR F_f OR P_w) (AM_LIBDASM_REG OR LIBDASM_REG_ST3 OR F_f OR P_r) FLAGS_NONE False 0 0 0 0,
    INST INSTRUCTION_TYPE_FCOMIP (Some ''fcomip'') (AM_LIBDASM_REG OR LIBDASM_REG_ST0 OR F_f OR P_w) (AM_LIBDASM_REG OR LIBDASM_REG_ST4 OR F_f OR P_r) FLAGS_NONE False 0 0 0 0,
    INST INSTRUCTION_TYPE_FCOMIP (Some ''fcomip'') (AM_LIBDASM_REG OR LIBDASM_REG_ST0 OR F_f OR P_w) (AM_LIBDASM_REG OR LIBDASM_REG_ST5 OR F_f OR P_r) FLAGS_NONE False 0 0 0 0,
    INST INSTRUCTION_TYPE_FCOMIP (Some ''fcomip'') (AM_LIBDASM_REG OR LIBDASM_REG_ST0 OR F_f OR P_w) (AM_LIBDASM_REG OR LIBDASM_REG_ST6 OR F_f OR P_r) FLAGS_NONE False 0 0 0 0,
    INST INSTRUCTION_TYPE_FCOMIP (Some ''fcomip'') (AM_LIBDASM_REG OR LIBDASM_REG_ST0 OR F_f OR P_w) (AM_LIBDASM_REG OR LIBDASM_REG_ST7 OR F_f OR P_r) FLAGS_NONE False 0 0 0 0,
    NO_INST INSTRUCTION_TYPE_FPU,
    NO_INST INSTRUCTION_TYPE_FPU,
    NO_INST INSTRUCTION_TYPE_FPU,
    NO_INST INSTRUCTION_TYPE_FPU,
    NO_INST INSTRUCTION_TYPE_FPU,
    NO_INST INSTRUCTION_TYPE_FPU,
    NO_INST INSTRUCTION_TYPE_FPU,
    NO_INST INSTRUCTION_TYPE_FPU
  ]"

definition inst_table4 :: "INST list list" where [libdasm_tables]:
  "inst_table4 = [inst_table_fpu_d8, inst_table_fpu_d9, inst_table_fpu_da, inst_table_fpu_db, inst_table_fpu_dc, inst_table_fpu_dd, inst_table_fpu_de, inst_table_fpu_df]"

end
