(* ===== verification/Libdasm_Decode.thy ===== *)
theory Libdasm_Decode
  imports Opcode_Table1 Opcode_Table2 Opcode_Table3 Opcode_Table_Ext Opcode_Table_Fpu
begin

text \<open>
  The decoder of \<^verbatim>\<open>libdasm/libdasm.cpp\<close>: \<open>get_real_instruction\<close>, \<open>get_real_instruction2\<close>,
  \<open>get_operand\<close>, \<open>get_instruction\<close> and the operand accessors.
  The code buffer is the list of the bytes mapped from the instruction's address on; reading past
  it is \<open>ReadFault\<close>, a return of 0 is \<open>IllegalInstruction\<close>, and a table lookup out of range,
  which the proofs exclude, is \<open>TableOverrun\<close>.
\<close>

subsection \<open>Fetching\<close>

definition FETCH8 :: "u8 list \<Rightarrow> nat \<Rightarrow> dasm_error + u8" where
  "FETCH8 bs i = (if i < length bs then Inr (bs ! i) else Inl ReadFault)"

definition FETCH16 :: "u8 list \<Rightarrow> nat \<Rightarrow> dasm_error + u16" where
  "FETCH16 bs i = bind_r (FETCH8 bs i) (\<lambda>b0. bind_r (FETCH8 bs (i + 1)) (\<lambda>b1.
     Inr (ucast b0 OR push_bit 8 (ucast b1))))"

definition FETCH32 :: "u8 list \<Rightarrow> nat \<Rightarrow> dasm_error + u32" where
  "FETCH32 bs i = bind_r (FETCH8 bs i) (\<lambda>b0. bind_r (FETCH8 bs (i + 1)) (\<lambda>b1.
     bind_r (FETCH8 bs (i + 2)) (\<lambda>b2. bind_r (FETCH8 bs (i + 3)) (\<lambda>b3.
     Inr (ucast b0 OR push_bit 8 (ucast b1) OR push_bit 16 (ucast b2) OR push_bit 24 (ucast b3))))))"

definition table_row :: "'a list \<Rightarrow> nat \<Rightarrow> dasm_error + 'a" where
  "table_row t i = (if i < length t then Inr (t ! i) else Inl TableOverrun)"

definition MODE_CHECK_ADDR :: "Mode \<Rightarrow> u32 \<Rightarrow> Mode" where
  "MODE_CHECK_ADDR mode flags =
     (if mode = MODE_32 \<and> MASK_PREFIX_ADDR flags = 0 \<or> mode = MODE_16 \<and> MASK_PREFIX_ADDR flags = 1
      then MODE_32 else MODE_16)"

definition MODE_CHECK_OPERAND :: "Mode \<Rightarrow> u32 \<Rightarrow> Mode" where
  "MODE_CHECK_OPERAND mode flags =
     (if mode = MODE_32 \<and> MASK_PREFIX_OPERAND flags = 0 \<or> mode = MODE_16 \<and> MASK_PREFIX_OPERAND flags = 1
      then MODE_32 else MODE_16)"

subsection \<open>Prefixes and escapes\<close>

text \<open>The cases of \<open>get_real_instruction\<close> that consume a prefix byte and go on: the new flags.\<close>

definition prefix_flags :: "u8 \<Rightarrow> u32 \<Rightarrow> u32 option" where
  "prefix_flags b flags =
     (if b = 0x2e then Some ((flags AND 0xff00ffff) OR PREFIX_CS_OVERRIDE)
      else if b = 0x36 then Some ((flags AND 0xff00ffff) OR PREFIX_SS_OVERRIDE)
      else if b = 0x3e then Some ((flags AND 0xff00ffff) OR PREFIX_DS_OVERRIDE)
      else if b = 0x26 then Some ((flags AND 0xff00ffff) OR PREFIX_ES_OVERRIDE)
      else if b = 0x64 then Some ((flags AND 0xff00ffff) OR PREFIX_FS_OVERRIDE)
      else if b = 0x65 then Some ((flags AND 0xff00ffff) OR PREFIX_GS_OVERRIDE)
      else if b = 0x66 then Some (flags OR PREFIX_OPERAND_SIZE_OVERRIDE)
      else if b = 0x67 then Some (flags OR PREFIX_ADDR_SIZE_OVERRIDE)
      else if b = 0xf0 then Some ((flags AND 0x00ffffff) OR PREFIX_LOCK)
      else if b = 0xf2 then Some ((flags AND 0x00ffffff) OR PREFIX_REPNE)
      else if b = 0xf3 then Some ((flags AND 0x00ffffff) OR PREFIX_REP)
      else None)"

text \<open>The cases that end it: how many bytes are skipped, and the extension flag that is set.\<close>

definition opcode_extension :: "u8 \<Rightarrow> nat \<times> u32" where
  "opcode_extension b =
     (if b = 0x0f then (1, EXT_T2)
      else if b = 0x80 then (0, EXT_G1_1)
      else if b = 0x81 then (0, EXT_G1_2)
      else if b = 0x82 then (0, EXT_G1_1)
      else if b = 0x83 then (0, EXT_G1_3)
      else if b = 0xc0 then (0, EXT_G2_1)
      else if b = 0xc1 then (0, EXT_G2_2)
      else if b = 0xd0 then (0, EXT_G2_3)
      else if b = 0xd1 then (0, EXT_G2_4)
      else if b = 0xd2 then (0, EXT_G2_5)
      else if b = 0xd3 then (0, EXT_G2_6)
      else if b \<in> {0xd8, 0xd9, 0xda, 0xdb, 0xdc, 0xdd, 0xde, 0xdf} then (1, EXT_CP)
      else if b = 0xf6 then (0, EXT_G3_1)
      else if b = 0xf7 then (0, EXT_G3_2)
      else if b = 0xfe then (0, EXT_G4)
      else if b = 0xff then (0, EXT_G5)
      else (0, 0))"

fun get_real_instruction :: "u8 list \<Rightarrow> nat \<Rightarrow> u32 \<Rightarrow> dasm_error + nat \<times> u32" where
  "get_real_instruction [] index flags = Inl ReadFault"
| "get_real_instruction (b # bs) index flags =
     (case prefix_flags b flags of
        Some flags' \<Rightarrow> get_real_instruction bs (index + 1) flags'
      | None \<Rightarrow> Inr (index + fst (opcode_extension b), flags OR snd (opcode_extension b)))"

definition get_real_instruction2 :: "u8 \<Rightarrow> u32 \<Rightarrow> u32" where
  "get_real_instruction2 b flags =
     (if b = 0x00 then (flags AND 0xffffff00) OR EXT_G6
      else if b = 0x01 then (flags AND 0xffffff00) OR EXT_G7
      else if b = 0x71 then (flags AND 0xffffff00) OR EXT_GC
      else if b = 0x72 then (flags AND 0xffffff00) OR EXT_GD
      else if b = 0x73 then (flags AND 0xffffff00) OR EXT_GE
      else if b = 0xae then (flags AND 0xffffff00) OR EXT_GF
      else if b = 0xba then (flags AND 0xffffff00) OR EXT_G8
      else if b = 0xc7 then (flags AND 0xffffff00) OR EXT_G9
      else flags)"

subsection \<open>MODRM and SIB\<close>

text \<open>The local variables \<open>sib\<close>, \<open>scale\<close>, \<open>reg\<close>, \<open>basereg\<close>, \<open>indexreg\<close>, \<open>dispbytes\<close> of \<open>get_operand\<close>,
  and the MODRM byte they come from.\<close>

record modrm_info =
  m_byte :: u8
  m_sib :: bool
  m_scale :: nat
  m_reg :: nat
  m_basereg :: nat
  m_indexreg :: nat
  m_dispbytes :: nat

definition no_modrm :: modrm_info where
  "no_modrm = \<lparr>m_byte = 0, m_sib = False, m_scale = 0, m_reg = LIBDASM_REGISTER_NOP,
     m_basereg = LIBDASM_REGISTER_NOP, m_indexreg = LIBDASM_REGISTER_NOP, m_dispbytes = 0\<rparr>"

definition modrm_dispbytes :: "Mode \<Rightarrow> u8 \<Rightarrow> nat" where
  "modrm_dispbytes pmode b =
     (if MASK_MODRM_MOD b = 0 then
        if pmode = MODE_32 \<and> MASK_MODRM_RM b = LIBDASM_REGISTER_EBP then 4
        else if pmode = MODE_16 \<and> MASK_MODRM_RM b = LIBDASM_REGISTER_ESI then 2
        else 0
      else if MASK_MODRM_MOD b = 1 then 1
      else if MASK_MODRM_MOD b = 2 then (if pmode = MODE_32 then 4 else 2)
      else 0)"

definition base_index_16 :: "u8 \<Rightarrow> nat \<times> nat" where
  "base_index_16 b =
     (if MASK_MODRM_MOD b = 3 then (MASK_MODRM_RM b, LIBDASM_REGISTER_NOP)
      else let rm = MASK_MODRM_RM b in
        if rm = 0 then (LIBDASM_REGISTER_EBX, LIBDASM_REGISTER_ESI)
        else if rm = 1 then (LIBDASM_REGISTER_EBX, LIBDASM_REGISTER_EDI)
        else if rm = 2 then (LIBDASM_REGISTER_EBP, LIBDASM_REGISTER_ESI)
        else if rm = 3 then (LIBDASM_REGISTER_EBP, LIBDASM_REGISTER_EDI)
        else if rm = 4 then (LIBDASM_REGISTER_ESI, LIBDASM_REGISTER_NOP)
        else if rm = 5 then (LIBDASM_REGISTER_EDI, LIBDASM_REGISTER_NOP)
        else if rm = 6 then
          (if MASK_MODRM_MOD b = 0 then LIBDASM_REGISTER_NOP else LIBDASM_REGISTER_EBP, LIBDASM_REGISTER_NOP)
        else (LIBDASM_REGISTER_EBX, LIBDASM_REGISTER_NOP))"

definition parse_sib :: "u8 list \<Rightarrow> nat \<Rightarrow> u8 \<Rightarrow> INSTRUCTION \<Rightarrow> dasm_error + modrm_info \<times> INSTRUCTION" where
  "parse_sib bs offset b instr =
     bind_r (FETCH8 bs (offset + 1)) (\<lambda>s.
       let instr' = instr\<lparr>sib := s, ilength := (if ilength instr = 1 then 2 else ilength instr)\<rparr>;
           scale0 = MASK_SIB_SCALE s * 2;
           scale = (if scale0 = 6 then scale0 + 2 else scale0);
           no_base = (MASK_SIB_BASE s = LIBDASM_REGISTER_EBP \<and> MASK_MODRM_MOD b = 0)
       in Inr (\<lparr>m_byte = b, m_sib = True, m_scale = scale, m_reg = MASK_MODRM_LIBDASM_REG b,
            m_basereg = (if no_base then LIBDASM_REGISTER_NOP else MASK_SIB_BASE s),
            m_indexreg = (if MASK_SIB_INDEX s = LIBDASM_REGISTER_ESP then LIBDASM_REGISTER_NOP
                          else MASK_SIB_INDEX s),
            m_dispbytes = (if no_base then 4 else modrm_dispbytes MODE_32 b)\<rparr>, instr'))"

definition parse_modrm ::
    "u8 list \<Rightarrow> nat \<Rightarrow> Mode \<Rightarrow> INSTRUCTION \<Rightarrow> dasm_error + modrm_info \<times> INSTRUCTION" where
  "parse_modrm bs offset pmode instr =
     bind_r (FETCH8 bs offset) (\<lambda>b.
       let instr' = (if ilength instr = 0 then instr\<lparr>modrm := b, ilength := 1\<rparr> else instr);
           info = \<lparr>m_byte = b, m_sib = False, m_scale = 0, m_reg = MASK_MODRM_LIBDASM_REG b,
             m_basereg = LIBDASM_REGISTER_NOP, m_indexreg = LIBDASM_REGISTER_NOP,
             m_dispbytes = modrm_dispbytes pmode b\<rparr>
       in if pmode = MODE_32 then
            if MASK_MODRM_RM b = LIBDASM_REGISTER_ESP \<and> MASK_MODRM_MOD b \<noteq> 3
            then parse_sib bs offset b instr'
            else Inr (info\<lparr>m_basereg :=
                   if MASK_MODRM_MOD b = 0 \<and> MASK_MODRM_RM b = LIBDASM_REGISTER_EBP
                   then LIBDASM_REGISTER_NOP else MASK_MODRM_RM b\<rparr>, instr')
          else Inr (info\<lparr>m_basereg := fst (base_index_16 b), m_indexreg := snd (base_index_16 b)\<rparr>, instr'))"

subsection \<open>Operands\<close>

definition sign_extend8 :: "u8 \<Rightarrow> u32" where
  "sign_extend8 b = (let v = ucast b :: u32 in if 0x80 \<le> v then v OR 0xffffff00 else v)"

definition memory_operand ::
    "INSTRUCTION \<Rightarrow> OPERAND \<Rightarrow> u8 list \<Rightarrow> nat \<Rightarrow> modrm_info \<Rightarrow> dasm_error + OPERAND \<times> INSTRUCTION" where
  "memory_operand instr op bs offset mi =
     (let d = m_dispbytes mi;
          index = of_bool (m_sib mi);
          instr' = instr\<lparr>dispbytes := d\<rparr>;
          op' = op\<lparr>op_type := OPERAND_TYPE_MEMORY, op_dispbytes := d, basereg := m_basereg mi,
                  indexreg := m_indexreg mi, op_scale := m_scale mi,
                  dispoffset := (if d \<noteq> 0 then index + 1 + offset else dispoffset op)\<rparr>
      in bind_r (if d = 1 then bind_r (FETCH8 bs (offset + 1 + index)) (\<lambda>v. Inr (sign_extend8 v))
                 else if d = 2 then bind_r (FETCH16 bs (offset + 1 + index)) (\<lambda>v. Inr (ucast v))
                 else if d = 4 then FETCH32 bs (offset + 1 + index)
                 else Inr (displacement op))
           (\<lambda>v. let op'' = op'\<lparr>displacement := v\<rparr> in
              if m_basereg mi \<noteq> LIBDASM_REGISTER_NOP \<and> MASK_MODRM_MOD (m_byte mi) = 3
              then Inr (op''\<lparr>op_type := OPERAND_TYPE_LIBDASM_REGISTER, reg := m_basereg mi\<rparr>, instr')
              else Inr (op'', instr')))"

text \<open>The inner switch on the operand type: how many bytes the value has, and the value.
  The default leaves what the operand held.\<close>

definition immediate_value ::
    "u32 \<Rightarrow> OPERAND \<Rightarrow> u8 list \<Rightarrow> nat \<Rightarrow> Mode \<Rightarrow> dasm_error + nat \<times> u32" where
  "immediate_value oflags op bs at mode =
     (if MASK_OT oflags = OT_b then
        bind_r (FETCH8 bs at) (\<lambda>b.
          Inr (1, if MASK_FLAGS oflags = F_s then sign_extend8 b else ucast b))
      else if MASK_OT oflags = OT_v then
        if mode = MODE_32 then bind_r (FETCH32 bs at) (\<lambda>v. Inr (4, v))
        else bind_r (FETCH16 bs at) (\<lambda>v. Inr (2, ucast v))
      else if MASK_OT oflags = OT_w then bind_r (FETCH16 bs at) (\<lambda>v. Inr (2, ucast v))
      else Inr (op_immbytes op, immediate op))"

definition immediate_operand ::
    "INST \<Rightarrow> u32 \<Rightarrow> INSTRUCTION \<Rightarrow> OPERAND \<Rightarrow> u8 list \<Rightarrow> nat \<Rightarrow> Mode \<Rightarrow> u32 \<Rightarrow> modrm_info \<Rightarrow>
     dasm_error + OPERAND \<times> INSTRUCTION" where
  "immediate_operand inst oflags instr op bs offset mode flags mi =
     (let index = of_bool (inst_modrm inst) + of_bool (m_sib mi) + immbytes instr + dispbytes instr
      in bind_r (immediate_value oflags op bs (offset + index) (MODE_CHECK_OPERAND mode flags))
           (\<lambda>(n, v). Inr (op\<lparr>op_type := OPERAND_TYPE_IMMEDIATE, immoffset := index + offset,
                            op_immbytes := n, immediate := v\<rparr>,
                         instr\<lparr>immbytes := immbytes instr + n\<rparr>)))"

definition far_operand ::
    "INSTRUCTION \<Rightarrow> OPERAND \<Rightarrow> u8 list \<Rightarrow> nat \<Rightarrow> Mode \<Rightarrow> u32 \<Rightarrow> dasm_error + OPERAND \<times> INSTRUCTION" where
  "far_operand instr op bs offset mode flags =
     (let mode' = MODE_CHECK_OPERAND mode flags; d = (if mode' = MODE_32 then 6 else 4)
      in bind_r (if mode' = MODE_32 then FETCH32 bs offset
                 else bind_r (FETCH16 bs offset) (\<lambda>v. Inr (ucast v))) (\<lambda>v.
         bind_r (FETCH16 bs (offset + d - 2)) (\<lambda>sec.
         Inr (op\<lparr>op_type := OPERAND_TYPE_IMMEDIATE, op_dispbytes := d, displacement := v, section_val := sec\<rparr>,
              instr\<lparr>dispbytes := d, sectionbytes := 2\<rparr>))))"

definition offset_operand ::
    "u32 \<Rightarrow> INSTRUCTION \<Rightarrow> OPERAND \<Rightarrow> u8 list \<Rightarrow> nat \<Rightarrow> Mode \<Rightarrow> dasm_error + OPERAND \<times> INSTRUCTION" where
  "offset_operand oflags instr op bs offset mode =
     bind_r (if MASK_OT oflags = OT_b then bind_r (FETCH8 bs offset) (\<lambda>v. Inr (1, ucast v))
             else if MASK_OT oflags = OT_v then
               if mode = MODE_32 then bind_r (FETCH32 bs offset) (\<lambda>v. Inr (4, v))
               else bind_r (FETCH16 bs offset) (\<lambda>v. Inr (2, ucast v))
             else Inr (op_dispbytes op, displacement op))
       (\<lambda>(d, v). Inr (op\<lparr>op_type := OPERAND_TYPE_MEMORY, op_dispbytes := d, displacement := v,
                          dispoffset := offset\<rparr>,
                     instr\<lparr>dispbytes := d\<rparr>))"

text \<open>The switch on the addressing method. \<open>AM_J\<close> falls through to \<open>AM_I\<close> with \<open>F_s\<close> set.\<close>

definition operand_switch ::
    "INST \<Rightarrow> u32 \<Rightarrow> INSTRUCTION \<Rightarrow> OPERAND \<Rightarrow> u8 list \<Rightarrow> nat \<Rightarrow> Mode \<Rightarrow> u32 \<Rightarrow> modrm_info \<Rightarrow>
     dasm_error + OPERAND \<times> INSTRUCTION" where
  "operand_switch inst oflags instr op bs offset mode flags mi =
     (let am = MASK_AM oflags in
      if am = AM_LIBDASM_REG then
        Inr (op\<lparr>op_type := OPERAND_TYPE_LIBDASM_REGISTER, reg := MASK_LIBDASM_REG oflags\<rparr>, instr)
      else if am = AM_IND then
        Inr (op\<lparr>op_type := OPERAND_TYPE_MEMORY, basereg := MASK_LIBDASM_REG oflags\<rparr>, instr)
      else if am = AM_M then
        bind_r (FETCH8 bs offset) (\<lambda>b. if MASK_MODRM_MOD b = 3 then Inl IllegalInstruction
          else memory_operand instr op bs offset mi)
      else if am = AM_R then
        bind_r (FETCH8 bs offset) (\<lambda>b. if MASK_MODRM_MOD b \<noteq> 3 then Inl IllegalInstruction
          else memory_operand instr op bs offset mi)
      else if am = AM_Q \<or> am = AM_W \<or> am = AM_E then memory_operand instr op bs offset mi
      else if am = AM_I1 then
        Inr (op\<lparr>op_type := OPERAND_TYPE_IMMEDIATE, op_immbytes := 1, immediate := 1\<rparr>, instr)
      else if am = AM_J then
        immediate_operand inst (oflags OR F_s) instr op bs offset mode flags mi
      else if am = AM_I then immediate_operand inst oflags instr op bs offset mode flags mi
      else if am = AM_A then far_operand instr op bs offset mode flags
      else if am = AM_O then offset_operand oflags instr op bs offset mode
      else if am = AM_G then
        Inr (op\<lparr>op_type := OPERAND_TYPE_LIBDASM_REGISTER, reg := m_reg mi\<rparr>, instr)
      else if am = AM_C \<or> am = AM_D \<or> am = AM_S \<or> am = AM_T \<or> am = AM_P \<or> am = AM_V then
        Inr (op\<lparr>op_type := OPERAND_TYPE_LIBDASM_REGISTER,
                reg := MASK_MODRM_LIBDASM_REG (modrm instr)\<rparr>, instr)
      else Inr (op, instr))"

definition get_operand ::
    "INST \<Rightarrow> u32 \<Rightarrow> INSTRUCTION \<Rightarrow> OPERAND \<Rightarrow> u8 list \<Rightarrow> nat \<Rightarrow> Mode \<Rightarrow> u32 \<Rightarrow>
     dasm_error + OPERAND \<times> INSTRUCTION" where
  "get_operand inst oflags instr op bs offset mode flags =
     (if oflags = FLAGS_NONE then Inr (op\<lparr>op_type := OPERAND_TYPE_NONE\<rparr>, instr)
      else bind_r (if inst_modrm inst
                   then parse_modrm bs offset (MODE_CHECK_ADDR mode flags) instr
                   else Inr (no_modrm, instr))
             (\<lambda>(mi, instr'). operand_switch inst oflags instr'
                (op\<lparr>op_flags := oflags, reg := LIBDASM_REGISTER_NOP, basereg := LIBDASM_REGISTER_NOP,
                    indexreg := LIBDASM_REGISTER_NOP, dispoffset := 0, immoffset := 0\<rparr>)
                bs offset mode flags mi))"

subsection \<open>Choosing the table row\<close>

text \<open>The first chain of cases of \<open>get_instruction\<close>: the row pointer (null while an extension
  group still has to choose it), the index, the flags and the instruction so far.\<close>

definition select_table ::
    "u8 list \<Rightarrow> nat \<Rightarrow> u32 \<Rightarrow> INSTRUCTION \<Rightarrow> dasm_error + INST option \<times> nat \<times> u32 \<times> INSTRUCTION" where
  "select_table bs index flags instr =
     (if MASK_EXT flags = 0 then
        bind_r (FETCH8 bs index) (\<lambda>b.
        bind_r (table_row inst_table1 (unat b)) (\<lambda>row.
        Inr (Some row, index, flags, instr\<lparr>opcode := b\<rparr>)))
      else if MASK_EXT flags = EXT_CP then
        bind_r (FETCH8 bs index) (\<lambda>b.
        bind_r (FETCH8 bs (index - 1)) (\<lambda>esc.
        bind_r (table_row inst_table4 (unat esc - 0xd8)) (\<lambda>fpu.
        bind_r (table_row fpu (if b < 0xc0 then MASK_MODRM_LIBDASM_REG b else unat b - 0xb8)) (\<lambda>row.
        Inr (Some row, if b < 0xc0 then index - 1 else index, flags,
             instr\<lparr>fpuindex := unat esc - 0xd8, opcode := b\<rparr>)))))
      else if MASK_EXT flags = EXT_T2 then
        bind_r (FETCH8 bs index) (\<lambda>b.
          let flags' = get_real_instruction2 b flags in
          bind_r (table_row inst_table2 (unat b)) (\<lambda>row.
          bind_r (if MASK_TYPE_FLAGS (inst_type row) = TYPE_3 then
                    if MASK_PREFIX_OPERAND flags' = 1 then table_row inst_table3_66 (unat b)
                    else if MASK_PREFIX_G1 flags' = 2 then table_row inst_table3_f2 (unat b)
                    else if MASK_PREFIX_G1 flags' = 3 then table_row inst_table3_f3 (unat b)
                    else Inr row
                  else Inr row) (\<lambda>row'.
          Inr (Some row', index, flags', instr\<lparr>opcode := b\<rparr>))))
      else Inr (None, index, flags, instr))"

text \<open>The opcode extension tables: the row the \<open>reg\<close> field of the next byte selects.\<close>

definition extension_row :: "u32 \<Rightarrow> u8 \<Rightarrow> nat \<Rightarrow> dasm_error + INST \<times> nat" where
  "extension_row flags m index =
     (let ext = MASK_EXT flags; r = MASK_MODRM_LIBDASM_REG m;
          at = (\<lambda>t. bind_r (table_row t r) (\<lambda>row. Inr (row, index))) in
      if ext = EXT_GC then
        (if MASK_PREFIX_OPERAND flags = 1 then at inst_table_ext12_66 else at inst_table_ext12)
      else if ext = EXT_GD then
        (if MASK_PREFIX_OPERAND flags = 1 then at inst_table_ext13_66 else at inst_table_ext13)
      else if ext = EXT_GE then
        (if MASK_PREFIX_OPERAND flags = 1 then at inst_table_ext14_66 else at inst_table_ext14)
      else if ext = EXT_G7 then
        (if MASK_MODRM_MOD m = 3 then
           if r \<noteq> 1 then Inl IllegalInstruction
           else if MASK_MODRM_RM m = 0 then Inr (inst_monitor, index + 1)
           else if MASK_MODRM_RM m = 1 then Inr (inst_mwait, index + 1)
           else Inl IllegalInstruction
         else at inst_table_ext7)
      else bind_r (table_row inst_table_ext (unat ext - 1)) at)"

definition select_extension ::
    "u8 list \<Rightarrow> INST option \<times> nat \<times> u32 \<times> INSTRUCTION \<Rightarrow>
     dasm_error + INST option \<times> nat \<times> u32 \<times> INSTRUCTION" where
  "select_extension bs = (\<lambda>(p, index, flags, instr).
     if MASK_EXT flags \<noteq> 0 \<and> MASK_EXT flags < EXT_T2 then
       bind_r (FETCH8 bs index) (\<lambda>b.
       bind_r (FETCH8 bs (index + 1)) (\<lambda>m.
       bind_r (extension_row flags m index) (\<lambda>(row, index').
       Inr (Some row, index', flags, instr\<lparr>opcode := b, extindex := MASK_MODRM_LIBDASM_REG m\<rparr>))))
     else Inr (p, index, flags, instr))"

subsection \<open>The decoder\<close>

text \<open>The second half of \<open>get_instruction\<close>, from the row on. \<open>index\<close> is the first byte after
  the prefixes, the escapes and the opcode.\<close>

definition decode_row ::
    "u8 list \<Rightarrow> Mode \<Rightarrow> INST \<Rightarrow> nat \<Rightarrow> u32 \<Rightarrow> INSTRUCTION \<Rightarrow> dasm_error + INSTRUCTION" where
  "decode_row bs mode row index flags instr =
     (if mnemonic row = None then Inl IllegalInstruction
      else let instr0 = instr\<lparr>modrm_offset := (if inst_modrm row then index else modrm_offset instr),
                 itype := MASK_TYPE_VALUE (inst_type row),
                 eflags_affected := inst_eflags_affected row,
                 eflags_used := inst_eflags_used row, ptr := Some row\<rparr> in
        bind_r (get_operand row (flags1 row) instr0 (op1 instr0) bs index mode flags) (\<lambda>(o1, instr1).
        bind_r (get_operand row (flags2 row) (instr1\<lparr>op1 := o1\<rparr>) (op2 instr1) bs index mode flags) (\<lambda>(o2, instr2).
        bind_r (get_operand row (flags3 row) (instr2\<lparr>op2 := o2\<rparr>) (op3 instr2) bs index mode flags) (\<lambda>(o3, instr3).
        Inr (instr3\<lparr>op3 := o3, iop_read := inst_iop_read row, iop_written := inst_iop_written row,
               ilength := ilength instr3 + index + immbytes instr3 + dispbytes instr3,
               imode := mode, iflags := flags\<rparr>)))))"

definition get_instruction :: "u8 list \<Rightarrow> Mode \<Rightarrow> dasm_error + INSTRUCTION" where
  "get_instruction bs mode =
     bind_r (get_real_instruction bs 0 0) (\<lambda>(index, flags).
     bind_r (select_table bs index flags zero_INSTRUCTION) (\<lambda>sel.
     bind_r (select_extension bs sel) (\<lambda>(p, index', flags', instr).
     case p of None \<Rightarrow> Inl NullDereference
     | Some row \<Rightarrow> decode_row bs mode row (index' + 1) flags' instr)))"

subsection \<open>Accessors\<close>

definition get_operand_basereg :: "OPERAND \<Rightarrow> nat" where "get_operand_basereg op = basereg op"
definition get_operand_indexreg :: "OPERAND \<Rightarrow> nat" where "get_operand_indexreg op = indexreg op"
definition get_operand_type :: "OPERAND \<Rightarrow> Operand" where "get_operand_type op = op_type op"
definition get_operand_register :: "OPERAND \<Rightarrow> nat" where "get_operand_register op = reg op"
definition get_operand_scale :: "OPERAND \<Rightarrow> nat" where "get_operand_scale op = op_scale op"

text \<open>\<open>None\<close> where the code returns 0 and leaves the caller's variable alone.\<close>

definition get_operand_immediate :: "OPERAND \<Rightarrow> u32 option" where
  "get_operand_immediate op = (if op_immbytes op \<noteq> 0 then Some (immediate op) else None)"

definition get_operand_displacement :: "OPERAND \<Rightarrow> u32 option" where
  "get_operand_displacement op = (if op_dispbytes op \<noteq> 0 then Some (displacement op) else None)"

definition get_source_operand :: "INSTRUCTION \<Rightarrow> OPERAND option" where
  "get_source_operand inst = (if op_type (op2 inst) \<noteq> OPERAND_TYPE_NONE then Some (op2 inst) else None)"

definition get_destination_operand :: "INSTRUCTION \<Rightarrow> OPERAND option" where
  "get_destination_operand inst = (if op_type (op1 inst) \<noteq> OPERAND_TYPE_NONE then Some (op1 inst) else None)"

end
