(* ===== verification/Libdasm_Rows.thy ===== *)
theory Libdasm_Rows
  imports Opcode_Table1 Opcode_Table2 Opcode_Table3 Opcode_Table_Ext Opcode_Table_Fpu
begin

text \<open>
  What the rows of the opcode tables have in common, checked row by row: the lengths of the tables
  and the shape of a row the decoder relies on. The operand flags are taken apart symbolically,
  with the rules collected in \<open>flag_simps\<close>, never by computing with the words.
\<close>

named_theorems flag_simps \<open>fields of the operand flag constants\<close>

subsection \<open>Fields of the flag constants\<close>

lemma MASK_AM_OR [flag_simps]: "MASK_AM (x OR y) = MASK_AM x OR MASK_AM y"
  by (simp add: MASK_AM_def and.commute [of _ "0xff0000"] bit.conj_disj_distrib)

lemma MASK_OT_OR [flag_simps]: "MASK_OT (x OR y) = MASK_OT x OR MASK_OT y"
  by (simp add: MASK_OT_def and.commute [of _ "0xff000000"] bit.conj_disj_distrib)

lemma MASK_AM_none [flag_simps]:
    "MASK_AM FLAGS_NONE = 0" "MASK_AM OT_a = 0" "MASK_AM OT_b = 0" "MASK_AM OT_c = 0"
    "MASK_AM OT_d = 0" "MASK_AM OT_q = 0" "MASK_AM OT_dq = 0" "MASK_AM OT_v = 0"
    "MASK_AM OT_w = 0" "MASK_AM OT_p = 0" "MASK_AM OT_pi = 0" "MASK_AM OT_pd = 0"
    "MASK_AM OT_ps = 0" "MASK_AM OT_s = 0" "MASK_AM OT_sd = 0" "MASK_AM OT_ss = 0"
    "MASK_AM OT_si = 0" "MASK_AM OT_t = 0" "MASK_AM P_r = 0" "MASK_AM P_w = 0" "MASK_AM P_x = 0"
    "MASK_AM F_s = 0" "MASK_AM F_r = 0" "MASK_AM F_f = 0" "MASK_AM LIBDASM_REG_EAX = 0"
    "MASK_AM LIBDASM_REG_ECX = 0" "MASK_AM LIBDASM_REG_EDX = 0" "MASK_AM LIBDASM_REG_EBX = 0"
    "MASK_AM LIBDASM_REG_ESP = 0" "MASK_AM LIBDASM_REG_EBP = 0" "MASK_AM LIBDASM_REG_ESI = 0"
    "MASK_AM LIBDASM_REG_EDI = 0"
  by (simp_all add: MASK_AM_def libdasm_consts)

lemma MASK_AM_self [flag_simps]:
    "MASK_AM AM_A = AM_A" "MASK_AM AM_C = AM_C" "MASK_AM AM_D = AM_D" "MASK_AM AM_E = AM_E"
    "MASK_AM AM_G = AM_G" "MASK_AM AM_I = AM_I" "MASK_AM AM_J = AM_J" "MASK_AM AM_M = AM_M"
    "MASK_AM AM_O = AM_O" "MASK_AM AM_P = AM_P" "MASK_AM AM_Q = AM_Q" "MASK_AM AM_R = AM_R"
    "MASK_AM AM_S = AM_S" "MASK_AM AM_T = AM_T" "MASK_AM AM_V = AM_V" "MASK_AM AM_W = AM_W"
    "MASK_AM AM_I1 = AM_I1" "MASK_AM AM_LIBDASM_REG = AM_LIBDASM_REG" "MASK_AM AM_IND = AM_IND"
  by (simp_all add: MASK_AM_def libdasm_consts)

lemma MASK_OT_none [flag_simps]:
    "MASK_OT FLAGS_NONE = 0" "MASK_OT AM_A = 0" "MASK_OT AM_C = 0" "MASK_OT AM_D = 0"
    "MASK_OT AM_E = 0" "MASK_OT AM_G = 0" "MASK_OT AM_I = 0" "MASK_OT AM_J = 0"
    "MASK_OT AM_M = 0" "MASK_OT AM_O = 0" "MASK_OT AM_P = 0" "MASK_OT AM_Q = 0"
    "MASK_OT AM_R = 0" "MASK_OT AM_S = 0" "MASK_OT AM_T = 0" "MASK_OT AM_V = 0"
    "MASK_OT AM_W = 0" "MASK_OT AM_I1 = 0" "MASK_OT AM_LIBDASM_REG = 0" "MASK_OT AM_IND = 0"
    "MASK_OT P_r = 0" "MASK_OT P_w = 0" "MASK_OT P_x = 0" "MASK_OT F_s = 0" "MASK_OT F_r = 0"
    "MASK_OT F_f = 0" "MASK_OT LIBDASM_REG_EAX = 0" "MASK_OT LIBDASM_REG_ECX = 0"
    "MASK_OT LIBDASM_REG_EDX = 0" "MASK_OT LIBDASM_REG_EBX = 0" "MASK_OT LIBDASM_REG_ESP = 0"
    "MASK_OT LIBDASM_REG_EBP = 0" "MASK_OT LIBDASM_REG_ESI = 0" "MASK_OT LIBDASM_REG_EDI = 0"
  by (simp_all add: MASK_OT_def libdasm_consts)

lemma MASK_OT_self [flag_simps]:
    "MASK_OT OT_a = OT_a" "MASK_OT OT_b = OT_b" "MASK_OT OT_c = OT_c" "MASK_OT OT_d = OT_d"
    "MASK_OT OT_q = OT_q" "MASK_OT OT_dq = OT_dq" "MASK_OT OT_v = OT_v" "MASK_OT OT_w = OT_w"
    "MASK_OT OT_p = OT_p" "MASK_OT OT_pi = OT_pi" "MASK_OT OT_pd = OT_pd" "MASK_OT OT_ps = OT_ps"
    "MASK_OT OT_s = OT_s" "MASK_OT OT_sd = OT_sd" "MASK_OT OT_ss = OT_ss" "MASK_OT OT_si = OT_si"
    "MASK_OT OT_t = OT_t"
  by (simp_all add: MASK_OT_def libdasm_consts)

text \<open>The addressing methods with an immediate value, with a MODRM memory operand, and those that
  read their bytes right behind the opcode.\<close>

definition am_imm :: "u32 \<Rightarrow> bool" where "am_imm a \<longleftrightarrow> a = AM_I \<or> a = AM_J"
definition am_mem :: "u32 \<Rightarrow> bool" where
  "am_mem a \<longleftrightarrow> a = AM_E \<or> a = AM_M \<or> a = AM_R \<or> a = AM_Q \<or> a = AM_W"
definition am_plain :: "u32 \<Rightarrow> bool" where "am_plain a \<longleftrightarrow> a = AM_A \<or> a = AM_O"
definition ot_bytes :: "u32 \<Rightarrow> nat" where
  "ot_bytes t = (if t = OT_b then 1 else if t = OT_v then 4 else if t = OT_w then 2 else 0)"

lemma am_imm_vals [flag_simps]:
    "\<not> am_imm 0" "\<not> am_imm AM_A" "\<not> am_imm AM_C" "\<not> am_imm AM_D"
    "\<not> am_imm AM_E" "\<not> am_imm AM_G" "am_imm AM_I" "am_imm AM_J" "\<not> am_imm AM_M"
    "\<not> am_imm AM_O" "\<not> am_imm AM_P" "\<not> am_imm AM_Q" "\<not> am_imm AM_R"
    "\<not> am_imm AM_S" "\<not> am_imm AM_T" "\<not> am_imm AM_V" "\<not> am_imm AM_W"
    "\<not> am_imm AM_I1" "\<not> am_imm AM_LIBDASM_REG" "\<not> am_imm AM_IND"
  by (simp_all add: am_imm_def libdasm_consts)

lemma am_mem_vals [flag_simps]:
    "\<not> am_mem 0" "\<not> am_mem AM_A" "\<not> am_mem AM_C" "\<not> am_mem AM_D"
    "am_mem AM_E" "\<not> am_mem AM_G" "\<not> am_mem AM_I" "\<not> am_mem AM_J" "am_mem AM_M"
    "\<not> am_mem AM_O" "\<not> am_mem AM_P" "am_mem AM_Q" "am_mem AM_R" "\<not> am_mem AM_S"
    "\<not> am_mem AM_T" "\<not> am_mem AM_V" "am_mem AM_W" "\<not> am_mem AM_I1"
    "\<not> am_mem AM_LIBDASM_REG" "\<not> am_mem AM_IND"
  by (simp_all add: am_mem_def libdasm_consts)

lemma am_plain_vals [flag_simps]:
    "\<not> am_plain 0" "am_plain AM_A" "\<not> am_plain AM_C" "\<not> am_plain AM_D"
    "\<not> am_plain AM_E" "\<not> am_plain AM_G" "\<not> am_plain AM_I" "\<not> am_plain AM_J"
    "\<not> am_plain AM_M" "am_plain AM_O" "\<not> am_plain AM_P" "\<not> am_plain AM_Q"
    "\<not> am_plain AM_R" "\<not> am_plain AM_S" "\<not> am_plain AM_T" "\<not> am_plain AM_V"
    "\<not> am_plain AM_W" "\<not> am_plain AM_I1" "\<not> am_plain AM_LIBDASM_REG"
    "\<not> am_plain AM_IND"
  by (simp_all add: am_plain_def libdasm_consts)

lemma ot_bytes_vals [flag_simps]:
    "ot_bytes 0 = 0" "ot_bytes OT_a = 0" "ot_bytes OT_b = 1" "ot_bytes OT_c = 0"
    "ot_bytes OT_d = 0" "ot_bytes OT_q = 0" "ot_bytes OT_dq = 0" "ot_bytes OT_v = 4"
    "ot_bytes OT_w = 2" "ot_bytes OT_p = 0" "ot_bytes OT_pi = 0" "ot_bytes OT_pd = 0"
    "ot_bytes OT_ps = 0" "ot_bytes OT_s = 0" "ot_bytes OT_sd = 0" "ot_bytes OT_ss = 0"
    "ot_bytes OT_si = 0" "ot_bytes OT_t = 0"
  by (simp_all add: ot_bytes_def libdasm_consts)

definition imm_size :: "u32 \<Rightarrow> nat" where
  "imm_size f = (if am_imm (MASK_AM f) then ot_bytes (MASK_OT f) else 0)"

definition moves_disp :: "u32 \<Rightarrow> bool" where
  "moves_disp f \<longleftrightarrow> am_mem (MASK_AM f) \<or> am_plain (MASK_AM f)"

text \<open>What the printing routines rely on: a register field below 8; the \<open>AM_G\<close> register and the
  indirect memory operand as methods of their own; and a short mnemonic.\<close>

definition am_gen :: "u32 \<Rightarrow> bool" where "am_gen a \<longleftrightarrow> a = AM_G"
definition am_ind :: "u32 \<Rightarrow> bool" where "am_ind a \<longleftrightarrow> a = AM_IND"
definition low_reg :: "u32 \<Rightarrow> bool" where "low_reg f \<longleftrightarrow> f AND 8 = 0"
definition short_mnemonic :: "string option \<Rightarrow> bool" where
  "short_mnemonic m \<longleftrightarrow> (case m of None \<Rightarrow> True | Some s \<Rightarrow> length s \<le> 10)"

lemma am_gen_vals [flag_simps]:
    "\<not> am_gen 0" "\<not> am_gen AM_A" "\<not> am_gen AM_C" "\<not> am_gen AM_D"
    "\<not> am_gen AM_E" "am_gen AM_G" "\<not> am_gen AM_I" "\<not> am_gen AM_J"
    "\<not> am_gen AM_M" "\<not> am_gen AM_O" "\<not> am_gen AM_P" "\<not> am_gen AM_Q"
    "\<not> am_gen AM_R" "\<not> am_gen AM_S" "\<not> am_gen AM_T" "\<not> am_gen AM_V"
    "\<not> am_gen AM_W" "\<not> am_gen AM_I1" "\<not> am_gen AM_LIBDASM_REG"
    "\<not> am_gen AM_IND"
  by (simp_all add: am_gen_def libdasm_consts)

lemma am_ind_vals [flag_simps]:
    "\<not> am_ind 0" "\<not> am_ind AM_A" "\<not> am_ind AM_C" "\<not> am_ind AM_D"
    "\<not> am_ind AM_E" "\<not> am_ind AM_G" "\<not> am_ind AM_I" "\<not> am_ind AM_J"
    "\<not> am_ind AM_M" "\<not> am_ind AM_O" "\<not> am_ind AM_P" "\<not> am_ind AM_Q"
    "\<not> am_ind AM_R" "\<not> am_ind AM_S" "\<not> am_ind AM_T" "\<not> am_ind AM_V"
    "\<not> am_ind AM_W" "\<not> am_ind AM_I1" "\<not> am_ind AM_LIBDASM_REG" "am_ind AM_IND"
  by (simp_all add: am_ind_def libdasm_consts)

lemma low_reg_OR [flag_simps]: "low_reg (x OR y) \<longleftrightarrow> low_reg x \<and> low_reg y"
proof -
  have "(x OR y) AND 8 = (x AND 8) OR (y AND 8)"
    by (simp add: and.commute [of _ 8] bit.conj_disj_distrib)
  then show ?thesis by (simp add: low_reg_def or_eq_0_iff)
qed

lemma low_reg_vals [flag_simps]:
    "low_reg FLAGS_NONE" "low_reg AM_A" "low_reg AM_C" "low_reg AM_D" "low_reg AM_E"
    "low_reg AM_G" "low_reg AM_I" "low_reg AM_J" "low_reg AM_M" "low_reg AM_O" "low_reg AM_P"
    "low_reg AM_Q" "low_reg AM_R" "low_reg AM_S" "low_reg AM_T" "low_reg AM_V" "low_reg AM_W"
    "low_reg AM_I1" "low_reg AM_LIBDASM_REG" "low_reg AM_IND" "low_reg OT_a" "low_reg OT_b"
    "low_reg OT_c" "low_reg OT_d" "low_reg OT_q" "low_reg OT_dq" "low_reg OT_v" "low_reg OT_w"
    "low_reg OT_p" "low_reg OT_pi" "low_reg OT_pd" "low_reg OT_ps" "low_reg OT_s" "low_reg OT_sd"
    "low_reg OT_ss" "low_reg OT_si" "low_reg OT_t" "low_reg P_r" "low_reg P_w" "low_reg P_x"
    "low_reg F_s" "low_reg F_r" "low_reg F_f" "low_reg LIBDASM_REG_EAX" "low_reg LIBDASM_REG_ECX"
    "low_reg LIBDASM_REG_EDX" "low_reg LIBDASM_REG_EBX" "low_reg LIBDASM_REG_ESP"
    "low_reg LIBDASM_REG_EBP" "low_reg LIBDASM_REG_ESI" "low_reg LIBDASM_REG_EDI"
  by (simp_all add: low_reg_def libdasm_consts)

lemma short_mnemonic_simps [flag_simps]:
  "short_mnemonic None" "short_mnemonic (Some s) \<longleftrightarrow> length s \<le> 10"
  by (simp_all add: short_mnemonic_def)

text \<open>A row the printing routines can show: at most one operand has a displacement, and none when
  another operand is indirect.\<close>

definition row_printable :: "INST \<Rightarrow> bool" where
  "row_printable r \<longleftrightarrow>
     short_mnemonic (mnemonic r) \<and> low_reg (flags1 r) \<and> low_reg (flags2 r) \<and> low_reg (flags3 r) \<and>
     (inst_modrm r \<or> \<not> am_gen (MASK_AM (flags1 r)) \<and> \<not> am_gen (MASK_AM (flags2 r)) \<and>
        \<not> am_gen (MASK_AM (flags3 r))) \<and>
     (moves_disp (flags1 r) \<longrightarrow> \<not> moves_disp (flags2 r) \<and> \<not> moves_disp (flags3 r)) \<and>
     (moves_disp (flags2 r) \<longrightarrow> \<not> moves_disp (flags3 r)) \<and>
     (am_ind (MASK_AM (flags1 r)) \<or> am_ind (MASK_AM (flags2 r)) \<or> am_ind (MASK_AM (flags3 r)) \<longrightarrow>
        \<not> moves_disp (flags1 r) \<and> \<not> moves_disp (flags2 r) \<and> \<not> moves_disp (flags3 r))"

lemma row_printable_INST:
  "row_printable (INST t m f1 f2 f3 md ea eu iw ir) \<longleftrightarrow>
     short_mnemonic m \<and> low_reg f1 \<and> low_reg f2 \<and> low_reg f3 \<and>
     (md \<or> \<not> am_gen (MASK_AM f1) \<and> \<not> am_gen (MASK_AM f2) \<and> \<not> am_gen (MASK_AM f3)) \<and>
     (moves_disp f1 \<longrightarrow> \<not> moves_disp f2 \<and> \<not> moves_disp f3) \<and> (moves_disp f2 \<longrightarrow> \<not> moves_disp f3) \<and>
     (am_ind (MASK_AM f1) \<or> am_ind (MASK_AM f2) \<or> am_ind (MASK_AM f3) \<longrightarrow>
        \<not> moves_disp f1 \<and> \<not> moves_disp f2 \<and> \<not> moves_disp f3)"
  by (simp add: row_printable_def)

text \<open>A row the decoder can size: no immediate operand stands before an operand with a displacement,
  operands without MODRM bytes do not stand in a MODRM row, a row has at most four immediate bytes
  and, when an operand reads its bytes right behind the opcode, none.\<close>

definition row_ok :: "INST \<Rightarrow> bool" where
  "row_ok r \<longleftrightarrow>
     (imm_size (flags1 r) = 0 \<or> \<not> moves_disp (flags2 r) \<and> \<not> moves_disp (flags3 r)) \<and>
     (imm_size (flags2 r) = 0 \<or> \<not> moves_disp (flags3 r)) \<and>
     (inst_modrm r \<longrightarrow> \<not> am_plain (MASK_AM (flags1 r)) \<and> \<not> am_plain (MASK_AM (flags2 r))
                   \<and> \<not> am_plain (MASK_AM (flags3 r))) \<and>
     imm_size (flags1 r) + imm_size (flags2 r) + imm_size (flags3 r) \<le> 4 \<and>
     (am_plain (MASK_AM (flags1 r)) \<or> am_plain (MASK_AM (flags2 r)) \<or> am_plain (MASK_AM (flags3 r))
        \<longrightarrow> imm_size (flags1 r) + imm_size (flags2 r) + imm_size (flags3 r) = 0) \<and>
     row_printable r"

lemma imm_size_vals [flag_simps]:
  "imm_size FLAGS_NONE = 0"
  "imm_size (x OR y) = (if am_imm (MASK_AM x OR MASK_AM y) then ot_bytes (MASK_OT x OR MASK_OT y) else 0)"
  by (simp_all add: imm_size_def flag_simps)

lemma NO_INST_sel [simp]:
  "flags1 (NO_INST t) = FLAGS_NONE" "flags2 (NO_INST t) = FLAGS_NONE" "flags3 (NO_INST t) = FLAGS_NONE"
  "inst_modrm (NO_INST t) = False" "mnemonic (NO_INST t) = None" "inst_type (NO_INST t) = t"
  by (simp_all add: NO_INST_def)

lemma row_ok_NO_INST [simp]: "row_ok (NO_INST t)"
  by (simp add: row_ok_def row_printable_def moves_disp_def flag_simps)

lemma row_ok_INST [simp]:
  "row_ok (INST t m f1 f2 f3 md ea eu iw ir) \<longleftrightarrow>
     (imm_size f1 = 0 \<or> \<not> moves_disp f2 \<and> \<not> moves_disp f3) \<and>
     (imm_size f2 = 0 \<or> \<not> moves_disp f3) \<and>
     (md \<longrightarrow> \<not> am_plain (MASK_AM f1) \<and> \<not> am_plain (MASK_AM f2) \<and> \<not> am_plain (MASK_AM f3)) \<and>
     imm_size f1 + imm_size f2 + imm_size f3 \<le> 4 \<and>
     (am_plain (MASK_AM f1) \<or> am_plain (MASK_AM f2) \<or> am_plain (MASK_AM f3)
        \<longrightarrow> imm_size f1 + imm_size f2 + imm_size f3 = 0) \<and>
     row_printable (INST t m f1 f2 f3 md ea eu iw ir)"
  by (simp add: row_ok_def)

subsection \<open>Every row of every table\<close>

lemma row_ok_inst_table1_lo: "list_all row_ok inst_table1_lo"
  by (simp add: inst_table1_lo_def row_printable_INST moves_disp_def flag_simps)

lemma row_ok_inst_table1_hi: "list_all row_ok inst_table1_hi"
  by (simp add: inst_table1_hi_def row_printable_INST moves_disp_def flag_simps)

lemma row_ok_inst_table2_lo: "list_all row_ok inst_table2_lo"
  by (simp add: inst_table2_lo_def row_printable_INST moves_disp_def flag_simps)

lemma row_ok_inst_table2_hi: "list_all row_ok inst_table2_hi"
  by (simp add: inst_table2_hi_def row_printable_INST moves_disp_def flag_simps)

lemma row_ok_inst_table3_66_lo: "list_all row_ok inst_table3_66_lo"
  by (simp add: inst_table3_66_lo_def row_printable_INST moves_disp_def flag_simps)

lemma row_ok_inst_table3_66_hi: "list_all row_ok inst_table3_66_hi"
  by (simp add: inst_table3_66_hi_def row_printable_INST moves_disp_def flag_simps)

lemma row_ok_inst_table3_f2_lo: "list_all row_ok inst_table3_f2_lo"
  by (simp add: inst_table3_f2_lo_def row_printable_INST moves_disp_def flag_simps)

lemma row_ok_inst_table3_f2_hi: "list_all row_ok inst_table3_f2_hi"
  by (simp add: inst_table3_f2_hi_def row_printable_INST moves_disp_def flag_simps)

lemma row_ok_inst_table3_f3_lo: "list_all row_ok inst_table3_f3_lo"
  by (simp add: inst_table3_f3_lo_def row_printable_INST moves_disp_def flag_simps)

lemma row_ok_inst_table3_f3_hi: "list_all row_ok inst_table3_f3_hi"
  by (simp add: inst_table3_f3_hi_def row_printable_INST moves_disp_def flag_simps)

lemma row_ok_inst_table_ext1_1: "list_all row_ok inst_table_ext1_1"
  by (simp add: inst_table_ext1_1_def row_printable_INST moves_disp_def flag_simps)

lemma row_ok_inst_table_ext1_2: "list_all row_ok inst_table_ext1_2"
  by (simp add: inst_table_ext1_2_def row_printable_INST moves_disp_def flag_simps)

lemma row_ok_inst_table_ext1_3: "list_all row_ok inst_table_ext1_3"
  by (simp add: inst_table_ext1_3_def row_printable_INST moves_disp_def flag_simps)

lemma row_ok_inst_table_ext2_1: "list_all row_ok inst_table_ext2_1"
  by (simp add: inst_table_ext2_1_def row_printable_INST moves_disp_def flag_simps)

lemma row_ok_inst_table_ext2_2: "list_all row_ok inst_table_ext2_2"
  by (simp add: inst_table_ext2_2_def row_printable_INST moves_disp_def flag_simps)

lemma row_ok_inst_table_ext2_3: "list_all row_ok inst_table_ext2_3"
  by (simp add: inst_table_ext2_3_def row_printable_INST moves_disp_def flag_simps)

lemma row_ok_inst_table_ext2_4: "list_all row_ok inst_table_ext2_4"
  by (simp add: inst_table_ext2_4_def row_printable_INST moves_disp_def flag_simps)

lemma row_ok_inst_table_ext2_5: "list_all row_ok inst_table_ext2_5"
  by (simp add: inst_table_ext2_5_def row_printable_INST moves_disp_def flag_simps)

lemma row_ok_inst_table_ext2_6: "list_all row_ok inst_table_ext2_6"
  by (simp add: inst_table_ext2_6_def row_printable_INST moves_disp_def flag_simps)

lemma row_ok_inst_table_ext3_1: "list_all row_ok inst_table_ext3_1"
  by (simp add: inst_table_ext3_1_def row_printable_INST moves_disp_def flag_simps)

lemma row_ok_inst_table_ext3_2: "list_all row_ok inst_table_ext3_2"
  by (simp add: inst_table_ext3_2_def row_printable_INST moves_disp_def flag_simps)

lemma row_ok_inst_table_ext4: "list_all row_ok inst_table_ext4"
  by (simp add: inst_table_ext4_def row_printable_INST moves_disp_def flag_simps)

lemma row_ok_inst_table_ext5: "list_all row_ok inst_table_ext5"
  by (simp add: inst_table_ext5_def row_printable_INST moves_disp_def flag_simps)

lemma row_ok_inst_table_ext6: "list_all row_ok inst_table_ext6"
  by (simp add: inst_table_ext6_def row_printable_INST moves_disp_def flag_simps)

lemma row_ok_inst_table_ext7: "list_all row_ok inst_table_ext7"
  by (simp add: inst_table_ext7_def row_printable_INST moves_disp_def flag_simps)

lemma row_ok_inst_table_ext8: "list_all row_ok inst_table_ext8"
  by (simp add: inst_table_ext8_def row_printable_INST moves_disp_def flag_simps)

lemma row_ok_inst_table_ext9: "list_all row_ok inst_table_ext9"
  by (simp add: inst_table_ext9_def row_printable_INST moves_disp_def flag_simps)

lemma row_ok_inst_table_ext10: "list_all row_ok inst_table_ext10"
  by (simp add: inst_table_ext10_def row_printable_INST moves_disp_def flag_simps)

lemma row_ok_inst_table_ext11: "list_all row_ok inst_table_ext11"
  by (simp add: inst_table_ext11_def row_printable_INST moves_disp_def flag_simps)

lemma row_ok_inst_table_ext12: "list_all row_ok inst_table_ext12"
  by (simp add: inst_table_ext12_def row_printable_INST moves_disp_def flag_simps)

lemma row_ok_inst_table_ext12_66: "list_all row_ok inst_table_ext12_66"
  by (simp add: inst_table_ext12_66_def row_printable_INST moves_disp_def flag_simps)

lemma row_ok_inst_table_ext13: "list_all row_ok inst_table_ext13"
  by (simp add: inst_table_ext13_def row_printable_INST moves_disp_def flag_simps)

lemma row_ok_inst_table_ext13_66: "list_all row_ok inst_table_ext13_66"
  by (simp add: inst_table_ext13_66_def row_printable_INST moves_disp_def flag_simps)

lemma row_ok_inst_table_ext14: "list_all row_ok inst_table_ext14"
  by (simp add: inst_table_ext14_def row_printable_INST moves_disp_def flag_simps)

lemma row_ok_inst_table_ext14_66: "list_all row_ok inst_table_ext14_66"
  by (simp add: inst_table_ext14_66_def row_printable_INST moves_disp_def flag_simps)

lemma row_ok_inst_table_ext15: "list_all row_ok inst_table_ext15"
  by (simp add: inst_table_ext15_def row_printable_INST moves_disp_def flag_simps)

lemma row_ok_inst_table_ext16: "list_all row_ok inst_table_ext16"
  by (simp add: inst_table_ext16_def row_printable_INST moves_disp_def flag_simps)

lemma row_ok_inst_table_fpu_d8: "list_all row_ok inst_table_fpu_d8"
  by (simp add: inst_table_fpu_d8_def row_printable_INST moves_disp_def flag_simps)

lemma row_ok_inst_table_fpu_d9: "list_all row_ok inst_table_fpu_d9"
  by (simp add: inst_table_fpu_d9_def row_printable_INST moves_disp_def flag_simps)

lemma row_ok_inst_table_fpu_da: "list_all row_ok inst_table_fpu_da"
  by (simp add: inst_table_fpu_da_def row_printable_INST moves_disp_def flag_simps)

lemma row_ok_inst_table_fpu_db: "list_all row_ok inst_table_fpu_db"
  by (simp add: inst_table_fpu_db_def row_printable_INST moves_disp_def flag_simps)

lemma row_ok_inst_table_fpu_dc: "list_all row_ok inst_table_fpu_dc"
  by (simp add: inst_table_fpu_dc_def row_printable_INST moves_disp_def flag_simps)

lemma row_ok_inst_table_fpu_dd: "list_all row_ok inst_table_fpu_dd"
  by (simp add: inst_table_fpu_dd_def row_printable_INST moves_disp_def flag_simps)

lemma row_ok_inst_table_fpu_de: "list_all row_ok inst_table_fpu_de"
  by (simp add: inst_table_fpu_de_def row_printable_INST moves_disp_def flag_simps)

lemma row_ok_inst_table_fpu_df: "list_all row_ok inst_table_fpu_df"
  by (simp add: inst_table_fpu_df_def row_printable_INST moves_disp_def flag_simps)

lemma row_ok_monitor: "row_ok inst_monitor" "row_ok inst_mwait"
  by (simp_all add: inst_monitor_def inst_mwait_def row_printable_INST moves_disp_def flag_simps)

lemma inst_table1_ok: "list_all row_ok inst_table1" "length inst_table1 = 256"
  by (simp_all add: inst_table1_def row_ok_inst_table1_lo row_ok_inst_table1_hi) (simp add: inst_table1_lo_def inst_table1_hi_def)

lemma inst_table2_ok: "list_all row_ok inst_table2" "length inst_table2 = 256"
  by (simp_all add: inst_table2_def row_ok_inst_table2_lo row_ok_inst_table2_hi) (simp add: inst_table2_lo_def inst_table2_hi_def)

lemma inst_table3_66_ok: "list_all row_ok inst_table3_66" "length inst_table3_66 = 256"
  by (simp_all add: inst_table3_66_def row_ok_inst_table3_66_lo row_ok_inst_table3_66_hi) (simp add: inst_table3_66_lo_def inst_table3_66_hi_def)

lemma inst_table3_f2_ok: "list_all row_ok inst_table3_f2" "length inst_table3_f2 = 256"
  by (simp_all add: inst_table3_f2_def row_ok_inst_table3_f2_lo row_ok_inst_table3_f2_hi) (simp add: inst_table3_f2_lo_def inst_table3_f2_hi_def)

lemma inst_table3_f3_ok: "list_all row_ok inst_table3_f3" "length inst_table3_f3 = 256"
  by (simp_all add: inst_table3_f3_def row_ok_inst_table3_f3_lo row_ok_inst_table3_f3_hi) (simp add: inst_table3_f3_lo_def inst_table3_f3_hi_def)

lemma inst_table_ext_ok:
  "list_all (list_all row_ok) inst_table_ext" "map length inst_table_ext = [8, 8, 8, 8, 8, 8, 8, 8, 8, 8, 8, 8,
     8, 8, 8, 8, 8, 8, 8, 8, 8, 8, 8, 8, 0]"
  by (simp add: inst_table_ext_def row_ok_inst_table_ext1_1 row_ok_inst_table_ext1_2 row_ok_inst_table_ext1_3 row_ok_inst_table_ext2_1 row_ok_inst_table_ext2_2 row_ok_inst_table_ext2_3 row_ok_inst_table_ext2_4 row_ok_inst_table_ext2_5 row_ok_inst_table_ext2_6 row_ok_inst_table_ext3_1 row_ok_inst_table_ext3_2 row_ok_inst_table_ext4 row_ok_inst_table_ext5 row_ok_inst_table_ext6 row_ok_inst_table_ext7 row_ok_inst_table_ext8 row_ok_inst_table_ext9 row_ok_inst_table_ext10 row_ok_inst_table_ext11 row_ok_inst_table_ext12 row_ok_inst_table_ext13 row_ok_inst_table_ext14 row_ok_inst_table_ext15 row_ok_inst_table_ext16)
    (simp add: inst_table_ext_def inst_table_ext1_1_def inst_table_ext1_2_def inst_table_ext1_3_def inst_table_ext2_1_def inst_table_ext2_2_def inst_table_ext2_3_def inst_table_ext2_4_def inst_table_ext2_5_def inst_table_ext2_6_def inst_table_ext3_1_def inst_table_ext3_2_def inst_table_ext4_def inst_table_ext5_def inst_table_ext6_def inst_table_ext7_def inst_table_ext8_def inst_table_ext9_def inst_table_ext10_def inst_table_ext11_def inst_table_ext12_def inst_table_ext13_def inst_table_ext14_def inst_table_ext15_def inst_table_ext16_def)

lemma inst_table_ext_66_length:
  "length inst_table_ext12_66 = 8" "length inst_table_ext13_66 = 8" "length inst_table_ext14_66 = 8"
  "length inst_table_ext12 = 8" "length inst_table_ext13 = 8" "length inst_table_ext14 = 8" "length inst_table_ext7 = 8"
  by (simp_all add: inst_table_ext12_66_def inst_table_ext13_66_def inst_table_ext14_66_def
        inst_table_ext12_def inst_table_ext13_def inst_table_ext14_def inst_table_ext7_def)

lemma inst_table4_ok:
  "list_all (list_all row_ok) inst_table4" "map length inst_table4 = [72, 72, 72, 72, 72, 72, 72, 72]"
  by (simp add: inst_table4_def row_ok_inst_table_fpu_d8 row_ok_inst_table_fpu_d9 row_ok_inst_table_fpu_da row_ok_inst_table_fpu_db row_ok_inst_table_fpu_dc row_ok_inst_table_fpu_dd row_ok_inst_table_fpu_de row_ok_inst_table_fpu_df)
    (simp add: inst_table4_def inst_table_fpu_d8_def inst_table_fpu_d9_def inst_table_fpu_da_def inst_table_fpu_db_def inst_table_fpu_dc_def inst_table_fpu_dd_def inst_table_fpu_de_def inst_table_fpu_df_def)

end
