(* ===== verification/Libdasm_Safety.thy ===== *)
theory Libdasm_Safety
  imports Libdasm_Decode Libdasm_Rows
begin

text \<open>
  What holds of every call of the decoder: no table is read out of range and no null row pointer is
  followed; the length it reports is positive, at most the number of bytes there are, and bounded
  by the number of prefixes; and only a decode that ran out of bytes can change when more bytes are
  mapped.
\<close>

subsection \<open>Prefixes\<close>

definition is_prefix :: "u8 \<Rightarrow> bool" where
  "is_prefix b \<longleftrightarrow> prefix_flags b 0 \<noteq> None"

definition prefix_count :: "u8 list \<Rightarrow> nat" where
  "prefix_count bs = length (takeWhile is_prefix bs)"

lemma prefix_flags_None_iff: "prefix_flags b flags = None \<longleftrightarrow> \<not> is_prefix b"
  by (auto simp: is_prefix_def prefix_flags_def)

lemma MASK_EXT_OR: "MASK_EXT (x OR y) = MASK_EXT x OR MASK_EXT y"
  by (simp add: MASK_EXT_def and.commute [of _ "0xff"] bit.conj_disj_distrib)

lemma MASK_EXT_AND:
  "MASK_EXT (x AND 0xff00ffff) = MASK_EXT x" "MASK_EXT (x AND 0x00ffffff) = MASK_EXT x"
  "MASK_EXT (x AND 0xffffff00) = 0"
  by (simp_all add: MASK_EXT_def and.assoc)

lemma MASK_EXT_prefix:
  "MASK_EXT PREFIX_CS_OVERRIDE = 0" "MASK_EXT PREFIX_SS_OVERRIDE = 0" "MASK_EXT PREFIX_DS_OVERRIDE = 0"
  "MASK_EXT PREFIX_ES_OVERRIDE = 0" "MASK_EXT PREFIX_FS_OVERRIDE = 0" "MASK_EXT PREFIX_GS_OVERRIDE = 0"
  "MASK_EXT PREFIX_OPERAND_SIZE_OVERRIDE = 0" "MASK_EXT PREFIX_ADDR_SIZE_OVERRIDE = 0"
  "MASK_EXT PREFIX_LOCK = 0" "MASK_EXT PREFIX_REPNE = 0" "MASK_EXT PREFIX_REP = 0"
  by (simp_all add: MASK_EXT_def libdasm_consts)

lemma prefix_flags_ext: "prefix_flags b flags = Some flags' \<Longrightarrow> MASK_EXT flags' = MASK_EXT flags"
  by (auto simp: prefix_flags_def MASK_EXT_OR MASK_EXT_AND MASK_EXT_prefix split: if_splits)

lemma opcode_extension_ext: "MASK_EXT (snd (opcode_extension b)) = snd (opcode_extension b)"
  by (simp add: opcode_extension_def MASK_EXT_def libdasm_consts)

text \<open>\<open>get_real_instruction\<close> stops at the first byte that is no prefix.\<close>

lemma get_real_instruction_Inr:
  assumes "get_real_instruction bs i flags = Inr (j, flags')"
  shows "prefix_count bs < length bs \<and>
    j = i + prefix_count bs + fst (opcode_extension (bs ! prefix_count bs)) \<and>
    MASK_EXT flags' = MASK_EXT flags OR snd (opcode_extension (bs ! prefix_count bs)) \<and>
    \<not> is_prefix (bs ! prefix_count bs)"
  using assms
proof (induction bs i flags rule: get_real_instruction.induct)
  case (2 b bs index flags)
  show ?case
  proof (cases "prefix_flags b flags")
    case None
    with 2 show ?thesis
      by (auto simp: prefix_count_def prefix_flags_None_iff MASK_EXT_OR opcode_extension_ext)
  next
    case (Some fl)
    then have "is_prefix b" using prefix_flags_None_iff [of b flags] by auto
    with 2 Some show ?thesis
      by (simp add: prefix_count_def prefix_flags_ext)
  qed
qed simp

text \<open>It fails only when all the bytes there are, are prefixes.\<close>

lemma get_real_instruction_Inl:
  "get_real_instruction bs i flags = Inl e \<longleftrightarrow> e = ReadFault \<and> (\<forall>b\<in>set bs. is_prefix b)"
proof (induction bs i flags rule: get_real_instruction.induct)
  case (2 b bs index flags)
  then show ?case
    using prefix_flags_None_iff [of b flags] by (auto split: option.splits)
qed auto

subsection \<open>Reads and table lookups\<close>

lemma FETCH8_Inr: "FETCH8 bs i = Inr b \<longleftrightarrow> i < length bs \<and> b = bs ! i"
  by (auto simp: FETCH8_def)

lemma FETCH8_Inl: "FETCH8 bs i = Inl e \<longleftrightarrow> \<not> i < length bs \<and> e = ReadFault"
  by (auto simp: FETCH8_def)

lemma FETCH_length:
  "FETCH8 bs i = Inr b \<Longrightarrow> i + 1 \<le> length bs"
  "FETCH16 bs i = Inr w \<Longrightarrow> i + 2 \<le> length bs"
  "FETCH32 bs i = Inr d \<Longrightarrow> i + 4 \<le> length bs"
  by (auto simp: FETCH16_def FETCH32_def FETCH8_Inr bind_r_simps)

lemma FETCH_fault:
  "FETCH8 bs i = Inl e \<Longrightarrow> e = ReadFault"
  "FETCH16 bs i = Inl e \<Longrightarrow> e = ReadFault"
  "FETCH32 bs i = Inl e \<Longrightarrow> e = ReadFault"
  by (auto simp: FETCH16_def FETCH32_def FETCH8_Inl bind_r_simps)

lemma FETCH_append:
  "FETCH8 bs i = Inr b \<Longrightarrow> FETCH8 (bs @ xs) i = Inr b"
  "FETCH16 bs i = Inr w \<Longrightarrow> FETCH16 (bs @ xs) i = Inr w"
  "FETCH32 bs i = Inr d \<Longrightarrow> FETCH32 (bs @ xs) i = Inr d"
  by (auto simp: FETCH16_def FETCH32_def FETCH8_Inr bind_r_simps nth_append)

lemma table_row_Inr: "table_row t i = Inr r \<longleftrightarrow> i < length t \<and> r = t ! i"
  by (auto simp: table_row_def)

lemma table_row_in_range: "i < length t \<Longrightarrow> table_row t i = Inr (t ! i)"
  by (simp add: table_row_def)

subsection \<open>What an operand adds to the instruction\<close>

definition has_sib :: "Mode \<Rightarrow> u8 \<Rightarrow> bool" where
  "has_sib pmode b \<longleftrightarrow> pmode = MODE_32 \<and> MASK_MODRM_RM b = LIBDASM_REGISTER_ESP \<and> MASK_MODRM_MOD b \<noteq> 3"

definition disp_size :: "nat \<Rightarrow> bool" where
  "disp_size d \<longleftrightarrow> d = 0 \<or> d = 1 \<or> d = 2 \<or> d = 4"

lemma modrm_disp_size: "disp_size (modrm_dispbytes pm b)" "disp_size 4"
  by (simp_all add: modrm_dispbytes_def disp_size_def)

lemma parse_sib_Inr:
  assumes "parse_sib bs off b instr = Inr (mi, instr')"
  shows "off + 2 \<le> length bs \<and> m_sib mi \<and> disp_size (m_dispbytes mi) \<and> immbytes instr' = immbytes instr \<and>
    dispbytes instr' = dispbytes instr \<and> ilength instr' = (if ilength instr = 1 then 2 else ilength instr)"
  using assms
  by (clarsimp simp: parse_sib_def Let_def bind_r_simps FETCH8_Inr modrm_disp_size)

lemma parse_modrm_Inr:
  assumes parse: "parse_modrm bs off pm instr = Inr (mi, instr')"
  shows "off + 1 + of_bool (m_sib mi) \<le> length bs \<and> m_sib mi = has_sib pm (bs ! off) \<and>
    disp_size (m_dispbytes mi) \<and> immbytes instr' = immbytes instr \<and> dispbytes instr' = dispbytes instr \<and>
    ilength instr' = (if ilength instr \<le> 1 then 1 + of_bool (m_sib mi) else ilength instr)"
proof (cases "has_sib pm (bs ! off)")
  case True
  with parse show ?thesis
    by (auto simp: parse_modrm_def has_sib_def Let_def bind_r_simps FETCH8_Inr le_Suc_eq dest!: parse_sib_Inr)
next
  case False
  with parse show ?thesis
    by (auto simp: parse_modrm_def has_sib_def Let_def bind_r_simps FETCH8_Inr le_Suc_eq modrm_disp_size
        split: if_splits)
qed

lemma memory_operand_Inr:
  assumes "memory_operand instr op bs off mi = Inr (opd, instr')" and "disp_size (m_dispbytes mi)"
  shows "instr' = instr\<lparr>dispbytes := m_dispbytes mi\<rparr>"
    and "m_dispbytes mi = 0 \<or> off + 1 + of_bool (m_sib mi) + m_dispbytes mi \<le> length bs"
  using assms
  by (auto simp: memory_operand_def disp_size_def Let_def bind_r_simps split: if_splits dest!: FETCH_length)

lemma immediate_value_Inr:
  assumes "immediate_value f op bs at mode = Inr (n, v)" and "op_immbytes op = 0"
  shows "n \<le> ot_bytes (MASK_OT f) \<and> (n = 0 \<or> at + n \<le> length bs)"
  using assms
  by (auto simp: immediate_value_def bind_r_simps ot_bytes_def libdasm_consts
      split: if_splits dest!: FETCH_length)

lemma immediate_operand_Inr:
  assumes "immediate_operand row f instr op bs off mode fl mi = Inr (opd, instr')"
    and "op_immbytes op = 0"
  shows "\<exists>n. instr' = instr\<lparr>immbytes := immbytes instr + n\<rparr> \<and> n \<le> ot_bytes (MASK_OT f) \<and>
    (n = 0 \<or> off + (of_bool (inst_modrm row) + of_bool (m_sib mi) + immbytes instr + dispbytes instr) + n
               \<le> length bs)"
  using assms by (auto simp: immediate_operand_def Let_def bind_r_eq_Inr dest!: immediate_value_Inr)

lemma far_operand_Inr:
  assumes "far_operand instr op bs off mode fl = Inr (opd, instr')"
  shows "\<exists>d. instr' = instr\<lparr>dispbytes := d, sectionbytes := 2\<rparr> \<and> d \<le> 6 \<and> off + d \<le> length bs"
proof -
  define d :: nat where "d = (if MODE_CHECK_OPERAND mode fl = MODE_32 then 6 else 4)"
  from assms obtain w where "instr' = instr\<lparr>dispbytes := d, sectionbytes := 2\<rparr>"
    and "FETCH16 bs (off + d - 2) = Inr w"
    by (auto simp: far_operand_def d_def Let_def bind_r_eq_Inr)
  then show ?thesis using FETCH_length(2) [of bs "off + d - 2"] by (auto simp: d_def split: if_splits)
qed

lemma offset_operand_Inr:
  assumes "offset_operand f instr op bs off mode = Inr (opd, instr')" and "op_dispbytes op = 0"
  shows "\<exists>d. instr' = instr\<lparr>dispbytes := d\<rparr> \<and> d \<le> 4 \<and> (d = 0 \<or> off + d \<le> length bs)"
  using assms
  by (fastforce simp: offset_operand_def Let_def bind_r_simps split: if_splits dest!: FETCH_length)

subsection \<open>The switch on the addressing method\<close>

lemma MASK_OT_F_s: "MASK_OT (f OR F_s) = MASK_OT f"
  by (simp add: MASK_OT_OR MASK_OT_none)

lemma operand_switch_cases:
  assumes "operand_switch row f instr op bs off mode fl mi = Inr (opd, instr')"
  obtains (kept) "instr' = instr"
  | (mem) "am_mem (MASK_AM f)" "memory_operand instr op bs off mi = Inr (opd, instr')"
  | (imm) g where "am_imm (MASK_AM f)" "MASK_OT g = MASK_OT f"
      "immediate_operand row g instr op bs off mode fl mi = Inr (opd, instr')"
  | (far) "am_plain (MASK_AM f)" "far_operand instr op bs off mode fl = Inr (opd, instr')"
  | (offset) "am_plain (MASK_AM f)" "offset_operand f instr op bs off mode = Inr (opd, instr')"
  using assms
  by (auto simp: operand_switch_def Let_def am_mem_def am_imm_def am_plain_def bind_r_eq_Inr MASK_OT_F_s
      split: if_splits) (metis MASK_OT_F_s)

text \<open>What one operand may change of the instruction: the displacement bytes (to \<open>d\<close>) and the
  immediate bytes (by \<open>n\<close>), always by bytes that are there.\<close>

definition operand_effect ::
    "u32 \<Rightarrow> nat \<Rightarrow> nat \<Rightarrow> nat \<Rightarrow> nat \<Rightarrow> INSTRUCTION \<Rightarrow> nat \<Rightarrow> nat \<Rightarrow> bool" where
  "operand_effect f len off md sb instr d n \<longleftrightarrow>
     n \<le> imm_size f \<and>
     (n = 0 \<or> d = dispbytes instr \<and> off + (md + sb + immbytes instr + dispbytes instr) + n \<le> len) \<and>
     (d = dispbytes instr \<or> d = 0 \<or>
      am_mem (MASK_AM f) \<and> d \<le> 4 \<and> off + 1 + sb + d \<le> len \<or>
      am_plain (MASK_AM f) \<and> d \<le> 6 \<and> off + d \<le> len)"

lemma operand_switch_effect:
  assumes switch: "operand_switch row f instr op bs off mode fl mi = Inr (opd, instr')"
    and zero: "op_immbytes op = 0" "op_dispbytes op = 0" and size: "disp_size (m_dispbytes mi)"
  shows "\<exists>d n s. instr' = instr\<lparr>dispbytes := d, immbytes := immbytes instr + n, sectionbytes := s\<rparr> \<and>
    operand_effect f (length bs) off (of_bool (inst_modrm row)) (of_bool (m_sib mi)) instr d n"
  using switch
proof (cases rule: operand_switch_cases)
  case kept
  then show ?thesis
    by - (rule exI [of _ "dispbytes instr"], rule exI [of _ 0], rule exI [of _ "sectionbytes instr"],
       simp add: operand_effect_def)
next
  case mem
  from memory_operand_Inr [OF mem(2) size] mem(1) size show ?thesis
    by - (rule exI [of _ "m_dispbytes mi"], rule exI [of _ 0], rule exI [of _ "sectionbytes instr"],
       auto simp: operand_effect_def disp_size_def)
next
  case (imm g)
  from immediate_operand_Inr [OF imm(3) zero(1)] obtain n where
    "instr' = instr\<lparr>immbytes := immbytes instr + n\<rparr>" "n \<le> ot_bytes (MASK_OT g)"
    "n = 0 \<or> off + (of_bool (inst_modrm row) + of_bool (m_sib mi) + immbytes instr + dispbytes instr) + n
       \<le> length bs" by blast
  with imm(1,2) show ?thesis
    by - (rule exI [of _ "dispbytes instr"], rule exI [of _ n], rule exI [of _ "sectionbytes instr"],
       simp add: operand_effect_def imm_size_def)
next
  case far
  from far_operand_Inr [OF far(2)] obtain d where
    "instr' = instr\<lparr>dispbytes := d, sectionbytes := 2\<rparr>" "d \<le> 6" "off + d \<le> length bs" by blast
  with far(1) show ?thesis
    by - (rule exI [of _ d], rule exI [of _ 0], rule exI [of _ 2],  simp add: operand_effect_def)
next
  case offset
  from offset_operand_Inr [OF offset(2) zero(2)] obtain d where
    "instr' = instr\<lparr>dispbytes := d\<rparr>" "d \<le> 4" "d = 0 \<or> off + d \<le> length bs" by blast
  with offset(1) show ?thesis
    by - (rule exI [of _ d], rule exI [of _ 0], rule exI [of _ "sectionbytes instr"],  auto simp: operand_effect_def)
qed

subsection \<open>One operand after another\<close>

definition modrm_len :: "INST \<Rightarrow> u8 list \<Rightarrow> nat \<Rightarrow> Mode \<Rightarrow> u32 \<Rightarrow> nat" where
  "modrm_len row bs off mode fl =
     (if inst_modrm row then 1 + of_bool (has_sib (MODE_CHECK_ADDR mode fl) (bs ! off)) else 0)"

definition row_plain :: "INST \<Rightarrow> bool" where
  "row_plain r \<longleftrightarrow> am_plain (MASK_AM (flags1 r)) \<or> am_plain (MASK_AM (flags2 r)) \<or> am_plain (MASK_AM (flags3 r))"

definition operand_inv :: "INST \<Rightarrow> u8 list \<Rightarrow> nat \<Rightarrow> Mode \<Rightarrow> u32 \<Rightarrow> INSTRUCTION \<Rightarrow> bool" where
  "operand_inv row bs off mode fl instr \<longleftrightarrow>
     (ilength instr = modrm_len row bs off mode fl \<or>
      ilength instr = 0 \<and> immbytes instr = 0 \<and> dispbytes instr = 0) \<and>
     off + ilength instr + immbytes instr + dispbytes instr \<le> length bs \<and>
     dispbytes instr \<le> (if row_plain row then 6 else 4)"

lemma parse_sib_frame:
  "parse_sib bs off b instr = Inr (mi, instr') \<Longrightarrow> \<exists>s l. instr' = instr\<lparr>sib := s, ilength := l\<rparr>"
  unfolding parse_sib_def bind_r_eq_Inr Let_def by blast

lemma parse_modrm_frame:
  assumes "parse_modrm bs off pm instr = Inr (mi, instr')"
  shows "\<exists>m s l. instr' = instr\<lparr>modrm := m, sib := s, ilength := l\<rparr>"
proof -
  obtain b where b: "FETCH8 bs off = Inr b" using assms by (auto simp: parse_modrm_def bind_r_eq_Inr)
  obtain m l where upd: "(if ilength instr = 0 then instr\<lparr>modrm := b, ilength := 1\<rparr> else instr)
      = instr\<lparr>modrm := m, ilength := l\<rparr>"
  proof (cases "ilength instr = 0")
    case False
    then show ?thesis by (intro that [of "ilength instr" "modrm instr"]) simp
  qed (rule that, simp)
  from assms have "parse_sib bs off b (instr\<lparr>modrm := m, ilength := l\<rparr>) = Inr (mi, instr') \<or>
      instr' = instr\<lparr>modrm := m, ilength := l\<rparr>"
    unfolding parse_modrm_def b bind_r_Inr upd Let_def by (simp split: if_splits)
  then show ?thesis
  proof
    assume "parse_sib bs off b (instr\<lparr>modrm := m, ilength := l\<rparr>) = Inr (mi, instr')"
    then obtain s l' where "instr' = instr\<lparr>modrm := m, ilength := l\<rparr>\<lparr>sib := s, ilength := l'\<rparr>"
      by (blast dest: parse_sib_frame)
    then show ?thesis by - (rule exI [of _ m], rule exI [of _ s], rule exI [of _ l'], simp)
  next
    assume eq: "instr' = instr\<lparr>modrm := m, ilength := l\<rparr>"
    show ?thesis by (rule exI [of _ m], rule exI [of _ "sib instr"], rule exI [of _ l]) (simp add: eq)
  qed
qed

lemma operand_effect_inv:
  assumes eff: "operand_effect f (length bs) off md sb instr d n"
    and md: "md = of_bool (inst_modrm row)" and len: "ilength instr = md + sb"
    and ml: "modrm_len row bs off mode fl = md + sb"
    and fits: "off + ilength instr + immbytes instr + dispbytes instr \<le> length bs"
    and disp: "dispbytes instr \<le> (if row_plain row then 6 else 4)"
    and order: "moves_disp f \<Longrightarrow> immbytes instr = 0"
    and plain: "am_plain (MASK_AM f) \<Longrightarrow> row_plain row \<and> \<not> inst_modrm row"
    and sb: "\<not> inst_modrm row \<Longrightarrow> sb = 0"
  shows "operand_inv row bs off mode fl
    (instr\<lparr>dispbytes := d, immbytes := immbytes instr + n, sectionbytes := s\<rparr>)"
proof -
  consider "d = dispbytes instr" "n = 0" | "d = dispbytes instr" "n \<noteq> 0" | "d = 0" "n = 0"
    | "am_mem (MASK_AM f)" "d \<le> 4" "off + 1 + sb + d \<le> length bs" "n = 0"
    | "am_plain (MASK_AM f)" "d \<le> 6" "off + d \<le> length bs" "n = 0"
    using eff by (auto simp: operand_effect_def)
  then show ?thesis
  proof cases
    case 4
    then have "immbytes instr = 0" using order by (simp add: moves_disp_def)
    with 4 show ?thesis using len ml md disp by (simp add: operand_inv_def)
  next
    case 5
    then have "immbytes instr = 0" using order by (simp add: moves_disp_def)
    with 5 show ?thesis using len ml md plain sb by (simp add: operand_inv_def)
  qed (use eff fits disp len ml in \<open>auto simp: operand_inv_def operand_effect_def\<close>)
qed

lemma get_operand_inv:
  assumes get: "get_operand row f instr op bs off mode fl = Inr (opd, instr')"
    and inv: "operand_inv row bs off mode fl instr"
    and zero: "op_immbytes op = 0" "op_dispbytes op = 0"
    and order: "moves_disp f \<Longrightarrow> immbytes instr = 0"
    and plain: "am_plain (MASK_AM f) \<Longrightarrow> row_plain row \<and> \<not> inst_modrm row"
  shows "operand_inv row bs off mode fl instr' \<and> immbytes instr' \<le> immbytes instr + imm_size f \<and>
    op1 instr' = op1 instr \<and> op2 instr' = op2 instr \<and> op3 instr' = op3 instr \<and> itype instr' = itype instr \<and>
    ptr instr' = ptr instr"
proof (cases "f = FLAGS_NONE")
  case True
  with get inv show ?thesis by (auto simp: get_operand_def)
next
  case False
  with get obtain mi instr1 where
    parse: "(if inst_modrm row then parse_modrm bs off (MODE_CHECK_ADDR mode fl) instr
             else Inr (no_modrm, instr)) = Inr (mi, instr1)"
    and switch: "operand_switch row f instr1 (op\<lparr>op_flags := f, reg := LIBDASM_REGISTER_NOP,
       basereg := LIBDASM_REGISTER_NOP, indexreg := LIBDASM_REGISTER_NOP, dispoffset := 0, immoffset := 0\<rparr>)
       bs off mode fl mi = Inr (opd, instr')"
    by (auto simp: get_operand_def bind_r_eq_Inr)
  let ?md = "of_bool (inst_modrm row)" and ?sb = "of_bool (m_sib mi)"
  have frame: "op1 instr1 = op1 instr \<and> op2 instr1 = op2 instr \<and> op3 instr1 = op3 instr \<and>
      itype instr1 = itype instr \<and> ptr instr1 = ptr instr"
    using parse by (auto split: if_splits dest!: parse_modrm_frame)
  have facts: "disp_size (m_dispbytes mi)" "ilength instr1 = ?md + ?sb"
      "modrm_len row bs off mode fl = ?md + ?sb" "\<not> inst_modrm row \<Longrightarrow> ?sb = (0::nat)"
      "immbytes instr1 = immbytes instr" "dispbytes instr1 = dispbytes instr"
      "off + ilength instr1 + immbytes instr1 + dispbytes instr1 \<le> length bs"
    using parse inv
    by (auto simp: operand_inv_def modrm_len_def no_modrm_def disp_size_def split: if_splits
        dest!: parse_modrm_Inr)
  from operand_switch_effect [OF switch] zero facts(1) obtain d n s where
    eq: "instr' = instr1\<lparr>dispbytes := d, immbytes := immbytes instr1 + n, sectionbytes := s\<rparr>"
    and eff: "operand_effect f (length bs) off ?md ?sb instr1 d n" by auto
  have "operand_inv row bs off mode fl instr'"
    unfolding eq
    by (rule operand_effect_inv [OF eff refl facts(2,3,7)])
      (use facts inv order plain in \<open>auto simp: operand_inv_def\<close>)
  with eq eff frame facts(5) show ?thesis by (simp add: operand_effect_def)
qed

subsection \<open>From the row to the instruction\<close>

definition fresh :: "INSTRUCTION \<Rightarrow> bool" where
  "fresh instr \<longleftrightarrow> ilength instr = 0 \<and> immbytes instr = 0 \<and> dispbytes instr = 0 \<and>
     op1 instr = zero_OPERAND \<and> op2 instr = zero_OPERAND \<and> op3 instr = zero_OPERAND"

lemma zero_OPERAND_bytes [simp]: "op_immbytes zero_OPERAND = 0" "op_dispbytes zero_OPERAND = 0"
  by (simp_all add: zero_OPERAND_def)

lemma operand_inv_cong:
  "operand_inv row bs off mode fl (instr\<lparr>op1 := x\<rparr>) = operand_inv row bs off mode fl instr"
  "operand_inv row bs off mode fl (instr\<lparr>op2 := x\<rparr>) = operand_inv row bs off mode fl instr"
  by (simp_all add: operand_inv_def)

lemma decode_row_Inr:
  assumes dec: "decode_row bs mode row index flags instr = Inr i"
    and ok: "row_ok row" and index: "index \<le> length bs" and fresh: "fresh instr"
  shows "index \<le> ilength i \<and> ilength i \<le> length bs \<and> ilength i \<le> index + 10 \<and>
    itype i = MASK_TYPE_VALUE (inst_type row) \<and> ptr i = Some row \<and> mnemonic row \<noteq> None"
proof -
  let ?inv = "operand_inv row bs index mode flags"
  define instr0 where "instr0 = instr\<lparr>modrm_offset := (if inst_modrm row then index else modrm_offset instr),
      itype := MASK_TYPE_VALUE (inst_type row), eflags_affected := inst_eflags_affected row,
      eflags_used := inst_eflags_used row, ptr := Some row\<rparr>"
  from dec obtain o1 instr1 o2 instr2 o3 instr3 where
    g1: "get_operand row (flags1 row) instr0 (op1 instr0) bs index mode flags = Inr (o1, instr1)" and
    g2: "get_operand row (flags2 row) (instr1\<lparr>op1 := o1\<rparr>) (op2 instr1) bs index mode flags = Inr (o2, instr2)" and
    g3: "get_operand row (flags3 row) (instr2\<lparr>op2 := o2\<rparr>) (op3 instr2) bs index mode flags = Inr (o3, instr3)" and
    i: "i = instr3\<lparr>op3 := o3, iop_read := inst_iop_read row, iop_written := inst_iop_written row,
      ilength := ilength instr3 + index + immbytes instr3 + dispbytes instr3, imode := mode, iflags := flags\<rparr>"
    and mn: "mnemonic row \<noteq> None"
    by (auto simp: decode_row_def instr0_def [symmetric] Let_def bind_r_eq_Inr split: if_splits)
  have plain: "am_plain (MASK_AM (flags1 row)) \<Longrightarrow> row_plain row \<and> \<not> inst_modrm row"
      "am_plain (MASK_AM (flags2 row)) \<Longrightarrow> row_plain row \<and> \<not> inst_modrm row"
      "am_plain (MASK_AM (flags3 row)) \<Longrightarrow> row_plain row \<and> \<not> inst_modrm row"
    using ok by (auto simp: row_ok_def row_plain_def)
  have order: "moves_disp (flags2 row) \<Longrightarrow> imm_size (flags1 row) = 0"
      "moves_disp (flags3 row) \<Longrightarrow> imm_size (flags1 row) + imm_size (flags2 row) = 0"
    using ok by (auto simp: row_ok_def)
  have i0: "?inv instr0" "immbytes instr0 = 0" "op1 instr0 = zero_OPERAND"
    "op2 instr0 = zero_OPERAND" "op3 instr0 = zero_OPERAND" "itype instr0 = MASK_TYPE_VALUE (inst_type row)"
    "ptr instr0 = Some row"
    using fresh index by (auto simp: operand_inv_def fresh_def instr0_def)
  have i1: "?inv instr1 \<and> immbytes instr1 \<le> immbytes instr0 + imm_size (flags1 row) \<and> op1 instr1 = op1 instr0 \<and>
      op2 instr1 = op2 instr0 \<and> op3 instr1 = op3 instr0 \<and> itype instr1 = itype instr0 \<and> ptr instr1 = ptr instr0"
    by (rule get_operand_inv [OF g1 i0(1)]) (simp_all add: i0 plain(1))
  have i2: "?inv instr2 \<and> immbytes instr2 \<le> immbytes (instr1\<lparr>op1 := o1\<rparr>) + imm_size (flags2 row) \<and>
      op1 instr2 = op1 (instr1\<lparr>op1 := o1\<rparr>) \<and> op2 instr2 = op2 (instr1\<lparr>op1 := o1\<rparr>) \<and>
      op3 instr2 = op3 (instr1\<lparr>op1 := o1\<rparr>) \<and> itype instr2 = itype (instr1\<lparr>op1 := o1\<rparr>) \<and>
      ptr instr2 = ptr (instr1\<lparr>op1 := o1\<rparr>)"
    by (rule get_operand_inv [OF g2]) (use i0 i1 plain(2) order(1) in \<open>simp_all add: operand_inv_cong\<close>)
  have i3: "?inv instr3 \<and> immbytes instr3 \<le> immbytes (instr2\<lparr>op2 := o2\<rparr>) + imm_size (flags3 row) \<and>
      op1 instr3 = op1 (instr2\<lparr>op2 := o2\<rparr>) \<and> op2 instr3 = op2 (instr2\<lparr>op2 := o2\<rparr>) \<and>
      op3 instr3 = op3 (instr2\<lparr>op2 := o2\<rparr>) \<and> itype instr3 = itype (instr2\<lparr>op2 := o2\<rparr>) \<and>
      ptr instr3 = ptr (instr2\<lparr>op2 := o2\<rparr>)"
    by (rule get_operand_inv [OF g3]) (use i0 i1 i2 plain(3) order(2) in \<open>simp_all add: operand_inv_cong\<close>)
  have imm: "immbytes instr3 \<le> imm_size (flags1 row) + imm_size (flags2 row) + imm_size (flags3 row)"
    using i0(2) i1 i2 i3 by simp
  have "ilength instr3 \<le> 2" "row_plain row \<Longrightarrow> ilength instr3 = 0"
    using i3 ok by (auto simp: operand_inv_def modrm_len_def row_plain_def row_ok_def)
  moreover have "immbytes instr3 \<le> 4" "row_plain row \<Longrightarrow> immbytes instr3 = 0"
    using imm ok by (auto simp: row_plain_def row_ok_def)
  moreover have "index + ilength instr3 + immbytes instr3 + dispbytes instr3 \<le> length bs"
      "dispbytes instr3 \<le> (if row_plain row then 6 else 4)"
    using i3 by (simp_all add: operand_inv_def)
  moreover have "itype i = MASK_TYPE_VALUE (inst_type row)" "ptr i = Some row"
    using i i0 i1 i2 i3 by simp_all
  moreover have "ilength i = ilength instr3 + index + immbytes instr3 + dispbytes instr3"
    using i by simp
  ultimately show ?thesis using mn by (cases "row_plain row") simp_all
qed

lemma operand_reads_Inl:
  "parse_modrm bs off pm instr = Inl e \<Longrightarrow> e = ReadFault"
  "memory_operand instr op bs off mi = Inl e \<Longrightarrow> e = ReadFault"
  "immediate_operand row f instr op bs off mode fl mi = Inl e \<Longrightarrow> e = ReadFault"
  "far_operand instr op bs off mode fl = Inl e \<Longrightarrow> e = ReadFault"
  "offset_operand f instr op bs off mode = Inl e \<Longrightarrow> e = ReadFault"
  unfolding parse_modrm_def parse_sib_def memory_operand_def immediate_operand_def immediate_value_def
    far_operand_def offset_operand_def Let_def bind_r_eq_Inl
  by (auto simp: bind_r_eq_Inl dest: FETCH_fault split: if_split_asm)

lemma operand_switch_Inl:
  "operand_switch row f instr op bs off mode fl mi = Inl e \<Longrightarrow> e = ReadFault \<or> e = IllegalInstruction"
  unfolding operand_switch_def Let_def bind_r_eq_Inl
  by (auto simp: bind_r_eq_Inl dest: FETCH_fault operand_reads_Inl split: if_split_asm)

lemma get_operand_Inl:
  "get_operand row f instr op bs off mode fl = Inl e \<Longrightarrow> e = ReadFault \<or> e = IllegalInstruction"
  unfolding get_operand_def bind_r_eq_Inl
  by (auto simp: bind_r_eq_Inl dest: operand_switch_Inl operand_reads_Inl split: if_split_asm)

lemma decode_row_Inl:
  "decode_row bs mode row index flags instr = Inl e \<Longrightarrow> e = ReadFault \<or> e = IllegalInstruction"
  by (auto simp: decode_row_def Let_def bind_r_eq_Inl split: if_splits dest: get_operand_Inl)

subsection \<open>The choice of the row\<close>

lemma table_rows_ok:
  "i < 256 \<Longrightarrow> table_row inst_table1 i = Inr (inst_table1 ! i) \<and> row_ok (inst_table1 ! i)"
  "i < 256 \<Longrightarrow> table_row inst_table2 i = Inr (inst_table2 ! i) \<and> row_ok (inst_table2 ! i)"
  "i < 256 \<Longrightarrow> table_row inst_table3_66 i = Inr (inst_table3_66 ! i) \<and> row_ok (inst_table3_66 ! i)"
  "i < 256 \<Longrightarrow> table_row inst_table3_f2 i = Inr (inst_table3_f2 ! i) \<and> row_ok (inst_table3_f2 ! i)"
  "i < 256 \<Longrightarrow> table_row inst_table3_f3 i = Inr (inst_table3_f3 ! i) \<and> row_ok (inst_table3_f3 ! i)"
  using inst_table1_ok inst_table2_ok inst_table3_66_ok inst_table3_f2_ok inst_table3_f3_ok
  by (simp_all add: table_row_def list_all_length)

lemma ext_rows_ok:
  "t \<in> {inst_table_ext12, inst_table_ext12_66, inst_table_ext13, inst_table_ext13_66, inst_table_ext14,
         inst_table_ext14_66, inst_table_ext7} \<Longrightarrow> r < 8 \<Longrightarrow> table_row t r = Inr (t ! r) \<and> row_ok (t ! r)"
  using row_ok_inst_table_ext12 row_ok_inst_table_ext12_66 row_ok_inst_table_ext13 row_ok_inst_table_ext13_66
    row_ok_inst_table_ext14 row_ok_inst_table_ext14_66 row_ok_inst_table_ext7
  by (auto simp: table_row_def list_all_length inst_table_ext_66_length)

lemma ext_table_ok:
  assumes "k < 24" and "r < 8"
  shows "table_row inst_table_ext k = Inr (inst_table_ext ! k)"
    and "table_row (inst_table_ext ! k) r = Inr (inst_table_ext ! k ! r) \<and> row_ok (inst_table_ext ! k ! r)"
proof -
  have len: "length inst_table_ext = 25" using arg_cong [OF inst_table_ext_ok(2), of length] by simp
  have "length (inst_table_ext ! k) = map length inst_table_ext ! k" using assms len by simp
  also have "\<dots> = 8" using assms(1) unfolding inst_table_ext_ok(2)
    by (auto simp: numeral_eq_Suc less_Suc_eq)
  finally have "length (inst_table_ext ! k) = 8" .
  moreover have "list_all row_ok (inst_table_ext ! k)"
    using inst_table_ext_ok(1) assms len by (simp add: list_all_length)
  ultimately show "table_row inst_table_ext k = Inr (inst_table_ext ! k)"
    and "table_row (inst_table_ext ! k) r = Inr (inst_table_ext ! k ! r) \<and> row_ok (inst_table_ext ! k ! r)"
    using assms len by (simp_all add: table_row_def list_all_length)
qed

lemma fpu_table_ok:
  assumes "k < 8" and "r < 72"
  shows "table_row inst_table4 k = Inr (inst_table4 ! k)"
    and "table_row (inst_table4 ! k) r = Inr (inst_table4 ! k ! r) \<and> row_ok (inst_table4 ! k ! r)"
proof -
  have len: "length inst_table4 = 8" using arg_cong [OF inst_table4_ok(2), of length] by simp
  have "length (inst_table4 ! k) = map length inst_table4 ! k" using assms len by simp
  also have "\<dots> = 72" using assms(1) unfolding inst_table4_ok(2)
    by (auto simp: numeral_eq_Suc less_Suc_eq)
  finally have "length (inst_table4 ! k) = 72" .
  moreover have "list_all row_ok (inst_table4 ! k)"
    using inst_table4_ok(1) assms len by (simp add: list_all_length)
  ultimately show "table_row inst_table4 k = Inr (inst_table4 ! k)"
    and "table_row (inst_table4 ! k) r = Inr (inst_table4 ! k ! r) \<and> row_ok (inst_table4 ! k ! r)"
    using assms len by (simp_all add: table_row_def list_all_length)
qed

text \<open>The extension flags a byte can set: none, the escape \<open>0x0f\<close>, a floating-point escape, or one of
  the groups of the one-byte opcodes.\<close>

definition ext_group :: "u32 \<Rightarrow> bool" where
  "ext_group e \<longleftrightarrow> e \<in> {EXT_G1_1, EXT_G1_2, EXT_G1_3, EXT_G2_1, EXT_G2_2, EXT_G2_3, EXT_G2_4, EXT_G2_5,
     EXT_G2_6, EXT_G3_1, EXT_G3_2, EXT_G4, EXT_G5, EXT_G6, EXT_G7, EXT_G8, EXT_G9, EXT_GC, EXT_GD, EXT_GE,
     EXT_GF}"

lemma ext_group_range: "ext_group e \<Longrightarrow> 1 \<le> unat e \<and> unat e \<le> 23"
  by (auto simp: ext_group_def libdasm_consts)

lemma ext_group_less_T2: "ext_group e \<Longrightarrow> e < EXT_T2 \<and> e \<noteq> 0 \<and> e \<noteq> EXT_CP \<and> e \<noteq> EXT_T2"
  by (auto simp: ext_group_def libdasm_consts)

lemma opcode_extension_cases:
  obtains (none) "opcode_extension b = (0, 0)"
  | (t2) "opcode_extension b = (1, EXT_T2)"
  | (cp) "opcode_extension b = (1, EXT_CP)" "unat b - 0xd8 < 8"
  | (group) e where "opcode_extension b = (0, e)" "ext_group e"
proof (cases "b \<in> {0xd8, 0xd9, 0xda, 0xdb, 0xdc, 0xdd, 0xde, 0xdf}")
  case True
  then have "opcode_extension b = (1, EXT_CP)" "unat b - 0xd8 < 8"
    by (auto simp: opcode_extension_def)
  then show thesis by (rule cp)
next
  case False
  then have "opcode_extension b = (0, 0) \<or> opcode_extension b = (1, EXT_T2) \<or>
      (\<exists>e. opcode_extension b = (0, e) \<and> ext_group e)"
    by (simp add: opcode_extension_def ext_group_def)
  then show thesis using none t2 group by blast
qed

lemma get_real_instruction2_ext:
  "MASK_EXT flags = EXT_T2 \<Longrightarrow>
     MASK_EXT (get_real_instruction2 b flags) = EXT_T2 \<or> ext_group (MASK_EXT (get_real_instruction2 b flags))"
proof -
  have "MASK_EXT EXT_G6 = EXT_G6" "MASK_EXT EXT_G7 = EXT_G7" "MASK_EXT EXT_G8 = EXT_G8" "MASK_EXT EXT_G9 = EXT_G9"
    "MASK_EXT EXT_GC = EXT_GC" "MASK_EXT EXT_GD = EXT_GD" "MASK_EXT EXT_GE = EXT_GE" "MASK_EXT EXT_GF = EXT_GF"
    by (simp_all add: MASK_EXT_def libdasm_consts)
  then show "MASK_EXT flags = EXT_T2 \<Longrightarrow> ?thesis"
    by (simp add: get_real_instruction2_def MASK_EXT_OR MASK_EXT_AND ext_group_def)
qed

lemma fresh_zero [simp]: "fresh zero_INSTRUCTION"
  by (simp add: fresh_def zero_INSTRUCTION_def)

lemma fresh_upd [simp]:
  "fresh (instr\<lparr>opcode := b\<rparr>) = fresh instr" "fresh (instr\<lparr>fpuindex := k\<rparr>) = fresh instr"
  "fresh (instr\<lparr>extindex := k\<rparr>) = fresh instr"
  by (simp_all add: fresh_def)

text \<open>What \<open>select_table\<close> leaves for \<open>select_extension\<close>: a usable row, or an extension group.\<close>

definition sel_ok :: "u8 list \<Rightarrow> INST option \<times> nat \<times> u32 \<times> INSTRUCTION \<Rightarrow> bool" where
  "sel_ok bs = (\<lambda>(p, index, flags, instr).
     prefix_count bs \<le> index \<and> index \<le> prefix_count bs + 1 \<and> fresh instr \<and>
     (ext_group (MASK_EXT flags) \<or>
      (MASK_EXT flags = 0 \<or> MASK_EXT flags = EXT_T2 \<or> MASK_EXT flags = EXT_CP) \<and> index < length bs \<and>
      (\<exists>row. p = Some row \<and> row_ok row)))"

lemma EXT_distinct [simp]: "EXT_T2 \<noteq> 0" "EXT_CP \<noteq> 0" "EXT_CP \<noteq> EXT_T2" "EXT_T2 \<noteq> EXT_CP" "\<not> EXT_CP < EXT_T2"
  by (simp_all add: libdasm_consts)

lemma select_table_t2:
  assumes ext: "MASK_EXT flags = EXT_T2" and b: "FETCH8 bs index = Inr b"
  shows "\<exists>row. row_ok row \<and> select_table bs index flags instr =
    Inr (Some row, index, get_real_instruction2 b flags, instr\<lparr>opcode := b\<rparr>)"
proof -
  have "unat b < 256" by (rule u8_bound)
  note rows = table_rows_ok(2-5) [OF this]
  show ?thesis using ext b rows by (auto simp: select_table_def Let_def)
qed

lemma select_table_ok:
  assumes real: "get_real_instruction bs 0 0 = Inr (index, flags)"
  shows "select_table bs index flags zero_INSTRUCTION = Inl ReadFault \<or>
    (\<exists>sel. select_table bs index flags zero_INSTRUCTION = Inr sel \<and> sel_ok bs sel)"
proof -
  let ?n = "prefix_count bs"
  from get_real_instruction_Inr [OF real]
  have n: "?n < length bs" and index: "index = ?n + fst (opcode_extension (bs ! ?n))"
    and ext: "MASK_EXT flags = snd (opcode_extension (bs ! ?n))"
    by (auto simp: MASK_EXT_def [of 0])
  show ?thesis
  proof (cases rule: opcode_extension_cases [of "bs ! ?n"])
    case none
    have "unat (bs ! ?n) < 256" by (rule u8_bound)
    from table_rows_ok(1) [OF this] none n index ext show ?thesis
      by (auto simp: select_table_def sel_ok_def FETCH8_def)
  next
    case t2
    show ?thesis
    proof (cases "FETCH8 bs index")
      case (Inl e)
      with t2 ext show ?thesis by (auto simp: select_table_def dest: FETCH_fault)
    next
      case (Inr b)
      from select_table_t2 [OF _ Inr, of flags zero_INSTRUCTION] t2 ext obtain row where
        "row_ok row" "select_table bs index flags zero_INSTRUCTION =
         Inr (Some row, index, get_real_instruction2 b flags, zero_INSTRUCTION\<lparr>opcode := b\<rparr>)" by auto
      moreover have "MASK_EXT (get_real_instruction2 b flags) = EXT_T2 \<or>
          ext_group (MASK_EXT (get_real_instruction2 b flags))"
        using get_real_instruction2_ext t2 ext by simp
      ultimately show ?thesis using Inr t2 index by (auto simp: sel_ok_def FETCH8_Inr)
    qed
  next
    case cp
    show ?thesis
    proof (cases "FETCH8 bs index")
      case (Inl e)
      with cp ext show ?thesis by (auto simp: select_table_def dest: FETCH_fault)
    next
      case (Inr b)
      have "unat b < 256" "MASK_MODRM_LIBDASM_REG b < 8" by (rule u8_bound, rule MASK_MODRM_REG_less)
      then have r: "(if b < 0xc0 then MASK_MODRM_LIBDASM_REG b else unat b - 0xb8) < 72" by auto
      have "FETCH8 bs (index - 1) = Inr (bs ! ?n)" using cp index n by (simp add: FETCH8_def)
      with Inr cp ext fpu_table_ok [OF cp(2) r] obtain row instr where
        "select_table bs index flags zero_INSTRUCTION =
         Inr (Some row, if b < 0xc0 then index - 1 else index, flags, instr)" "row_ok row" "fresh instr"
        by (simp add: select_table_def)
      moreover have "index < length bs" using Inr by (simp add: FETCH8_Inr)
      ultimately show ?thesis using cp ext index by (auto simp: sel_ok_def)
    qed
  next
    case (group e)
    with n index ext ext_group_less_T2 [OF group(2)] show ?thesis
      by (auto simp: select_table_def sel_ok_def)
  qed
qed

lemma extension_row_ok:
  assumes group: "ext_group (MASK_EXT flags)"
  shows "extension_row flags m index = Inl IllegalInstruction \<or>
    (\<exists>row index'. extension_row flags m index = Inr (row, index') \<and> row_ok row \<and>
       index \<le> index' \<and> index' \<le> index + 1)"
proof -
  have r: "MASK_MODRM_LIBDASM_REG m < 8" by (rule MASK_MODRM_REG_less)
  have k: "unat (MASK_EXT flags) - 1 < 24" using ext_group_range [OF group] by linarith
  show ?thesis
    using ext_table_ok(1) [OF k r] ext_table_ok(2) [OF k r] ext_rows_ok [OF _ r] row_ok_monitor
    by (simp add: extension_row_def Let_def)
qed

lemma select_extension_ok:
  assumes "sel_ok bs sel"
  shows "select_extension bs sel = Inl ReadFault \<or> select_extension bs sel = Inl IllegalInstruction \<or>
    (\<exists>row index flags instr. select_extension bs sel = Inr (Some row, index, flags, instr) \<and> row_ok row \<and>
       prefix_count bs \<le> index \<and> index \<le> prefix_count bs + 2 \<and> index < length bs \<and> fresh instr)"
proof -
  obtain p index flags instr where sel: "sel = (p, index, flags, instr)" by (cases sel)
  show ?thesis
  proof (cases "ext_group (MASK_EXT flags)")
    case True
    then have c: "MASK_EXT flags \<noteq> 0 \<and> MASK_EXT flags < EXT_T2" using ext_group_less_T2 by blast
    show ?thesis
    proof (cases "Suc index < length bs")
      case False
      with c show ?thesis by (auto simp: select_extension_def sel FETCH8_def)
    next
      case bytes: True
      from extension_row_ok [OF True, of "bs ! Suc index" index] show ?thesis
        using c bytes assms by (auto simp: select_extension_def sel FETCH8_def sel_ok_def)
    qed
  next
    case False
    with assms show ?thesis by (auto simp: select_extension_def sel sel_ok_def)
  qed
qed

subsection \<open>The decoder as a whole\<close>

lemma get_instruction_cases:
  obtains (fault) "get_instruction bs mode = Inl ReadFault"
  | (illegal) "get_instruction bs mode = Inl IllegalInstruction"
  | (ok) row index flags instr i where "get_instruction bs mode = Inr i"
      "decode_row bs mode row (index + 1) flags instr = Inr i" "row_ok row" "fresh instr"
      "prefix_count bs \<le> index" "index \<le> prefix_count bs + 2" "index < length bs"
proof (cases "get_real_instruction bs 0 0")
  case (Inl e)
  then have "get_instruction bs mode = Inl ReadFault"
    using get_real_instruction_Inl [of bs 0 0 e] by (simp add: get_instruction_def)
  then show thesis by (rule fault)
next
  case (Inr r)
  obtain index flags where r: "get_real_instruction bs 0 0 = Inr (index, flags)" using Inr by (cases r) auto
  from select_table_ok [OF r] show thesis
  proof (elim disjE exE conjE)
    assume "select_table bs index flags zero_INSTRUCTION = Inl ReadFault"
    then show thesis using r by (intro fault) (simp add: get_instruction_def)
  next
    fix sel
    assume sel: "select_table bs index flags zero_INSTRUCTION = Inr sel" and sok: "sel_ok bs sel"
    from select_extension_ok [OF sok] show thesis
    proof (elim disjE exE conjE)
      assume "select_extension bs sel = Inl ReadFault"
      then show thesis using r sel by (intro fault) (simp add: get_instruction_def)
    next
      assume "select_extension bs sel = Inl IllegalInstruction"
      then show thesis using r sel by (intro illegal) (simp add: get_instruction_def)
    next
      fix row index' flags' instr
      assume ext: "select_extension bs sel = Inr (Some row, index', flags', instr)"
        and facts: "row_ok row" "prefix_count bs \<le> index'" "index' \<le> prefix_count bs + 2"
          "index' < length bs" "fresh instr"
      have get: "get_instruction bs mode = decode_row bs mode row (index' + 1) flags' instr"
        using r sel ext by (simp add: get_instruction_def)
      show thesis
      proof (cases "decode_row bs mode row (index' + 1) flags' instr")
        case (Inl e)
        with get fault illegal show thesis by (auto dest: decode_row_Inl)
      next
        case (Inr i)
        with get facts show thesis by (intro ok) simp_all
      qed
    qed
  qed
qed

lemma get_instruction_errors:
  "get_instruction bs mode = Inl e \<Longrightarrow> e \<noteq> IllegalInstruction \<Longrightarrow> e = ReadFault"
  by (cases rule: get_instruction_cases [of bs mode]) auto

text \<open>C2. The decoder never reads a table outside its rows and never follows a null row pointer,
  whatever the bytes and the mode.\<close>

theorem get_instruction_tables_safe:
  "get_instruction bs mode \<noteq> Inl TableOverrun \<and> get_instruction bs mode \<noteq> Inl NullDereference"
  by (cases rule: get_instruction_cases [of bs mode]) auto

lemma get_instruction_length:
  assumes "get_instruction bs mode = Inr i"
  shows "prefix_count bs < ilength i \<and> ilength i \<le> length bs \<and> ilength i \<le> prefix_count bs + 13"
  using assms
proof (cases rule: get_instruction_cases [of bs mode])
  case (ok row index flags instr j)
  then have "index + 1 \<le> length bs" by simp
  from decode_row_Inr [OF ok(2,3) this ok(4)] ok assms show ?thesis by auto
qed auto

subsection \<open>Bytes behind the instruction do not matter\<close>

text \<open>\<open>stable a b\<close>: \<open>b\<close> is \<open>a\<close>, unless \<open>a\<close> ran out of bytes.\<close>

definition stable :: "dasm_error + 'a \<Rightarrow> dasm_error + 'a \<Rightarrow> bool" where
  "stable a b \<longleftrightarrow> a = Inl ReadFault \<or> b = a"

named_theorems stable_intros \<open>stability of the parts of the decoder\<close>

lemma stable_refl [stable_intros]: "stable a a"
  by (simp add: stable_def)

lemma stable_bind [stable_intros]:
  "stable m m' \<Longrightarrow> (\<And>x. stable (f x) (g x)) \<Longrightarrow> stable (bind_r m f) (bind_r m' g)"
  by (cases m) (auto simp: stable_def)

lemma stable_if [stable_intros]:
  "(c \<Longrightarrow> stable a a') \<Longrightarrow> (\<not> c \<Longrightarrow> stable b b') \<Longrightarrow> stable (if c then a else b) (if c then a' else b')"
  by simp

lemma stable_prod [stable_intros]:
  "(\<And>x y. stable (f x y) (g x y)) \<Longrightarrow> stable (case p of (x, y) \<Rightarrow> f x y) (case p of (x, y) \<Rightarrow> g x y)"
  by (cases p) simp

lemma stable_option [stable_intros]:
  "stable a a' \<Longrightarrow> (\<And>x. stable (f x) (g x)) \<Longrightarrow>
   stable (case p of None \<Rightarrow> a | Some x \<Rightarrow> f x) (case p of None \<Rightarrow> a' | Some x \<Rightarrow> g x)"
  by (cases p) simp_all

lemma stable_FETCH [stable_intros]:
  "stable (FETCH8 bs i) (FETCH8 (bs @ xs) i)"
  "stable (FETCH16 bs i) (FETCH16 (bs @ xs) i)"
  "stable (FETCH32 bs i) (FETCH32 (bs @ xs) i)"
proof -
  show one: "stable (FETCH8 bs j) (FETCH8 (bs @ xs) j)" for j
    by (auto simp: stable_def FETCH8_def nth_append)
  show "stable (FETCH16 bs i) (FETCH16 (bs @ xs) i)" "stable (FETCH32 bs i) (FETCH32 (bs @ xs) i)"
    unfolding FETCH16_def FETCH32_def by (intro stable_intros one)+
qed

lemma stable_get_real_instruction [stable_intros]:
  "stable (get_real_instruction bs i fl) (get_real_instruction (bs @ xs) i fl)"
  by (induction bs i fl rule: get_real_instruction.induct)
    (auto simp: stable_def split: option.splits)

lemma stable_parts [stable_intros]:
  "stable (select_table bs i fl instr) (select_table (bs @ xs) i fl instr)"
  "stable (select_extension bs sel) (select_extension (bs @ xs) sel)"
  "stable (parse_modrm bs off pm instr) (parse_modrm (bs @ xs) off pm instr)"
  "stable (memory_operand instr op bs off mi) (memory_operand instr op (bs @ xs) off mi)"
  "stable (immediate_operand row f instr op bs off mode fl mi)
     (immediate_operand row f instr op (bs @ xs) off mode fl mi)"
  "stable (far_operand instr op bs off mode fl) (far_operand instr op (bs @ xs) off mode fl)"
  "stable (offset_operand f instr op bs off mode) (offset_operand f instr op (bs @ xs) off mode)"
  unfolding select_table_def select_extension_def parse_modrm_def parse_sib_def memory_operand_def
    immediate_operand_def immediate_value_def far_operand_def offset_operand_def Let_def
  by (intro stable_intros)+

lemma stable_get_operand [stable_intros]:
  "stable (get_operand row f instr op bs off mode fl) (get_operand row f instr op (bs @ xs) off mode fl)"
  unfolding get_operand_def operand_switch_def Let_def by (intro stable_intros)

lemma stable_get_instruction: "stable (get_instruction bs mode) (get_instruction (bs @ xs) mode)"
  unfolding get_instruction_def decode_row_def Let_def by (intro stable_intros)

text \<open>C18. The length of a decoded instruction covers all its prefixes and at least one byte more, stays
  inside the bytes that are mapped, and exceeds the number of its prefixes by at most 13.\<close>

theorem decoded_length_bounds:
  assumes "get_instruction bs mode = Inr i"
  shows "prefix_count bs < ilength i \<and> ilength i \<le> length bs \<and> ilength i \<le> prefix_count bs + 13"
  using get_instruction_length [OF assms] .

text \<open>\<open>mov word [ebx+esi*2+8], 0x1234\<close> with its size prefix.\<close>

lemma decoded_length_bounds_witness:
  "prefix_count [0x66, 0xc7, 0x44, 0x73, 8, 0x34, 0x12] = 1 \<and>
   (\<exists>i. get_instruction [0x66, 0xc7, 0x44, 0x73, 8, 0x34, 0x12] MODE_32 = Inr i \<and> ilength i \<le> 7)"
proof -
  let ?bs = "[0x66, 0xc7, 0x44, 0x73, 8, 0x34, 0x12] :: u8 list"
  have "get_instruction ?bs MODE_32 = Inr (projr (get_instruction ?bs MODE_32))" by code_simp
  from decoded_length_bounds [OF this] have "ilength (projr (get_instruction ?bs MODE_32)) \<le> 7" by simp
  moreover have "prefix_count ?bs = 1" by code_simp
  ultimately show ?thesis using \<open>get_instruction ?bs MODE_32 = Inr _\<close> by blast
qed

end
