(* ===== verification/Static_Trace.thy ===== *)
theory Static_Trace
  imports Libdasm_Safety
begin

text \<open>
  \<^verbatim>\<open>replay/StaticTrace.h\<close> and \<^verbatim>\<open>replay/StaticTrace.cpp\<close>: a trace is a stretch of code bytes with its
  start and size, and \<open>process\<close> walks the instructions from its start to the first one that ends
  it. The process memory the code reads through raw pointers is a list of mapped regions; a read
  outside of them is \<open>Access_Violation\<close>.
\<close>

subsection \<open>Mapped memory\<close>

type_synonym memory = "(u32 \<times> u8 list) list"

fun bytes_at :: "memory \<Rightarrow> u32 \<Rightarrow> u8 list" where
  "bytes_at [] a = []"
| "bytes_at ((base, bs) # mem) a =
     (if base \<le> a \<and> unat (a - base) < length bs then drop (unat (a - base)) bs else bytes_at mem a)"

text \<open>Regions do not wrap around, and the last byte of the address space is not mapped.\<close>

definition wf_memory :: "memory \<Rightarrow> bool" where
  "wf_memory mem \<longleftrightarrow> (\<forall>(base, bs) \<in> set mem. unat base + length bs < 2 ^ 32)"

text \<open>What can end a run of the program's code: a read outside of the mapped bytes, the model's fuel, the use
  of an iterator behind the end of its container or of an erased element and an access behind the end of a buffer
  (undefined in C++), and a thrown \<^verbatim>\<open>std::exception\<close>.\<close>

datatype run_error = Access_Violation | Out_Of_Fuel | Invalid_Iterator | Buffer_Overflow | Std_Exception string

definition read_byte :: "memory \<Rightarrow> u32 \<Rightarrow> run_error + u8" where
  "read_byte mem a = (case bytes_at mem a of [] \<Rightarrow> Inl Access_Violation | b # _ \<Rightarrow> Inr b)"

lemma bytes_at_bound: "wf_memory mem \<Longrightarrow> unat a + length (bytes_at mem a) < 2 ^ 32"
proof (induction mem a rule: bytes_at.induct)
  case (2 base bs mem a)
  then have "unat base + length bs < 2 ^ 32" and "wf_memory mem" by (auto simp: wf_memory_def)
  with "2.IH" show ?case by (auto simp: unat_diff_le word_le_nat_alt)
qed (use u32_bound in simp)

subsection \<open>The trace and its interval predicates\<close>

record StaticTrace =
  m_start :: u32
  m_size :: u32
  m_code_section_start :: u32
  m_code_section_size :: u32

definition new_StaticTrace :: "u32 \<Rightarrow> u32 \<Rightarrow> u32 \<Rightarrow> StaticTrace" where
  "new_StaticTrace start cs_start cs_size =
     \<lparr>m_start = start, m_size = 0, m_code_section_start = cs_start, m_code_section_size = cs_size\<rparr>"

definition AssembleTrace :: "u32 \<Rightarrow> u32 \<Rightarrow> u32 \<Rightarrow> u32 \<Rightarrow> StaticTrace" where
  "AssembleTrace start sz cs_start cs_size = (new_StaticTrace start cs_start cs_size)\<lparr>m_size := sz\<rparr>"

definition GetStart :: "StaticTrace \<Rightarrow> u32" where "GetStart t = m_start t"
definition GetEnd :: "StaticTrace \<Rightarrow> u32" where "GetEnd t = m_start t + m_size t"
definition GetSize :: "StaticTrace \<Rightarrow> u32" where "GetSize t = m_size t"

definition Intersect :: "StaticTrace \<Rightarrow> u32 \<Rightarrow> u32 \<Rightarrow> bool" where
  "Intersect t start sz \<longleftrightarrow> \<not> (m_start t + m_size t \<le> start \<or> m_start t \<ge> start + sz)"

definition Equals :: "StaticTrace \<Rightarrow> u32 \<Rightarrow> bool" where "Equals t start \<longleftrightarrow> m_start t = start"

definition Same :: "StaticTrace \<Rightarrow> u32 \<Rightarrow> u32 \<Rightarrow> bool" where
  "Same t start sz \<longleftrightarrow> m_start t = start \<and> m_size t = sz"

definition Contains :: "StaticTrace \<Rightarrow> u32 \<Rightarrow> u32 \<Rightarrow> bool" where
  "Contains t start sz \<longleftrightarrow> m_start t \<le> start \<and> m_start t + m_size t \<ge> start + sz"

definition Pertains :: "StaticTrace \<Rightarrow> u32 \<Rightarrow> u32 \<Rightarrow> bool" where
  "Pertains t start sz \<longleftrightarrow> start \<le> m_start t \<and> start + sz \<ge> m_start t + m_size t"

definition BiggerThan :: "StaticTrace \<Rightarrow> u32 \<Rightarrow> bool" where "BiggerThan t start \<longleftrightarrow> m_start t > start"
definition SmallerThan :: "StaticTrace \<Rightarrow> u32 \<Rightarrow> bool" where "SmallerThan t start \<longleftrightarrow> m_start t < start"

definition IsAddrCode :: "StaticTrace \<Rightarrow> u32 \<Rightarrow> bool" where
  "IsAddrCode t addr \<longleftrightarrow>
     addr \<ge> m_code_section_start t \<and> addr < m_code_section_start t + m_code_section_size t"

definition AdjustEnd :: "StaticTrace \<Rightarrow> u32 \<Rightarrow> StaticTrace" where
  "AdjustEnd t end_addr = t\<lparr>m_size := end_addr - m_start t\<rparr>"

subsection \<open>One instruction of the walk\<close>

text \<open>The target of a direct branch. \<open>offset\<close> stays 0 when the operand has no immediate bytes.
  (The code adds as \<open>int32_t\<close> and converts back; the addition here wraps as the hardware's does.)\<close>

definition branch_target :: "u32 \<Rightarrow> INSTRUCTION \<Rightarrow> u32" where
  "branch_target va i =
     va + of_nat (ilength i) + (case get_operand_immediate (op1 i) of None \<Rightarrow> 0 | Some v \<Rightarrow> v)"

definition direct_target :: "u32 \<Rightarrow> INSTRUCTION \<Rightarrow> u32 list" where
  "direct_target va i = (if op_type (op1 i) = OPERAND_TYPE_IMMEDIATE then [branch_target va i] else [])"

text \<open>Whether the walk goes on, the targets it pushes, and the structure address of a
  \<open>lea reg, [disp]\<close>.\<close>

definition process_insn :: "u32 \<Rightarrow> INSTRUCTION \<Rightarrow> bool \<times> u32 list \<times> u32 option" where
  "process_insn va i =
     (if itype i = INSTRUCTION_TYPE_JMP then (False, direct_target va i, None)
      else if itype i = INSTRUCTION_TYPE_JMPC then (True, direct_target va i, None)
      else if itype i = INSTRUCTION_TYPE_CALL then
        (False, direct_target va i @ [va + of_nat (ilength i)], None)
      else if itype i = INSTRUCTION_TYPE_RET then (False, [], None)
      else if itype i = INSTRUCTION_TYPE_LEA then
        (True, [],
         if op_type (op2 i) = OPERAND_TYPE_MEMORY \<and> get_operand_basereg (op2 i) = LIBDASM_REGISTER_NOP \<and>
            get_operand_indexreg (op2 i) = LIBDASM_REGISTER_NOP
         then get_operand_displacement (op2 i) else None)
      else (True, [], None))"

text \<open>A \<open>std::set\<close> of addresses is its sorted list of elements.\<close>

definition set_insert_opt :: "u32 option \<Rightarrow> u32 list \<Rightarrow> u32 list" where
  "set_insert_opt x s = (case x of None \<Rightarrow> s | Some a \<Rightarrow> insort_insert a s)"

subsection \<open>The walk\<close>

fun process_loop ::
    "nat \<Rightarrow> memory \<Rightarrow> StaticTrace \<Rightarrow> u32 \<Rightarrow> u32 list \<Rightarrow> u32 list \<Rightarrow>
     run_error + StaticTrace \<times> u32 list \<times> u32 list" where
  "process_loop 0 mem t inst_va gen_targets lea_targets = Inl Out_Of_Fuel"
| "process_loop (Suc fuel) mem t inst_va gen_targets lea_targets =
     (if IsAddrCode t inst_va then
        (case get_instruction (bytes_at mem inst_va) MODE_32 of
           Inr i \<Rightarrow>
             let t' = t\<lparr>m_size := m_size t + of_nat (ilength i)\<rparr>;
                 (go_on, targets, lea) = process_insn inst_va i;
                 gen' = gen_targets @ targets; lea' = set_insert_opt lea lea_targets
             in if go_on then process_loop fuel mem t' (inst_va + of_nat (ilength i)) gen' lea'
                else Inr (t', gen', lea')
         | Inl e \<Rightarrow> if e = IllegalInstruction then Inr (t, gen_targets, lea_targets)
                    else Inl Access_Violation)
      else Inr (t, gen_targets, lea_targets))"

text \<open>An iteration moves on by at least one byte inside the section, so one more than the section's
  size is enough fuel.\<close>

definition process_trace ::
    "memory \<Rightarrow> StaticTrace \<Rightarrow> u32 list \<Rightarrow> u32 list \<Rightarrow> run_error + StaticTrace \<times> u32 list \<times> u32 list" where
  "process_trace mem t gen_targets lea_targets =
     process_loop (unat (m_code_section_size t) + 1) mem t (m_start t) gen_targets lea_targets"

subsection \<open>What the walk promises\<close>

text \<open>The instructions that end a trace, and where control can go from an instruction other than to the one behind
  it in the same trace: to the target of a direct branch, which lies its displacement behind the next instruction, and
  from a call to the next instruction. A structure address is the displacement of a \<open>lea\<close> from memory without registers.
  These are stated over the decoded fields, apart from the cases of \<open>process_insn\<close>.\<close>

definition ends_trace :: "INSTRUCTION \<Rightarrow> bool" where
  "ends_trace i \<longleftrightarrow> itype i = INSTRUCTION_TYPE_JMP \<or> itype i = INSTRUCTION_TYPE_CALL \<or> itype i = INSTRUCTION_TYPE_RET"

definition insn_next :: "u32 \<Rightarrow> INSTRUCTION \<Rightarrow> u32" where
  "insn_next va i = va + of_nat (ilength i)"

definition direct_branch :: "INSTRUCTION \<Rightarrow> bool" where
  "direct_branch i \<longleftrightarrow> itype i \<in> {INSTRUCTION_TYPE_JMP, INSTRUCTION_TYPE_JMPC, INSTRUCTION_TYPE_CALL} \<and>
     op_type (op1 i) = OPERAND_TYPE_IMMEDIATE"

definition branch_displacement :: "INSTRUCTION \<Rightarrow> u32" where
  "branch_displacement i = (if op_immbytes (op1 i) = 0 then 0 else immediate (op1 i))"

definition insn_targets :: "u32 \<times> INSTRUCTION \<Rightarrow> u32 list" where
  "insn_targets = (\<lambda>(va, i).
     (if direct_branch i then [insn_next va i + branch_displacement i] else []) @
     (if itype i = INSTRUCTION_TYPE_CALL then [insn_next va i] else []))"

definition insn_lea :: "u32 \<times> INSTRUCTION \<Rightarrow> u32 option" where
  "insn_lea = (\<lambda>(va, i).
     if itype i = INSTRUCTION_TYPE_LEA \<and> op_type (op2 i) = OPERAND_TYPE_MEMORY \<and> op_dispbytes (op2 i) \<noteq> 0 \<and>
        basereg (op2 i) = LIBDASM_REGISTER_NOP \<and> indexreg (op2 i) = LIBDASM_REGISTER_NOP
     then Some (displacement (op2 i)) else None)"

text \<open>\<open>walk mem t va is\<close>: from \<open>va\<close> on, the instructions of \<open>is\<close> stand in memory one behind the
  other inside the code section, up to the first one that ends the trace, an illegal one or the
  end of the section.\<close>

inductive walk :: "memory \<Rightarrow> StaticTrace \<Rightarrow> u32 \<Rightarrow> (u32 \<times> INSTRUCTION) list \<Rightarrow> bool"
  for mem :: memory and t :: StaticTrace where
  outside: "\<not> IsAddrCode t va \<Longrightarrow> walk mem t va []"
| illegal: "IsAddrCode t va \<Longrightarrow> get_instruction (bytes_at mem va) MODE_32 = Inl IllegalInstruction \<Longrightarrow>
    walk mem t va []"
| ending: "IsAddrCode t va \<Longrightarrow> get_instruction (bytes_at mem va) MODE_32 = Inr i \<Longrightarrow> ends_trace i \<Longrightarrow>
    walk mem t va [(va, i)]"
| going: "IsAddrCode t va \<Longrightarrow> get_instruction (bytes_at mem va) MODE_32 = Inr i \<Longrightarrow> \<not> ends_trace i \<Longrightarrow>
    walk mem t (va + of_nat (ilength i)) is \<Longrightarrow> walk mem t va ((va, i) # is)"

definition walk_bytes :: "(u32 \<times> INSTRUCTION) list \<Rightarrow> nat" where
  "walk_bytes is = sum_list (map (ilength \<circ> snd) is)"

definition walk_result ::
    "StaticTrace \<Rightarrow> u32 list \<Rightarrow> u32 list \<Rightarrow> (u32 \<times> INSTRUCTION) list \<Rightarrow> StaticTrace \<times> u32 list \<times> u32 list" where
  "walk_result t gen lea is =
     (t\<lparr>m_size := m_size t + of_nat (walk_bytes is)\<rparr>, gen @ concat (map insn_targets is),
      fold (set_insert_opt \<circ> insn_lea) is lea)"

lemma control_types:
  "INSTRUCTION_TYPE_JMPC \<noteq> INSTRUCTION_TYPE_JMP" "INSTRUCTION_TYPE_JMPC \<noteq> INSTRUCTION_TYPE_CALL"
  "INSTRUCTION_TYPE_JMPC \<noteq> INSTRUCTION_TYPE_RET" "INSTRUCTION_TYPE_CALL \<noteq> INSTRUCTION_TYPE_JMP"
  "INSTRUCTION_TYPE_LEA \<noteq> INSTRUCTION_TYPE_JMP" "INSTRUCTION_TYPE_LEA \<noteq> INSTRUCTION_TYPE_CALL"
  "INSTRUCTION_TYPE_LEA \<noteq> INSTRUCTION_TYPE_RET" "INSTRUCTION_TYPE_LEA \<noteq> INSTRUCTION_TYPE_JMPC"
  by (simp_all add: libdasm_consts)

lemma process_insn_goes_on [simp]: "fst (process_insn va i) \<longleftrightarrow> \<not> ends_trace i"
  unfolding process_insn_def ends_trace_def using control_types
  by (cases "itype i = INSTRUCTION_TYPE_JMP") simp_all

text \<open>One instruction of the code's walk does what its kind says.\<close>

lemma branch_target_displacement: "branch_target va i = insn_next va i + branch_displacement i"
  by (simp add: branch_target_def insn_next_def branch_displacement_def get_operand_immediate_def)

lemma process_insn_split: "process_insn va i = (\<not> ends_trace i, insn_targets (va, i), insn_lea (va, i))"
proof -
  have "fst (snd (process_insn va i)) = insn_targets (va, i)"
    using control_types
    by (auto simp: process_insn_def insn_targets_def direct_target_def direct_branch_def branch_target_displacement insn_next_def
        split: if_split)
  moreover have "snd (snd (process_insn va i)) = insn_lea (va, i)"
    using control_types
    by (auto simp: process_insn_def insn_lea_def get_operand_basereg_def get_operand_indexreg_def get_operand_displacement_def
        split: if_split)
  ultimately show ?thesis by (simp add: prod_eq_iff)
qed

lemma IsAddrCode_resized [simp]: "IsAddrCode (t\<lparr>m_size := s\<rparr>) va = IsAddrCode t va"
  by (simp add: IsAddrCode_def)

lemma walk_resized [simp]: "walk mem (t\<lparr>m_size := s\<rparr>) va is = walk mem t va is"
proof
  show "walk mem t va is" if "walk mem (t\<lparr>m_size := s\<rparr>) va is"
    using that by induction (auto intro: walk.intros)
  show "walk mem (t\<lparr>m_size := s\<rparr>) va is" if "walk mem t va is"
    using that by induction (auto intro: walk.intros)
qed

lemma walk_result_Nil [simp]: "walk_result t gen lea [] = (t, gen, lea)"
  by (simp add: walk_result_def walk_bytes_def)

lemma walk_result_Cons:
  "walk_result t gen lea (x # is) =
     walk_result (t\<lparr>m_size := m_size t + of_nat (ilength (snd x))\<rparr>) (gen @ insn_targets x)
       (set_insert_opt (insn_lea x) lea) is"
  by (simp add: walk_result_def walk_bytes_def algebra_simps)

lemma process_loop_walk:
  "process_loop fuel mem t va gen lea = Inr r \<Longrightarrow> \<exists>is. walk mem t va is \<and> r = walk_result t gen lea is"
proof (induction fuel arbitrary: t va gen lea)
  case (Suc fuel)
  show ?case
  proof (cases "IsAddrCode t va")
    case True
    show ?thesis
    proof (cases "get_instruction (bytes_at mem va) MODE_32")
      case (Inl e)
      with Suc.prems True have "e = IllegalInstruction" "r = walk_result t gen lea []"
        by (auto split: if_splits)
      with True Inl show ?thesis by (blast intro: walk.intros)
    next
      case (Inr i)
      show ?thesis
      proof (cases "ends_trace i")
        case True': True
        with Suc.prems True Inr have "r = walk_result t gen lea [(va, i)]"
          by (simp add: process_insn_split walk_result_Cons)
        with True True' Inr show ?thesis by (blast intro: walk.intros)
      next
        case False
        with Suc.prems True Inr have "process_loop fuel mem (t\<lparr>m_size := m_size t + of_nat (ilength i)\<rparr>)
            (va + of_nat (ilength i)) (gen @ insn_targets (va, i)) (set_insert_opt (insn_lea (va, i)) lea) = Inr r"
          by (simp add: process_insn_split)
        from Suc.IH [OF this] obtain "is" where w: "walk mem t (va + of_nat (ilength i)) is"
          and r: "r = walk_result (t\<lparr>m_size := m_size t + of_nat (ilength i)\<rparr>)
            (gen @ insn_targets (va, i)) (set_insert_opt (insn_lea (va, i)) lea) is" by auto
        from w True Inr False have "walk mem t va ((va, i) # is)" by (intro walk.going)
        moreover from r have "r = walk_result t gen lea ((va, i) # is)" by (simp add: walk_result_Cons)
        ultimately show ?thesis by blast
      qed
    qed
  next
    case False
    with Suc.prems have "r = walk_result t gen lea []" by simp
    with False show ?thesis by (blast intro: walk.intros)
  qed
qed simp

inductive_cases walk_ConsE: "walk mem t va (x # is)"
inductive_simps walk_Nil: "walk mem t va []"

lemma walk_deterministic: "walk mem t va is \<Longrightarrow> walk mem t va is' \<Longrightarrow> is = is'"
proof (induction arbitrary: is' rule: walk.induct)
  case (going va i "is")
  from going.prems show ?case
    by (cases rule: walk.cases) (use going.hyps in simp_all, use going.IH in blast)
next
  case (outside va)
  from outside.prems show ?case by (cases rule: walk.cases) (use outside.hyps in simp_all)
next
  case (illegal va)
  from illegal.prems show ?case by (cases rule: walk.cases) (use illegal.hyps in simp_all)
next
  case (ending va i)
  from ending.prems show ?case by (cases rule: walk.cases) (use ending.hyps in simp_all)
qed

lemma insn_step:
  assumes wf: "wf_memory mem" and i: "get_instruction (bytes_at mem va) MODE_32 = Inr i"
  shows "0 < ilength i" "ilength i \<le> length (bytes_at mem va)"
    "unat (va + of_nat (ilength i)) = unat va + ilength i"
proof -
  from get_instruction_length [OF i] show "0 < ilength i" and le: "ilength i \<le> length (bytes_at mem va)" by auto
  from le bytes_at_bound [OF wf, of va] show "unat (va + of_nat (ilength i)) = unat va + ilength i"
    by (intro unat_add_no_wrap) simp
qed

definition code_end :: "StaticTrace \<Rightarrow> u32" where
  "code_end t = m_code_section_start t + m_code_section_size t"

lemma IsAddrCode_less: "IsAddrCode t va \<longleftrightarrow> m_code_section_start t \<le> va \<and> va < code_end t"
  by (auto simp: IsAddrCode_def code_end_def)

lemma process_loop_fuel:
  assumes wf: "wf_memory mem"
  shows "unat (code_end t) - unat va < fuel \<Longrightarrow> process_loop fuel mem t va gen lea \<noteq> Inl Out_Of_Fuel"
proof (induction fuel arbitrary: t va gen lea)
  case (Suc fuel)
  show ?case
  proof (cases "IsAddrCode t va \<and> (\<exists>i. get_instruction (bytes_at mem va) MODE_32 = Inr i)")
    case True
    then obtain i where code: "IsAddrCode t va" and i: "get_instruction (bytes_at mem va) MODE_32 = Inr i" by blast
    let ?t = "t\<lparr>m_size := m_size t + of_nat (ilength i)\<rparr>"
    from code have "unat va < unat (code_end t)" by (simp add: IsAddrCode_less word_less_nat_alt)
    moreover have "code_end ?t = code_end t" by (simp add: code_end_def)
    ultimately have "unat (code_end ?t) - unat (va + of_nat (ilength i)) < fuel"
      using Suc.prems insn_step [OF wf i] by simp
    from Suc.IH [OF this] code i show ?thesis by (simp add: process_insn_split Let_def)
  next
    case False
    then show ?thesis by (auto split: sum.split)
  qed
qed simp

lemma section_room:
  assumes "IsAddrCode t va"
  shows "unat (code_end t) - unat va < unat (m_code_section_size t) + 1"
proof -
  from assms have "m_code_section_start t \<le> va" "va < code_end t" by (simp_all add: IsAddrCode_less)
  then have "unat (code_end t - m_code_section_start t) = unat (code_end t) - unat (m_code_section_start t)"
    and "unat (m_code_section_start t) \<le> unat va"
    by (simp_all add: unat_diff_le word_le_nat_alt word_less_nat_alt)
  then show ?thesis by (simp add: code_end_def)
qed

lemma process_trace_no_fuel:
  assumes "wf_memory mem"
  shows "process_trace mem t gen lea \<noteq> Inl Out_Of_Fuel"
proof (cases "IsAddrCode t (m_start t)")
  case True
  from process_loop_fuel [OF assms section_room [OF True]] show ?thesis by (simp add: process_trace_def)
qed (simp add: process_trace_def)

lemma walk_process_loop:
  "walk mem t va is \<Longrightarrow> process_loop fuel mem t va gen lea \<in> {Inl Out_Of_Fuel, Inr (walk_result t gen lea is)}"
proof (induction fuel arbitrary: t va gen lea "is")
  case (Suc fuel)
  from Suc.prems show ?case
  proof (cases rule: walk.cases)
    case (ending i)
    then show ?thesis by (simp add: process_insn_split walk_result_Cons)
  next
    case (going i is')
    let ?t = "t\<lparr>m_size := m_size t + of_nat (ilength i)\<rparr>"
    from going have "walk mem ?t (va + of_nat (ilength i)) is'" by simp
    from Suc.IH [OF this] going show ?thesis by (simp add: process_insn_split walk_result_Cons Let_def)
  qed simp_all
qed simp

lemma process_trace_walk_iff:
  assumes wf: "wf_memory mem"
  shows "process_trace mem t gen lea = Inr r \<longleftrightarrow> (\<exists>is. walk mem t (m_start t) is \<and> r = walk_result t gen lea is)"
proof
  show "\<exists>is. walk mem t (m_start t) is \<and> r = walk_result t gen lea is" if "process_trace mem t gen lea = Inr r"
    using process_loop_walk that unfolding process_trace_def by blast
  assume "\<exists>is. walk mem t (m_start t) is \<and> r = walk_result t gen lea is"
  then obtain "is" where "walk mem t (m_start t) is" and r: "r = walk_result t gen lea is" by blast
  from walk_process_loop [OF this(1)] process_trace_no_fuel [OF wf, of t gen lea] r
  show "process_trace mem t gen lea = Inr r" unfolding process_trace_def by blast
qed

lemma walk_fits:
  assumes wf: "wf_memory mem"
  shows "walk mem t va is \<Longrightarrow> unat va + walk_bytes is < 2 ^ 32"
proof (induction rule: walk.induct)
  case (ending va i)
  with insn_step [OF wf ending(2)] u32_bound [of "va + of_nat (ilength i)"] show ?case by (simp add: walk_bytes_def)
next
  case (going va i "is")
  with insn_step [OF wf going(2)] show ?case by (simp add: walk_bytes_def)
qed (use u32_bound in \<open>simp_all add: walk_bytes_def\<close>)

lemma walk_above:
  assumes wf: "wf_memory mem"
  shows "walk mem t va is \<Longrightarrow> x \<in> set is \<Longrightarrow> unat va \<le> unat (fst x)"
proof (induction rule: walk.induct)
  case (going va i "is")
  with insn_step [OF wf going(2)] show ?case by auto
qed simp_all

lemma walk_suffix:
  "walk mem t va (xs @ (va', i) # ys) \<Longrightarrow> walk mem t va' ((va', i) # ys)"
proof (induction xs arbitrary: va)
  case Nil
  then show ?case by (auto elim!: walk_ConsE intro: walk.intros)
next
  case (Cons x xs)
  from Cons.prems show ?case by (auto elim!: walk_ConsE intro: Cons.IH)
qed

lemma walk_position:
  assumes wf: "wf_memory mem"
  shows "walk mem t va (xs @ (va', i) # ys) \<Longrightarrow> unat va' = unat va + walk_bytes xs"
proof (induction xs arbitrary: va)
  case Nil
  then show ?case by (auto elim!: walk_ConsE simp: walk_bytes_def)
next
  case (Cons x xs)
  from Cons.prems obtain j where j: "get_instruction (bytes_at mem va) MODE_32 = Inr j" "x = (va, j)"
    "walk mem t (va + of_nat (ilength j)) (xs @ (va', i) # ys)"
    by (auto elim!: walk_ConsE)
  from Cons.IH [OF j(3)] insn_step [OF wf j(1)] j(2) show ?case by (simp add: walk_bytes_def)
qed

lemma walk_tiles:
  assumes wf: "wf_memory mem"
  shows "walk mem t va is \<Longrightarrow> unat va \<le> a \<Longrightarrow> a < unat va + walk_bytes is \<Longrightarrow>
    \<exists>!x. x \<in> set is \<and> unat (fst x) \<le> a \<and> a < unat (fst x) + ilength (snd x)"
proof (induction rule: walk.induct)
  case (ending va i)
  then show ?case by (auto simp: walk_bytes_def)
next
  case (going va i "is")
  have start: "unat va + ilength i \<le> unat (fst x)" if "x \<in> set is" for x
    using walk_above [OF wf going(4) that] insn_step [OF wf going(2)] by simp
  show ?case
  proof (cases "a < unat va + ilength i")
    case True
    show ?thesis
    proof (rule ex1I [of _ "(va, i)"])
      show "x = (va, i)" if "x \<in> set ((va, i) # is) \<and> unat (fst x) \<le> a \<and> a < unat (fst x) + ilength (snd x)" for x
        using that True start [of x] by auto
    qed (use True going.prems in simp)
  next
    case False
    with going insn_step [OF wf going(2)]
    have "\<exists>!x. x \<in> set is \<and> unat (fst x) \<le> a \<and> a < unat (fst x) + ilength (snd x)"
      by (intro going.IH) (auto simp: walk_bytes_def)
    then obtain y where y: "y \<in> set is" "unat (fst y) \<le> a" "a < unat (fst y) + ilength (snd y)"
      and uniq: "\<And>x. x \<in> set is \<Longrightarrow> unat (fst x) \<le> a \<Longrightarrow> a < unat (fst x) + ilength (snd x) \<Longrightarrow> x = y" by blast
    show ?thesis
    proof (rule ex1I [of _ y])
      show "x = y" if "x \<in> set ((va, i) # is) \<and> unat (fst x) \<le> a \<and> a < unat (fst x) + ilength (snd x)" for x
        using that False uniq [of x] by auto
    qed (use y in simp)
  qed
qed (simp_all add: walk_bytes_def)

lemma walk_section:
  assumes "walk mem t va is" "m_code_section_start t' = m_code_section_start t"
    "m_code_section_size t' = m_code_section_size t"
  shows "walk mem t' va is"
proof -
  have same: "IsAddrCode t' = IsAddrCode t" using assms(2,3) by (simp add: IsAddrCode_def fun_eq_iff)
  from assms(1) show ?thesis by induction (auto intro: walk.intros simp: same)
qed

subsection \<open>Direct branches and their encoding\<close>

text \<open>A 32-bit displacement as it stands in memory.\<close>

definition le32 :: "u32 \<Rightarrow> u8 list" where
  "le32 d = [ucast d, ucast (drop_bit 8 d), ucast (drop_bit 16 d), ucast (drop_bit 24 d)]"

lemma le32_bytes:
  fixes d :: u32
  shows "(ucast (ucast d :: u8) :: u32) OR push_bit 8 (ucast (ucast (drop_bit 8 d) :: u8)) OR
    push_bit 16 (ucast (ucast (drop_bit 16 d) :: u8)) OR push_bit 24 (ucast (ucast (drop_bit 24 d) :: u8)) = d"
proof (rule bit_word_eqI)
  fix n assume "n < LENGTH(32)"
  then consider "n < 8" | "8 \<le> n" "n < 16" | "16 \<le> n" "n < 24" | "24 \<le> n" "n < 32" by fastforce
  then show "bit ((ucast (ucast d :: u8) :: u32) OR push_bit 8 (ucast (ucast (drop_bit 8 d) :: u8)) OR
    push_bit 16 (ucast (ucast (drop_bit 16 d) :: u8)) OR push_bit 24 (ucast (ucast (drop_bit 24 d) :: u8))) n = bit d n"
    by cases (auto simp: bit_simps)
qed

lemma FETCH32_le32: "FETCH32 (xs @ le32 d @ ys) (length xs) = Inr d"
  by (simp add: FETCH32_def FETCH8_def le32_def nth_append le32_bytes)

lemma bit7_iff: "0x80 \<le> (ucast b :: u32) \<longleftrightarrow> bit (b :: u8) 7"
proof -
  have "bit b 7 \<longleftrightarrow> bit (unat b) 7" by (simp add: bit_unsigned_iff)
  also have "\<dots> \<longleftrightarrow> odd (unat b div 128)" by (simp add: bit_iff_odd)
  also have "\<dots> \<longleftrightarrow> 128 \<le> unat b"
  proof -
    have "unat b div 128 = (if unat b < 128 then 0 else 1)"
      using u8_bound [of b] by (auto intro: div_nat_eqI)
    then show ?thesis by simp
  qed
  also have "\<dots> \<longleftrightarrow> 0x80 \<le> (ucast b :: u32)"
    using u8_bound [of b] by (simp add: word_le_nat_alt unsigned_ucast_eq take_bit_nat_eq_self)
  finally show ?thesis ..
qed

lemma high_bits: "(0xffffff00 :: u32) = push_bit 8 (mask 24)"
  by (simp add: mask_eq_exp_minus_1)

lemma sign_extend8_scast: "sign_extend8 b = scast b"
proof (rule bit_word_eqI)
  fix n assume n: "n < LENGTH(32)"
  have "bit (scast b :: u32) n \<longleftrightarrow> bit b (min n 7)"
    using n by (cases "n < 7") (simp_all add: bit_simps min_def)
  moreover have "bit (sign_extend8 b) n \<longleftrightarrow> bit b (min n 7)"
    using n bit_imp_le_length [of b n]
    by (cases "n = 7") (auto simp: sign_extend8_def Let_def bit7_iff high_bits bit_simps min_def not_less_eq_eq split: if_splits)
  ultimately show "bit (sign_extend8 b) n = bit (scast b :: u32) n" by simp
qed

text \<open>A row with one relative operand of \<open>n\<close> bytes and no MODRM byte.\<close>

definition relative_row :: "u32 \<Rightarrow> u32 \<Rightarrow> INST \<Rightarrow> bool" where
  "relative_row ty ot row \<longleftrightarrow> inst_type row = ty \<and> mnemonic row \<noteq> None \<and> flags1 row = AM_J OR ot OR P_x \<and>
     flags2 row = FLAGS_NONE \<and> flags3 row = FLAGS_NONE \<and> \<not> inst_modrm row"

lemma half_tables:
  "length inst_table1_lo = 128" "length inst_table2_lo = 128"
  by (simp_all add: inst_table1_lo_def inst_table2_lo_def)

lemma relative_rows:
  "relative_row INSTRUCTION_TYPE_CALL OT_v (inst_table1 ! 0xe8)"
  "relative_row INSTRUCTION_TYPE_JMP OT_v (inst_table1 ! 0xe9)"
  "relative_row INSTRUCTION_TYPE_JMP OT_b (inst_table1 ! 0xeb)"
  unfolding inst_table1_def nth_append half_tables
  by (simp_all add: inst_table1_hi_def relative_row_def)

lemma relative_rows_jcc:
  assumes "c < 16"
  shows "relative_row INSTRUCTION_TYPE_JMPC OT_b (inst_table1 ! (0x70 + c))"
    and "relative_row INSTRUCTION_TYPE_JMPC OT_v (inst_table2 ! (0x80 + c))"
proof -
  have "list_all (relative_row INSTRUCTION_TYPE_JMPC OT_b) (drop 0x70 inst_table1_lo)"
    by (simp add: inst_table1_lo_def relative_row_def)
  moreover have "inst_table1 ! (0x70 + c) = drop 0x70 inst_table1_lo ! c"
    using assms by (simp add: inst_table1_def nth_append half_tables)
  ultimately show "relative_row INSTRUCTION_TYPE_JMPC OT_b (inst_table1 ! (0x70 + c))"
    using assms by (simp add: list_all_length half_tables)
  have "list_all (relative_row INSTRUCTION_TYPE_JMPC OT_v) (take 16 inst_table2_hi)" "16 \<le> length inst_table2_hi"
    by (simp_all add: inst_table2_hi_def relative_row_def)
  moreover have "inst_table2 ! (0x80 + c) = inst_table2_hi ! c"
    by (simp add: inst_table2_def nth_append half_tables)
  ultimately show "relative_row INSTRUCTION_TYPE_JMPC OT_v (inst_table2 ! (0x80 + c))"
    using assms by (simp add: list_all_length)
qed

lemma relative_flags [simp]:
  "MASK_AM (AM_J OR OT_v OR P_x) = AM_J" "MASK_AM (AM_J OR OT_b OR P_x) = AM_J"
  "MASK_OT ((AM_J OR OT_v OR P_x) OR F_s) = OT_v" "MASK_OT ((AM_J OR OT_b OR P_x) OR F_s) = OT_b"
  "MASK_FLAGS ((AM_J OR OT_b OR P_x) OR F_s) = F_s"
  "AM_J OR OT_v OR P_x \<noteq> FLAGS_NONE" "AM_J OR OT_b OR P_x \<noteq> FLAGS_NONE"
  by code_simp+

lemma AM_J_distinct [simp]:
  "AM_J \<noteq> AM_LIBDASM_REG" "AM_J \<noteq> AM_IND" "AM_J \<noteq> AM_M" "AM_J \<noteq> AM_R" "AM_J \<noteq> AM_Q" "AM_J \<noteq> AM_W"
  "AM_J \<noteq> AM_E" "AM_J \<noteq> AM_I1"
  by code_simp+

lemma decode_relative:
  assumes row: "relative_row ty ot row" and ot: "ot = OT_v \<or> ot = OT_b"
  and "fresh instr" "MASK_PREFIX_OPERAND flags = 0"
  and v: "immediate_value ((AM_J OR ot OR P_x) OR F_s) zero_OPERAND bs index MODE_32 = Inr (n, v)"
  shows "\<exists>i. decode_row bs MODE_32 row index flags instr = Inr i \<and> itype i = MASK_TYPE_VALUE ty \<and>
    ilength i = index + n \<and> op_type (op1 i) = OPERAND_TYPE_IMMEDIATE \<and>
    op_immbytes (op1 i) = n \<and> immediate (op1 i) = v"
proof -
  have m: "MODE_CHECK_OPERAND MODE_32 flags = MODE_32" using assms(4) by (simp add: MODE_CHECK_OPERAND_def)
  have am: "MASK_AM (AM_J OR ot OR P_x) = AM_J" and none: "AM_J OR ot OR P_x \<noteq> FLAGS_NONE" using ot by auto
  have v': "immediate_value ((AM_J OR ot OR P_x) OR F_s) (zero_OPERAND\<lparr>op_flags := f, reg := r, basereg := b,
      indexreg := x, dispoffset := 0, immoffset := 0\<rparr>) bs index MODE_32 = Inr (n, v)" for f r b x
    using v ot by (auto simp: immediate_value_def)
  show ?thesis
    using row assms(3) by (auto simp: decode_row_def relative_row_def get_operand_def fresh_def none Let_def
      operand_switch_def am immediate_operand_def no_modrm_def m v')
qed

lemma immediate_relative:
  "immediate_value ((AM_J OR OT_v OR P_x) OR F_s) op bs at MODE_32 = bind_r (FETCH32 bs at) (\<lambda>v. Inr (4, v))"
  "immediate_value ((AM_J OR OT_b OR P_x) OR F_s) op bs at mode = bind_r (FETCH8 bs at) (\<lambda>b. Inr (1, scast b))"
proof -
  have "OT_v \<noteq> OT_b" by code_simp
  then show "immediate_value ((AM_J OR OT_v OR P_x) OR F_s) op bs at MODE_32 = bind_r (FETCH32 bs at) (\<lambda>v. Inr (4, v))"
    unfolding immediate_value_def relative_flags by simp
  show "immediate_value ((AM_J OR OT_b OR P_x) OR F_s) op bs at mode = bind_r (FETCH8 bs at) (\<lambda>b. Inr (1, scast b))"
    unfolding immediate_value_def relative_flags sign_extend8_scast by simp
qed

lemma decode_near:
  "relative_row ty OT_v row \<Longrightarrow> fresh instr \<Longrightarrow> MASK_PREFIX_OPERAND flags = 0 \<Longrightarrow>
   \<exists>i. decode_row (xs @ le32 d @ ys) MODE_32 row (length xs) flags instr = Inr i \<and> itype i = MASK_TYPE_VALUE ty \<and>
     ilength i = length xs + 4 \<and> op_type (op1 i) = OPERAND_TYPE_IMMEDIATE \<and>
     op_immbytes (op1 i) = 4 \<and> immediate (op1 i) = d"
  by (erule decode_relative, simp, assumption, assumption, simp add: immediate_relative FETCH32_le32)

lemma decode_short:
  "relative_row ty OT_b row \<Longrightarrow> fresh instr \<Longrightarrow> MASK_PREFIX_OPERAND flags = 0 \<Longrightarrow>
   \<exists>i. decode_row (xs @ b # ys) MODE_32 row (length xs) flags instr = Inr i \<and> itype i = MASK_TYPE_VALUE ty \<and>
     ilength i = length xs + 1 \<and> op_type (op1 i) = OPERAND_TYPE_IMMEDIATE \<and>
     op_immbytes (op1 i) = 1 \<and> immediate (op1 i) = scast b"
  by (erule decode_relative, simp, assumption, assumption, simp add: immediate_relative FETCH8_def)

lemma jcc_opcodes:
  "list_all (\<lambda>c. prefix_flags (0x70 + word_of_nat c) 0 = None \<and> opcode_extension (0x70 + word_of_nat c) = (0, 0) \<and>
     unat (0x70 + word_of_nat c :: u8) = 0x70 + c) [0..<16]"
  "list_all (\<lambda>c. get_real_instruction2 (0x80 + word_of_nat c) EXT_T2 = EXT_T2 \<and>
     unat (0x80 + word_of_nat c :: u8) = 0x80 + c) [0..<16]"
  by code_simp+

lemma branch_opcodes:
  "prefix_flags 0xe8 0 = None" "prefix_flags 0xe9 0 = None" "prefix_flags 0xeb 0 = None" "prefix_flags 0x0f 0 = None"
  "opcode_extension 0xe8 = (0, 0)" "opcode_extension 0xe9 = (0, 0)" "opcode_extension 0xeb = (0, 0)"
  "opcode_extension 0x0f = (1, EXT_T2)" "MASK_EXT 0 = 0" "MASK_EXT EXT_T2 = EXT_T2" "MASK_PREFIX_OPERAND 0 = 0"
  "MASK_PREFIX_OPERAND EXT_T2 = 0" "MASK_TYPE_FLAGS INSTRUCTION_TYPE_JMPC \<noteq> TYPE_3"
  "MASK_TYPE_VALUE INSTRUCTION_TYPE_JMPC = INSTRUCTION_TYPE_JMPC"
  "MASK_TYPE_VALUE INSTRUCTION_TYPE_JMP = INSTRUCTION_TYPE_JMP"
  "MASK_TYPE_VALUE INSTRUCTION_TYPE_CALL = INSTRUCTION_TYPE_CALL"
  by code_simp+

lemma get_instruction_one_byte:
  assumes "prefix_flags b 0 = None" "opcode_extension b = (0, 0)"
  shows "get_instruction (b # bs) mode =
    decode_row (b # bs) mode (inst_table1 ! unat b) 1 0 (zero_INSTRUCTION\<lparr>opcode := b\<rparr>)"
  using assms u8_bound [of b]
  by (simp add: get_instruction_def select_table_def select_extension_def FETCH8_def table_row_def
    inst_table1_ok branch_opcodes)

lemma get_instruction_two_byte:
  assumes "get_real_instruction2 b EXT_T2 = EXT_T2" "MASK_TYPE_FLAGS (inst_type (inst_table2 ! unat b)) \<noteq> TYPE_3"
  shows "get_instruction (0x0f # b # bs) mode =
    decode_row (0x0f # b # bs) mode (inst_table2 ! unat b) 2 EXT_T2 (zero_INSTRUCTION\<lparr>opcode := b\<rparr>)"
  using assms u8_bound [of b]
  by (simp add: get_instruction_def select_table_def select_extension_def FETCH8_def table_row_def
    inst_table2_ok branch_opcodes Let_def numeral_2_eq_2)

lemma direct_targetI:
  "op_type (op1 i) = OPERAND_TYPE_IMMEDIATE \<Longrightarrow> op_immbytes (op1 i) \<noteq> 0 \<Longrightarrow>
   direct_target va i = [va + of_nat (ilength i) + immediate (op1 i)]"
  by (simp add: direct_target_def branch_target_def get_operand_immediate_def)

text \<open>C17. A \<open>call\<close> or \<open>jmp\<close> with a 32-bit displacement, at any address, decodes to 5 bytes and its type,
  and the target the trace walk computes for it is the address the displacement was made for
  (displacements wrap around at 32 bits).\<close>

theorem near_branch_target:
  "\<exists>i. get_instruction ((if c then 0xe8 else 0xe9) # le32 (target - (va + 5)) @ rest) MODE_32 = Inr i \<and>
     itype i = (if c then INSTRUCTION_TYPE_CALL else INSTRUCTION_TYPE_JMP) \<and> ilength i = 5 \<and>
     direct_target va i = [target]"
proof (cases c)
  case True
  from decode_near [OF relative_rows(1), of "zero_INSTRUCTION\<lparr>opcode := 0xe8\<rparr>" 0 "[0xe8]" "target - (va + 5)" rest] True
  show ?thesis by (auto simp: get_instruction_one_byte branch_opcodes direct_targetI)
next
  case False
  from decode_near [OF relative_rows(2), of "zero_INSTRUCTION\<lparr>opcode := 0xe9\<rparr>" 0 "[0xe9]" "target - (va + 5)" rest] False
  show ?thesis by (auto simp: get_instruction_one_byte branch_opcodes direct_targetI)
qed

text \<open>C29. The sixteen conditional jumps: with a 32-bit displacement (6 bytes, \<open>0f 80\<close> to \<open>0f 8f\<close>) the
  target is the one encoded; with a byte (2 bytes, \<open>70\<close> to \<open>7f\<close>) the displacement is sign-extended.\<close>

theorem conditional_branch_target:
  assumes "c < 16"
  shows "(\<exists>i. get_instruction (0x0f # (0x80 + word_of_nat c) # le32 (target - (va + 6)) @ rest) MODE_32 = Inr i \<and>
      itype i = INSTRUCTION_TYPE_JMPC \<and> ilength i = 6 \<and> direct_target va i = [target]) \<and>
    (\<exists>i. get_instruction ((0x70 + word_of_nat c) # b # rest) MODE_32 = Inr i \<and>
      itype i = INSTRUCTION_TYPE_JMPC \<and> ilength i = 2 \<and> direct_target va i = [va + 2 + scast b])"
proof -
  let ?n = "0x80 + word_of_nat c :: u8" and ?s = "0x70 + word_of_nat c :: u8"
  note rows = relative_rows_jcc [OF assms]
  have ops: "prefix_flags ?s 0 = None" "opcode_extension ?s = (0, 0)" "unat ?s = 0x70 + c"
    "get_real_instruction2 ?n EXT_T2 = EXT_T2" "unat ?n = 0x80 + c"
    using jcc_opcodes assms by (simp_all only: list_all_iff atLeastLessThan_upt [symmetric]) simp_all
  have t2: "get_instruction (0x0f # ?n # bs) MODE_32 =
      decode_row (0x0f # ?n # bs) MODE_32 (inst_table2 ! (0x80 + c)) 2 EXT_T2 (zero_INSTRUCTION\<lparr>opcode := ?n\<rparr>)" for bs
    using get_instruction_two_byte [of ?n bs MODE_32] ops rows branch_opcodes by (simp add: relative_row_def)
  have "\<exists>i. get_instruction (0x0f # ?n # le32 (target - (va + 6)) @ rest) MODE_32 = Inr i \<and>
      itype i = INSTRUCTION_TYPE_JMPC \<and> ilength i = 6 \<and> direct_target va i = [target]"
    using decode_near [OF rows(2), of "zero_INSTRUCTION\<lparr>opcode := ?n\<rparr>" EXT_T2 "[0x0f, ?n]" "target - (va + 6)" rest]
    by (auto simp: t2 branch_opcodes direct_targetI numeral_2_eq_2)
  moreover have "\<exists>i. get_instruction (?s # b # rest) MODE_32 = Inr i \<and>
      itype i = INSTRUCTION_TYPE_JMPC \<and> ilength i = 2 \<and> direct_target va i = [va + 2 + scast b]"
    using decode_short [OF rows(1), of "zero_INSTRUCTION\<lparr>opcode := ?s\<rparr>" 0 "[?s]" b rest]
    by (auto simp: get_instruction_one_byte ops branch_opcodes direct_targetI)
  ultimately show ?thesis ..
qed

lemma conditional_branch_target_witness:
  "(4 :: nat) < 16 \<and> (\<exists>i. get_instruction (0x74 # 0xfe # []) MODE_32 = Inr i \<and> direct_target 0x401000 i = [0x401000])"
  using conditional_branch_target [where c = 4 and b = "0xfe" and rest = "[]" and va = "0x401000"] by fastforce

text \<open>C3. On memory whose regions do not wrap around, \<open>process\<close> ends within the model's fuel, and it
  computes exactly the walk from the trace's start. The size is that of its instructions. The targets are, instruction
  by instruction, those of the direct branches and the return addresses of the calls, and the structure addresses the
  displacements of \<open>lea\<close> without registers, each as \<open>insn_targets\<close> and \<open>insn_lea\<close> say of the decoded fields.\<close>

theorem process_trace_refines_walk:
  assumes "wf_memory mem"
  shows "process_trace mem t gen lea \<noteq> Inl Out_Of_Fuel \<and>
    (process_trace mem t gen lea = Inr r \<longleftrightarrow>
      (\<exists>is. walk mem t (m_start t) is \<and> r = walk_result t gen lea is))"
  using process_trace_no_fuel [OF assms] process_trace_walk_iff [OF assms] by blast

text \<open>\<open>nop\<close> and a call: its target and the address it returns to.\<close>

lemma process_trace_refines_walk_witness:
  "\<exists>is. walk [(0x1000, [0x90, 0xe8, 4, 0, 0, 0])] (new_StaticTrace 0x1000 0x1000 6) 0x1000 is \<and>
     concat (map insn_targets is) = [0x100a, 0x1006]"
proof -
  let ?mem = "[(0x1000, [0x90, 0xe8, 4, 0, 0, 0])] :: memory" and ?t = "new_StaticTrace 0x1000 0x1000 6"
  have wf: "wf_memory ?mem" by (simp add: wf_memory_def)
  have "process_trace ?mem ?t [] [] = Inr (?t\<lparr>m_size := 6\<rparr>, [0x100a, 0x1006], [])" by code_simp
  then obtain "is" where w: "walk ?mem ?t (m_start ?t) is"
    and r: "(?t\<lparr>m_size := 6\<rparr>, [0x100a, 0x1006], []) = walk_result ?t [] [] is"
    using process_trace_refines_walk [OF wf, of ?t "[]" "[]" "(?t\<lparr>m_size := 6\<rparr>, [0x100a, 0x1006], [])"] by blast
  from arg_cong [OF r, of "\<lambda>x. fst (snd x)"] have "concat (map insn_targets is) = [0x100a, 0x1006]"
    by (simp add: walk_result_def)
  with w show ?thesis by (auto simp: new_StaticTrace_def)
qed

text \<open>C30. The instructions of a fresh trace tile it: every byte from its start to its end belongs to
  exactly one of them, and the end does not wrap around.\<close>

theorem trace_tiled_by_instructions:
  assumes wf: "wf_memory mem"
    and run: "process_trace mem (new_StaticTrace start cs_start cs_size) gen lea = Inr (t, gen', lea')"
  shows "unat (GetEnd t) = unat start + unat (GetSize t) \<and>
    (\<exists>is. walk mem t start is \<and>
      (\<forall>a. unat start \<le> a \<and> a < unat (GetEnd t) \<longrightarrow>
        (\<exists>!x. x \<in> set is \<and> unat (fst x) \<le> a \<and> a < unat (fst x) + ilength (snd x))))"
proof -
  let ?t = "new_StaticTrace start cs_start cs_size"
  from run process_trace_walk_iff [OF wf] obtain "is" where w: "walk mem ?t start is"
    and r: "(t, gen', lea') = walk_result ?t gen lea is" by (auto simp: new_StaticTrace_def)
  from r have t: "t = ?t\<lparr>m_size := of_nat (walk_bytes is)\<rparr>" by (simp add: walk_result_def new_StaticTrace_def)
  from walk_fits [OF wf w] have fits: "unat start + walk_bytes is < 2 ^ 32" .
  then have sz: "unat (GetSize t) = walk_bytes is" by (simp add: t GetSize_def unat_of_nat)
  have en: "unat (GetEnd t) = unat start + walk_bytes is"
    using unat_add_no_wrap [OF fits] by (simp add: t GetEnd_def new_StaticTrace_def)
  from w have wt: "walk mem t start is" by (simp add: t)
  have "\<forall>a. unat start \<le> a \<and> a < unat (GetEnd t) \<longrightarrow>
      (\<exists>!x. x \<in> set is \<and> unat (fst x) \<le> a \<and> a < unat (fst x) + ilength (snd x))"
    unfolding en using walk_tiles [OF wf w] by blast
  with wt show ?thesis by (intro conjI exI [of _ "is"]) (simp_all only: en sz)
qed

lemma trace_tiled_by_instructions_witness:
  "wf_memory [(0x1000, [0x90, 0xc3])] \<and> unat (GetEnd (AssembleTrace 0x1000 2 0x1000 2)) = 0x1002"
proof -
  let ?mem = "[(0x1000, [0x90, 0xc3])] :: memory"
  have wf: "wf_memory ?mem" by (simp add: wf_memory_def)
  have "process_trace ?mem (new_StaticTrace 0x1000 0x1000 2) [] [] = Inr (AssembleTrace 0x1000 2 0x1000 2, [], [])"
    by code_simp
  from trace_tiled_by_instructions [OF wf this] wf show ?thesis by (simp add: GetSize_def AssembleTrace_def)
qed

text \<open>C31. A trace that starts at an instruction of another trace (same section) ends where that one
  ends. This is what makes cutting the earlier trace at the later one's start sound.\<close>

theorem traces_share_their_end:
  assumes wf: "wf_memory mem"
    and run: "process_trace mem (new_StaticTrace start cs_start cs_size) gen lea = Inr (t, gen1, lea1)"
    and w: "walk mem t start (xs @ (va, i) # ys)"
  shows "\<exists>t'. process_trace mem (new_StaticTrace va cs_start cs_size) gen lea =
      Inr (t', gen @ concat (map insn_targets ((va, i) # ys)), fold (set_insert_opt \<circ> insn_lea) ((va, i) # ys) lea) \<and>
    GetEnd t' = GetEnd t"
proof -
  let ?t = "new_StaticTrace start cs_start cs_size" and ?t' = "new_StaticTrace va cs_start cs_size"
  let ?ys = "(va, i) # ys"
  from run process_trace_walk_iff [OF wf] obtain "is" where w1: "walk mem ?t start is"
    and r: "(t, gen1, lea1) = walk_result ?t gen lea is" by (auto simp: new_StaticTrace_def)
  from r have t: "t = ?t\<lparr>m_size := of_nat (walk_bytes is)\<rparr>" by (simp add: walk_result_def new_StaticTrace_def)
  with w have w2: "walk mem ?t start (xs @ ?ys)" by simp
  with w1 have eq: "is = xs @ ?ys" by (rule walk_deterministic)
  from walk_suffix [OF w2] have "walk mem ?t va ?ys" .
  then have w3: "walk mem ?t' va ?ys" by (rule walk_section) (simp_all add: new_StaticTrace_def)
  then have "process_trace mem ?t' gen lea = Inr (walk_result ?t' gen lea ?ys)"
    using process_trace_walk_iff [OF wf, of ?t'] by (auto simp: new_StaticTrace_def)
  moreover have "GetEnd (fst (walk_result ?t' gen lea ?ys)) = GetEnd t"
  proof -
    have "va = start + of_nat (walk_bytes xs)"
      using walk_position [OF wf w2] u32_bound [of va] by (simp add: word_unat_eq_iff unat_add_no_wrap)
    then show ?thesis by (simp add: walk_result_def t GetEnd_def new_StaticTrace_def eq walk_bytes_def)
  qed
  ultimately show ?thesis by (auto simp: walk_result_def)
qed

lemma traces_share_their_end_witness:
  "\<exists>t'. process_trace [(0x1000, [0x90, 0xc3])] (new_StaticTrace 0x1001 0x1000 2) [] [] = Inr (t', [], []) \<and>
     GetEnd t' = 0x1002"
proof -
  let ?mem = "[(0x1000, [0x90, 0xc3])] :: memory" and ?t = "AssembleTrace 0x1000 2 0x1000 2"
  define nop where "nop = projr (get_instruction [0x90, 0xc3] MODE_32)"
  define ret where "ret = projr (get_instruction [0xc3] MODE_32)"
  have wf: "wf_memory ?mem" by (simp add: wf_memory_def)
  have run: "process_trace ?mem (new_StaticTrace 0x1000 0x1000 2) [] [] = Inr (?t, [], [])"
    by code_simp
  have nop: "get_instruction (bytes_at ?mem 0x1000) MODE_32 = Inr nop" "\<not> ends_trace nop" "ilength nop = 1"
    unfolding nop_def by code_simp+
  have ret: "get_instruction (bytes_at ?mem 0x1001) MODE_32 = Inr ret" "ends_trace ret"
    "insn_targets (0x1001, ret) = []" "insn_lea (0x1001, ret) = None"
    unfolding ret_def by code_simp+
  have "walk ?mem ?t 0x1000 ([(0x1000, nop)] @ (0x1001, ret) # [])"
    using nop ret by (auto intro!: walk.intros simp: IsAddrCode_def AssembleTrace_def new_StaticTrace_def)
  from traces_share_their_end [OF wf run this] ret(3,4) show ?thesis
    by (simp add: set_insert_opt_def GetEnd_def AssembleTrace_def new_StaticTrace_def)
qed

end
