(* ===== verification/Std_Set.thy ===== *)
theory Std_Set
  imports Static_Trace
begin

text \<open>
  \<^verbatim>\<open>std::set\<close> as the code uses it: a container kept in key order in which a key occurs once, read
  from its first or its last element on. The model is the list of the elements in that order; the
  contract is the locale \<open>std_set\<close>, interpreted below for addresses (\<^verbatim>\<open>std::set<uint32_t>\<close>) and for
  traces ordered by \<open>StaticTrace_Comparator\<close>.
\<close>

definition set_inv :: "('a \<Rightarrow> u32) \<Rightarrow> 'a list \<Rightarrow> bool" where
  "set_inv key xs \<longleftrightarrow> sorted_wrt (\<lambda>x y. key x < key y) xs"

lemma set_inv_Nil [simp]: "set_inv key []"
  by (simp add: set_inv_def)

lemma set_inv_Cons [simp]: "set_inv key (x # xs) \<longleftrightarrow> (\<forall>y\<in>set xs. key x < key y) \<and> set_inv key xs"
  by (simp add: set_inv_def)

lemma set_inv_append: "set_inv key (xs @ ys) \<longleftrightarrow>
    set_inv key xs \<and> set_inv key ys \<and> (\<forall>x\<in>set xs. \<forall>y\<in>set ys. key x < key y)"
  by (simp add: set_inv_def sorted_wrt_append)

lemma set_inv_alt: "set_inv key xs \<longleftrightarrow> sorted (map key xs) \<and> distinct (map key xs)"
  unfolding strict_sorted_iff [symmetric] by (simp add: set_inv_def sorted_wrt_map)

lemma set_inv_key_inj: "set_inv key xs \<Longrightarrow> x \<in> set xs \<Longrightarrow> y \<in> set xs \<Longrightarrow> key x = key y \<Longrightarrow> x = y"
  by (auto simp: set_inv_alt distinct_map dest: inj_onD)

lemma set_inv_map: "set_inv key xs \<Longrightarrow> map key ys = map key xs \<Longrightarrow> set_inv key ys"
  by (simp add: set_inv_alt)

locale std_set =
  fixes key :: "'a \<Rightarrow> u32" and ins :: "'a \<Rightarrow> 'a list \<Rightarrow> 'a list"
  assumes ins_inv: "set_inv key xs \<Longrightarrow> set_inv key (ins x xs)"
    and ins_keys: "key ` set (ins x xs) = insert (key x) (key ` set xs)"
    and ins_keeps: "set_inv key xs \<Longrightarrow> y \<in> set xs \<Longrightarrow> y \<in> set (ins x xs)"
    and ins_origin: "y \<in> set (ins x xs) \<Longrightarrow> y = x \<or> y \<in> set xs"
begin

lemma fold_ins_inv: "set_inv key xs \<Longrightarrow> set_inv key (fold ins ys xs)"
  by (induction ys arbitrary: xs) (auto intro: ins_inv)

lemma fold_ins_keys: "key ` set (fold ins ys xs) = key ` set ys \<union> key ` set xs"
  by (induction ys arbitrary: xs) (auto simp: ins_keys)

lemma fold_ins_keeps: "set_inv key xs \<Longrightarrow> y \<in> set xs \<Longrightarrow> y \<in> set (fold ins ys xs)"
  by (induction ys arbitrary: xs) (auto intro: ins_inv ins_keeps)

text \<open>A new key brings exactly its element in; a known one changes nothing.\<close>

lemma ins_new:
  assumes inv: "set_inv key xs" and new: "key x \<notin> key ` set xs"
  shows "set (ins x xs) = insert x (set xs)"
proof (intro set_eqI iffI)
  fix y assume "y \<in> insert x (set xs)"
  then show "y \<in> set (ins x xs)"
  proof
    assume "y = x"
    have "key x \<in> key ` set (ins x xs)" by (simp add: ins_keys)
    then obtain z where z: "z \<in> set (ins x xs)" "key z = key x" by auto
    from new z(2) have "z \<notin> set xs" by (metis imageI)
    with ins_origin [OF z(1)] z \<open>y = x\<close> show ?thesis by simp
  qed (rule ins_keeps [OF inv])
qed (use ins_origin in blast)

lemma ins_known:
  assumes inv: "set_inv key xs" and known: "key x \<in> key ` set xs"
  shows "set (ins x xs) = set xs"
proof (intro set_eqI iffI)
  fix y assume y: "y \<in> set (ins x xs)"
  from known obtain z where z: "z \<in> set xs" "key z = key x" by auto
  show "y \<in> set xs"
  proof (rule ccontr)
    assume "y \<notin> set xs"
    with y ins_origin have "y = x" by blast
    with set_inv_key_inj [OF ins_inv [OF inv] y ins_keeps [OF inv z(1)]] z \<open>y \<notin> set xs\<close> show False by simp
  qed
qed (rule ins_keeps [OF inv])

end

subsection \<open>Sets of addresses\<close>

definition insert_addr :: "u32 \<Rightarrow> u32 list \<Rightarrow> u32 list" where
  "insert_addr a s = insort_insert a s"

lemma set_inv_addr: "set_inv (\<lambda>a. a) s \<longleftrightarrow> sorted s \<and> distinct s"
  by (simp add: set_inv_def strict_sorted_iff)

interpretation addr_set: std_set "\<lambda>a :: u32. a" insert_addr
proof
  show "set_inv (\<lambda>a. a) (insert_addr x xs)" if "set_inv (\<lambda>a. a) xs" for x xs
    using that by (auto simp: set_inv_addr insert_addr_def sorted_insort_insert distinct_insort_insert)
qed (auto simp: insert_addr_def set_insort_insert)

subsection \<open>Sets of traces\<close>

text \<open>\<^verbatim>\<open>m_traces.insert(trace)\<close> keeps the old trace when one with the same start is there.\<close>

fun insert_trace :: "StaticTrace \<Rightarrow> StaticTrace list \<Rightarrow> StaticTrace list" where
  "insert_trace t [] = [t]"
| "insert_trace t (x # xs) =
     (if m_start t < m_start x then t # x # xs
      else if m_start x < m_start t then x # insert_trace t xs
      else x # xs)"

lemma insert_trace_origin: "y \<in> set (insert_trace t xs) \<Longrightarrow> y = t \<or> y \<in> set xs"
  by (induction xs) (auto split: if_splits)

interpretation trace_set: std_set m_start insert_trace
proof
  show "set_inv m_start (insert_trace t xs)" if "set_inv m_start xs" for t xs
    using that by (induction xs) (auto dest!: insert_trace_origin)
  show "m_start ` set (insert_trace t xs) = insert (m_start t) (m_start ` set xs)" for t xs
    by (induction xs) (auto dest: antisym_conv3 [THEN iffD1, rotated])
  show "y \<in> set (insert_trace t xs)" if "y \<in> set xs" for y t xs
    using that by (induction xs) auto
qed (rule insert_trace_origin)

end
