(* ===== verification/Sweep_Process.thy ===== *)
theory Sweep_Process
  imports Std_Set
begin

text \<open>
  \<^verbatim>\<open>replay/CodeSectionSweeper.h\<close> and \<^verbatim>\<open>.cpp\<close>, first part: the sweeper's state, its lookups, and
  \<open>process\<close>, the worklist that turns pending targets into traces until none is left.
\<close>

subsection \<open>State\<close>

text \<open>Of \<open>m_map_traces\<close> only the keys are ever read (\<open>HasTraceStart\<close>), so they are what is kept.
  \<open>m_img\<close> and \<open>m_sec\<close> are handles of the Pin kit that are used in the constructor only.\<close>

record Sweeper =
  m_traces :: "StaticTrace list"
  m_map_traces :: "u32 list"
  m_pending_targets :: "u32 list"
  m_reloc_targets :: "u32 list"
  sw_code_section_start :: u32
  sw_code_section_size :: u32
  m_lea_targets :: "u32 list"
  m_grey_areas :: "StaticTrace list"

definition sweeper_IsAddrCode :: "Sweeper \<Rightarrow> u32 \<Rightarrow> bool" where
  "sweeper_IsAddrCode sw addr \<longleftrightarrow>
     addr \<ge> sw_code_section_start sw \<and> addr < sw_code_section_start sw + sw_code_section_size sw"

definition appendTarget :: "Sweeper \<Rightarrow> u32 \<Rightarrow> Sweeper" where
  "appendTarget sw target =
     (if sweeper_IsAddrCode sw target
      then sw\<lparr>m_pending_targets := insert_addr target (m_pending_targets sw)\<rparr> else sw)"

text \<open>The constructor: \<open>entry_point\<close> is \<open>IMG_Entry\<close>, \<open>routines\<close> the \<open>RTN_Address\<close> of the
  section's routines in the order \<open>SEC_RtnHead\<close>, \<open>RTN_Next\<close> gives them.\<close>

definition new_CodeSectionSweeper :: "u32 \<Rightarrow> u32 list \<Rightarrow> u32 list \<Rightarrow> u32 \<Rightarrow> u32 \<Rightarrow> Sweeper" where
  "new_CodeSectionSweeper entry_point routines reloc_targets section_start section_size =
     fold (\<lambda>a sw. appendTarget sw a) ([entry_point] @ reloc_targets @ routines)
       \<lparr>m_traces = [], m_map_traces = [], m_pending_targets = [], m_reloc_targets = reloc_targets,
        sw_code_section_start = section_start, sw_code_section_size = section_size,
        m_lea_targets = [], m_grey_areas = []\<rparr>"

definition markGreyArea :: "Sweeper \<Rightarrow> u32 \<Rightarrow> u32 \<Rightarrow> Sweeper" where
  "markGreyArea sw start sz = sw\<lparr>m_grey_areas := insert_trace
     (AssembleTrace start sz (sw_code_section_start sw) (sw_code_section_size sw)) (m_grey_areas sw)\<rparr>"

subsection \<open>Lookups\<close>

text \<open>\<open>HasTraceAt\<close> runs from the last trace down and stops at the first smaller start.\<close>

fun HasTraceAt_loop :: "StaticTrace list \<Rightarrow> u32 \<Rightarrow> bool" where
  "HasTraceAt_loop [] target = False"
| "HasTraceAt_loop (t # ts) target =
     (if Equals t target then True else if SmallerThan t target then False else HasTraceAt_loop ts target)"

definition HasTraceAt :: "Sweeper \<Rightarrow> u32 \<Rightarrow> bool" where
  "HasTraceAt sw target = HasTraceAt_loop (rev (m_traces sw)) target"

definition HasTraceStart :: "Sweeper \<Rightarrow> u32 \<Rightarrow> bool" where
  "HasTraceStart sw addr \<longleftrightarrow> addr \<in> set (m_map_traces sw)"

fun GetTraceAt_loop :: "StaticTrace list \<Rightarrow> u32 \<Rightarrow> StaticTrace option" where
  "GetTraceAt_loop [] addr = None"
| "GetTraceAt_loop (t # ts) addr =
     (if Contains t addr 1 then Some t else if BiggerThan t addr then None else GetTraceAt_loop ts addr)"

definition GetTraceAt :: "Sweeper \<Rightarrow> u32 \<Rightarrow> StaticTrace option" where
  "GetTraceAt sw addr = GetTraceAt_loop (m_traces sw) addr"

subsection \<open>The worklist\<close>

text \<open>\<open>m_traces.insert(trace); m_map_traces[start] = trace;\<close>\<close>

definition add_trace :: "StaticTrace \<Rightarrow> Sweeper \<Rightarrow> Sweeper" where
  "add_trace t sw = sw\<lparr>m_traces := insert_trace t (m_traces sw),
     m_map_traces := insert_addr (m_start t) (m_map_traces sw)\<rparr>"

definition new_trace :: "Sweeper \<Rightarrow> u32 \<Rightarrow> StaticTrace" where
  "new_trace sw target = new_StaticTrace target (sw_code_section_start sw) (sw_code_section_size sw)"

text \<open>One turn of the loop on the target just taken off.\<close>

definition process_target :: "memory \<Rightarrow> u32 \<Rightarrow> Sweeper \<Rightarrow> run_error + Sweeper" where
  "process_target mem target sw =
     (if sweeper_IsAddrCode sw target \<and> \<not> HasTraceAt sw target then
        bind_r (process_trace mem (new_trace sw target) [] (m_lea_targets sw)) (\<lambda>(t, targets, lea).
        Inr ((add_trace t sw)\<lparr>m_lea_targets := lea,
               m_pending_targets := fold insert_addr targets (m_pending_targets sw)\<rparr>))
      else Inr sw)"

text \<open>The loop runs until no target is pending; \<open>None\<close> is a run that does not end.\<close>

partial_function (option) process_worklist :: "memory \<Rightarrow> Sweeper \<Rightarrow> (run_error + Sweeper) option" where
  "process_worklist mem sw =
     (case m_pending_targets sw of
        [] \<Rightarrow> Some (Inr sw)
      | target # rest \<Rightarrow>
          (case process_target mem target (sw\<lparr>m_pending_targets := rest\<rparr>) of
             Inl e \<Rightarrow> Some (Inl e)
           | Inr sw' \<Rightarrow> process_worklist mem sw'))"

text \<open>The second loop: of two neighbours with the same end the former is cut at the latter's start.\<close>

fun adjust_ends :: "StaticTrace list \<Rightarrow> StaticTrace list" where
  "adjust_ends (former # latter # ts) =
     (if GetEnd former = GetEnd latter then AdjustEnd former (GetStart latter) else former)
       # adjust_ends (latter # ts)"
| "adjust_ends ts = ts"

text \<open>The loop starts at \<open>++m_traces.begin()\<close>, which an empty set does not have.\<close>

definition sweeper_process :: "memory \<Rightarrow> Sweeper \<Rightarrow> (run_error + Sweeper) option" where
  "sweeper_process mem sw =
     (case process_worklist mem sw of
        None \<Rightarrow> None
      | Some r \<Rightarrow> Some (bind_r r (\<lambda>sw'.
          if m_traces sw' = [] then Inl Invalid_Iterator
          else Inr (sw'\<lparr>m_traces := adjust_ends (m_traces sw')\<rparr>))))"

subsection \<open>The state stays well-formed\<close>

definition sweep_inv :: "Sweeper \<Rightarrow> bool" where
  "sweep_inv sw \<longleftrightarrow> set_inv m_start (m_traces sw) \<and> set_inv (\<lambda>a. a) (m_pending_targets sw) \<and>
     set_inv (\<lambda>a. a) (m_map_traces sw) \<and> set (m_map_traces sw) = m_start ` set (m_traces sw)"

text \<open>The reverse search with its early exit is membership, because the traces are in order.\<close>

lemma HasTraceAt_loop_iff: "set_inv m_start ts \<Longrightarrow> HasTraceAt_loop (rev ts) a \<longleftrightarrow> a \<in> m_start ` set ts"
proof (induction ts rule: rev_induct)
  case (snoc t ts)
  then show ?case by (auto simp: set_inv_append Equals_def SmallerThan_def)
qed simp

lemma HasTraceAt_iff: "sweep_inv sw \<Longrightarrow> HasTraceAt sw a \<longleftrightarrow> a \<in> m_start ` set (m_traces sw)"
  by (simp add: HasTraceAt_def sweep_inv_def HasTraceAt_loop_iff)

lemma add_trace_sel [simp]:
  "m_pending_targets (add_trace t sw) = m_pending_targets sw"
  "sw_code_section_start (add_trace t sw) = sw_code_section_start sw"
  "sw_code_section_size (add_trace t sw) = sw_code_section_size sw"
  "m_traces (add_trace t sw) = insert_trace t (m_traces sw)"
  "m_map_traces (add_trace t sw) = insert_addr (m_start t) (m_map_traces sw)"
  by (simp_all add: add_trace_def)

lemma sweep_inv_add_trace: "sweep_inv sw \<Longrightarrow> sweep_inv (add_trace t sw)"
  using addr_set.ins_keys [of "m_start t" "m_map_traces sw"]
  by (simp add: sweep_inv_def trace_set.ins_inv addr_set.ins_inv trace_set.ins_keys)

lemma sweep_inv_upd [simp]:
  "sweep_inv (sw\<lparr>m_lea_targets := l\<rparr>) = sweep_inv sw"
  "sweep_inv sw \<Longrightarrow> sweep_inv (sw\<lparr>m_pending_targets := p\<rparr>) = set_inv (\<lambda>a. a) p"
  by (auto simp: sweep_inv_def)

lemma sweep_inv_pending: "sweep_inv sw \<Longrightarrow> set_inv (\<lambda>a. a) (m_pending_targets sw)"
  by (simp add: sweep_inv_def)

text \<open>What one turn does when it makes a trace.\<close>

lemma process_target_Inr:
  assumes "process_target mem target sw = Inr sw'"
  obtains (skip) "sw' = sw" "\<not> sweeper_IsAddrCode sw target \<or> HasTraceAt sw target"
  | (new) t targets lea where "sweeper_IsAddrCode sw target" "\<not> HasTraceAt sw target"
      "process_trace mem (new_trace sw target) [] (m_lea_targets sw) = Inr (t, targets, lea)"
      "sw' = (add_trace t sw)\<lparr>m_lea_targets := lea,
         m_pending_targets := fold insert_addr targets (m_pending_targets sw)\<rparr>"
proof (cases "sweeper_IsAddrCode sw target \<and> \<not> HasTraceAt sw target")
  case True
  with assms have "bind_r (process_trace mem (new_trace sw target) [] (m_lea_targets sw)) (\<lambda>(t, targets, lea).
      Inr ((add_trace t sw)\<lparr>m_lea_targets := lea,
        m_pending_targets := fold insert_addr targets (m_pending_targets sw)\<rparr>)) = Inr sw'"
    by (simp add: process_target_def)
  then obtain t targets lea where
      "process_trace mem (new_trace sw target) [] (m_lea_targets sw) = Inr (t, targets, lea)"
      "sw' = (add_trace t sw)\<lparr>m_lea_targets := lea,
         m_pending_targets := fold insert_addr targets (m_pending_targets sw)\<rparr>"
    by (auto simp only: bind_r_eq_Inr prod.case sum.inject split_paired_all)
  with True new show ?thesis by blast
next
  case False
  with assms have "sw' = sw" by (simp add: process_target_def)
  with False skip show ?thesis by blast
qed

lemma process_trace_start: "wf_memory mem \<Longrightarrow> process_trace mem t g l = Inr (t', g', l') \<Longrightarrow> m_start t' = m_start t"
  by (auto simp: process_trace_walk_iff walk_result_def)

lemma new_trace_sel [simp]: "m_start (new_trace sw a) = a"
  by (simp add: new_trace_def new_StaticTrace_def)

lemma process_target_inv:
  assumes "sweep_inv sw" and "process_target mem target sw = Inr sw'"
  shows "sweep_inv sw'"
  using assms(2)
proof (cases rule: process_target_Inr)
  case (new t targets lea)
  from assms(1) have "sweep_inv (add_trace t sw)" by (rule sweep_inv_add_trace)
  with new show ?thesis by (simp add: addr_set.fold_ins_inv sweep_inv_pending assms(1))
qed (use assms in simp)

subsection \<open>The loop as steps\<close>

inductive sweep_step :: "memory \<Rightarrow> Sweeper \<Rightarrow> Sweeper \<Rightarrow> bool" for mem where
  step: "m_pending_targets sw = target # rest \<Longrightarrow>
    process_target mem target (sw\<lparr>m_pending_targets := rest\<rparr>) = Inr sw' \<Longrightarrow> sweep_step mem sw sw'"

inductive_cases sweep_stepE: "sweep_step mem sw sw'"

lemma process_worklist_Some:
  "process_worklist mem sw = Some r \<Longrightarrow> \<forall>sw'. r = Inr sw' \<longrightarrow> (sweep_step mem)\<^sup>*\<^sup>* sw sw' \<and> m_pending_targets sw' = []"
proof (erule process_worklist.raw_induct [rotated], intro allI impI)
  fix rec mem sw r sw'
  assume IH: "\<And>mem sw r. rec mem sw = Some r \<Longrightarrow>
      \<forall>sw'. r = Inr sw' \<longrightarrow> (sweep_step mem)\<^sup>*\<^sup>* sw sw' \<and> m_pending_targets sw' = []"
    and run: "(case m_pending_targets sw of [] \<Rightarrow> Some (Inr sw)
      | target # rest \<Rightarrow> (case process_target mem target (sw\<lparr>m_pending_targets := rest\<rparr>) of
          Inl e \<Rightarrow> Some (Inl e) | Inr sw' \<Rightarrow> rec mem sw')) = Some r"
    and r: "r = Inr sw'"
  show "(sweep_step mem)\<^sup>*\<^sup>* sw sw' \<and> m_pending_targets sw' = []"
  proof (cases "m_pending_targets sw")
    case Nil
    with run r show ?thesis by simp
  next
    case (Cons target rest)
    with run r obtain sw1 where sw1: "process_target mem target (sw\<lparr>m_pending_targets := rest\<rparr>) = Inr sw1"
      and "rec mem sw1 = Some (Inr sw')" by (auto split: sum.splits)
    with IH have "(sweep_step mem)\<^sup>*\<^sup>* sw1 sw' \<and> m_pending_targets sw' = []" by blast
    moreover have "sweep_step mem sw sw1" using Cons sw1 by (rule sweep_step.step)
    ultimately show ?thesis by (meson converse_rtranclp_into_rtranclp)
  qed
qed

lemmas process_worklist_steps = process_worklist_Some [THEN spec, THEN mp, OF _ refl]

lemma sweep_step_inv: "sweep_step mem sw sw' \<Longrightarrow> sweep_inv sw \<Longrightarrow> sweep_inv sw'"
  by (erule sweep_stepE, erule process_target_inv [rotated]) (simp add: sweep_inv_def)

text \<open>Every turn lowers the number of code addresses without a trace, or leaves it and takes a
  target off.\<close>

definition untraced :: "Sweeper \<Rightarrow> u32 set" where
  "untraced sw = {a. sweeper_IsAddrCode sw a \<and> a \<notin> m_start ` set (m_traces sw)}"

lemma sweep_step_decreases:
  assumes wf: "wf_memory mem" and inv: "sweep_inv sw" and step: "sweep_step mem sw sw'"
  shows "(sw', sw) \<in> measures [card \<circ> untraced, length \<circ> m_pending_targets]"
  using step
proof (cases rule: sweep_step.cases)
  case (step target rest)
  note 1 = step
  let ?sw = "sw\<lparr>m_pending_targets := rest\<rparr>"
  have inv': "sweep_inv ?sw" using inv 1(1) by (simp add: sweep_inv_def)
  from 1(2) show ?thesis
  proof (cases rule: process_target_Inr)
    case skip
    then show ?thesis using 1(1) by (simp add: untraced_def sweeper_IsAddrCode_def)
  next
    case (new t targets lea)
    from process_trace_start [OF wf new(3)] have start: "m_start t = target" by simp
    have same: "sweeper_IsAddrCode sw' = sweeper_IsAddrCode sw" using new(4) by (simp add: sweeper_IsAddrCode_def fun_eq_iff)
    have "target \<in> untraced sw"
      using new HasTraceAt_iff [OF inv'] by (simp add: untraced_def sweeper_IsAddrCode_def)
    moreover have "untraced sw' = untraced sw - {target}"
      using new(4) start same by (auto simp: untraced_def trace_set.ins_keys)
    ultimately have "untraced sw' \<subset> untraced sw" by blast
    then have "card (untraced sw') < card (untraced sw)" by (intro psubset_card_mono) simp_all
    then show ?thesis by simp
  qed
qed

lemma process_loop_errors: "process_loop fuel mem t va g l = Inl e \<Longrightarrow> e = Access_Violation \<or> e = Out_Of_Fuel"
proof (induction fuel arbitrary: t va g l)
  case (Suc fuel)
  show ?case
  proof (cases "IsAddrCode t va \<and> (\<exists>i. get_instruction (bytes_at mem va) MODE_32 = Inr i)")
    case True
    then obtain i where "IsAddrCode t va" "get_instruction (bytes_at mem va) MODE_32 = Inr i" by blast
    with Suc show ?thesis by (simp add: process_insn_split Let_def split: if_splits)
  next
    case False
    with Suc.prems show ?thesis by (simp split: if_splits sum.splits)
  qed
qed simp

lemma process_target_errors:
  assumes wf: "wf_memory mem" and err: "process_target mem target sw = Inl e"
  shows "e = Access_Violation"
proof -
  from err have "process_trace mem (new_trace sw target) [] (m_lea_targets sw) = Inl e"
    by (auto simp: process_target_def bind_r_eq_Inl split: if_splits)
  with process_trace_no_fuel [OF wf] show ?thesis
    unfolding process_trace_def by (metis process_loop_errors)
qed

lemma process_worklist_ends:
  assumes wf: "wf_memory mem"
  shows "sweep_inv sw \<Longrightarrow> process_worklist mem sw = Some (Inl Access_Violation) \<or>
    (\<exists>sw'. process_worklist mem sw = Some (Inr sw'))"
proof (induction sw rule: wf_induct_rule [OF wf_measures [of "[card \<circ> untraced, length \<circ> m_pending_targets]"]])
  case (1 sw)
  show ?case
  proof (cases "m_pending_targets sw")
    case Nil
    then show ?thesis by (subst (2) process_worklist.simps) simp
  next
    case (Cons target rest)
    show ?thesis
    proof (cases "process_target mem target (sw\<lparr>m_pending_targets := rest\<rparr>)")
      case (Inl e)
      with Cons process_target_errors [OF wf Inl] show ?thesis
        by (subst process_worklist.simps) simp
    next
      case (Inr sw1)
      have step: "sweep_step mem sw sw1" using Cons Inr by (rule sweep_step.step)
      have "process_worklist mem sw = process_worklist mem sw1"
        using Cons Inr by (subst process_worklist.simps) simp
      with "1.IH" sweep_step_decreases [OF wf "1.prems" step] sweep_step_inv [OF step "1.prems"]
      show ?thesis by simp
    qed
  qed
qed

subsection \<open>What the worklist computes\<close>

text \<open>The code addresses that the pending targets lead to through the targets of traces.\<close>

inductive reaches :: "memory \<Rightarrow> Sweeper \<Rightarrow> u32 \<Rightarrow> bool" for mem sw where
  pending: "a \<in> set (m_pending_targets sw) \<Longrightarrow> sweeper_IsAddrCode sw a \<Longrightarrow> reaches mem sw a"
| target: "reaches mem sw a \<Longrightarrow> walk mem (new_trace sw a) a is \<Longrightarrow> b \<in> set (concat (map insn_targets is)) \<Longrightarrow>
    sweeper_IsAddrCode sw b \<Longrightarrow> reaches mem sw b"

definition trace_at :: "memory \<Rightarrow> Sweeper \<Rightarrow> StaticTrace \<Rightarrow> (u32 \<times> INSTRUCTION) list \<Rightarrow> bool" where
  "trace_at mem sw t is \<longleftrightarrow> walk mem (new_trace sw (m_start t)) (m_start t) is \<and>
     t = (new_trace sw (m_start t))\<lparr>m_size := of_nat (walk_bytes is)\<rparr>"

definition accounted :: "Sweeper \<Rightarrow> Sweeper \<Rightarrow> u32 \<Rightarrow> bool" where
  "accounted sw0 sw b \<longleftrightarrow> sweeper_IsAddrCode sw0 b \<longrightarrow> b \<in> m_start ` set (m_traces sw) \<union> set (m_pending_targets sw)"

definition trace_accounted :: "memory \<Rightarrow> Sweeper \<Rightarrow> Sweeper \<Rightarrow> StaticTrace \<Rightarrow> bool" where
  "trace_accounted mem sw0 sw t \<longleftrightarrow>
     (\<exists>is. trace_at mem sw0 t is \<and> (\<forall>b\<in>set (concat (map insn_targets is)). accounted sw0 sw b))"

definition sweep_progress :: "memory \<Rightarrow> Sweeper \<Rightarrow> Sweeper \<Rightarrow> bool" where
  "sweep_progress mem sw0 sw \<longleftrightarrow>
     sw_code_section_start sw = sw_code_section_start sw0 \<and> sw_code_section_size sw = sw_code_section_size sw0 \<and>
     (\<forall>t\<in>set (m_traces sw). reaches mem sw0 (m_start t)) \<and>
     (\<forall>a\<in>set (m_pending_targets sw). sweeper_IsAddrCode sw0 a \<longrightarrow> reaches mem sw0 a) \<and>
     (\<forall>a\<in>set (m_pending_targets sw0). accounted sw0 sw a) \<and>
     (\<forall>t\<in>set (m_traces sw). trace_accounted mem sw0 sw t)"

lemma accounted_mono:
  "(\<And>b. accounted sw0 sw b \<Longrightarrow> accounted sw0 sw' b) \<Longrightarrow> trace_accounted mem sw0 sw t \<Longrightarrow> trace_accounted mem sw0 sw' t"
  unfolding trace_accounted_def by blast

lemma sweep_progress_refl: "m_traces sw = [] \<Longrightarrow> sweep_progress mem sw sw"
  by (auto simp: sweep_progress_def accounted_def intro: reaches.pending)

lemma insert_addr_fold_set: "set (fold insert_addr xs ys) = set xs \<union> set ys"
  using addr_set.fold_ins_keys by simp

lemma new_trace_result:
  assumes "wf_memory mem" "process_trace mem (new_trace sw a) [] lea = Inr (t, targets, lea')"
  obtains "is" where "walk mem (new_trace sw a) a is" "m_start t = a" "trace_at mem sw t is"
    "targets = concat (map insn_targets is)"
proof -
  from assms obtain "is" where "walk mem (new_trace sw a) a is"
      "(t, targets, lea') = walk_result (new_trace sw a) [] lea is" by (auto simp: process_trace_walk_iff)
  with that show ?thesis by (auto simp: walk_result_def trace_at_def new_trace_def new_StaticTrace_def)
qed

lemma same_section:
  "sw_code_section_start sw = sw_code_section_start sw0 \<Longrightarrow> sw_code_section_size sw = sw_code_section_size sw0 \<Longrightarrow>
   new_trace sw = new_trace sw0 \<and> sweeper_IsAddrCode sw = sweeper_IsAddrCode sw0 \<and> trace_at mem sw = trace_at mem sw0"
  by (simp add: new_trace_def sweeper_IsAddrCode_def trace_at_def fun_eq_iff)

lemma sweep_step_progress:
  assumes wf: "wf_memory mem" and inv: "sweep_inv sw" and step: "sweep_step mem sw sw'"
    and prog: "sweep_progress mem sw0 sw"
  shows "sweep_progress mem sw0 sw'"
  using step
proof (cases rule: sweep_step.cases)
  case (step target rest)
  let ?sw = "sw\<lparr>m_pending_targets := rest\<rparr>"
  have inv': "sweep_inv ?sw" using inv step(1) by (simp add: sweep_inv_def)
  from prog have sec: "sw_code_section_start sw = sw_code_section_start sw0"
    "sw_code_section_size sw = sw_code_section_size sw0" by (simp_all add: sweep_progress_def)
  then have code: "sweeper_IsAddrCode ?sw = sweeper_IsAddrCode sw0" and nt: "new_trace ?sw = new_trace sw0"
    using same_section [of ?sw sw0] by simp_all
  from step(2) show ?thesis
  proof (cases rule: process_target_Inr)
    case skip
    then have "\<not> sweeper_IsAddrCode sw0 target \<or> target \<in> m_start ` set (m_traces sw)"
      using code HasTraceAt_iff [OF inv'] by simp
    then have mono: "accounted sw0 sw' b" if "accounted sw0 sw b" for b
      using that step(1) skip(1) by (auto simp: accounted_def)
    have "m_traces sw' = m_traces sw" "m_pending_targets sw' = rest" using skip(1) by simp_all
    moreover have "sw_code_section_start sw' = sw_code_section_start sw" "sw_code_section_size sw' = sw_code_section_size sw"
      using skip(1) by simp_all
    ultimately show ?thesis
      using prog step(1) mono accounted_mono [of sw0 sw sw', OF mono] by (simp add: sweep_progress_def)
  next
    case (new t targets lea)
    from new(3) obtain "is" where w: "walk mem (new_trace ?sw target) target is" and start: "m_start t = target"
      and at: "trace_at mem ?sw t is" and targets: "targets = concat (map insn_targets is)"
      using new_trace_result [OF wf] by blast
    have known: "target \<notin> m_start ` set (m_traces sw)" using new(2) HasTraceAt_iff [OF inv'] by simp
    have traces: "set (m_traces sw') = insert t (set (m_traces sw))"
      using trace_set.ins_new [of "m_traces sw" t] inv known start new(4) by (simp add: sweep_inv_def)
    have pend: "set (m_pending_targets sw') = set targets \<union> set rest"
      using new(4) by (simp add: insert_addr_fold_set)
    have reach: "reaches mem sw0 target"
      using prog step(1) new(1) code by (simp add: sweep_progress_def)
    have sec': "sw_code_section_start sw' = sw_code_section_start sw0" "sw_code_section_size sw' = sw_code_section_size sw0"
      using sec new(4) by simp_all
    have at0: "trace_at mem sw0 t is" using at same_section [of ?sw sw0] sec by simp
    have "reaches mem sw0 b" if "b \<in> set targets" "sweeper_IsAddrCode sw0 b" for b
      using reaches.target [OF reach _ _ that(2)] w nt that(1) targets by simp
    moreover have mono: "accounted sw0 sw' b" if "accounted sw0 sw b" for b
      using that step(1) traces pend start by (auto simp: accounted_def)
    moreover have "trace_accounted mem sw0 sw' t"
      unfolding trace_accounted_def using at0 pend targets
      by (intro exI [of _ "is"]) (simp add: accounted_def)
    ultimately show ?thesis
      using prog step(1) sec' reach start accounted_mono [of sw0 sw sw', OF mono]
      unfolding sweep_progress_def traces pend by auto
  qed
qed

lemma sweep_steps_invariants:
  assumes wf: "wf_memory mem"
  shows "(sweep_step mem)\<^sup>*\<^sup>* sw sw' \<Longrightarrow> sweep_inv sw \<Longrightarrow> sweep_progress mem sw0 sw \<Longrightarrow>
    sweep_inv sw' \<and> sweep_progress mem sw0 sw'"
  by (induction rule: rtranclp_induct) (auto intro: sweep_step_progress [OF wf] sweep_step_inv)

lemma sweep_progress_complete:
  assumes wf: "wf_memory mem" and prog: "sweep_progress mem sw0 sw" and "m_pending_targets sw = []"
  shows "reaches mem sw0 a \<Longrightarrow> a \<in> m_start ` set (m_traces sw)"
proof (induction rule: reaches.induct)
  case (pending a)
  with prog assms(3) show ?case by (auto simp: sweep_progress_def accounted_def)
next
  case (target a "is" b)
  from target.IH obtain t where t: "t \<in> set (m_traces sw)" "m_start t = a" by auto
  with prog obtain js where "trace_at mem sw0 t js"
    and closed: "\<forall>b\<in>set (concat (map insn_targets js)). accounted sw0 sw b"
    unfolding sweep_progress_def trace_accounted_def by blast
  with t(2) target(2) have "js = is" by (auto simp: trace_at_def intro: walk_deterministic)
  with closed target(3,4) assms(3) show ?case by (auto simp: accounted_def)
qed

declare process_worklist.simps [code]

subsection \<open>Cutting overlapping traces\<close>

definition extent :: "StaticTrace \<Rightarrow> u32 set" where
  "extent t = {a. m_start t \<le> a \<and> a < GetEnd t}"

lemma AdjustEnd_sel [simp]: "m_start (AdjustEnd t e) = m_start t" "GetEnd (AdjustEnd t e) = e"
  by (simp_all add: AdjustEnd_def GetEnd_def)

lemma adjust_ends_starts: "map m_start (adjust_ends ts) = map m_start ts"
  by (induction ts rule: adjust_ends.induct) (auto simp: GetStart_def)

lemma adjust_ends_disjoint:
  "set_inv m_start ts \<Longrightarrow> sorted_wrt (\<lambda>s t. GetEnd s = GetEnd t \<or> GetEnd s \<le> m_start t) ts \<Longrightarrow>
   sorted_wrt (\<lambda>s t. GetEnd s \<le> m_start t) (adjust_ends ts)"
proof (induction ts rule: adjust_ends.induct)
  case (1 former latter ts)
  let ?cut = "if GetEnd former = GetEnd latter then AdjustEnd former (GetStart latter) else former"
  have le: "GetEnd ?cut \<le> m_start latter" using 1(3) by (auto simp: GetStart_def)
  have "GetEnd ?cut \<le> m_start t" if "t \<in> set (adjust_ends (latter # ts))" for t
  proof -
    have "m_start ` set (adjust_ends (latter # ts)) = m_start ` set (latter # ts)"
      using adjust_ends_starts [of "latter # ts"] by (metis list.set_map)
    with that have "m_start t \<in> m_start ` set (latter # ts)" by (metis imageI)
    with 1(2) have "m_start latter \<le> m_start t" by (auto intro: less_imp_le)
    with le show ?thesis by (rule order_trans)
  qed
  moreover have "sorted_wrt (\<lambda>s t. GetEnd s \<le> m_start t) (adjust_ends (latter # ts))"
    using 1 by simp
  ultimately show ?case by simp
qed simp_all

lemma adjust_ends_extent:
  "set_inv m_start ts \<Longrightarrow> \<forall>t\<in>set ts. m_start t \<le> GetEnd t \<Longrightarrow>
   \<Union> (extent ` set (adjust_ends ts)) = \<Union> (extent ` set ts)"
proof (induction ts rule: adjust_ends.induct)
  case (1 former latter ts)
  have "extent (AdjustEnd former (GetStart latter)) \<union> extent latter = extent former \<union> extent latter"
    if "GetEnd former = GetEnd latter"
    using that 1(2,3) by (auto simp: extent_def GetStart_def)
  moreover have "\<Union> (extent ` set (adjust_ends (latter # ts))) = extent latter \<union> \<Union> (extent ` set ts)"
    using 1 by simp
  ultimately show ?case by auto
qed simp_all

subsection \<open>Traces of code that is not jumped into the middle of\<close>

definition no_overlapping_code :: "memory \<Rightarrow> Sweeper \<Rightarrow> bool" where
  "no_overlapping_code mem sw \<longleftrightarrow> (\<forall>a b is. reaches mem sw a \<and> reaches mem sw b \<and>
     walk mem (new_trace sw a) a is \<and> a < b \<and> unat b < unat a + walk_bytes is \<longrightarrow> b \<in> fst ` set is)"

lemma trace_at_end:
  assumes wf: "wf_memory mem" and at: "trace_at mem sw t is"
  shows "unat (GetEnd t) = unat (m_start t) + walk_bytes is" "m_start t \<le> GetEnd t"
proof -
  from at have w: "walk mem (new_trace sw (m_start t)) (m_start t) is"
    and t: "m_size t = of_nat (walk_bytes is)" unfolding trace_at_def by (blast, metis StaticTrace.select_convs(2) StaticTrace.surjective StaticTrace.update_convs(2))
  show "unat (GetEnd t) = unat (m_start t) + walk_bytes is"
    using unat_add_no_wrap [OF walk_fits [OF wf w]] by (simp add: GetEnd_def t)
  then show "m_start t \<le> GetEnd t" by (simp add: word_le_nat_alt)
qed

lemma reachable_traces_end_together:
  assumes wf: "wf_memory mem" and ok: "no_overlapping_code mem sw"
    and s: "reaches mem sw (m_start s)" "trace_at mem sw s is"
    and t: "reaches mem sw (m_start t)" "trace_at mem sw t js" and less: "m_start s < m_start t"
  shows "GetEnd s = GetEnd t \<or> GetEnd s \<le> m_start t"
proof (cases "unat (m_start t) < unat (m_start s) + walk_bytes is")
  case True
  from s t have ws: "walk mem (new_trace sw (m_start s)) (m_start s) is"
    and wt: "walk mem (new_trace sw (m_start t)) (m_start t) js" by (simp_all add: trace_at_def)
  with ok s t less True have "m_start t \<in> fst ` set is" unfolding no_overlapping_code_def by blast
  then obtain i where "(m_start t, i) \<in> set is" by auto
  then obtain xs ys where "is": "is = xs @ (m_start t, i) # ys" by (auto dest: split_list)
  have "walk mem (new_trace sw (m_start s)) (m_start t) ((m_start t, i) # ys)"
    using walk_suffix ws "is" by blast
  then have "walk mem (new_trace sw (m_start t)) (m_start t) ((m_start t, i) # ys)"
    by (rule walk_section) (simp_all add: new_trace_def new_StaticTrace_def)
  with wt have js: "js = (m_start t, i) # ys" by (rule walk_deterministic)
  have "unat (m_start t) = unat (m_start s) + walk_bytes xs"
    using walk_position [OF wf] ws "is" by blast
  then have "unat (GetEnd s) = unat (GetEnd t)"
    using trace_at_end [OF wf s(2)] trace_at_end [OF wf t(2)] "is" js by (simp add: walk_bytes_def)
  then show ?thesis by (simp add: word_unat_eq_iff)
next
  case False
  then show ?thesis using trace_at_end [OF wf s(2)] by (simp add: word_le_nat_alt)
qed

lemma worklist_result:
  assumes wf: "wf_memory mem" and inv: "sweep_inv sw" and fresh: "m_traces sw = []"
    and run: "process_worklist mem sw = Some (Inr sw')"
  shows "sweep_inv sw'" "m_pending_targets sw' = []" "m_start ` set (m_traces sw') = {a. reaches mem sw a}"
    "\<forall>t\<in>set (m_traces sw'). \<exists>is. trace_at mem sw t is"
proof -
  from process_worklist_steps [OF run] have steps: "(sweep_step mem)\<^sup>*\<^sup>* sw sw'" and empty: "m_pending_targets sw' = []" by blast+
  from sweep_steps_invariants [OF wf steps inv sweep_progress_refl [OF fresh]]
  have inv': "sweep_inv sw'" and prog: "sweep_progress mem sw sw'" by blast+
  show "sweep_inv sw'" by (rule inv')
  show "m_pending_targets sw' = []" by (rule empty)
  have "m_start ` set (m_traces sw') \<subseteq> {a. reaches mem sw a}" using prog by (auto simp: sweep_progress_def)
  then show "m_start ` set (m_traces sw') = {a. reaches mem sw a}"
    using sweep_progress_complete [OF wf prog empty] by auto
  show "\<forall>t\<in>set (m_traces sw'). \<exists>is. trace_at mem sw t is"
    using prog by (auto simp: sweep_progress_def trace_accounted_def)
qed

lemma traces_extent:
  assumes wf: "wf_memory mem" and starts: "m_start ` set ts = {a. reaches mem sw a}"
    and at: "\<forall>t\<in>set ts. \<exists>is. trace_at mem sw t is"
  shows "\<Union> (extent ` set ts) =
    {b. \<exists>a is. reaches mem sw a \<and> walk mem (new_trace sw a) a is \<and> a \<le> b \<and> unat b < unat a + walk_bytes is}"
    (is "?L = ?R")
proof (intro set_eqI iffI)
  fix b assume "b \<in> ?L"
  then obtain t where t: "t \<in> set ts" "m_start t \<le> b" "b < GetEnd t" by (auto simp: extent_def)
  with at obtain "is" where "is": "trace_at mem sw t is" by blast
  then show "b \<in> ?R" using t starts trace_at_end(1) [OF wf "is"]
    by (intro CollectI exI [of _ "m_start t"] exI [of _ "is"]) (auto simp: trace_at_def word_less_nat_alt)
next
  fix b assume "b \<in> ?R"
  then obtain a "is" where a: "reaches mem sw a" "walk mem (new_trace sw a) a is" "a \<le> b" "unat b < unat a + walk_bytes is"
    by blast
  with starts have "a \<in> m_start ` set ts" by simp
  then obtain t where t: "t \<in> set ts" "m_start t = a" by auto
  with at obtain js where js: "trace_at mem sw t js" by blast
  with a(2) t(2) have "js = is" by (auto simp: trace_at_def intro: walk_deterministic)
  with js a t trace_at_end(1) [OF wf js] show "b \<in> ?L" by (auto simp: extent_def word_less_nat_alt)
qed

text \<open>On a sweeper in its invariant, the two early-exit searches are exact: \<open>HasTraceAt\<close> is
  membership among the starts, agrees with the map, and \<open>GetTraceAt\<close> is the first trace that
  contains the address.\<close>

lemma sweeper_lookups_exact:
  assumes inv: "sweep_inv sw"
  shows "HasTraceAt sw a = (a \<in> m_start ` set (m_traces sw)) \<and> HasTraceStart sw a = HasTraceAt sw a \<and>
    GetTraceAt sw a = find (\<lambda>t. Contains t a 1) (m_traces sw)"
proof -
  have none: "find (\<lambda>t. Contains t a 1) ts = None" if "\<forall>t\<in>set ts. a < m_start t" for ts
    using that by (auto simp: find_None_iff Contains_def)
  have "GetTraceAt_loop ts a = find (\<lambda>t. Contains t a 1) ts" if "set_inv m_start ts" for ts
    using that
  proof (induction ts)
    case (Cons t ts)
    show ?case
    proof (cases "Contains t a 1 \<or> BiggerThan t a")
      case True
      moreover have "\<forall>s\<in>set ts. a < m_start s" if "a < m_start t"
        using that Cons.prems by (auto intro: order_less_trans)
      ultimately show ?thesis using none [of ts] by (auto simp: BiggerThan_def)
    qed (use Cons in simp)
  qed simp
  with inv show ?thesis
    by (simp add: HasTraceAt_iff HasTraceStart_def GetTraceAt_def sweep_inv_def)
qed

text \<open>C5. A sweep of code that is not jumped into the middle of an instruction yields traces that do not
  overlap: each ends before the next one starts, they still start at exactly the reachable
  addresses, and they cover exactly the bytes of the instructions reached.\<close>

theorem sweep_yields_disjoint_traces:
  assumes wf: "wf_memory mem" and inv: "sweep_inv sw" and fresh: "m_traces sw = []"
    and ok: "no_overlapping_code mem sw" and run: "sweeper_process mem sw = Some (Inr sw')"
  shows "sorted_wrt (\<lambda>s t. GetEnd s \<le> m_start t) (m_traces sw') \<and>
    m_start ` set (m_traces sw') = {a. reaches mem sw a} \<and>
    \<Union> (extent ` set (m_traces sw')) =
      {b. \<exists>a is. reaches mem sw a \<and> walk mem (new_trace sw a) a is \<and> a \<le> b \<and> unat b < unat a + walk_bytes is}"
proof -
  from run obtain sw1 where run1: "process_worklist mem sw = Some (Inr sw1)"
    and sw': "m_traces sw' = adjust_ends (m_traces sw1)"
    by (auto simp: sweeper_process_def bind_r_eq_Inr split: option.splits if_splits)
  note post = worklist_result [OF wf inv fresh run1]
  let ?ts = "m_traces sw1"
  have srt: "set_inv m_start ?ts" using post(1) by (simp add: sweep_inv_def)
  have reach: "reaches mem sw (m_start t)" if "t \<in> set ?ts" for t using post(3) that by blast
  have pairs: "sorted_wrt (\<lambda>s t. GetEnd s = GetEnd t \<or> GetEnd s \<le> m_start t) ?ts"
  proof (rule sorted_wrt_mono_rel [OF _ srt [unfolded set_inv_def]])
    fix s t assume "s \<in> set ?ts" "t \<in> set ?ts" "m_start s < m_start t"
    with post(4) reach show "GetEnd s = GetEnd t \<or> GetEnd s \<le> m_start t"
      by (meson reachable_traces_end_together [OF wf ok])
  qed
  have ends: "m_start t \<le> GetEnd t" if "t \<in> set ?ts" for t using post(4) that trace_at_end [OF wf] by blast
  have "\<Union> (extent ` set (m_traces sw')) = \<Union> (extent ` set ?ts)"
    using adjust_ends_extent [OF srt] ends sw' by simp
  also have "\<dots> = {b. \<exists>a is. reaches mem sw a \<and> walk mem (new_trace sw a) a is \<and> a \<le> b \<and> unat b < unat a + walk_bytes is}"
    by (rule traces_extent [OF wf post(3,4)])
  finally show ?thesis
    using adjust_ends_disjoint [OF srt pairs] post(3) sw' adjust_ends_starts [of ?ts] by (metis list.set_map)
qed

lemma sweep_yields_disjoint_traces_witness:
  "\<exists>sw'. sweeper_process [(0x1000, [0xc3])] (new_CodeSectionSweeper 0x1000 [] [] 0x1000 1) = Some (Inr sw') \<and>
     sorted_wrt (\<lambda>s t. GetEnd s \<le> m_start t) (m_traces sw') \<and>
     {a. reaches [(0x1000, [0xc3])] (new_CodeSectionSweeper 0x1000 [] [] 0x1000 1) a} = {0x1000}"
proof -
  let ?mem = "[(0x1000, [0xc3])] :: memory" and ?sw = "new_CodeSectionSweeper 0x1000 [] [] 0x1000 1"
  have wf: "wf_memory ?mem" by (simp add: wf_memory_def)
  have inv: "sweep_inv ?sw" "m_traces ?sw = []"
    by (simp_all add: sweep_inv_def new_CodeSectionSweeper_def appendTarget_def sweeper_IsAddrCode_def addr_set.ins_inv)
  have "a = 0x1000" if "reaches ?mem ?sw a" for a
  proof -
    from that have "sweeper_IsAddrCode ?sw a" by (cases rule: reaches.cases)
    then have "unat a = 0x1000"
      by (auto simp: sweeper_IsAddrCode_def new_CodeSectionSweeper_def appendTarget_def word_le_nat_alt word_less_nat_alt)
    then show ?thesis by (simp add: word_unat_eq_iff)
  qed
  then have ok: "no_overlapping_code ?mem ?sw" unfolding no_overlapping_code_def by blast
  have run: "sweeper_process ?mem ?sw = Some (Inr (add_trace (AssembleTrace 0x1000 1 0x1000 1) (?sw\<lparr>m_pending_targets := []\<rparr>)))"
    by code_simp
  let ?sw' = "add_trace (AssembleTrace 0x1000 1 0x1000 1) (?sw\<lparr>m_pending_targets := []\<rparr>)"
  have "m_start ` set (m_traces ?sw') = {0x1000}"
    by (simp add: AssembleTrace_def new_StaticTrace_def new_CodeSectionSweeper_def appendTarget_def sweeper_IsAddrCode_def)
  with sweep_yields_disjoint_traces [OF wf inv ok run] run show ?thesis by (intro exI [of _ ?sw']) simp
qed

end
