(* ===== verification/Sweep_Gaps.thy ===== *)
theory Sweep_Gaps
  imports Sweep_Process
begin

text \<open>
  \<^verbatim>\<open>replay/CodeSectionSweeper.h\<close> and \<^verbatim>\<open>.cpp\<close>, second part: the gaps between traces
  (\<open>spotGaps\<close>), the trimming of padding and trampolines, grey areas, the linear sweep of what is
  left, \<open>postProcess\<close> and the coverage figure. The loops carry fuel; what fuel is enough is proved.
  That the loop over the gaps ends is in \<open>Sweep_Grey\<close>.
\<close>

subsection \<open>Padding\<close>

text \<open>Both padding routines compare the bounds as \<open>int32_t\<close> and refuse -1.\<close>

definition signed_range :: "u32 \<Rightarrow> u32 \<Rightarrow> bool" where
  "signed_range start end_addr \<longleftrightarrow> start \<noteq> - 1 \<and> end_addr \<noteq> - 1 \<and> sint start < sint end_addr"

text \<open>The loop variable goes with \<open>start\<close>, the first argument counts what is left up to the end.\<close>

fun padding_start_loop :: "nat \<Rightarrow> memory \<Rightarrow> Sweeper \<Rightarrow> u32 \<Rightarrow> run_error + bool \<times> u32" where
  "padding_start_loop 0 mem sw i = Inr (False, i)"
| "padding_start_loop (Suc n) mem sw i =
     (if sweeper_IsAddrCode sw i then
        bind_r (read_byte mem i) (\<lambda>ch.
        if ch = 0xcc then bind_r (padding_start_loop n mem sw (i + 1)) (\<lambda>(_, s). Inr (True, s))
        else Inr (False, i))
      else Inr (False, i))"

definition IsRangeAlignPaddingStart :: "memory \<Rightarrow> Sweeper \<Rightarrow> u32 \<Rightarrow> u32 \<Rightarrow> run_error + bool \<times> u32" where
  "IsRangeAlignPaddingStart mem sw start end_addr =
     (if signed_range start end_addr then padding_start_loop (unat (end_addr - start)) mem sw start
      else Inr (False, start))"

fun padding_end_loop :: "nat \<Rightarrow> memory \<Rightarrow> Sweeper \<Rightarrow> u32 \<Rightarrow> run_error + bool \<times> u32" where
  "padding_end_loop 0 mem sw e = Inr (False, e)"
| "padding_end_loop (Suc n) mem sw e =
     (if sweeper_IsAddrCode sw (e - 1) then
        bind_r (read_byte mem (e - 1)) (\<lambda>ch.
        if ch = 0xcc then bind_r (padding_end_loop n mem sw (e - 1)) (\<lambda>(_, s). Inr (True, s))
        else Inr (False, e))
      else Inr (False, e))"

definition IsRangeAlignPaddingEnd :: "memory \<Rightarrow> Sweeper \<Rightarrow> u32 \<Rightarrow> u32 \<Rightarrow> run_error + bool \<times> u32" where
  "IsRangeAlignPaddingEnd mem sw start end_addr =
     (if signed_range start end_addr then padding_end_loop (unat (end_addr - start)) mem sw end_addr
      else Inr (False, end_addr))"

subsection \<open>Trampolines\<close>

definition le_value :: "u8 \<Rightarrow> u8 \<Rightarrow> u8 \<Rightarrow> u8 \<Rightarrow> u32" where
  "le_value b1 b2 b3 b4 = ucast b1 + push_bit 8 (ucast b2) + push_bit 16 (ucast b3) + push_bit 24 (ucast b4)"

definition IsRangeSingleTrampoline ::
    "memory \<Rightarrow> Sweeper \<Rightarrow> u32 \<Rightarrow> u32 \<Rightarrow> run_error + bool \<times> u32 \<times> Sweeper" where
  "IsRangeSingleTrampoline mem sw start end_addr =
     (if end_addr - start \<ge> 5 \<and> start \<noteq> - 1 \<and> sweeper_IsAddrCode sw start then
        bind_r (read_byte mem start) (\<lambda>ch.
        if ch = 0xe9 then
          bind_r (read_byte mem (start + 1)) (\<lambda>b1.
          bind_r (read_byte mem (start + 2)) (\<lambda>b2.
          bind_r (read_byte mem (start + 3)) (\<lambda>b3.
          bind_r (read_byte mem (start + 4)) (\<lambda>b4.
          let sw' = sw\<lparr>m_pending_targets := insert_addr (le_value b1 b2 b3 b4) (m_pending_targets sw)\<rparr>;
              t = AssembleTrace start 5 (sw_code_section_start sw) (sw_code_section_size sw)
          in Inr (True, start + 5, add_trace t sw')))))
        else Inr (False, start, sw))
      else Inr (False, start, sw))"

fun IsRangeComboTrampoline ::
    "nat \<Rightarrow> memory \<Rightarrow> Sweeper \<Rightarrow> u32 \<Rightarrow> u32 \<Rightarrow> run_error + bool \<times> u32 \<times> Sweeper" where
  "IsRangeComboTrampoline 0 mem sw start end_addr = Inl Out_Of_Fuel"
| "IsRangeComboTrampoline (Suc fuel) mem sw start end_addr =
     bind_r (IsRangeSingleTrampoline mem sw start end_addr) (\<lambda>(found, start', sw').
     if found then bind_r (IsRangeComboTrampoline fuel mem sw' start' end_addr) (\<lambda>(_, s, w). Inr (True, s, w))
     else Inr (False, start', sw'))"

subsection \<open>Trimming a gap\<close>

text \<open>The condition of \<open>TrimGap\<close>'s loop with its side effects, left to right and short-circuited.\<close>

definition trim_step ::
    "memory \<Rightarrow> Sweeper \<Rightarrow> u32 \<Rightarrow> u32 \<Rightarrow> run_error + bool \<times> u32 \<times> u32 \<times> Sweeper" where
  "trim_step mem sw start end_addr =
     bind_r (IsRangeComboTrampoline (unat (end_addr - start) + 1) mem sw start end_addr) (\<lambda>(c1, s1, sw1).
     if c1 then Inr (s1 < end_addr, s1, end_addr, sw1)
     else bind_r (IsRangeAlignPaddingStart mem sw1 s1 end_addr) (\<lambda>(c2, s2).
     if c2 then Inr (s2 < end_addr, s2, end_addr, sw1)
     else bind_r (IsRangeAlignPaddingEnd mem sw1 s2 end_addr) (\<lambda>(c3, e3).
     Inr (c3 \<and> s2 < e3, s2, e3, sw1))))"

fun trim_loop :: "nat \<Rightarrow> memory \<Rightarrow> Sweeper \<Rightarrow> u32 \<Rightarrow> u32 \<Rightarrow> run_error + u32 \<times> u32 \<times> Sweeper" where
  "trim_loop 0 mem sw start end_addr = Inl Out_Of_Fuel"
| "trim_loop (Suc fuel) mem sw start end_addr =
     bind_r (trim_step mem sw start end_addr) (\<lambda>(go_on, s, e, sw').
     if go_on then trim_loop fuel mem sw' s e else Inr (s, e, sw'))"

definition TrimGap :: "memory \<Rightarrow> Sweeper \<Rightarrow> u32 \<Rightarrow> u32 \<Rightarrow> run_error + bool \<times> u32 \<times> u32 \<times> Sweeper" where
  "TrimGap mem sw start end_addr =
     bind_r (trim_loop (unat (end_addr - start) + 2) mem sw start end_addr) (\<lambda>(s, e, sw').
     Inr (s = e, s, e, sw'))"

subsection \<open>Grey areas\<close>

text \<open>One grey area after the other; \<open>start_offset\<close> and \<open>end_offset\<close> keep the values from before the
  loop. The comparison \<open>GetStart() < start_offset\<close> is of unsigned values. The second component of
  the result is what is pushed onto \<open>vec_gaps\<close>.\<close>

fun grey_loop ::
    "StaticTrace list \<Rightarrow> u32 \<Rightarrow> u32 \<Rightarrow> u32 \<Rightarrow> u32 \<Rightarrow> bool \<Rightarrow> (u32 \<times> u32) list \<Rightarrow>
     bool \<times> (u32 \<times> u32) list \<times> u32 \<times> u32" where
  "grey_loop [] start_offset end_offset start end_addr result gaps = (result, gaps, start, end_addr)"
| "grey_loop (g # gs) start_offset end_offset start end_addr result gaps =
     (if Contains g start_offset (end_offset - start_offset) then
        grey_loop gs start_offset end_offset end_addr end_addr True gaps
      else if Pertains g start_offset (end_offset - start_offset) then
        grey_loop gs start_offset end_offset start (GetStart g) result (gaps @ [(GetEnd g, end_addr)])
      else if Intersect g start_offset (end_offset - start_offset) then
        (if GetStart g < start_offset then grey_loop gs start_offset end_offset (GetEnd g) end_addr result gaps
         else grey_loop gs start_offset end_offset start (GetStart g) result gaps)
      else grey_loop gs start_offset end_offset start end_addr result gaps)"

definition IsRangeIntersectedWithGreyArea ::
    "Sweeper \<Rightarrow> u32 \<Rightarrow> u32 \<Rightarrow> bool \<times> (u32 \<times> u32) list \<times> u32 \<times> u32" where
  "IsRangeIntersectedWithGreyArea sw start end_addr =
     (if signed_range start end_addr then grey_loop (m_grey_areas sw) start end_addr start end_addr False []
      else (False, [], start, end_addr))"

subsection \<open>Linear sweep\<close>

text \<open>What one decoded instruction does: new targets are pending, and an instruction that ends a
  trace closes the one from \<open>trace_start\<close>. The result is the new \<open>trace_start\<close>.\<close>

definition sweep_insn :: "u32 \<Rightarrow> INSTRUCTION \<Rightarrow> u32 \<Rightarrow> Sweeper \<Rightarrow> u32 \<times> Sweeper" where
  "sweep_insn inst_pre i trace_start sw =
     (let inst_post = inst_pre + of_nat (ilength i);
          t = AssembleTrace trace_start (inst_post - trace_start) (sw_code_section_start sw) (sw_code_section_size sw);
          pend = sw\<lparr>m_pending_targets := fold insert_addr (direct_target inst_pre i) (m_pending_targets sw)\<rparr>
      in if itype i = INSTRUCTION_TYPE_JMP then (inst_post, add_trace t pend)
         else if itype i = INSTRUCTION_TYPE_JMPC then (trace_start, pend)
         else if itype i = INSTRUCTION_TYPE_CALL \<or> itype i = INSTRUCTION_TYPE_RET then (inst_post, add_trace t sw)
         else (trace_start, sw))"

fun linear_sweep_loop ::
    "nat \<Rightarrow> memory \<Rightarrow> u32 \<Rightarrow> u32 \<Rightarrow> u32 \<Rightarrow> u32 \<Rightarrow> Sweeper \<Rightarrow> run_error + Sweeper" where
  "linear_sweep_loop 0 mem gap_end trace_start inst_pre inst_post sw = Inl Out_Of_Fuel"
| "linear_sweep_loop (Suc fuel) mem gap_end trace_start inst_pre inst_post sw =
     (if inst_pre < gap_end then
        bind_r (IsRangeAlignPaddingStart mem sw inst_pre gap_end) (\<lambda>(padded, pre).
        let (start, post, sw1) =
              (if padded then (pre, pre, add_trace (AssembleTrace trace_start (inst_post - trace_start)
                   (sw_code_section_start sw) (sw_code_section_size sw)) sw)
               else (trace_start, inst_post, sw))
        in case (if sweeper_IsAddrCode sw1 pre then get_instruction (bytes_at mem pre) MODE_32
                 else Inl IllegalInstruction) of
             Inr i \<Rightarrow>
               let (start', sw2) = sweep_insn pre i start sw1; next = pre + of_nat (ilength i)
               in linear_sweep_loop fuel mem gap_end start' next next sw2
           | Inl e \<Rightarrow>
               if e = IllegalInstruction
               then linear_sweep_loop fuel mem gap_end (post + 1) (post + 1) (post + 1) sw1
               else Inl Access_Violation)
      else Inr sw)"

definition linearSweepGap :: "memory \<Rightarrow> Sweeper \<Rightarrow> u32 \<Rightarrow> u32 \<Rightarrow> run_error + Sweeper" where
  "linearSweepGap mem sw gap_start gap_end =
     linear_sweep_loop (unat (gap_end - gap_start) + 1) mem gap_end gap_start gap_start gap_start sw"

subsection \<open>Gaps\<close>

text \<open>\<open>range_now\<close> starts as (0, 0), which also stands for no range yet. The range that is being
  built when the traces end is not saved.\<close>

fun ranges_loop :: "StaticTrace list \<Rightarrow> u32 \<times> u32 \<Rightarrow> (u32 \<times> u32) list \<Rightarrow> (u32 \<times> u32) list" where
  "ranges_loop [] range_now vec_ranges = vec_ranges"
| "ranges_loop (t # ts) range_now vec_ranges =
     (if range_now = (0, 0) then ranges_loop ts (GetStart t, GetEnd t) vec_ranges
      else if GetStart t = snd range_now then ranges_loop ts (fst range_now, GetEnd t) vec_ranges
      else ranges_loop ts (GetStart t, GetEnd t) (vec_ranges @ [range_now]))"

fun gaps_between :: "(u32 \<times> u32) list \<Rightarrow> u32 \<Rightarrow> u32 \<Rightarrow> (u32 \<times> u32) list" where
  "gaps_between [] gap_start section_end = [(gap_start, section_end)]"
| "gaps_between (r # rs) gap_start section_end = (gap_start, fst r) # gaps_between rs (snd r) section_end"

definition vec_gaps :: "Sweeper \<Rightarrow> (u32 \<times> u32) list" where
  "vec_gaps sw = gaps_between (ranges_loop (m_traces sw) (0, 0) []) (sw_code_section_start sw)
     (sw_code_section_start sw + sw_code_section_size sw)"

definition process_gap :: "memory \<Rightarrow> u32 \<times> u32 \<Rightarrow> Sweeper \<Rightarrow> run_error + (u32 \<times> u32) list \<times> Sweeper" where
  "process_gap mem gap sw =
     bind_r (TrimGap mem sw (fst gap) (snd gap)) (\<lambda>(trimmed, s, e, sw1).
     if trimmed then Inr ([], sw1)
     else let (covered, pushed, s', e') = IsRangeIntersectedWithGreyArea sw1 s e
          in if covered then Inr (pushed, sw1)
             else bind_r (linearSweepGap mem sw1 s' e') (\<lambda>sw2. Inr (pushed, sw2)))"

text \<open>The loop over \<open>vec_gaps\<close> holds an iterator into the vector while \<open>push_back\<close> makes it longer.
  Whether that reallocates, and so invalidates the iterator, is up to the standard library:
  \<open>reallocates n\<close> says so for a vector of \<open>n\<close> elements. \<open>n\<close> below is the current length.\<close>

partial_function (option) gap_loop ::
    "(nat \<Rightarrow> bool) \<Rightarrow> memory \<Rightarrow> nat \<Rightarrow> (u32 \<times> u32) list \<Rightarrow> Sweeper \<Rightarrow> (run_error + Sweeper) option" where
  "gap_loop reallocates mem n gaps sw =
     (case gaps of
        [] \<Rightarrow> Some (Inr sw)
      | gap # rest \<Rightarrow>
          (case process_gap mem gap sw of
             Inl e \<Rightarrow> Some (Inl e)
           | Inr r \<Rightarrow>
               if list_ex reallocates [n..<n + length (fst r)] then Some (Inl Invalid_Iterator)
               else gap_loop reallocates mem (n + length (fst r)) (rest @ fst r) (snd r)))"

definition spotGaps :: "(nat \<Rightarrow> bool) \<Rightarrow> memory \<Rightarrow> Sweeper \<Rightarrow> (run_error + Sweeper) option" where
  "spotGaps reallocates mem sw =
     (case gap_loop reallocates mem (length (vec_gaps sw)) (vec_gaps sw) sw of
        None \<Rightarrow> None
      | Some (Inl e) \<Rightarrow> Some (Inl e)
      | Some (Inr sw') \<Rightarrow> sweeper_process mem sw')"

subsection \<open>Structure areas, coverage and justification\<close>

definition MAX_LEA_PADDING_SEARCH_RANGE :: u32 where "MAX_LEA_PADDING_SEARCH_RANGE = 4 * 1024"

text \<open>The end of a structure area: the first 16-byte boundary after a run of more than four
  0xCC bytes, or where the search gives up. The loop's condition increments \<open>lea_target_end\<close>
  also when it fails.\<close>

fun lea_search :: "nat \<Rightarrow> memory \<Rightarrow> u32 \<Rightarrow> u32 \<Rightarrow> nat \<Rightarrow> run_error + u32" where
  "lea_search 0 mem limit lea_target_end num_int3 = Inl Out_Of_Fuel"
| "lea_search (Suc fuel) mem limit lea_target_end num_int3 =
     (if lea_target_end < limit then
        bind_r (read_byte mem (lea_target_end + 1)) (\<lambda>b.
        if b = 0xcc then lea_search fuel mem limit (lea_target_end + 1) (num_int3 + 1)
        else if (lea_target_end + 1) AND 0xf = 0 \<and> num_int3 > 4 then Inr (lea_target_end + 1)
        else lea_search fuel mem limit (lea_target_end + 1) 0)
      else Inr (lea_target_end + 1))"

text \<open>The traces are walked in order. \<open>m_traces.erase(itt); continue\<close> is followed by \<open>itt++\<close> on
  the iterator that was just invalidated.\<close>

fun erase_loop :: "StaticTrace list \<Rightarrow> u32 \<Rightarrow> u32 \<Rightarrow> run_error + unit" where
  "erase_loop [] start end_addr = Inr ()"
| "erase_loop (t # ts) start end_addr =
     (if Intersect t start (end_addr - start) then Inl Invalid_Iterator
      else if BiggerThan t end_addr then Inr ()
      else erase_loop ts start end_addr)"

fun postProcess_loop :: "memory \<Rightarrow> StaticTrace list \<Rightarrow> u32 list \<Rightarrow> run_error + unit" where
  "postProcess_loop mem ts [] = Inr ()"
| "postProcess_loop mem ts (lea # leas) =
     (let limit = lea + MAX_LEA_PADDING_SEARCH_RANGE in
      bind_r (lea_search 4097 mem limit lea 0) (\<lambda>e.
      bind_r (if e < limit then erase_loop ts lea e else Inr ()) (\<lambda>_.
      postProcess_loop mem ts leas)))"

definition postProcess :: "memory \<Rightarrow> Sweeper \<Rightarrow> run_error + Sweeper" where
  "postProcess mem sw = bind_r (postProcess_loop mem (m_traces sw) (m_lea_targets sw)) (\<lambda>_. Inr sw)"

text \<open>The two numbers \<open>calculateCoverage\<close> prints (the percentage is their quotient).\<close>

definition calculateCoverage :: "Sweeper \<Rightarrow> u32 \<times> u32" where
  "calculateCoverage sw = (sum_list (map GetSize (m_traces sw)), sw_code_section_size sw)"

text \<open>\<open>justifyTrace\<close>, which nothing calls. Its loop compares an address with a size.\<close>

fun justify_loop :: "nat \<Rightarrow> memory \<Rightarrow> Sweeper \<Rightarrow> u32 \<Rightarrow> u32 \<Rightarrow> u32 \<Rightarrow> run_error + bool" where
  "justify_loop 0 mem sw trace_size trace_end inst_pre = Inl Out_Of_Fuel"
| "justify_loop (Suc fuel) mem sw trace_size trace_end inst_pre =
     (if inst_pre < trace_size then
        bind_r (IsRangeAlignPaddingStart mem sw inst_pre trace_end) (\<lambda>(padded, pre).
        if padded then Inr False
        else if sweeper_IsAddrCode sw pre then
          (case get_instruction (bytes_at mem pre) MODE_32 of
             Inl e \<Rightarrow> if e = IllegalInstruction then Inr False else Inl Access_Violation
           | Inr i \<Rightarrow>
               if ends_trace i then Inr False
               else justify_loop fuel mem sw trace_size trace_end (pre + of_nat (ilength i)))
        else Inr False)
      else Inr True)"

definition justifyTrace :: "memory \<Rightarrow> Sweeper \<Rightarrow> u32 \<Rightarrow> u32 \<Rightarrow> run_error + bool" where
  "justifyTrace mem sw trace_start trace_size =
     justify_loop (unat trace_size + 1) mem sw trace_size (trace_start + trace_size) trace_start"

subsection \<open>What every step of the gap analysis keeps\<close>

definition grows :: "Sweeper \<Rightarrow> Sweeper \<Rightarrow> bool" where
  "grows sw sw' \<longleftrightarrow> (sweep_inv sw \<longrightarrow> sweep_inv sw') \<and>
     m_start ` set (m_traces sw) \<subseteq> m_start ` set (m_traces sw') \<and>
     set (m_pending_targets sw) \<subseteq> set (m_pending_targets sw') \<and>
     sw_code_section_start sw' = sw_code_section_start sw \<and> sw_code_section_size sw' = sw_code_section_size sw \<and>
     m_grey_areas sw' = m_grey_areas sw \<and> m_lea_targets sw' = m_lea_targets sw"

lemma grows_refl [simp]: "grows sw sw"
  by (simp add: grows_def)

lemma grows_trans: "grows a b \<Longrightarrow> grows b c \<Longrightarrow> grows a c"
  unfolding grows_def by (metis subset_trans)

lemma grows_add_trace: "grows sw sw' \<Longrightarrow> grows sw (add_trace t sw')"
proof -
  have "grows sw' (add_trace t sw')"
    by (auto simp: grows_def sweep_inv_add_trace trace_set.ins_keys) (simp_all add: add_trace_def)
  then show "grows sw sw' \<Longrightarrow> grows sw (add_trace t sw')" by (blast intro: grows_trans)
qed

lemma grows_pending: "grows sw (sw\<lparr>m_pending_targets := fold insert_addr as (m_pending_targets sw)\<rparr>)"
  by (auto simp: grows_def insert_addr_fold_set addr_set.fold_ins_inv sweep_inv_pending)

lemma grows_pending1: "grows sw (sw\<lparr>m_pending_targets := insert_addr a (m_pending_targets sw)\<rparr>)"
  using grows_pending [of sw "[a]"] by simp

lemma sweep_insn_grows: "sweep_insn pre i start sw = (s, sw') \<Longrightarrow> grows sw sw'"
  by (auto simp: sweep_insn_def Let_def grows_pending split: if_splits intro!: grows_add_trace)

subsection \<open>Padding and trampolines\<close>

lemma padding_start_loop_result:
  "padding_start_loop n mem sw i = Inr (c, s) \<Longrightarrow>
   \<exists>k. s = i + of_nat k \<and> k \<le> n \<and> (c \<longleftrightarrow> 0 < k) \<and> (\<forall>j<k. read_byte mem (i + of_nat j) = Inr 0xcc)"
proof (induction n arbitrary: i c s)
  case (Suc n)
  show ?case
  proof (cases "sweeper_IsAddrCode sw i \<and> read_byte mem i = Inr 0xcc")
    case True
    with Suc.prems obtain c' where rec: "padding_start_loop n mem sw (i + 1) = Inr (c', s)" and c: "c"
      by (auto simp: bind_r_eq_Inr)
    from Suc.IH [OF rec] obtain k where k: "s = i + 1 + of_nat k" "k \<le> n"
      "\<forall>j<k. read_byte mem (i + 1 + of_nat j) = Inr 0xcc" by blast
    have "read_byte mem (i + of_nat j) = Inr 0xcc" if "j < Suc k" for j
      using that True k(3) by (cases j) (auto simp: algebra_simps)
    with k c show ?thesis by (intro exI [of _ "Suc k"]) (simp add: algebra_simps)
  next
    case False
    with Suc.prems have "s = i" "\<not> c" by (auto simp: bind_r_eq_Inr split: if_splits)
    then show ?thesis by (intro exI [of _ 0]) simp
  qed
qed (intro exI [of _ 0], simp)

lemma padding_end_loop_result:
  "padding_end_loop n mem sw e = Inr (c, s) \<Longrightarrow>
   \<exists>k. s = e - of_nat k \<and> k \<le> n \<and> (c \<longleftrightarrow> 0 < k) \<and> (\<forall>j. 0 < j \<and> j \<le> k \<longrightarrow> read_byte mem (e - of_nat j) = Inr 0xcc)"
proof (induction n arbitrary: e c s)
  case (Suc n)
  show ?case
  proof (cases "sweeper_IsAddrCode sw (e - 1) \<and> read_byte mem (e - 1) = Inr 0xcc")
    case True
    with Suc.prems obtain c' where rec: "padding_end_loop n mem sw (e - 1) = Inr (c', s)" and c: "c"
      by (auto simp: bind_r_eq_Inr)
    from Suc.IH [OF rec] obtain k where k: "s = e - 1 - of_nat k" "k \<le> n"
      "\<forall>j. 0 < j \<and> j \<le> k \<longrightarrow> read_byte mem (e - 1 - of_nat j) = Inr 0xcc" by blast
    have "read_byte mem (e - of_nat j) = Inr 0xcc" if j: "0 < j \<and> j \<le> Suc k" for j
    proof (cases "j = 1")
      case False
      with j obtain m where m: "j = Suc m" "0 < m \<and> m \<le> k" by (cases j) auto
      have "e - 1 - of_nat m = e - of_nat j" by (simp add: m(1) algebra_simps)
      with k(3) m(2) show ?thesis by metis
    qed (use True in simp)
    with k c show ?thesis by (intro exI [of _ "Suc k"]) (simp add: algebra_simps)
  next
    case False
    with Suc.prems have "s = e" "\<not> c" by (auto simp: bind_r_eq_Inr split: if_splits)
    then show ?thesis by (intro exI [of _ 0]) simp
  qed
qed (intro exI [of _ 0], simp)

lemma padding_no_fuel:
  "padding_start_loop n mem sw i \<noteq> Inl Out_Of_Fuel" "padding_end_loop n mem sw i \<noteq> Inl Out_Of_Fuel"
proof -
  have r: "read_byte mem a \<noteq> Inl Out_Of_Fuel" for a by (simp add: read_byte_def split: list.split)
  show "padding_start_loop n mem sw i \<noteq> Inl Out_Of_Fuel"
    by (induction n arbitrary: i) (auto simp: bind_r_eq_Inl r)
  show "padding_end_loop n mem sw i \<noteq> Inl Out_Of_Fuel"
    by (induction n arbitrary: i) (auto simp: bind_r_eq_Inl r)
qed

text \<open>An iteration of \<open>justify_loop\<close> that goes on has moved past an instruction, so its fuel is enough.\<close>

lemma no_padding_keeps_start: "IsRangeAlignPaddingStart mem sw a e = Inr (False, s) \<Longrightarrow> s = a"
  by (cases "unat (e - a)")
    (auto simp: IsRangeAlignPaddingStart_def bind_r_eq_Inr split: if_splits)

lemma justify_loop_no_fuel:
  assumes wf: "wf_memory mem"
  shows "unat n - unat pre < fuel \<Longrightarrow> justify_loop fuel mem sw n e pre \<noteq> Inl Out_Of_Fuel"
proof (induction fuel arbitrary: pre)
  case (Suc fuel)
  have quiet: "IsRangeAlignPaddingStart mem sw pre e \<noteq> Inl Out_Of_Fuel"
    using padding_no_fuel by (auto simp: IsRangeAlignPaddingStart_def)
  have next_iteration: "justify_loop fuel mem sw n e (pre + of_nat (ilength i)) \<noteq> Inl Out_Of_Fuel"
    if "get_instruction (bytes_at mem pre) MODE_32 = Inr i" "pre < n" for i
    by (rule Suc.IH) (use insn_step [OF wf that(1)] that(2) Suc.prems in \<open>simp add: word_less_nat_alt\<close>)
  show ?case
  proof
    assume run: "justify_loop (Suc fuel) mem sw n e pre = Inl Out_Of_Fuel"
    then have less: "pre < n" by (simp split: if_splits)
    with run quiet obtain c s where pad: "IsRangeAlignPaddingStart mem sw pre e = Inr (c, s)"
      by (cases "IsRangeAlignPaddingStart mem sw pre e") auto
    with run less have "\<not> c" by (auto split: if_splits)
    with pad have "s = pre" by (auto dest: no_padding_keeps_start)
    with run less pad \<open>\<not> c\<close> next_iteration show False by (auto split: if_splits sum.splits)
  qed
qed simp

lemma justifyTrace_no_fuel: "wf_memory mem \<Longrightarrow> justifyTrace mem sw start n \<noteq> Inl Out_Of_Fuel"
  unfolding justifyTrace_def by (rule justify_loop_no_fuel, assumption, simp)

subsection \<open>What trimming a gap may take away\<close>

text \<open>Padding, or the five bytes of an \<open>E9\<close> at which the sweeper now has a trace.\<close>

definition skippable :: "memory \<Rightarrow> Sweeper \<Rightarrow> u32 \<Rightarrow> bool" where
  "skippable mem sw a \<longleftrightarrow> read_byte mem a = Inr 0xcc \<or>
     (\<exists>k \<in> m_start ` set (m_traces sw). k \<le> a \<and> unat a < unat k + 5 \<and> read_byte mem k = Inr 0xe9)"

definition trim_ok :: "memory \<Rightarrow> u32 \<Rightarrow> u32 \<Rightarrow> Sweeper \<Rightarrow> u32 \<Rightarrow> u32 \<Rightarrow> Sweeper \<Rightarrow> bool" where
  "trim_ok mem start e0 sw s e sw' \<longleftrightarrow> start \<le> s \<and> s \<le> e \<and> e \<le> e0 \<and> grows sw sw' \<and>
     (\<forall>a. start \<le> a \<and> a < s \<longrightarrow> skippable mem sw' a) \<and> (\<forall>a. e \<le> a \<and> a < e0 \<longrightarrow> skippable mem sw' a)"

lemma skippable_grows: "skippable mem sw a \<Longrightarrow> grows sw sw' \<Longrightarrow> skippable mem sw' a"
  unfolding skippable_def grows_def by blast

lemma trim_ok_refl: "start \<le> e \<Longrightarrow> trim_ok mem start e sw start e sw"
  by (auto simp: trim_ok_def)

lemma trim_ok_trans:
  assumes 1: "trim_ok mem start e0 sw s1 e1 sw1" and 2: "trim_ok mem s1 e1 sw1 s e sw'"
  shows "trim_ok mem start e0 sw s e sw'"
proof -
  have g: "grows sw1 sw'" using 2 by (simp add: trim_ok_def)
  have "skippable mem sw' a" if "start \<le> a" "a < s" for a
    using that 1 2 skippable_grows [OF _ g] by (cases "a < s1") (auto simp: trim_ok_def)
  moreover have "skippable mem sw' a" if "e \<le> a" "a < e0" for a
    using that 1 2 skippable_grows [OF _ g] by (cases "a < e1") (auto simp: trim_ok_def)
  ultimately show ?thesis using 1 2 by (auto simp: trim_ok_def intro: grows_trans)
qed

lemma range_add:
  fixes start :: u32
  assumes "start \<le> e" "k \<le> unat (e - start)"
  shows "unat (start + of_nat k) = unat start + k" "start + of_nat k \<le> e" "start \<le> start + of_nat k"
    "unat (e - (start + of_nat k)) = unat (e - start) - k"
proof -
  have fit: "unat start + k \<le> unat e" using assms by (simp add: unat_diff_le word_le_nat_alt)
  then show u: "unat (start + of_nat k) = unat start + k"
    using u32_bound [of e] by (intro unat_add_no_wrap) simp
  with fit show "start + of_nat k \<le> e" "start \<le> start + of_nat k" by (simp_all add: word_le_nat_alt)
  with u assms show "unat (e - (start + of_nat k)) = unat (e - start) - k" by (simp add: unat_diff_le)
qed

lemma range_sub:
  fixes start :: u32
  assumes "start \<le> e" "k \<le> unat (e - start)"
  shows "unat (e - of_nat k) = unat e - k" "start \<le> e - of_nat k" "e - of_nat k \<le> e"
    "unat (e - of_nat k - start) = unat (e - start) - k"
proof -
  have fit: "unat start + k \<le> unat e" using assms by (simp add: unat_diff_le word_le_nat_alt)
  have "of_nat k \<le> e" using fit u32_bound [of e] by (simp add: word_le_nat_alt unat_of_nat)
  then show u: "unat (e - of_nat k) = unat e - k"
    using fit u32_bound [of e] by (simp add: unat_diff_le unat_of_nat)
  with fit show "start \<le> e - of_nat k" "e - of_nat k \<le> e" by (simp_all add: word_le_nat_alt)
  with u fit assms show "unat (e - of_nat k - start) = unat (e - start) - k" by (simp add: unat_diff_le)
qed

lemma offset_of:
  fixes a :: u32 assumes "start \<le> a" shows "a = start + of_nat (unat a - unat start)"
  using assms by (simp add: unat_diff_le [symmetric])

lemma padding_start_ok:
  assumes run: "IsRangeAlignPaddingStart mem sw start e = Inr (c, s)" and le: "start \<le> e"
  shows "trim_ok mem start e sw s e sw" "c \<Longrightarrow> unat (e - s) < unat (e - start)" "\<not> c \<Longrightarrow> s = start"
proof -
  from run obtain k where k: "s = start + of_nat k" "k \<le> unat (e - start)" "c \<longleftrightarrow> 0 < k"
    "\<forall>j<k. read_byte mem (start + of_nat j) = Inr 0xcc"
  proof (cases "signed_range start e")
    case True
    with run have "padding_start_loop (unat (e - start)) mem sw start = Inr (c, s)" by (simp add: IsRangeAlignPaddingStart_def)
    from padding_start_loop_result [OF this] that show ?thesis by blast
  next
    case False
    with run have "s = start" "\<not> c" by (simp_all add: IsRangeAlignPaddingStart_def)
    with that [of 0] show ?thesis by simp
  qed
  note ra = range_add [OF le k(2)]
  have "skippable mem sw a" if "start \<le> a" "a < s" for a
  proof -
    have "unat a - unat start < k" using that ra(1) k(1) by (simp add: word_le_nat_alt word_less_nat_alt)
    with k(4) offset_of [OF that(1)] show ?thesis by (metis skippable_def)
  qed
  with ra k(1) show "trim_ok mem start e sw s e sw" by (auto simp: trim_ok_def)
  show "c \<Longrightarrow> unat (e - s) < unat (e - start)" using ra(4) k by simp
  show "\<not> c \<Longrightarrow> s = start" using k by simp
qed

lemma padding_end_ok:
  assumes run: "IsRangeAlignPaddingEnd mem sw start e0 = Inr (c, e)" and le: "start \<le> e0"
  shows "trim_ok mem start e0 sw start e sw" "c \<Longrightarrow> unat (e - start) < unat (e0 - start)"
proof -
  from run obtain k where k: "e = e0 - of_nat k" "k \<le> unat (e0 - start)" "c \<longleftrightarrow> 0 < k"
    "\<forall>j. 0 < j \<and> j \<le> k \<longrightarrow> read_byte mem (e0 - of_nat j) = Inr 0xcc"
  proof (cases "signed_range start e0")
    case True
    with run have "padding_end_loop (unat (e0 - start)) mem sw e0 = Inr (c, e)" by (simp add: IsRangeAlignPaddingEnd_def)
    from padding_end_loop_result [OF this] that show ?thesis by blast
  next
    case False
    with run have "e = e0" "\<not> c" by (simp_all add: IsRangeAlignPaddingEnd_def)
    with that [of 0] show ?thesis by simp
  qed
  note rs = range_sub [OF le k(2)]
  have "skippable mem sw a" if "e \<le> a" "a < e0" for a
  proof -
    have "0 < unat e0 - unat a" "unat e0 - unat a \<le> k"
      using that rs(1) k(1) by (simp_all add: word_le_nat_alt word_less_nat_alt)
    moreover have "a = e0 - of_nat (unat e0 - unat a)"
      using that(2) by (simp add: unat_diff_le [symmetric] order_less_imp_le)
    ultimately show ?thesis using k(4) by (metis skippable_def)
  qed
  with rs k(1) show "trim_ok mem start e0 sw start e sw" by (auto simp: trim_ok_def)
  show "c \<Longrightarrow> unat (e - start) < unat (e0 - start)" using rs(4) k by simp
qed

lemma trampoline_ok:
  assumes run: "IsRangeSingleTrampoline mem sw start e = Inr (c, s, sw')" and le: "start \<le> e"
  shows "trim_ok mem start e sw s e sw'" "c \<Longrightarrow> unat (e - s) + 5 = unat (e - start)"
    "\<not> c \<Longrightarrow> s = start \<and> sw' = sw"
proof -
  have "\<not> c \<and> s = start \<and> sw' = sw \<or> (\<exists>v. c \<and> 5 \<le> e - start \<and> read_byte mem start = Inr 0xe9 \<and> s = start + 5 \<and>
      sw' = add_trace (AssembleTrace start 5 (sw_code_section_start sw) (sw_code_section_size sw))
        (sw\<lparr>m_pending_targets := insert_addr v (m_pending_targets sw)\<rparr>))"
    using run by (auto simp: IsRangeSingleTrampoline_def bind_r_eq_Inr Let_def split: if_splits)
  then consider (no) "\<not> c" "s = start" "sw' = sw"
    | (yes) v where "c" "5 \<le> e - start" "read_byte mem start = Inr 0xe9" "s = start + 5"
      "sw' = add_trace (AssembleTrace start 5 (sw_code_section_start sw) (sw_code_section_size sw))
        (sw\<lparr>m_pending_targets := insert_addr v (m_pending_targets sw)\<rparr>)" by blast
  then have "trim_ok mem start e sw s e sw' \<and> (c \<longrightarrow> unat (e - s) + 5 = unat (e - start)) \<and>
      (\<not> c \<longrightarrow> s = start \<and> sw' = sw)"
  proof cases
    case no
    with le show ?thesis by (simp add: trim_ok_refl)
  next
    case yes
    have five: "5 \<le> unat (e - start)" using yes(2) by (simp add: word_le_nat_alt)
    note ra = range_add [OF le five, simplified]
    have st: "start \<in> m_start ` set (m_traces sw')"
      using yes(5) by (simp add: trace_set.ins_keys AssembleTrace_def new_StaticTrace_def)
    have "skippable mem sw' a" if "start \<le> a" "a < s" for a
      using that st yes(3,4) ra(1) unfolding skippable_def by (auto simp: word_less_nat_alt)
    moreover have "grows sw sw'" using yes(5) by (simp add: grows_add_trace grows_pending1)
    ultimately show ?thesis using ra yes(1,4) five by (auto simp: trim_ok_def)
  qed
  then show "trim_ok mem start e sw s e sw'" "c \<Longrightarrow> unat (e - s) + 5 = unat (e - start)"
    "\<not> c \<Longrightarrow> s = start \<and> sw' = sw" by auto
qed

subsection \<open>Progress\<close>

text \<open>The distance to the end, taken modulo \<open>2 ^ 32\<close>, goes down with every find, whether or not the
  range is in order. This is what the fuel rests on.\<close>

lemma distance:
  fixes start :: u32
  assumes "k \<le> unat (e - start)"
  shows "unat (e - (start + of_nat k)) = unat (e - start) - k" "unat (e - of_nat k - start) = unat (e - start) - k"
proof -
  have "of_nat k \<le> e - start"
    using assms u32_bound [of "e - start"] by (simp add: word_le_nat_alt unat_of_nat)
  then have "unat (e - start - of_nat k) = unat (e - start) - k"
    using assms u32_bound [of "e - start"] by (simp add: unat_diff_le unat_of_nat)
  then show "unat (e - (start + of_nat k)) = unat (e - start) - k" "unat (e - of_nat k - start) = unat (e - start) - k"
    by (simp_all add: algebra_simps)
qed

lemma padding_dec:
  "IsRangeAlignPaddingStart mem sw start e = Inr (c, s) \<Longrightarrow>
     (c \<longrightarrow> unat (e - s) < unat (e - start)) \<and> (\<not> c \<longrightarrow> s = start)"
  "IsRangeAlignPaddingEnd mem sw start e = Inr (c, s) \<Longrightarrow> c \<longrightarrow> unat (s - start) < unat (e - start)"
  using padding_start_loop_result [of "unat (e - start)" mem sw start c s] distance [of _ e start]
    padding_end_loop_result [of "unat (e - start)" mem sw e c s]
  by (auto simp: IsRangeAlignPaddingStart_def IsRangeAlignPaddingEnd_def split: if_splits)

lemma trampoline_dec:
  assumes "IsRangeSingleTrampoline mem sw start e = Inr (c, s, sw')"
  shows "grows sw sw' \<and> (c \<longrightarrow> unat (e - s) < unat (e - start)) \<and> (\<not> c \<longrightarrow> s = start \<and> sw' = sw)"
proof (cases c)
  case True
  with assms obtain v where "5 \<le> e - start" "s = start + 5"
      "sw' = add_trace (AssembleTrace start 5 (sw_code_section_start sw) (sw_code_section_size sw))
        (sw\<lparr>m_pending_targets := insert_addr v (m_pending_targets sw)\<rparr>)"
    by (auto simp: IsRangeSingleTrampoline_def bind_r_eq_Inr Let_def split: if_splits)
  then show ?thesis
    using True distance(1) [of 5 e start] by (simp add: grows_add_trace grows_pending1 word_le_nat_alt)
next
  case False
  with assms show ?thesis by (auto simp: IsRangeSingleTrampoline_def bind_r_eq_Inr Let_def split: if_splits)
qed

lemma combo_dec:
  "IsRangeComboTrampoline fuel mem sw start e = Inr (c, s, sw') \<Longrightarrow>
   grows sw sw' \<and> (c \<longrightarrow> unat (e - s) < unat (e - start)) \<and> (\<not> c \<longrightarrow> s = start \<and> sw' = sw)"
proof (induction fuel arbitrary: sw start c)
  case (Suc fuel)
  from Suc.prems(1) obtain f s1 sw1 where single: "IsRangeSingleTrampoline mem sw start e = Inr (f, s1, sw1)"
    and rest: "(if f then bind_r (IsRangeComboTrampoline fuel mem sw1 s1 e) (\<lambda>(_, s, w). Inr (True, s, w))
      else Inr (False, s1, sw1)) = Inr (c, s, sw')" by (auto simp: bind_r_eq_Inr)
  note st = trampoline_dec [OF single]
  show ?case
  proof (cases f)
    case True
    with rest obtain c' where rec: "IsRangeComboTrampoline fuel mem sw1 s1 e = Inr (c', s, sw')" and c: "c"
      by (auto simp: bind_r_eq_Inr)
    from Suc.IH [OF rec] st True c show ?thesis by (cases c') (auto intro: grows_trans)
  qed (use rest st in auto)
qed simp

declare IsRangeComboTrampoline.simps(2) [simp del]

lemma trim_step_cases:
  assumes run: "trim_step mem sw start e0 = Inr (go_on, s, e, sw')"
  obtains
    (trampolines) "IsRangeComboTrampoline (unat (e0 - start) + 1) mem sw start e0 = Inr (True, s, sw')"
      "go_on = (s < e0)" "e = e0"
  | (padding) s1 where "IsRangeComboTrampoline (unat (e0 - start) + 1) mem sw start e0 = Inr (False, s1, sw')"
      "IsRangeAlignPaddingStart mem sw' s1 e0 = Inr (True, s)" "go_on = (s < e0)" "e = e0"
  | (tail) s1 c where "IsRangeComboTrampoline (unat (e0 - start) + 1) mem sw start e0 = Inr (False, s1, sw')"
      "IsRangeAlignPaddingStart mem sw' s1 e0 = Inr (False, s)"
      "IsRangeAlignPaddingEnd mem sw' s e0 = Inr (c, e)" "go_on = (c \<and> s < e)"
proof -
  obtain c1 s1 sw1 where combo: "IsRangeComboTrampoline (unat (e0 - start) + 1) mem sw start e0 = Inr (c1, s1, sw1)"
  proof (cases "IsRangeComboTrampoline (unat (e0 - start) + 1) mem sw start e0")
    case (Inl err)
    then have "trim_step mem sw start e0 = Inl err" by (simp only: trim_step_def bind_r_Inl)
    with run show ?thesis by (simp del: IsRangeComboTrampoline.simps)
  next
    case (Inr r)
    show ?thesis by (cases r) (rule that, simp only: Inr)
  qed
  from run have rest: "(if c1 then Inr (s1 < e0, s1, e0, sw1)
      else bind_r (IsRangeAlignPaddingStart mem sw1 s1 e0) (\<lambda>(c2, s2).
      if c2 then Inr (s2 < e0, s2, e0, sw1)
      else bind_r (IsRangeAlignPaddingEnd mem sw1 s2 e0) (\<lambda>(c3, e3).
      Inr (c3 \<and> s2 < e3, s2, e3, sw1)))) = Inr (go_on, s, e, sw')"
    by (simp only: trim_step_def combo bind_r_Inr prod.case)
  show ?thesis
  proof (cases c1)
    case True
    with rest have eq: "go_on = (s < e0)" "e = e0" "s1 = s" "sw1 = sw'" by auto
    show ?thesis by (rule trampolines) (use combo True eq in simp_all)
  next
    case False
    with rest obtain c2 s2 where ps: "IsRangeAlignPaddingStart mem sw1 s1 e0 = Inr (c2, s2)"
      and rest2: "(if c2 then Inr (s2 < e0, s2, e0, sw1)
        else bind_r (IsRangeAlignPaddingEnd mem sw1 s2 e0) (\<lambda>(c3, e3).
        Inr (c3 \<and> s2 < e3, s2, e3, sw1))) = Inr (go_on, s, e, sw')" by (auto simp: bind_r_eq_Inr)
    show ?thesis
    proof (cases c2)
      case True
      with rest2 have eq: "go_on = (s < e0)" "e = e0" "s2 = s" "sw1 = sw'" by auto
      show ?thesis by (rule padding) (use combo False ps True eq in simp_all)
    next
      case c2: False
      with rest2 obtain c3 where pe: "IsRangeAlignPaddingEnd mem sw1 s2 e0 = Inr (c3, e)"
        and eq: "go_on = (c3 \<and> s2 < e)" "s2 = s" "sw1 = sw'" by (auto simp: bind_r_eq_Inr)
      show ?thesis by (rule tail) (use combo False ps c2 pe eq in simp_all)
    qed
  qed
qed

lemma trim_step_dec:
  assumes "trim_step mem sw start e0 = Inr (go_on, s, e, sw')"
  shows "grows sw sw' \<and> (go_on \<longrightarrow> unat (e - s) < unat (e0 - start))"
  using assms
proof (cases rule: trim_step_cases)
  case trampolines
  with combo_dec [OF trampolines(1)] show ?thesis by simp
next
  case (padding s1)
  with combo_dec [OF padding(1)] padding_dec(1) [OF padding(2)] show ?thesis by simp
next
  case (tail s1 c)
  with combo_dec [OF tail(1)] padding_dec(1) [OF tail(2)] padding_dec(2) [OF tail(3)] show ?thesis by auto
qed

subsection \<open>Soundness of trimming\<close>

lemma combo_ok:
  "IsRangeComboTrampoline fuel mem sw start e = Inr (c, s, sw') \<Longrightarrow> start \<le> e \<Longrightarrow>
   trim_ok mem start e sw s e sw'"
proof (induction fuel arbitrary: sw start c)
  case (Suc fuel)
  from Suc.prems(1) obtain f s1 sw1 where single: "IsRangeSingleTrampoline mem sw start e = Inr (f, s1, sw1)"
    and rest: "(if f then bind_r (IsRangeComboTrampoline fuel mem sw1 s1 e) (\<lambda>(_, s, w). Inr (True, s, w))
      else Inr (False, s1, sw1)) = Inr (c, s, sw')" by (auto simp: bind_r_eq_Inr IsRangeComboTrampoline.simps(2))
  note st = trampoline_ok [OF single Suc.prems(2)]
  show ?case
  proof (cases f)
    case True
    with rest obtain c' where rec: "IsRangeComboTrampoline fuel mem sw1 s1 e = Inr (c', s, sw')" and c: "c"
      by (auto simp: bind_r_eq_Inr)
    have "s1 \<le> e" using st(1) by (simp add: trim_ok_def)
    from Suc.IH [OF rec this] st True c show ?thesis by (cases c') (auto intro: trim_ok_trans)
  qed (use rest st in auto)
qed simp

lemma combo_no_fuel:
  "unat (e - start) < fuel \<Longrightarrow> IsRangeComboTrampoline fuel mem sw start e \<noteq> Inl Out_Of_Fuel"
proof (induction fuel arbitrary: sw start)
  case (Suc fuel)
  show ?case
  proof (cases "IsRangeSingleTrampoline mem sw start e")
    case (Inl err)
    have "read_byte mem a \<noteq> Inl Out_Of_Fuel" for a by (simp add: read_byte_def split: list.split)
    then have "IsRangeSingleTrampoline mem sw start e \<noteq> Inl Out_Of_Fuel"
      by (auto simp: IsRangeSingleTrampoline_def bind_r_eq_Inl Let_def split: if_splits)
    with Inl show ?thesis by (simp add: IsRangeComboTrampoline.simps(2))
  next
    case (Inr r)
    obtain f s1 sw1 where r: "r = (f, s1, sw1)" by (cases r) auto
    show ?thesis
    proof (cases f)
      case True
      have "unat (e - s1) < fuel" using trampoline_dec [OF Inr [unfolded r]] True Suc.prems by simp
      then have "IsRangeComboTrampoline fuel mem sw1 s1 e \<noteq> Inl Out_Of_Fuel" by (rule Suc.IH)
      with Inr r True show ?thesis by (auto simp: bind_r_eq_Inl IsRangeComboTrampoline.simps(2))
    qed (use Inr r in \<open>simp add: IsRangeComboTrampoline.simps(2)\<close>)
  qed
qed simp

lemma trim_step_ok:
  assumes run: "trim_step mem sw start e0 = Inr (go_on, s, e, sw')" and le: "start \<le> e0"
  shows "trim_ok mem start e0 sw s e sw'"
  using run
proof (cases rule: trim_step_cases)
  case trampolines
  with combo_ok [OF trampolines(1) le] show ?thesis by simp
next
  case (padding s1)
  with combo_dec [OF padding(1)] padding_start_ok(1) [OF padding(2)] le show ?thesis by simp
next
  case (tail s1 c)
  with combo_dec [OF tail(1)] padding_dec(1) [OF tail(2)] padding_end_ok(1) [OF tail(3)] le show ?thesis by simp
qed

lemma trim_step_no_fuel: "trim_step mem sw start e \<noteq> Inl Out_Of_Fuel"
proof -
  have "IsRangeAlignPaddingStart mem w a b \<noteq> Inl Out_Of_Fuel" "IsRangeAlignPaddingEnd mem w a b \<noteq> Inl Out_Of_Fuel"
    for w a b using padding_no_fuel by (simp_all add: IsRangeAlignPaddingStart_def IsRangeAlignPaddingEnd_def)
  moreover have "IsRangeComboTrampoline (unat (e - start) + 1) mem sw start e \<noteq> Inl Out_Of_Fuel"
    by (rule combo_no_fuel) simp
  ultimately show ?thesis by (auto simp: trim_step_def bind_r_eq_Inl split: if_splits)
qed

lemma trim_loop_ok:
  "trim_loop fuel mem sw start e0 = Inr (s, e, sw') \<Longrightarrow> start \<le> e0 \<Longrightarrow> trim_ok mem start e0 sw s e sw'"
proof (induction fuel arbitrary: sw start e0)
  case (Suc fuel)
  from Suc.prems(1) obtain g s1 e1 sw1 where step: "trim_step mem sw start e0 = Inr (g, s1, e1, sw1)"
    and rest: "(if g then trim_loop fuel mem sw1 s1 e1 else Inr (s1, e1, sw1)) = Inr (s, e, sw')"
    by (auto simp: bind_r_eq_Inr)
  note ok = trim_step_ok [OF step Suc.prems(2)]
  then have "s1 \<le> e1" by (simp add: trim_ok_def)
  with Suc.IH [of sw1 s1 e1] ok rest show ?case by (cases g) (auto intro: trim_ok_trans)
qed simp

lemma trim_loop_no_fuel:
  "unat (e - start) < fuel \<Longrightarrow> trim_loop fuel mem sw start e \<noteq> Inl Out_Of_Fuel"
proof (induction fuel arbitrary: sw start e)
  case (Suc fuel)
  show ?case
  proof (cases "trim_step mem sw start e")
    case (Inl err)
    with trim_step_no_fuel [of mem sw start e] show ?thesis by auto
  next
    case (Inr r)
    obtain g s1 e1 sw1 where r: "r = (g, s1, e1, sw1)" by (cases r) auto
    show ?thesis
    proof (cases g)
      case True
      have "unat (e1 - s1) < fuel" using trim_step_dec [OF Inr [unfolded r]] True Suc.prems by simp
      then have "trim_loop fuel mem sw1 s1 e1 \<noteq> Inl Out_Of_Fuel" by (rule Suc.IH)
      with Inr r True show ?thesis by simp
    qed (use Inr r in simp)
  qed
qed simp

lemma TrimGap_no_fuel: "TrimGap mem sw start e0 \<noteq> Inl Out_Of_Fuel"
proof -
  have "unat (e0 - start) < unat (e0 - start) + 2" by simp
  from trim_loop_no_fuel [OF this] show ?thesis
    unfolding TrimGap_def bind_r_eq_Inl by (auto simp del: trim_loop.simps)
qed

lemma TrimGap_loop:
  "TrimGap mem sw start e0 = Inr (c, s, e, sw') \<Longrightarrow>
   trim_loop (unat (e0 - start) + 2) mem sw start e0 = Inr (s, e, sw') \<and> c = (s = e)"
  unfolding TrimGap_def bind_r_eq_Inr by auto

lemma trim_loop_grows: "trim_loop fuel mem sw start e0 = Inr (s, e, sw') \<Longrightarrow> grows sw sw'"
proof (induction fuel arbitrary: sw start e0)
  case (Suc fuel)
  from Suc.prems obtain g s1 e1 sw1 where step: "trim_step mem sw start e0 = Inr (g, s1, e1, sw1)"
    and rest: "(if g then trim_loop fuel mem sw1 s1 e1 else Inr (s1, e1, sw1)) = Inr (s, e, sw')"
    by (auto simp: bind_r_eq_Inr)
  with trim_step_dec [OF step] Suc.IH [of sw1 s1 e1] show ?case by (cases g) (auto intro: grows_trans)
qed simp

text \<open>C26. Trimming a gap \<open>[start, e0)\<close> ends, stays inside the gap, says \<open>true\<close> exactly when nothing is
  left, keeps every trace and target, and takes away only padding bytes and trampolines for which
  it has made a trace.\<close>

theorem TrimGap_sound:
  assumes "start \<le> e0"
  shows "TrimGap mem sw start e0 \<noteq> Inl Out_Of_Fuel \<and>
    (\<forall>c s e sw'. TrimGap mem sw start e0 = Inr (c, s, e, sw') \<longrightarrow>
       start \<le> s \<and> s \<le> e \<and> e \<le> e0 \<and> c = (s = e) \<and> grows sw sw' \<and>
       (\<forall>a. start \<le> a \<and> a < e0 \<and> \<not> (s \<le> a \<and> a < e) \<longrightarrow> skippable mem sw' a))"
proof (intro conjI allI impI)
  fix c s e sw' assume run: "TrimGap mem sw start e0 = Inr (c, s, e, sw')"
  have ok: "trim_ok mem start e0 sw s e sw'" "c = (s = e)" using TrimGap_loop [OF run] trim_loop_ok [OF _ assms] by blast+
  then show "start \<le> s" "s \<le> e" "e \<le> e0" "c = (s = e)" "grows sw sw'" by (simp_all add: trim_ok_def)
  show "skippable mem sw' a" if "start \<le> a \<and> a < e0 \<and> \<not> (s \<le> a \<and> a < e)" for a
    using that ok by (cases "a < s") (auto simp: trim_ok_def not_less not_le)
qed (rule TrimGap_no_fuel)

text \<open>A trampoline, padding on both sides of a \<open>ret\<close>.\<close>

lemma TrimGap_sound_witness:
  "\<exists>sw'. TrimGap [(0x1000, [0xe9, 1, 0, 0, 0, 0xcc, 0xc3, 0xcc, 0xcc])]
       (new_CodeSectionSweeper 0 [] [] 0x1000 9) 0x1000 0x1009 = Inr (False, 0x1006, 0x1007, sw') \<and>
     skippable [(0x1000, [0xe9, 1, 0, 0, 0, 0xcc, 0xc3, 0xcc, 0xcc])] sw' 0x1002"
proof -
  let ?mem = "[(0x1000, [0xe9, 1, 0, 0, 0, 0xcc, 0xc3, 0xcc, 0xcc])] :: memory"
  let ?sw = "new_CodeSectionSweeper 0 [] [] 0x1000 9"
  let ?sw' = "add_trace (AssembleTrace 0x1000 5 0x1000 9) (?sw\<lparr>m_pending_targets := [1]\<rparr>)"
  have run: "TrimGap ?mem ?sw 0x1000 0x1009 = Inr (False, 0x1006, 0x1007, ?sw')" by code_simp
  have "(0x1000 :: u32) \<le> 0x1009" by simp
  from TrimGap_sound [OF this] run have "skippable ?mem ?sw' 0x1002" by fastforce
  with run show ?thesis by blast
qed

subsection \<open>The linear sweep ends\<close>

lemma padding_start_range:
  assumes "IsRangeAlignPaddingStart mem sw start e = Inr (c, s)" "start \<le> e"
  shows "start \<le> s \<and> s \<le> e \<and> (\<not> c \<longrightarrow> s = start) \<and> (c \<longrightarrow> e \<noteq> - 1)"
proof -
  have "c \<longrightarrow> e \<noteq> - 1"
    using assms(1) by (auto simp: IsRangeAlignPaddingStart_def signed_range_def split: if_splits)
  with padding_start_ok [OF assms] show ?thesis by (auto simp: trim_ok_def)
qed

lemma unat_max: "unat (- 1 :: u32) = 2 ^ 32 - 1"
  by (simp add: unsigned_minus_1_eq_mask mask_eq_exp_minus_1)

lemma word_Suc_le:
  fixes a :: u32 assumes "a \<noteq> - 1" shows "unat (a + 1) = unat a + 1"
proof -
  have "unat a + 1 < 2 ^ 32"
  proof (rule ccontr)
    assume "\<not> unat a + 1 < 2 ^ 32"
    with u32_bound [of a] have "unat a = 2 ^ 32 - 1" by simp
    then have "a = - 1" by (simp add: word_unat_eq_iff unat_max)
    with assms show False ..
  qed
  then show ?thesis using unat_add_no_wrap [of a 1] by simp
qed

text \<open>The address at which the next turn goes on, and that it lies further up.\<close>

lemma sweep_next_illegal:
  assumes pad: "IsRangeAlignPaddingStart mem sw pre gap_end = Inr (c, pre')" and less: "pre < gap_end"
  shows "unat pre < unat (pre' + 1)"
proof -
  from padding_start_range [OF pad] less have r: "pre \<le> pre'" "pre' \<le> gap_end" "\<not> c \<longrightarrow> pre' = pre" "c \<longrightarrow> gap_end \<noteq> - 1"
    by auto
  have "pre' \<noteq> - 1"
  proof
    assume e: "pre' = - 1"
    with r(2) have "gap_end = - 1" using word_order.extremum by (metis order_antisym)
    with r e less show False by (cases c) auto
  qed
  from word_Suc_le [OF this] r(1) show ?thesis by (simp add: word_le_nat_alt)
qed

lemma sweep_next_legal:
  assumes wf: "wf_memory mem" and pad: "IsRangeAlignPaddingStart mem sw pre gap_end = Inr (c, pre')" and less: "pre < gap_end"
    and i: "get_instruction (bytes_at mem pre') MODE_32 = Inr i"
  shows "unat pre < unat (pre' + of_nat (ilength i))"
  using padding_start_range [OF pad order_less_imp_le [OF less]] insn_step [OF wf i] by (simp add: word_le_nat_alt)

lemma linear_sweep_no_fuel:
  assumes wf: "wf_memory mem"
  shows "unat gap_end - unat pre < fuel \<Longrightarrow> linear_sweep_loop fuel mem gap_end start pre pre sw \<noteq> Inl Out_Of_Fuel"
proof (induction fuel arbitrary: start pre sw)
  case (Suc fuel)
  show ?case
  proof (cases "pre < gap_end \<and> (\<exists>r. IsRangeAlignPaddingStart mem sw pre gap_end = Inr r)")
    case True
    then obtain c pre' where less: "pre < gap_end" and pad: "IsRangeAlignPaddingStart mem sw pre gap_end = Inr (c, pre')"
      by auto
    have less_nat: "unat pre < unat gap_end" using less by (simp add: word_less_nat_alt)
    have same: "\<not> c \<Longrightarrow> pre' = pre" using padding_start_range [OF pad] less by auto
    have ill: "linear_sweep_loop fuel mem gap_end (pre' + 1) (pre' + 1) (pre' + 1) w \<noteq> Inl Out_Of_Fuel" for w
      using sweep_next_illegal [OF pad less] less_nat Suc.prems by (intro Suc.IH) simp
    have leg: "linear_sweep_loop fuel mem gap_end s (pre' + of_nat (ilength i)) (pre' + of_nat (ilength i)) w \<noteq> Inl Out_Of_Fuel"
      if "get_instruction (bytes_at mem pre') MODE_32 = Inr i" for s w i
      using sweep_next_legal [OF wf pad less that] less_nat Suc.prems by (intro Suc.IH) simp
    show ?thesis
      using less pad same ill leg by (auto simp: Let_def split: sum.split prod.split if_split)
  next
    case False
    then consider "\<not> pre < gap_end" | e where "IsRangeAlignPaddingStart mem sw pre gap_end = Inl e"
      by (cases "IsRangeAlignPaddingStart mem sw pre gap_end") auto
    then show ?thesis
    proof cases
      case (2 e)
      with padding_no_fuel have "e \<noteq> Out_Of_Fuel" by (auto simp: IsRangeAlignPaddingStart_def split: if_splits)
      with 2 show ?thesis by auto
    qed simp
  qed
qed simp

lemma linear_sweep_grows:
  "linear_sweep_loop fuel mem gap_end start pre post sw = Inr sw' \<Longrightarrow> grows sw sw'"
proof (induction fuel arbitrary: start pre post sw)
  case (Suc fuel)
  show ?case
  proof (cases "pre < gap_end")
    case True
    with Suc.prems obtain c pre' where "IsRangeAlignPaddingStart mem sw pre gap_end = Inr (c, pre')"
      and rest: "(let (start', post', sw1) =
              (if c then (pre', pre', add_trace (AssembleTrace start (post - start)
                   (sw_code_section_start sw) (sw_code_section_size sw)) sw)
               else (start, post, sw))
        in case (if sweeper_IsAddrCode sw1 pre' then get_instruction (bytes_at mem pre') MODE_32
                 else Inl IllegalInstruction) of
             Inr i \<Rightarrow>
               let (start', sw2) = sweep_insn pre' i start' sw1; nxt = pre' + of_nat (ilength i)
               in linear_sweep_loop fuel mem gap_end start' nxt nxt sw2
           | Inl e \<Rightarrow>
               if e = IllegalInstruction
               then linear_sweep_loop fuel mem gap_end (post' + 1) (post' + 1) (post' + 1) sw1
               else Inl Access_Violation) = Inr sw'"
      by (auto simp: bind_r_eq_Inr)
    obtain s1 post1 sw1 where st: "(if c then (pre', pre', add_trace (AssembleTrace start (post - start)
                   (sw_code_section_start sw) (sw_code_section_size sw)) sw)
               else (start, post, sw)) = (s1, post1, sw1)" by (metis prod_cases3)
    have g1: "grows sw sw1" using st by (auto simp: grows_add_trace split: if_splits)
    show ?thesis
    proof (cases "if sweeper_IsAddrCode sw1 pre' then get_instruction (bytes_at mem pre') MODE_32 else Inl IllegalInstruction")
      case (Inl e)
      with rest st have "linear_sweep_loop fuel mem gap_end (post1 + 1) (post1 + 1) (post1 + 1) sw1 = Inr sw'"
        by (simp split: if_splits)
      from Suc.IH [OF this] g1 show ?thesis by (blast intro: grows_trans)
    next
      case (Inr i)
      obtain s2 sw2 where insn: "sweep_insn pre' i s1 sw1 = (s2, sw2)" by fastforce
      with rest st Inr obtain nxt where "linear_sweep_loop fuel mem gap_end s2 nxt nxt sw2 = Inr sw'"
        by (simp add: Let_def)
      from Suc.IH [OF this] g1 sweep_insn_grows [OF insn] show ?thesis by (blast intro: grows_trans)
    qed
  qed (use Suc.prems in simp)
qed simp

subsection \<open>Where the gaps lie\<close>

lemma gaps_between_cover:
  "gap_start \<le> a \<Longrightarrow> a < section_end \<Longrightarrow>
   (\<exists>g\<in>set (gaps_between rs gap_start section_end). fst g \<le> a \<and> a < snd g) \<or>
   (\<exists>r\<in>set rs. fst r \<le> a \<and> a < snd r)"
proof (induction rs arbitrary: gap_start)
  case (Cons r rs)
  then show ?case
    by (cases "a < fst r"; cases "a < snd r") (fastforce simp: not_less)+
qed auto

lemma ranges_loop_traces:
  assumes "r \<in> set (ranges_loop ts now vs)" "fst r \<le> a" "a < snd r"
    and "\<And>v. v \<in> set (now # vs) \<Longrightarrow> fst v \<le> a \<Longrightarrow> a < snd v \<Longrightarrow> P"
    and "\<And>t. t \<in> set ts \<Longrightarrow> a \<in> extent t \<Longrightarrow> P"
  shows P
  using assms
proof (induction ts arbitrary: now vs)
  case (Cons t ts)
  have ext: "a \<in> extent t" if "GetStart t \<le> a" "a < GetEnd t" using that by (simp add: extent_def GetStart_def)
  consider (fresh) "now = (0, 0)" | (merge) "now \<noteq> (0, 0)" "GetStart t = snd now" | (save) "now \<noteq> (0, 0)" "GetStart t \<noteq> snd now"
    by blast
  then show ?case
  proof cases
    case fresh
    with Cons.prems(1) have "r \<in> set (ranges_loop ts (GetStart t, GetEnd t) vs)" by simp
    then show ?thesis
    proof (rule Cons.IH [OF _ Cons.prems(2,3)])
      fix v assume "v \<in> set ((GetStart t, GetEnd t) # vs)" "fst v \<le> a" "a < snd v"
      then show P using Cons.prems(4) [of v] Cons.prems(5) [of t] ext by auto
    qed (use Cons.prems(5) in auto)
  next
    case merge
    with Cons.prems(1) have "r \<in> set (ranges_loop ts (fst now, GetEnd t) vs)" by simp
    then show ?thesis
    proof (rule Cons.IH [OF _ Cons.prems(2,3)])
      fix v assume "v \<in> set ((fst now, GetEnd t) # vs)" "fst v \<le> a" "a < snd v"
      then show P using Cons.prems(4) [of now] Cons.prems(4) [of v] Cons.prems(5) [of t] ext merge(2)
        by (cases "a < snd now") (auto simp: not_less)
    qed (use Cons.prems(5) in auto)
  next
    case save
    with Cons.prems(1) have "r \<in> set (ranges_loop ts (GetStart t, GetEnd t) (vs @ [now]))" by simp
    then show ?thesis
    proof (rule Cons.IH [OF _ Cons.prems(2,3)])
      fix v assume "v \<in> set ((GetStart t, GetEnd t) # vs @ [now])" "fst v \<le> a" "a < snd v"
      then show P using Cons.prems(4) [of v] Cons.prems(5) [of t] ext by auto
    qed (use Cons.prems(5) in auto)
  qed
next
  case Nil
  from Nil.prems(1-3) Nil.prems(4) [of r] show ?case by simp
qed


text \<open>C32. No code byte is lost to the gap analysis: every address of the section is in a gap or in a
  trace.\<close>

theorem gaps_cover_untraced_code:
  assumes "sweeper_IsAddrCode sw a"
  shows "(\<exists>g\<in>set (vec_gaps sw). fst g \<le> a \<and> a < snd g) \<or> (\<exists>t\<in>set (m_traces sw). a \<in> extent t)"
proof -
  from assms have "sw_code_section_start sw \<le> a" "a < sw_code_section_start sw + sw_code_section_size sw"
    by (simp_all add: sweeper_IsAddrCode_def)
  from gaps_between_cover [OF this, of "ranges_loop (m_traces sw) (0, 0) []"] show ?thesis
  proof
    assume "\<exists>r\<in>set (ranges_loop (m_traces sw) (0, 0) []). fst r \<le> a \<and> a < snd r"
    then obtain r where "r \<in> set (ranges_loop (m_traces sw) (0, 0) [])" "fst r \<le> a" "a < snd r" by blast
    then show ?thesis by (rule ranges_loop_traces) auto
  qed (simp add: vec_gaps_def)
qed

lemma gaps_cover_untraced_code_witness:
  "\<exists>g\<in>set (vec_gaps (new_CodeSectionSweeper 0 [] [] 0x1000 16)). fst g \<le> 0x1004 \<and> 0x1004 < snd g"
proof -
  let ?sw = "new_CodeSectionSweeper 0 [] [] 0x1000 16"
  have "sweeper_IsAddrCode ?sw 0x1004" "m_traces ?sw = []"
    by (simp_all add: new_CodeSectionSweeper_def appendTarget_def sweeper_IsAddrCode_def)
  with gaps_cover_untraced_code [of ?sw "0x1004"] show ?thesis by simp
qed

text \<open>The range still being built when the traces end is dropped, so the last trace is swept again.\<close>

lemma last_saved_range:
  assumes "sorted_wrt (\<lambda>s t. GetEnd s \<le> m_start t) (ts @ [t])"
    and "snd now \<le> m_start t" "\<forall>v\<in>set vs. snd v \<le> m_start t"
  shows "\<forall>v\<in>set (ranges_loop (ts @ [t]) now vs). snd v \<le> m_start t"
  using assms
proof (induction ts arbitrary: now vs)
  case (Cons s ts)
  have s: "GetEnd s \<le> m_start t" and srt: "sorted_wrt (\<lambda>s t. GetEnd s \<le> m_start t) (ts @ [t])"
    using Cons.prems(1) by simp_all
  note IH = Cons.IH [OF srt]
  have "\<forall>v\<in>set (ranges_loop (ts @ [t]) (b, GetEnd s) vs). snd v \<le> m_start t"
    "\<forall>v\<in>set (ranges_loop (ts @ [t]) (b, GetEnd s) (vs @ [now])). snd v \<le> m_start t" for b
    by (rule IH; use s Cons.prems(2,3) in simp)+
  then show ?case by simp
qed auto

lemma gaps_between_last:
  "(\<forall>r\<in>set rs. snd r \<le> b) \<Longrightarrow> gap_start \<le> b \<Longrightarrow>
   \<exists>g\<in>set (gaps_between rs gap_start section_end). fst g \<le> b \<and> snd g = section_end"
proof (induction rs arbitrary: gap_start)
  case (Cons r rs)
  have "\<exists>g\<in>set (gaps_between rs (snd r) section_end). fst g \<le> b \<and> snd g = section_end"
    by (rule Cons.IH) (use Cons.prems in simp_all)
  then show ?case unfolding gaps_between.simps by (meson list.set_intros(2))
qed simp

text \<open>The sweep reconsiders code it already knows: for disjoint traces inside the section, the bytes of
  the last trace lie in one of the gaps.\<close>

lemma last_trace_lies_in_a_gap:
  assumes "m_traces sw = ts @ [t]" and "sorted_wrt (\<lambda>s t. GetEnd s \<le> m_start t) (m_traces sw)"
    and "sw_code_section_start sw \<le> m_start t" "GetEnd t \<le> sw_code_section_start sw + sw_code_section_size sw"
  shows "\<exists>g\<in>set (vec_gaps sw). \<forall>a\<in>extent t. fst g \<le> a \<and> a < snd g"
proof -
  have "\<forall>v\<in>set (ranges_loop (m_traces sw) (0, 0) []). snd v \<le> m_start t"
    using last_saved_range [of ts t "(0, 0)" "[]"] assms(1,2) by simp
  from gaps_between_last [OF this assms(3)] obtain g where "g \<in> set (vec_gaps sw)" "fst g \<le> m_start t"
    "snd g = sw_code_section_start sw + sw_code_section_size sw" unfolding vec_gaps_def by blast
  with assms(4) show ?thesis by (intro bexI [of _ g]) (auto simp: extent_def)
qed

subsection \<open>Coverage\<close>

lemma disjoint_sizes_fit:
  "sorted_wrt (\<lambda>s t. GetEnd s \<le> m_start t) ts \<Longrightarrow> \<forall>t\<in>set ts. m_start t \<le> GetEnd t \<and> lo \<le> m_start t \<Longrightarrow>
   unat lo + sum_list (map (unat \<circ> GetSize) ts) < 2 ^ 32"
proof (induction ts arbitrary: lo)
  case (Cons t ts)
  have "GetSize t = GetEnd t - m_start t" by (simp add: GetSize_def GetEnd_def)
  then have sz: "unat (GetEnd t) = unat (m_start t) + unat (GetSize t)" "unat lo \<le> unat (m_start t)"
    using Cons.prems(2) by (simp_all add: unat_diff_le word_le_nat_alt)
  have "unat (GetEnd t) + sum_list (map (unat \<circ> GetSize) ts) < 2 ^ 32"
    using Cons.prems by (intro Cons.IH) auto
  with sz show ?case by (simp add: comp_def)
qed (use u32_bound in simp)

lemma card_extent:
  assumes "m_start t \<le> GetEnd t" shows "card (extent t) = unat (GetSize t)"
proof -
  have "unat ` extent t = {unat (m_start t) ..< unat (GetEnd t)}"
  proof (intro set_eqI iffI)
    fix n assume n: "n \<in> {unat (m_start t) ..< unat (GetEnd t)}"
    then have "unat (word_of_nat n :: u32) = n" using u32_bound [of "GetEnd t"] by (simp add: unat_of_nat)
    with n show "n \<in> unat ` extent t"
      by (intro image_eqI [of _ _ "word_of_nat n"]) (simp_all add: extent_def word_le_nat_alt word_less_nat_alt)
  qed (auto simp: extent_def word_le_nat_alt word_less_nat_alt)
  then have "card (extent t) = unat (GetEnd t) - unat (m_start t)"
    by (metis card_atLeastLessThan card_image inj_on_def word_unat_eq_iff)
  moreover have "GetSize t = GetEnd t - m_start t" by (simp add: GetSize_def GetEnd_def)
  ultimately show ?thesis using assms by (simp add: unat_diff_le)
qed

lemma disjoint_card:
  "sorted_wrt (\<lambda>s t. GetEnd s \<le> m_start t) ts \<Longrightarrow> \<forall>t\<in>set ts. m_start t \<le> GetEnd t \<Longrightarrow>
   card (\<Union> (extent ` set ts)) = sum_list (map (unat \<circ> GetSize) ts)"
proof (induction ts)
  case (Cons t ts)
  have "extent t \<inter> \<Union> (extent ` set ts) = {}"
    using Cons.prems(1) by (auto simp: extent_def)
  then have "card (extent t \<union> \<Union> (extent ` set ts)) = card (extent t) + card (\<Union> (extent ` set ts))"
    by (intro card_Un_disjoint) simp_all
  with Cons show ?case by (simp add: card_extent)
qed simp

text \<open>C34. The coverage \<open>calculateCoverage\<close> reports for disjoint traces is the number of bytes they
  cover; the 32-bit sum does not overflow.\<close>

theorem coverage_counts_bytes:
  assumes "sorted_wrt (\<lambda>s t. GetEnd s \<le> m_start t) (m_traces sw)" "\<forall>t\<in>set (m_traces sw). m_start t \<le> GetEnd t"
  shows "unat (fst (calculateCoverage sw)) = card (\<Union> (extent ` set (m_traces sw)))"
proof -
  have "unat (sum_list (map GetSize ts)) = sum_list (map (unat \<circ> GetSize) ts)"
    if "sum_list (map (unat \<circ> GetSize) ts) < 2 ^ 32" for ts
    using that by (induction ts) (simp_all add: unat_word_ariths)
  moreover have "sum_list (map (unat \<circ> GetSize) (m_traces sw)) < 2 ^ 32"
    using disjoint_sizes_fit [OF assms(1), of 0] assms(2) by simp
  ultimately show ?thesis by (simp add: calculateCoverage_def disjoint_card [OF assms])
qed

lemma coverage_counts_bytes_witness:
  "card (\<Union> (extent ` set (m_traces (add_trace (AssembleTrace 0x1000 8 0x1000 16)
     (new_CodeSectionSweeper 0 [] [] 0x1000 16))))) = 8"
proof -
  let ?sw = "add_trace (AssembleTrace 0x1000 8 0x1000 16) (new_CodeSectionSweeper 0 [] [] 0x1000 16)"
  have sw: "m_traces ?sw = [AssembleTrace 0x1000 8 0x1000 16]"
    by (simp add: new_CodeSectionSweeper_def appendTarget_def sweeper_IsAddrCode_def)
  have "unat (fst (calculateCoverage ?sw)) = card (\<Union> (extent ` set (m_traces ?sw)))"
    
    by (rule coverage_counts_bytes) (unfold sw, simp_all add: AssembleTrace_def new_StaticTrace_def GetEnd_def)
  then show ?thesis unfolding calculateCoverage_def sw by (simp add: AssembleTrace_def new_StaticTrace_def GetSize_def)
qed

subsection \<open>Structure areas\<close>

text \<open>The early exit of the erase loop misses nothing.\<close>

lemma erase_loop_exact:
  "set_inv m_start ts \<Longrightarrow> erase_loop ts start e =
     (if \<exists>t\<in>set ts. Intersect t start (e - start) then Inl Invalid_Iterator else Inr ())"
proof (induction ts)
  case (Cons t ts)
  have "\<not> Intersect s start (e - start)" if "e < m_start t" "s \<in> set ts" for s
    using that Cons.prems by (auto simp: Intersect_def intro: order_less_imp_le order_less_trans)
  with Cons show ?case by (auto simp: BiggerThan_def)
qed simp

end
