(* ===== verification/Printf.thy ===== *)
theory Printf
  imports Prelude
begin

text \<open>
  The conversions of \<^verbatim>\<open>printf\<close> that the program's format strings use: \<^verbatim>\<open>%d\<close>, \<^verbatim>\<open>%03d\<close>,
  \<^verbatim>\<open>%08x\<close>, \<^verbatim>\<open>%x\<close>, \<^verbatim>\<open>%02X\<close>, \<^verbatim>\<open>%4X\<close> and the width of \<^verbatim>\<open>%10s\<close>. Reading a field back gives the value that was
  printed, so a field determines its value; and no field contains a separator of the logs.
\<close>

subsection \<open>Digits\<close>

definition digit :: "nat \<Rightarrow> char" where
  "digit d = char_of (if d < 10 then 48 + d else 87 + d)"

definition upper_digit :: "nat \<Rightarrow> char" where
  "upper_digit d = char_of (if d < 10 then 48 + d else 55 + d)"

definition digit_value :: "char \<Rightarrow> nat" where
  "digit_value c = (let n = of_char c in if n < 58 then n - 48 else if n < 71 then n - 55 else n - 87)"

lemma digit_value_digit [simp]: "d < 16 \<Longrightarrow> digit_value (digit d) = d"
  by (auto simp: digit_value_def digit_def Let_def)

lemma digit_value_upper_digit [simp]: "d < 16 \<Longrightarrow> digit_value (upper_digit d) = d"
  by (auto simp: digit_value_def upper_digit_def Let_def)

text \<open>The digits of a number in base \<open>b\<close>, most significant first, none superfluous.\<close>

function base_str :: "(nat \<Rightarrow> char) \<Rightarrow> nat \<Rightarrow> nat \<Rightarrow> string" where
  "base_str dg b n = (if n < b \<or> b < 2 then [dg n] else base_str dg b (n div b) @ [dg (n mod b)])"
  by pat_completeness auto
termination by (relation "measure (\<lambda>(dg, b, n). n)") auto

declare base_str.simps [simp del]

definition read_base :: "nat \<Rightarrow> string \<Rightarrow> nat" where
  "read_base b s = foldl (\<lambda>a c. b * a + digit_value c) 0 s"

lemma read_base_Nil [simp]: "read_base b [] = 0"
  by (simp add: read_base_def)

lemma read_base_snoc [simp]: "read_base b (s @ [c]) = b * read_base b s + digit_value c"
  by (simp add: read_base_def)

lemma read_base_base_str:
  assumes "\<And>d. d < b \<Longrightarrow> digit_value (dg d) = d" and "2 \<le> b"
  shows "read_base b (base_str dg b n) = n"
proof (induction n rule: less_induct)
  case (less n)
  show ?case
  proof (cases "n < b")
    case True
    then show ?thesis
      using assms by (subst base_str.simps) (simp add: read_base_def)
  next
    case False
    with assms have "n div b < n" and "n mod b < b" by auto
    with less [of "n div b"] assms(1) have "digit_value (dg (n mod b)) = n mod b"
      and "read_base b (base_str dg b (n div b)) = n div b" by auto
    with False assms(2) show ?thesis by (subst base_str.simps) simp
  qed
qed

lemma base_str_not_Nil [simp]: "base_str dg b n \<noteq> []"
  by (subst base_str.simps) simp

lemma set_base_str: "2 \<le> b \<Longrightarrow> set (base_str dg b n) \<subseteq> dg ` {..<b}"
proof (induction n rule: less_induct)
  case (less n)
  show ?case
  proof (cases "n < b")
    case True
    then show ?thesis by (subst base_str.simps) auto
  next
    case False
    with less.prems have "n div b < n" by auto
    with less False show ?thesis by (subst base_str.simps) auto
  qed
qed

lemma length_base_str: "2 \<le> b \<Longrightarrow> n < b ^ k \<Longrightarrow> 0 < k \<Longrightarrow> length (base_str dg b n) \<le> k"
proof (induction k arbitrary: n)
  case (Suc k)
  show ?case
  proof (cases "n < b")
    case True
    then show ?thesis by (subst base_str.simps) simp
  next
    case False
    with Suc.prems have "0 < k" by (cases k) auto
    moreover from Suc.prems have "n div b < b ^ k"
      by (simp add: less_mult_imp_div_less mult.commute)
    ultimately have "length (base_str dg b (n div b)) \<le> k" using Suc by simp
    with False Suc.prems show ?thesis by (subst base_str.simps) simp
  qed
qed simp

subsection \<open>Width\<close>

definition pad_left :: "nat \<Rightarrow> char \<Rightarrow> string \<Rightarrow> string" where
  "pad_left w c s = replicate (w - length s) c @ s"

lemma length_pad_left [simp]: "length (pad_left w c s) = max w (length s)"
  by (simp add: pad_left_def)

lemma set_pad_left: "set (pad_left w c s) \<subseteq> insert c (set s)"
  by (auto simp: pad_left_def)

lemma read_base_zeros: "read_base b (replicate k CHR ''0'' @ s) = read_base b s"
proof -
  have "digit_value CHR ''0'' = 0" by (simp add: digit_value_def)
  then have "foldl (\<lambda>a c. b * a + digit_value c) 0 (replicate k CHR ''0'') = 0"
    by (induction k) auto
  then show ?thesis by (simp add: read_base_def)
qed

lemma read_base_pad_left [simp]: "read_base b (pad_left w CHR ''0'' s) = read_base b s"
  by (simp add: pad_left_def read_base_zeros)

subsection \<open>The conversions\<close>

definition fmt_x :: "u32 \<Rightarrow> string" where "fmt_x w = base_str digit 16 (unat w)"
definition fmt_08x :: "u32 \<Rightarrow> string" where "fmt_08x w = pad_left 8 CHR ''0'' (fmt_x w)"
definition fmt_4X :: "u32 \<Rightarrow> string" where
  "fmt_4X w = pad_left 4 CHR '' '' (base_str upper_digit 16 (unat w))"
definition fmt_02X :: "u8 \<Rightarrow> string" where
  "fmt_02X b = pad_left 2 CHR ''0'' (base_str upper_digit 16 (unat b))"

text \<open>\<^verbatim>\<open>%d\<close> reads the argument as \<^verbatim>\<open>int\<close>, whatever the caller passed.\<close>

definition fmt_d :: "u32 \<Rightarrow> string" where
  "fmt_d w = (if sint w < 0 then CHR ''-'' # base_str digit 10 (nat (- sint w))
              else base_str digit 10 (nat (sint w)))"

definition fmt_03d :: "u32 \<Rightarrow> string" where
  "fmt_03d w = (if sint w < 0 then CHR ''-'' # pad_left 2 CHR ''0'' (base_str digit 10 (nat (- sint w)))
                else pad_left 3 CHR ''0'' (base_str digit 10 (nat (sint w))))"

subsection \<open>A field determines its value\<close>

lemma read_fmt_08x [simp]: "read_base 16 (fmt_08x w) = unat w"
  by (simp add: fmt_08x_def fmt_x_def read_base_base_str)

lemma read_fmt_02X [simp]: "read_base 16 (fmt_02X b) = unat b"
  by (simp add: fmt_02X_def read_base_base_str)

lemma fmt_08x_inject [simp]: "fmt_08x v = fmt_08x w \<longleftrightarrow> v = w"
  by (metis read_fmt_08x unsigned_word_eqI)

lemma fmt_02X_inject [simp]: "fmt_02X v = fmt_02X w \<longleftrightarrow> v = w"
  by (metis read_fmt_02X unsigned_word_eqI)

lemma dec_read: "read_base 10 (base_str digit 10 n) = n"
  by (rule read_base_base_str) auto

lemma dec_chars: "c \<in> set (base_str digit 10 n) \<Longrightarrow> 48 \<le> (of_char c :: nat) \<and> (of_char c :: nat) < 58"
  using set_base_str [of 10 digit n] by (auto simp: digit_def dest!: subsetD)

lemma dec_no_minus: "CHR ''-'' # s \<noteq> base_str digit 10 n"
proof
  assume "CHR ''-'' # s = base_str digit 10 n"
  then have "CHR ''-'' \<in> set (base_str digit 10 n)" by (metis list.set_intros(1))
  from dec_chars [OF this] show False by simp
qed

lemma fmt_d_inject [simp]: "fmt_d v = fmt_d w \<longleftrightarrow> v = w"
proof
  assume eq: "fmt_d v = fmt_d w"
  have dec: "base_str digit 10 m = base_str digit 10 n \<Longrightarrow> m = n" for m n by (metis dec_read)
  from eq have "sint v = sint w"
    by (auto simp: fmt_d_def dec_no_minus dec_no_minus [symmetric] split: if_splits dest!: dec)
  then show "v = w" by (rule signed_word_eqI)
qed simp

text \<open>The characters a field can consist of.\<close>

definition hex_char :: "char \<Rightarrow> bool" where
  "hex_char c \<longleftrightarrow> (let n = of_char c :: nat in 48 \<le> n \<and> n < 58 \<or> 97 \<le> n \<and> n < 103)"

lemma fmt_08x_chars: "c \<in> set (fmt_08x w) \<Longrightarrow> hex_char c"
proof -
  assume "c \<in> set (fmt_08x w)"
  then have "c = CHR ''0'' \<or> c \<in> digit ` {..<16}"
    using set_pad_left [of 8 "CHR ''0''" "fmt_x w"] set_base_str [of 16 digit "unat w"]
    by (auto simp: fmt_08x_def fmt_x_def)
  then show ?thesis by (auto simp: hex_char_def digit_def)
qed

lemma length_fmt_08x [simp]: "length (fmt_08x w) = 8"
proof -
  have "unat w < 16 ^ 8" using unsigned_less [of w] by simp
  from length_base_str [OF _ this, of digit] show ?thesis by (simp add: fmt_08x_def fmt_x_def)
qed

lemma length_fmt_02X [simp]: "length (fmt_02X b) = 2"
proof -
  have "unat b < 16 ^ 2" using unsigned_less [of b] by simp
  from length_base_str [OF _ this, of upper_digit] show ?thesis by (simp add: fmt_02X_def)
qed

lemma comma_not_in_08x [simp]: "CHR '','' \<notin> set (fmt_08x w)"
  using fmt_08x_chars [of "CHR '',''" w] by (auto simp: hex_char_def)

lemma comma_not_in_d [simp]: "CHR '','' \<notin> set (fmt_d w)"
  using dec_chars [of "CHR '',''"] by (auto simp: fmt_d_def split: if_splits)

lemma fmt_d_not_Nil [simp]: "fmt_d w \<noteq> []"
  by (simp add: fmt_d_def)

end
