(* ===== verification/Std_Map.thy ===== *)
theory Std_Map
  imports Prelude
begin

text \<open>
  \<^verbatim>\<open>std::map\<close> as the code uses it: filled by \<^verbatim>\<open>m[k] = v\<close>, searched by \<open>find\<close>, iterated in key order.
  The model is the association list in that order; the contract is the locale \<open>std_map\<close>, which the loggers and
  the routines of a section rest on.
\<close>

locale std_map =
  fixes put :: "'k \<Rightarrow> 'v \<Rightarrow> 'm \<Rightarrow> 'm" and find :: "'m \<Rightarrow> 'k \<Rightarrow> 'v option" and valid :: "'m \<Rightarrow> bool"
  assumes find_put: "find (put k v m) = (find m)(k \<mapsto> v)"
    and put_valid: "valid m \<Longrightarrow> valid (put k v m)"
begin

lemma dom_put: "dom (find (put k v m)) = insert k (dom (find m))"
  by (simp add: find_put)

text \<open>Filling a map: of the values put under a key the last one stays.\<close>

lemma puts_valid: "valid m \<Longrightarrow> valid (fold (\<lambda>(k, v). put k v) kvs m)"
  by (induction kvs arbitrary: m) (auto intro: put_valid)

lemma find_puts: "find (fold (\<lambda>(k, v). put k v) kvs m) = find m ++ map_of (rev kvs)"
  by (induction kvs arbitrary: m) (auto simp: find_put map_add_assoc)

lemma find_puts_distinct:
  "distinct (map fst kvs) \<Longrightarrow> find (fold (\<lambda>(k, v). put k v) kvs m) = find m ++ map_of kvs"
  using map_of_inject_set [of "rev kvs" kvs] by (simp add: find_puts rev_map [symmetric])

end

fun map_put :: "'k::linorder \<Rightarrow> 'v \<Rightarrow> ('k \<times> 'v) list \<Rightarrow> ('k \<times> 'v) list" where
  "map_put k v [] = [(k, v)]"
| "map_put k v ((k', v') # m) =
     (if k = k' then (k, v) # m else if k < k' then (k, v) # (k', v') # m
      else (k', v') # map_put k v m)"

definition map_inv :: "('k::linorder \<times> 'v) list \<Rightarrow> bool" where
  "map_inv m \<longleftrightarrow> sorted_wrt (<) (map fst m)"

lemma map_inv_Nil [simp]: "map_inv []"
  by (simp add: map_inv_def)

lemma map_inv_Cons [simp]: "map_inv ((k, v) # m) \<longleftrightarrow> (\<forall>k'\<in>fst ` set m. k < k') \<and> map_inv m"
  by (simp add: map_inv_def)

lemma map_inv_distinct: "map_inv m \<Longrightarrow> distinct (map fst m)"
  by (simp add: map_inv_def strict_sorted_iff)

lemma map_inv_lookup: "map_inv m \<Longrightarrow> map_of m k = Some v \<longleftrightarrow> (k, v) \<in> set m"
  by (simp add: map_inv_distinct)

lemma map_of_map_put [simp]: "map_of (map_put k v m) = (map_of m)(k \<mapsto> v)"
  by (induction k v m rule: map_put.induct) (auto simp: fun_eq_iff)

lemma keys_map_put: "fst ` set (map_put k v m) = insert k (fst ` set m)"
  by (induction k v m rule: map_put.induct) auto

lemma map_inv_map_put [simp]: "map_inv m \<Longrightarrow> map_inv (map_put k v m)"
proof (induction k v m rule: map_put.induct)
  case (2 k v k' v' m)
  have "fst x \<in> insert k (fst ` set m)" if "x \<in> set (map_put k v m)" for x
    using that keys_map_put [of k v m] by blast
  with 2 show ?case by (auto; force)
qed simp

interpretation sorted_map: std_map map_put map_of map_inv
  by unfold_locales simp_all

end
