(* ===== verification/Text_Log.thy ===== *)
theory Text_Log
  imports Prelude
begin

text \<open>
  The contract of a log: whatever is put into it comes behind what was put under the same name before, and nothing
  else changes. Its client is a sequence of calls, as the loggers get from one routine or from a whole
  session. The loggers of \<open>Config_Log\<close> provide it, one logger alone and all of them together.
\<close>

text \<open>Calls one after the other, up to the first that fails. A call that fails leaves a state behind.\<close>

fun run_calls :: "('c \<Rightarrow> 's \<Rightarrow> 'e option \<times> 's) \<Rightarrow> 'c list \<Rightarrow> 's \<Rightarrow> 'e option \<times> 's" where
  "run_calls put [] s = (None, s)"
| "run_calls put (c # cs) s = (case put c s of (Some e, s') \<Rightarrow> (Some e, s') | (None, s') \<Rightarrow> run_calls put cs s')"

lemma run_calls_append:
  "run_calls put (xs @ ys) s = (case run_calls put xs s of (Some e, s') \<Rightarrow> (Some e, s') | (None, s') \<Rightarrow> run_calls put ys s')"
  by (induction xs arbitrary: s) (auto split: prod.splits option.splits)

text \<open>What every call keeps a sequence of calls keeps.\<close>

lemma run_calls_keep:
  assumes "\<And>c s e s'. put c s = (e, s') \<Longrightarrow> f s' = f s"
  shows "run_calls put cs s = (e, s') \<Longrightarrow> f s' = f s"
proof (induction cs arbitrary: s)
  case (Cons c cs)
  obtain e1 s1 where put: "put c s = (e1, s1)" by fastforce
  from Cons put have "f s' = f s1" by (cases e1) auto
  with assms [OF put] show ?case by simp
qed simp

text \<open>What is put under a name.\<close>

definition text_at :: "('c \<Rightarrow> 'f) \<Rightarrow> ('c \<Rightarrow> string) \<Rightarrow> 'c list \<Rightarrow> 'f \<Rightarrow> string" where
  "text_at name line cs f = concat (map line (filter (\<lambda>c. name c = f) cs))"

lemma text_at_Nil [simp]: "text_at name line [] f = []"
  by (simp add: text_at_def)

lemma text_at_Cons [simp]: "text_at name line (c # cs) f = (if name c = f then line c else []) @ text_at name line cs f"
  by (simp add: text_at_def)

locale text_log =
  fixes put :: "'c \<Rightarrow> 's \<Rightarrow> 'e option \<times> 's" and name :: "'c \<Rightarrow> 'f" and line :: "'c \<Rightarrow> string"
    and written :: "'s \<Rightarrow> 'f \<Rightarrow> string" and names :: "'s \<Rightarrow> 'f set"
    and ready :: "'s \<Rightarrow> bool" and allowed :: "'c \<Rightarrow> bool" and room :: nat
  assumes put_appends: "ready s \<Longrightarrow> allowed c \<Longrightarrow> length (written s (name c)) < room \<Longrightarrow>
    \<exists>s'. put c s = (None, s') \<and> ready s' \<and> written s' = (written s)(name c := written s (name c) @ line c) \<and>
      names s' = insert (name c) (names s)"
begin

lemma calls_append:
  assumes "ready s" and "\<And>c. c \<in> set cs \<Longrightarrow> allowed c"
    and "\<And>f. length (written s f) + length (text_at name line cs f) < room"
  shows "\<exists>s'. run_calls put cs s = (None, s') \<and> ready s' \<and> (\<forall>f. written s' f = written s f @ text_at name line cs f) \<and>
    names s' = names s \<union> name ` set cs"
  using assms
proof (induction cs arbitrary: s)
  case (Cons c cs)
  have "length (written s (name c)) < room" using Cons.prems(3) [of "name c"] by simp
  with Cons.prems(1,2) obtain s1 where put: "put c s = (None, s1)" and s1: "ready s1"
    and w: "written s1 = (written s)(name c := written s (name c) @ line c)"
    and names: "names s1 = insert (name c) (names s)" using put_appends [of s c] by auto
  have "length (written s1 f) + length (text_at name line cs f) < room" for f
    using Cons.prems(3) [of f] w by (auto split: if_splits)
  from Cons.IH [OF s1 Cons.prems(2) this] obtain s' where "run_calls put cs s1 = (None, s')" "ready s'"
    "\<forall>f. written s' f = written s1 f @ text_at name line cs f" "names s' = names s1 \<union> name ` set cs" by auto
  with put w names show ?case by auto
qed simp

end

end
