(* ===== verification/Config_Log.thy ===== *)
theory Config_Log
  imports Printf Std_Map Text_Log "HOL-Library.Char_ord" "HOL-Library.List_Lexorder"
begin

text \<open>
  \<^verbatim>\<open>replay/Config.h\<close>, \<^verbatim>\<open>Config.cpp\<close>, \<^verbatim>\<open>Logger.h\<close> and \<^verbatim>\<open>Logger.cpp\<close>: which log entries are enabled,
  and the loggers, each buffering its lines and spreading them over numbered files of about 100 MB.
  The C library's and the stream's own work is taken to succeed (no full disk); what the code itself
  refuses is a \<open>log_error\<close>. A routine that throws leaves a state behind, the mutex it holds
  included, so an operation returns the error beside the state and not in its place.
\<close>

subsection \<open>Configuration\<close>

record Config_Entry =
  ce_bEnable :: bool
  ce_bWithinMainModule :: bool
  ce_bWithinCodeSection :: bool
  ce_filename :: string

definition default_Config_Entry :: Config_Entry where
  "default_Config_Entry = \<lparr>ce_bEnable = False, ce_bWithinMainModule = False,
     ce_bWithinCodeSection = False, ce_filename = []\<rparr>"

record Config =
  s_overwrite :: bool
  s_report_folder :: string
  s_map_entries :: "string \<rightharpoonup> Config_Entry"

text \<open>The static members as the program starts with them.\<close>

definition initial_Config :: Config where
  "initial_Config = \<lparr>s_overwrite = False, s_report_folder = [], s_map_entries = (\<lambda>_. None)\<rparr>"

definition IsEntryEnabled :: "Config \<Rightarrow> string \<Rightarrow> bool" where
  "IsEntryEnabled cfg name = (case s_map_entries cfg name of Some e \<Rightarrow> ce_bEnable e | None \<Rightarrow> False)"

definition GetEntryFilename :: "Config \<Rightarrow> string \<Rightarrow> string" where
  "GetEntryFilename cfg name = (case s_map_entries cfg name of Some e \<Rightarrow> ce_filename e | None \<Rightarrow> [])"

definition WithinMainModule :: "Config \<Rightarrow> string \<Rightarrow> bool" where
  "WithinMainModule cfg name =
     (case s_map_entries cfg name of Some e \<Rightarrow> ce_bWithinMainModule e | None \<Rightarrow> False)"

definition WithinCodeSection :: "Config \<Rightarrow> string \<Rightarrow> bool" where
  "WithinCodeSection cfg name =
     (case s_map_entries cfg name of Some e \<Rightarrow> ce_bWithinCodeSection e | None \<Rightarrow> False)"

definition GetFullFilename :: "Config \<Rightarrow> string \<Rightarrow> string" where
  "GetFullFilename cfg name = s_report_folder cfg @ name"

text \<open>\<^verbatim>\<open>boost::filesystem\<close> is not in the repository: its operations are a parameter, \<open>'fs\<close> the file
  system they work on; \<open>None\<close> is an exception, \<open>fs_remove\<close> also says whether there was a file.\<close>

record 'fs filesystem_api =
  fs_exists :: "string \<Rightarrow> 'fs \<Rightarrow> bool"
  fs_create_directory :: "string \<Rightarrow> 'fs \<Rightarrow> 'fs option"
  fs_entries :: "string \<Rightarrow> 'fs \<Rightarrow> string list option"
  fs_is_regular_file :: "string \<Rightarrow> 'fs \<Rightarrow> bool"
  fs_remove :: "string \<Rightarrow> 'fs \<Rightarrow> (bool \<times> 'fs) option"

definition ensure_folder :: "'fs filesystem_api \<Rightarrow> string \<Rightarrow> 'fs \<Rightarrow> 'fs option" where
  "ensure_folder api path fs =
     (if \<not> fs_exists api path fs then fs_create_directory api path fs else Some fs)"

fun clear_folder :: "'fs filesystem_api \<Rightarrow> string list \<Rightarrow> 'fs \<Rightarrow> 'fs option" where
  "clear_folder api [] fs = Some fs"
| "clear_folder api (p # ps) fs =
     (if fs_is_regular_file api p fs then
        (case fs_remove api p fs of None \<Rightarrow> None | Some (_, fs') \<Rightarrow> clear_folder api ps fs')
      else clear_folder api ps fs)"

text \<open>The result is what \<open>Initialize\<close> returns, the configuration and the file system; an exception
  keeps the effects made before it only in \<open>s_report_folder\<close> (the file system is not tracked on).\<close>

definition Config_Initialize ::
    "'fs filesystem_api \<Rightarrow> string \<Rightarrow> string \<Rightarrow> Config \<Rightarrow> 'fs \<Rightarrow> bool \<times> Config \<times> 'fs option" where
  "Config_Initialize api filename samplename cfg fs =
     (let cfg1 = cfg\<lparr>s_report_folder := filename\<rparr> in
      case ensure_folder api (s_report_folder cfg1) fs of None \<Rightarrow> (False, cfg1, None)
      | Some fs1 \<Rightarrow>
        (let cfg2 = cfg1\<lparr>s_report_folder := s_report_folder cfg1 @ samplename @ [CHR 0x5C]\<rparr> in
         case ensure_folder api (s_report_folder cfg2) fs1 of None \<Rightarrow> (False, cfg2, None)
         | Some fs2 \<Rightarrow>
           (case fs_entries api (s_report_folder cfg2) fs2 of None \<Rightarrow> (False, cfg2, None)
            | Some ps \<Rightarrow>
              (case clear_folder api ps fs2 of None \<Rightarrow> (False, cfg2, None)
               | Some fs3 \<Rightarrow> (True, cfg2, Some fs3)))))"

lemma Config_Initialize_entries:
  "Config_Initialize api f s cfg fs = (r, cfg', x) \<Longrightarrow> s_map_entries cfg' = s_map_entries cfg"
  by (auto simp: Config_Initialize_def Let_def split: option.splits)

subsection \<open>The loggers\<close>

datatype log_error = Length_Error | Invalid_Parameter | Out_Of_Range | Too_Many_Logs | Deadlock | Bad_Alloc

type_synonym files = "string \<rightharpoonup> string"

text \<open>\<open>lg_out\<close> is the name of the file the stream is open on, \<open>lg_locked\<close> whether the mutex is held.\<close>

record Logger =
  lg_out :: string
  lg_size :: u32
  lg_file_size :: u32
  lg_enabled :: bool
  lg_original_filename :: string
  lg_file_nums :: u32
  lg_buffer :: string
  lg_locked :: bool

definition BUF_SIZE :: u32 where "BUF_SIZE = 4096 * 4"
definition BIGGEST_FILE_SIZE :: u32 where "BIGGEST_FILE_SIZE = 100 * 1024 * 1024"
definition BIGGEST_FILE_NUMS :: u32 where "BIGGEST_FILE_NUMS = 20"

definition partial_file_name :: "string \<Rightarrow> u32 \<Rightarrow> string" where
  "partial_file_name original n = original @ ''_'' @ fmt_03d n @ ''.clg''"

definition truncate_file :: "string \<Rightarrow> files \<Rightarrow> files" where
  "truncate_file name fs = fs(name \<mapsto> [])"

definition write_file :: "string \<Rightarrow> string \<Rightarrow> files \<Rightarrow> files" where
  "write_file name text fs = fs(name \<mapsto> (case fs name of Some s \<Rightarrow> s | None \<Rightarrow> []) @ text)"

text \<open>The constructor. The last four characters are dropped whatever they are; a shorter name makes
  \<open>resize\<close> throw. \<^verbatim>\<open>sprintf_s\<close> refuses a name that does not fit into 1024 characters.\<close>

definition new_Logger :: "string \<Rightarrow> files \<Rightarrow> log_error + Logger \<times> files" where
  "new_Logger filename fs =
     (if length filename < 4 then Inl Length_Error
      else let original = take (length filename - 4) filename; name = partial_file_name original 1 in
        if length name \<ge> 1024 then Inl Invalid_Parameter
        else Inr (\<lparr>lg_out = name, lg_size = 0, lg_file_size = 0, lg_enabled = True,
                    lg_original_filename = original, lg_file_nums = 1,
                    lg_buffer = replicate (unat BUF_SIZE) (CHR 0x00), lg_locked = False\<rparr>,
                  truncate_file name fs))"

type_synonym log_result = "log_error option \<times> Logger \<times> files"

definition SplitFile :: "Logger \<Rightarrow> files \<Rightarrow> log_result" where
  "SplitFile lg fs =
     (if lg_file_nums lg > BIGGEST_FILE_NUMS then (Some Too_Many_Logs, lg, fs)
      else let lg1 = lg\<lparr>lg_file_nums := lg_file_nums lg + 1\<rparr>;
               name = partial_file_name (lg_original_filename lg) (lg_file_nums lg1) in
        if length name \<ge> 1024 then (Some Invalid_Parameter, lg1, fs)
        else (None, lg1\<lparr>lg_out := name, lg_file_size := 0\<rparr>, truncate_file name fs))"

definition Flush :: "Logger \<Rightarrow> files \<Rightarrow> log_result" where
  "Flush lg fs =
     (if unat (lg_size lg) > length (lg_buffer lg) then (Some Out_Of_Range, lg, fs)
      else let fs1 = write_file (lg_out lg) (take (unat (lg_size lg)) (lg_buffer lg)) fs;
               lg1 = lg\<lparr>lg_buffer := [], lg_file_size := lg_file_size lg + lg_size lg, lg_size := 0\<rparr> in
        if lg_file_size lg1 \<ge> BIGGEST_FILE_SIZE then SplitFile lg1 fs1 else (None, lg1, fs1))"

text \<open>\<^verbatim>\<open>std::string::replace (pos, len, s)\<close>.\<close>

definition string_replace :: "string \<Rightarrow> nat \<Rightarrow> nat \<Rightarrow> string \<Rightarrow> string" where
  "string_replace s pos len t = take pos s @ t @ drop (pos + len) s"

text \<open>\<open>line\<close> is what the pointer shows up to the terminating NUL. An exception of \<open>Flush\<close> passes
  the \<open>PIN_MutexUnlock\<close> by.\<close>

definition Logline :: "string \<Rightarrow> Logger \<Rightarrow> files \<Rightarrow> log_result" where
  "Logline line lg fs =
     (let len = word_of_nat (length line) :: u32 in
      if lg_locked lg then (Some Deadlock, lg, fs)
      else
        (case (if len + lg_size lg \<ge> BUF_SIZE then Flush (lg\<lparr>lg_locked := True\<rparr>) fs
               else (None, lg\<lparr>lg_locked := True\<rparr>, fs))
         of (Some e, lg1, fs1) \<Rightarrow> (Some e, lg1, fs1)
         | (None, lg1, fs1) \<Rightarrow>
             if unat (lg_size lg1) > length (lg_buffer lg1) then (Some Out_Of_Range, lg1, fs1)
             else (None, lg1\<lparr>lg_buffer := string_replace (lg_buffer lg1) (unat (lg_size lg1)) (unat len) line,
                             lg_size := lg_size lg1 + len, lg_locked := False\<rparr>, fs1)))"

definition delete_Logger :: "Logger \<Rightarrow> files \<Rightarrow> log_result" where
  "delete_Logger lg fs =
     (if lg_locked lg then (Some Deadlock, lg, fs)
      else case Flush (lg\<lparr>lg_locked := True\<rparr>) fs of
        (Some e, lg1, fs1) \<Rightarrow> (Some e, lg1, fs1)
      | (None, lg1, fs1) \<Rightarrow> (None, lg1\<lparr>lg_locked := False\<rparr>, fs1))"

text \<open>The loop of \<open>LoglineF\<close> around \<^verbatim>\<open>vsnprintf\<close>, which gives the length of the text when it fits and
  a negative number otherwise. \<open>size\<close> is an \<^verbatim>\<open>int\<close>; once it has overflowed \<open>resize\<close> throws.\<close>

fun format_loop :: "nat \<Rightarrow> string \<Rightarrow> u32 \<Rightarrow> (log_error + string) option" where
  "format_loop 0 text size' = None"
| "format_loop (Suc fuel) text size' =
     (if sint size' < 0 then Some (Inl Bad_Alloc)
      else let n = (if int (length text) < sint size' then int (length text) else - 1) in
        if n > 0 \<and> n < sint size' then Some (Inr text)
        else format_loop fuel text (size' * 2))"

definition format_line :: "string \<Rightarrow> (log_error + string) option" where
  "format_line text = format_loop 26 text 100"

subsection \<open>All loggers\<close>

text \<open>The program's log state. \<open>s_loggers\<close> is iterated in key order by \<open>Finalize\<close>.\<close>

record Log_State =
  ls_config :: Config
  s_loggers :: "(string \<times> Logger) list"
  ls_files :: files

type_synonym log_action = "Log_State \<Rightarrow> log_error option \<times> Log_State"

definition GetInstance :: "string \<Rightarrow> log_action" where
  "GetInstance filename st =
     (case map_of (s_loggers st) filename of Some _ \<Rightarrow> (None, st)
      | None \<Rightarrow> (case new_Logger filename (ls_files st) of
          Inl e \<Rightarrow> (Some e, st)
        | Inr (lg, fs) \<Rightarrow>
            (None, st\<lparr>s_loggers := map_put filename lg (s_loggers st), ls_files := fs\<rparr>)))"

text \<open>\<open>s_loggers[filename]->Logline (line)\<close> on a logger that is there.\<close>

definition Logline_at :: "string \<Rightarrow> string \<Rightarrow> log_action" where
  "Logline_at filename line st =
     (case Logline line (the (map_of (s_loggers st) filename)) (ls_files st) of
        (e, lg, fs) \<Rightarrow> (e, st\<lparr>s_loggers := map_put filename lg (s_loggers st), ls_files := fs\<rparr>))"

definition LogTo :: "string \<Rightarrow> string \<Rightarrow> log_action" where
  "LogTo filename log_line st =
     (case GetInstance filename st of
        (Some e, st1) \<Rightarrow> (Some e, st1)
      | (None, st1) \<Rightarrow> Logline_at filename log_line st1)"

text \<open>A C string ends at the first NUL.\<close>

definition c_str :: "string \<Rightarrow> string" where
  "c_str s = takeWhile (\<lambda>c. c \<noteq> CHR 0x00) s"

lemma c_str_id: "CHR 0x00 \<notin> set s \<Longrightarrow> c_str s = s"
  unfolding c_str_def by (subst takeWhile_eq_all_conv) blast

text \<open>\<open>text\<close> is the format with its arguments put in; \<open>Logline\<close> sees it up to the first NUL.\<close>

definition LogToF_file :: "string \<Rightarrow> string \<Rightarrow> log_action" where
  "LogToF_file filename text st =
     (case GetInstance filename st of
        (Some e, st1) \<Rightarrow> (Some e, st1)
      | (None, st1) \<Rightarrow>
          (case format_line text of
             Some (Inr dest) \<Rightarrow> Logline_at filename (c_str dest) st1
           | Some (Inl e) \<Rightarrow> (Some e, st1)
           | None \<Rightarrow> (Some Bad_Alloc, st1)))"

definition LOQ :: "string \<Rightarrow> string \<Rightarrow> log_action" where
  "LOQ entry text st =
     (if IsEntryEnabled (ls_config st) entry then
        (let filename = GetEntryFilename (ls_config st) entry in
         if filename \<noteq> [] then LogToF_file filename text st else (None, st))
      else (None, st))"

definition LOF :: "string \<Rightarrow> string \<Rightarrow> log_action" where
  "LOF name text st =
     (let filename = GetFullFilename (ls_config st) name in
      if filename \<noteq> [] then LogToF_file filename text st else (None, st))"

fun delete_loggers :: "(string \<times> Logger) list \<Rightarrow> files \<Rightarrow> log_error option \<times> files" where
  "delete_loggers [] fs = (None, fs)"
| "delete_loggers ((_, lg) # m) fs =
     (case delete_Logger lg fs of
        (Some e, _, fs1) \<Rightarrow> (Some e, fs1)
      | (None, _, fs1) \<Rightarrow> delete_loggers m fs1)"

definition Logger_Finalize :: log_action where
  "Logger_Finalize st =
     (case delete_loggers (s_loggers st) (ls_files st) of
        (Some e, fs) \<Rightarrow> (Some e, st\<lparr>ls_files := fs\<rparr>)
      | (None, fs) \<Rightarrow> (None, st\<lparr>ls_files := fs, s_loggers := []\<rparr>))"

subsection \<open>Invariant of a logger\<close>

lemma sint_small: "unat (w::u32) < 2 ^ 31 \<Longrightarrow> sint w = int (unat w)"
proof -
  assume "unat w < 2 ^ 31"
  then have "uint w < 2 ^ 31" using word_less_nat_alt [of w "0x80000000"] by (simp add: word_less_def)
  moreover have "- (2 ^ 31) \<le> uint w" by (rule order_trans [OF _ uint_ge_0]) simp
  ultimately have "sint w = uint w" by (simp add: sint_uint signed_take_bit_int_eq_self)
  then show ?thesis by (simp only: uint_nat)
qed

lemma sint_word_of_nat: "i < 2 ^ 31 \<Longrightarrow> sint (word_of_nat i :: u32) = int i"
  by (simp add: sint_small unat_of_nat)

lemma partial_file_name_inject:
  assumes "i < 1000" and "j < 1000"
  shows "partial_file_name s (word_of_nat i) = partial_file_name s (word_of_nat j) \<longleftrightarrow> i = j"
proof -
  have "read_base 10 (fmt_03d (word_of_nat k)) = k" if "k < 1000" for k
    using that by (simp add: fmt_03d_def sint_word_of_nat dec_read)
  with assms have "fmt_03d (word_of_nat i) = fmt_03d (word_of_nat j) \<longleftrightarrow> i = j" by metis
  then show ?thesis by (auto simp: partial_file_name_def)
qed

lemma length_partial_file_name:
  "unat n < 1000 \<Longrightarrow> length (partial_file_name s n) = length s + 8"
  using length_base_str [of 10 "unat n" 3 digit]
  by (auto simp: partial_file_name_def fmt_03d_def sint_small)

definition file_text :: "files \<Rightarrow> string \<Rightarrow> string" where
  "file_text fs name = (case fs name of Some s \<Rightarrow> s | None \<Rightarrow> [])"

lemma file_text_write: "file_text (write_file f t fs) g = (if g = f then file_text fs f @ t else file_text fs g)"
  by (simp add: file_text_def write_file_def)

lemma file_text_truncate: "file_text (truncate_file f fs) g = (if g = f then [] else file_text fs g)"
  by (simp add: file_text_def truncate_file_def)

text \<open>The numbered files of a logger, and all it has been given: what they hold and what is buffered.\<close>

definition part :: "Logger \<Rightarrow> nat \<Rightarrow> string" where
  "part lg i = partial_file_name (lg_original_filename lg) (word_of_nat i)"

primrec files_upto :: "Logger \<Rightarrow> files \<Rightarrow> nat \<Rightarrow> string" where
  "files_upto lg fs 0 = []"
| "files_upto lg fs (Suc n) = files_upto lg fs n @ file_text fs (part lg (Suc n))"

definition files_text :: "Logger \<Rightarrow> files \<Rightarrow> string" where
  "files_text lg fs = files_upto lg fs (unat (lg_file_nums lg))"

definition logger_text :: "Logger \<Rightarrow> files \<Rightarrow> string" where
  "logger_text lg fs = files_text lg fs @ take (unat (lg_size lg)) (lg_buffer lg)"

definition logger_inv :: "Logger \<Rightarrow> files \<Rightarrow> bool" where
  "logger_inv lg fs \<longleftrightarrow>
     unat (lg_size lg) \<le> length (lg_buffer lg) \<and> unat (lg_size lg) < 2 ^ 30 \<and>
     1 \<le> unat (lg_file_nums lg) \<and> unat (lg_file_nums lg) \<le> 21 \<and>
     lg_out lg = part lg (unat (lg_file_nums lg)) \<and>
     length (file_text fs (lg_out lg)) = unat (lg_file_size lg) \<and>
     lg_file_size lg < BIGGEST_FILE_SIZE \<and>
     (\<forall>i. 1 \<le> i \<and> i < unat (lg_file_nums lg) \<longrightarrow>
        104857600 \<le> length (file_text fs (part lg i)) \<and> length (file_text fs (part lg i)) < 2 ^ 31) \<and>
     length (lg_original_filename lg) + 8 < 1024"

lemma part_cong: "lg_original_filename lg' = lg_original_filename lg \<Longrightarrow> part lg' = part lg"
  by (rule ext) (simp add: part_def)

lemma files_upto_cong:
  "lg_original_filename lg' = lg_original_filename lg \<Longrightarrow>
   (\<And>i. 1 \<le> i \<Longrightarrow> i \<le> n \<Longrightarrow> file_text fs' (part lg i) = file_text fs (part lg i)) \<Longrightarrow>
   files_upto lg' fs' n = files_upto lg fs n"
  using part_cong [of lg' lg] by (induction n) (auto simp del: of_nat_Suc)

lemma files_upto_orig:
  "lg_original_filename lg' = lg_original_filename lg \<Longrightarrow> files_upto lg' = files_upto lg"
  by (intro ext files_upto_cong) auto

lemma full_files_upto:
  "(\<And>i. 1 \<le> i \<Longrightarrow> i \<le> n \<Longrightarrow> 104857600 \<le> length (file_text fs (part lg i))) \<Longrightarrow>
   n * 104857600 \<le> length (files_upto lg fs n)"
proof (induction n)
  case (Suc n)
  then have "n * 104857600 \<le> length (files_upto lg fs n)"
    and "104857600 \<le> length (file_text fs (part lg (Suc n)))" by auto
  then show ?case by simp
qed simp

lemma part_eq_iff: "i < 1000 \<Longrightarrow> j < 1000 \<Longrightarrow> part lg i = part lg j \<longleftrightarrow> i = j"
  by (simp add: part_def partial_file_name_inject)

text \<open>Writing to the last file and opening the next one.\<close>

lemma files_upto_write:
  assumes "1 \<le> n" and "n < 1000"
  shows "files_upto lg (write_file (part lg n) t fs) n = files_upto lg fs n @ t"
proof -
  obtain k where k: "n = Suc k" using assms(1) by (cases n) auto
  have "files_upto lg (write_file (part lg n) t fs) k = files_upto lg fs k"
    by (rule files_upto_cong) (use assms k in \<open>auto simp: file_text_write part_eq_iff\<close>)
  with k show ?thesis by (simp add: file_text_write)
qed

lemma files_upto_truncate:
  assumes "n < 999"
  shows "files_upto lg (truncate_file (part lg (Suc n)) fs) (Suc n) = files_upto lg fs n"
proof -
  have "files_upto lg (truncate_file (part lg (Suc n)) fs) n = files_upto lg fs n"
    by (rule files_upto_cong) (use assms in \<open>auto simp: file_text_truncate part_eq_iff\<close>)
  then show ?thesis by (simp add: file_text_truncate)
qed

subsection \<open>Every operation keeps it\<close>

lemma BIGGEST_FILE_SIZE_unat: "w \<ge> BIGGEST_FILE_SIZE \<longleftrightarrow> 104857600 \<le> unat w"
  by (simp add: BIGGEST_FILE_SIZE_def word_le_nat_alt)

lemma BUF_SIZE_unat: "w \<ge> BUF_SIZE \<longleftrightarrow> 16384 \<le> unat w"
  by (simp add: BUF_SIZE_def word_le_nat_alt)

text \<open>The next file is opened when there are at most 20, all of them full.\<close>

lemma SplitFile_step:
  fixes lg :: Logger
  defines "n \<equiv> unat (lg_file_nums lg)"
  assumes n: "1 \<le> n" "n \<le> 20" and orig: "length (lg_original_filename lg) + 8 < 1024"
    and empty: "lg_size lg = 0" "lg_buffer lg = []"
    and full: "\<And>i. 1 \<le> i \<Longrightarrow> i \<le> n \<Longrightarrow>
      104857600 \<le> length (file_text fs (part lg i)) \<and> length (file_text fs (part lg i)) < 2 ^ 31"
  shows "\<exists>lg' fs'. SplitFile lg fs = (None, lg', fs') \<and> logger_inv lg' fs' \<and> files_text lg' fs' = files_text lg fs \<and>
     lg_size lg' = 0 \<and> lg_buffer lg' = [] \<and> lg_locked lg' = lg_locked lg"
proof -
  let ?w = "lg_file_nums lg + 1"
  have w: "unat ?w = Suc n" using n by (simp add: n_def unat_word_ariths)
  have ww: "?w = word_of_nat (Suc n)" and num: "word_of_nat n = lg_file_nums lg" by (simp_all add: n_def add.commute)
  define lg2 where "lg2 = lg\<lparr>lg_file_nums := ?w, lg_out := part lg (Suc n), lg_file_size := 0\<rparr>"
  define fs2 where "fs2 = truncate_file (part lg (Suc n)) fs"
  have p2: "part lg2 = part lg" by (rule part_cong) (simp add: lg2_def)
  have nums: "\<not> lg_file_nums lg > BIGGEST_FILE_NUMS"
    using n by (simp add: BIGGEST_FILE_NUMS_def word_less_nat_alt n_def)
  have "length (part lg (Suc n)) < 1024"
    using orig n w length_partial_file_name [of ?w "lg_original_filename lg"]
    unfolding part_def ww [symmetric] by simp
  then have split: "SplitFile lg fs = (None, lg2, fs2)"
    using nums unfolding SplitFile_def Let_def
    by (simp add: part_def lg2_def fs2_def num add.commute [of 1])
  have keep: "file_text fs2 (part lg i) = file_text fs (part lg i)" if "1 \<le> i" "i \<le> n" for i
    using that n by (simp add: fs2_def file_text_truncate part_eq_iff del: of_nat_Suc)
  have nums2: "unat (lg_file_nums lg2) = Suc n" by (simp add: lg2_def w)
  have "logger_inv lg2 fs2"
    unfolding logger_inv_def nums2 p2 using full keep orig n empty
    by (simp add: lg2_def fs2_def file_text_truncate BIGGEST_FILE_SIZE_def)
  moreover have "files_upto lg2 fs2 (Suc n) = files_upto lg fs n"
    using files_upto_truncate [of n lg fs] n files_upto_orig [of lg2 lg]
    by (simp add: fs2_def lg2_def del: files_upto.simps)
  then have "files_text lg2 fs2 = files_text lg fs" unfolding files_text_def nums2 by (simp add: n_def)
  ultimately show ?thesis using split empty by (simp add: lg2_def)
qed

lemma Flush_step:
  assumes inv: "logger_inv lg fs" and few: "length (logger_text lg fs) < 21 * 104857600"
  shows "\<exists>lg' fs'. Flush lg fs = (None, lg', fs') \<and> logger_inv lg' fs' \<and>
     logger_text lg' fs' = logger_text lg fs \<and> lg_size lg' = 0 \<and> lg_buffer lg' = [] \<and>
     lg_locked lg' = lg_locked lg"
proof -
  let ?n = "unat (lg_file_nums lg)" let ?t = "take (unat (lg_size lg)) (lg_buffer lg)"
  define fs1 where "fs1 = write_file (part lg ?n) ?t fs"
  define lg1 where "lg1 = lg\<lparr>lg_buffer := [], lg_file_size := lg_file_size lg + lg_size lg, lg_size := 0\<rparr>"
  from inv have n: "1 \<le> ?n" "?n \<le> 21" and out: "lg_out lg = part lg ?n"
    and fsz: "length (file_text fs (part lg ?n)) = unat (lg_file_size lg)"
    and small: "unat (lg_file_size lg) < 104857600" and sz: "unat (lg_size lg) \<le> length (lg_buffer lg)"
      "unat (lg_size lg) < 2 ^ 30"
    and full: "\<And>i. 1 \<le> i \<Longrightarrow> i < ?n \<Longrightarrow>
        104857600 \<le> length (file_text fs (part lg i)) \<and> length (file_text fs (part lg i)) < 2 ^ 31"
    and orig: "length (lg_original_filename lg) + 8 < 1024"
    using BIGGEST_FILE_SIZE_unat [of "lg_file_size lg"] by (auto simp: logger_inv_def not_le [symmetric])
  have o1: "lg_original_filename lg1 = lg_original_filename lg" by (simp add: lg1_def)
  have p1: "part lg1 = part lg" by (rule part_cong) (simp add: lg1_def)
  have sum: "unat (lg_file_size lg1) = unat (lg_file_size lg) + unat (lg_size lg)"
    using small sz by (simp add: lg1_def unat_word_ariths)
  have total: "files_upto lg1 fs1 ?n = logger_text lg fs"
    using n files_upto_write [of ?n lg ?t fs] files_upto_orig [of lg1 lg]
    by (simp add: logger_text_def files_text_def fs1_def lg1_def)
  have len1: "length (file_text fs1 (part lg ?n)) = unat (lg_file_size lg1)"
    using fsz sz sum by (simp add: fs1_def file_text_write)
  have full1: "104857600 \<le> length (file_text fs1 (part lg i)) \<and> length (file_text fs1 (part lg i)) < 2 ^ 31"
    if "1 \<le> i" "i < ?n" for i
    using that n full by (simp add: fs1_def file_text_write part_eq_iff)
  have Flush: "Flush lg fs = (if lg_file_size lg1 \<ge> BIGGEST_FILE_SIZE then SplitFile lg1 fs1 else (None, lg1, fs1))"
    using sz out by (simp add: Flush_def lg1_def fs1_def Let_def)
  show ?thesis
  proof (cases "lg_file_size lg1 \<ge> BIGGEST_FILE_SIZE")
    case False
    then have "logger_inv lg1 fs1"
      using n out orig full1 len1 p1 by (auto simp: logger_inv_def lg1_def)
    moreover have "logger_text lg1 fs1 = logger_text lg fs"
      using total by (simp add: logger_text_def files_text_def lg1_def)
    ultimately show ?thesis using Flush False by (simp add: lg1_def)
  next
    case True
    then have big: "104857600 \<le> length (file_text fs1 (part lg ?n))"
      using len1 by (simp add: BIGGEST_FILE_SIZE_unat)
    have "?n * 104857600 \<le> length (files_upto lg fs1 ?n)"
    proof (rule full_files_upto)
      fix i assume "1 \<le> i" "i \<le> ?n"
      then show "104857600 \<le> length (file_text fs1 (part lg i))"
        using big full1 [of i] by (cases "i = ?n") auto
    qed
    with total few have n20: "?n \<le> 20" using files_upto_orig [OF o1] by simp
    have "length (file_text fs1 (part lg ?n)) < 2 ^ 31" using len1 sum small sz by simp
    then have all: "104857600 \<le> length (file_text fs1 (part lg1 i)) \<and> length (file_text fs1 (part lg1 i)) < 2 ^ 31"
      if "1 \<le> i" "i \<le> unat (lg_file_nums lg1)" for i
      using that full1 [of i] big p1 by (cases "i = ?n") (auto simp: lg1_def)
    have "\<exists>lg' fs'. SplitFile lg1 fs1 = (None, lg', fs') \<and> logger_inv lg' fs' \<and> files_text lg' fs' = files_text lg1 fs1 \<and>
        lg_size lg' = 0 \<and> lg_buffer lg' = [] \<and> lg_locked lg' = lg_locked lg1"
      by (rule SplitFile_step) (use n n20 orig all in \<open>simp_all add: lg1_def\<close>)
    moreover have "files_text lg1 fs1 = logger_text lg fs" using total by (simp add: files_text_def lg1_def)
    ultimately show ?thesis using Flush True by (auto simp: logger_text_def lg1_def)
  qed
qed

lemma logger_inv_locked [simp]: "logger_inv (lg\<lparr>lg_locked := b\<rparr>) fs = logger_inv lg fs"
  by (simp add: logger_inv_def part_def)

lemma logger_text_locked [simp]: "logger_text (lg\<lparr>lg_locked := b\<rparr>) fs = logger_text lg fs"
  using files_upto_orig [of "lg\<lparr>lg_locked := b\<rparr>" lg] by (simp add: logger_text_def files_text_def)

text \<open>Putting a line into the buffer.\<close>

lemma buffer_step:
  assumes inv: "logger_inv lg fs" and len: "length line < 2 ^ 30"
    and room: "unat (lg_size lg) + length line < 2 ^ 30"
  defines "lg' \<equiv> lg\<lparr>lg_buffer := string_replace (lg_buffer lg) (unat (lg_size lg)) (length line) line,
                   lg_size := lg_size lg + word_of_nat (length line), lg_locked := False\<rparr>"
  shows "logger_inv lg' fs \<and> logger_text lg' fs = logger_text lg fs @ line"
proof -
  have sz: "unat (lg_size lg') = unat (lg_size lg) + length line"
    using len room by (simp add: lg'_def unat_word_ariths unat_of_nat)
  have p: "part lg' = part lg" and u: "files_upto lg' = files_upto lg"
    by (auto simp: lg'_def intro: part_cong files_upto_orig)
  from inv have "unat (lg_size lg) \<le> length (lg_buffer lg)" by (simp add: logger_inv_def)
  then have "logger_text lg' fs = logger_text lg fs @ line"
    unfolding logger_text_def files_text_def sz u by (simp add: lg'_def string_replace_def)
  moreover have "logger_inv lg' fs"
    using inv room \<open>unat (lg_size lg) \<le> _\<close> unfolding logger_inv_def sz p
    by (auto simp: lg'_def string_replace_def)
  ultimately show ?thesis by simp
qed

lemma Logline_step:
  assumes inv: "logger_inv lg fs" and free: "\<not> lg_locked lg"
    and few: "length (logger_text lg fs) < 21 * 104857600" and len: "length line < 2 ^ 30"
  shows "\<exists>lg' fs'. Logline line lg fs = (None, lg', fs') \<and> logger_inv lg' fs' \<and> \<not> lg_locked lg' \<and>
     logger_text lg' fs' = logger_text lg fs @ line"
proof -
  let ?len = "word_of_nat (length line) :: u32" let ?l = "lg\<lparr>lg_locked := True\<rparr>"
  have un: "unat ?len = length line" using len by (simp add: unat_of_nat)
  from inv have small: "unat (lg_size lg) < 2 ^ 30" and cap: "unat (lg_size lg) \<le> length (lg_buffer lg)"
    by (auto simp: logger_inv_def)
  have sum: "unat (?len + lg_size lg) = length line + unat (lg_size lg)"
    using small len by (simp add: unat_word_ariths un)
  show ?thesis
  proof (cases "?len + lg_size lg \<ge> BUF_SIZE")
    case True
    have "logger_inv ?l fs" and "length (logger_text ?l fs) < 21 * 104857600" using inv few by auto
    from Flush_step [OF this] obtain l1 fs1 where f: "Flush ?l fs = (None, l1, fs1)"
      and l1: "logger_inv l1 fs1" "logger_text l1 fs1 = logger_text lg fs" "lg_size l1 = 0" by auto
    have "unat (lg_size l1) + length line < 2 ^ 30" using l1(3) len by simp
    from buffer_step [OF l1(1) len this] show ?thesis
      using True free f l1 by (simp add: Logline_def un)
  next
    case False
    then have "unat (lg_size ?l) + length line < 2 ^ 30" using sum BUF_SIZE_unat [of "?len + lg_size lg"] by simp
    moreover have "logger_inv ?l fs" using inv by simp
    ultimately have "let l' = ?l\<lparr>lg_buffer := string_replace (lg_buffer lg) (unat (lg_size lg)) (length line) line,
        lg_size := lg_size lg + ?len, lg_locked := False\<rparr>
      in logger_inv l' fs \<and> logger_text l' fs = logger_text lg fs @ line"
      using buffer_step [of ?l fs line] len by (simp add: Let_def)
    then show ?thesis using False free cap by (simp add: Logline_def un Let_def)
  qed
qed

text \<open>One logger: its text has no name, and it is there from the start.\<close>

definition Loglines :: "string list \<Rightarrow> Logger \<Rightarrow> files \<Rightarrow> log_result" where
  "Loglines ls lg fs = run_calls (\<lambda>l (lg, fs). Logline l lg fs) ls (lg, fs)"

interpretation one_logger: text_log "\<lambda>l (lg, fs). Logline l lg fs" "\<lambda>_. ()" "\<lambda>l. l"
    "\<lambda>(lg, fs) _. logger_text lg fs" "\<lambda>_. UNIV" "\<lambda>(lg, fs). logger_inv lg fs \<and> \<not> lg_locked lg"
    "\<lambda>l. length l < 2 ^ 30" "21 * 104857600"
  by unfold_locales (use Logline_step in \<open>fastforce simp: fun_eq_iff\<close>)

lemma Loglines_run:
  assumes "logger_inv lg fs" and "\<not> lg_locked lg" and "\<And>l. l \<in> set ls \<Longrightarrow> length l < 2 ^ 30"
    and "length (logger_text lg fs) + length (concat ls) < 21 * 104857600"
  shows "\<exists>lg' fs'. Loglines ls lg fs = (None, lg', fs') \<and> logger_inv lg' fs' \<and> \<not> lg_locked lg' \<and>
     logger_text lg' fs' = logger_text lg fs @ concat ls"
  using one_logger.calls_append [of "(lg, fs)" ls] assms by (auto simp: Loglines_def text_at_def)

lemma new_Logger_inv:
  assumes "new_Logger filename fs = Inr (lg, fs')"
  shows "logger_inv lg fs' \<and> \<not> lg_locked lg \<and> logger_text lg fs' = []"
proof -
  have one: "word_of_nat 1 = (1 :: u32)" by simp
  from assms length_partial_file_name [of 1 "take (length filename - 4) filename"] show ?thesis
    by (auto simp: new_Logger_def logger_inv_def logger_text_def files_text_def Let_def part_def
        file_text_truncate BUF_SIZE_def BIGGEST_FILE_SIZE_def split: if_splits)
qed

lemma delete_Logger_step:
  assumes inv: "logger_inv lg fs" and free: "\<not> lg_locked lg"
    and few: "length (logger_text lg fs) < 21 * 104857600"
  shows "\<exists>lg' fs'. delete_Logger lg fs = (None, lg', fs') \<and> logger_inv lg' fs' \<and> \<not> lg_locked lg' \<and>
     files_text lg' fs' = logger_text lg fs"
proof -
  have "logger_inv (lg\<lparr>lg_locked := True\<rparr>) fs"
    and "length (logger_text (lg\<lparr>lg_locked := True\<rparr>) fs) < 21 * 104857600" using inv few by auto
  from Flush_step [OF this] obtain l1 fs1 where "Flush (lg\<lparr>lg_locked := True\<rparr>) fs = (None, l1, fs1)"
    and 1: "logger_inv l1 fs1" "logger_text l1 fs1 = logger_text lg fs" "lg_size l1 = 0" by auto
  moreover have "files_text (l1\<lparr>lg_locked := False\<rparr>) fs1 = files_text l1 fs1"
    using files_upto_orig [of "l1\<lparr>lg_locked := False\<rparr>" l1] by (simp add: files_text_def)
  moreover have "files_text l1 fs1 = logger_text lg fs"
    using 1 by (simp add: logger_text_def)
  ultimately show ?thesis using free by (simp add: delete_Logger_def)
qed

lemma Flush_orig: "Flush lg fs = (e, lg', fs') \<Longrightarrow> lg_original_filename lg' = lg_original_filename lg"
  by (auto simp: Flush_def SplitFile_def Let_def split: if_splits)

lemma Logline_orig:
  "Logline l lg fs = (e, lg', fs') \<Longrightarrow> lg_original_filename lg' = lg_original_filename lg"
  by (auto simp: Logline_def Let_def split: if_splits prod.splits option.splits dest!: Flush_orig)

lemma Loglines_orig:
  "Loglines ls lg fs = (e, lg', fs') \<Longrightarrow> lg_original_filename lg' = lg_original_filename lg"
  using run_calls_keep [of "\<lambda>l (lg, fs). Logline l lg fs" "\<lambda>(lg, fs). lg_original_filename lg" ls "(lg, fs)" e "(lg', fs')"]
  by (auto simp: Loglines_def dest: Logline_orig)

lemma delete_Logger_orig:
  "delete_Logger lg fs = (e, lg', fs') \<Longrightarrow> lg_original_filename lg' = lg_original_filename lg"
  by (auto simp: delete_Logger_def split: if_splits prod.splits option.splits dest!: Flush_orig)

lemma files_upto_concat:
  "files_upto lg fs n = concat (map (\<lambda>i. file_text fs (part lg i)) [1..<Suc n])"
  by (induction n) auto

text \<open>C8. A logger loses nothing and reorders nothing: for every sequence of lines of less than 21 times
  100 MB in all, the constructor, \<open>Logline\<close> for each line and the destructor run without an
  exception; the numbered files, at most 21, then hold exactly the lines in the order they were logged, and every
  file but the last has at least 100 MB.\<close>

theorem logger_loses_nothing:
  assumes new: "new_Logger filename fs = Inr (lg, fs0)"
    and len: "\<And>l. l \<in> set ls \<Longrightarrow> length l < 2 ^ 30" and few: "length (concat ls) < 21 * 104857600"
  defines "name \<equiv> \<lambda>i. partial_file_name (take (length filename - 4) filename) (word_of_nat i)"
  shows "\<exists>lg1 fs1 lg2 fs2 n. Loglines ls lg fs0 = (None, lg1, fs1) \<and> delete_Logger lg1 fs1 = (None, lg2, fs2) \<and>
     concat (map (\<lambda>i. file_text fs2 (name i)) [1..<Suc n]) = concat ls \<and> n \<le> 21 \<and>
     (\<forall>i. 1 \<le> i \<and> i < n \<longrightarrow> 104857600 \<le> length (file_text fs2 (name i)))"
proof -
  from new_Logger_inv [OF new] have 0: "logger_inv lg fs0" "\<not> lg_locked lg" "logger_text lg fs0 = []" by auto
  with few have "length (logger_text lg fs0) + length (concat ls) < 21 * 104857600" by simp
  from Loglines_run [OF 0(1,2) len this] obtain lg1 fs1 where
    1: "Loglines ls lg fs0 = (None, lg1, fs1)" "logger_inv lg1 fs1" "\<not> lg_locked lg1"
       "logger_text lg1 fs1 = concat ls" using 0(3) by auto
  with few have "length (logger_text lg1 fs1) < 21 * 104857600" by simp
  from delete_Logger_step [OF 1(2,3) this] obtain lg2 fs2 where
    2: "delete_Logger lg1 fs1 = (None, lg2, fs2)" "logger_inv lg2 fs2" "files_text lg2 fs2 = concat ls"
    using 1(4) by auto
  have "lg_original_filename lg = take (length filename - 4) filename"
    using new by (auto simp: new_Logger_def Let_def split: if_splits)
  then have "part lg2 = name"
    using Loglines_orig [OF 1(1)] delete_Logger_orig [OF 2(1)] by (simp add: fun_eq_iff part_def name_def)
  then have "concat (map (\<lambda>i. file_text fs2 (name i)) [1..<Suc (unat (lg_file_nums lg2))]) = concat ls"
    using 2(3) by (simp only: files_text_def files_upto_concat)
  with 1(1) 2 \<open>part lg2 = name\<close> show ?thesis unfolding logger_inv_def by blast
qed

theorem logger_loses_nothing_witness:
  "\<exists>lg fs0. new_Logger ''r/frames.csv'' (\<lambda>_. None) = Inr (lg, fs0) \<and>
    (\<exists>lg1 fs1 lg2 fs2 n. Loglines [''a'', ''bc''] lg fs0 = (None, lg1, fs1) \<and>
       delete_Logger lg1 fs1 = (None, lg2, fs2) \<and>
       concat (map (\<lambda>i. file_text fs2 (partial_file_name ''r/frames'' (word_of_nat i))) [1..<Suc n]) = ''abc'')"
proof -
  have "length (partial_file_name ''r/frames'' 1) = 16" by (subst length_partial_file_name) auto
  then obtain lg fs0 where new: "new_Logger ''r/frames.csv'' (\<lambda>_. None) = Inr (lg, fs0)"
    by (simp add: new_Logger_def Let_def)
  define ls where "ls = [''a'', ''bc'']"
  have len: "length l < 2 ^ 30" if "l \<in> set ls" for l using that by (auto simp: ls_def)
  have few: "length (concat ls) < 21 * 104857600" by (simp add: ls_def)
  have "take (length ''r/frames.csv'' - 4) ''r/frames.csv'' = ''r/frames''" and "concat ls = ''abc''"
    by (simp_all add: ls_def)
  with logger_loses_nothing [OF new len few] new show ?thesis
    unfolding ls_def [symmetric] by metis
qed

text \<open>C36. The limit is final: once 21 files are full, the \<open>Flush\<close> that fills the last one throws \<open>Too many logs\<close>
  out of \<open>Logline\<close> past the \<open>PIN_MutexUnlock\<close>, the line is lost, and every later \<open>Logline\<close>
  and the destructor wait for the mutex forever.\<close>

theorem log_limit_keeps_the_mutex:
  assumes "logger_inv lg fs" and "\<not> lg_locked lg" and "lg_file_nums lg = 21"
    and "104857600 \<le> unat (lg_file_size lg) + unat (lg_size lg)"
    and "16384 \<le> length line + unat (lg_size lg)" and "length line < 2 ^ 30"
  shows "\<exists>lg' fs'. Logline line lg fs = (Some Too_Many_Logs, lg', fs') \<and> files_text lg' fs' = logger_text lg fs \<and>
     (\<forall>l. Logline l lg' fs' = (Some Deadlock, lg', fs')) \<and> delete_Logger lg' fs' = (Some Deadlock, lg', fs')"
proof -
  let ?len = "word_of_nat (length line) :: u32"
  let ?l = "lg\<lparr>lg_locked := True, lg_buffer := [], lg_file_size := lg_file_size lg + lg_size lg, lg_size := 0\<rparr>"
  let ?fs = "write_file (lg_out lg) (take (unat (lg_size lg)) (lg_buffer lg)) fs"
  from assms(1) have small: "unat (lg_size lg) < 2 ^ 30" and cap: "unat (lg_size lg) \<le> length (lg_buffer lg)"
    and out: "lg_out lg = part lg 21" and fsz: "\<not> lg_file_size lg \<ge> BIGGEST_FILE_SIZE"
    using assms(3) by (auto simp: logger_inv_def)
  have "unat (?len + lg_size lg) = length line + unat (lg_size lg)"
    using small assms(6) by (simp add: unat_word_ariths unat_of_nat)
  then have big: "?len + lg_size lg \<ge> BUF_SIZE" using assms(5) by (simp add: BUF_SIZE_unat)
  have "unat (lg_file_size lg + lg_size lg) = unat (lg_file_size lg) + unat (lg_size lg)"
    using small fsz by (simp add: BIGGEST_FILE_SIZE_unat unat_word_ariths)
  then have full: "lg_file_size lg + lg_size lg \<ge> BIGGEST_FILE_SIZE" using assms(4) by (simp add: BIGGEST_FILE_SIZE_unat)
  have "Logline line lg fs = (Some Too_Many_Logs, ?l, ?fs)"
    using big full cap assms(2,3) by (simp add: Logline_def Flush_def SplitFile_def Let_def BIGGEST_FILE_NUMS_def)
  moreover have "files_text ?l ?fs = logger_text lg fs"
    using files_upto_orig [of ?l lg] files_upto_write [of 21 lg] assms(3) out
    by (simp add: files_text_def logger_text_def del: files_upto.simps)
  moreover have "Logline l ?l ?fs = (Some Deadlock, ?l, ?fs)" for l by (simp add: Logline_def Let_def)
  moreover have "delete_Logger ?l ?fs = (Some Deadlock, ?l, ?fs)" by (simp add: delete_Logger_def)
  ultimately show ?thesis by blast
qed

theorem log_limit_keeps_the_mutex_witness:
  "\<exists>lg fs. logger_inv lg fs \<and> (\<exists>lg' fs'. Logline (replicate 16384 CHR ''x'') lg fs = (Some Too_Many_Logs, lg', fs') \<and>
     (\<forall>l. Logline l lg' fs' = (Some Deadlock, lg', fs')))"
proof -
  define lg where "lg = \<lparr>lg_out = partial_file_name ''f'' 21, lg_size = 1, lg_file_size = 104857599,
    lg_enabled = True, lg_original_filename = ''f'', lg_file_nums = 21, lg_buffer = ''x'', lg_locked = False\<rparr>"
  define fs where "fs = (\<lambda>f. Some (replicate (if f = partial_file_name ''f'' 21 then 104857599 else 104857600) CHR ''x''))"
  have "logger_inv lg fs"
    using partial_file_name_inject [of _ 21 "''f''"]
    by (auto simp: logger_inv_def lg_def fs_def part_def file_text_def BIGGEST_FILE_SIZE_def)
  moreover have "\<not> lg_locked lg" "lg_file_nums lg = 21" by (simp_all add: lg_def)
  moreover have "104857600 \<le> unat (lg_file_size lg) + unat (lg_size lg)" by (simp add: lg_def)
  moreover have "16384 \<le> length (replicate 16384 CHR ''x'') + unat (lg_size lg)" by (simp add: lg_def)
  moreover have "length (replicate 16384 CHR ''x'') < 2 ^ 30" by simp
  ultimately show ?thesis using log_limit_keeps_the_mutex by blast
qed

subsection \<open>Formatting a line\<close>

lemma format_loop_outcome:
  "n \<le> 25 \<Longrightarrow> unat w = 100 * 2 ^ (25 - n) \<Longrightarrow>
   format_loop (Suc n) text w =
     Some (if n \<noteq> 0 \<and> 0 < length text \<and> length text < 1677721600 then Inr text else Inl Bad_Alloc)"
proof (induction n arbitrary: w)
  case 0
  then have "w = 0xC8000000" by (simp add: word_unat_eq_iff)
  then show ?case by simp
next
  case (Suc n)
  then have w: "unat w = 100 * 2 ^ (24 - n)" by simp
  have "(2::nat) ^ (24 - n) \<le> 2 ^ 24" by (rule power_increasing) auto
  with w have s: "sint w = 100 * 2 ^ (24 - n)" and le: "unat w \<le> 1677721600" by (simp_all add: sint_small)
  from Suc.prems have "25 - n = Suc (24 - n)" by simp
  with w le have w2: "unat (w * 2) = 100 * 2 ^ (25 - n)" by (simp add: unat_word_ariths)
  from Suc.IH [OF _ w2] Suc.prems have IH: "format_loop (Suc n) text (w * 2) =
     Some (if n \<noteq> 0 \<and> 0 < length text \<and> length text < 1677721600 then Inr text else Inl Bad_Alloc)" by simp
  have zero: "length text < 1677721600 \<longleftrightarrow> int (length text) < sint w" if "n = 0"
    using that s by simp
  have less: "length text < 1677721600" if "int (length text) < sint w"
    using that le w s sint_small [of w] by (simp del: of_nat_mult)
  have pos: "0 < sint w" using s by simp
  show ?case
    by (subst format_loop.simps(2)) (use IH zero less pos in \<open>auto simp: Let_def simp del: format_loop.simps\<close>)
qed

text \<open>\<open>LoglineF\<close> gives back every text that is neither empty nor of 1.6 GB or more; on an empty text its
  loop doubles the buffer until the size overflows, and \<open>resize\<close> throws.\<close>

lemma format_line_outcome:
  "format_line text =
     Some (if 0 < length text \<and> length text < 1677721600 then Inr text else Inl Bad_Alloc)"
  using format_loop_outcome [of 25 "100" "text"] by (simp add: format_line_def del: format_loop.simps)

subsection \<open>Loggers side by side\<close>

definition original_of :: "string \<Rightarrow> string" where
  "original_of filename = take (length filename - 4) filename"

definition own_files :: "Logger \<Rightarrow> string set" where
  "own_files lg = part lg ` {1..21}"

lemma length_fmt_03d: "unat n < 1000 \<Longrightarrow> length (fmt_03d n) = 3"
  using length_partial_file_name [of n "[]"] by (simp add: partial_file_name_def)

lemma own_files_disjoint:
  assumes "lg_original_filename a \<noteq> lg_original_filename b"
  shows "own_files a \<inter> own_files b = {}"
proof -
  have "part a i \<noteq> part b j" if "i \<le> 21" "j \<le> 21" for i j
  proof
    assume "part a i = part b j"
    moreover have "length (fmt_03d (word_of_nat k)) = 3" if "k \<le> 21" for k
      using that by (simp add: length_fmt_03d unat_of_nat)
    ultimately show False using assms that by (simp add: part_def partial_file_name_def)
  qed
  then show ?thesis by (auto simp: own_files_def)
qed

lemma own_files_orig: "lg_original_filename a = lg_original_filename b \<Longrightarrow> own_files a = own_files b"
  using part_cong [of a b] by (simp add: own_files_def)

lemma logger_cong:
  assumes "\<And>f. f \<in> own_files lg \<Longrightarrow> fs' f = fs f" and "logger_inv lg fs"
  shows "logger_inv lg fs' \<and> logger_text lg fs' = logger_text lg fs"
proof -
  have n: "1 \<le> unat (lg_file_nums lg)" "unat (lg_file_nums lg) \<le> 21"
    using assms(2) by (auto simp: logger_inv_def)
  have same: "file_text fs' (part lg i) = file_text fs (part lg i)" if "1 \<le> i" "i \<le> 21" for i
    using that assms(1) by (simp add: file_text_def own_files_def)
  then have "files_text lg fs' = files_text lg fs"
    using n by (auto simp: files_text_def intro!: files_upto_cong)
  moreover have "logger_inv lg fs'"
    using assms(2) n same unfolding logger_inv_def by auto
  ultimately show ?thesis by (simp add: logger_text_def)
qed

lemma Flush_frame:
  assumes "Flush lg fs = (e, lg', fs')" and "logger_inv lg fs" and "f \<notin> own_files lg"
  shows "fs' f = fs f"
proof -
  let ?n = "unat (lg_file_nums lg)"
  have out: "f \<noteq> lg_out lg" using assms(2,3) by (auto simp: logger_inv_def own_files_def)
  have next_file: "f \<noteq> partial_file_name (lg_original_filename lg) (lg_file_nums lg + 1)"
    if "\<not> BIGGEST_FILE_NUMS < lg_file_nums lg"
  proof -
    from that have "Suc ?n \<le> 21" by (simp add: BIGGEST_FILE_NUMS_def word_less_nat_alt)
    then have "part lg (Suc ?n) \<in> own_files lg" by (simp add: own_files_def del: of_nat_Suc)
    with assms(3) show ?thesis by (auto simp: part_def add.commute)
  qed
  show ?thesis
    using assms(1) out next_file
    by (auto simp: Flush_def SplitFile_def Let_def write_file_def truncate_file_def split: if_splits)
qed

lemma Logline_frame:
  assumes "Logline l lg fs = (e, lg', fs')" and "logger_inv lg fs" and "f \<notin> own_files lg"
  shows "fs' f = fs f"
proof -
  have "own_files (lg\<lparr>lg_locked := True\<rparr>) = own_files lg" by (rule own_files_orig) simp
  then have "fs1 f = fs f" if "Flush (lg\<lparr>lg_locked := True\<rparr>) fs = (e1, lg1, fs1)" for e1 lg1 fs1
    using Flush_frame [OF that] assms(2,3) by simp
  with assms(1) show ?thesis
    by (auto simp: Logline_def Let_def split: if_splits prod.splits option.splits)
qed

definition log_state_inv :: "Log_State \<Rightarrow> bool" where
  "log_state_inv st \<longleftrightarrow>
     (\<forall>k lg. map_of (s_loggers st) k = Some lg \<longrightarrow>
        logger_inv lg (ls_files st) \<and> \<not> lg_locked lg \<and> lg_original_filename lg = original_of k) \<and>
     inj_on original_of (dom (map_of (s_loggers st))) \<and> map_inv (s_loggers st)"

definition logged :: "Log_State \<Rightarrow> string \<Rightarrow> string" where
  "logged st filename = (case map_of (s_loggers st) filename of
     Some lg \<Rightarrow> logger_text lg (ls_files st) | None \<Rightarrow> [])"

lemma own_files_truncate:
  "new_Logger filename fs = Inr (lg, fs') \<Longrightarrow> f \<notin> own_files lg \<Longrightarrow> fs' f = fs f"
proof -
  assume new: "new_Logger filename fs = Inr (lg, fs')" and f: "f \<notin> own_files lg"
  have "part lg 1 \<in> own_files lg" by (simp add: own_files_def)
  with f have "f \<noteq> partial_file_name (lg_original_filename lg) 1" by (auto simp: part_def)
  with new show ?thesis by (auto simp: new_Logger_def Let_def truncate_file_def split: if_splits)
qed

text \<open>Replacing one logger, and changing none but its files.\<close>

lemma log_state_put:
  assumes inv: "log_state_inv st" and lg: "logger_inv lg fs" "\<not> lg_locked lg" "lg_original_filename lg = original_of k"
    and inj: "\<And>g. g \<in> dom (map_of (s_loggers st)) \<Longrightarrow> g \<noteq> k \<Longrightarrow> original_of g \<noteq> original_of k"
    and frame: "\<And>f. f \<notin> own_files lg \<Longrightarrow> fs f = ls_files st f"
  defines "st' \<equiv> st\<lparr>s_loggers := map_put k lg (s_loggers st), ls_files := fs\<rparr>"
  shows "log_state_inv st' \<and> logged st' k = logger_text lg fs \<and> (\<forall>g. g \<noteq> k \<longrightarrow> logged st' g = logged st g)"
proof -
  have other: "logger_inv l fs \<and> logger_text l fs = logger_text l (ls_files st) \<and>
      \<not> lg_locked l \<and> lg_original_filename l = original_of g"
    if l: "map_of (s_loggers st) g = Some l" and "g \<noteq> k" for g l
  proof -
    from inv l have ok: "logger_inv l (ls_files st)" "\<not> lg_locked l" "lg_original_filename l = original_of g"
      by (auto simp: log_state_inv_def)
    have "original_of g \<noteq> original_of k" using inj [of g] l \<open>g \<noteq> k\<close> by auto
    with ok lg(3) own_files_disjoint [of l lg] have "own_files l \<inter> own_files lg = {}" by simp
    then have "fs f = ls_files st f" if "f \<in> own_files l" for f using that frame by auto
    from logger_cong [OF this ok(1)] ok show ?thesis by simp
  qed
  have "inj_on original_of (dom (map_of (s_loggers st)))" using inv by (simp add: log_state_inv_def)
  then have "inj_on original_of (insert k (dom (map_of (s_loggers st))))"
    using inj by (intro inj_onI) (metis inj_onD insert_iff)
  moreover have "dom (map_of (s_loggers st')) = insert k (dom (map_of (s_loggers st)))"
    by (simp add: st'_def sorted_map.dom_put del: map_of_map_put)
  moreover have "logger_inv l (ls_files st') \<and> \<not> lg_locked l \<and> lg_original_filename l = original_of g"
    if "map_of (s_loggers st') g = Some l" for g l
    using that other [of g l] lg by (cases "g = k") (simp_all add: st'_def)
  moreover have "map_inv (s_loggers st')"
    using inv by (simp add: log_state_inv_def st'_def sorted_map.put_valid)
  ultimately have "log_state_inv st'" unfolding log_state_inv_def by presburger
  moreover have "logged st' g = logged st g" if "g \<noteq> k" for g
    using other [of g] that by (auto simp: logged_def st'_def split: option.splits)
  ultimately show ?thesis by (simp add: logged_def st'_def)
qed

lemma new_Logger_ok:
  assumes "4 \<le> length filename" and "length filename < 1020"
  shows "\<exists>lg fs'. new_Logger filename fs = Inr (lg, fs') \<and> lg_original_filename lg = original_of filename"
  using assms length_partial_file_name [of 1 "original_of filename"]
  by (auto simp: new_Logger_def Let_def original_of_def)

lemma GetInstance_step:
  assumes inv: "log_state_inv st" and name: "4 \<le> length filename" "length filename < 1020"
    and inj: "\<And>g. g \<in> dom (map_of (s_loggers st)) \<Longrightarrow> g \<noteq> filename \<Longrightarrow> original_of g \<noteq> original_of filename"
  shows "\<exists>st' lg. GetInstance filename st = (None, st') \<and> log_state_inv st' \<and> logged st' = logged st \<and>
     map_of (s_loggers st') filename = Some lg \<and>
     dom (map_of (s_loggers st')) = insert filename (dom (map_of (s_loggers st))) \<and> ls_config st' = ls_config st"
proof (cases "map_of (s_loggers st) filename")
  case None
  from new_Logger_ok [OF name, of "ls_files st"] obtain lg fs where
    new: "new_Logger filename (ls_files st) = Inr (lg, fs)" "lg_original_filename lg = original_of filename" by auto
  let ?st = "st\<lparr>s_loggers := map_put filename lg (s_loggers st), ls_files := fs\<rparr>"
  from new_Logger_inv [OF new(1)] have lg: "logger_inv lg fs" "\<not> lg_locked lg" "logger_text lg fs = []" by auto
  note put = log_state_put [OF inv lg(1,2) new(2) inj own_files_truncate [OF new(1)]]
  have "logged ?st = logged st"
    using put lg(3) None by (auto simp: fun_eq_iff logged_def split: option.splits)
  then show ?thesis using put new None by (auto simp: GetInstance_def)
qed (use inv in \<open>auto simp: GetInstance_def\<close>)

lemma LogTo_step:
  assumes inv: "log_state_inv st" and name: "4 \<le> length filename" "length filename < 1020"
    and inj: "\<And>g. g \<in> dom (map_of (s_loggers st)) \<Longrightarrow> g \<noteq> filename \<Longrightarrow> original_of g \<noteq> original_of filename"
    and few: "length (logged st filename) < 21 * 104857600" and len: "length line < 2 ^ 30"
  shows "\<exists>st'. LogTo filename line st = (None, st') \<and> log_state_inv st' \<and>
     logged st' = (logged st)(filename := logged st filename @ line) \<and>
     dom (map_of (s_loggers st')) = insert filename (dom (map_of (s_loggers st))) \<and> ls_config st' = ls_config st"
proof -
  from GetInstance_step [OF inv name inj] obtain st1 lg where
    1: "GetInstance filename st = (None, st1)" "log_state_inv st1" "logged st1 = logged st"
       "map_of (s_loggers st1) filename = Some lg" "ls_config st1 = ls_config st"
       "dom (map_of (s_loggers st1)) = insert filename (dom (map_of (s_loggers st)))" by auto
  then have lg: "logger_inv lg (ls_files st1)" "\<not> lg_locked lg" "lg_original_filename lg = original_of filename"
    by (auto simp: log_state_inv_def)
  have t: "logger_text lg (ls_files st1) = logged st filename"
    using 1(3,4) by (metis (no_types) logged_def option.simps(5))
  with few have "length (logger_text lg (ls_files st1)) < 21 * 104857600" by simp
  from Logline_step [OF lg(1,2) this len] obtain lg2 fs2 where
    2: "Logline line lg (ls_files st1) = (None, lg2, fs2)" "logger_inv lg2 fs2" "\<not> lg_locked lg2"
       "logger_text lg2 fs2 = logged st filename @ line" using t by auto
  have o2: "lg_original_filename lg2 = original_of filename" using Logline_orig [OF 2(1)] lg(3) by simp
  have frame: "fs2 f = ls_files st1 f" if "f \<notin> own_files lg2" for f
    using Logline_frame [OF 2(1) lg(1)] that own_files_orig [of lg lg2] lg(3) o2 by auto
  have inj1: "original_of g \<noteq> original_of filename"
    if "g \<in> dom (map_of (s_loggers st1))" "g \<noteq> filename" for g using that inj 1(6) by auto
  note put = log_state_put [OF 1(2) 2(2,3) o2 inj1 frame]
  show ?thesis using put 1 2 by (auto simp: LogTo_def Logline_at_def fun_eq_iff)
qed

text \<open>Two loggers whose names differ only in the last four characters would share their files; that is excluded.\<close>

lemma LOF_step:
  assumes inv: "log_state_inv st" and f: "filename = GetFullFilename (ls_config st) name"
    and name: "4 \<le> length filename" "length filename < 1020"
    and inj: "\<And>g. g \<in> dom (map_of (s_loggers st)) \<Longrightarrow> g \<noteq> filename \<Longrightarrow> original_of g \<noteq> original_of filename"
    and few: "length (logged st filename) < 21 * 104857600"
    and line: "line \<noteq> []" "length line < 2 ^ 30" "CHR 0x00 \<notin> set line"
  shows "\<exists>st'. LOF name line st = (None, st') \<and> log_state_inv st' \<and>
     logged st' = (logged st)(filename := logged st filename @ line) \<and>
     dom (map_of (s_loggers st')) = insert filename (dom (map_of (s_loggers st))) \<and> ls_config st' = ls_config st"
proof -
  have ne: "filename \<noteq> []" using name by auto
  from GetInstance_step [OF inv name inj] obtain st1 where
    1: "GetInstance filename st = (None, st1)" "log_state_inv st1" "logged st1 = logged st" "ls_config st1 = ls_config st"
       "dom (map_of (s_loggers st1)) = insert filename (dom (map_of (s_loggers st)))" by blast
  have inj1: "original_of g \<noteq> original_of filename"
    if "g \<in> dom (map_of (s_loggers st1))" "g \<noteq> filename" for g using that inj 1(5) by auto
  have "format_line line = Some (Inr line)" using line format_line_outcome [of line] by simp
  moreover have "filename \<in> dom (map_of (s_loggers st1))" using 1(5) by simp
  then have "GetInstance filename st1 = (None, st1)" by (auto simp: GetInstance_def)
  ultimately have "LOF name line st = LogTo filename line st1"
    using 1(1) f ne c_str_id [OF line(3)] by (simp add: LOF_def LogToF_file_def LogTo_def Let_def)
  moreover have "length (logged st1 filename) < 21 * 104857600" using few 1(3) by simp
  ultimately show ?thesis using LogTo_step [OF 1(2) name inj1 _ line(2)] 1(3-5) by auto
qed

definition LOF_calls :: "(string \<times> string) list \<Rightarrow> log_action" where
  "LOF_calls = run_calls (\<lambda>(name, line). LOF name line)"

lemma LOF_calls_simps [simp]:
  "LOF_calls [] st = (None, st)"
  "LOF_calls ((name, line) # calls) st =
     (case LOF name line st of (Some e, st') \<Rightarrow> (Some e, st') | (None, st') \<Rightarrow> LOF_calls calls st')"
  unfolding LOF_calls_def by simp_all

text \<open>What a sequence of calls logs under a full name.\<close>

definition text_for :: "Config \<Rightarrow> (string \<times> string) list \<Rightarrow> string \<Rightarrow> string" where
  "text_for cfg calls f = concat (map snd (filter (\<lambda>(name, line). GetFullFilename cfg name = f) calls))"

lemma text_for_Cons: "text_for cfg ((name, line) # calls) f =
    (if GetFullFilename cfg name = f then line else []) @ text_for cfg calls f"
  by (simp add: text_for_def)

definition loggable :: "string \<Rightarrow> bool" where
  "loggable line \<longleftrightarrow> line \<noteq> [] \<and> length line < 2 ^ 30 \<and> CHR 0x00 \<notin> set line"

text \<open>The names in use: long enough for the extension to be dropped, short enough for the buffer, no two with the
  same files.\<close>

definition log_names :: "Config \<Rightarrow> string set \<Rightarrow> bool" where
  "log_names cfg names \<longleftrightarrow> (\<forall>n\<in>names. 4 \<le> length (GetFullFilename cfg n) \<and> length (GetFullFilename cfg n) < 1020) \<and>
     inj_on original_of (GetFullFilename cfg ` names)"

text \<open>All loggers together, under their full names.\<close>

definition loggers_ready :: "Config \<Rightarrow> string set \<Rightarrow> Log_State \<Rightarrow> bool" where
  "loggers_ready cfg names st \<longleftrightarrow> log_state_inv st \<and> ls_config st = cfg \<and> log_names cfg names \<and>
     dom (map_of (s_loggers st)) \<subseteq> GetFullFilename cfg ` names"

lemma LOF_appends:
  assumes ready: "loggers_ready cfg names st" and n: "name \<in> names" and l: "loggable line"
    and few: "length (logged st (GetFullFilename cfg name)) < 21 * 104857600"
  shows "\<exists>st'. LOF name line st = (None, st') \<and> loggers_ready cfg names st' \<and>
    logged st' = (logged st)(GetFullFilename cfg name := logged st (GetFullFilename cfg name) @ line) \<and>
    dom (map_of (s_loggers st')) = insert (GetFullFilename cfg name) (dom (map_of (s_loggers st)))"
proof -
  let ?f = "GetFullFilename cfg name"
  have inv: "log_state_inv st" and cfg: "?f = GetFullFilename (ls_config st) name"
    using ready by (simp_all add: loggers_ready_def)
  have inj: "original_of g \<noteq> original_of ?f" if "g \<in> dom (map_of (s_loggers st))" "g \<noteq> ?f" for g
    using ready n that by (auto simp: loggers_ready_def log_names_def dest!: inj_onD)
  have len: "4 \<le> length ?f" "length ?f < 1020" using ready n by (auto simp: loggers_ready_def log_names_def)
  have line: "line \<noteq> []" "length line < 2 ^ 30" "CHR 0x00 \<notin> set line" using l by (auto simp: loggable_def)
  from LOF_step [OF inv cfg len inj few line] ready n show ?thesis by (force simp: loggers_ready_def)
qed

interpretation all_loggers: text_log "\<lambda>(name, line). LOF name line" "\<lambda>(name, _). GetFullFilename cfg name" snd logged
    "\<lambda>st. dom (map_of (s_loggers st))" "loggers_ready cfg names" "\<lambda>(name, line). name \<in> names \<and> loggable line"
    "21 * 104857600" for cfg names
  by unfold_locales (use LOF_appends in \<open>auto split: prod.splits\<close>)

lemma text_for_at: "text_for cfg calls f = text_at (\<lambda>(name, _). GetFullFilename cfg name) snd calls f"
  by (simp add: text_for_def text_at_def case_prod_unfold)

lemma LOF_calls_run:
  assumes "log_state_inv st" and "log_names (ls_config st) names"
    and "dom (map_of (s_loggers st)) \<subseteq> GetFullFilename (ls_config st) ` names"
    and "\<And>name line. (name, line) \<in> set calls \<Longrightarrow> name \<in> names \<and> loggable line"
    and "\<And>f. length (logged st f) + length (text_for (ls_config st) calls f) < 21 * 104857600"
  shows "\<exists>st'. LOF_calls calls st = (None, st') \<and> log_state_inv st' \<and> ls_config st' = ls_config st \<and>
     (\<forall>f. logged st' f = logged st f @ text_for (ls_config st) calls f) \<and>
     dom (map_of (s_loggers st')) =
       dom (map_of (s_loggers st)) \<union> GetFullFilename (ls_config st) ` fst ` set calls"
proof -
  have "loggers_ready (ls_config st) names st" using assms(1-3) by (simp add: loggers_ready_def)
  from all_loggers.calls_append [OF this, of calls] assms(4,5) show ?thesis
    by (auto simp: LOF_calls_def text_for_at loggers_ready_def image_image case_prod_unfold)
qed

text \<open>With the configuration the program starts with, \<open>LOQ\<close> logs nothing at all: \<open>Config::Initialize\<close> reads no entries
  (the code that did is commented out), so no entry is ever enabled, whatever the folders are.\<close>

lemma LOQ_is_silent:
  assumes "Config_Initialize api report_folder sample initial_Config fs = (ok, ls_config st, fs')"
  shows "LOQ entry line st = (None, st) \<and> \<not> WithinMainModule (ls_config st) entry \<and>
     \<not> WithinCodeSection (ls_config st) entry"
  using Config_Initialize_entries [OF assms]
  by (simp add: LOQ_def IsEntryEnabled_def WithinMainModule_def WithinCodeSection_def initial_Config_def)

subsection \<open>The end of the run\<close>

text \<open>\<open>s\<close> is what the numbered files of a name hold together.\<close>

definition stored :: "files \<Rightarrow> string \<Rightarrow> string \<Rightarrow> bool" where
  "stored fs original s \<longleftrightarrow>
     (\<exists>n\<le>21. concat (map (\<lambda>i. file_text fs (partial_file_name original (word_of_nat i))) [1..<Suc n]) = s)"

lemma delete_Logger_frame:
  assumes "delete_Logger lg fs = (e, lg', fs')" and "logger_inv lg fs" and "f \<notin> own_files lg"
  shows "fs' f = fs f"
proof -
  have "own_files (lg\<lparr>lg_locked := True\<rparr>) = own_files lg" by (rule own_files_orig) simp
  then have "fs1 f = fs f" if "Flush (lg\<lparr>lg_locked := True\<rparr>) fs = (e1, lg1, fs1)" for e1 lg1 fs1
    using Flush_frame [OF that] assms(2,3) by simp
  with assms(1) show ?thesis
    by (auto simp: delete_Logger_def split: if_splits prod.splits option.splits)
qed

lemma delete_Logger_stored:
  assumes "logger_inv lg fs" and "\<not> lg_locked lg" and "length (logger_text lg fs) < 21 * 104857600"
  shows "\<exists>lg' fs'. delete_Logger lg fs = (None, lg', fs') \<and>
     (\<forall>fs''. (\<forall>f\<in>own_files lg. fs'' f = fs' f) \<longrightarrow> stored fs'' (lg_original_filename lg) (logger_text lg fs))"
proof -
  from delete_Logger_step [OF assms] obtain lg' fs' where
    d: "delete_Logger lg fs = (None, lg', fs')" "logger_inv lg' fs'" "files_text lg' fs' = logger_text lg fs" by auto
  note o = delete_Logger_orig [OF d(1)]
  have "stored fs'' (lg_original_filename lg) (logger_text lg fs)" if "\<forall>f\<in>own_files lg. fs'' f = fs' f" for fs''
  proof -
    have n: "unat (lg_file_nums lg') \<le> 21" using d(2) by (simp add: logger_inv_def)
    have "files_upto lg' fs'' (unat (lg_file_nums lg')) = files_text lg' fs'"
      unfolding files_text_def
      by (rule files_upto_cong)
        (use n that part_cong [OF o] in \<open>auto simp: file_text_def own_files_def\<close>)
    with d(3) have "concat (map (\<lambda>i. file_text fs'' (part lg' i)) [1..<Suc (unat (lg_file_nums lg'))]) = logger_text lg fs"
      by (simp only: files_upto_concat)
    with n show ?thesis unfolding stored_def part_def o by blast
  qed
  with d(1) show ?thesis by blast
qed

lemma delete_loggers_run:
  assumes "\<And>k lg. (k, lg) \<in> set m \<Longrightarrow> logger_inv lg fs \<and> \<not> lg_locked lg \<and>
      length (logger_text lg fs) < 21 * 104857600"
    and "distinct (map (lg_original_filename \<circ> snd) m)"
  shows "\<exists>fs'. delete_loggers m fs = (None, fs') \<and>
     (\<forall>(k, lg) \<in> set m. stored fs' (lg_original_filename lg) (logger_text lg fs)) \<and>
     (\<forall>f. (\<forall>(k, lg) \<in> set m. f \<notin> own_files lg) \<longrightarrow> fs' f = fs f)"
  using assms
proof (induction m arbitrary: fs)
  case (Cons kl m)
  obtain k lg where kl: "kl = (k, lg)" by (cases kl)
  with Cons.prems(1) have lg: "logger_inv lg fs" "\<not> lg_locked lg" "length (logger_text lg fs) < 21 * 104857600" by auto
  from delete_Logger_stored [OF this] obtain lg' fs1 where d: "delete_Logger lg fs = (None, lg', fs1)"
    and st: "\<And>fs''. (\<forall>f\<in>own_files lg. fs'' f = fs1 f) \<Longrightarrow> stored fs'' (lg_original_filename lg) (logger_text lg fs)"
    by blast
  have dis: "own_files l \<inter> own_files lg = {}" if "(g, l) \<in> set m" for g l
    using Cons.prems(2) that kl own_files_disjoint [of l lg] by force
  have keep: "logger_inv l fs1 \<and> logger_text l fs1 = logger_text l fs" if "(g, l) \<in> set m" for g l
  proof (rule logger_cong)
    show "fs1 f = fs f" if "f \<in> own_files l" for f
      using delete_Logger_frame [OF d lg(1)] dis [OF \<open>(g, l) \<in> set m\<close>] that by auto
  qed (use Cons.prems(1) that in auto)
  have "\<exists>fs'. delete_loggers m fs1 = (None, fs') \<and>
     (\<forall>(k, lg) \<in> set m. stored fs' (lg_original_filename lg) (logger_text lg fs1)) \<and>
     (\<forall>f. (\<forall>(k, lg) \<in> set m. f \<notin> own_files lg) \<longrightarrow> fs' f = fs1 f)"
    by (rule Cons.IH) (use Cons.prems keep in fastforce)+
  then obtain fs' where r: "delete_loggers m fs1 = (None, fs')"
    "\<forall>(k, lg) \<in> set m. stored fs' (lg_original_filename lg) (logger_text lg fs1)"
    "\<forall>f. (\<forall>(k, lg) \<in> set m. f \<notin> own_files lg) \<longrightarrow> fs' f = fs1 f" by blast
  have "\<forall>f\<in>own_files lg. fs' f = fs1 f" using r(3) dis by blast
  then have "stored fs' (lg_original_filename lg) (logger_text lg fs)" by (rule st)
  moreover have "\<forall>(k, l) \<in> set m. stored fs' (lg_original_filename l) (logger_text l fs)" using r(2) keep by fastforce
  moreover have "fs' f = fs f" if "\<forall>(k, l) \<in> set (kl # m). f \<notin> own_files l" for f
    using that r(3) delete_Logger_frame [OF d lg(1)] kl by auto
  ultimately show ?case using d r(1) kl by auto
qed simp

lemma Finalize_run:
  assumes inv: "log_state_inv st" and few: "\<And>k. length (logged st k) < 21 * 104857600"
  shows "\<exists>st'. Logger_Finalize st = (None, st') \<and> s_loggers st' = [] \<and>
     (\<forall>k \<in> dom (map_of (s_loggers st)). stored (ls_files st') (original_of k) (logged st k))"
proof -
  let ?m = "s_loggers st"
  from inv have "map_inv ?m" by (simp add: log_state_inv_def)
  then have dist: "distinct (map fst ?m)" by (rule map_inv_distinct)
  then have mo: "map_of ?m k = Some lg" if "(k, lg) \<in> set ?m" for k lg using that by simp
  have each: "logger_inv lg (ls_files st) \<and> \<not> lg_locked lg \<and> length (logger_text lg (ls_files st)) < 21 * 104857600 \<and>
      lg_original_filename lg = original_of k \<and> logger_text lg (ls_files st) = logged st k" if "(k, lg) \<in> set ?m" for k lg
    using mo [OF that] inv few [of k] by (auto simp: log_state_inv_def logged_def)
  have "map (lg_original_filename \<circ> snd) ?m = map original_of (map fst ?m)" using each by auto
  moreover have "inj_on original_of (set (map fst ?m))"
    using inv by (simp add: log_state_inv_def dom_map_of_conv_image_fst)
  ultimately have "distinct (map (lg_original_filename \<circ> snd) ?m)" using dist by (metis distinct_map)
  with delete_loggers_run [of ?m "ls_files st"] each obtain fs' where
    "delete_loggers ?m (ls_files st) = (None, fs')"
    "\<forall>(k, lg) \<in> set ?m. stored fs' (lg_original_filename lg) (logger_text lg (ls_files st))" by blast
  moreover have "\<exists>lg. (k, lg) \<in> set ?m" if "k \<in> dom (map_of ?m)" for k using that by (auto dest: map_of_SomeD)
  ultimately show ?thesis using each by (fastforce simp: Logger_Finalize_def)
qed

text \<open>From the first call to the files on the disk.\<close>

lemma LOF_then_Finalize:
  assumes names: "log_names cfg names"
    and calls: "\<And>name line. (name, line) \<in> set calls \<Longrightarrow> name \<in> names \<and> loggable line"
    and few: "\<And>f. length (text_for cfg calls f) < 21 * 104857600"
  shows "\<exists>st st'. LOF_calls calls \<lparr>ls_config = cfg, s_loggers = [], ls_files = fs\<rparr> = (None, st) \<and>
     Logger_Finalize st = (None, st') \<and> s_loggers st' = [] \<and>
     (\<forall>name \<in> fst ` set calls. stored (ls_files st') (original_of (GetFullFilename cfg name))
        (text_for cfg calls (GetFullFilename cfg name)))"
proof -
  let ?st = "\<lparr>ls_config = cfg, s_loggers = [], ls_files = fs\<rparr>"
  have empty: "logged ?st f = []" for f by (simp add: logged_def)
  have "\<exists>st'. LOF_calls calls ?st = (None, st') \<and> log_state_inv st' \<and> ls_config st' = ls_config ?st \<and>
     (\<forall>f. logged st' f = logged ?st f @ text_for (ls_config ?st) calls f) \<and>
     dom (map_of (s_loggers st')) =
       dom (map_of (s_loggers ?st)) \<union> GetFullFilename (ls_config ?st) ` fst ` set calls"
    by (rule LOF_calls_run [where names = names]) (use assms empty in \<open>auto simp: log_state_inv_def\<close>)
  then obtain st where st: "LOF_calls calls ?st = (None, st)" "log_state_inv st" "\<And>f. logged st f = text_for cfg calls f"
    "dom (map_of (s_loggers st)) = GetFullFilename cfg ` fst ` set calls" unfolding empty by auto
  have "\<exists>st'. Logger_Finalize st = (None, st') \<and> s_loggers st' = [] \<and>
     (\<forall>k \<in> dom (map_of (s_loggers st)). stored (ls_files st') (original_of k) (logged st k))"
    by (rule Finalize_run) (use st few in auto)
  then show ?thesis using st by auto
qed

end
