(* ===== verification/Image.thy ===== *)
theory Image
  imports Sweep_Gaps Config_Log
begin

text \<open>
  \<^verbatim>\<open>replay/ImageInfo.h\<close>, \<^verbatim>\<open>ImageInfo.cpp\<close>, \<^verbatim>\<open>ImageSection.h\<close>, \<^verbatim>\<open>ImageSection.cpp\<close> and
  \<^verbatim>\<open>ImageSectionRoutine.h\<close>, \<^verbatim>\<open>.cpp\<close>: the loaded images with their sections and routines, the relocation
  targets read from the image, and what the instrumentation asks of an address. What the Pin kit reports of an image
  is a record of the answers of its functions. A routine that logs returns its \<^verbatim>\<open>LOQ\<close> calls in order,
  as pairs of the entry and the formatted text.
\<close>

type_synonym log_calls = "(string \<times> string) list"

definition nl :: string where "nl = [CHR 0x0A]"

subsection \<open>What Pin reports\<close>

datatype SEC_TYPE = SEC_TYPE_REGREL | SEC_TYPE_DYNREL | SEC_TYPE_EXEC | SEC_TYPE_DATA
  | SEC_TYPE_LSDA | SEC_TYPE_BSS | SEC_TYPE_LOOS | SEC_TYPE_USER | SEC_TYPE_OTHER

record RTN =
  RTN_Name :: string
  RTN_Address :: u32
  RTN_Size :: u32
  RTN_NumIns :: u32

record SEC =
  SEC_Name :: string
  SEC_Address :: u32
  SEC_Size :: u32
  SEC_IsReadable :: bool
  SEC_IsWriteable :: bool
  SEC_IsExecutable :: bool
  SEC_Type :: SEC_TYPE
  SEC_Rtns :: "RTN list"

record IMG =
  IMG_Name :: string
  IMG_StartAddress :: u32
  IMG_SizeMapped :: u32
  IMG_Entry :: u32
  IMG_IsMainExecutable :: bool
  IMG_IsStaticExecutable :: bool
  IMG_Secs :: "SEC list"

subsection \<open>Sections and routines\<close>

record ImageSectionRoutine =
  isr_name :: string
  isr_ins_nums :: u32
  isr_address :: u32
  isr_size :: u32

definition new_ImageSectionRoutine :: "RTN \<Rightarrow> ImageSectionRoutine" where
  "new_ImageSectionRoutine rtn = \<lparr>isr_name = RTN_Name rtn, isr_ins_nums = RTN_NumIns rtn,
     isr_address = RTN_Address rtn, isr_size = RTN_Size rtn\<rparr>"

definition routine_Start :: "ImageSectionRoutine \<Rightarrow> u32" where "routine_Start r = isr_address r"

text \<open>\<open>is_addr_rtns\<close> maps the start of a routine to its name and its end.\<close>

record ImageSection =
  is_name :: string
  is_address :: u32
  is_size :: u32
  is_readable :: bool
  is_writeable :: bool
  is_executable :: bool
  is_text :: bool
  is_code :: bool
  is_initialized_data :: bool
  is_uninitialized_data :: bool
  is_routines :: "ImageSectionRoutine list"
  is_addr_rtns :: "(u32 \<times> string \<times> u32) list"

definition section_line :: "string \<Rightarrow> string \<Rightarrow> log_calls" where
  "section_line name kind =
     [(''image_section'', ''section '' @ pad_left 10 CHR '' '' name @ '' ['' @ kind @ '']'' @ nl)]"

fun section_kind :: "string \<Rightarrow> SEC_TYPE \<Rightarrow> log_calls" where
  "section_kind n SEC_TYPE_REGREL = section_line n ''relocations''"
| "section_kind n SEC_TYPE_DYNREL = section_line n ''dynamic relocations''"
| "section_kind n SEC_TYPE_EXEC = section_line n ''contains code''"
| "section_kind n SEC_TYPE_DATA = section_line n ''contains initialized data''"
| "section_kind n SEC_TYPE_LSDA = section_line n ''old exception_info (obsolete)''"
| "section_kind n SEC_TYPE_BSS = section_line n ''contains uninitialized data''"
| "section_kind n SEC_TYPE_LOOS = section_line n ''OS specific.''"
| "section_kind n SEC_TYPE_USER = section_line n ''Application specific.''"
| "section_kind n SEC_TYPE_OTHER = []"

definition routine_line :: "RTN \<Rightarrow> string \<times> string" where
  "routine_line rtn = (''image_routine'', ''routine [0x'' @ fmt_08x (RTN_Address rtn) @ ''] '' @ RTN_Name rtn @ nl)"

definition add_routine :: "RTN \<Rightarrow> (u32 \<times> string \<times> u32) list \<Rightarrow> (u32 \<times> string \<times> u32) list" where
  "add_routine rtn m = map_put (RTN_Address rtn) (RTN_Name rtn, RTN_Address rtn + RTN_Size rtn) m"

text \<open>\<open>iequals\<close> is \<^verbatim>\<open>boost::iequals\<close>, which is not in the repository.\<close>

definition new_ImageSection :: "(string \<Rightarrow> string \<Rightarrow> bool) \<Rightarrow> SEC \<Rightarrow> ImageSection \<times> log_calls" where
  "new_ImageSection iequals sec =
     (let text_section = iequals (SEC_Name sec) ''.text'';
          rtns = (if text_section then SEC_Rtns sec else []) in
      (\<lparr>is_name = SEC_Name sec, is_address = SEC_Address sec, is_size = SEC_Size sec,
        is_readable = SEC_IsReadable sec, is_writeable = SEC_IsWriteable sec,
        is_executable = SEC_IsExecutable sec, is_text = text_section,
        is_code = (SEC_Type sec = SEC_TYPE_EXEC),
        is_initialized_data = (SEC_Type sec = SEC_TYPE_DATA),
        is_uninitialized_data = (SEC_Type sec = SEC_TYPE_BSS),
        is_routines = [], is_addr_rtns = fold add_routine rtns []\<rparr>,
       section_kind (SEC_Name sec) (SEC_Type sec) @ map routine_line rtns))"

definition section_Contains :: "ImageSection \<Rightarrow> u32 \<Rightarrow> bool" where
  "section_Contains s addr \<longleftrightarrow> is_address s \<le> addr \<and> is_address s + is_size s > addr"

definition section_Executable :: "ImageSection \<Rightarrow> bool" where "section_Executable s = is_executable s"
definition section_Name :: "ImageSection \<Rightarrow> string" where "section_Name s = is_name s"
definition section_Start :: "ImageSection \<Rightarrow> u32" where "section_Start s = is_address s"
definition section_Size :: "ImageSection \<Rightarrow> u32" where "section_Size s = is_size s"
definition section_End :: "ImageSection \<Rightarrow> u32" where "section_End s = is_address s + is_size s"

definition section_HasRtn :: "ImageSection \<Rightarrow> u32 \<Rightarrow> bool" where
  "section_HasRtn s addr \<longleftrightarrow> map_of (is_addr_rtns s) addr \<noteq> None"

fun within_rtn :: "(u32 \<times> string \<times> u32) list \<Rightarrow> u32 \<Rightarrow> string" where
  "within_rtn [] addr = []"
| "within_rtn ((start, name, end_addr) # m) addr =
     (if start \<le> addr \<and> end_addr > addr then
        (if addr - start = 0 then name else name @ ''_0x'' @ fmt_08x (addr - start))
      else within_rtn m addr)"

definition section_WithinRtn :: "ImageSection \<Rightarrow> u32 \<Rightarrow> string" where
  "section_WithinRtn s addr = within_rtn (is_addr_rtns s) addr"

text \<open>\<open>m_addr_rtns[addr]\<close> enters an empty name for an address that has none.\<close>

definition section_GetRtnName :: "ImageSection \<Rightarrow> u32 \<Rightarrow> string \<times> ImageSection" where
  "section_GetRtnName s addr =
     (case map_of (is_addr_rtns s) addr of Some (name, _) \<Rightarrow> (name, s)
      | None \<Rightarrow> ([], s\<lparr>is_addr_rtns := map_put addr ([], 0) (is_addr_rtns s)\<rparr>))"

definition section_GetRtnAddrs :: "ImageSection \<Rightarrow> u32 list \<Rightarrow> u32 list" where
  "section_GetRtnAddrs s rtn_addrs = fold (\<lambda>r as. insert_addr (routine_Start r) as) (is_routines s) rtn_addrs"

subsection \<open>Images\<close>

record ImageInfo =
  ii_name :: string
  ii_address :: u32
  ii_size :: u32
  ii_entry :: u32
  ii_main_executable :: bool
  ii_static_executable :: bool
  ii_data_dirs :: "u32 option"
  ii_reloc_targets :: "u32 list"
  ii_sections :: "ImageSection list"

text \<open>The static members.\<close>

record Image_State =
  s_images :: "ImageInfo list"
  s_main_module_start :: u32
  s_main_module_size :: u32

definition initial_Image_State :: Image_State where
  "initial_Image_State = \<lparr>s_images = [], s_main_module_start = 0, s_main_module_size = 0\<rparr>"

definition IsAddrMapped_Imp :: "ImageInfo \<Rightarrow> u32 \<Rightarrow> bool" where
  "IsAddrMapped_Imp img addr \<longleftrightarrow> addr \<ge> ii_address img \<and> addr < ii_address img + ii_size img"

definition IsAddrWithinModule :: "ImageInfo \<Rightarrow> u32 \<Rightarrow> bool" where
  "IsAddrWithinModule img addr = IsAddrMapped_Imp img addr"

definition IsAddrMapped :: "Image_State \<Rightarrow> u32 \<Rightarrow> bool" where
  "IsAddrMapped st addr = (if \<exists>img\<in>set (s_images st). IsAddrMapped_Imp img addr then True else True)"

definition IsAddrCode_Imp :: "ImageInfo \<Rightarrow> u32 \<Rightarrow> bool" where
  "IsAddrCode_Imp img addr \<longleftrightarrow> (\<exists>s\<in>set (ii_sections img). section_Executable s \<and> section_Contains s addr)"

definition image_IsAddrCode :: "Image_State \<Rightarrow> u32 \<Rightarrow> bool" where
  "image_IsAddrCode st addr \<longleftrightarrow> (\<exists>img\<in>set (s_images st). IsAddrCode_Imp img addr)"

definition IsAddrWithinMainModule :: "Image_State \<Rightarrow> u32 \<Rightarrow> bool" where
  "IsAddrWithinMainModule st addr \<longleftrightarrow>
     (if s_main_module_start st = 0 \<or> s_main_module_size st = 0 then True
      else addr \<ge> s_main_module_start st \<and> addr < s_main_module_start st + s_main_module_size st)"

definition GetSectionByAddress :: "ImageInfo \<Rightarrow> u32 \<Rightarrow> ImageSection option" where
  "GetSectionByAddress img addr = find (\<lambda>s. section_Contains s addr) (ii_sections img)"

definition image_HasRtn :: "ImageInfo \<Rightarrow> u32 \<Rightarrow> bool" where
  "image_HasRtn img addr \<longleftrightarrow> (\<exists>s\<in>set (ii_sections img). section_HasRtn s addr)"

text \<open>Asked only for a routine the section has, so the section stays as it is.\<close>

definition GetRtnName_Imp :: "ImageInfo \<Rightarrow> u32 \<Rightarrow> string" where
  "GetRtnName_Imp img addr =
     (case find (\<lambda>s. section_HasRtn s addr) (ii_sections img) of
        Some s \<Rightarrow> fst (section_GetRtnName s addr) | None \<Rightarrow> [])"

text \<open>The parameter is a \<^verbatim>\<open>uint8_t\<close>: of the address the caller passes only the low byte arrives.\<close>

fun rtn_name_loop :: "ImageInfo list \<Rightarrow> u32 \<Rightarrow> string" where
  "rtn_name_loop [] addr = []"
| "rtn_name_loop (img # imgs) addr =
     (let rtn_name = GetRtnName_Imp img addr in
      if rtn_name \<noteq> [] then rtn_name else rtn_name_loop imgs addr)"

definition GetRtnName :: "Image_State \<Rightarrow> u8 \<Rightarrow> string" where
  "GetRtnName st addr = rtn_name_loop (s_images st) (ucast addr)"

definition verifyControlFlowTraget_Imp :: "ImageInfo \<Rightarrow> u32 \<Rightarrow> bool" where
  "verifyControlFlowTraget_Imp img addr \<longleftrightarrow>
     IsAddrCode_Imp img addr \<and> (addr \<in> set (ii_reloc_targets img) \<or> image_HasRtn img addr)"

definition verifyControlFlowTarget :: "Image_State \<Rightarrow> u32 \<Rightarrow> bool" where
  "verifyControlFlowTarget st addr \<longleftrightarrow> (\<exists>img\<in>set (s_images st). verifyControlFlowTraget_Imp img addr)"

subsection \<open>Location hints\<close>

text \<open>\<^verbatim>\<open>m_name.substr (m_name.find_last_of ("\\/") + 1)\<close>.\<close>

definition base_name :: "string \<Rightarrow> string" where
  "base_name s = rev (takeWhile (\<lambda>c. c \<noteq> CHR 0x5C \<and> c \<noteq> CHR ''/'') (rev s))"

definition section_hint :: "u32 \<Rightarrow> ImageSection \<Rightarrow> string" where
  "section_hint addr s =
     (if section_Contains s addr
      then ''.['' @ section_Name s @ '']'' @ ''.'' @ section_WithinRtn s addr else [])"

definition GetAddrLocationHint_Imp :: "ImageInfo \<Rightarrow> u32 \<Rightarrow> string" where
  "GetAddrLocationHint_Imp img addr = base_name (ii_name img) @ concat (map (section_hint addr) (ii_sections img))"

definition GetAddrLocationHint :: "Image_State \<Rightarrow> u32 \<Rightarrow> string" where
  "GetAddrLocationHint st addr =
     (case find (\<lambda>img. IsAddrMapped_Imp img addr) (s_images st) of
        Some img \<Rightarrow> GetAddrLocationHint_Imp img addr | None \<Rightarrow> [])"

subsection \<open>Relocation targets\<close>

definition read_u16 :: "memory \<Rightarrow> u32 \<Rightarrow> run_error + u16" where
  "read_u16 mem a = (case FETCH16 (bytes_at mem a) 0 of Inl _ \<Rightarrow> Inl Access_Violation | Inr v \<Rightarrow> Inr v)"

definition read_u32 :: "memory \<Rightarrow> u32 \<Rightarrow> run_error + u32" where
  "read_u32 mem a = (case FETCH32 (bytes_at mem a) 0 of Inl _ \<Rightarrow> Inl Access_Violation | Inr v \<Rightarrow> Inr v)"

definition SecureDereference :: "ImageInfo \<Rightarrow> (u32 \<Rightarrow> run_error + 'v) \<Rightarrow> u32 \<Rightarrow> run_error + 'v" where
  "SecureDereference img read a =
     (if a \<ge> ii_address img \<and> a < ii_address img + ii_size img then read a
      else Inl (Std_Exception ''Insecure Dereference Within Image''))"

text \<open>The two loops of \<open>AnalyzeRelocationEntry\<close>; nothing in them guarantees that they end, \<open>None\<close> is a run
  that does not.\<close>

partial_function (option) reloc_items ::
    "memory \<Rightarrow> ImageInfo \<Rightarrow> u32 \<Rightarrow> u32 \<Rightarrow> u32 \<Rightarrow> u32 \<Rightarrow> u32 list \<Rightarrow> (run_error + u32 list) option" where
  "reloc_items mem img block base len i targets =
     (if i < len then
        (case SecureDereference img (read_u16 mem) (block + i + 8) of Inl e \<Rightarrow> Some (Inl e)
         | Inr item \<Rightarrow>
             if item AND 0xF000 = 0x3000 then
               (case SecureDereference img (read_u32 mem) (ii_address img + ucast (item AND 0x0FFF) + base)
                of Inl e \<Rightarrow> Some (Inl e)
                | Inr t \<Rightarrow> reloc_items mem img block base len (i + 2)
                    (if IsAddrWithinModule img t then insert_addr t targets else targets))
             else reloc_items mem img block base len (i + 2) targets)
      else Some (Inr targets))"

definition reloc_header :: "memory \<Rightarrow> ImageInfo \<Rightarrow> u32 \<Rightarrow> run_error + u32 \<times> u32" where
  "reloc_header mem img block =
     bind_r (SecureDereference img (read_u32 mem) block) (\<lambda>base.
     bind_r (SecureDereference img (read_u32 mem) (block + 4)) (\<lambda>len. Inr (base, len)))"

partial_function (option) reloc_blocks ::
    "memory \<Rightarrow> ImageInfo \<Rightarrow> u32 \<Rightarrow> u32 \<Rightarrow> u32 list \<Rightarrow> (run_error + u32 list) option" where
  "reloc_blocks mem img block sec_end targets =
     (if block < sec_end then
        (case reloc_header mem img block of Inl e \<Rightarrow> Some (Inl e)
         | Inr (base, len) \<Rightarrow>
             if base = 0 \<and> len = 0 then Some (Inr targets)
             else (case reloc_items mem img block base len 0 targets of None \<Rightarrow> None
                   | Some (Inl e) \<Rightarrow> Some (Inl e)
                   | Some (Inr targets') \<Rightarrow> reloc_blocks mem img (block + len) sec_end targets'))
      else Some (Inr targets))"

declare reloc_items.simps [code] reloc_blocks.simps [code]

text \<open>The last section called \<^verbatim>\<open>.reloc\<close> counts.\<close>

definition reloc_section :: "(string \<Rightarrow> string \<Rightarrow> bool) \<Rightarrow> SEC list \<Rightarrow> u32 \<times> u32" where
  "reloc_section iequals secs =
     fold (\<lambda>sec acc. if iequals (SEC_Name sec) ''.reloc'' then (SEC_Address sec, SEC_Size sec) else acc) secs (0, 0)"

definition AnalyzeRelocationEntry ::
    "(string \<Rightarrow> string \<Rightarrow> bool) \<Rightarrow> memory \<Rightarrow> IMG \<Rightarrow> ImageInfo \<Rightarrow> (run_error + ImageInfo) option" where
  "AnalyzeRelocationEntry iequals mem pin_img img =
     (case reloc_section iequals (IMG_Secs pin_img) of (start, sz) \<Rightarrow>
        if start \<noteq> 0 \<and> sz \<noteq> 0 then
          (case reloc_blocks mem img start (start + sz) (ii_reloc_targets img) of None \<Rightarrow> None
           | Some (Inl e) \<Rightarrow> Some (Inl e)
           | Some (Inr targets) \<Rightarrow> Some (Inr (img\<lparr>ii_reloc_targets := targets\<rparr>)))
        else Some (Inr img))"

subsection \<open>Constructor\<close>

text \<open>The loop that would create the sections stands behind a \<open>return\<close>.\<close>

definition new_ImageInfo ::
    "(string \<Rightarrow> string \<Rightarrow> bool) \<Rightarrow> memory \<Rightarrow> IMG \<Rightarrow> Image_State
       \<Rightarrow> (run_error + ImageInfo \<times> Image_State \<times> log_calls) option" where
  "new_ImageInfo iequals mem pin_img st =
     (let img = \<lparr>ii_name = IMG_Name pin_img, ii_address = IMG_StartAddress pin_img,
           ii_size = IMG_SizeMapped pin_img, ii_entry = IMG_Entry pin_img,
           ii_main_executable = IMG_IsMainExecutable pin_img,
           ii_static_executable = IMG_IsStaticExecutable pin_img,
           ii_data_dirs = None, ii_reloc_targets = [], ii_sections = []\<rparr>;
         st1 = (if ii_main_executable img
                then st\<lparr>s_main_module_start := ii_address img, s_main_module_size := ii_size img\<rparr> else st);
         log1 = [(''image_name'', ii_name img @ '':'' @ nl)] in
      (case AnalyzeRelocationEntry iequals mem pin_img img of None \<Rightarrow> None
       | Some (Inl e) \<Rightarrow> Some (Inl e)
       | Some (Inr img1) \<Rightarrow>
           Some (Inr (img1, st1,
             log1 @ map (\<lambda>t. (''image_static'', ''reloc item [0x'' @ fmt_08x t @ ''] '' @ ii_name img1 @ nl))
                      (ii_reloc_targets img1)))))"

definition AppendImage ::
    "(string \<Rightarrow> string \<Rightarrow> bool) \<Rightarrow> memory \<Rightarrow> IMG \<Rightarrow> Image_State \<Rightarrow> (run_error + Image_State \<times> log_calls) option" where
  "AppendImage iequals mem pin_img st =
     (case new_ImageInfo iequals mem pin_img st of None \<Rightarrow> None
      | Some (Inl e) \<Rightarrow> Some (Inl e)
      | Some (Inr (img, st1, log)) \<Rightarrow> Some (Inr (st1\<lparr>s_images := s_images st1 @ [img]\<rparr>, log)))"

subsection \<open>Dumps\<close>

text \<open>Byte \<open>i\<close> of the dump: what is logged before it, and the line summary (a \<^verbatim>\<open>char[17]\<close>) after it.\<close>

definition dump_byte :: "nat \<Rightarrow> u8 \<Rightarrow> string \<Rightarrow> string \<times> log_calls" where
  "dump_byte i b summary =
     (let pos = i mod 16;
          line_end = (if pos = 0 then
                        (if i \<noteq> 0 then [(''dump'', '' ---- '' @ c_str summary @ nl)] else [(''dump'', nl)])
                      else []);
          summary1 = (if pos = 0 \<and> i \<noteq> 0 then replicate 17 (CHR 0x00) else summary)
      in (summary1[pos := (if b \<ge> 0x20 \<and> b \<le> 0x7E then char_of (unat b) else CHR '' '')],
          line_end @ [(''dump'', ''  '' @ fmt_02X b)]))"

fun dump_loop :: "memory \<Rightarrow> u32 \<Rightarrow> nat \<Rightarrow> nat \<Rightarrow> string \<Rightarrow> run_error + string \<times> log_calls" where
  "dump_loop mem addr 0 i summary = Inr (summary, [])"
| "dump_loop mem addr (Suc n) i summary =
     bind_r (read_byte mem (addr + word_of_nat i)) (\<lambda>b.
     case dump_byte i b summary of (summary', calls) \<Rightarrow>
     bind_r (dump_loop mem addr n (i + 1) summary') (\<lambda>(s, rest). Inr (s, calls @ rest)))"

definition DumpBinaryAround :: "memory \<Rightarrow> Image_State \<Rightarrow> u32 \<Rightarrow> u32 \<Rightarrow> run_error + log_calls" where
  "DumpBinaryAround mem st addr0 size0 =
     (let addr = addr0 AND 0xFFFFFFF0; sz = (size0 + 0xF) AND 0xFFFFFFF0 in
      if IsAddrMapped st addr \<and> IsAddrMapped st (addr + sz) then
        bind_r (dump_loop mem addr (unat sz) 0 (replicate 17 (CHR 0x00))) (\<lambda>(summary, calls).
        Inr ([(''dump'', ''Dump Binary Around [0x'' @ fmt_08x addr @ '' - 0x'' @ fmt_08x sz @ '']'' @ nl)]
             @ map (\<lambda>i. (''dump'', fmt_4X (word_of_nat i))) [0..<16] @ [(''dump'', nl)]
             @ replicate 16 (''dump'', pad_left 4 CHR '' '' ''__'') @ calls
             @ (if unat sz mod 16 \<noteq> 0 then replicate (16 - unat sz mod 16) (''dump'', ''    '') else [])
             @ [(''dump'', '' ---- '' @ c_str summary @ nl), (''dump'', nl)]))
      else Inr [])"

text \<open>Everything in their bodies is commented out.\<close>

definition DumpDisasmAround :: "u32 \<Rightarrow> log_calls" where "DumpDisasmAround addr = []"
definition DumpDisasmAround_tag :: "string \<Rightarrow> u32 \<Rightarrow> u32 \<Rightarrow> log_calls" where "DumpDisasmAround_tag tag addr sz = []"

subsection \<open>The images of a run\<close>

text \<open>The states \<open>AppendImage\<close> can bring about, image after image.\<close>

inductive image_run :: "(string \<Rightarrow> string \<Rightarrow> bool) \<Rightarrow> Image_State \<Rightarrow> bool" for iequals where
  image_run_start: "image_run iequals initial_Image_State"
| image_run_append: "image_run iequals st \<Longrightarrow> AppendImage iequals mem pin_img st = Some (Inr (st', log)) \<Longrightarrow>
     image_run iequals st'"

lemma AnalyzeRelocationEntry_keeps:
  "AnalyzeRelocationEntry iequals mem pin_img img = Some (Inr img') \<Longrightarrow> \<exists>ts. img' = img\<lparr>ii_reloc_targets := ts\<rparr>"
  by (auto simp: AnalyzeRelocationEntry_def split: prod.splits if_splits option.splits sum.splits
      intro: exI [of _ "ii_reloc_targets img"])

lemma AppendImage_result:
  assumes "AppendImage iequals mem pin_img st = Some (Inr (st', log))"
  shows "\<exists>img. s_images st' = s_images st @ [img] \<and> ii_sections img = [] \<and>
    ii_address img = IMG_StartAddress pin_img \<and> ii_size img = IMG_SizeMapped pin_img \<and> ii_name img = IMG_Name pin_img \<and>
    (s_main_module_start st', s_main_module_size st') =
      (if IMG_IsMainExecutable pin_img then (IMG_StartAddress pin_img, IMG_SizeMapped pin_img)
       else (s_main_module_start st, s_main_module_size st))"
  using assms
  by (auto simp: AppendImage_def new_ImageInfo_def Let_def split: option.splits sum.splits if_splits
      dest!: AnalyzeRelocationEntry_keeps)

lemma rtn_name_loop_Nil: "\<forall>img\<in>set imgs. ii_sections img = [] \<Longrightarrow> rtn_name_loop imgs a = []"
  by (induction imgs) (auto simp: GetRtnName_Imp_def)

lemma image_run_no_sections: "image_run iequals st \<Longrightarrow> \<forall>img\<in>set (s_images st). ii_sections img = []"
proof (induction rule: image_run.induct)
  case (image_run_append st mem pin_img st' log)
  then show ?case using AppendImage_result by fastforce
qed (simp add: initial_Image_State_def)

lemma image_run_no_code:
  assumes "image_run iequals st"
  shows "\<not> image_IsAddrCode st addr" and "\<not> verifyControlFlowTarget st addr"
  using image_run_no_sections [OF assms]
  by (auto simp: image_IsAddrCode_def IsAddrCode_Imp_def verifyControlFlowTarget_def verifyControlFlowTraget_Imp_def)

text \<open>C38. In every state of a run no image has a section: no address counts as code, no branch target is ever accepted, no
  address has a routine name, and a location hint is the file name of the image and nothing more.\<close>

theorem images_have_no_code:
  assumes "image_run iequals st"
  shows "\<not> image_IsAddrCode st addr \<and> \<not> verifyControlFlowTarget st addr \<and> GetRtnName st a = [] \<and>
    (\<forall>img\<in>set (s_images st). GetAddrLocationHint_Imp img addr = base_name (ii_name img))"
proof -
  have "\<forall>img\<in>set (s_images st). ii_sections img = []" using assms by (rule image_run_no_sections)
  moreover from this have "rtn_name_loop (s_images st) x = []" for x by (rule rtn_name_loop_Nil)
  ultimately show ?thesis
    using image_run_no_code [OF assms] by (auto simp: GetRtnName_def GetAddrLocationHint_Imp_def)
qed

lemma image_run_one:
  "\<exists>st. image_run (=) st \<and> s_images st \<noteq> []"
proof -
  let ?img = "\<lparr>IMG_Name = ''d/a.exe'', IMG_StartAddress = 0x1000, IMG_SizeMapped = 0x40, IMG_Entry = 0x1000,
     IMG_IsMainExecutable = True, IMG_IsStaticExecutable = False, IMG_Secs = []\<rparr>"
  have "\<exists>st log. AppendImage (=) [] ?img initial_Image_State = Some (Inr (st, log))"
    by (simp add: AppendImage_def new_ImageInfo_def AnalyzeRelocationEntry_def reloc_section_def Let_def)
  then obtain st log where a: "AppendImage (=) [] ?img initial_Image_State = Some (Inr (st, log))" by blast
  from AppendImage_result [OF this] have "s_images st \<noteq> []" by auto
  with image_run_append [OF image_run_start a] show ?thesis by blast
qed

theorem images_have_no_code_witness:
  "\<exists>st. s_images st \<noteq> [] \<and> \<not> verifyControlFlowTarget st 0x1000"
  using image_run_one images_have_no_code by blast

text \<open>Once a main executable that does not wrap around the address space is loaded, \<open>IsAddrWithinMainModule\<close> is exactly its
  address range, and stays it whatever other images are loaded; before that it accepts every address.\<close>

lemma main_module_range:
  assumes main: "AppendImage iequals mem pin_img st = Some (Inr (st1, log))" "IMG_IsMainExecutable pin_img"
    and other: "AppendImage iequals mem' pin_img' st1 = Some (Inr (st2, log'))" "\<not> IMG_IsMainExecutable pin_img'"
    and range: "0 < IMG_StartAddress pin_img" "0 < IMG_SizeMapped pin_img"
      "unat (IMG_StartAddress pin_img) + unat (IMG_SizeMapped pin_img) < 2 ^ 32"
  shows "\<forall>addr. (IsAddrWithinMainModule st1 addr \<longleftrightarrow>
      unat addr \<in> {unat (IMG_StartAddress pin_img) ..< unat (IMG_StartAddress pin_img) + unat (IMG_SizeMapped pin_img)}) \<and>
    IsAddrWithinMainModule st2 addr = IsAddrWithinMainModule st1 addr \<and>
    IsAddrWithinMainModule initial_Image_State addr"
proof -
  have "unat (IMG_StartAddress pin_img + IMG_SizeMapped pin_img) =
      unat (IMG_StartAddress pin_img) + unat (IMG_SizeMapped pin_img)"
    using range(3) by (simp add: unat_word_ariths)
  moreover from AppendImage_result [OF main(1)] main(2)
  have "s_main_module_start st1 = IMG_StartAddress pin_img" "s_main_module_size st1 = IMG_SizeMapped pin_img" by auto
  moreover from AppendImage_result [OF other(1)] other(2)
  have "s_main_module_start st2 = s_main_module_start st1" "s_main_module_size st2 = s_main_module_size st1" by auto
  ultimately show ?thesis
    using range(1,2)
    by (auto simp: IsAddrWithinMainModule_def word_le_nat_alt word_less_nat_alt initial_Image_State_def)
qed

subsection \<open>Routines of a section\<close>

definition in_routine :: "RTN \<Rightarrow> u32 \<Rightarrow> bool" where
  "in_routine r a \<longleftrightarrow> unat a \<in> {unat (RTN_Address r) ..< unat (RTN_Address r) + unat (RTN_Size r)}"

lemma set_fold_add_routine:
  assumes "distinct (map RTN_Address rs)"
  shows "set (fold add_routine rs []) = (\<lambda>r. (RTN_Address r, RTN_Name r, RTN_Address r + RTN_Size r)) ` set rs"
proof -
  define kvs where "kvs = map (\<lambda>r. (RTN_Address r, RTN_Name r, RTN_Address r + RTN_Size r)) rs"
  have fold: "fold add_routine rs [] = fold (\<lambda>(k, v). map_put k v) kvs []"
    by (simp add: kvs_def fold_map comp_def add_routine_def [abs_def])
  have dist: "distinct (map fst kvs)" using assms by (simp add: kvs_def comp_def)
  have "(k, v) \<in> set (fold add_routine rs []) \<longleftrightarrow> (k, v) \<in> set kvs" for k v
    using map_inv_lookup [OF sorted_map.puts_valid [of "[]" kvs]] sorted_map.find_puts_distinct [OF dist, of "[]"] dist
    by (simp add: fold)
  then have "set (fold add_routine rs []) = set kvs" by (auto simp: set_eq_iff)
  then show ?thesis by (simp add: kvs_def)
qed

lemma within_rtn_found:
  assumes "(s, n, e) \<in> set m" and "s \<le> a" "a < e"
    and "\<And>s' n' e'. (s', n', e') \<in> set m \<Longrightarrow> s' \<le> a \<Longrightarrow> a < e' \<Longrightarrow> (s', n', e') = (s, n, e)"
  shows "within_rtn m a = n @ (if a = s then [] else ''_0x'' @ fmt_08x (a - s))"
  using assms
proof (induction m a rule: within_rtn.induct)
  case (2 s0 n0 e0 m a)
  show ?case
  proof (cases "s0 \<le> a \<and> a < e0")
    case True
    then have "(s0, n0, e0) = (s, n, e)" using 2(5) by (metis list.set_intros(1))
    with True show ?thesis by auto
  next
    case False
    then have "(s, n, e) \<in> set m" using 2(2-4) by auto
    have "within_rtn m a = n @ (if a = s then [] else ''_0x'' @ fmt_08x (a - s))"
    proof (rule 2(1) [OF False \<open>(s, n, e) \<in> set m\<close> 2(3,4)])
      show "(s', n', e') = (s, n, e)" if "(s', n', e') \<in> set m" "s' \<le> a" "a < e'" for s' n' e'
        using 2(5) [OF _ that(2,3), of n'] that(1) by simp
    qed
    moreover have "within_rtn ((s0, n0, e0) # m) a = within_rtn m a" using False by auto
    ultimately show ?thesis by metis
  qed
qed simp

lemma within_rtn_none:
  "(\<And>s n e. (s, n, e) \<in> set m \<Longrightarrow> \<not> (s \<le> a \<and> a < e)) \<Longrightarrow> within_rtn m a = []"
proof (induction m a rule: within_rtn.induct)
  case (2 s0 n0 e0 m a)
  have "\<not> (s0 \<le> a \<and> a < e0)" using 2(2) by (metis list.set_intros(1))
  with 2 show ?case by auto
qed simp

text \<open>C37. A text section whose routines do not overlap names the routine an address lies in, with the offset when it is
  not the start, and names none for an address outside of all of them; \<open>HasRtn\<close> holds exactly at the starts.\<close>

theorem WithinRtn_names_the_routine:
  assumes sec: "new_ImageSection iequals sec = (s, log)" "iequals (SEC_Name sec) ''.text''"
    and fits: "\<And>r. r \<in> set (SEC_Rtns sec) \<Longrightarrow> unat (RTN_Address r) + unat (RTN_Size r) < 2 ^ 32"
    and starts: "distinct (map RTN_Address (SEC_Rtns sec))"
    and apart: "\<And>r r' a. r \<in> set (SEC_Rtns sec) \<Longrightarrow> r' \<in> set (SEC_Rtns sec) \<Longrightarrow> in_routine r a \<Longrightarrow> in_routine r' a \<Longrightarrow> r = r'"
  shows "(\<forall>r\<in>set (SEC_Rtns sec). in_routine r a \<longrightarrow> section_WithinRtn s a =
       RTN_Name r @ (if a = RTN_Address r then [] else ''_0x'' @ fmt_08x (a - RTN_Address r))) \<and>
     ((\<forall>r\<in>set (SEC_Rtns sec). \<not> in_routine r a) \<longrightarrow> section_WithinRtn s a = []) \<and>
     (section_HasRtn s a \<longleftrightarrow> a \<in> RTN_Address ` set (SEC_Rtns sec))"
proof -
  let ?f = "\<lambda>r. (RTN_Address r, RTN_Name r, RTN_Address r + RTN_Size r)"
  have rtns: "is_addr_rtns s = fold add_routine (SEC_Rtns sec) []"
    using sec by (auto simp: new_ImageSection_def Let_def)
  then have set: "set (is_addr_rtns s) = ?f ` set (SEC_Rtns sec)"
    using set_fold_add_routine [OF starts] by simp
  have iff: "RTN_Address r \<le> a \<and> a < RTN_Address r + RTN_Size r \<longleftrightarrow> in_routine r a" if "r \<in> set (SEC_Rtns sec)" for r
    using fits [OF that] by (auto simp: in_routine_def word_le_nat_alt word_less_nat_alt unat_word_ariths)
  have "section_WithinRtn s a =
       RTN_Name r @ (if a = RTN_Address r then [] else ''_0x'' @ fmt_08x (a - RTN_Address r))"
    if r: "r \<in> set (SEC_Rtns sec)" "in_routine r a" for r
    unfolding section_WithinRtn_def
  proof (rule within_rtn_found)
    show "(RTN_Address r, RTN_Name r, RTN_Address r + RTN_Size r) \<in> set (is_addr_rtns s)" using set r by auto
    show "(s', n', e') = (RTN_Address r, RTN_Name r, RTN_Address r + RTN_Size r)"
      if "(s', n', e') \<in> set (is_addr_rtns s)" "s' \<le> a" "a < e'" for s' n' e'
    proof -
      from that(1) set obtain r' where r': "r' \<in> set (SEC_Rtns sec)" "(s', n', e') = ?f r'" by auto
      with that(2,3) iff [OF r'(1)] have "in_routine r' a" by simp
      with apart [OF r(1) r'(1) r(2)] r'(2) show ?thesis by simp
    qed
  qed (use iff [OF r(1)] r(2) in auto)
  moreover have "section_WithinRtn s a = []" if "\<forall>r\<in>set (SEC_Rtns sec). \<not> in_routine r a"
    unfolding section_WithinRtn_def by (rule within_rtn_none) (use set iff that in auto)
  moreover have "section_HasRtn s a \<longleftrightarrow> a \<in> RTN_Address ` set (SEC_Rtns sec)"
    using set by (auto simp: section_HasRtn_def map_of_eq_None_iff image_iff)
  ultimately show ?thesis by blast
qed

theorem WithinRtn_names_the_routine_witness:
  "section_WithinRtn (fst (new_ImageSection (=) \<lparr>SEC_Name = ''.text'', SEC_Address = 0x1000, SEC_Size = 0x100,
     SEC_IsReadable = True, SEC_IsWriteable = False, SEC_IsExecutable = True, SEC_Type = SEC_TYPE_EXEC,
     SEC_Rtns = [\<lparr>RTN_Name = ''g'', RTN_Address = 0x1040, RTN_Size = 0x10, RTN_NumIns = 4\<rparr>,
                 \<lparr>RTN_Name = ''f'', RTN_Address = 0x1000, RTN_Size = 0x20, RTN_NumIns = 8\<rparr>]\<rparr>)) 0x1044 = ''g_0x00000004''"
proof -
  let ?g = "\<lparr>RTN_Name = ''g'', RTN_Address = 0x1040, RTN_Size = 0x10, RTN_NumIns = 4\<rparr>"
  let ?f = "\<lparr>RTN_Name = ''f'', RTN_Address = 0x1000, RTN_Size = 0x20, RTN_NumIns = 8\<rparr>"
  let ?sec = "\<lparr>SEC_Name = ''.text'', SEC_Address = 0x1000, SEC_Size = 0x100,
     SEC_IsReadable = True, SEC_IsWriteable = False, SEC_IsExecutable = True, SEC_Type = SEC_TYPE_EXEC, SEC_Rtns = [?g, ?f]\<rparr>"
  obtain s log where new: "new_ImageSection (=) ?sec = (s, log)" by fastforce
  have "(\<forall>r\<in>set (SEC_Rtns ?sec). in_routine r 0x1044 \<longrightarrow> section_WithinRtn s 0x1044 =
       RTN_Name r @ (if 0x1044 = RTN_Address r then [] else ''_0x'' @ fmt_08x (0x1044 - RTN_Address r))) \<and>
     ((\<forall>r\<in>set (SEC_Rtns ?sec). \<not> in_routine r 0x1044) \<longrightarrow> section_WithinRtn s 0x1044 = []) \<and>
     (section_HasRtn s 0x1044 \<longleftrightarrow> 0x1044 \<in> RTN_Address ` set (SEC_Rtns ?sec))"
    by (rule WithinRtn_names_the_routine [OF new]) (auto simp: in_routine_def)
  then have "section_WithinRtn s 0x1044 = ''g_0x'' @ fmt_08x 4" by (simp add: in_routine_def)
  moreover have "fmt_08x 4 = ''00000004''" by code_simp
  ultimately show ?thesis using new by simp
qed

subsection \<open>Dumps against a reference\<close>

text \<open>The same text, a row of 16 bytes at a time.\<close>

definition printable :: "u8 \<Rightarrow> char" where
  "printable b = (if b \<ge> 0x20 \<and> b \<le> 0x7E then char_of (unat b) else CHR '' '')"

definition dump_row :: "u8 list \<Rightarrow> log_calls" where
  "dump_row bs = map (\<lambda>b. (''dump'', ''  '' @ fmt_02X b)) bs @ [(''dump'', '' ---- '' @ map printable bs @ nl)]"

definition dump_header :: "u32 \<Rightarrow> u32 \<Rightarrow> log_calls" where
  "dump_header addr sz =
     [(''dump'', ''Dump Binary Around [0x'' @ fmt_08x addr @ '' - 0x'' @ fmt_08x sz @ '']'' @ nl)]
     @ map (\<lambda>i. (''dump'', fmt_4X (word_of_nat i))) [0..<16] @ [(''dump'', nl)]
     @ replicate 16 (''dump'', pad_left 4 CHR '' '' ''__'')"

fun dump_bytes :: "nat \<Rightarrow> u8 list \<Rightarrow> string \<Rightarrow> string \<times> log_calls" where
  "dump_bytes i [] summary = (summary, [])"
| "dump_bytes i (b # bs) summary =
     (let (s1, c1) = dump_byte i b summary; (s2, c2) = dump_bytes (i + 1) bs s1 in (s2, c1 @ c2))"

lemma dump_loop_bytes:
  assumes "\<And>j. j < length bs \<Longrightarrow> read_byte mem (addr + word_of_nat (i + j)) = Inr (bs ! j)"
  shows "dump_loop mem addr (length bs) i s = Inr (dump_bytes i bs s)"
  using assms
proof (induction bs arbitrary: i s)
  case (Cons b bs)
  have "read_byte mem (addr + word_of_nat i) = Inr b" using Cons.prems [of 0] by simp
  moreover have "dump_loop mem addr (length bs) (i + 1) s' = Inr (dump_bytes (i + 1) bs s')" for s'
    by (rule Cons.IH) (use Cons.prems [of "Suc _"] in simp)
  ultimately show ?case by (simp split: prod.split)
qed simp

lemma dump_loop_error:
  assumes "j < n" and "read_byte mem (addr + word_of_nat (i + j)) = Inl e"
  shows "dump_loop mem addr n i s = Inl Access_Violation"
  using assms
proof (induction n arbitrary: i j s)
  case (Suc n)
  show ?case
  proof (cases "read_byte mem (addr + word_of_nat i)")
    case (Inl e')
    then show ?thesis by (simp add: read_byte_def split: list.splits)
  next
    case (Inr b)
    with Suc.prems obtain k where "j = Suc k" "k < n" by (cases j) auto
    with Suc.prems(2) have "dump_loop mem addr n (i + 1) s' = Inl Access_Violation" for s'
      by (intro Suc.IH [of k]) simp_all
    with Inr show ?thesis by (simp split: prod.split)
  qed
qed simp

lemma dump_bytes_append:
  "dump_bytes i (xs @ ys) s =
     (let (s1, c1) = dump_bytes i xs s; (s2, c2) = dump_bytes (i + length xs) ys s1 in (s2, c1 @ c2))"
  by (induction xs arbitrary: i s) (auto simp: Let_def split: prod.splits)

lemma dump_byte_inside:
  assumes "i mod 16 = p" and "0 < p"
  shows "dump_byte i b s = (s[p := printable b], [(''dump'', ''  '' @ fmt_02X b)])"
  using assms by (simp add: dump_byte_def printable_def Let_def)

lemma dump_bytes_inside:
  assumes "0 < p" and "p + length bs \<le> 16" and "i mod 16 = p" and "length s = 17"
  shows "dump_bytes i bs s =
    (take p s @ map printable bs @ drop (p + length bs) s, map (\<lambda>b. (''dump'', ''  '' @ fmt_02X b)) bs)"
  using assms
proof (induction bs arbitrary: i p s)
  case (Cons b bs)
  show ?case
  proof (cases bs)
    case Nil
    with Cons.prems show ?thesis
      by (simp add: dump_byte_inside upd_conv_take_nth_drop)
  next
    case (Cons b' bs')
    have "(i + 1) mod 16 = p + 1" using Cons.prems(2,3) Cons by (simp add: mod_Suc)
    then have "dump_bytes (i + 1) bs (s[p := printable b]) =
       (take (p + 1) (s[p := printable b]) @ map printable bs @ drop (p + 1 + length bs) (s[p := printable b]),
        map (\<lambda>b. (''dump'', ''  '' @ fmt_02X b)) bs)"
      using Cons.prems by (intro Cons.IH) simp_all
    with Cons.prems show ?thesis
      by (simp add: dump_byte_inside take_Suc_conv_app_nth take_update_cancel drop_update_cancel)
  qed
qed simp

lemma dump_bytes_row:
  assumes "length bs = 16" and "i mod 16 = 0" and "length s = 17"
    and "i = 0 \<Longrightarrow> s = replicate 17 (CHR 0x00)"
  shows "dump_bytes i bs s = (map printable bs @ [CHR 0x00],
    (if i = 0 then [(''dump'', nl)] else [(''dump'', '' ---- '' @ c_str s @ nl)])
      @ map (\<lambda>b. (''dump'', ''  '' @ fmt_02X b)) bs)"
proof -
  obtain b bs' where bs: "bs = b # bs'" and len: "length bs' = 15" using assms(1) by (cases bs) auto
  let ?s = "printable b # replicate 16 (CHR 0x00)"
  have r: "replicate 17 (CHR 0x00) = CHR 0x00 # replicate 16 (CHR 0x00)" by (simp flip: replicate_Suc)
  have "dump_byte i b s = (?s, (if i = 0 then [(''dump'', nl)] else [(''dump'', '' ---- '' @ c_str s @ nl)])
      @ [(''dump'', ''  '' @ fmt_02X b)])"
    using assms(2,4) r by (cases "i = 0") (simp_all add: dump_byte_def printable_def Let_def)
  moreover have "dump_bytes (i + 1) bs' ?s = (take 1 ?s @ map printable bs' @ drop (1 + length bs') ?s,
      map (\<lambda>b. (''dump'', ''  '' @ fmt_02X b)) bs')"
    using assms(2) len by (intro dump_bytes_inside) (simp_all add: mod_Suc)
  ultimately show ?thesis using bs len by simp
qed

lemma c_str_printable: "c_str (map printable bs @ [CHR 0x00]) = map printable bs"
proof -
  have "(of_char (printable b) :: nat) \<noteq> 0" for b
    using u8_bound [of b] by (simp add: printable_def word_le_nat_alt)
  moreover have "(of_char (CHR 0x00) :: nat) = 0" by simp
  ultimately have "printable b \<noteq> CHR 0x00" for b by metis
  then show ?thesis by (induction bs) (auto simp: c_str_def)
qed

primrec dump_rows :: "nat \<Rightarrow> u8 list \<Rightarrow> log_calls" where
  "dump_rows 0 bs = []"
| "dump_rows (Suc n) bs = dump_row (take 16 bs) @ dump_rows n (drop 16 bs)"

lemma dump_bytes_rows:
  assumes "length bs = 16 * Suc n" and "i mod 16 = 0" and "length s = 17" and "i = 0 \<Longrightarrow> s = replicate 17 (CHR 0x00)"
  shows "snd (dump_bytes i bs s) @ [(''dump'', '' ---- '' @ c_str (fst (dump_bytes i bs s)) @ nl)] =
    (if i = 0 then [(''dump'', nl)] else [(''dump'', '' ---- '' @ c_str s @ nl)]) @ dump_rows (Suc n) bs"
  using assms
proof (induction n arbitrary: i bs s)
  case 0
  then show ?case by (simp add: dump_bytes_row dump_row_def c_str_printable)
next
  case (Suc n)
  let ?x = "take 16 bs" let ?y = "drop 16 bs" let ?s = "map printable ?x @ [CHR 0x00]"
  have x: "length ?x = 16" and y: "length ?y = 16 * Suc n" using Suc.prems(1) by simp_all
  have row: "dump_bytes i ?x s = (?s,
    (if i = 0 then [(''dump'', nl)] else [(''dump'', '' ---- '' @ c_str s @ nl)])
      @ map (\<lambda>b. (''dump'', ''  '' @ fmt_02X b)) ?x)"
    by (rule dump_bytes_row [OF x Suc.prems(2,3)]) (rule Suc.prems(4))
  have "dump_bytes i (?x @ ?y) s = (fst (dump_bytes (i + 16) ?y ?s),
      ((if i = 0 then [(''dump'', nl)] else [(''dump'', '' ---- '' @ c_str s @ nl)])
        @ map (\<lambda>b. (''dump'', ''  '' @ fmt_02X b)) ?x) @ snd (dump_bytes (i + 16) ?y ?s))"
    unfolding dump_bytes_append row x by (simp add: Let_def split: prod.split)
  moreover have "snd (dump_bytes (i + 16) ?y ?s) @ [(''dump'', '' ---- '' @ c_str (fst (dump_bytes (i + 16) ?y ?s)) @ nl)] =
      [(''dump'', '' ---- '' @ c_str ?s @ nl)] @ dump_rows (Suc n) ?y"
    using Suc.IH [OF y, of "i + 16" ?s] Suc.prems(2) x by simp
  ultimately show ?case
    by (simp only: append_take_drop_id fst_conv snd_conv append_assoc dump_rows.simps(2) [of "Suc n"] dump_row_def
        c_str_printable)
qed

text \<open>C28. \<open>DumpBinaryAround\<close> prints a header and then, row by row, the bytes from the 16-byte boundary at or below the address
  on, in hexadecimal and as text; when a byte of the range is not mapped it reads it all the same and is stopped by an
  access violation, because \<open>IsAddrMapped\<close> accepts every address.\<close>

theorem dump_prints_memory:
  assumes "addr = addr0 AND 0xFFFFFFF0" and "sz = (sz0 + 0xF) AND 0xFFFFFFF0" and n: "unat sz = 16 * Suc n"
  shows "(length bs = unat sz \<and> (\<forall>i<unat sz. read_byte mem (addr + word_of_nat i) = Inr (bs ! i)) \<longrightarrow>
      DumpBinaryAround mem st addr0 sz0 =
        Inr (dump_header addr sz @ [(''dump'', nl)] @ dump_rows (Suc n) bs @ [(''dump'', nl)])) \<and>
    ((\<exists>i<unat sz. bytes_at mem (addr + word_of_nat i) = []) \<longrightarrow>
      DumpBinaryAround mem st addr0 sz0 = Inl Access_Violation)"
proof -
  have mapped: "IsAddrMapped st a" for a by (simp add: IsAddrMapped_def)
  let ?z = "replicate 17 (CHR 0x00)"
  have whole: "unat sz mod 16 = 0" using n by simp
  have run: "DumpBinaryAround mem st addr0 sz0 =
      bind_r (dump_loop mem addr (unat sz) 0 ?z) (\<lambda>(summary, calls). Inr (dump_header addr sz @ calls
        @ [(''dump'', '' ---- '' @ c_str summary @ nl), (''dump'', nl)]))"
    unfolding DumpBinaryAround_def assms(1,2) [symmetric] Let_def dump_header_def
    using whole by (simp add: mapped del: upt_Suc)
  have "DumpBinaryAround mem st addr0 sz0 =
        Inr (dump_header addr sz @ [(''dump'', nl)] @ dump_rows (Suc n) bs @ [(''dump'', nl)])"
    if bs: "length bs = unat sz" "\<forall>i<unat sz. read_byte mem (addr + word_of_nat i) = Inr (bs ! i)"
  proof -
    have "dump_loop mem addr (length bs) 0 ?z = Inr (dump_bytes 0 bs ?z)"
      by (rule dump_loop_bytes) (use bs in simp)
    moreover have "snd (dump_bytes 0 bs ?z) @ [(''dump'', '' ---- '' @ c_str (fst (dump_bytes 0 bs ?z)) @ nl)] @ [(''dump'', nl)] =
        [(''dump'', nl)] @ dump_rows (Suc n) bs @ [(''dump'', nl)]"
      using dump_bytes_rows [of bs n 0 ?z] bs(1) n by (simp del: dump_rows.simps flip: append_assoc)
    ultimately show ?thesis unfolding run bs(1)
      by (cases "dump_bytes 0 bs ?z") (simp only: bind_r_Inr prod.case fst_conv snd_conv append_assoc append_Cons append_Nil)
  qed
  moreover have "DumpBinaryAround mem st addr0 sz0 = Inl Access_Violation"
    if i: "i < unat sz" "bytes_at mem (addr + word_of_nat i) = []" for i
    unfolding run using dump_loop_error [of i "unat sz" mem addr 0] i by (simp add: read_byte_def)
  ultimately show ?thesis by blast
qed

theorem dump_prints_memory_witness:
  "DumpBinaryAround [(0x1000, replicate 16 0x41)] initial_Image_State 0x1004 3 =
     Inr (dump_header 0x1000 16 @ [(''dump'', nl)] @ dump_rows 1 (replicate 16 0x41) @ [(''dump'', nl)])"
proof -
  have "\<forall>i<unat (16::u32). read_byte [(0x1000, replicate 16 0x41)] (0x1000 + word_of_nat i) = Inr (replicate 16 0x41 ! i)"
    by code_simp
  moreover have "unat (16::u32) = 16 * Suc 0" by simp
  ultimately show ?thesis
    using dump_prints_memory [of "0x1000" "0x1004" 16 3 0 "replicate 16 0x41" "[(0x1000, replicate 16 0x41)]" initial_Image_State]
    by simp
qed

end
