(* ===== verification/Frames.thy ===== *)
theory Frames
  imports Image "HOL-Library.Sublist"
begin

text \<open>
  \<^verbatim>\<open>replay/Frame.h\<close>, \<^verbatim>\<open>Frame.cpp\<close> and \<^verbatim>\<open>REProgramInfo::Process_Instrument_BBL\<close>, which decides whether the context
  at a block's entry becomes a frame. A routine returns its \<^verbatim>\<open>LOF\<close> calls in order, as pairs of the file and the
  formatted text.
\<close>

subsection \<open>Frames\<close>

record RE_CONTEXT =
  m_eip :: u32
  m_esp :: u32
  m_ebp :: u32
  m_eax :: u32
  m_ebx :: u32
  m_ecx :: u32
  m_edx :: u32
  m_esi :: u32
  m_edi :: u32

definition RE_STACK_SLOTS_NUM :: nat where "RE_STACK_SLOTS_NUM = 8"

record Frame =
  m_context :: RE_CONTEXT
  m_slots :: "u32 list"
  f_id :: u32
  f_bid :: u32

definition zero_RE_CONTEXT :: RE_CONTEXT where
  "zero_RE_CONTEXT = \<lparr>m_eip = 0, m_esp = 0, m_ebp = 0, m_eax = 0, m_ebx = 0, m_ecx = 0, m_edx = 0,
     m_esi = 0, m_edi = 0\<rparr>"

text \<open>The static members of the class.\<close>

record Frame_Ids =
  fs_last_id :: u32
  fs_last_serialized_id :: u32

definition initial_Frame_Ids :: Frame_Ids where
  "initial_Frame_Ids = \<lparr>fs_last_id = 0, fs_last_serialized_id = 0\<rparr>"

definition new_Frame :: "u32 \<Rightarrow> Frame_Ids \<Rightarrow> Frame \<times> Frame_Ids" where
  "new_Frame bid ids =
     (let ids1 = ids\<lparr>fs_last_id := fs_last_id ids + 1\<rparr> in
      (\<lparr>m_context = zero_RE_CONTEXT, m_slots = replicate RE_STACK_SLOTS_NUM 0, f_id = fs_last_id ids1, f_bid = bid\<rparr>, ids1))"

definition hex_field :: "u32 \<Rightarrow> string" where "hex_field w = ''0x'' @ fmt_08x w"

text \<open>The fields of a line; the last eight are the stack.\<close>

definition frame_fields :: "u32 \<Rightarrow> Frame \<Rightarrow> string list" where
  "frame_fields serialized f =
     [fmt_d serialized, fmt_d (f_id f), fmt_d (f_bid f),
      hex_field (m_eip (m_context f)), hex_field (m_esp (m_context f)), hex_field (m_ebp (m_context f)),
      hex_field (m_eax (m_context f)), hex_field (m_ebx (m_context f)), hex_field (m_ecx (m_context f)),
      hex_field (m_edx (m_context f)), hex_field (m_esi (m_context f)), hex_field (m_edi (m_context f)),
      hex_field (m_slots f ! 0), hex_field (m_slots f ! 1), hex_field (m_slots f ! 2), hex_field (m_slots f ! 3),
      hex_field (m_slots f ! 4), hex_field (m_slots f ! 5), hex_field (m_slots f ! 6), hex_field (m_slots f ! 7)]"

fun join_commas :: "string list \<Rightarrow> string" where
  "join_commas [] = []"
| "join_commas [x] = x"
| "join_commas (x # xs) = x @ '','' @ join_commas xs"

definition Frame_Serialize :: "Frame \<Rightarrow> Frame_Ids \<Rightarrow> Frame_Ids \<times> (string \<times> string) list" where
  "Frame_Serialize f ids =
     (let ids1 = ids\<lparr>fs_last_serialized_id := fs_last_serialized_id ids + 1\<rparr> in
      (ids1, [(''frames.csv'', join_commas (frame_fields (fs_last_serialized_id ids1) f) @ nl)]))"

subsection \<open>A line of \<open>frames.csv\<close> determines its frame\<close>

text \<open>Reading a line: the fields between the commas.\<close>

fun split_on :: "char \<Rightarrow> string \<Rightarrow> string \<Rightarrow> string list" where
  "split_on d acc [] = [rev acc]"
| "split_on d acc (c # s) = (if c = d then rev acc # split_on d [] s else split_on d (c # acc) s)"

lemma split_on_plain: "d \<notin> set x \<Longrightarrow> split_on d acc (x @ s) = split_on d (rev x @ acc) s"
  by (induction x arbitrary: acc) auto

lemma split_join_commas:
  "xs \<noteq> [] \<Longrightarrow> (\<And>x. x \<in> set xs \<Longrightarrow> CHR '','' \<notin> set x) \<Longrightarrow> split_on CHR '','' [] (join_commas xs) = xs"
proof (induction xs rule: join_commas.induct)
  case (2 x)
  then show ?case using split_on_plain [of "CHR '',''" x "[]" "[]"] by simp
next
  case (3 x y xs)
  then show ?case using split_on_plain [of "CHR '',''" x "[]" "'','' @ join_commas (y # xs)"] by simp
qed simp

lemma split_lines:
  "(\<And>l. l \<in> set ls \<Longrightarrow> CHR 0x0A \<notin> set l) \<Longrightarrow>
   split_on (CHR 0x0A) [] (concat (map (\<lambda>l. l @ nl) ls)) = ls @ [[]]"
proof (induction ls)
  case (Cons l ls)
  then show ?case using split_on_plain [of "CHR 0x0A" l "[]"] by (simp add: nl_def)
qed simp

definition read_d :: "string \<Rightarrow> u32" where
  "read_d s = (if hd s = CHR ''-'' then - word_of_nat (read_base 10 (tl s)) else word_of_nat (read_base 10 s))"

definition read_hex :: "string \<Rightarrow> u32" where
  "read_hex s = word_of_nat (read_base 16 (drop 2 s))"

lemma read_hex_field [simp]: "read_hex (hex_field w) = w"
  by (simp add: read_hex_def hex_field_def)

lemma read_fmt_d [simp]: "read_d (fmt_d w) = w"
proof (cases "sint w < 0")
  case True
  then have "read_d (fmt_d w) = - word_of_nat (nat (- sint w))" by (simp add: read_d_def fmt_d_def dec_read)
  also have "\<dots> = word_of_int (sint w)" using True by (simp add: of_nat_nat)
  finally show ?thesis by simp
next
  case False
  have "hd (base_str digit 10 n) \<noteq> CHR ''-''" for n
    using dec_no_minus [of "tl (base_str digit 10 n)" n] by (metis base_str_not_Nil list.collapse)
  then have "read_d (fmt_d w) = word_of_nat (nat (sint w))"
    using False by (simp add: read_d_def fmt_d_def dec_read)
  also have "\<dots> = word_of_int (sint w)" using False by (simp add: of_nat_nat)
  finally show ?thesis by simp
qed

text \<open>A line without its newline.\<close>

definition parse_frame :: "string \<Rightarrow> u32 \<times> Frame" where
  "parse_frame line =
     (let fs = split_on CHR '','' [] line; h = (\<lambda>i. read_hex (fs ! i)) in
      (read_d (fs ! 0),
       \<lparr>m_context = \<lparr>m_eip = h 3, m_esp = h 4, m_ebp = h 5, m_eax = h 6, m_ebx = h 7, m_ecx = h 8, m_edx = h 9,
          m_esi = h 10, m_edi = h 11\<rparr>,
        m_slots = map (\<lambda>i. h (12 + i)) [0..<8], f_id = read_d (fs ! 1), f_bid = read_d (fs ! 2)\<rparr>))"

definition parse_frames :: "string \<Rightarrow> (u32 \<times> Frame) list" where
  "parse_frames s = map parse_frame (butlast (split_on (CHR 0x0A) [] s))"

lemma parse_frame_fields:
  assumes "length (m_slots f) = 8"
  shows "parse_frame (join_commas (frame_fields n f)) = (n, f)"
proof -
  let ?fs = "frame_fields n f"
  have "CHR '','' \<notin> set x" if "x \<in> set ?fs" for x using that by (auto simp: frame_fields_def hex_field_def)
  moreover have "?fs \<noteq> []" by (simp add: frame_fields_def)
  ultimately have split: "split_on CHR '','' [] (join_commas ?fs) = ?fs"
    using split_join_commas [of ?fs] by simp
  have "map (\<lambda>i. read_hex (?fs ! (12 + i))) [0..<8] = m_slots f"
    using assms by (intro nth_equalityI) (auto simp: frame_fields_def less_Suc_eq numeral_eq_Suc)
  then show ?thesis
    unfolding parse_frame_def split Let_def by (simp add: frame_fields_def del: upt_Suc)
qed

lemma newline_not_in_08x [simp]: "CHR 0x0A \<notin> set (fmt_08x w)"
  using fmt_08x_chars [of "CHR 0x0A" w] by (auto simp: hex_char_def)

lemma newline_not_in_d [simp]: "CHR 0x0A \<notin> set (fmt_d w)"
  using dec_chars [of "CHR 0x0A"] by (auto simp: fmt_d_def split: if_splits)

lemma set_join_commas: "set (join_commas xs) \<subseteq> insert CHR '','' (\<Union> (set ` set xs))"
  by (induction xs rule: join_commas.induct) auto

lemma newline_not_in_line: "CHR 0x0A \<notin> set (join_commas (frame_fields n f))"
proof -
  have "CHR 0x0A \<notin> set x" if "x \<in> set (frame_fields n f)" for x
    using that by (auto simp: frame_fields_def hex_field_def)
  then show ?thesis using set_join_commas [of "frame_fields n f"] by auto
qed

text \<open>Serializing frames one after another.\<close>

fun serialize_all :: "Frame list \<Rightarrow> Frame_Ids \<Rightarrow> Frame_Ids \<times> (string \<times> string) list" where
  "serialize_all [] ids = (ids, [])"
| "serialize_all (f # fs) ids =
     (case Frame_Serialize f ids of (ids1, c1) \<Rightarrow> case serialize_all fs ids1 of (ids2, c2) \<Rightarrow> (ids2, c1 @ c2))"

text \<open>The lines of frames serialized from a serial number on, and the frames with their numbers.\<close>

fun frame_calls :: "u32 \<Rightarrow> Frame list \<Rightarrow> (string \<times> string) list" where
  "frame_calls n [] = []"
| "frame_calls n (f # fs) = (''frames.csv'', join_commas (frame_fields (n + 1) f) @ nl) # frame_calls (n + 1) fs"

fun numbered :: "u32 \<Rightarrow> 'a list \<Rightarrow> (u32 \<times> 'a) list" where
  "numbered n [] = []"
| "numbered n (x # xs) = (n + 1, x) # numbered (n + 1) xs"

lemma map_snd_numbered [simp]: "map snd (numbered n xs) = xs"
  by (induction n xs rule: numbered.induct) auto

lemma serialize_all_calls:
  "serialize_all fs ids = (ids', calls) \<Longrightarrow> calls = frame_calls (fs_last_serialized_id ids) fs"
proof (induction fs arbitrary: ids calls ids')
  case (Cons f fs)
  let ?ids = "ids\<lparr>fs_last_serialized_id := fs_last_serialized_id ids + 1\<rparr>"
  obtain ids2 c2 where c2: "serialize_all fs ?ids = (ids2, c2)" by fastforce
  from Cons.prems c2 Cons.IH [OF c2] show ?case by (auto simp: Frame_Serialize_def Let_def)
qed simp

lemma parse_frame_calls:
  assumes "\<And>f. f \<in> set fs \<Longrightarrow> length (m_slots f) = 8"
  shows "parse_frames (concat (map snd (frame_calls n fs))) = numbered n fs"
proof -
  let ?line = "\<lambda>(i, f). join_commas (frame_fields i f)"
  have "map snd (frame_calls n fs) = map (\<lambda>l. l @ nl) (map ?line (numbered n fs))"
    by (induction n fs rule: numbered.induct) auto
  moreover have "split_on (CHR 0x0A) [] (concat (map (\<lambda>l. l @ nl) (map ?line (numbered n fs)))) =
      map ?line (numbered n fs) @ [[]]"
    by (rule split_lines) (auto simp: newline_not_in_line)
  ultimately have "parse_frames (concat (map snd (frame_calls n fs))) = map parse_frame (map ?line (numbered n fs))"
    by (simp add: parse_frames_def)
  also have "map parse_frame (map ?line (numbered n fs)) = numbered n fs"
    using assms by (induction n fs rule: numbered.induct) (auto simp: parse_frame_fields)
  finally show ?thesis .
qed

text \<open>C25. Reading \<open>frames.csv\<close> back gives the frames it was written from, with consecutive serial numbers: ids, registers and
  the eight stack slots of every frame.\<close>

theorem frames_file_roundtrip:
  assumes "\<And>f. f \<in> set fs \<Longrightarrow> length (m_slots f) = 8" and "serialize_all fs ids = (ids', calls)"
  shows "parse_frames (concat (map snd calls)) = numbered (fs_last_serialized_id ids) fs"
  using parse_frame_calls [OF assms(1)] serialize_all_calls [OF assms(2)] by simp

theorem frames_file_roundtrip_witness:
  "parse_frames (concat (map snd (snd (serialize_all [fst (new_Frame 7 initial_Frame_Ids)] initial_Frame_Ids)))) =
    [(1, fst (new_Frame 7 initial_Frame_Ids))]"
proof -
  let ?f = "fst (new_Frame 7 initial_Frame_Ids)"
  have len: "length (m_slots f) = 8" if "f \<in> set [?f]" for f
    using that by (simp add: new_Frame_def Let_def RE_STACK_SLOTS_NUM_def)
  obtain ids' calls where run: "serialize_all [?f] initial_Frame_Ids = (ids', calls)" by fastforce
  from frames_file_roundtrip [OF len run] run show ?thesis
    by (simp add: initial_Frame_Ids_def del: serialize_all.simps)
qed

subsection \<open>The filter at a block's entry\<close>

definition CIRCULAR_LENGTH :: nat where "CIRCULAR_LENGTH = 10"
definition ESP_JUMP_RANGE :: u32 where "ESP_JUMP_RANGE = 128"

text \<open>The global variables of the filter.\<close>

record Bbl_Filter =
  circuluar :: "u32 list"
  square_circular :: "u32 list"
  last_ebp :: u32
  last_esp :: u32

definition initial_Bbl_Filter :: Bbl_Filter where
  "initial_Bbl_Filter = \<lparr>circuluar = replicate CIRCULAR_LENGTH 0,
     square_circular = replicate (CIRCULAR_LENGTH div 2) 0, last_ebp = 0, last_esp = 0\<rparr>"

text \<open>The loops over the two arrays, with the number of rounds left and the index.\<close>

fun circular_loop :: "nat \<Rightarrow> nat \<Rightarrow> u32 \<Rightarrow> u32 list \<Rightarrow> bool \<Rightarrow> u32 list \<times> bool" where
  "circular_loop 0 i eip c bSkip = (c, bSkip)"
| "circular_loop (Suc n) i eip c bSkip =
     circular_loop n (i + 1) eip (c[i := c ! ((i + 1) mod CIRCULAR_LENGTH)]) (if c ! i = eip then True else bSkip)"

fun square_find :: "nat \<Rightarrow> nat \<Rightarrow> u32 \<Rightarrow> u32 list \<Rightarrow> bool \<Rightarrow> bool" where
  "square_find 0 i eip q bSkip = bSkip"
| "square_find (Suc n) i eip q bSkip = square_find n (i + 1) eip q (if q ! i = eip then True else bSkip)"

fun square_shift :: "nat \<Rightarrow> nat \<Rightarrow> u32 \<Rightarrow> u32 list \<Rightarrow> u32 list" where
  "square_shift 0 i eip q = q"
| "square_shift (Suc n) i eip q =
     (if eip \<noteq> 0 then square_shift n (i + 1) eip (q[i := q ! ((i + 1) mod (CIRCULAR_LENGTH div 2))]) else q)"

definition skip_block :: "u32 \<Rightarrow> u32 \<Rightarrow> Bbl_Filter \<Rightarrow> bool \<times> Bbl_Filter" where
  "skip_block eip ebp flt =
     (case circular_loop CIRCULAR_LENGTH 0 eip (circuluar flt) False of (c, bSkip) \<Rightarrow>
      let c1 = c[CIRCULAR_LENGTH - 1 := eip];
          bSkip1 = (if \<not> bSkip then square_find (CIRCULAR_LENGTH div 2) 0 eip (square_circular flt) bSkip else bSkip);
          bSkip2 = (if last_ebp flt = ebp \<and> last_ebp flt - ebp < ESP_JUMP_RANGE then True else bSkip1);
          q = (if \<not> bSkip2
               then (square_shift (CIRCULAR_LENGTH div 2) 0 eip (square_circular flt))[CIRCULAR_LENGTH div 2 - 1 := eip]
               else square_circular flt)
      in (bSkip2, flt\<lparr>circuluar := c1, square_circular := q, last_ebp := ebp\<rparr>))"

fun read_slots :: "memory \<Rightarrow> u32 \<Rightarrow> nat \<Rightarrow> run_error + u32 list" where
  "read_slots mem stack 0 = Inr []"
| "read_slots mem stack (Suc n) =
     bind_r (read_u32 mem stack) (\<lambda>v. bind_r (read_slots mem (stack + 4) n) (\<lambda>vs. Inr (v # vs)))"

text \<open>\<open>ctx\<close> holds what \<^verbatim>\<open>PIN_GetContextReg\<close> gives for the registers. The frame is numbered before the filter is
  asked.\<close>

definition Process_Instrument_BBL ::
    "memory \<Rightarrow> u32 \<Rightarrow> RE_CONTEXT \<Rightarrow> Frame_Ids \<times> Bbl_Filter
       \<Rightarrow> run_error + (Frame_Ids \<times> Bbl_Filter) \<times> (string \<times> string) list" where
  "Process_Instrument_BBL mem bid ctx st =
     (case st of (ids, flt) \<Rightarrow>
      case new_Frame bid ids of (frame, ids1) \<Rightarrow>
      case skip_block (m_eip ctx) (m_ebp ctx) flt of (bSkip, flt1) \<Rightarrow>
      if bSkip then Inr ((ids1, flt1), [])
      else bind_r (read_slots mem (m_esp ctx) RE_STACK_SLOTS_NUM) (\<lambda>slots.
        case Frame_Serialize (frame\<lparr>m_context := ctx, m_slots := slots\<rparr>) ids1 of (ids2, calls) \<Rightarrow>
        Inr ((ids2, flt1), calls)))"

subsection \<open>The filter as a condition on the history\<close>

lemma ex_from:
  "(\<exists>j\<ge>i. j < i + Suc n \<and> P j) \<longleftrightarrow> P i \<or> (\<exists>j>i. j < i + Suc n \<and> P (j :: nat))"
proof
  assume "\<exists>j\<ge>i. j < i + Suc n \<and> P j"
  then obtain j where "i \<le> j" "j < i + Suc n" "P j" by blast
  then show "P i \<or> (\<exists>j>i. j < i + Suc n \<and> P j)" by (cases "j = i") auto
next
  assume "P i \<or> (\<exists>j>i. j < i + Suc n \<and> P j)"
  moreover have "i \<le> i \<and> i < i + Suc n" by simp
  ultimately show "\<exists>j\<ge>i. j < i + Suc n \<and> P j" by (metis less_imp_le)
qed

lemma circular_loop_spec:
  "circular_loop n i eip c b = (c', s) \<Longrightarrow> length c = 10 \<Longrightarrow> i + n \<le> 10 \<Longrightarrow>
   length c' = 10 \<and> (\<forall>j. j < i \<longrightarrow> c' ! j = c ! j) \<and> (\<forall>j. i \<le> j \<and> j < i + n \<and> j < 9 \<longrightarrow> c' ! j = c ! (j + 1)) \<and>
   (s \<longleftrightarrow> b \<or> (\<exists>j. i \<le> j \<and> j < i + n \<and> c ! j = eip))"
proof (induction n i eip c b rule: circular_loop.induct)
  case (2 n i eip c b)
  let ?c = "c[i := c ! ((i + 1) mod CIRCULAR_LENGTH)]"
  have IH: "length c' = 10 \<and> (\<forall>j. j < i + 1 \<longrightarrow> c' ! j = ?c ! j) \<and>
      (\<forall>j. i + 1 \<le> j \<and> j < i + 1 + n \<and> j < 9 \<longrightarrow> c' ! j = ?c ! (j + 1)) \<and>
      (s \<longleftrightarrow> (if c ! i = eip then True else b) \<or> (\<exists>j. i + 1 \<le> j \<and> j < i + 1 + n \<and> ?c ! j = eip))"
    using 2 by simp
  have i: "i < 10" using 2(4) by simp
  have "c' ! i = c ! (i + 1)" if "i < 9" using IH i 2(3) that by (simp add: CIRCULAR_LENGTH_def)
  moreover have "c' ! j = c ! (j + 1)" if "i < j" "j < i + Suc n" "j < 9" for j using IH that by simp
  ultimately have "c' ! j = c ! (j + 1)" if "i \<le> j" "j < i + Suc n" "j < 9" for j
    using that by (cases "j = i") auto
  moreover have "(\<exists>j. i + 1 \<le> j \<and> j < i + 1 + n \<and> ?c ! j = eip) \<longleftrightarrow> (\<exists>j. i < j \<and> j < i + Suc n \<and> c ! j = eip)"
    by (rule ex_cong1) auto
  moreover have "(\<exists>j. i \<le> j \<and> j < i + Suc n \<and> c ! j = eip) \<longleftrightarrow>
      c ! i = eip \<or> (\<exists>j. i < j \<and> j < i + Suc n \<and> c ! j = eip)"
    by (rule ex_from)
  moreover have "c' ! j = c ! j" if "j < i" for j using IH that by simp
  ultimately show ?case using IH by auto
qed auto

lemma circular_loop_eq:
  assumes "length c = 10" and "circular_loop 10 0 eip c False = (c', s)"
  shows "c'[9 := eip] = tl c @ [eip] \<and> s = (eip \<in> set c)"
proof -
  note spec = circular_loop_spec [OF assms(2,1)]
  then have "c'[9 := eip] = tl c @ [eip]"
    using assms(1) by (intro nth_equalityI) (auto simp: nth_append nth_tl nth_list_update)
  then show ?thesis using spec assms(1) by (auto simp: in_set_conv_nth)
qed

lemma square_find_spec:
  "square_find n i eip q b \<longleftrightarrow> b \<or> (\<exists>j. i \<le> j \<and> j < i + n \<and> q ! j = eip)"
proof (induction n i eip q b rule: square_find.induct)
  case (2 n i eip q b)
  then show ?case using ex_from [of i n "\<lambda>j. q ! j = eip"] by (auto simp: Suc_le_eq)
qed auto

lemma square_shift_spec:
  "length q = 5 \<Longrightarrow> i + n \<le> 5 \<Longrightarrow> eip \<noteq> 0 \<Longrightarrow>
   length (square_shift n i eip q) = 5 \<and> (\<forall>j. j < i \<longrightarrow> square_shift n i eip q ! j = q ! j) \<and>
   (\<forall>j. i \<le> j \<and> j < i + n \<and> j < 4 \<longrightarrow> square_shift n i eip q ! j = q ! (j + 1))"
proof (induction n i eip q rule: square_shift.induct)
  case (2 n i eip q)
  let ?q = "q[i := q ! ((i + 1) mod (CIRCULAR_LENGTH div 2))]"
  let ?r = "square_shift n (i + 1) eip ?q"
  have IH: "length ?r = 5 \<and> (\<forall>j. j < i + 1 \<longrightarrow> ?r ! j = ?q ! j) \<and>
      (\<forall>j. i + 1 \<le> j \<and> j < i + 1 + n \<and> j < 4 \<longrightarrow> ?r ! j = ?q ! (j + 1))" using 2 by simp
  have i: "i < 5" using 2(3) by simp
  have "?r ! i = q ! (i + 1)" if "i < 4" using IH i 2(2) that by (simp add: CIRCULAR_LENGTH_def)
  moreover have "?r ! j = q ! (j + 1)" if "i < j" "j < i + Suc n" "j < 4" for j using IH that by simp
  ultimately have "?r ! j = q ! (j + 1)" if "i \<le> j" "j < i + Suc n" "j < 4" for j
    using that by (cases "j = i") auto
  moreover have "?r ! j = q ! j" if "j < i" for j using IH that by simp
  ultimately show ?case using IH 2(4) by auto
qed auto

lemma square_shift_eq:
  assumes "length q = 5" and "eip \<noteq> 0"
  shows "(square_shift 5 0 eip q)[4 := eip] = tl q @ [eip]"
proof -
  from square_shift_spec [OF assms(1) _ assms(2), of 0 5]
  show ?thesis using assms(1) by (intro nth_equalityI) (auto simp: nth_append nth_tl nth_list_update)
qed

lemma skip_block_eq:
  assumes "length (circuluar flt) = 10" and "length (square_circular flt) = 5" and "eip \<noteq> 0"
  shows "skip_block eip ebp flt =
    (let b = (eip \<in> set (circuluar flt) \<or> eip \<in> set (square_circular flt) \<or> last_ebp flt = ebp) in
     (b, flt\<lparr>circuluar := tl (circuluar flt) @ [eip],
            square_circular := (if b then square_circular flt else tl (square_circular flt) @ [eip]), last_ebp := ebp\<rparr>))"
proof -
  obtain c s where loop: "circular_loop 10 0 eip (circuluar flt) False = (c, s)" by fastforce
  note c = circular_loop_eq [OF assms(1) loop]
  have find: "square_find 5 0 eip (square_circular flt) False \<longleftrightarrow> eip \<in> set (square_circular flt)"
    using assms(2) by (auto simp: square_find_spec in_set_conv_nth)
  have esp: "last_ebp flt = ebp \<and> last_ebp flt - ebp < ESP_JUMP_RANGE \<longleftrightarrow> last_ebp flt = ebp"
    by (auto simp: ESP_JUMP_RANGE_def)
  show ?thesis
    using c find square_shift_eq [OF assms(2,3)]
    unfolding skip_block_def Let_def esp by (auto simp: CIRCULAR_LENGTH_def loop)
qed

text \<open>What the filter is to do, on the contexts seen before, newest first: a context is kept when its block was not
  among the last ten entered and not among the last five kept, and \<open>ebp\<close> changed since the entry before.\<close>

definition accepted :: "RE_CONTEXT \<Rightarrow> RE_CONTEXT list \<Rightarrow> RE_CONTEXT list \<Rightarrow> bool" where
  "accepted c past kept \<longleftrightarrow> m_eip c \<notin> set (take 10 (map m_eip past)) \<and> m_eip c \<notin> set (take 5 (map m_eip kept)) \<and>
     m_ebp c \<noteq> (case past of [] \<Rightarrow> 0 | p # _ \<Rightarrow> m_ebp p)"

fun keeps :: "RE_CONTEXT list \<Rightarrow> RE_CONTEXT list" where
  "keeps [] = []"
| "keeps (c # past) = (if accepted c past (keeps past) then c # keeps past else keeps past)"

text \<open>The arrays hold the recent part of the history, oldest first, after the zeros they start with.\<close>

definition window :: "nat \<Rightarrow> u32 list \<Rightarrow> u32 list" where
  "window n xs = rev (take n (xs @ replicate n 0))"

lemma length_window [simp]: "length (window n xs) = n"
  by (simp add: window_def)

lemma window_push:
  assumes "0 < n"
  shows "tl (window n xs) @ [x] = window n (x # xs)"
proof -
  obtain k where n: "n = Suc k" using assms by (cases n) auto
  have tl_rev: "tl (rev l) = rev (butlast l)" for l :: "u32 list" by (metis butlast_rev rev_rev_ident)
  have "butlast (take n (xs @ replicate n 0)) = take k (xs @ replicate n 0)"
    unfolding n by (subst butlast_take) auto
  then have "tl (window n xs) @ [x] = rev (x # take k (xs @ replicate n 0))"
    unfolding window_def tl_rev by (simp only: rev.simps)
  also have "x # take k (xs @ replicate n 0) = take n ((x # xs) @ replicate n 0)" by (simp add: n)
  finally show ?thesis unfolding window_def .
qed

lemma set_window: "x \<noteq> 0 \<Longrightarrow> x \<in> set (window n xs) \<longleftrightarrow> x \<in> set (take n xs)"
  by (auto simp: window_def dest: in_set_takeD)

definition filter_rel :: "RE_CONTEXT list \<Rightarrow> Bbl_Filter \<Rightarrow> bool" where
  "filter_rel past flt \<longleftrightarrow> circuluar flt = window 10 (map m_eip past) \<and>
     square_circular flt = window 5 (map m_eip (keeps past)) \<and>
     last_ebp flt = (case past of [] \<Rightarrow> 0 | p # _ \<Rightarrow> m_ebp p)"

lemma filter_rel_initial: "filter_rel [] initial_Bbl_Filter"
  by (simp add: filter_rel_def initial_Bbl_Filter_def window_def CIRCULAR_LENGTH_def)

lemma skip_block_step:
  assumes "filter_rel past flt" and "m_eip c \<noteq> 0"
  shows "\<exists>flt'. skip_block (m_eip c) (m_ebp c) flt = (\<not> accepted c past (keeps past), flt') \<and> filter_rel (c # past) flt'"
proof -
  from assms(1) have f: "circuluar flt = window 10 (map m_eip past)" "square_circular flt = window 5 (map m_eip (keeps past))"
    "last_ebp flt = (case past of [] \<Rightarrow> 0 | p # _ \<Rightarrow> m_ebp p)" by (auto simp: filter_rel_def)
  then have "m_eip c \<in> set (circuluar flt) \<or> m_eip c \<in> set (square_circular flt) \<or> last_ebp flt = m_ebp c \<longleftrightarrow>
      \<not> accepted c past (keeps past)"
    using set_window [OF assms(2)] by (auto simp: accepted_def)
  with skip_block_eq [of flt "m_eip c" "m_ebp c"] f assms(2) window_push
  show ?thesis by (simp add: filter_rel_def Let_def del: take_map)
qed

text \<open>Block entries with the memory at that time, the block's id and the registers.\<close>

fun bbl_run :: "(memory \<times> u32 \<times> RE_CONTEXT) list \<Rightarrow> Frame_Ids \<times> Bbl_Filter
    \<Rightarrow> run_error + (Frame_Ids \<times> Bbl_Filter) \<times> (string \<times> string) list" where
  "bbl_run [] st = Inr (st, [])"
| "bbl_run ((mem, bid, ctx) # evs) st =
     bind_r (Process_Instrument_BBL mem bid ctx st) (\<lambda>(st1, c1).
     bind_r (bbl_run evs st1) (\<lambda>(st2, c2). Inr (st2, c1 @ c2)))"

lemma read_slots_length: "read_slots mem a n = Inr vs \<Longrightarrow> length vs = n"
  by (induction n arbitrary: a vs) (auto simp: bind_r_eq_Inr)

definition slots_readable :: "memory \<times> u32 \<times> RE_CONTEXT \<Rightarrow> bool" where
  "slots_readable ev = (case ev of (mem, bid, ctx) \<Rightarrow> \<exists>vs. read_slots mem (m_esp ctx) 8 = Inr vs)"

text \<open>A frame written at an entry.\<close>

definition frame_of :: "memory \<times> u32 \<times> RE_CONTEXT \<Rightarrow> Frame \<Rightarrow> bool" where
  "frame_of ev f = (case ev of (mem, bid, ctx) \<Rightarrow>
     m_context f = ctx \<and> f_bid f = bid \<and> read_slots mem (m_esp ctx) 8 = Inr (m_slots f))"

lemma kept_slots:
  assumes "list_all2 frame_of kept fs" and "f \<in> set fs"
  shows "length (m_slots f) = 8"
proof -
  from assms obtain ev where "frame_of ev f" by (metis list_all2_conv_all_nth in_set_conv_nth)
  then show ?thesis by (auto simp: frame_of_def read_slots_length split: prod.splits)
qed

lemma Process_Instrument_BBL_step:
  assumes rel: "filter_rel past flt" and "m_eip ctx \<noteq> 0" and "slots_readable (mem, bid, ctx)"
  shows "\<exists>ids' flt' fs. Process_Instrument_BBL mem bid ctx (ids, flt) =
      Inr ((ids', flt'), frame_calls (fs_last_serialized_id ids) fs) \<and> filter_rel (ctx # past) flt' \<and>
    fs_last_serialized_id ids' = fs_last_serialized_id ids + word_of_nat (length fs) \<and>
    fs_last_id ids' = fs_last_id ids + 1 \<and>
    (if accepted ctx past (keeps past) then \<exists>f. fs = [f] \<and> frame_of (mem, bid, ctx) f \<and> f_id f = fs_last_id ids + 1
     else fs = [])"
proof -
  from skip_block_step [OF rel assms(2)] obtain flt' where
    skip: "skip_block (m_eip ctx) (m_ebp ctx) flt = (\<not> accepted ctx past (keeps past), flt')" "filter_rel (ctx # past) flt'"
    by blast
  let ?ids = "ids\<lparr>fs_last_id := fs_last_id ids + 1\<rparr>"
  show ?thesis
  proof (cases "accepted ctx past (keeps past)")
    case False
    with skip show ?thesis
      by (intro exI [of _ ?ids] exI [of _ flt'] exI [of _ "[]"]) (simp add: Process_Instrument_BBL_def new_Frame_def Let_def)
  next
    case True
    from assms(3) obtain vs where vs: "read_slots mem (m_esp ctx) 8 = Inr vs" by (auto simp: slots_readable_def)
    let ?f = "\<lparr>m_context = ctx, m_slots = vs, f_id = fs_last_id ids + 1, f_bid = bid\<rparr>"
    show ?thesis
      using True skip vs
      by (intro exI [of _ "?ids\<lparr>fs_last_serialized_id := fs_last_serialized_id ids + 1\<rparr>"] exI [of _ flt'] exI [of _ "[?f]"])
        (simp add: Process_Instrument_BBL_def new_Frame_def Let_def RE_STACK_SLOTS_NUM_def Frame_Serialize_def frame_of_def)
  qed
qed

lemma frame_calls_append:
  "frame_calls n (xs @ ys) = frame_calls n xs @ frame_calls (n + word_of_nat (length xs)) ys"
  by (induction n xs rule: frame_calls.induct) (auto simp: algebra_simps)

abbreviation ev_context :: "memory \<times> u32 \<times> RE_CONTEXT \<Rightarrow> RE_CONTEXT" where
  "ev_context ev \<equiv> snd (snd ev)"

lemma bbl_run_result:
  assumes "filter_rel past flt" and "\<And>ev. ev \<in> set evs \<Longrightarrow> m_eip (ev_context ev) \<noteq> 0 \<and> slots_readable ev"
  shows "\<exists>st' fs kept. bbl_run evs (ids, flt) = Inr (st', frame_calls (fs_last_serialized_id ids) fs) \<and>
    subseq kept evs \<and> list_all2 frame_of kept fs \<and>
    keeps (rev (map ev_context evs) @ past) = rev (map ev_context kept) @ keeps past \<and>
    (\<forall>f\<in>set fs. \<exists>i\<ge>1. i \<le> length evs \<and> f_id f = fs_last_id ids + word_of_nat i)"
  using assms
proof (induction evs arbitrary: past ids flt)
  case Nil
  then show ?case by (intro exI [of _ "(ids, flt)"] exI [of _ "[]"]) simp
next
  case (Cons ev evs)
  obtain mem bid ctx where ev: "ev = (mem, bid, ctx)" by (metis prod_cases3)
  from Cons.prems(2) [of ev] ev have ok: "m_eip ctx \<noteq> 0" "slots_readable (mem, bid, ctx)" by auto
  from Process_Instrument_BBL_step [OF Cons.prems(1) ok, of ids] obtain ids1 flt1 fs1 where
    1: "Process_Instrument_BBL mem bid ctx (ids, flt) = Inr ((ids1, flt1), frame_calls (fs_last_serialized_id ids) fs1)"
      "filter_rel (ctx # past) flt1" "fs_last_serialized_id ids1 = fs_last_serialized_id ids + word_of_nat (length fs1)"
      "fs_last_id ids1 = fs_last_id ids + 1"
    and acc: "if accepted ctx past (keeps past) then \<exists>f. fs1 = [f] \<and> frame_of (mem, bid, ctx) f \<and> f_id f = fs_last_id ids + 1
      else fs1 = []" by blast
  have "m_eip (ev_context e) \<noteq> 0 \<and> slots_readable e" if "e \<in> set evs" for e using Cons.prems(2) that by simp
  from Cons.IH [OF 1(2) this, of ids1] obtain st2 fs2 kept2 where
    2: "bbl_run evs (ids1, flt1) = Inr (st2, frame_calls (fs_last_serialized_id ids1) fs2)" "subseq kept2 evs"
      "list_all2 frame_of kept2 fs2"
      "keeps (rev (map ev_context evs) @ ctx # past) = rev (map ev_context kept2) @ keeps (ctx # past)"
      "\<forall>f\<in>set fs2. \<exists>i\<ge>1. i \<le> length evs \<and> f_id f = fs_last_id ids1 + word_of_nat i" by blast
  let ?kept = "(if accepted ctx past (keeps past) then [ev] else []) @ kept2"
  have "bbl_run (ev # evs) (ids, flt) = Inr (st2, frame_calls (fs_last_serialized_id ids) (fs1 @ fs2))"
    using 1(1,3) 2(1) ev by (simp add: frame_calls_append)
  moreover have "subseq ?kept (ev # evs)" using 2(2) by (auto intro: subseq_Cons')
  moreover have "list_all2 frame_of ?kept (fs1 @ fs2)" using acc 2(3) ev by (auto split: if_splits)
  moreover have "keeps (rev (map ev_context (ev # evs)) @ past) = rev (map ev_context ?kept) @ keeps past"
    using 2(4) ev by simp
  moreover have "\<exists>i\<ge>1. i \<le> length (ev # evs) \<and> f_id f = fs_last_id ids + word_of_nat i" if f: "f \<in> set (fs1 @ fs2)" for f
  proof (cases "f \<in> set fs2")
    case True
    with 2(5) obtain i where "1 \<le> i" "i \<le> length evs" "f_id f = fs_last_id ids1 + word_of_nat i" by blast
    then show ?thesis using 1(4) by (intro exI [of _ "Suc i"]) (simp add: algebra_simps)
  next
    case False
    with f acc have "f_id f = fs_last_id ids + 1" by (auto split: if_splits)
    then show ?thesis by (intro exI [of _ 1]) simp
  qed
  ultimately show ?case by blast
qed

text \<open>C6. The frames written for a sequence of block entries are exactly those of the entries the history condition keeps, in
  order and with consecutive serial numbers: each holds the registers, the block id and the eight words at \<open>esp\<close> at
  its entry.\<close>

theorem bbl_filter_refines_history:
  assumes "\<And>ev. ev \<in> set evs \<Longrightarrow> m_eip (ev_context ev) \<noteq> 0 \<and> slots_readable ev"
  shows "\<exists>st calls fs kept. bbl_run evs (initial_Frame_Ids, initial_Bbl_Filter) = Inr (st, calls) \<and>
    parse_frames (concat (map snd calls)) = numbered 0 fs \<and> subseq kept evs \<and> list_all2 frame_of kept fs \<and>
    map ev_context kept = rev (keeps (rev (map ev_context evs)))"
proof -
  from bbl_run_result [OF filter_rel_initial assms, of evs initial_Frame_Ids] obtain st fs kept where
    r: "bbl_run evs (initial_Frame_Ids, initial_Bbl_Filter) = Inr (st, frame_calls (fs_last_serialized_id initial_Frame_Ids) fs)"
      "subseq kept evs" "list_all2 frame_of kept fs"
      "keeps (rev (map ev_context evs) @ []) = rev (map ev_context kept) @ keeps []" by blast
  have "length (m_slots f) = 8" if "f \<in> set fs" for f
  proof -
    from r(3) that obtain ev where "frame_of ev f" by (metis list_all2_conv_all_nth in_set_conv_nth)
    then show ?thesis by (auto simp: frame_of_def read_slots_length split: prod.splits)
  qed
  from parse_frame_calls [OF this, of fs 0] r show ?thesis
    by (intro exI [of _ st] exI [of _ "frame_calls 0 fs"] exI [of _ fs] exI [of _ kept])
      (simp add: initial_Frame_Ids_def)
qed

definition example_entry :: "u32 \<Rightarrow> u32 \<Rightarrow> memory \<times> u32 \<times> RE_CONTEXT" where
  "example_entry eip ebp = ([(0x2000, replicate 32 0x11)], 7, \<lparr>m_eip = eip, m_esp = 0x2000, m_ebp = ebp, m_eax = 1, m_ebx = 2,
     m_ecx = 3, m_edx = 4, m_esi = 5, m_edi = 6\<rparr>)"

lemma example_entry_ok: "eip \<noteq> 0 \<Longrightarrow> m_eip (ev_context (example_entry eip ebp)) \<noteq> 0 \<and> slots_readable (example_entry eip ebp)"
proof -
  have "\<exists>vs. read_slots [(0x2000, replicate 32 0x11)] 0x2000 8 = Inr vs"
    by (rule exI [of _ "replicate 8 0x11111111"]) code_simp
  then show "eip \<noteq> 0 \<Longrightarrow> ?thesis" by (simp add: example_entry_def slots_readable_def)
qed

text \<open>Three entries: the second has the \<open>ebp\<close> of the first, the third is the block of the first again.\<close>

theorem bbl_filter_refines_history_witness:
  "\<exists>st calls fs. bbl_run [example_entry 0x1000 8, example_entry 0x1010 8, example_entry 0x1000 16]
       (initial_Frame_Ids, initial_Bbl_Filter) = Inr (st, calls) \<and>
     parse_frames (concat (map snd calls)) = numbered 0 fs \<and> map (m_eip \<circ> m_context) fs = [0x1000]"
proof -
  let ?evs = "[example_entry 0x1000 8, example_entry 0x1010 8, example_entry 0x1000 16]"
  have ok: "m_eip (ev_context ev) \<noteq> 0 \<and> slots_readable ev" if "ev \<in> set ?evs" for ev
    using that example_entry_ok by auto
  from bbl_filter_refines_history [OF ok] obtain st calls fs kept where
    r: "bbl_run ?evs (initial_Frame_Ids, initial_Bbl_Filter) = Inr (st, calls)"
      "parse_frames (concat (map snd calls)) = numbered 0 fs" "list_all2 frame_of kept fs"
      "map ev_context kept = rev (keeps (rev (map ev_context ?evs)))" by blast
  have "map m_eip (rev (keeps (rev (map ev_context ?evs)))) = [0x1000]"
    by (simp add: example_entry_def accepted_def)
  then have "map (m_eip \<circ> ev_context) kept = [0x1000]" using r(4) by (metis map_map)
  moreover have "map m_context fs = map ev_context kept"
    using r(3) by (induction rule: list_all2_induct) (auto simp: frame_of_def split: prod.splits)
  ultimately have "map (m_eip \<circ> m_context) fs = [0x1000]" by (metis map_map)
  with r(1,2) show ?thesis by (intro exI [of _ st] exI [of _ calls] exI [of _ fs]) simp
qed

subsection \<open>From block entries to the files\<close>

lemma length_fmt_d: "length (fmt_d w) \<le> 11"
proof -
  have "- (2 ^ 31) \<le> sint w" and "sint w < 2 ^ 31"
    using sint_greater_eq [of w] sint_less [of w] by simp_all
  then have "nat (- sint w) < 10 ^ 10" and "nat (sint w) < 10 ^ 10" by auto
  then have "length (base_str digit 10 (nat (- sint w))) \<le> 10" and "length (base_str digit 10 (nat (sint w))) \<le> 10"
    by (auto intro: length_base_str)
  then show ?thesis by (simp add: fmt_d_def)
qed

lemma length_join_commas:
  "(\<And>x. x \<in> set xs \<Longrightarrow> length x \<le> k) \<Longrightarrow> length (join_commas xs) \<le> length xs * (k + 1)"
proof (induction xs rule: join_commas.induct)
  case (3 x y xs)
  then have "length (join_commas (y # xs)) \<le> length (y # xs) * (k + 1)" and "length x \<le> k" by auto
  then show ?case by simp
qed auto

lemma length_frame_line: "length (join_commas (frame_fields n f)) \<le> 240"
proof -
  have "length x \<le> 11" if "x \<in> set (frame_fields n f)" for x
    using that length_fmt_d by (auto simp: frame_fields_def hex_field_def)
  then have "length (join_commas (frame_fields n f)) \<le> length (frame_fields n f) * (11 + 1)"
    by (rule length_join_commas)
  moreover have "length (frame_fields n f) = 20" by (simp add: frame_fields_def)
  ultimately show ?thesis by simp
qed

lemma nul_not_in_08x [simp]: "CHR 0x00 \<notin> set (fmt_08x w)"
  using fmt_08x_chars [of "CHR 0x00" w] by (auto simp: hex_char_def)

lemma nul_not_in_d [simp]: "CHR 0x00 \<notin> set (fmt_d w)"
  using dec_chars [of "CHR 0x00"] by (auto simp: fmt_d_def split: if_splits)

lemma frame_line_loggable: "loggable (join_commas (frame_fields n f) @ nl)"
proof -
  have "CHR 0x00 \<notin> set x" if "x \<in> set (frame_fields n f)" for x
    using that by (auto simp: frame_fields_def hex_field_def)
  then have "CHR 0x00 \<notin> set (join_commas (frame_fields n f))" using set_join_commas [of "frame_fields n f"] by auto
  with length_frame_line [of n f] show ?thesis by (simp add: loggable_def nl_def)
qed

end
