(* ===== verification/Blocks.thy ===== *)
theory Blocks
  imports Frames
begin

text \<open>
  \<^verbatim>\<open>replay/Block.h\<close>, \<^verbatim>\<open>Block.cpp\<close> and \<^verbatim>\<open>REProgramInfo::Process_Encounter_Trace\<close>: the lines of \<open>blocks.csv\<close> and the
  call inserted at the head of a trace.
\<close>

subsection \<open>Blocks\<close>

record Block =
  b_frames :: "u32 list"
  b_disasm :: string
  b_raw :: string
  b_id :: u32
  b_tid :: u32
  b_eip :: u32

text \<open>The last id given is the static member, here an argument and part of the result.\<close>

definition new_Block :: "u32 \<Rightarrow> u32 \<Rightarrow> Block \<times> u32" where
  "new_Block eip s_last_id =
     (\<lparr>b_frames = [], b_disasm = [], b_raw = [], b_id = s_last_id + 1, b_tid = s_last_id + 1, b_eip = eip\<rparr>, s_last_id + 1)"

definition AddFrame :: "u32 \<Rightarrow> Block \<Rightarrow> Block" where
  "AddFrame frame_id b = b\<lparr>b_frames := insert_addr frame_id (b_frames b)\<rparr>"

definition AddDisasmLine :: "string \<Rightarrow> Block \<Rightarrow> Block" where
  "AddDisasmLine line b = b\<lparr>b_disasm := b_disasm b @ line @ '' _|_ ''\<rparr>"

definition AddRawLine :: "string \<Rightarrow> Block \<Rightarrow> Block" where
  "AddRawLine line b = b\<lparr>b_raw := b_raw b @ line @ '' _|_ ''\<rparr>"

definition SetEip :: "u32 \<Rightarrow> Block \<Rightarrow> Block" where "SetEip eip b = b\<lparr>b_eip := eip\<rparr>"
definition SetTid :: "u32 \<Rightarrow> Block \<Rightarrow> Block" where "SetTid tid b = b\<lparr>b_tid := tid\<rparr>"
definition GetBid :: "Block \<Rightarrow> u32" where "GetBid b = b_id b"

definition Block_Serialize :: "Block \<Rightarrow> (string \<times> string) list" where
  "Block_Serialize b =
     [(''blocks.csv'', fmt_d (b_id b) @ '','' @ fmt_d (b_tid b) @ '','' @ hex_field (b_eip b) @ '',\"'' @ c_str (b_raw b)
         @ ''\",\"'' @ c_str (b_disasm b) @ ''\"'' @ nl)]"

subsection \<open>Traces\<close>

text \<open>What Pin reports of an instruction, a basic block and a trace; the instructions of a valid block are not empty.\<close>

record INS =
  INS_Address :: u32
  INS_Size :: u32
  INS_Disassemble :: string
  INS_IsMemoryRead :: bool
  INS_HasMemoryRead2 :: bool
  INS_IsPrefetch :: bool
  INS_IsMemoryWrite :: bool
  INS_HasFallThrough :: bool
  INS_IsBranchOrCall :: bool
  INS_IsBranch :: bool
  INS_IsCall :: bool
  INS_IsRet :: bool
  INS_IsSyscall :: bool
  INS_OperandCount :: u32
  INS_OperandIsImmediate0 :: bool
  INS_OperandImmediate0 :: u32

record BBL =
  BBL_Address :: u32
  BBL_Ins :: "INS list"

record TRACE =
  TRACE_Address :: u32
  TRACE_Bbls :: "BBL list"

text \<open>The bytes of an instruction in a \<^verbatim>\<open>char[64]\<close>: each is written as three characters and a NUL.\<close>

fun raw_bytes :: "memory \<Rightarrow> u32 \<Rightarrow> nat \<Rightarrow> nat \<Rightarrow> run_error + string" where
  "raw_bytes mem a 0 i = Inr []"
| "raw_bytes mem a (Suc n) i =
     bind_r (read_byte mem (a + word_of_nat i)) (\<lambda>b.
     if 3 * i + 4 > 64 then Inl Buffer_Overflow
     else bind_r (raw_bytes mem a n (i + 1)) (\<lambda>s. Inr (fmt_02X b @ '' '' @ s)))"

definition add_instruction :: "memory \<Rightarrow> INS \<Rightarrow> Block \<Rightarrow> run_error + Block" where
  "add_instruction mem ins b =
     bind_r (raw_bytes mem (INS_Address ins) (unat (INS_Size ins)) 0) (\<lambda>raw.
     Inr (AddRawLine raw (AddDisasmLine (INS_Disassemble ins) b)))"

fun add_instructions :: "memory \<Rightarrow> INS list \<Rightarrow> Block \<Rightarrow> run_error + Block" where
  "add_instructions mem [] b = Inr b"
| "add_instructions mem (ins # rest) b = bind_r (add_instruction mem ins b) (add_instructions mem rest)"

text \<open>One block: the instructions before the tail, then the tail. \<open>tid\<close> is 0 until the first block has been seen, and only
  that one gets the call. The result is the new \<open>tid\<close> and last id, the calls inserted (the block's address and the id the
  call passes) and the lines.\<close>

definition encounter_bbl ::
    "memory \<Rightarrow> BBL \<Rightarrow> u32 \<times> u32 \<Rightarrow> run_error + (u32 \<times> u32) \<times> (u32 \<times> u32) list \<times> (string \<times> string) list" where
  "encounter_bbl mem bbl st =
     (case st of (tid, s_last_id) \<Rightarrow>
      case new_Block (BBL_Address bbl) s_last_id of (block, s_last_id1) \<Rightarrow>
      let inserted = (if tid = 0 then [(BBL_Address bbl, GetBid block)] else []);
          tid1 = (if tid = 0 then GetBid block else tid) in
      bind_r (add_instructions mem (butlast (BBL_Ins bbl)) block) (\<lambda>block1.
      bind_r (add_instruction mem (last (BBL_Ins bbl)) block1) (\<lambda>block2.
      Inr ((tid1, s_last_id1), inserted, Block_Serialize (SetTid tid1 block2)))))"

fun encounter_bbls ::
    "memory \<Rightarrow> BBL list \<Rightarrow> u32 \<times> u32 \<Rightarrow> run_error + (u32 \<times> u32) \<times> (u32 \<times> u32) list \<times> (string \<times> string) list" where
  "encounter_bbls mem [] st = Inr (st, [], [])"
| "encounter_bbls mem (bbl # bbls) st =
     bind_r (encounter_bbl mem bbl st) (\<lambda>(st1, i1, c1).
     bind_r (encounter_bbls mem bbls st1) (\<lambda>(st2, i2, c2). Inr (st2, i1 @ i2, c1 @ c2)))"

definition Process_Encounter_Trace ::
    "memory \<Rightarrow> Image_State \<Rightarrow> TRACE \<Rightarrow> u32 \<Rightarrow> run_error + u32 \<times> (u32 \<times> u32) list \<times> (string \<times> string) list" where
  "Process_Encounter_Trace mem img trace s_last_id =
     (if length (TRACE_Bbls trace) \<noteq> 0 \<and> IsAddrWithinMainModule img (TRACE_Address trace) then
        bind_r (encounter_bbls mem (TRACE_Bbls trace) (0, s_last_id)) (\<lambda>((tid, s_last_id1), inserted, calls).
        Inr (s_last_id1, inserted, calls))
      else Inr (s_last_id, [], []))"

subsection \<open>The lines of a trace\<close>

text \<open>The text of a block, instruction by instruction, from the bytes each has in memory.\<close>

definition hex_text :: "u8 list \<Rightarrow> string" where
  "hex_text bs = concat (map (\<lambda>b. fmt_02X b @ '' '') bs)"

definition ins_bytes :: "memory \<Rightarrow> INS \<Rightarrow> u8 list \<Rightarrow> bool" where
  "ins_bytes mem ins bs \<longleftrightarrow> length bs = unat (INS_Size ins) \<and> length bs \<le> 15 \<and>
     (\<forall>i<length bs. read_byte mem (INS_Address ins + word_of_nat i) = Inr (bs ! i))"

lemma raw_bytes_text:
  assumes "i + length bs \<le> 15" and "\<And>j. j < length bs \<Longrightarrow> read_byte mem (a + word_of_nat (i + j)) = Inr (bs ! j)"
  shows "raw_bytes mem a (length bs) i = Inr (hex_text bs)"
  using assms
proof (induction bs arbitrary: i)
  case (Cons b bs)
  have "read_byte mem (a + word_of_nat i) = Inr b" using Cons.prems(2) [of 0] by simp
  moreover have "raw_bytes mem a (length bs) (i + 1) = Inr (hex_text bs)"
    by (rule Cons.IH) (use Cons.prems(1) Cons.prems(2) [of "Suc _"] in simp_all)
  ultimately show ?case using Cons.prems(1) by (simp add: hex_text_def)
qed (simp add: hex_text_def)

lemma add_instruction_text:
  assumes "ins_bytes mem ins bs"
  shows "add_instruction mem ins b = Inr (b\<lparr>b_disasm := b_disasm b @ INS_Disassemble ins @ '' _|_ '',
     b_raw := b_raw b @ hex_text bs @ '' _|_ ''\<rparr>)"
proof -
  have "raw_bytes mem (INS_Address ins) (length bs) 0 = Inr (hex_text bs)"
    by (rule raw_bytes_text) (use assms in \<open>auto simp: ins_bytes_def\<close>)
  then show ?thesis
    using assms by (simp add: add_instruction_def ins_bytes_def AddRawLine_def AddDisasmLine_def)
qed

definition disasm_text :: "INS list \<Rightarrow> string" where
  "disasm_text xs = concat (map (\<lambda>ins. INS_Disassemble ins @ '' _|_ '') xs)"

definition raw_text :: "u8 list list \<Rightarrow> string" where
  "raw_text bss = concat (map (\<lambda>bs. hex_text bs @ '' _|_ '') bss)"

lemma add_instructions_text:
  "list_all2 (ins_bytes mem) xs bss \<Longrightarrow> add_instructions mem xs b =
     Inr (b\<lparr>b_disasm := b_disasm b @ disasm_text xs, b_raw := b_raw b @ raw_text bss\<rparr>)"
proof (induction arbitrary: b rule: list_all2_induct)
  case Nil
  then show ?case by (simp add: disasm_text_def raw_text_def)
next
  case (Cons ins xs bs bss)
  then show ?case by (simp add: add_instruction_text disasm_text_def raw_text_def)
qed

lemma add_instructions_append:
  "add_instructions mem (xs @ ys) b = bind_r (add_instructions mem xs b) (add_instructions mem ys)"
  by (induction xs arbitrary: b) (auto simp: bind_r_def split: sum.splits)

text \<open>The line of a block: its id, the id of the trace, its address, the bytes and the text of its instructions.\<close>

definition block_line :: "u32 \<Rightarrow> u32 \<Rightarrow> BBL \<Rightarrow> u8 list list \<Rightarrow> string" where
  "block_line tid bid bbl bss =
     fmt_d bid @ '','' @ fmt_d tid @ '','' @ hex_field (BBL_Address bbl) @ '',\"'' @ c_str (raw_text bss)
       @ ''\",\"'' @ c_str (disasm_text (BBL_Ins bbl)) @ ''\"'' @ nl"

fun block_lines :: "u32 \<Rightarrow> u32 \<Rightarrow> BBL list \<Rightarrow> u8 list list list \<Rightarrow> (string \<times> string) list" where
  "block_lines tid bid (bbl # bbls) (bss # bsss) =
     (''blocks.csv'', block_line tid bid bbl bss) # block_lines tid (bid + 1) bbls bsss"
| "block_lines tid bid _ _ = []"

definition block_bytes :: "memory \<Rightarrow> BBL \<Rightarrow> u8 list list \<Rightarrow> bool" where
  "block_bytes mem bbl bss \<longleftrightarrow> BBL_Ins bbl \<noteq> [] \<and> list_all2 (ins_bytes mem) (BBL_Ins bbl) bss"

lemma encounter_bbl_line:
  assumes "block_bytes mem bbl bss"
  shows "encounter_bbl mem bbl (tid, n) =
    (let tid' = (if tid = 0 then n + 1 else tid) in
     Inr ((tid', n + 1), (if tid = 0 then [(BBL_Address bbl, n + 1)] else []),
          [(''blocks.csv'', block_line tid' (n + 1) bbl bss)]))"
proof -
  let ?b = "fst (new_Block (BBL_Address bbl) n)"
  from assms have ne: "BBL_Ins bbl \<noteq> []" by (simp add: block_bytes_def)
  have "add_instructions mem (butlast (BBL_Ins bbl) @ [last (BBL_Ins bbl)]) ?b =
      Inr (?b\<lparr>b_disasm := b_disasm ?b @ disasm_text (BBL_Ins bbl), b_raw := b_raw ?b @ raw_text bss\<rparr>)"
    using assms add_instructions_text [of mem "BBL_Ins bbl" bss ?b] ne by (simp add: block_bytes_def)
  then have "bind_r (add_instructions mem (butlast (BBL_Ins bbl)) ?b) (add_instruction mem (last (BBL_Ins bbl))) =
      Inr (?b\<lparr>b_disasm := disasm_text (BBL_Ins bbl), b_raw := raw_text bss\<rparr>)"
    unfolding add_instructions_append by (simp add: new_Block_def bind_r_def split: sum.splits)
  then have run: "\<exists>b1. add_instructions mem (butlast (BBL_Ins bbl)) ?b = Inr b1 \<and>
      add_instruction mem (last (BBL_Ins bbl)) b1 = Inr (?b\<lparr>b_disasm := disasm_text (BBL_Ins bbl), b_raw := raw_text bss\<rparr>)"
    by (auto simp: bind_r_eq_Inr)
  then show ?thesis
    by (auto simp: encounter_bbl_def new_Block_def Let_def GetBid_def SetTid_def Block_Serialize_def block_line_def)
qed

lemma encounter_bbls_lines:
  assumes "list_all2 (block_bytes mem) bbls bsss" and "tid \<noteq> 0"
  shows "encounter_bbls mem bbls (tid, n) =
    Inr ((tid, n + word_of_nat (length bbls)), [], block_lines tid (n + 1) bbls bsss)"
  using assms
proof (induction arbitrary: n rule: list_all2_induct)
  case (Cons bbl bbls bss bsss)
  then show ?case by (simp add: encounter_bbl_line Let_def algebra_simps)
qed simp

text \<open>C23. For a trace of the main module \<open>Process_Encounter_Trace\<close> writes one line per basic block, in order, with
  consecutive ids and the id of the first block as the id of all of them, the bytes and the text of all its instructions;
  and it inserts one call only, at the first block, with that id. A trace of another module leaves no mark.\<close>

theorem trace_writes_its_blocks:
  assumes bytes: "list_all2 (block_bytes mem) (TRACE_Bbls trace) bsss"
    and fits: "unat n + length (TRACE_Bbls trace) < 2 ^ 32"
  shows "Process_Encounter_Trace mem img trace n =
    (if TRACE_Bbls trace \<noteq> [] \<and> IsAddrWithinMainModule img (TRACE_Address trace)
     then Inr (n + word_of_nat (length (TRACE_Bbls trace)), [(BBL_Address (hd (TRACE_Bbls trace)), n + 1)],
               block_lines (n + 1) (n + 1) (TRACE_Bbls trace) bsss)
     else Inr (n, [], []))"
proof (cases "TRACE_Bbls trace")
  case Nil
  then show ?thesis by (simp add: Process_Encounter_Trace_def)
next
  case (Cons bbl bbls)
  with bytes obtain bss bsss' where b: "bsss = bss # bsss'" "block_bytes mem bbl bss" "list_all2 (block_bytes mem) bbls bsss'"
    by (auto simp: list_all2_Cons1)
  have "unat (n + 1) \<noteq> 0" using fits Cons by (simp add: unat_word_ariths)
  then have "n + 1 \<noteq> 0" by (metis unat_0)
  then show ?thesis
    using Cons b by (simp add: Process_Encounter_Trace_def encounter_bbl_line encounter_bbls_lines Let_def algebra_simps)
qed

definition example_trace :: TRACE where
  "example_trace = \<lparr>TRACE_Address = 0x1000, TRACE_Bbls = [\<lparr>BBL_Address = 0x1000, BBL_Ins =
     [\<lparr>INS_Address = 0x1000, INS_Size = 1, INS_Disassemble = ''push ebp'', INS_IsMemoryRead = False, INS_HasMemoryRead2 = False,
       INS_IsPrefetch = False, INS_IsMemoryWrite = True, INS_HasFallThrough = True, INS_IsBranchOrCall = False, INS_IsBranch = False,
       INS_IsCall = False, INS_IsRet = False, INS_IsSyscall = False, INS_OperandCount = 1, INS_OperandIsImmediate0 = False,
       INS_OperandImmediate0 = 0\<rparr>]\<rparr>]\<rparr>"

theorem trace_writes_its_blocks_witness:
  "Process_Encounter_Trace [(0x1000, [0x55])] initial_Image_State example_trace 4 =
     Inr (5, [(0x1000, 5)], [(''blocks.csv'', block_line 5 5 (hd (TRACE_Bbls example_trace)) [[0x55]])])"
proof -
  have "list_all2 (block_bytes [(0x1000, [0x55])]) (TRACE_Bbls example_trace) [[[0x55]]]"
    by (simp add: example_trace_def block_bytes_def ins_bytes_def read_byte_def)
  moreover have "unat (4::u32) + length (TRACE_Bbls example_trace) < 2 ^ 32" by (simp add: example_trace_def)
  ultimately have "Process_Encounter_Trace [(0x1000, [0x55])] initial_Image_State example_trace 4 =
    (if TRACE_Bbls example_trace \<noteq> [] \<and> IsAddrWithinMainModule initial_Image_State (TRACE_Address example_trace)
     then Inr (4 + word_of_nat (length (TRACE_Bbls example_trace)), [(BBL_Address (hd (TRACE_Bbls example_trace)), 4 + 1)],
               block_lines (4 + 1) (4 + 1) (TRACE_Bbls example_trace) [[[0x55]]])
     else Inr (4, [], []))"
    by (rule trace_writes_its_blocks)
  then show ?thesis
    by (simp add: example_trace_def IsAddrWithinMainModule_def initial_Image_State_def)
qed

end
