(* ===== verification/Shadow_Stack.thy ===== *)
theory Shadow_Stack
  imports Image
begin

text \<open>
  \<^verbatim>\<open>replay/ShadowStack.h\<close> and \<^verbatim>\<open>ShadowStack.cpp\<close>: a stack of frames per thread, pushed at a call and compared with
  the target of a return. A vector is a list with its back at the end. Location hints come from the images.
\<close>

subsection \<open>Frames and the stack of a thread\<close>

record StackFrame =
  sf_routine_addr :: u32
  sf_return_addr :: u32
  sf_call_addr :: u32
  sf_stack_addr :: u32
  sf_routine_name :: string

definition new_StackFrame :: "Image_State \<Rightarrow> u32 \<Rightarrow> u32 \<Rightarrow> u32 \<Rightarrow> u32 \<Rightarrow> StackFrame" where
  "new_StackFrame img rtn_addr ret_addr call_addr esp =
     \<lparr>sf_routine_addr = rtn_addr, sf_return_addr = ret_addr, sf_call_addr = call_addr, sf_stack_addr = esp,
      sf_routine_name = GetAddrLocationHint img rtn_addr\<rparr>"

record ThreadStack =
  m_frames :: "StackFrame list"
  m_bNtCallbackReturn :: bool

definition new_ThreadStack :: ThreadStack where
  "new_ThreadStack = \<lparr>m_frames = [], m_bNtCallbackReturn = False\<rparr>"

definition Push :: "Image_State \<Rightarrow> u32 \<Rightarrow> u32 \<Rightarrow> u32 \<Rightarrow> u32 \<Rightarrow> ThreadStack \<Rightarrow> ThreadStack" where
  "Push img rtn_addr ret_addr call_addr esp ts =
     ts\<lparr>m_frames := m_frames ts @ [new_StackFrame img rtn_addr ret_addr call_addr esp]\<rparr>"

text \<open>The frame or the exception, and the stack in either case: both branches of the callback clear the flag.
  \<^verbatim>\<open>*m_frames.rbegin ()\<close> of an empty vector is undefined.\<close>

definition Peek :: "ThreadStack \<Rightarrow> (run_error + StackFrame) \<times> ThreadStack" where
  "Peek ts =
     (let top = (\<lambda>ts. if m_frames ts = [] then Inl Invalid_Iterator else Inr (last (m_frames ts))) in
      if m_bNtCallbackReturn ts then
        (if length (m_frames ts) < 3
         then (Inl (Std_Exception ''NtCallbackReturn invoked with empty stack!''), ts\<lparr>m_bNtCallbackReturn := False\<rparr>)
         else let ts' = ts\<lparr>m_frames := butlast (butlast (butlast (m_frames ts))), m_bNtCallbackReturn := False\<rparr>
              in (top ts', ts'))
      else (top ts, ts))"

definition SkipCallback :: "u32 \<Rightarrow> u32 \<Rightarrow> u32 \<Rightarrow> ThreadStack \<Rightarrow> bool \<times> ThreadStack" where
  "SkipCallback return_addr routine_addr stack_addr ts = (False, ts)"

text \<open>The search runs from the back; the result is \<^verbatim>\<open>it - m_frames.rbegin ()\<close>.\<close>

fun upper_frame :: "u32 \<Rightarrow> u32 \<Rightarrow> StackFrame list \<Rightarrow> nat \<Rightarrow> nat option" where
  "upper_frame return_addr stack_addr [] k = None"
| "upper_frame return_addr stack_addr (f # fs) k =
     (if sf_return_addr f = return_addr \<and> sf_stack_addr f = stack_addr + 4 then Some k
      else upper_frame return_addr stack_addr fs (k + 1))"

definition ReturnToUpperFrame :: "u32 \<Rightarrow> u32 \<Rightarrow> ThreadStack \<Rightarrow> bool \<times> ThreadStack" where
  "ReturnToUpperFrame return_addr stack_addr ts =
     (case upper_frame return_addr stack_addr (rev (m_frames ts)) 0 of None \<Rightarrow> (False, ts)
      | Some k \<Rightarrow> (True, ts\<lparr>m_frames := take (length (m_frames ts) - (k + 1)) (m_frames ts)\<rparr>))"

definition Pop :: "ThreadStack \<Rightarrow> ThreadStack" where
  "Pop ts = ts\<lparr>m_frames := butlast (m_frames ts)\<rparr>"

definition Empty :: "ThreadStack \<Rightarrow> bool" where "Empty ts \<longleftrightarrow> m_frames ts = []"

definition NotifyNtCallbackReturn :: "ThreadStack \<Rightarrow> ThreadStack" where
  "NotifyNtCallbackReturn ts = ts\<lparr>m_bNtCallbackReturn := True\<rparr>"

definition display_line :: "nat \<Rightarrow> StackFrame \<Rightarrow> string" where
  "display_line i f = ''[#'' @ pad_left 8 CHR '' '' (fmt_d (word_of_nat i)) @ ''] [0x'' @ fmt_08x (sf_stack_addr f)
     @ '']:[0x'' @ fmt_08x (sf_call_addr f) @ '' - 0x'' @ fmt_08x (sf_return_addr f)
     @ ''] ==> [0x'' @ fmt_08x (sf_routine_addr f) @ ''] '' @ sf_routine_name f @ nl"

definition Display :: "ThreadStack \<Rightarrow> log_calls" where
  "Display ts = concat (map (\<lambda>i.
     [(''call'', if i = length (m_frames ts) - 1 then ''--> '' else ''    ''),
      (''call'', display_line i (m_frames ts ! i))]) [0..<length (m_frames ts)])"

subsection \<open>All threads\<close>

type_synonym thread_stacks = "u32 \<rightharpoonup> ThreadStack"

definition boundary_line :: "Image_State \<Rightarrow> u32 \<Rightarrow> string \<Rightarrow> u32 \<Rightarrow> string \<times> string" where
  "boundary_line img a verb b =
     (''cross_img_boundary'', ''[0x'' @ fmt_08x a @ ''] '' @ pad_left 10 CHR '' '' verb @ '' [0x'' @ fmt_08x b @ '']''
        @ GetAddrLocationHint img b @ nl)"

definition filterCall ::
    "Image_State \<Rightarrow> u32 \<Rightarrow> u32 \<Rightarrow> u32 \<Rightarrow> u32 \<Rightarrow> u32 \<Rightarrow> thread_stacks \<Rightarrow> thread_stacks \<times> log_calls" where
  "filterCall img ins_addr target_addr isize esp tid stacks =
     (let stacks1 = (case stacks tid of None \<Rightarrow> stacks(tid \<mapsto> new_ThreadStack) | Some _ \<Rightarrow> stacks);
          stack = the (stacks1 tid) in
      (stacks1(tid \<mapsto> Push img target_addr (ins_addr + isize) ins_addr esp stack),
       [boundary_line img ins_addr ''call'' target_addr]))"

definition filterBranch :: "u32 \<Rightarrow> u32 \<Rightarrow> thread_stacks \<Rightarrow> thread_stacks" where
  "filterBranch ins_addr target_addr stacks = stacks"

text \<open>The report of a violation, before the frames are displayed.\<close>

definition violation_report :: "StackFrame \<Rightarrow> u32 \<Rightarrow> u32 \<Rightarrow> u32 \<Rightarrow> u32 \<Rightarrow> log_calls" where
  "violation_report item esp target_addr ins_addr tid =
     [(''return'', nl @ ''#########################################'' @ nl),
      (''return'', ''Error: CFI(Control Flow Integrity) violation ! '' @ nl @ nl),
      (''return'', pad_left 16 CHR '' '' ''call'' @ [CHR 0x09] @ ''[0x'' @ fmt_08x (sf_stack_addr item) @ ''] : 0x''
          @ fmt_08x (sf_call_addr item) @ '' --> 0x'' @ fmt_08x (sf_routine_addr item) @ nl),
      (''return'', pad_left 16 CHR '' '' ''return'' @ [CHR 0x09] @ ''[0x'' @ fmt_08x esp @ ''] : 0x''
          @ fmt_08x target_addr @ '' <-- 0x'' @ fmt_08x ins_addr @ nl),
      (''return'', nl),
      (''call'', [CHR 0x09] @ ''Thread '' @ fmt_d tid @ '':'' @ nl)]"

text \<open>The stacks are updated through the pointer, so also when \<open>Peek\<close> throws.\<close>

definition filterReturn ::
    "Image_State \<Rightarrow> u32 \<Rightarrow> u32 \<Rightarrow> u32 \<Rightarrow> u32 \<Rightarrow> u32 \<Rightarrow> thread_stacks
       \<Rightarrow> run_error option \<times> thread_stacks \<times> log_calls" where
  "filterReturn img ins_addr target_addr ret_disp esp tid stacks =
     (let log = [boundary_line img target_addr ''ret'' ins_addr] in
      case stacks tid of None \<Rightarrow> (None, stacks, log)
      | Some stack \<Rightarrow>
        if \<not> Empty stack then
          (case Peek stack of
             (Inl e, stack1) \<Rightarrow> (Some e, stacks(tid \<mapsto> stack1), log)
           | (Inr item, stack1) \<Rightarrow>
               if sf_return_addr item = target_addr then (None, stacks(tid \<mapsto> Pop stack1), log)
               else
                 (case ReturnToUpperFrame target_addr esp stack1 of
                    (True, stack2) \<Rightarrow> (None, stacks(tid \<mapsto> stack2), log)
                  | (False, stack2) \<Rightarrow>
                      (None, stacks(tid \<mapsto> Pop stack2),
                       log @ violation_report item esp target_addr ins_addr tid @ Display stack2)))
        else (None, stacks, log))"

definition ValidRoutineRange :: "u32 \<Rightarrow> u32 \<Rightarrow> bool" where
  "ValidRoutineRange rtn_start rtn_end \<longleftrightarrow> rtn_start XOR rtn_end < 0x00010000"

definition ValidReturnRange :: "u32 \<Rightarrow> u32 \<Rightarrow> bool" where
  "ValidReturnRange ret_start ret_end \<longleftrightarrow> ret_start XOR ret_end < 0x00000010"

definition notifyNtCallbackReturn :: "u32 \<Rightarrow> thread_stacks \<Rightarrow> thread_stacks" where
  "notifyNtCallbackReturn tid stacks =
     (case stacks tid of None \<Rightarrow> stacks | Some stack \<Rightarrow> stacks(tid \<mapsto> NotifyNtCallbackReturn stack))"

subsection \<open>The search for an upper frame\<close>

definition matches :: "u32 \<Rightarrow> u32 \<Rightarrow> StackFrame \<Rightarrow> bool" where
  "matches return_addr esp f \<longleftrightarrow> sf_return_addr f = return_addr \<and> sf_stack_addr f = esp + 4"

lemma upper_frame_None: "upper_frame ra sp fs k = None \<longleftrightarrow> (\<forall>f\<in>set fs. \<not> matches ra sp f)"
  by (induction ra sp fs k rule: upper_frame.induct) (auto simp: matches_def)

lemma upper_frame_first:
  "(\<forall>f\<in>set ys. \<not> matches ra sp f) \<Longrightarrow> matches ra sp f \<Longrightarrow> upper_frame ra sp (ys @ f # zs) k = Some (k + length ys)"
  by (induction ys arbitrary: k) (auto simp: matches_def)

lemma ReturnToUpperFrame_none:
  "\<forall>f\<in>set (m_frames ts). \<not> matches ra sp f \<Longrightarrow> ReturnToUpperFrame ra sp ts = (False, ts)"
  using upper_frame_None [of ra sp "rev (m_frames ts)" 0] by (simp add: ReturnToUpperFrame_def)

lemma ReturnToUpperFrame_cut:
  assumes "m_frames ts = xs @ f # ys" and "matches ra sp f" and "\<forall>g\<in>set ys. \<not> matches ra sp g"
  shows "ReturnToUpperFrame ra sp ts = (True, ts\<lparr>m_frames := xs\<rparr>)"
proof -
  have "upper_frame ra sp (rev (m_frames ts)) 0 = Some (length ys)"
    using upper_frame_first [of "rev ys" ra sp f "rev xs" 0] assms by simp
  then show ?thesis using assms(1) by (simp add: ReturnToUpperFrame_def)
qed

lemma last_match:
  assumes "\<exists>f\<in>set fs. P f"
  shows "\<exists>xs f ys. fs = xs @ f # ys \<and> P f \<and> (\<forall>g\<in>set ys. \<not> P g)"
  using split_list_last_prop [OF assms] by blast

subsection \<open>What a return does\<close>

definition frames_of :: "thread_stacks \<Rightarrow> u32 \<Rightarrow> StackFrame list" where
  "frames_of stacks tid = (case stacks tid of None \<Rightarrow> [] | Some s \<Rightarrow> m_frames s)"

text \<open>No callback is announced for the thread.\<close>

definition quiet :: "thread_stacks \<Rightarrow> u32 \<Rightarrow> bool" where
  "quiet stacks tid \<longleftrightarrow> (\<forall>s. stacks tid = Some s \<longrightarrow> \<not> m_bNtCallbackReturn s)"

definition reports_violation :: "log_calls \<Rightarrow> bool" where
  "reports_violation log \<longleftrightarrow> (''return'', ''Error: CFI(Control Flow Integrity) violation ! '' @ nl @ nl) \<in> set log"

text \<open>The abstract return on a stack of frames: the top frame answers to its return address alone, a frame further down
  also to the stack pointer; when none does the return is a violation and the top frame is dropped all the same.\<close>

definition abstract_return :: "u32 \<Rightarrow> u32 \<Rightarrow> StackFrame list \<Rightarrow> StackFrame list \<Rightarrow> bool \<Rightarrow> bool" where
  "abstract_return target esp fs fs' violation \<longleftrightarrow>
     (fs = [] \<and> fs' = [] \<and> \<not> violation) \<or>
     (fs \<noteq> [] \<and> sf_return_addr (last fs) = target \<and> fs' = butlast fs \<and> \<not> violation) \<or>
     (fs \<noteq> [] \<and> sf_return_addr (last fs) \<noteq> target \<and> \<not> violation \<and>
        (\<exists>f ys. fs = fs' @ f # ys \<and> matches target esp f \<and> (\<forall>g\<in>set ys. \<not> matches target esp g))) \<or>
     (fs \<noteq> [] \<and> sf_return_addr (last fs) \<noteq> target \<and> fs' = butlast fs \<and> violation \<and>
        (\<forall>f\<in>set fs. \<not> matches target esp f))"

lemma no_report [simp]: "\<not> reports_violation [boundary_line img a v b]"
  by (simp add: reports_violation_def boundary_line_def)

lemma report [simp]: "reports_violation (log @ violation_report item esp target ins tid @ rest)"
  by (simp add: reports_violation_def violation_report_def)

lemma filterReturn_step:
  assumes "quiet stacks tid"
  shows "\<exists>stacks' log. filterReturn img ins target disp esp tid stacks = (None, stacks', log) \<and>
    abstract_return target esp (frames_of stacks tid) (frames_of stacks' tid) (reports_violation log) \<and>
    quiet stacks' tid \<and> (\<forall>t. t \<noteq> tid \<longrightarrow> stacks' t = stacks t)"
proof (cases "stacks tid")
  case None
  then show ?thesis by (simp add: filterReturn_def Let_def frames_of_def abstract_return_def quiet_def)
next
  case (Some s)
  with assms have flag: "\<not> m_bNtCallbackReturn s" by (simp add: quiet_def)
  show ?thesis
  proof (cases "m_frames s = []")
    case True
    with Some assms show ?thesis
      by (simp add: filterReturn_def Let_def Empty_def frames_of_def abstract_return_def)
  next
    case False
    then have peek: "Peek s = (Inr (last (m_frames s)), s)" using flag by (simp add: Peek_def Let_def)
    show ?thesis
    proof (cases "sf_return_addr (last (m_frames s)) = target")
      case True
      with Some False flag peek show ?thesis
        by (simp add: filterReturn_def Let_def Empty_def frames_of_def abstract_return_def quiet_def Pop_def)
    next
      case miss: False
      show ?thesis
      proof (cases "\<exists>f\<in>set (m_frames s). matches target esp f")
        case True
        then obtain xs f ys where split: "m_frames s = xs @ f # ys" "matches target esp f"
          "\<forall>g\<in>set ys. \<not> matches target esp g" using last_match [OF True] by blast
        then have "abstract_return target esp (m_frames s) xs False"
          unfolding abstract_return_def using False miss by blast
        moreover note ReturnToUpperFrame_cut [OF split]
        ultimately show ?thesis
          using Some False flag peek miss
          by (simp add: filterReturn_def Let_def Empty_def frames_of_def quiet_def)
      next
        case none: False
        then have "abstract_return target esp (m_frames s) (butlast (m_frames s)) True"
          unfolding abstract_return_def using False miss by blast
        moreover have "ReturnToUpperFrame target esp s = (False, s)" using none by (simp add: ReturnToUpperFrame_none)
        ultimately show ?thesis
          using Some False flag peek miss report [of "[_]"]
          by (simp add: filterReturn_def Let_def Empty_def frames_of_def quiet_def Pop_def)
      qed
    qed
  qed
qed

lemma filterCall_step:
  assumes "filterCall img ins target isize esp tid stacks = (stacks', log)"
  shows "frames_of stacks' = (frames_of stacks)(tid := frames_of stacks tid @
      [new_StackFrame img target (ins + isize) ins esp]) \<and> \<not> reports_violation log \<and>
    (quiet stacks t \<longrightarrow> quiet stacks' t)"
proof -
  let ?s = "case stacks tid of None \<Rightarrow> new_ThreadStack | Some s \<Rightarrow> s"
  from assms have s: "stacks' = stacks(tid \<mapsto> Push img target (ins + isize) ins esp ?s)"
    and log: "log = [boundary_line img ins ''call'' target]"
    by (cases "stacks tid"; simp add: filterCall_def Let_def; blast)+
  have "m_frames ?s = frames_of stacks tid" by (simp add: frames_of_def new_ThreadStack_def split: option.split)
  then have "frames_of stacks' = (frames_of stacks)(tid := frames_of stacks tid @
      [new_StackFrame img target (ins + isize) ins esp])"
    unfolding s by (simp add: fun_eq_iff frames_of_def Push_def)
  moreover have "quiet stacks t \<longrightarrow> quiet stacks' t"
    unfolding s by (cases "stacks tid") (auto simp: quiet_def Push_def new_ThreadStack_def)
  ultimately show ?thesis by (simp add: log)
qed

subsection \<open>Sequences of events\<close>

text \<open>A call, a return and the announcement of a callback, with the arguments the handlers get.\<close>

datatype ss_event = Ev_Call u32 u32 u32 u32 u32 | Ev_Return u32 u32 u32 u32 u32 | Ev_Callback u32

fun ev_tid :: "ss_event \<Rightarrow> u32" where
  "ev_tid (Ev_Call ins target isize esp tid) = tid"
| "ev_tid (Ev_Return ins target disp esp tid) = tid"
| "ev_tid (Ev_Callback tid) = tid"

fun is_callback :: "ss_event \<Rightarrow> bool" where
  "is_callback (Ev_Callback tid) = True"
| "is_callback _ = False"

fun ss_step :: "Image_State \<Rightarrow> ss_event \<Rightarrow> thread_stacks \<Rightarrow> run_error option \<times> thread_stacks \<times> log_calls" where
  "ss_step img (Ev_Call ins target isize esp tid) stacks =
     (case filterCall img ins target isize esp tid stacks of (stacks', log) \<Rightarrow> (None, stacks', log))"
| "ss_step img (Ev_Return ins target disp esp tid) stacks = filterReturn img ins target disp esp tid stacks"
| "ss_step img (Ev_Callback tid) stacks = (None, notifyNtCallbackReturn tid stacks, [])"

text \<open>The log is kept by event.\<close>

fun ss_run :: "Image_State \<Rightarrow> ss_event list \<Rightarrow> thread_stacks \<Rightarrow> run_error option \<times> thread_stacks \<times> log_calls list" where
  "ss_run img [] stacks = (None, stacks, [])"
| "ss_run img (e # es) stacks =
     (case ss_step img e stacks of
        (Some err, stacks', log) \<Rightarrow> (Some err, stacks', [log])
      | (None, stacks', log) \<Rightarrow> (case ss_run img es stacks' of (r, s, logs) \<Rightarrow> (r, s, log # logs)))"

lemma ss_run_append:
  "ss_run img xs s = (None, s1, l1) \<Longrightarrow> ss_run img ys s1 = (None, s2, l2) \<Longrightarrow>
   ss_run img (xs @ ys) s = (None, s2, l1 @ l2)"
  by (induction xs arbitrary: s l1) (auto split: prod.splits option.splits)

text \<open>The same on stacks of frames alone, with a flag for a violation.\<close>

inductive abs_step :: "Image_State \<Rightarrow> ss_event \<Rightarrow> (u32 \<Rightarrow> StackFrame list) \<Rightarrow> bool \<Rightarrow> (u32 \<Rightarrow> StackFrame list) \<Rightarrow> bool"
  for img where
  abs_call: "abs_step img (Ev_Call ins target isize esp tid) fs False
     (fs(tid := fs tid @ [new_StackFrame img target (ins + isize) ins esp]))"
| abs_return: "abstract_return target esp (fs tid) fr v \<Longrightarrow>
     abs_step img (Ev_Return ins target disp esp tid) fs v (fs(tid := fr))"

inductive abs_run :: "Image_State \<Rightarrow> ss_event list \<Rightarrow> (u32 \<Rightarrow> StackFrame list) \<Rightarrow> bool list \<Rightarrow> (u32 \<Rightarrow> StackFrame list) \<Rightarrow> bool"
  for img where
  abs_run_Nil: "abs_run img [] fs [] fs"
| abs_run_Cons: "abs_step img e fs v fs1 \<Longrightarrow> abs_run img es fs1 vs fs2 \<Longrightarrow> abs_run img (e # es) fs (v # vs) fs2"

lemma ss_step_refines:
  assumes q: "\<And>t. quiet stacks t" and e: "\<not> is_callback e"
  shows "\<exists>stacks' log. ss_step img e stacks = (None, stacks', log) \<and> (\<forall>t. quiet stacks' t) \<and>
    abs_step img e (frames_of stacks) (reports_violation log) (frames_of stacks')"
proof (cases e)
  case (Ev_Call ins target isize esp tid)
  obtain stacks' log where c: "filterCall img ins target isize esp tid stacks = (stacks', log)" by fastforce
  from filterCall_step [OF c] q Ev_Call c show ?thesis
    using abs_call [of img ins target isize esp tid "frames_of stacks"] by auto
next
  case (Ev_Return ins target disp esp tid)
  from filterReturn_step [OF q, of img ins target disp esp tid] obtain stacks' log where
    r: "filterReturn img ins target disp esp tid stacks = (None, stacks', log)"
      "abstract_return target esp (frames_of stacks tid) (frames_of stacks' tid) (reports_violation log)"
      "quiet stacks' tid" "\<And>t. t \<noteq> tid \<Longrightarrow> stacks' t = stacks t" by blast
  have "quiet stacks' t" for t using r(3,4) q [of t] by (cases "t = tid") (auto simp: quiet_def)
  moreover have "frames_of stacks' = (frames_of stacks)(tid := frames_of stacks' tid)"
    using r(4) by (auto simp: fun_eq_iff frames_of_def)
  ultimately show ?thesis using abs_return [where fs = "frames_of stacks" and tid = tid, OF r(2)] r(1) Ev_Return
    by (metis ss_step.simps(2))
qed (use e in simp)

lemma ss_run_refines:
  assumes "\<And>t. quiet stacks t" and "\<And>e. e \<in> set es \<Longrightarrow> \<not> is_callback e"
  shows "\<exists>stacks' logs. ss_run img es stacks = (None, stacks', logs) \<and> (\<forall>t. quiet stacks' t) \<and>
    abs_run img es (frames_of stacks) (map reports_violation logs) (frames_of stacks')"
  using assms
proof (induction es arbitrary: stacks)
  case Nil
  then show ?case by (auto intro: abs_run_Nil)
next
  case (Cons e es)
  have "\<not> is_callback e" using Cons.prems(2) by simp
  from ss_step_refines [OF Cons.prems(1) this] obtain s1 log where
    1: "ss_step img e stacks = (None, s1, log)" "\<And>t. quiet s1 t"
       "abs_step img e (frames_of stacks) (reports_violation log) (frames_of s1)" by blast
  from Cons.IH [OF 1(2)] Cons.prems(2) obtain s2 logs where
    2: "ss_run img es s1 = (None, s2, logs)" "\<forall>t. quiet s2 t"
       "abs_run img es (frames_of s1) (map reports_violation logs) (frames_of s2)" by (meson list.set_intros(2))
  with 1 show ?case by (auto intro: abs_run_Cons)
qed

text \<open>C7. Without callbacks every sequence of calls and returns runs without an error, and the stacks and the reports it
  gives are those of the abstract stacks: a return pops the top frame when the target is its return address, otherwise
  unwinds below the topmost frame that has the target and the stack pointer, otherwise is reported as a violation and
  drops the top frame; no step touches another thread's stack.\<close>

theorem shadow_stack_refines:
  assumes "\<And>e. e \<in> set es \<Longrightarrow> \<not> is_callback e"
  shows "\<exists>stacks logs. ss_run img es (\<lambda>_. None) = (None, stacks, logs) \<and>
    abs_run img es (\<lambda>_. []) (map reports_violation logs) (frames_of stacks)"
proof -
  have "frames_of (\<lambda>_. None) = (\<lambda>_. [])" by (simp add: frames_of_def fun_eq_iff)
  with ss_run_refines [of "\<lambda>_. None" es img] assms show ?thesis by (auto simp: quiet_def)
qed

theorem shadow_stack_refines_witness:
  "\<exists>stacks logs. ss_run initial_Image_State [Ev_Call 0x1000 0x2000 5 0x100 1, Ev_Return 0x2010 0x1005 0 0xFC 1] (\<lambda>_. None)
     = (None, stacks, logs) \<and>
   abs_run initial_Image_State [Ev_Call 0x1000 0x2000 5 0x100 1, Ev_Return 0x2010 0x1005 0 0xFC 1]
     (\<lambda>_. []) (map reports_violation logs) (frames_of stacks)"
  by (rule shadow_stack_refines) auto

text \<open>Calls and returns of a thread that match, with anything other threads do in between.\<close>

inductive balanced :: "u32 \<Rightarrow> ss_event list \<Rightarrow> bool" for tid where
  bal_Nil: "balanced tid []"
| bal_other: "ev_tid e \<noteq> tid \<Longrightarrow> \<not> is_callback e \<Longrightarrow> balanced tid [e]"
| bal_append: "balanced tid xs \<Longrightarrow> balanced tid ys \<Longrightarrow> balanced tid (xs @ ys)"
| bal_call: "balanced tid es \<Longrightarrow>
    balanced tid (Ev_Call ins target isize esp tid # es @ [Ev_Return ins' (ins + isize) disp esp' tid])"

definition no_reports_for :: "u32 \<Rightarrow> ss_event list \<Rightarrow> log_calls list \<Rightarrow> bool" where
  "no_reports_for tid es logs \<longleftrightarrow> list_all2 (\<lambda>e log. ev_tid e = tid \<longrightarrow> \<not> reports_violation log) es logs"

lemma abs_step_other: "abs_step img e fs v fs' \<Longrightarrow> ev_tid e \<noteq> tid \<Longrightarrow> fs' tid = fs tid"
  by (induction rule: abs_step.induct) auto

lemma balanced_run:
  assumes "balanced tid es" and "\<And>t. quiet stacks t"
  shows "\<exists>stacks' logs. ss_run img es stacks = (None, stacks', logs) \<and> (\<forall>t. quiet stacks' t) \<and>
    frames_of stacks' tid = frames_of stacks tid \<and> no_reports_for tid es logs"
  using assms
proof (induction arbitrary: stacks rule: balanced.induct)
  case (bal_other e)
  from ss_step_refines [OF bal_other.prems bal_other.hyps(2)] obtain s1 log where
    1: "ss_step img e stacks = (None, s1, log)" "\<forall>t. quiet s1 t"
       "abs_step img e (frames_of stacks) (reports_violation log) (frames_of s1)" by blast
  from abs_step_other [OF 1(3) bal_other.hyps(1)] 1 bal_other.hyps(1) show ?case
    by (simp add: no_reports_for_def)
next
  case (bal_append xs ys)
  from bal_append.IH(1) [OF bal_append.prems] obtain s1 l1 where
    1: "ss_run img xs stacks = (None, s1, l1)" "\<And>t. quiet s1 t" "frames_of s1 tid = frames_of stacks tid"
      "no_reports_for tid xs l1" by blast
  from bal_append.IH(2) [OF 1(2)] obtain s2 l2 where
    2: "ss_run img ys s1 = (None, s2, l2)" "\<forall>t. quiet s2 t" "frames_of s2 tid = frames_of s1 tid"
      "no_reports_for tid ys l2" by blast
  show ?case using ss_run_append [OF 1(1) 2(1)] 1 2 by (auto simp: no_reports_for_def intro: list_all2_appendI)
next
  case (bal_call es ins target isize esp ins' disp esp')
  let ?f = "new_StackFrame img target (ins + isize) ins esp"
  obtain s1 l1 where c: "filterCall img ins target isize esp tid stacks = (s1, l1)" by fastforce
  note call = filterCall_step [OF c]
  then have "quiet s1 t" for t using bal_call.prems by blast
  from bal_call.IH [OF this] obtain s2 l2 where
    2: "ss_run img es s1 = (None, s2, l2)" "\<And>t. quiet s2 t" "frames_of s2 tid = frames_of s1 tid"
      "no_reports_for tid es l2" by blast
  then have top: "frames_of s2 tid = frames_of stacks tid @ [?f]" using call by simp
  from filterReturn_step [OF 2(2), of img ins' "ins + isize" disp esp' tid] obtain s3 l3 where
    3: "filterReturn img ins' (ins + isize) disp esp' tid s2 = (None, s3, l3)"
      "abstract_return (ins + isize) esp' (frames_of s2 tid) (frames_of s3 tid) (reports_violation l3)"
      "quiet s3 tid" "\<And>t. t \<noteq> tid \<Longrightarrow> s3 t = s2 t" by blast
  have "sf_return_addr ?f = ins + isize" by (simp add: new_StackFrame_def)
  with 3(2) top have "frames_of s3 tid = frames_of stacks tid \<and> \<not> reports_violation l3"
    by (auto simp: abstract_return_def)
  moreover have "quiet s3 t" for t using 3(3,4) 2(2) [of t] by (cases "t = tid") (auto simp: quiet_def)
  moreover have "ss_run img (es @ [Ev_Return ins' (ins + isize) disp esp' tid]) s1 = (None, s3, l2 @ [l3])"
    using ss_run_append [OF 2(1)] 3(1) by simp
  ultimately show ?case using c call 2(4) by (auto simp: no_reports_for_def intro: list_all2_appendI)
qed (auto simp: no_reports_for_def)

text \<open>C27. Calls and returns that match leave the thread's stack as it was and report no violation for it, whatever other
  threads do in between.\<close>

theorem balanced_calls_restore_the_stack:
  assumes "balanced tid es" and "\<And>t. quiet stacks t"
  shows "\<exists>stacks' logs. ss_run img es stacks = (None, stacks', logs) \<and>
    frames_of stacks' tid = frames_of stacks tid \<and> no_reports_for tid es logs"
  using balanced_run [OF assms] by blast

theorem balanced_calls_restore_the_stack_witness:
  "\<exists>stacks' logs. ss_run initial_Image_State ([Ev_Call 0x1000 0x2000 5 0x100 1] @ [Ev_Call 0x5000 0x6000 2 0x300 2] @
     [Ev_Return 0x2010 (0x1000 + 5) 0 0xFC 1]) (\<lambda>_. None) = (None, stacks', logs) \<and> frames_of stacks' 1 = []"
proof -
  have "balanced 1 [Ev_Call 0x5000 0x6000 2 0x300 2]" by (rule bal_other) auto
  from bal_call [OF this, of "0x1000" "0x2000" 5 "0x100" "0x2010" 0 "0xFC"]
  have b: "balanced 1 (Ev_Call 0x1000 0x2000 5 0x100 1 # [Ev_Call 0x5000 0x6000 2 0x300 2] @
     [Ev_Return 0x2010 (0x1000 + 5) 0 0xFC 1])" .
  have q: "quiet (\<lambda>_. None) t" for t by (simp add: quiet_def)
  from balanced_calls_restore_the_stack [OF b q, of initial_Image_State] show ?thesis
    by (auto simp: frames_of_def simp del: ss_run.simps)
qed

text \<open>C39. A return right after an announced callback drops the three topmost frames first; with fewer than three it throws
  and clears the announcement, and with exactly three it reads the back of an empty vector.\<close>

theorem return_after_callback:
  assumes "stacks tid = Some stack" and "m_frames stack \<noteq> []"
    and announced: "stacks1 = notifyNtCallbackReturn tid stacks"
    and ret: "filterReturn img ins target disp esp tid stacks1 = (r, stacks2, log)"
  shows "(length (m_frames stack) < 3 \<longrightarrow>
      r = Some (Std_Exception ''NtCallbackReturn invoked with empty stack!'') \<and>
      stacks2 = stacks(tid \<mapsto> stack\<lparr>m_bNtCallbackReturn := False\<rparr>)) \<and>
    (length (m_frames stack) = 3 \<longrightarrow> r = Some Invalid_Iterator) \<and>
    (length (m_frames stack) > 3 \<longrightarrow> r = None \<and>
      (\<exists>log'. filterReturn img ins target disp esp tid (stacks(tid \<mapsto> stack\<lparr>m_frames :=
          take (length (m_frames stack) - 3) (m_frames stack), m_bNtCallbackReturn := False\<rparr>)) = (None, stacks2, log')))"
proof -
  let ?n = "length (m_frames stack)"
  have three: "butlast (butlast (butlast (m_frames stack))) = take (?n - 3) (m_frames stack)"
    by (simp add: butlast_conv_take min_def numeral_eq_Suc)
  have s1: "stacks1 = stacks(tid \<mapsto> stack\<lparr>m_bNtCallbackReturn := True\<rparr>)"
    using assms by (simp add: notifyNtCallbackReturn_def NotifyNtCallbackReturn_def)
  show ?thesis
    using ret assms(2) unfolding s1 filterReturn_def Let_def Empty_def Peek_def
    by (auto simp: three split: prod.splits if_splits bool.splits)
qed

theorem return_after_callback_witness:
  "fst (filterReturn initial_Image_State 0x2010 0x1005 0 0xFC 1 (notifyNtCallbackReturn 1
     [1 \<mapsto> \<lparr>m_frames = [new_StackFrame initial_Image_State 0x2000 0x1005 0x1000 0x100], m_bNtCallbackReturn = False\<rparr>]))
   = Some (Std_Exception ''NtCallbackReturn invoked with empty stack!'')"
proof -
  let ?stack = "\<lparr>m_frames = [new_StackFrame initial_Image_State 0x2000 0x1005 0x1000 0x100], m_bNtCallbackReturn = False\<rparr>"
  obtain r s l where run: "filterReturn initial_Image_State 0x2010 0x1005 0 0xFC 1
      (notifyNtCallbackReturn 1 [1 \<mapsto> ?stack]) = (r, s, l)" by (metis prod_cases3)
  have "[1 \<mapsto> ?stack] 1 = Some ?stack" and "m_frames ?stack \<noteq> []" by simp_all
  from return_after_callback [OF this refl run] run show ?thesis by simp
qed

end
