(* ===== verification/Instrument.thy ===== *)
theory Instrument
  imports Blocks Shadow_Stack
begin

text \<open>
  \<^verbatim>\<open>replay/REProgramInfo.h\<close>, \<^verbatim>\<open>REProgramInfo.cpp\<close>: which calls are inserted at an
  instruction and what the inserted routines do when they run. The routines of the frames and
  blocks are in the theories of those names.
\<close>

subsection \<open>The filters\<close>

definition FILTER_MAIN_MODULE :: "Config \<Rightarrow> Image_State \<Rightarrow> string \<Rightarrow> u32 \<Rightarrow> bool" where
  "FILTER_MAIN_MODULE cfg img entry addr \<longleftrightarrow> \<not> WithinMainModule cfg entry \<or> IsAddrWithinMainModule img addr"

definition FILTER_CODE_SECTION :: "Config \<Rightarrow> Image_State \<Rightarrow> string \<Rightarrow> u32 \<Rightarrow> bool" where
  "FILTER_CODE_SECTION cfg img entry addr \<longleftrightarrow> \<not> WithinCodeSection cfg entry \<or> image_IsAddrCode img addr"

definition FILTER_MAIN_MODULE_AND_CODE_SECTION :: "Config \<Rightarrow> Image_State \<Rightarrow> string \<Rightarrow> u32 \<Rightarrow> bool" where
  "FILTER_MAIN_MODULE_AND_CODE_SECTION cfg img entry addr \<longleftrightarrow>
     FILTER_MAIN_MODULE cfg img entry addr \<and> FILTER_CODE_SECTION cfg img entry addr"

definition FILTER_CONFIG :: "Config \<Rightarrow> Image_State \<Rightarrow> string \<Rightarrow> u32 \<Rightarrow> bool" where
  "FILTER_CONFIG cfg img entry addr \<longleftrightarrow>
     IsEntryEnabled cfg entry \<and> FILTER_MAIN_MODULE_AND_CODE_SECTION cfg img entry addr"

subsection \<open>Calls inserted at an instruction\<close>

datatype IPOINT = IPOINT_BEFORE | IPOINT_AFTER | IPOINT_TAKEN_BRANCH
datatype EA = IARG_MEMORYREAD_EA | IARG_MEMORYREAD2_EA

text \<open>The routine with the arguments fixed when it is inserted; the others are supplied by Pin when it runs. A thread id is
  not among them: \<^verbatim>\<open>IARG_UINT32, IARG_THREAD_ID\<close> passes the number of the enumeration constant.\<close>

datatype analysis_routine =
    Ana_Read_Before EA bool string
  | Ana_Write_Before bool
  | Ana_Write_After
  | Ana_Branch
  | Ana_Call u32
  | Ana_Return u32
  | Ana_Syscall u32
  | Ana_Normal_Instruction string u32

text \<open>Where, whether predicated (\<^verbatim>\<open>INS_InsertPredicatedCall\<close>), and what.\<close>

type_synonym inserted_call = "IPOINT \<times> bool \<times> analysis_routine"

definition insert_reads :: "Config \<Rightarrow> Image_State \<Rightarrow> INS \<Rightarrow> inserted_call list" where
  "insert_reads cfg img ins =
     (if FILTER_CONFIG cfg img ''mem_rd_before'' (INS_Address ins) then
        (if INS_IsMemoryRead ins then
           (if INS_HasMemoryRead2 ins
            then [(IPOINT_BEFORE, True, Ana_Read_Before IARG_MEMORYREAD2_EA (INS_IsPrefetch ins) (INS_Disassemble ins))]
            else [])
           @ [(IPOINT_BEFORE, True, Ana_Read_Before IARG_MEMORYREAD_EA (INS_IsPrefetch ins) (INS_Disassemble ins))]
         else [])
      else [])"

definition insert_writes :: "Config \<Rightarrow> Image_State \<Rightarrow> INS \<Rightarrow> inserted_call list" where
  "insert_writes cfg img ins =
     (if INS_IsMemoryWrite ins then
        (if FILTER_CONFIG cfg img ''mem_wr_before'' (INS_Address ins)
         then [(IPOINT_BEFORE, True, Ana_Write_Before (INS_IsPrefetch ins))] else [])
        @ (if FILTER_CONFIG cfg img ''mem_wr_after'' (INS_Address ins)
           then (if INS_HasFallThrough ins then [(IPOINT_AFTER, False, Ana_Write_After)] else [])
                @ (if INS_IsBranchOrCall ins then [(IPOINT_TAKEN_BRANCH, False, Ana_Write_After)] else [])
           else [])
      else [])"

definition insert_control_flow :: "Config \<Rightarrow> Image_State \<Rightarrow> INS \<Rightarrow> inserted_call list" where
  "insert_control_flow cfg img ins =
     (if INS_IsBranch ins then
        (if FILTER_CONFIG cfg img ''branch'' (INS_Address ins) then [(IPOINT_BEFORE, False, Ana_Branch)] else [])
      else if INS_IsCall ins then
        (if FILTER_CONFIG cfg img ''call'' (INS_Address ins) \<or> FILTER_CONFIG cfg img ''cross_img_boundary'' (INS_Address ins)
         then [(IPOINT_BEFORE, False, Ana_Call (INS_Size ins))] else [])
      else if INS_IsRet ins then
        (if FILTER_CONFIG cfg img ''return'' (INS_Address ins) \<or> FILTER_CONFIG cfg img ''cross_img_boundary'' (INS_Address ins)
         then [(IPOINT_BEFORE, False, Ana_Return
                 (if INS_OperandCount ins > 0 \<and> INS_OperandIsImmediate0 ins then INS_OperandImmediate0 ins else 0))]
         else [])
      else if INS_IsSyscall ins then [(IPOINT_BEFORE, False, Ana_Syscall (INS_Size ins))]
      else [])"

definition insert_normal :: "Config \<Rightarrow> Image_State \<Rightarrow> INS \<Rightarrow> inserted_call list" where
  "insert_normal cfg img ins =
     (if FILTER_CONFIG cfg img ''insn_normal'' (INS_Address ins)
      then [(IPOINT_BEFORE, False, Ana_Normal_Instruction (INS_Disassemble ins) (INS_Size ins))] else [])"

definition Process_Encounter_Insn :: "Config \<Rightarrow> Image_State \<Rightarrow> INS \<Rightarrow> inserted_call list" where
  "Process_Encounter_Insn cfg img ins =
     insert_reads cfg img ins @ insert_writes cfg img ins @ insert_control_flow cfg img ins @ insert_normal cfg img ins"

definition Process_Encounter_Image ::
    "(string \<Rightarrow> string \<Rightarrow> bool) \<Rightarrow> memory \<Rightarrow> IMG \<Rightarrow> Image_State \<Rightarrow> (run_error + Image_State \<times> log_calls) option" where
  "Process_Encounter_Image iequals mem pin_img st = AppendImage iequals mem pin_img st"

text \<open>Its body is commented out.\<close>

definition Process_Encounter_Rtn :: "RTN \<Rightarrow> inserted_call list" where
  "Process_Encounter_Rtn rtn = []"

definition Process_Encounter_Finalize :: log_action where
  "Process_Encounter_Finalize st = Logger_Finalize st"

subsection \<open>The routines when they run\<close>

record REProgramInfo =
  m_name :: string
  m_write_inst_addr :: u32
  m_write_target :: u32
  m_write_size :: u32

definition new_REProgramInfo :: "string \<Rightarrow> REProgramInfo" where
  "new_REProgramInfo name = \<lparr>m_name = name, m_write_inst_addr = 0, m_write_target = 0, m_write_size = 0\<rparr>"

text \<open>Whether the application is told to exit, given whether it is exiting already.\<close>

definition ExitProcess :: "bool \<Rightarrow> bool" where
  "ExitProcess is_exiting = (if \<not> is_exiting then True else False)"

text \<open>\<^verbatim>\<open>value = 0; memcpy (&value, target, size)\<close> for a size of at most four.\<close>

fun read_value :: "memory \<Rightarrow> u32 \<Rightarrow> nat \<Rightarrow> run_error + u32" where
  "read_value mem a 0 = Inr 0"
| "read_value mem a (Suc n) =
     bind_r (read_byte mem a) (\<lambda>b. bind_r (read_value mem (a + 1) n) (\<lambda>v. Inr (ucast b OR push_bit 8 v)))"

definition verb16 :: "string \<Rightarrow> u32 \<Rightarrow> u32 \<Rightarrow> u32 \<Rightarrow> string" where
  "verb16 verb ins_addr target isize = ''[0x'' @ fmt_08x ins_addr @ '']: '' @ pad_left 16 CHR '' '' verb @ '' [0x''
     @ fmt_08x target @ ''] '' @ fmt_d isize @ '' bytes ''"

definition Process_Instrument_Read_Before ::
    "memory \<Rightarrow> Image_State \<Rightarrow> u32 \<Rightarrow> u32 \<Rightarrow> u32 \<Rightarrow> string \<Rightarrow> run_error + log_calls" where
  "Process_Instrument_Read_Before mem img ins_addr target isize disasm =
     (if image_IsAddrCode img target then
        (if isize \<le> 4 then
           bind_r (read_value mem target (unat isize)) (\<lambda>v.
           Inr [(''mem_rd_before'', verb16 ''Read from'' ins_addr target isize @ ''[0x'' @ fmt_08x v @ ''], '' @ disasm @ nl)])
         else
           bind_r (DumpBinaryAround mem img target isize) (\<lambda>dump.
           Inr ((''mem_rd_before'', verb16 ''Read from'' ins_addr target isize @ ''-- '' @ disasm @ nl) # dump)))
      else Inr [])"

definition Process_Instrument_Write_Before ::
    "memory \<Rightarrow> Image_State \<Rightarrow> u32 \<Rightarrow> u32 \<Rightarrow> u32 \<Rightarrow> REProgramInfo \<Rightarrow> run_error + REProgramInfo \<times> log_calls" where
  "Process_Instrument_Write_Before mem img ins_addr target isize p =
     (let p1 = p\<lparr>m_write_inst_addr := ins_addr, m_write_target := target, m_write_size := isize\<rparr> in
      if image_IsAddrCode img target then
        (if isize \<le> 4 then
           bind_r (read_value mem target (unat isize)) (\<lambda>v.
           Inr (p1, [(''mem_wr_before'', verb16 ''Before Write to'' ins_addr target isize @ ''[0x'' @ fmt_08x v @ '']'' @ nl)]))
         else
           bind_r (DumpBinaryAround mem img target isize) (\<lambda>dump.
           Inr (p1, (''mem_wr_before'', verb16 ''Before Write to'' ins_addr target isize @ ''--'' @ nl) # dump)))
      else Inr (p1, []))"

definition Process_Instrument_Write_After :: "memory \<Rightarrow> Image_State \<Rightarrow> REProgramInfo \<Rightarrow> run_error + log_calls" where
  "Process_Instrument_Write_After mem img p =
     (if image_IsAddrCode img (m_write_target p) then
        (if m_write_size p \<le> 4 then
           bind_r (read_value mem (m_write_target p) (unat (m_write_size p))) (\<lambda>v.
           Inr [(''mem_wr_after'', verb16 ''After Write to'' (m_write_inst_addr p) (m_write_target p) (m_write_size p)
                   @ ''[0x'' @ fmt_08x v @ '']'' @ nl)])
         else
           bind_r (DumpBinaryAround mem img (m_write_target p) (m_write_size p)) (\<lambda>dump.
           Inr ((''mem_wr_after'', verb16 ''After Write to'' (m_write_inst_addr p) (m_write_target p) (m_write_size p)
                   @ ''--'' @ nl) # dump)))
      else Inr [])"

text \<open>The report and the dumps of an unexpected target, and whether the application is told to exit.\<close>

definition abnormal_control_flow ::
    "memory \<Rightarrow> Image_State \<Rightarrow> string \<Rightarrow> u32 \<Rightarrow> u32 \<Rightarrow> bool \<Rightarrow> run_error + log_calls \<times> bool" where
  "abnormal_control_flow mem img kind ins_addr target is_exiting =
     bind_r (DumpBinaryAround mem img ins_addr 0x80) (\<lambda>dump1.
     bind_r (DumpBinaryAround mem img target 0x80) (\<lambda>dump2.
     Inr ([(''abnormal_control_flow'', ''Invalid '' @ kind @ '' from [0x'' @ fmt_08x ins_addr @ ''] to [0x''
             @ fmt_08x target @ '']'' @ nl)] @ dump1 @ dump2 @ DumpDisasmAround ins_addr, ExitProcess is_exiting)))"

definition Process_Instrument_Call ::
    "memory \<Rightarrow> Image_State \<Rightarrow> u32 \<Rightarrow> u32 \<Rightarrow> u32 \<Rightarrow> u32 \<Rightarrow> u32 \<Rightarrow> bool \<Rightarrow> run_error + log_calls \<times> bool" where
  "Process_Instrument_Call mem img ins_addr target isize esp tid is_exiting =
     (if IsAddrWithinMainModule img ins_addr \<and> \<not> verifyControlFlowTarget img target
      then abnormal_control_flow mem img ''Call'' ins_addr target is_exiting
      else Inr ([], False))"

definition Process_Instrument_Branch ::
    "Config \<Rightarrow> memory \<Rightarrow> Image_State \<Rightarrow> u32 \<Rightarrow> u32 \<Rightarrow> bool \<Rightarrow> bool \<Rightarrow> run_error + log_calls \<times> bool" where
  "Process_Instrument_Branch cfg mem img ins_addr target taken is_exiting =
     (let log1 = (if taken \<and> IsEntryEnabled cfg ''branch''
                  then [(''branch'', ''[0x'' @ fmt_08x ins_addr @ '']: '' @ pad_left 10 CHR '' '' ''branch'' @ '' loc_0x''
                           @ fmt_08x target @ nl)] else []) in
      if taken \<and> IsAddrWithinMainModule img ins_addr \<and> \<not> verifyControlFlowTarget img target
      then bind_r (abnormal_control_flow mem img ''Branch'' ins_addr target is_exiting) (\<lambda>(log2, exits).
           Inr (log1 @ log2, exits))
      else Inr (log1, False))"

text \<open>Everything in the bodies of the next two is commented out.\<close>

definition Process_Instrument_Return :: "u32 \<Rightarrow> u32 \<Rightarrow> u32 \<Rightarrow> u32 \<Rightarrow> u32 \<Rightarrow> log_calls" where
  "Process_Instrument_Return ins_addr target ret_disp esp tid = []"

definition Process_Instrument_Syscall :: "u32 \<Rightarrow> u32 \<Rightarrow> u32 \<Rightarrow> u32 \<Rightarrow> u32 \<Rightarrow> log_calls" where
  "Process_Instrument_Syscall ins_addr isize edx ecx tid = []"

definition Process_Instrument_Normal_Instruction :: "memory \<Rightarrow> u32 \<Rightarrow> string \<Rightarrow> u32 \<Rightarrow> run_error + log_calls" where
  "Process_Instrument_Normal_Instruction mem ins_addr disasm len =
     bind_r (raw_bytes mem ins_addr (unat len) 0) (\<lambda>raw.
     Inr [(''insn_normal'', ''0x'' @ fmt_08x ins_addr @ '' : '' @ pad_left 30 CHR '' '' raw @ [CHR 0x09, CHR 0x09]
             @ disasm @ nl)])"

text \<open>The entry points that unpack what Pin passes.\<close>

definition Instrument_Syscall :: "u32 \<Rightarrow> u32 \<Rightarrow> RE_CONTEXT \<Rightarrow> u32 \<Rightarrow> log_calls" where
  "Instrument_Syscall ins_addr isize ctx tid = Process_Instrument_Syscall ins_addr isize (m_edx ctx) (m_ecx ctx) tid"

definition Instrument_Call ::
    "memory \<Rightarrow> Image_State \<Rightarrow> u32 \<Rightarrow> u32 \<Rightarrow> u32 \<Rightarrow> RE_CONTEXT \<Rightarrow> u32 \<Rightarrow> bool \<Rightarrow> run_error + log_calls \<times> bool" where
  "Instrument_Call mem img ins_addr target isize ctx tid is_exiting =
     Process_Instrument_Call mem img ins_addr target isize (m_esp ctx) tid is_exiting"

definition Instrument_Branch ::
    "Config \<Rightarrow> memory \<Rightarrow> Image_State \<Rightarrow> u32 \<Rightarrow> u32 \<Rightarrow> bool \<Rightarrow> bool \<Rightarrow> run_error + log_calls \<times> bool" where
  "Instrument_Branch cfg mem img ins_addr target taken is_exiting =
     Process_Instrument_Branch cfg mem img ins_addr target taken is_exiting"

definition Instrument_Return :: "u32 \<Rightarrow> u32 \<Rightarrow> u32 \<Rightarrow> RE_CONTEXT \<Rightarrow> u32 \<Rightarrow> log_calls" where
  "Instrument_Return ins_addr target ret_disp ctx tid = Process_Instrument_Return ins_addr target ret_disp (m_esp ctx) tid"

definition Instrument_Normal_Instruction :: "memory \<Rightarrow> u32 \<Rightarrow> string \<Rightarrow> u32 \<Rightarrow> run_error + log_calls" where
  "Instrument_Normal_Instruction mem ins_addr disasm len =
     Process_Instrument_Normal_Instruction mem ins_addr disasm len"

definition Instrument_BBL ::
    "memory \<Rightarrow> u32 \<Rightarrow> RE_CONTEXT \<Rightarrow> u32 \<Rightarrow> Frame_Ids \<times> Bbl_Filter
       \<Rightarrow> run_error + (Frame_Ids \<times> Bbl_Filter) \<times> (string \<times> string) list" where
  "Instrument_BBL mem bid ctx tid st = Process_Instrument_BBL mem bid ctx st"

definition Instrument_Read_Before ::
    "memory \<Rightarrow> Image_State \<Rightarrow> u32 \<Rightarrow> u32 \<Rightarrow> u32 \<Rightarrow> bool \<Rightarrow> string \<Rightarrow> run_error + log_calls" where
  "Instrument_Read_Before mem img ins_addr target isize is_predict disasm =
     (if \<not> is_predict then Process_Instrument_Read_Before mem img ins_addr target isize disasm else Inr [])"

definition Instrument_Write_Before ::
    "memory \<Rightarrow> Image_State \<Rightarrow> u32 \<Rightarrow> u32 \<Rightarrow> u32 \<Rightarrow> bool \<Rightarrow> REProgramInfo \<Rightarrow> run_error + REProgramInfo \<times> log_calls" where
  "Instrument_Write_Before mem img ins_addr target isize is_predict p =
     (if \<not> is_predict then Process_Instrument_Write_Before mem img ins_addr target isize p else Inr (p, []))"

definition Instrument_Write_After :: "memory \<Rightarrow> Image_State \<Rightarrow> REProgramInfo \<Rightarrow> run_error + log_calls" where
  "Instrument_Write_After mem img p = Process_Instrument_Write_After mem img p"

subsection \<open>Values read\<close>

definition holds_bytes :: "memory \<Rightarrow> u32 \<Rightarrow> u8 list \<Rightarrow> bool" where
  "holds_bytes mem a bs \<longleftrightarrow> (\<forall>i<length bs. read_byte mem (a + word_of_nat i) = Inr (bs ! i))"

definition little_endian :: "u8 list \<Rightarrow> nat" where
  "little_endian bs = (\<Sum>i<length bs. unat (bs ! i) * 256 ^ i)"

lemma little_endian_Cons: "little_endian (b # bs) = unat b + 256 * little_endian bs"
  by (simp add: little_endian_def sum.lessThan_Suc_shift sum_distrib_left algebra_simps del: sum.lessThan_Suc)

lemma little_endian_less: "little_endian bs < 256 ^ length bs"
proof (induction bs)
  case (Cons b bs)
  have "unat b < 256" using unsigned_less [of b] by simp
  with Cons show ?case by (simp add: little_endian_Cons)
qed (simp add: little_endian_def)

lemma unat_low_byte_or:
  assumes "unat (v :: u32) < 2 ^ 24"
  shows "unat (ucast (b :: u8) OR push_bit 8 v) = unat b + 256 * unat v"
proof -
  have "ucast b OR push_bit 8 v = (ucast b :: u32) + push_bit 8 v"
    by (rule disjunctive_add [symmetric]) (auto simp: bit_simps dest: bit_imp_le_length)
  moreover have "unat (push_bit 8 v) = 256 * unat v"
    using assms by (simp add: push_bit_eq_mult unat_word_ariths)
  moreover have "unat b < 256" using unsigned_less [of b] by simp
  moreover have "unat (ucast b :: u32) = unat b"
    using calculation(3) by (simp add: unsigned_ucast_eq take_bit_nat_eq_self)
  ultimately show ?thesis using assms by (simp add: unat_word_ariths)
qed

lemma read_value_bytes:
  assumes "holds_bytes mem a bs" and "length bs \<le> 4"
  shows "\<exists>v. read_value mem a (length bs) = Inr v \<and> unat v = little_endian bs"
  using assms
proof (induction bs arbitrary: a)
  case (Cons b bs)
  have "holds_bytes mem (a + 1) bs"
    using Cons.prems(1) unfolding holds_bytes_def by (auto simp: algebra_simps dest: spec [of _ "Suc _"])
  with Cons.IH [of "a + 1"] Cons.prems(2) obtain v where v: "read_value mem (a + 1) (length bs) = Inr v"
    "unat v = little_endian bs" by auto
  have "little_endian bs < 256 ^ 3"
    by (rule less_le_trans [OF little_endian_less power_increasing]) (use Cons.prems(2) in auto)
  then have "unat v < 2 ^ 24" using v(2) by simp
  moreover have "read_byte mem a = Inr b" using Cons.prems(1) by (auto simp: holds_bytes_def)
  ultimately show ?case using v by (simp add: unat_low_byte_or little_endian_Cons)
qed (simp add: little_endian_def)

text \<open>A write of at most four bytes to code is reported twice: before it with the value the target holds then, after it
  with the value it holds afterwards; the second report takes instruction, target and size from the first call, and both
  values are the bytes of the memory in little-endian order. A write elsewhere is not reported.\<close>

lemma write_reported_twice:
  assumes sz: "unat isize \<le> 4" "length old = unat isize" "length new = unat isize"
    and mem: "holds_bytes mem1 target old" "holds_bytes mem2 target new"
  shows "\<exists>p1 v1 v2. unat v1 = little_endian old \<and> unat v2 = little_endian new \<and>
    Instrument_Write_Before mem1 img ins_addr target isize False p =
      Inr (p1, if image_IsAddrCode img target
               then [(''mem_wr_before'', verb16 ''Before Write to'' ins_addr target isize @ ''[0x'' @ fmt_08x v1 @ '']'' @ nl)]
               else []) \<and>
    Instrument_Write_After mem2 img p1 =
      Inr (if image_IsAddrCode img target
           then [(''mem_wr_after'', verb16 ''After Write to'' ins_addr target isize @ ''[0x'' @ fmt_08x v2 @ '']'' @ nl)]
           else [])"
proof -
  have "isize \<le> 4" using sz(1) by (simp add: word_le_nat_alt)
  moreover from read_value_bytes [OF mem(1)] sz obtain v1 where
    "read_value mem1 target (unat isize) = Inr v1" "unat v1 = little_endian old" by auto
  moreover from read_value_bytes [OF mem(2)] sz obtain v2 where
    "read_value mem2 target (unat isize) = Inr v2" "unat v2 = little_endian new" by auto
  ultimately show ?thesis
    by (intro exI [of _ "p\<lparr>m_write_inst_addr := ins_addr, m_write_target := target, m_write_size := isize\<rparr>"]
          exI [of _ v1] exI [of _ v2])
      (simp add: Instrument_Write_Before_def Process_Instrument_Write_Before_def Instrument_Write_After_def
        Process_Instrument_Write_After_def Let_def)
qed

subsection \<open>What is inserted\<close>

text \<open>With the configuration the program starts with, the only calls inserted at instructions are those at system calls,
  and they do nothing when they run.\<close>

lemma only_syscalls_are_instrumented:
  assumes "Config_Initialize api report_folder sample initial_Config fs = (ok, cfg, fs')"
  shows "Process_Encounter_Insn cfg img ins =
      (if INS_IsSyscall ins \<and> \<not> INS_IsBranch ins \<and> \<not> INS_IsCall ins \<and> \<not> INS_IsRet ins
       then [(IPOINT_BEFORE, False, Ana_Syscall (INS_Size ins))] else []) \<and>
    Instrument_Syscall ins_addr isize ctx tid = []"
  using Config_Initialize_entries [OF assms]
  by (simp add: Process_Encounter_Insn_def insert_reads_def insert_writes_def insert_control_flow_def insert_normal_def
      FILTER_CONFIG_def IsEntryEnabled_def initial_Config_def Instrument_Syscall_def Process_Instrument_Syscall_def)

definition example_api :: "unit filesystem_api" where
  "example_api = \<lparr>fs_exists = (\<lambda>p fs. True), fs_create_directory = (\<lambda>p fs. None), fs_entries = (\<lambda>p fs. Some []),
     fs_is_regular_file = (\<lambda>p fs. False), fs_remove = (\<lambda>p fs. None)\<rparr>"

lemma example_Initialize:
  "Config_Initialize example_api ''r'' ''s'' initial_Config () =
     (True, initial_Config\<lparr>s_report_folder := ''rs'' @ [CHR 0x5C]\<rparr>, Some ())"
  by (simp add: Config_Initialize_def ensure_folder_def example_api_def initial_Config_def)

end
