(* ===== verification/Replay.thy ===== *)
theory Replay
  imports Instrument
begin

text \<open>
  \<^verbatim>\<open>replay/main.cpp\<close> and the run of the whole tool: the routines of the other theories as the handlers of what Pin reports,
  over one state that holds the static members of all classes. What reaches \<^verbatim>\<open>blocks.csv\<close> and \<^verbatim>\<open>frames.csv\<close> is followed
  from the first image to the files on the disk.
\<close>

subsection \<open>The state of a session\<close>

text \<open>\<open>se_inserted\<close> is what Pin keeps of the calls inserted at blocks: the address of the block and the id the call passes.
  \<open>se_exiting\<close> is what \<^verbatim>\<open>PIN_IsProcessExiting\<close> answers.\<close>

record Session =
  se_images :: Image_State
  se_block_id :: u32
  se_inserted :: "(u32 \<times> u32) list"
  se_frames :: "Frame_Ids \<times> Bbl_Filter"
  se_program :: REProgramInfo
  se_log :: Log_State
  se_exiting :: bool

datatype session_error = Run_Error run_error | Log_Error log_error

definition logging :: "log_action \<Rightarrow> Session \<Rightarrow> session_error + Session" where
  "logging action s = (case action (se_log s) of (Some e, _) \<Rightarrow> Inl (Log_Error e) | (None, l) \<Rightarrow> Inr (s\<lparr>se_log := l\<rparr>))"

fun LOQ_calls :: "log_calls \<Rightarrow> log_action" where
  "LOQ_calls [] st = (None, st)"
| "LOQ_calls ((entry, line) # calls) st =
     (case LOQ entry line st of (Some e, st') \<Rightarrow> (Some e, st') | (None, st') \<Rightarrow> LOQ_calls calls st')"

definition lift_run :: "run_error + 'a \<Rightarrow> session_error + 'a" where
  "lift_run r = (case r of Inl e \<Rightarrow> Inl (Run_Error e) | Inr x \<Rightarrow> Inr x)"

subsection \<open>The handlers\<close>

text \<open>\<open>None\<close> is an analysis that does not end.\<close>

definition Encounter_Img ::
    "(string \<Rightarrow> string \<Rightarrow> bool) \<Rightarrow> memory \<Rightarrow> IMG \<Rightarrow> Session \<Rightarrow> (session_error + Session) option" where
  "Encounter_Img iequals mem img s =
     map_option (\<lambda>r. bind_r (lift_run r) (\<lambda>(st, calls). logging (LOQ_calls calls) (s\<lparr>se_images := st\<rparr>)))
       (Process_Encounter_Image iequals mem img (se_images s))"

definition Encounter_Trace :: "memory \<Rightarrow> TRACE \<Rightarrow> Session \<Rightarrow> session_error + Session" where
  "Encounter_Trace mem trace s =
     bind_r (lift_run (Process_Encounter_Trace mem (se_images s) trace (se_block_id s))) (\<lambda>(n, inserted, calls).
     logging (LOF_calls calls) (s\<lparr>se_block_id := n, se_inserted := se_inserted s @ inserted\<rparr>))"

definition Encounter_BBL :: "memory \<Rightarrow> u32 \<Rightarrow> RE_CONTEXT \<Rightarrow> u32 \<Rightarrow> Session \<Rightarrow> session_error + Session" where
  "Encounter_BBL mem bid ctx tid s =
     bind_r (lift_run (Instrument_BBL mem bid ctx tid (se_frames s))) (\<lambda>(frames, calls).
     logging (LOF_calls calls) (s\<lparr>se_frames := frames\<rparr>))"

definition Encounter_Exception :: "string \<Rightarrow> Session \<Rightarrow> session_error + Session" where
  "Encounter_Exception description s =
     bind_r (logging (LOQ ''exception'' (''Uncaught Exception: '' @ description @ nl)) s) (\<lambda>s1.
     Inr (s1\<lparr>se_exiting := se_exiting s1 \<or> ExitProcess (se_exiting s1)\<rparr>))"

definition Encounter_Finalize :: "Session \<Rightarrow> session_error + Session" where
  "Encounter_Finalize s = logging Process_Encounter_Finalize s"

definition Encounter_Ins :: "INS \<Rightarrow> Session \<Rightarrow> inserted_call list" where
  "Encounter_Ins ins s = Process_Encounter_Insn (ls_config (se_log s)) (se_images s) ins"

definition Encounter_Rtn :: "RTN \<Rightarrow> Session \<Rightarrow> inserted_call list" where
  "Encounter_Rtn rtn s = Process_Encounter_Rtn rtn"

subsection \<open>The start\<close>

datatype registration = IMG_AddInstrumentFunction | TRACE_AddInstrumentFunction | PIN_AddInternalExceptionHandler | PIN_AddFiniFunction

text \<open>\<^verbatim>\<open>PIN_StartProgram\<close> does not return; the state is then the one the events start from.\<close>

datatype main_outcome = Returned int | Started Session "registration list"

definition Usage :: int where "Usage = -1"

definition initial_Session :: "Config \<Rightarrow> string \<Rightarrow> files \<Rightarrow> Session" where
  "initial_Session cfg name fs =
     \<lparr>se_images = initial_Image_State, se_block_id = 0, se_inserted = [],
      se_frames = (initial_Frame_Ids, initial_Bbl_Filter), se_program = new_REProgramInfo name,
      se_log = \<lparr>ls_config = cfg, s_loggers = [], ls_files = fs\<rparr>, se_exiting = False\<rparr>"

text \<open>\<open>pin_init_fails\<close> is what \<^verbatim>\<open>PIN_Init\<close> returns, the folders the values of the two knobs, \<open>files\<close> what the files hold
  once the folder has been prepared. What \<open>Initialize\<close> returns is not looked at.\<close>

definition main_program ::
    "'fs filesystem_api \<Rightarrow> bool \<Rightarrow> int \<Rightarrow> string \<Rightarrow> string \<Rightarrow> 'fs \<Rightarrow> files \<Rightarrow> main_outcome" where
  "main_program api pin_init_fails argc output_folder result_folder fs files' =
     (if pin_init_fails then Returned Usage
      else if argc \<le> 6 then Returned (-1)
      else case Config_Initialize api output_folder result_folder initial_Config fs of (ok, cfg, fs') \<Rightarrow>
        Started (initial_Session cfg result_folder files')
          [IMG_AddInstrumentFunction, TRACE_AddInstrumentFunction, PIN_AddInternalExceptionHandler, PIN_AddFiniFunction])"

subsection \<open>Events\<close>

datatype pin_event =
    Image_Loaded memory IMG
  | Trace_Built memory TRACE
  | Block_Entered memory u32 RE_CONTEXT u32
  | Exception_Caught string

fun session_step :: "(string \<Rightarrow> string \<Rightarrow> bool) \<Rightarrow> pin_event \<Rightarrow> Session \<Rightarrow> (session_error + Session) option" where
  "session_step iequals (Image_Loaded mem img) s = Encounter_Img iequals mem img s"
| "session_step iequals (Trace_Built mem trace) s = Some (Encounter_Trace mem trace s)"
| "session_step iequals (Block_Entered mem bid ctx tid) s = Some (Encounter_BBL mem bid ctx tid s)"
| "session_step iequals (Exception_Caught description) s = Some (Encounter_Exception description s)"

text \<open>The call at a block runs only where it was inserted, with the id it was inserted with.\<close>

fun pin_allows :: "Session \<Rightarrow> pin_event \<Rightarrow> bool" where
  "pin_allows s (Block_Entered mem bid ctx tid) \<longleftrightarrow> (m_eip ctx, bid) \<in> set (se_inserted s)"
| "pin_allows s _ \<longleftrightarrow> True"

text \<open>The \<^verbatim>\<open>LOF\<close> calls of an event.\<close>

fun written :: "pin_event \<Rightarrow> Session \<Rightarrow> log_calls" where
  "written (Trace_Built mem trace) s =
     (case Process_Encounter_Trace mem (se_images s) trace (se_block_id s) of Inl _ \<Rightarrow> [] | Inr (_, _, calls) \<Rightarrow> calls)"
| "written (Block_Entered mem bid ctx tid) s =
     (case Instrument_BBL mem bid ctx tid (se_frames s) of Inl _ \<Rightarrow> [] | Inr (_, calls) \<Rightarrow> calls)"
| "written _ s = []"

text \<open>The sessions events lead to, with the events and the \<^verbatim>\<open>LOF\<close> calls made so far.\<close>

inductive session_run ::
    "(string \<Rightarrow> string \<Rightarrow> bool) \<Rightarrow> Session \<Rightarrow> pin_event list \<Rightarrow> log_calls \<Rightarrow> Session \<Rightarrow> bool" for iequals s0 where
  session_start: "session_run iequals s0 [] [] s0"
| session_event: "session_run iequals s0 evs calls s \<Longrightarrow> pin_allows s ev \<Longrightarrow> session_step iequals ev s = Some (Inr s') \<Longrightarrow>
     session_run iequals s0 (evs @ [ev]) (calls @ written ev s) s'"

inductive_cases session_runE: "session_run iequals s0 evs calls s"

subsection \<open>A step, event by event\<close>

lemma logging_eq: "logging a s = Inr s' \<longleftrightarrow> (\<exists>l. a (se_log s) = (None, l) \<and> s' = s\<lparr>se_log := l\<rparr>)"
  by (auto simp: logging_def split: prod.splits option.splits)

lemma lift_run_eq [simp]: "lift_run r = Inr x \<longleftrightarrow> r = Inr x" "lift_run (Inr y) = Inr y" "lift_run (Inl e) = Inl (Run_Error e)"
  by (auto simp: lift_run_def split: sum.splits)

lemma LOQ_calls_silent:
  "(\<And>e. \<not> IsEntryEnabled (ls_config st) e) \<Longrightarrow> LOQ_calls calls st = (None, st)"
  by (induction calls) (auto simp: LOQ_def)

lemma LOF_keeps_config: "LOF name line st = (e, st') \<Longrightarrow> ls_config st' = ls_config st"
  by (auto simp: LOF_def LogToF_file_def GetInstance_def Logline_at_def Let_def
      split: if_splits option.splits sum.splits prod.splits)

lemma LOF_calls_keeps_config: "LOF_calls calls st = (e, st') \<Longrightarrow> ls_config st' = ls_config st"
  unfolding LOF_calls_def by (erule run_calls_keep [rotated]) (auto dest: LOF_keeps_config)

text \<open>No entry is enabled in a session that starts from the configuration \<open>main\<close> sets up.\<close>

definition no_entries :: "Session \<Rightarrow> bool" where
  "no_entries s \<longleftrightarrow> (\<forall>e. \<not> IsEntryEnabled (ls_config (se_log s)) e)"

lemma Config_Initialize_folder:
  "Config_Initialize api out res cfg fs = (ok, cfg', fs') \<Longrightarrow> s_report_folder cfg' \<in> {out, out @ res @ [CHR 0x5C]}"
  by (auto simp: Config_Initialize_def Let_def split: option.splits)

lemma main_program_started:
  assumes "main_program api pin_init_fails argc out res fs files' = Started s0 registered"
  shows "\<exists>cfg. s0 = initial_Session cfg res files' \<and> length (s_report_folder cfg) \<le> length out + length res + 1 \<and> no_entries s0"
proof -
  obtain ok cfg fs' where init: "Config_Initialize api out res initial_Config fs = (ok, cfg, fs')" by (metis prod_cases3)
  from Config_Initialize_entries [OF init] have "\<forall>e. \<not> IsEntryEnabled cfg e"
    by (simp add: IsEntryEnabled_def initial_Config_def)
  with init assms Config_Initialize_folder [OF init] show ?thesis
    by (auto simp: main_program_def no_entries_def initial_Session_def split: if_splits)
qed

lemma session_step_result:
  assumes "session_step iequals ev s = Some (Inr s')" and "no_entries s"
  shows "LOF_calls (written ev s) (se_log s) = (None, se_log s') \<and> no_entries s'"
proof -
  have q: "\<not> IsEntryEnabled (ls_config (se_log s)) e" for e using assms(2) by (simp add: no_entries_def)
  have "LOF_calls (written ev s) (se_log s) = (None, se_log s')"
    using assms(1) q
    by (cases ev)
      (auto simp: Encounter_Img_def Encounter_Trace_def Encounter_BBL_def Encounter_Exception_def bind_r_eq_Inr logging_eq
        LOQ_calls_silent LOQ_def split: prod.splits)
  moreover from LOF_calls_keeps_config [OF this] q have "no_entries s'" by (simp add: no_entries_def)
  ultimately show ?thesis ..
qed

text \<open>The parts of the state other than the log.\<close>

lemma session_step_parts:
  assumes "session_step iequals ev s = Some (Inr s')"
  shows "(case ev of
      Image_Loaded mem img \<Rightarrow> (\<exists>calls. AppendImage iequals mem img (se_images s) = Some (Inr (se_images s', calls)))
    | _ \<Rightarrow> se_images s' = se_images s) \<and>
    (case ev of
      Trace_Built mem trace \<Rightarrow> (\<exists>inserted. Process_Encounter_Trace mem (se_images s) trace (se_block_id s) =
          Inr (se_block_id s', inserted, written ev s) \<and> se_inserted s' = se_inserted s @ inserted)
    | _ \<Rightarrow> se_block_id s' = se_block_id s \<and> se_inserted s' = se_inserted s) \<and>
    (case ev of
      Block_Entered mem bid ctx tid \<Rightarrow> Process_Instrument_BBL mem bid ctx (se_frames s) = Inr (se_frames s', written ev s)
    | _ \<Rightarrow> se_frames s' = se_frames s)"
  using assms
  by (cases ev)
    (auto simp: Encounter_Img_def Encounter_Trace_def Encounter_BBL_def Encounter_Exception_def Process_Encounter_Image_def
      Instrument_BBL_def bind_r_eq_Inr logging_eq split: prod.splits)

lemma session_run_no_entries: "session_run iequals s0 evs calls s \<Longrightarrow> no_entries s0 \<Longrightarrow> no_entries s"
  by (induction rule: session_run.induct) (auto dest: session_step_result)

lemma session_run_images:
  "session_run iequals s0 evs calls s \<Longrightarrow> image_run iequals (se_images s0) \<Longrightarrow> image_run iequals (se_images s)"
proof (induction rule: session_run.induct)
  case (session_event evs calls s ev s')
  then show ?case using session_step_parts [OF session_event(3)]
    by (cases ev) (auto intro: image_run_append)
qed

lemma LOF_calls_append:
  "LOF_calls (xs @ ys) st = (case LOF_calls xs st of (Some e, st') \<Rightarrow> (Some e, st') | (None, st') \<Rightarrow> LOF_calls ys st')"
  unfolding LOF_calls_def by (rule run_calls_append)

text \<open>The log of a session is that of its \<^verbatim>\<open>LOF\<close> calls.\<close>

lemma session_run_log:
  "session_run iequals s0 evs calls s \<Longrightarrow> no_entries s0 \<Longrightarrow> LOF_calls calls (se_log s0) = (None, se_log s)"
proof (induction rule: session_run.induct)
  case (session_event evs calls s ev s')
  with session_step_result [OF session_event(3)] session_run_no_entries [OF session_event(1)]
  show ?case by (simp add: LOF_calls_append)
qed simp

subsection \<open>Rows of the two files\<close>

definition rows :: "string \<Rightarrow> log_calls \<Rightarrow> string list" where
  "rows file calls = map snd (filter (\<lambda>call. fst call = file) calls)"

lemma rows_append [simp]: "rows f (xs @ ys) = rows f xs @ rows f ys"
  by (simp add: rows_def)

lemma rows_all: "\<forall>c\<in>set calls. fst c = f \<Longrightarrow> rows f calls = map snd calls"
  by (simp add: rows_def)

lemma rows_none: "\<forall>c\<in>set calls. fst c = g \<Longrightarrow> g \<noteq> f \<Longrightarrow> rows f calls = []"
  by (auto simp: rows_def filter_empty_conv)

text \<open>A row of \<^verbatim>\<open>blocks.csv\<close> up to the address, and the rest of it.\<close>

definition block_row :: "u32 \<Rightarrow> u32 \<Rightarrow> u32 \<Rightarrow> string \<Rightarrow> string" where
  "block_row bid tid eip rest = fmt_d bid @ '','' @ fmt_d tid @ '','' @ hex_field eip @ rest"

lemma add_instructions_keeps:
  "add_instructions mem xs b = Inr b' \<Longrightarrow> b_id b' = b_id b \<and> b_eip b' = b_eip b"
  by (induction xs arbitrary: b)
    (auto simp: bind_r_eq_Inr add_instruction_def AddRawLine_def AddDisasmLine_def)

lemma encounter_bbl_row:
  assumes "encounter_bbl mem bbl (tid, n) = Inr ((tid1, n1), ins, calls)"
  shows "n1 = n + 1 \<and> tid1 = (if tid = 0 then n + 1 else tid) \<and>
    ins = (if tid = 0 then [(BBL_Address bbl, n + 1)] else []) \<and>
    (\<exists>rest. calls = [(''blocks.csv'', block_row (n + 1) tid1 (BBL_Address bbl) rest)])"
  using assms
  by (auto simp: encounter_bbl_def new_Block_def Let_def bind_r_eq_Inr GetBid_def SetTid_def Block_Serialize_def block_row_def
      add_instruction_def AddRawLine_def AddDisasmLine_def dest!: add_instructions_keeps)

lemma encounter_bbls_rows:
  assumes "encounter_bbls mem bbls (tid, n) = Inr ((tid', n'), ins, calls)"
  shows "length calls = length bbls \<and> n' = n + word_of_nat (length calls) \<and>
    (\<forall>i<length calls. \<exists>tid eip rest. calls ! i = (''blocks.csv'', block_row (n + word_of_nat (Suc i)) tid eip rest)) \<and>
    (\<forall>(eip, bid)\<in>set ins. \<exists>i<length calls. bid = n + word_of_nat (Suc i) \<and>
       (\<exists>rest. calls ! i = (''blocks.csv'', block_row bid bid eip rest)))"
  using assms
proof (induction bbls arbitrary: tid n ins calls)
  case (Cons bbl bbls)
  from Cons.prems obtain tid1 n1 i1 c1 i2 c2 where
    1: "encounter_bbl mem bbl (tid, n) = Inr ((tid1, n1), i1, c1)" and
    2: "encounter_bbls mem bbls (tid1, n1) = Inr ((tid', n'), i2, c2)" and c: "ins = i1 @ i2" "calls = c1 @ c2"
    by (auto simp: bind_r_eq_Inr)
  from encounter_bbl_row [OF 1] obtain rest where r: "n1 = n + 1" "tid1 = (if tid = 0 then n + 1 else tid)"
    "i1 = (if tid = 0 then [(BBL_Address bbl, n + 1)] else [])"
    "calls = (''blocks.csv'', block_row (n + 1) tid1 (BBL_Address bbl) rest) # c2" using c by auto
  note IH = Cons.IH [OF 2]
  have row: "\<exists>tid eip rest. calls ! i = (''blocks.csv'', block_row (n + word_of_nat (Suc i)) tid eip rest)"
    if "i < length calls" for i
  proof (cases i)
    case 0
    then show ?thesis using r(4) by auto
  next
    case (Suc j)
    then have "j < length c2" using that r(4) by simp
    with IH obtain t e rs where "c2 ! j = (''blocks.csv'', block_row (n1 + word_of_nat (Suc j)) t e rs)" by blast
    then show ?thesis using Suc r(1,4) by (auto simp: algebra_simps)
  qed
  have ins: "\<exists>i<length calls. bid = n + word_of_nat (Suc i) \<and>
       (\<exists>rest. calls ! i = (''blocks.csv'', block_row bid bid eip rest))" if "(eip, bid) \<in> set ins" for eip bid
  proof (cases "(eip, bid) \<in> set i2")
    case True
    with IH obtain i rs where "i < length c2" "bid = n1 + word_of_nat (Suc i)"
      "c2 ! i = (''blocks.csv'', block_row bid bid eip rs)" by fastforce
    then show ?thesis using r(1,4) by (intro exI [of _ "Suc i"]) (auto simp: algebra_simps)
  next
    case False
    with that c(1) r have "tid = 0" "eip = BBL_Address bbl" "bid = n + 1" by (auto split: if_splits)
    then show ?thesis using r by (intro exI [of _ 0]) auto
  qed
  show ?case using IH r(1,4) row ins by (auto simp: algebra_simps)
qed simp

lemma Process_Encounter_Trace_rows:
  assumes "Process_Encounter_Trace mem img trace n = Inr (n', ins, calls)"
  shows "n' = n + word_of_nat (length calls) \<and> (\<forall>c\<in>set calls. fst c = ''blocks.csv'') \<and>
    (\<forall>i<length calls. \<exists>tid eip rest. snd (calls ! i) = block_row (n + word_of_nat (Suc i)) tid eip rest) \<and>
    (\<forall>(eip, bid)\<in>set ins. \<exists>i<length calls. bid = n + word_of_nat (Suc i) \<and>
       (\<exists>rest. snd (calls ! i) = block_row bid bid eip rest))"
proof (cases "length (TRACE_Bbls trace) \<noteq> 0 \<and> IsAddrWithinMainModule img (TRACE_Address trace)")
  case True
  with assms obtain tid where "encounter_bbls mem (TRACE_Bbls trace) (0, n) = Inr ((tid, n'), ins, calls)"
    by (auto simp: Process_Encounter_Trace_def bind_r_eq_Inr)
  from encounter_bbls_rows [OF this] show ?thesis
    by (fastforce simp: in_set_conv_nth)
qed (use assms in \<open>auto simp: Process_Encounter_Trace_def\<close>)

text \<open>At an entry: no row, or that of a frame with the registers and the id given.\<close>

lemma Process_Instrument_BBL_rows:
  assumes "Process_Instrument_BBL mem bid ctx st = Inr (st', calls)" and "c \<in> set calls"
  shows "\<exists>n f. c = (''frames.csv'', join_commas (frame_fields n f) @ nl) \<and> m_context f = ctx \<and> f_bid f = bid \<and>
    length (m_slots f) = 8"
proof -
  from assms obtain n i vs where v: "read_slots mem (m_esp ctx) 8 = Inr vs"
    "c = (''frames.csv'', join_commas (frame_fields n \<lparr>m_context = ctx, m_slots = vs, f_id = i, f_bid = bid\<rparr>) @ nl)"
    by (auto simp: Process_Instrument_BBL_def new_Frame_def Let_def bind_r_eq_Inr Frame_Serialize_def RE_STACK_SLOTS_NUM_def
      split: prod.splits if_splits)
  then show ?thesis using read_slots_length [OF v(1)]
    by (intro exI [of _ n] exI [of _ "\<lparr>m_context = ctx, m_slots = vs, f_id = i, f_bid = bid\<rparr>"]) simp
qed

text \<open>The invariant of a session: the rows of \<^verbatim>\<open>blocks.csv\<close> carry the ids 1, 2, 3 and so on, the last of them is the last id
  given; every call inserted belongs to a row with its address that is the head of its trace; every row of \<^verbatim>\<open>frames.csv\<close>
  belongs to a call inserted.\<close>

definition has_block_id :: "u32 \<Rightarrow> string \<Rightarrow> bool" where
  "has_block_id bid line \<longleftrightarrow> (\<exists>tid eip rest. line = block_row bid tid eip rest)"

definition heads_trace :: "string list \<Rightarrow> u32 \<times> u32 \<Rightarrow> bool" where
  "heads_trace rs call \<longleftrightarrow> (case call of (eip, bid) \<Rightarrow> \<exists>i<length rs. bid = word_of_nat (Suc i) \<and>
     (\<exists>rest. rs ! i = block_row bid bid eip rest))"

definition frame_row_of :: "(u32 \<times> u32) list \<Rightarrow> string \<Rightarrow> bool" where
  "frame_row_of inserted line \<longleftrightarrow> (\<exists>n f. line = join_commas (frame_fields n f) @ nl \<and> length (m_slots f) = 8 \<and>
     (m_eip (m_context f), f_bid f) \<in> set inserted)"

definition session_rows :: "log_calls \<Rightarrow> Session \<Rightarrow> bool" where
  "session_rows calls s \<longleftrightarrow> (let rs = rows ''blocks.csv'' calls in
     se_block_id s = word_of_nat (length rs) \<and>
     (\<forall>i<length rs. has_block_id (word_of_nat (Suc i)) (rs ! i)) \<and>
     (\<forall>call\<in>set (se_inserted s). heads_trace rs call) \<and>
     (\<forall>line\<in>set (rows ''frames.csv'' calls). frame_row_of (se_inserted s) line) \<and>
     fst ` set calls \<subseteq> {''blocks.csv'', ''frames.csv''})"

lemma heads_trace_append: "heads_trace rs call \<Longrightarrow> heads_trace (rs @ more_rows) call"
proof (cases call)
  case (Pair eip bid)
  moreover assume "heads_trace rs call"
  ultimately obtain i rest where "i < length rs" "bid = word_of_nat (Suc i)" "rs ! i = block_row bid bid eip rest"
    unfolding heads_trace_def by auto
  then have "i < length (rs @ more_rows)" "bid = word_of_nat (Suc i)" "(rs @ more_rows) ! i = block_row bid bid eip rest"
    by (simp_all add: nth_append)
  with Pair show ?thesis unfolding heads_trace_def prod.case by blast
qed

lemma frame_row_of_append: "frame_row_of xs line \<Longrightarrow> frame_row_of (xs @ ys) line"
  by (auto simp: frame_row_of_def)

lemma session_rows_trace:
  assumes rows: "session_rows calls s" and run: "Process_Encounter_Trace mem img trace (se_block_id s) = Inr (n, ins, new)"
    and s': "se_block_id s' = n" "se_inserted s' = se_inserted s @ ins"
  shows "session_rows (calls @ new) s'"
proof -
  let ?rs = "rows ''blocks.csv'' calls"
  note t = Process_Encounter_Trace_rows [OF run]
  have fr: "rows ''frames.csv'' new = []" by (rule rows_none [of _ "''blocks.csv''"]) (use t in auto)
  have bl: "rows ''blocks.csv'' (calls @ new) = ?rs @ map snd new" using t rows_all [of new "''blocks.csv''"] by simp
  from rows have r: "se_block_id s = word_of_nat (length ?rs)" "\<forall>call\<in>set (se_inserted s). heads_trace ?rs call"
    "\<And>i. i < length ?rs \<Longrightarrow> has_block_id (word_of_nat (Suc i)) (?rs ! i)"
    "\<forall>line\<in>set (rows ''frames.csv'' calls). frame_row_of (se_inserted s) line"
    "fst ` set calls \<subseteq> {''blocks.csv'', ''frames.csv''}"
    by (auto simp: session_rows_def Let_def)
  have "has_block_id (word_of_nat (Suc i)) ((?rs @ map snd new) ! i)" if "i < length (?rs @ map snd new)" for i
  proof (cases "i < length ?rs")
    case False
    define j where "j = i - length ?rs"
    have i: "i = length ?rs + j" "j < length new" using False that by (auto simp: j_def)
    with t obtain tid eip rest where "snd (new ! j) = block_row (se_block_id s + word_of_nat (Suc j)) tid eip rest" by blast
    then have "(?rs @ map snd new) ! i = block_row (word_of_nat (Suc i)) tid eip rest"
      using i r(1) by (simp add: nth_append algebra_simps)
    then show ?thesis unfolding has_block_id_def by blast
  qed (use r(3) in \<open>simp add: nth_append\<close>)
  moreover have "heads_trace (?rs @ map snd new) (eip, bid)" if "(eip, bid) \<in> set ins" for eip bid
  proof -
    from that t obtain j rest where "j < length new" "bid = se_block_id s + word_of_nat (Suc j)"
      "snd (new ! j) = block_row bid bid eip rest" by fastforce
    then have "bid = word_of_nat (Suc (length ?rs + j))" "(?rs @ map snd new) ! (length ?rs + j) = block_row bid bid eip rest"
      using r(1) by (simp_all add: nth_append algebra_simps)
    moreover have "length ?rs + j < length (?rs @ map snd new)" using \<open>j < length new\<close> by simp
    ultimately show ?thesis unfolding heads_trace_def prod.case by blast
  qed
  then have "heads_trace (?rs @ map snd new) call" if "call \<in> set (se_inserted s @ ins)" for call
    using that r(2) heads_trace_append by (cases call) auto
  moreover have "se_block_id s' = word_of_nat (length (?rs @ map snd new))" using t s'(1) r(1) by simp
  moreover have "\<forall>line\<in>set (rows ''frames.csv'' calls). frame_row_of (se_inserted s @ ins) line"
    using r(4) frame_row_of_append by blast
  moreover have "fst ` set (calls @ new) \<subseteq> {''blocks.csv'', ''frames.csv''}" using t r(5) by auto
  ultimately show ?thesis
    unfolding session_rows_def Let_def bl rows_append [of "''frames.csv''"] fr append_Nil2 s'(2) by blast
qed

lemma session_rows_bbl:
  assumes rows: "session_rows calls s" and run: "Process_Instrument_BBL mem bid ctx st = Inr (st', new)"
    and ins: "(m_eip ctx, bid) \<in> set (se_inserted s)"
    and s': "se_block_id s' = se_block_id s" "se_inserted s' = se_inserted s"
  shows "session_rows (calls @ new) s'"
proof -
  note b = Process_Instrument_BBL_rows [OF run]
  have "\<forall>c\<in>set new. fst c = ''frames.csv''" using b by fastforce
  then have new: "rows ''frames.csv'' new = map snd new" "rows ''blocks.csv'' new = []" "fst ` set new \<subseteq> {''frames.csv''}"
    by (auto intro: rows_all rows_none [of _ "''frames.csv''"])
  have "frame_row_of (se_inserted s) (snd c)" if "c \<in> set new" for c
  proof -
    from b [OF that] obtain n f where "c = (''frames.csv'', join_commas (frame_fields n f) @ nl)" "m_context f = ctx"
      "f_bid f = bid" "length (m_slots f) = 8" by blast
    then show ?thesis using ins unfolding frame_row_of_def by (intro exI [of _ n] exI [of _ f]) simp
  qed
  with rows new(3) show ?thesis
    unfolding session_rows_def Let_def rows_append new(1,2) s' append_Nil2 by fastforce
qed

lemma session_rows_step:
  assumes "session_rows calls s" and "pin_allows s ev" and step: "session_step iequals ev s = Some (Inr s')"
  shows "session_rows (calls @ written ev s) s'"
proof (cases ev)
  case (Trace_Built mem trace)
  with session_step_parts [OF step] obtain ins where
    "Process_Encounter_Trace mem (se_images s) trace (se_block_id s) = Inr (se_block_id s', ins, written ev s)"
    "se_inserted s' = se_inserted s @ ins" by auto
  then show ?thesis by (intro session_rows_trace [OF assms(1)]) auto
next
  case (Block_Entered mem bid ctx tid)
  then show ?thesis using session_step_parts [OF step] assms(2)
    by (intro session_rows_bbl [OF assms(1), of mem bid ctx "se_frames s" "se_frames s'"]) auto
qed (use assms(1) session_step_parts [OF step] in \<open>auto simp: session_rows_def\<close>)

lemma session_run_rows:
  "session_run iequals s0 evs calls s \<Longrightarrow> se_block_id s0 = 0 \<Longrightarrow> se_inserted s0 = [] \<Longrightarrow> session_rows calls s"
proof (induction rule: session_run.induct)
  case session_start
  then show ?case by (simp add: session_rows_def rows_def)
next
  case (session_event evs calls s ev s')
  then show ?case by (intro session_rows_step) auto
qed

subsection \<open>Every line can be logged\<close>

definition clean :: "string \<times> string \<Rightarrow> bool" where
  "clean call \<longleftrightarrow> fst call \<in> {''blocks.csv'', ''frames.csv''} \<and> snd call \<noteq> [] \<and> CHR 0x00 \<notin> set (snd call) \<and>
     (fst call = ''frames.csv'' \<longrightarrow> length (snd call) < 2 ^ 30)"

lemma Block_Serialize_clean: "c \<in> set (Block_Serialize b) \<Longrightarrow> clean c"
  using set_takeWhileD [of "CHR 0x00" "\<lambda>c. c \<noteq> CHR 0x00"]
  by (auto simp: Block_Serialize_def clean_def hex_field_def nl_def c_str_def)

lemma encounter_bbls_clean:
  "encounter_bbls mem bbls st = Inr (st', ins, calls) \<Longrightarrow> c \<in> set calls \<Longrightarrow> clean c"
proof (induction bbls arbitrary: st ins calls)
  case (Cons bbl bbls)
  then show ?case
    by (auto simp: bind_r_eq_Inr encounter_bbl_def new_Block_def Let_def split: prod.splits intro: Block_Serialize_clean)
qed simp

lemma written_clean:
  assumes "c \<in> set (written ev s)"
  shows "clean c"
proof (cases ev)
  case (Trace_Built mem trace)
  with assms obtain n ins calls where
    "Process_Encounter_Trace mem (se_images s) trace (se_block_id s) = Inr (n, ins, calls)" "c \<in> set calls"
    by (cases "Process_Encounter_Trace mem (se_images s) trace (se_block_id s)") auto
  then show ?thesis
    by (auto simp: Process_Encounter_Trace_def bind_r_eq_Inr split: if_splits dest: encounter_bbls_clean)
next
  case (Block_Entered mem bid ctx tid)
  with assms obtain st' calls where "Process_Instrument_BBL mem bid ctx (se_frames s) = Inr (st', calls)" "c \<in> set calls"
    by (cases "Process_Instrument_BBL mem bid ctx (se_frames s)") (auto simp: Instrument_BBL_def)
  from Process_Instrument_BBL_rows [OF this] obtain n f where "c = (''frames.csv'', join_commas (frame_fields n f) @ nl)" by blast
  then show ?thesis using frame_line_loggable [of n f] by (simp add: clean_def loggable_def)
qed (use assms in simp_all)

lemma session_run_clean: "session_run iequals s0 evs calls s \<Longrightarrow> \<forall>c\<in>set calls. clean c"
  by (induction rule: session_run.induct) (auto dest: written_clean)

text \<open>Small enough to be logged: lines below a gigabyte, and below 21 files of 100 MB for each name.\<close>

definition log_fits :: "log_calls \<Rightarrow> bool" where
  "log_fits calls \<longleftrightarrow> (\<forall>line\<in>set (rows ''blocks.csv'' calls). length line < 2 ^ 30) \<and>
     (\<forall>name. length (concat (rows name calls)) < 21 * 104857600)"

lemma log_fits_prefix: "log_fits (xs @ ys) \<Longrightarrow> log_fits xs"
  unfolding log_fits_def by (auto intro: le_less_trans [OF le_add1])

lemma clean_loggable: "clean (name, line) \<Longrightarrow> log_fits calls \<Longrightarrow> (name, line) \<in> set calls \<Longrightarrow> loggable line"
  by (force simp: clean_def log_fits_def loggable_def rows_def)

lemma text_for_rows:
  "text_for cfg calls f = (if \<exists>name. f = GetFullFilename cfg name then concat (rows (drop (length (s_report_folder cfg)) f) calls) else [])"
proof (cases "\<exists>name. f = GetFullFilename cfg name")
  case True
  then obtain name where "f = s_report_folder cfg @ name" by (auto simp: GetFullFilename_def)
  then show ?thesis by (induction calls) (auto simp: text_for_def rows_def GetFullFilename_def)
next
  case False
  then show ?thesis by (induction calls) (auto simp: text_for_def)
qed

lemma text_for_short: "log_fits calls \<Longrightarrow> length (text_for cfg calls f) < 21 * 104857600"
  by (simp add: text_for_rows log_fits_def)

lemma names_fit:
  "length (s_report_folder cfg) < 1000 \<Longrightarrow> log_names cfg {''blocks.csv'', ''frames.csv''}"
  by (auto simp: log_names_def GetFullFilename_def original_of_def)

text \<open>What the log of a session is: the calls from the start, none failing, and the text of each file.\<close>

lemma session_log_run:
  assumes main: "main_program api pin_init_fails argc out res fs files' = Started s0 registered"
    and folder: "length out + length res < 999"
    and run: "session_run iequals s0 evs calls s"
    and extra: "\<forall>c\<in>set extra. clean c" and fits: "log_fits (calls @ extra)"
  shows "\<exists>log. LOF_calls extra (se_log s) = (None, log) \<and> log_state_inv log"
proof -
  from main_program_started [OF main] obtain cfg where s0: "s0 = initial_Session cfg res files'"
    "length (s_report_folder cfg) \<le> length out + length res + 1" "no_entries s0" by blast
  let ?names = "{''blocks.csv'', ''frames.csv''}"
  have clean: "\<forall>c\<in>set (calls @ extra). clean c" using extra session_run_clean [OF run] by (simp add: ball_Un)
  have "\<exists>log. LOF_calls (calls @ extra) (se_log s0) = (None, log) \<and> log_state_inv log \<and> ls_config log = ls_config (se_log s0) \<and>
     (\<forall>f. logged log f = logged (se_log s0) f @ text_for (ls_config (se_log s0)) (calls @ extra) f) \<and>
     dom (map_of (s_loggers log)) = dom (map_of (s_loggers (se_log s0)))
       \<union> GetFullFilename (ls_config (se_log s0)) ` fst ` set (calls @ extra)"
  proof (rule LOF_calls_run [of _ ?names])
    show "log_names (ls_config (se_log s0)) ?names" using s0(1,2) folder by (simp add: initial_Session_def names_fit)
    show "name \<in> ?names \<and> loggable line" if "(name, line) \<in> set (calls @ extra)" for name line
      using bspec [OF clean that] clean_loggable [OF _ fits that] by (auto simp: clean_def)
    show "length (logged (se_log s0) f) + length (text_for (ls_config (se_log s0)) (calls @ extra) f) < 21 * 104857600" for f
      using text_for_short [OF fits] s0(1) by (simp add: logged_def initial_Session_def)
  qed (use s0(1) in \<open>auto simp: initial_Session_def log_state_inv_def\<close>)
  then show ?thesis
    using session_run_log [OF run s0(3)] by (auto simp: LOF_calls_append)
qed

subsection \<open>The frames of a session\<close>

fun entry_of :: "pin_event \<Rightarrow> (memory \<times> u32 \<times> RE_CONTEXT) list" where
  "entry_of (Block_Entered mem bid ctx tid) = [(mem, bid, ctx)]"
| "entry_of _ = []"

definition entries :: "pin_event list \<Rightarrow> (memory \<times> u32 \<times> RE_CONTEXT) list" where
  "entries evs = concat (map entry_of evs)"

lemma bbl_run_append:
  "bbl_run (xs @ ys) st = bind_r (bbl_run xs st) (\<lambda>(st1, c1). bind_r (bbl_run ys st1) (\<lambda>(st2, c2). Inr (st2, c1 @ c2)))"
  by (induction xs arbitrary: st) (auto simp: bind_r_def split: sum.splits prod.splits)

text \<open>The rows of \<^verbatim>\<open>frames.csv\<close> are those of the block entries alone, one after another.\<close>

lemma session_run_frames:
  "session_run iequals s0 evs calls s \<Longrightarrow>
   \<exists>c. bbl_run (entries evs) (se_frames s0) = Inr (se_frames s, c) \<and> map snd c = rows ''frames.csv'' calls"
proof (induction rule: session_run.induct)
  case session_start
  then show ?case by (simp add: entries_def rows_def)
next
  case (session_event evs calls s ev s')
  then obtain c where c: "bbl_run (entries evs) (se_frames s0) = Inr (se_frames s, c)" "map snd c = rows ''frames.csv'' calls"
    by blast
  note parts = session_step_parts [OF session_event(3)]
  have "\<exists>d. bbl_run (entry_of ev) (se_frames s) = Inr (se_frames s', d) \<and> map snd d = rows ''frames.csv'' (written ev s)"
  proof (cases ev)
    case (Trace_Built mem trace)
    with parts obtain ins where "Process_Encounter_Trace mem (se_images s) trace (se_block_id s) =
        Inr (se_block_id s', ins, written ev s)" by auto
    from Process_Encounter_Trace_rows [OF this] have "rows ''frames.csv'' (written ev s) = []"
      by (intro rows_none [of _ "''blocks.csv''"]) auto
    with Trace_Built parts show ?thesis by simp
  next
    case (Block_Entered mem bid ctx tid)
    with parts have b: "Process_Instrument_BBL mem bid ctx (se_frames s) = Inr (se_frames s', written ev s)" by simp
    have "rows ''frames.csv'' (written ev s) = map snd (written ev s)"
      using Process_Instrument_BBL_rows [OF b] by (intro rows_all) fastforce
    with Block_Entered b show ?thesis by simp
  qed (use parts in \<open>auto simp: rows_def\<close>)
  then show ?case using c by (auto simp: entries_def bbl_run_append)
qed

subsection \<open>An example session\<close>

lemma session_progress:
  assumes main: "main_program api pin_init_fails argc out res fs files' = Started s0 registered"
    and folder: "length out + length res < 999"
    and run: "session_run iequals s0 evs calls s" and allows: "pin_allows s ev"
    and fits: "log_fits (calls @ new)"
    and step: "case ev of Trace_Built mem trace \<Rightarrow>
        \<exists>n ins. Process_Encounter_Trace mem (se_images s) trace (se_block_id s) = Inr (n, ins, new)
      | Block_Entered mem bid ctx tid \<Rightarrow> \<exists>st. Process_Instrument_BBL mem bid ctx (se_frames s) = Inr (st, new)
      | _ \<Rightarrow> False"
  shows "\<exists>s'. session_run iequals s0 (evs @ [ev]) (calls @ new) s' \<and> session_step iequals ev s = Some (Inr s')"
proof -
  have w: "written ev s = new" using step by (cases ev) (auto simp: Instrument_BBL_def)
  have "\<forall>c\<in>set new. clean c" using written_clean [of _ ev s] w by blast
  from session_log_run [OF main folder run this fits] obtain log where "LOF_calls new (se_log s) = (None, log)" by blast
  then have "\<exists>s'. session_step iequals ev s = Some (Inr s')"
    using step by (cases ev) (auto simp: Encounter_Trace_def Encounter_BBL_def Instrument_BBL_def logging_def)
  then show ?thesis using session_event [OF run allows] w by metis
qed

definition example_start :: Session where
  "example_start = initial_Session (initial_Config\<lparr>s_report_folder := ''rs'' @ [CHR 0x5C]\<rparr>) ''s'' (\<lambda>_. None)"

abbreviation example_registered :: "registration list" where
  "example_registered \<equiv>
     [IMG_AddInstrumentFunction, TRACE_AddInstrumentFunction, PIN_AddInternalExceptionHandler, PIN_AddFiniFunction]"

definition example_block_row :: string where
  "example_block_row = block_line 1 1 (hd (TRACE_Bbls example_trace)) [[0x55]]"

abbreviation example_events :: "pin_event list" where
  "example_events \<equiv> [Trace_Built [(0x1000, [0x55])] example_trace,
     Block_Entered (fst (example_entry 0x1000 8)) 1 (ev_context (example_entry 0x1000 8)) 0]"

abbreviation example_calls :: "Frame \<Rightarrow> log_calls" where
  "example_calls f \<equiv> [(''blocks.csv'', example_block_row), (''frames.csv'', join_commas (frame_fields 1 f) @ nl)]"

lemma example_main:
  "main_program example_api False 7 ''r'' ''s'' () (\<lambda>_. None) = Started example_start example_registered"
  by (simp add: main_program_def example_Initialize example_start_def)

lemma example_trace_run:
  "Process_Encounter_Trace [(0x1000, [0x55])] initial_Image_State example_trace 0 =
     Inr (1, [(0x1000, 1)], [(''blocks.csv'', example_block_row)])"
proof -
  have "block_bytes [(0x1000, [0x55])] (hd (TRACE_Bbls example_trace)) [[0x55]]"
    by (simp add: example_trace_def block_bytes_def ins_bytes_def read_byte_def)
  from encounter_bbl_line [OF this, of 0 0] show ?thesis
    by (simp add: Process_Encounter_Trace_def example_trace_def IsAddrWithinMainModule_def initial_Image_State_def
        example_block_row_def Let_def)
qed

lemma example_session:
  "\<exists>f s. session_run (=) example_start example_events
     [(''blocks.csv'', example_block_row), (''frames.csv'', join_commas (frame_fields 1 f) @ nl)] s \<and>
   log_fits [(''blocks.csv'', example_block_row), (''frames.csv'', join_commas (frame_fields 1 f) @ nl)] \<and>
   m_eip (m_context f) = 0x1000 \<and> f_bid f = 1"
proof -
  let ?e = "example_entry 0x1000 8"
  have "slots_readable (fst ?e, 1, ev_context ?e)"
    using example_entry_ok [of "0x1000" 8] by (simp add: slots_readable_def example_entry_def)
  moreover have "m_eip (ev_context ?e) \<noteq> 0" by (simp add: example_entry_def)
  moreover have "accepted (ev_context ?e) [] (keeps [])" by (simp add: accepted_def example_entry_def)
  ultimately obtain st f where f: "Process_Instrument_BBL (fst ?e) 1 (ev_context ?e) (initial_Frame_Ids, initial_Bbl_Filter) =
      Inr (st, [(''frames.csv'', join_commas (frame_fields 1 f) @ nl)])" "frame_of (fst ?e, 1, ev_context ?e) f"
    using Process_Instrument_BBL_step [OF filter_rel_initial, of "ev_context ?e" "fst ?e" 1 initial_Frame_Ids]
    by (auto simp: initial_Frame_Ids_def)
  let ?b = "[(''blocks.csv'', example_block_row)]" let ?f = "[(''frames.csv'', join_commas (frame_fields 1 f) @ nl)]"
  have "length example_block_row < 1000"
    using length_fmt_d [of 1] length_takeWhile_le [of "\<lambda>c. c \<noteq> CHR 0x00" "fmt_02X 85 @ ''  _|_ ''"]
    by (simp add: example_block_row_def block_line_def example_trace_def hex_field_def nl_def raw_text_def disasm_text_def
        hex_text_def c_str_def)
  moreover have "length (join_commas (frame_fields 1 f) @ nl) < 1000" using length_frame_line [of 1 f] by (simp add: nl_def)
  ultimately have fits: "log_fits (?b @ ?f)" by (simp add: log_fits_def rows_def)
  have "length ''r'' + length ''s'' < 999" by simp
  note go = session_progress [OF example_main this]
  have "se_images example_start = initial_Image_State" "se_block_id example_start = 0"
    "se_frames example_start = (initial_Frame_Ids, initial_Bbl_Filter)" "se_inserted example_start = []"
    by (simp_all add: example_start_def initial_Session_def)
  note start = this
  have "log_fits ([] @ ?b)" using log_fits_prefix [OF fits] by simp
  from go [OF session_start [of "(=)"] _ this, of "hd example_events"] obtain s1 where
    1: "session_run (=) example_start [hd example_events] ?b s1" "session_step (=) (hd example_events) example_start = Some (Inr s1)"
    using example_trace_run start by auto
  note p = session_step_parts [OF 1(2)]
  have "se_frames s1 = (initial_Frame_Ids, initial_Bbl_Filter)" "se_inserted s1 = [(0x1000, 1)]"
    using p start example_trace_run by auto
  then have "\<exists>s2. session_run (=) example_start ([hd example_events] @ [last example_events]) (?b @ ?f) s2"
    using go [OF 1(1) _ fits, of "last example_events"] f(1) by (auto simp: example_entry_def)
  then show ?thesis using fits f(2) by (auto simp: frame_of_def example_entry_def)
qed

subsection \<open>What a session leaves\<close>

text \<open>C4. The two files fit together: in every session \<open>main\<close> can start, whatever Pin reports, each row of \<^verbatim>\<open>frames.csv\<close> names a
  row of \<^verbatim>\<open>blocks.csv\<close> by its block id, which is that row's number; the row is the head of its trace and has the address
  the frame's \<open>eip\<close> has.\<close>

theorem frames_refer_to_blocks:
  assumes main: "main_program api pin_init_fails argc out res fs files' = Started s0 registered"
    and run: "session_run iequals s0 evs calls s"
    and few: "length (rows ''blocks.csv'' calls) < 2 ^ 32"
    and line: "line \<in> set (rows ''frames.csv'' calls)"
  shows "\<exists>n f rest. line = join_commas (frame_fields n f) @ nl \<and> 1 \<le> unat (f_bid f) \<and>
    unat (f_bid f) \<le> length (rows ''blocks.csv'' calls) \<and>
    rows ''blocks.csv'' calls ! (unat (f_bid f) - 1) =
      block_row (f_bid f) (f_bid f) (m_eip (m_context f)) rest"
proof -
  let ?rs = "rows ''blocks.csv'' calls"
  from main_program_started [OF main] have "se_block_id s0 = 0" "se_inserted s0 = []" by (auto simp: initial_Session_def)
  from session_run_rows [OF run this] line obtain n f where
    f: "line = join_commas (frame_fields n f) @ nl" "heads_trace ?rs (m_eip (m_context f), f_bid f)"
    unfolding session_rows_def Let_def frame_row_of_def by blast
  from f(2) obtain i rest where i: "i < length ?rs" "f_bid f = word_of_nat (Suc i)"
    "?rs ! i = block_row (f_bid f) (f_bid f) (m_eip (m_context f)) rest" unfolding heads_trace_def by auto
  have "unat (f_bid f) = Suc i" unfolding i(2) unat_of_nat using i(1) few by simp
  then show ?thesis using f(1) i by (intro exI [of _ n] exI [of _ f] exI [of _ rest]) simp
qed

theorem frames_refer_to_blocks_witness:
  "\<exists>calls s line n f rest. session_run (=) example_start example_events calls s \<and> line \<in> set (rows ''frames.csv'' calls) \<and>
     line = join_commas (frame_fields n f) @ nl \<and>
     rows ''blocks.csv'' calls ! (unat (f_bid f) - 1) = block_row (f_bid f) (f_bid f) (m_eip (m_context f)) rest"
proof -
  from example_session obtain f s where r: "session_run (=) example_start example_events (example_calls f) s" by blast
  have "length (rows ''blocks.csv'' (example_calls f)) < 2 ^ 32" by (simp add: rows_def)
  moreover have line: "join_commas (frame_fields 1 f) @ nl \<in> set (rows ''frames.csv'' (example_calls f))" by (simp add: rows_def)
  ultimately show ?thesis using frames_refer_to_blocks [OF example_main r] r by blast
qed

text \<open>C19. Logging never fails: in every session that can be started, as long as the lines stay below a gigabyte and the text of
  each file below 21 files of 100 MB, an event the analysis itself survives leads to a new state; no logger throws and none
  is left with its mutex held.\<close>

theorem logging_never_fails:
  assumes main: "main_program api pin_init_fails argc out res fs files' = Started s0 registered"
    and folder: "length out + length res < 999"
    and run: "session_run iequals s0 evs calls s"
    and fits: "log_fits (calls @ written ev s)"
  shows "session_step iequals ev s \<noteq> Some (Inl (Log_Error e)) \<and>
    (\<forall>lg\<in>snd ` set (s_loggers (se_log s)). \<not> lg_locked lg)"
proof -
  from main_program_started [OF main] have "no_entries s0" by blast
  from session_run_no_entries [OF run this] have q: "\<not> IsEntryEnabled (ls_config (se_log s)) e" for e by (simp add: no_entries_def)
  have "\<forall>c\<in>set (written ev s). clean c" by (blast intro: written_clean)
  from session_log_run [OF main folder run this fits] obtain log where
    w: "LOF_calls (written ev s) (se_log s) = (None, log)" by blast
  have "session_step iequals ev s \<noteq> Some (Inl (Log_Error e))"
  proof (cases ev)
    case (Image_Loaded mem img)
    then show ?thesis using q
      by (auto simp: Encounter_Img_def lift_run_def bind_r_def logging_def LOQ_calls_silent split: sum.splits prod.splits)
  next
    case (Exception_Caught d)
    then show ?thesis using q by (simp add: Encounter_Exception_def bind_r_def logging_def LOQ_def)
  qed (use w in \<open>auto simp: Encounter_Trace_def Encounter_BBL_def lift_run_def bind_r_def logging_def split: sum.splits prod.splits\<close>)
  moreover have "log_state_inv (se_log s)"
    using session_log_run [OF main folder run, of "[]"] log_fits_prefix [OF fits] by simp
  then have "\<not> lg_locked lg" if "lg \<in> snd ` set (s_loggers (se_log s))" for lg
    using that map_inv_distinct by (fastforce simp: log_state_inv_def)
  ultimately show ?thesis by blast
qed

theorem logging_never_fails_witness:
  "\<exists>calls s. session_run (=) example_start example_events calls s \<and> calls \<noteq> [] \<and>
     session_step (=) (Exception_Caught ''x'') s \<noteq> Some (Inl (Log_Error Too_Many_Logs)) \<and>
     (\<forall>lg\<in>snd ` set (s_loggers (se_log s)). \<not> lg_locked lg)"
proof -
  from example_session obtain f s where r: "session_run (=) example_start example_events (example_calls f) s"
    "log_fits (example_calls f)" by blast
  have short: "length ''r'' + length ''s'' < 999" by simp
  have "log_fits (example_calls f @ written (Exception_Caught ''x'') s)" using r(2) by simp
  from logging_never_fails [OF example_main short r(1) this] r(1) show ?thesis by blast
qed

text \<open>C9. At the end of a session \<open>Finalize\<close> succeeds, and the numbered files of \<^verbatim>\<open>blocks.csv\<close> and \<^verbatim>\<open>frames.csv\<close> in the
  report folder hold, joined in order, exactly the rows written during the session, as long as the rows stay below the
  size limit of the files. File streams are taken to work, also where the report folder could not be made.\<close>

theorem session_reaches_the_disk:
  assumes main: "main_program api pin_init_fails argc out res fs files' = Started s0 registered"
    and folder: "length out + length res < 999"
    and run: "session_run iequals s0 evs calls s" and fits: "log_fits calls"
  shows "\<exists>s'. Encounter_Finalize s = Inr s' \<and> s_loggers (se_log s') = [] \<and>
    (rows ''blocks.csv'' calls \<noteq> [] \<longrightarrow> stored (ls_files (se_log s'))
       (s_report_folder (ls_config (se_log s0)) @ ''blocks'') (concat (rows ''blocks.csv'' calls))) \<and>
    (rows ''frames.csv'' calls \<noteq> [] \<longrightarrow> stored (ls_files (se_log s'))
       (s_report_folder (ls_config (se_log s0)) @ ''frames'') (concat (rows ''frames.csv'' calls)))"
proof -
  from main_program_started [OF main] obtain cfg where s0: "s0 = initial_Session cfg res files'"
    "length (s_report_folder cfg) \<le> length out + length res + 1" "no_entries s0" by blast
  let ?names = "{''blocks.csv'', ''frames.csv''}"
  have cfg: "ls_config (se_log s0) = cfg" using s0(1) by (simp add: initial_Session_def)
  have names: "log_names cfg ?names" using s0(2) folder by (intro names_fit) simp
  have line: "name \<in> ?names \<and> loggable l" if "(name, l) \<in> set calls" for name l
    using bspec [OF session_run_clean [OF run] that] clean_loggable [OF _ fits that] by (auto simp: clean_def)
  from LOF_then_Finalize [OF names line text_for_short [OF fits], of files'] obtain log log' where
    l: "LOF_calls calls (se_log s0) = (None, log)" "Logger_Finalize log = (None, log')" "s_loggers log' = []"
      "\<forall>name \<in> fst ` set calls. stored (ls_files log') (original_of (GetFullFilename cfg name))
        (text_for cfg calls (GetFullFilename cfg name))" using s0(1) by (auto simp: initial_Session_def)
  have st: "stored (ls_files log') (s_report_folder cfg @ take (length name - 4) name) (concat (rows name calls))"
    if "rows name calls \<noteq> []" "4 \<le> length name" for name
  proof -
    have "name \<in> fst ` set calls" using that(1) by (auto simp: rows_def filter_empty_conv)
    with l(4) have "stored (ls_files log') (original_of (GetFullFilename cfg name)) (text_for cfg calls (GetFullFilename cfg name))"
      by blast
    then show ?thesis using that(2) by (simp add: text_for_rows original_of_def GetFullFilename_def)
  qed
  have "log = se_log s" using session_run_log [OF run s0(3)] l(1) by simp
  then show ?thesis
    using l(2,3) st [of "''blocks.csv''"] st [of "''frames.csv''"]
    by (simp add: Encounter_Finalize_def Process_Encounter_Finalize_def logging_def cfg)
qed

theorem session_reaches_the_disk_witness:
  "\<exists>calls s s' n f. session_run (=) example_start example_events calls s \<and> Encounter_Finalize s = Inr s' \<and>
     stored (ls_files (se_log s')) (''rs'' @ [CHR 0x5C] @ ''blocks'') example_block_row \<and>
     stored (ls_files (se_log s')) (''rs'' @ [CHR 0x5C] @ ''frames'') (join_commas (frame_fields n f) @ nl)"
proof -
  from example_session obtain f s where r: "session_run (=) example_start example_events (example_calls f) s"
    "log_fits (example_calls f)" by blast
  have short: "length ''r'' + length ''s'' < 999" by simp
  from session_reaches_the_disk [OF example_main short r] obtain s' where "Encounter_Finalize s = Inr s'"
    "stored (ls_files (se_log s')) (''rs'' @ [CHR 0x5C] @ ''blocks'') example_block_row"
    "stored (ls_files (se_log s')) (''rs'' @ [CHR 0x5C] @ ''frames'') (join_commas (frame_fields 1 f) @ nl)"
    by (auto simp: rows_def example_start_def initial_Session_def)
  with r(1) show ?thesis by blast
qed

text \<open>C16. What \<^verbatim>\<open>frames.csv\<close> holds after a session, read back: the frames of the block entries kept by the condition on the
  history, numbered from 1 in order, whatever other images, traces and exceptions came between.\<close>

theorem session_frames_are_the_kept_entries:
  assumes main: "main_program api pin_init_fails argc out res fs files' = Started s0 registered"
    and run: "session_run iequals s0 evs calls s"
    and ok: "\<And>ev. ev \<in> set (entries evs) \<Longrightarrow> m_eip (ev_context ev) \<noteq> 0 \<and> slots_readable ev"
  shows "\<exists>fs kept. parse_frames (concat (rows ''frames.csv'' calls)) = numbered 0 fs \<and> list_all2 frame_of kept fs \<and>
    subseq kept (entries evs) \<and> map ev_context kept = rev (keeps (rev (map ev_context (entries evs))))"
proof -
  from main_program_started [OF main] have s0: "se_frames s0 = (initial_Frame_Ids, initial_Bbl_Filter)"
    by (auto simp: initial_Session_def)
  from bbl_run_result [OF filter_rel_initial ok, of "entries evs" initial_Frame_Ids] obtain st fs kept where
    r: "bbl_run (entries evs) (se_frames s0) = Inr (st, frame_calls 0 fs)" "subseq kept (entries evs)"
      "list_all2 frame_of kept fs" "keeps (rev (map ev_context (entries evs)) @ []) = rev (map ev_context kept) @ keeps []"
    unfolding s0 by (auto simp: initial_Frame_Ids_def)
  have slots: "length (m_slots f) = 8" if "f \<in> set fs" for f using kept_slots [OF r(3) that] .
  from session_run_frames [OF run] r(1) have "rows ''frames.csv'' calls = map snd (frame_calls 0 fs)" by auto
  with parse_frame_calls [OF slots, of fs 0] r show ?thesis by (intro exI [of _ fs] exI [of _ kept]) simp
qed

theorem session_frames_are_the_kept_entries_witness:
  "\<exists>calls s fs. session_run (=) example_start example_events calls s \<and>
     parse_frames (concat (rows ''frames.csv'' calls)) = numbered 0 fs \<and> map (m_eip \<circ> m_context) fs = [0x1000]"
proof -
  from example_session obtain f s where r: "session_run (=) example_start example_events (example_calls f) s" by blast
  have e: "entries example_events = [(fst (example_entry 0x1000 8), 1, ev_context (example_entry 0x1000 8))]"
    by (simp add: entries_def)
  have ok: "m_eip (ev_context ev) \<noteq> 0 \<and> slots_readable ev" if "ev \<in> set (entries example_events)" for ev
    using that example_entry_ok [of "0x1000" 8] unfolding e by (simp add: slots_readable_def example_entry_def)
  from session_frames_are_the_kept_entries [OF example_main r ok] obtain fs kept where
    k: "parse_frames (concat (rows ''frames.csv'' (example_calls f))) = numbered 0 fs" "list_all2 frame_of kept fs"
      "map ev_context kept = rev (keeps (rev (map ev_context (entries example_events))))" by blast
  have "map ev_context kept = [ev_context (example_entry 0x1000 8)]"
    unfolding k(3) e by (simp add: accepted_def example_entry_def)
  with k(2) have "map (m_eip \<circ> m_context) fs = [0x1000]"
    by (auto simp: list_all2_Cons1 frame_of_def example_entry_def Cons_eq_map_conv split: prod.splits)
  with r k(1) show ?thesis by (intro exI [of _ "example_calls f"] exI [of _ s] exI [of _ fs]) simp
qed

end
