(* ===== verification/Image_Reloc.thy ===== *)
theory Image_Reloc
  imports Image
begin

text \<open>
  \<^verbatim>\<open>ImageInfo::AnalyzeRelocationEntry\<close>: when its two loops end, what they collect, and what they do on malformed
  relocation data.
\<close>

subsection \<open>The relocation loops\<close>

text \<open>An image in the lower half of the address space, as every image of a process is.\<close>

definition user_image :: "ImageInfo \<Rightarrow> bool" where
  "user_image img \<longleftrightarrow> unat (ii_address img) + unat (ii_size img) \<le> 2 ^ 31"

lemma IsAddrMapped_Imp_unat:
  assumes "user_image img"
  shows "IsAddrMapped_Imp img a \<longleftrightarrow>
    unat (ii_address img) \<le> unat a \<and> unat a < unat (ii_address img) + unat (ii_size img)"
proof -
  have "unat (ii_address img + ii_size img) = unat (ii_address img) + unat (ii_size img)"
    using assms by (simp add: user_image_def unat_word_ariths)
  then show ?thesis by (simp add: IsAddrMapped_Imp_def word_le_nat_alt word_less_nat_alt)
qed

lemma SecureDereference_Inr:
  "SecureDereference img rd a = Inr v \<longleftrightarrow> IsAddrMapped_Imp img a \<and> rd a = Inr v"
  by (auto simp: SecureDereference_def IsAddrMapped_Imp_def)

text \<open>The item at an address and the target it names.\<close>

definition item_hit :: "memory \<Rightarrow> ImageInfo \<Rightarrow> u32 \<Rightarrow> u32 \<Rightarrow> u32 \<Rightarrow> bool" where
  "item_hit mem img base a t \<longleftrightarrow>
     (\<exists>item. SecureDereference img (read_u16 mem) a = Inr item \<and> item AND 0xF000 = 0x3000 \<and>
        SecureDereference img (read_u32 mem) (ii_address img + ucast (item AND 0x0FFF) + base) = Inr t \<and>
        IsAddrWithinModule img t)"

definition items_hit :: "memory \<Rightarrow> ImageInfo \<Rightarrow> u32 \<Rightarrow> u32 \<Rightarrow> nat \<Rightarrow> nat \<Rightarrow> u32 set" where
  "items_hit mem img block base i len =
     {t. \<exists>k. i + 2 * k < len \<and> item_hit mem img base (block + word_of_nat (i + 2 * k) + 8) t}"

lemma items_hit_end: "len \<le> i \<Longrightarrow> items_hit mem img block base i len = {}"
  by (auto simp: items_hit_def)

lemma items_hit_step:
  assumes "i < len"
  shows "items_hit mem img block base i len =
    {t. item_hit mem img base (block + word_of_nat i + 8) t} \<union> items_hit mem img block base (i + 2) len"
proof -
  have "(\<exists>k. i + 2 * k < len \<and> P (i + 2 * k)) \<longleftrightarrow> P i \<or> (\<exists>k. i + 2 + 2 * k < len \<and> P (i + 2 + 2 * k))" for P
  proof
    assume "\<exists>k. i + 2 * k < len \<and> P (i + 2 * k)"
    then obtain k where k: "i + 2 * k < len" "P (i + 2 * k)" by blast
    show "P i \<or> (\<exists>k. i + 2 + 2 * k < len \<and> P (i + 2 + 2 * k))"
    proof (cases k)
      case (Suc j)
      with k have "i + 2 + 2 * j < len \<and> P (i + 2 + 2 * j)" by (simp add: algebra_simps)
      then show ?thesis by blast
    qed (use k in simp)
  next
    assume "P i \<or> (\<exists>k. i + 2 + 2 * k < len \<and> P (i + 2 + 2 * k))"
    then show "\<exists>k. i + 2 * k < len \<and> P (i + 2 * k)"
    proof
      assume "P i"
      with assms have "i + 2 * 0 < len \<and> P (i + 2 * 0)" by simp
      then show ?thesis by blast
    next
      assume "\<exists>k. i + 2 + 2 * k < len \<and> P (i + 2 + 2 * k)"
      then obtain k where "i + 2 + 2 * k < len" "P (i + 2 + 2 * k)" by blast
      then have "i + 2 * Suc k < len \<and> P (i + 2 * Suc k)" by (simp add: algebra_simps)
      then show ?thesis by blast
    qed
  qed
  from this [of "\<lambda>j. item_hit mem img base (block + word_of_nat j + 8) _"] show ?thesis
    unfolding items_hit_def by blast
qed

lemma set_insert_addr [simp]: "set (insert_addr a xs) = insert a (set xs)"
  by (simp add: insert_addr_def set_insort_insert)

text \<open>One turn of the loop over the items: it fails, or goes on with the target of the item there is.\<close>

lemma reloc_items_turn:
  assumes "i < len" and inv: "set_inv (\<lambda>a. a) targets"
  obtains (fault) e where "reloc_items mem img block base len i targets = Some (Inl e)"
  | (go_on) ts where "reloc_items mem img block base len i targets = reloc_items mem img block base len (i + 2) ts"
      "IsAddrMapped_Imp img (block + i + 8)" "set_inv (\<lambda>a. a) ts"
      "set ts = set targets \<union> {t. item_hit mem img base (block + i + 8) t}"
proof (cases "SecureDereference img (read_u16 mem) (block + i + 8)")
  case (Inl e)
  show ?thesis by (rule fault [of e]) (use assms Inl in \<open>subst reloc_items.simps, simp\<close>)
next
  case item: (Inr item)
  then have mapped: "IsAddrMapped_Imp img (block + i + 8)" by (simp add: SecureDereference_Inr)
  show ?thesis
  proof (cases "item AND 0xF000 = 0x3000")
    case False
    then have "\<not> item_hit mem img base (block + i + 8) t" for t using item by (simp add: item_hit_def)
    moreover have "reloc_items mem img block base len i targets = reloc_items mem img block base len (i + 2) targets"
      using assms item False by (subst reloc_items.simps) simp
    ultimately show ?thesis using go_on [of targets] mapped inv by simp
  next
    case high: True
    show ?thesis
    proof (cases "SecureDereference img (read_u32 mem) (ii_address img + ucast (item AND 0x0FFF) + base)")
      case (Inl e)
      show ?thesis by (rule fault [of e]) (use assms item high Inl in \<open>subst reloc_items.simps, simp\<close>)
    next
      case (Inr t)
      let ?ts = "if IsAddrWithinModule img t then insert_addr t targets else targets"
      have "item_hit mem img base (block + i + 8) u \<longleftrightarrow> u = t \<and> IsAddrWithinModule img t" for u
        using item high Inr by (auto simp: item_hit_def)
      moreover have "reloc_items mem img block base len i targets = reloc_items mem img block base len (i + 2) ?ts"
        using assms item high Inr by (subst reloc_items.simps) simp
      ultimately show ?thesis using go_on [of ?ts] mapped inv addr_set.ins_inv by auto
    qed
  qed
qed

lemma reloc_items_result:
  assumes img: "user_image img" and block: "unat block + unat i + 8 \<le> 2 ^ 31 + 8"
    and inv: "set_inv (\<lambda>a. a) targets"
  shows "\<exists>r. reloc_items mem img block base len i targets = Some r \<and>
    (\<forall>ts. r = Inr ts \<longrightarrow> set_inv (\<lambda>a. a) ts \<and>
      set ts = set targets \<union> items_hit mem img block base (unat i) (unat len) \<and>
      (i < len \<longrightarrow> unat block + unat len + 6 < unat (ii_address img) + unat (ii_size img)))"
  using block inv
proof (induction "2 ^ 31 - (unat block + unat i)" arbitrary: i targets rule: less_induct)
  case less
  show ?case
  proof (cases "i < len")
    case False
    then show ?thesis
      using less.prems by (subst reloc_items.simps) (simp add: items_hit_end word_less_nat_alt)
  next
    case True
    have a: "unat (block + i + 8) = unat block + unat i + 8" and i2: "unat (i + 2) = unat i + 2"
      using less.prems(1) by (simp_all add: unat_word_ariths)
    have hit: "items_hit mem img block base (unat i) (unat len) =
        {t. item_hit mem img base (block + i + 8) t} \<union> items_hit mem img block base (unat (i + 2)) (unat len)"
      using True items_hit_step [of "unat i" "unat len"] by (simp add: word_less_nat_alt i2)
    from True less.prems(2) show ?thesis
    proof (cases rule: reloc_items_turn [of i len targets mem img block base])
      case (go_on ts0)
      from go_on(2) have "unat block + unat i + 8 < unat (ii_address img) + unat (ii_size img)"
        by (simp add: IsAddrMapped_Imp_unat [OF img] a)
      then have room: "unat block + unat i + 8 < 2 ^ 31" and
        last: "\<not> i + 2 < len \<Longrightarrow> unat block + unat len + 6 < unat (ii_address img) + unat (ii_size img)"
        using img by (auto simp: user_image_def word_less_nat_alt i2)
      then have "2 ^ 31 - (unat block + unat (i + 2)) < 2 ^ 31 - (unat block + unat i)"
        and "unat block + unat (i + 2) + 8 \<le> 2 ^ 31 + 8" using i2 by simp_all
      from less.hyps [OF this go_on(3)] obtain r where "reloc_items mem img block base len (i + 2) ts0 = Some r"
        and "\<And>ts. r = Inr ts \<Longrightarrow> set_inv (\<lambda>a. a) ts \<and>
          set ts = set ts0 \<union> items_hit mem img block base (unat (i + 2)) (unat len) \<and>
          (i + 2 < len \<longrightarrow> unat block + unat len + 6 < unat (ii_address img) + unat (ii_size img))" by blast
      with go_on(1,4) hit last show ?thesis by auto
    qed simp
  qed
qed

text \<open>The blocks that are visited, from a start on.\<close>

inductive block_at :: "memory \<Rightarrow> ImageInfo \<Rightarrow> u32 \<Rightarrow> u32 \<Rightarrow> u32 \<Rightarrow> u32 \<Rightarrow> u32 \<Rightarrow> bool"
  for mem img sec_end where
  block_first: "start < sec_end \<Longrightarrow> reloc_header mem img start = Inr (base, len) \<Longrightarrow> \<not> (base = 0 \<and> len = 0) \<Longrightarrow>
     block_at mem img sec_end start start base len"
| block_next: "start < sec_end \<Longrightarrow> reloc_header mem img start = Inr (base0, len0) \<Longrightarrow> \<not> (base0 = 0 \<and> len0 = 0) \<Longrightarrow>
     block_at mem img sec_end (start + len0) b base len \<Longrightarrow> block_at mem img sec_end start b base len"

inductive_simps block_at_iff: "block_at mem img sec_end start b base len"

definition reloc_targets_from :: "memory \<Rightarrow> ImageInfo \<Rightarrow> u32 \<Rightarrow> u32 \<Rightarrow> u32 set" where
  "reloc_targets_from mem img sec_end start =
     {t. \<exists>b base len. block_at mem img sec_end start b base len \<and> t \<in> items_hit mem img b base 0 (unat len)}"

lemma reloc_targets_from_stop:
  "\<not> (\<exists>base len. start < sec_end \<and> reloc_header mem img start = Inr (base, len) \<and> \<not> (base = 0 \<and> len = 0)) \<Longrightarrow>
   reloc_targets_from mem img sec_end start = {}"
  unfolding reloc_targets_from_def by (subst block_at_iff) blast

lemma reloc_targets_from_step:
  assumes "start < sec_end" "reloc_header mem img start = Inr (base, len)" "\<not> (base = 0 \<and> len = 0)"
  shows "reloc_targets_from mem img sec_end start =
    items_hit mem img start base 0 (unat len) \<union> reloc_targets_from mem img sec_end (start + len)"
  unfolding reloc_targets_from_def by (subst block_at_iff) (use assms in auto)

lemma reloc_header_room:
  assumes img: "user_image img" and h: "reloc_header mem img start = Inr (base, len)"
  shows "unat start + 4 < 2 ^ 31"
proof -
  have mapped: "IsAddrMapped_Imp img start" "IsAddrMapped_Imp img (start + 4)"
    using h by (auto simp: reloc_header_def bind_r_eq_Inr SecureDereference_Inr)
  then have "unat start < 2 ^ 31" using img by (simp add: IsAddrMapped_Imp_unat user_image_def)
  then have "unat (start + 4) = unat start + 4" by (simp add: unat_word_ariths)
  with mapped(2) img show ?thesis by (simp add: IsAddrMapped_Imp_unat user_image_def)
qed

lemma reloc_blocks_result:
  assumes img: "user_image img" and start: "unat start \<le> 2 ^ 31" and inv: "set_inv (\<lambda>a. a) targets"
    and progress: "\<And>b base len. block_at mem img sec_end start b base len \<Longrightarrow> len \<noteq> 0"
  shows "\<exists>r. reloc_blocks mem img start sec_end targets = Some r \<and>
    (\<forall>ts. r = Inr ts \<longrightarrow> set_inv (\<lambda>a. a) ts \<and> set ts = set targets \<union> reloc_targets_from mem img sec_end start)"
  using start inv progress
proof (induction "2 ^ 31 - unat start" arbitrary: start targets rule: less_induct)
  case less
  show ?case
  proof (cases "\<exists>base len. start < sec_end \<and> reloc_header mem img start = Inr (base, len) \<and> \<not> (base = 0 \<and> len = 0)")
    case False
    note F = False
    show ?thesis
    proof (cases "start < sec_end")
      case True
      note T = True
      show ?thesis
      proof (cases "reloc_header mem img start")
        case (Inr p)
        with F T have "p = (0, 0)" by (cases p) auto
        with Inr T less.prems(2) show ?thesis
          by (subst reloc_blocks.simps) (simp add: reloc_targets_from_stop [OF F])
      qed (use T in \<open>subst reloc_blocks.simps, simp\<close>)
    qed (use less.prems(2) in \<open>subst reloc_blocks.simps, simp add: reloc_targets_from_stop [OF F]\<close>)
  next
    case True
    then obtain base len where h: "start < sec_end" "reloc_header mem img start = Inr (base, len)"
      and nz: "\<not> (base = 0 \<and> len = 0)" by blast
    have len: "len \<noteq> 0" using less.prems(3) block_first [OF h nz] by blast
    have start: "unat start + 4 < 2 ^ 31" by (rule reloc_header_room [OF img h(2)])
    then have room: "unat start + unat (0::u32) + 8 \<le> 2 ^ 31 + 8" by simp
    from reloc_items_result [OF img room less.prems(2), of mem base len] obtain r where
      r: "reloc_items mem img start base len 0 targets = Some r" and ok: "\<And>ts. r = Inr ts \<Longrightarrow> set_inv (\<lambda>a. a) ts \<and>
        set ts = set targets \<union> items_hit mem img start base 0 (unat len) \<and>
        (0 < len \<longrightarrow> unat start + unat len + 6 < unat (ii_address img) + unat (ii_size img))" by auto
    show ?thesis
    proof (cases r)
      case (Inl e)
      then have "reloc_blocks mem img start sec_end targets = Some (Inl e)"
        using h nz r by (subst reloc_blocks.simps) auto
      then show ?thesis by simp
    next
      case (Inr ts)
      have "0 < len" using len by (simp add: word_neq_0_conv)
      with ok [OF Inr] img have ts: "set_inv (\<lambda>a. a) ts" "set ts = set targets \<union> items_hit mem img start base 0 (unat len)"
        and fit: "unat start + unat len \<le> 2 ^ 31" by (auto simp: user_image_def)
      have u: "unat (start + len) = unat start + unat len" using fit by (simp add: unat_word_ariths)
      have d: "2 ^ 31 - unat (start + len) < 2 ^ 31 - unat start"
        using u len start unat_gt_0 [of len] by linarith
      have "unat (start + len) \<le> 2 ^ 31" using u fit by simp
      moreover have "len' \<noteq> 0" if "block_at mem img sec_end (start + len) b base' len'" for b base' len'
        using less.prems(3) block_next [OF h nz that] by blast
      ultimately have "\<exists>r. reloc_blocks mem img (start + len) sec_end ts = Some r \<and>
        (\<forall>ts'. r = Inr ts' \<longrightarrow> set_inv (\<lambda>a. a) ts' \<and> set ts' = set ts \<union> reloc_targets_from mem img sec_end (start + len))"
        using less.hyps [OF d _ ts(1)] by presburger
      moreover have "reloc_blocks mem img start sec_end targets = reloc_blocks mem img (start + len) sec_end ts"
        using h len r Inr by (subst reloc_blocks.simps) simp
      ultimately show ?thesis unfolding reloc_targets_from_step [OF h nz] using ts(2) by (simp add: Un_assoc)
    qed
  qed
qed

text \<open>A block that names a page but has length zero is visited again and again.\<close>

lemma reloc_blocks_zero_length:
  assumes "reloc_blocks mem img start sec_end targets = Some r"
  shows "\<not> (start < sec_end \<and> (\<exists>base. reloc_header mem img start = Inr (base, 0) \<and> base \<noteq> 0))"
proof (rule reloc_blocks.raw_induct [where P = "\<lambda>mem img start sec_end targets r.
    \<not> (start < sec_end \<and> (\<exists>base. reloc_header mem img start = Inr (base, 0) \<and> base \<noteq> 0))", OF _ assms])
  fix rec mem img start sec_end targets r
  assume IH: "\<And>mem img start sec_end targets r. rec mem img start sec_end targets = Some r \<Longrightarrow>
      \<not> (start < sec_end \<and> (\<exists>base. reloc_header mem img start = Inr (base, 0) \<and> base \<noteq> 0))"
    and body: "(if start < sec_end then
        (case reloc_header mem img start of Inl e \<Rightarrow> Some (Inl e)
         | Inr (base, len) \<Rightarrow>
             if base = 0 \<and> len = 0 then Some (Inr targets)
             else (case reloc_items mem img start base len 0 targets of None \<Rightarrow> None
                   | Some (Inl e) \<Rightarrow> Some (Inl e)
                   | Some (Inr targets') \<Rightarrow> rec mem img (start + len) sec_end targets'))
      else Some (Inr targets)) = Some r"
  have items: "reloc_items mem img start base 0 0 targets = Some (Inr targets)" for base
    by (subst reloc_items.simps) simp
  show "\<not> (start < sec_end \<and> (\<exists>base. reloc_header mem img start = Inr (base, 0) \<and> base \<noteq> 0))"
  proof
    assume h: "start < sec_end \<and> (\<exists>base. reloc_header mem img start = Inr (base, 0) \<and> base \<noteq> 0)"
    with body have "rec mem img start sec_end targets = Some r" by (auto simp: items)
    from IH [OF this] h show False by blast
  qed
qed

text \<open>C14. \<open>AnalyzeRelocationEntry\<close> on an image in user space ends unless it visits a block of length zero, and when it
  ends without an exception the targets collected are, in address order, exactly the addresses inside the image that a
  HIGHLOW item of a visited block names. An item of a block is every halfword from 8 bytes behind the block's start to 8
  bytes behind its end.\<close>

theorem relocation_targets_exact:
  assumes "user_image img" and "reloc_section iequals (IMG_Secs pin_img) = (start, sz)"
    and "start \<noteq> 0" and "sz \<noteq> 0" and "unat start \<le> 2 ^ 31" and "set_inv (\<lambda>a. a) (ii_reloc_targets img)"
    and progress: "\<And>b base len. block_at mem img (start + sz) start b base len \<Longrightarrow> len \<noteq> 0"
  shows "\<exists>r. AnalyzeRelocationEntry iequals mem pin_img img = Some r \<and>
    (\<forall>img'. r = Inr img' \<longrightarrow>
      (\<exists>ts. img' = img\<lparr>ii_reloc_targets := ts\<rparr> \<and> sorted ts \<and> distinct ts \<and>
         set ts = set (ii_reloc_targets img) \<union>
           {t. \<exists>b base len k. block_at mem img (start + sz) start b base len \<and> 2 * k < unat len \<and>
               item_hit mem img base (b + word_of_nat (2 * k) + 8) t}))"
proof -
  have "\<exists>r. reloc_blocks mem img start (start + sz) (ii_reloc_targets img) = Some r \<and>
    (\<forall>ts. r = Inr ts \<longrightarrow> set_inv (\<lambda>a. a) ts \<and>
      set ts = set (ii_reloc_targets img) \<union> reloc_targets_from mem img (start + sz) start)"
    by (rule reloc_blocks_result [OF assms(1,5,6)]) (rule progress)
  then obtain r where
    r: "reloc_blocks mem img start (start + sz) (ii_reloc_targets img) = Some r" and
    ok: "\<And>ts. r = Inr ts \<Longrightarrow> set_inv (\<lambda>a. a) ts \<and>
      set ts = set (ii_reloc_targets img) \<union> reloc_targets_from mem img (start + sz) start" by auto
  have eq: "reloc_targets_from mem img (start + sz) start =
     {t. \<exists>b base len k. block_at mem img (start + sz) start b base len \<and> 2 * k < unat len \<and>
        item_hit mem img base (b + word_of_nat (2 * k) + 8) t}"
    unfolding reloc_targets_from_def items_hit_def by auto
  show ?thesis
  proof (cases r)
    case (Inl e)
    then show ?thesis using assms r by (simp add: AnalyzeRelocationEntry_def)
  next
    case (Inr ts)
    with ok have "sorted ts \<and> distinct ts" by (simp add: set_inv_alt)
    with Inr ok [OF Inr] assms r eq show ?thesis by (simp add: AnalyzeRelocationEntry_def) blast
  qed
qed

text \<open>A relocation block that names a page but has length zero makes the analysis, and so the loading of the image, run
  forever.\<close>

lemma zero_length_block_hangs:
  assumes "reloc_section iequals (IMG_Secs pin_img) = (start, sz)" and "start \<noteq> 0" and "start < start + sz"
    and "reloc_header mem img start = Inr (base, 0)" and "base \<noteq> 0"
  shows "AnalyzeRelocationEntry iequals mem pin_img img = None"
proof -
  have "reloc_blocks mem img start (start + sz) (ii_reloc_targets img) = None"
    using reloc_blocks_zero_length [of mem img start "start + sz" "ii_reloc_targets img"] assms(3-5)
    by (cases "reloc_blocks mem img start (start + sz) (ii_reloc_targets img)") auto
  with assms(1,2,3) show ?thesis by (auto simp: AnalyzeRelocationEntry_def)
qed

text \<open>The image of the examples: a page at 0x1000 whose last bytes are the relocation section.\<close>

definition example_img :: ImageInfo where
  "example_img = \<lparr>ii_name = ''a.exe'', ii_address = 0x1000, ii_size = 0x40, ii_entry = 0x1000,
     ii_main_executable = True, ii_static_executable = False, ii_data_dirs = None, ii_reloc_targets = [], ii_sections = []\<rparr>"

definition example_pin :: "u32 \<Rightarrow> IMG" where
  "example_pin sz = \<lparr>IMG_Name = ''a.exe'', IMG_StartAddress = 0x1000, IMG_SizeMapped = 0x40, IMG_Entry = 0x1000,
     IMG_IsMainExecutable = True, IMG_IsStaticExecutable = False,
     IMG_Secs = [\<lparr>SEC_Name = ''.reloc'', SEC_Address = 0x1010, SEC_Size = sz, SEC_IsReadable = True,
       SEC_IsWriteable = False, SEC_IsExecutable = False, SEC_Type = SEC_TYPE_REGREL, SEC_Rtns = []\<rparr>]\<rparr>"

definition example_bytes :: "u8 list \<Rightarrow> memory" where
  "example_bytes reloc = [(0x1000, le32 0x1004 @ le32 0x1008 @ replicate 8 0 @ reloc @ replicate (0x30 - length reloc) 0)]"

lemma zero_length_block_run:
  "AnalyzeRelocationEntry (=) (example_bytes (le32 0x1000 @ le32 0)) (example_pin 8) example_img = None"
proof (rule zero_length_block_hangs)
  show "reloc_section (=) (IMG_Secs (example_pin 8)) = (0x1010, 8)" by code_simp
  show "reloc_header (example_bytes (le32 0x1000 @ le32 0)) example_img 0x1010 = Inr (0x1000, 0)" by code_simp
qed simp_all

text \<open>One block for page 0 with a HIGHLOW item for offset 4: the target is what stands at 0x1004.\<close>

lemma relocation_run:
  "AnalyzeRelocationEntry (=) (example_bytes (le32 0 @ le32 10 @ [0x04, 0x30])) (example_pin 10) example_img =
     Some (Inr (example_img\<lparr>ii_reloc_targets := [0x1008]\<rparr>))"
  by code_simp

text \<open>A block without items, 8 bytes long, followed by the block of page 0x3000: the header of the latter is taken for an item of
  the former, and the word at offset 0 for a relocated address, although no item says so.\<close>

lemma next_header_read_as_item:
  "AnalyzeRelocationEntry (=) (example_bytes (le32 0 @ le32 8 @ le32 0x3000 @ le32 8)) (example_pin 16) example_img =
     Some (Inr (example_img\<lparr>ii_reloc_targets := [0x1004]\<rparr>))"
  by code_simp

theorem relocation_targets_exact_witness:
  "AnalyzeRelocationEntry (=) (example_bytes (le32 0 @ le32 10 @ [0x04, 0x30])) (example_pin 10) example_img
       = Some (Inr (example_img\<lparr>ii_reloc_targets := [0x1008]\<rparr>)) \<and>
   {0x1008} = {t. \<exists>b base len k. block_at (example_bytes (le32 0 @ le32 10 @ [0x04, 0x30])) example_img (0x1010 + 10) 0x1010
       b base len \<and> 2 * k < unat len \<and>
       item_hit (example_bytes (le32 0 @ le32 10 @ [0x04, 0x30])) example_img base (b + word_of_nat (2 * k) + 8) t}"
proof -
  let ?mem = "example_bytes (le32 0 @ le32 10 @ [0x04, 0x30])"
  have h: "reloc_header ?mem example_img 0x1010 = Inr (0, 10)" by code_simp
  have sec: "reloc_section (=) (IMG_Secs (example_pin 10)) = (0x1010, 10)" by code_simp
  have "len = 10" if "block_at ?mem example_img 0x101A 0x1010 b base len" for b base len
    using that
  proof cases
    case (block_next base0 len0)
    with h have "block_at ?mem example_img 0x101A 0x101A b base len" by simp
    then show ?thesis by cases auto
  qed (use h in auto)
  then have progress: "len \<noteq> 0" if "block_at ?mem example_img (0x1010 + 10) 0x1010 b base len" for b base len
    using that by fastforce
  have "\<exists>r. AnalyzeRelocationEntry (=) ?mem (example_pin 10) example_img = Some r \<and>
    (\<forall>img'. r = Inr img' \<longrightarrow>
      (\<exists>ts. img' = example_img\<lparr>ii_reloc_targets := ts\<rparr> \<and> sorted ts \<and> distinct ts \<and>
         set ts = set (ii_reloc_targets example_img) \<union>
           {t. \<exists>b base len k. block_at ?mem example_img (0x1010 + 10) 0x1010 b base len \<and> 2 * k < unat len \<and>
               item_hit ?mem example_img base (b + word_of_nat (2 * k) + 8) t}))"
    by (rule relocation_targets_exact [OF _ sec _ _ _ _ progress])
      (simp_all add: user_image_def example_img_def set_inv_def)
  then obtain ts where "example_img\<lparr>ii_reloc_targets := [0x1008]\<rparr> = example_img\<lparr>ii_reloc_targets := ts\<rparr>"
    and "set ts = set (ii_reloc_targets example_img) \<union>
           {t. \<exists>b base len k. block_at ?mem example_img (0x1010 + 10) 0x1010 b base len \<and> 2 * k < unat len \<and>
               item_hit ?mem example_img base (b + word_of_nat (2 * k) + 8) t}"
    unfolding relocation_run by blast
  moreover from arg_cong [OF this(1), of ii_reloc_targets] have "ts = [0x1008]" by simp
  ultimately show ?thesis unfolding relocation_run by (simp add: example_img_def)
qed

end
