(* ===== verification/Image_Directory.thy ===== *)
theory Image_Directory
  imports Image
begin

text \<open>
  \<^verbatim>\<open>ImageInfo::AnalyzeDataDirectory\<close>: it collects the areas of an image that hold tables and not code, from the
  data directories of the PE header and from the import tables, for the sweep to leave out. (Its call in
  the constructor is commented out.) The structures of \<^verbatim>\<open>Windows.h\<close> are the documented layout of a PE file,
  as offsets. All its loops over memory run to a zero entry; they are one loop here, \<open>while_nonzero\<close>, and share
  the locale \<open>null_table\<close>.
\<close>

subsection \<open>The layout of the headers\<close>

type_synonym u64 = "64 word"

definition DOS_e_lfanew :: u32 where "DOS_e_lfanew = 0x3C"
definition OPT_NumberOfRvaAndSizes :: u32 where "OPT_NumberOfRvaAndSizes = 92"
definition OPT32_DataDirectory :: u32 where "OPT32_DataDirectory = 96"
definition OPT64_DataDirectory :: u32 where "OPT64_DataDirectory = 112"
definition IMPORT_Name :: u32 where "IMPORT_Name = 12"
definition IMPORT_FirstThunk :: u32 where "IMPORT_FirstThunk = 16"
definition IMPORT_DESCRIPTOR_size :: u32 where "IMPORT_DESCRIPTOR_size = 20"
definition OPTIONAL_HDR32_MAGIC :: u16 where "OPTIONAL_HDR32_MAGIC = 0x10b"
definition OPTIONAL_HDR64_MAGIC :: u16 where "OPTIONAL_HDR64_MAGIC = 0x20b"
definition DIRECTORY_ENTRY_IMPORT :: u32 where "DIRECTORY_ENTRY_IMPORT = 1"

lemmas layout_defs = DOS_e_lfanew_def OPT_NumberOfRvaAndSizes_def OPT32_DataDirectory_def OPT64_DataDirectory_def
  IMPORT_Name_def IMPORT_FirstThunk_def IMPORT_DESCRIPTOR_size_def OPTIONAL_HDR32_MAGIC_def
  OPTIONAL_HDR64_MAGIC_def DIRECTORY_ENTRY_IMPORT_def

definition read_u64 :: "memory \<Rightarrow> u32 \<Rightarrow> run_error + u64" where
  "read_u64 mem a = bind_r (read_u32 mem a) (\<lambda>lo. bind_r (read_u32 mem (a + 4)) (\<lambda>hi.
     Inr (ucast lo OR push_bit 32 (ucast hi))))"

definition read_c_string :: "memory \<Rightarrow> u32 \<Rightarrow> run_error + string" where
  "read_c_string mem a =
     (let bs = bytes_at mem a in
      if 0 \<in> set bs then Inr (map (\<lambda>b. char_of (unat b)) (takeWhile (\<lambda>b. b \<noteq> 0) bs)) else Inl Access_Violation)"

subsection \<open>What is logged\<close>

text \<open>The calls of \<^verbatim>\<open>LOQ\<close> with the entry \<^verbatim>\<open>image_static\<close>. An argument that is a pointer is only followed when the
  entry is enabled; each call has what formatting it would give, a text or a fault.\<close>

type_synonym dir_log = "(run_error + string) list"

definition fmt_2d :: "u32 \<Rightarrow> string" where "fmt_2d w = pad_left 2 CHR '' '' (fmt_d w)"

text \<open>A 64-bit argument for \<^verbatim>\<open>%016x\<close>, of which the conversion takes the low half.\<close>

definition fmt_016x :: "u64 \<Rightarrow> string" where "fmt_016x w = pad_left 16 CHR ''0'' (fmt_x (ucast w))"

definition data_dir_names :: "string list" where
  "data_dir_names =
     [''export table'', ''import table'', ''resource table'', ''exception table'', ''certificate table'',
      ''relocation table'', ''debug table'', ''architecture table'', ''global pointer'', ''tls table'',
      ''load config table'', ''bound import'', ''iat table'', ''delay import table'', ''clr runtime header'',
      [], [], [], []]"

subsection \<open>The data directories\<close>

type_synonym areas = "(u32 \<times> u32) list"

definition dir_at :: "memory \<Rightarrow> u32 \<Rightarrow> u32 \<Rightarrow> run_error + u32 \<times> u32" where
  "dir_at mem dirs i = bind_r (read_u32 mem (dirs + 8 * i)) (\<lambda>va.
     bind_r (read_u32 mem (dirs + 8 * i + 4)) (\<lambda>sz. Inr (va, sz)))"

text \<open>The names are looked up with the index from the file.\<close>

definition data_dir_name :: "u32 \<Rightarrow> run_error + string" where
  "data_dir_name i = (if unat i < length data_dir_names then Inr (data_dir_names ! unat i) else Inl Buffer_Overflow)"

definition data_dir_entry :: "ImageInfo \<Rightarrow> u32 \<Rightarrow> string \<Rightarrow> u32 \<times> u32 \<Rightarrow> areas \<times> dir_log" where
  "data_dir_entry img i name = (\<lambda>(va, sz).
     if va = 0 \<and> sz = 0 then
       ([], [Inr (''data dir['' @ fmt_2d i @ ''], [---------- - ----------] '' @ name @ nl)])
     else
       ([(ii_address img + va, sz)],
        [Inr (''data dir['' @ fmt_2d i @ ''], [0x'' @ fmt_08x (ii_address img + va) @ '' - 0x'' @
              fmt_08x (ii_address img + va + sz) @ ''] '' @ name @ nl)]))"

fun data_dir_loop :: "memory \<Rightarrow> ImageInfo \<Rightarrow> u32 \<Rightarrow> u32 \<Rightarrow> nat \<Rightarrow> run_error + areas \<times> dir_log" where
  "data_dir_loop mem img dirs i 0 = Inr ([], [])"
| "data_dir_loop mem img dirs i (Suc n) =
     bind_r (dir_at mem dirs i) (\<lambda>d.
     bind_r (data_dir_name i) (\<lambda>name.
     case data_dir_entry img i name d of (grey, log) \<Rightarrow>
     bind_r (data_dir_loop mem img dirs (i + 1) n) (\<lambda>(grey', log'). Inr (grey @ grey', log @ log'))))"

subsection \<open>The loops over tables\<close>

text \<open>\<open>while (*p != 0) { ...; p++; }\<close>; nothing guarantees that there is a zero, \<open>None\<close> is a run that does not end.\<close>

partial_function (option) while_nonzero ::
    "(u32 \<Rightarrow> run_error + 'w::zero) \<Rightarrow> u32 \<Rightarrow> (u32 \<Rightarrow> 'w \<Rightarrow> 's \<Rightarrow> (run_error + 's) option) \<Rightarrow> u32 \<Rightarrow> 's \<Rightarrow>
       (run_error + 's) option" where
  "while_nonzero rd step body a s =
     (case rd a of Inl e \<Rightarrow> Some (Inl e)
      | Inr v \<Rightarrow>
          if v = 0 then Some (Inr s)
          else (case body a v s of None \<Rightarrow> None
                | Some (Inl e) \<Rightarrow> Some (Inl e)
                | Some (Inr s') \<Rightarrow> while_nonzero rd step body (a + step) s'))"

declare while_nonzero.simps [code]

text \<open>The name a lookup table entry points to, behind a two-byte hint.\<close>

definition import_name :: "memory \<Rightarrow> ImageInfo \<Rightarrow> u32 \<Rightarrow> run_error + dir_log" where
  "import_name mem img a =
     (if IsAddrWithinModule img a then
        bind_r (if IsAddrWithinModule img (a + 2) then read_c_string mem (a + 2) else Inr []) (\<lambda>name.
          Inr [Inr (''Name '' @ name @ nl)])
      else Inr [])"

definition ilt_entry32 :: "memory \<Rightarrow> ImageInfo \<Rightarrow> u32 \<Rightarrow> run_error + dir_log" where
  "ilt_entry32 mem img v =
     (if v AND 0x80000000 \<noteq> 0 then Inr [Inr (''Ordinal 0x'' @ fmt_08x (v AND 0x7FFFFFFF) @ nl)]
      else import_name mem img (ii_address img + (v AND 0x7FFFFFFF)))"

definition ilt_entry64 :: "memory \<Rightarrow> ImageInfo \<Rightarrow> u64 \<Rightarrow> run_error + dir_log" where
  "ilt_entry64 mem img v =
     (if v AND 0x8000000000000000 \<noteq> 0 then
        Inr [Inr (''Ordinal 0x'' @ fmt_08x (ucast (v AND 0x7FFFFFFFFFFFFFFF)) @ nl)]
      else import_name mem img (ucast (ucast (ii_address img) + (v AND 0x7FFFFFFFFFFFFFFF))))"

definition iat_entry32 :: "u32 \<Rightarrow> run_error + dir_log" where
  "iat_entry32 v = Inr [Inr (''IAT [0x'' @ fmt_08x v @ '']'' @ nl)]"

definition iat_entry64 :: "u64 \<Rightarrow> run_error + dir_log" where
  "iat_entry64 v = Inr [Inr (''IAT [0x'' @ fmt_016x v @ '']'' @ nl)]"

text \<open>A loop body that logs its entry and counts its bytes.\<close>

definition count_entry ::
    "u32 \<Rightarrow> ('w \<Rightarrow> run_error + dir_log) \<Rightarrow> u32 \<Rightarrow> 'w \<Rightarrow> u32 \<times> dir_log \<Rightarrow> (run_error + u32 \<times> dir_log) option" where
  "count_entry step entry a v = (\<lambda>(sz, log). Some (bind_r (entry v) (\<lambda>calls. Inr (sz + step, log @ calls))))"

definition scan_table ::
    "memory \<Rightarrow> ImageInfo \<Rightarrow> u16 \<Rightarrow> (u32 \<Rightarrow> run_error + dir_log) \<Rightarrow> (u64 \<Rightarrow> run_error + dir_log) \<Rightarrow> u32 \<Rightarrow>
       (run_error + u32 \<times> dir_log) option" where
  "scan_table mem img magic entry32 entry64 a =
     (if IsAddrWithinModule img a then
        (if magic = OPTIONAL_HDR32_MAGIC then while_nonzero (read_u32 mem) 4 (count_entry 4 entry32) a (0, [])
         else if magic = OPTIONAL_HDR64_MAGIC then while_nonzero (read_u64 mem) 8 (count_entry 8 entry64) a (0, [])
         else Some (Inr (0, [])))
      else Some (Inr (0, [])))"

subsection \<open>The import directory\<close>

text \<open>One import descriptor, at \<open>ide\<close>; \<open>oft\<close> is its first word, which the loop has read.\<close>

definition import_entry ::
    "memory \<Rightarrow> ImageInfo \<Rightarrow> u16 \<Rightarrow> u32 \<Rightarrow> u32 \<Rightarrow> areas \<times> dir_log \<Rightarrow> (run_error + areas \<times> dir_log) option" where
  "import_entry mem img magic ide oft = (\<lambda>(grey, log).
     case bind_r (read_u32 mem (ide + IMPORT_FirstThunk)) (\<lambda>ft.
          bind_r (read_u32 mem (ide + IMPORT_Name)) (\<lambda>name. Inr (ft, name))) of
       Inl e \<Rightarrow> Some (Inl e)
     | Inr (ft, name) \<Rightarrow>
         (let ilt = ii_address img + oft; iat = ii_address img + ft;
              head = bind_r (read_c_string mem (ii_address img + name)) (\<lambda>dll.
                Inr (''ILT at [0x'' @ fmt_08x ilt @ ''], IAT at [0x'' @ fmt_08x iat @ ''], '' @ dll @ nl)) in
          case scan_table mem img magic (ilt_entry32 mem img) (ilt_entry64 mem img) ilt of None \<Rightarrow> None
          | Some (Inl e) \<Rightarrow> Some (Inl e)
          | Some (Inr (ilt_size, log1)) \<Rightarrow>
              (case scan_table mem img magic iat_entry32 iat_entry64 iat of None \<Rightarrow> None
               | Some (Inl e) \<Rightarrow> Some (Inl e)
               | Some (Inr (iat_size, log2)) \<Rightarrow>
                   Some (Inr (grey @ [(ilt, ilt_size), (iat, iat_size)],
                     log @ [head] @ log1 @ log2 @
                     [Inr (''Grey area [0x'' @ fmt_08x ilt @ '' - 0x'' @ fmt_08x (ilt + ilt_size) @ ''], [0x'' @
                        fmt_08x iat @ '' - 0x'' @ fmt_08x (iat + iat_size) @ '']'' @ nl)])))))"

definition import_loop ::
    "memory \<Rightarrow> ImageInfo \<Rightarrow> u16 \<Rightarrow> u32 \<Rightarrow> areas \<times> dir_log \<Rightarrow> (run_error + areas \<times> dir_log) option" where
  "import_loop mem img magic =
     while_nonzero (read_u32 mem) IMPORT_DESCRIPTOR_size (import_entry mem img magic)"

definition analyze_directories ::
    "memory \<Rightarrow> ImageInfo \<Rightarrow> u16 \<Rightarrow> u32 \<Rightarrow> u32 \<Rightarrow> areas \<Rightarrow> (run_error + areas \<times> dir_log) option" where
  "analyze_directories mem img magic opt dirs grey =
     (case bind_r (read_u32 mem (opt + OPT_NumberOfRvaAndSizes)) (\<lambda>n.
           bind_r (data_dir_loop mem img dirs 0 (unat n)) (\<lambda>(grey1, log1).
           bind_r (dir_at mem dirs DIRECTORY_ENTRY_IMPORT) (\<lambda>(va, sz). Inr (grey1, log1, ii_address img + va)))) of
        Inl e \<Rightarrow> Some (Inl e)
      | Inr (grey1, log1, ide) \<Rightarrow>
          if IsAddrWithinModule img ide then import_loop mem img magic ide (grey @ grey1, log1)
          else Some (Inr (grey @ grey1, log1)))"

definition AnalyzeDataDirectory ::
    "memory \<Rightarrow> ImageInfo \<Rightarrow> areas \<Rightarrow> (run_error + ImageInfo \<times> areas \<times> dir_log) option" where
  "AnalyzeDataDirectory mem img grey =
     (case bind_r (read_u32 mem (ii_address img + DOS_e_lfanew)) (\<lambda>lfanew.
           let opt = ii_address img + lfanew + 24 in bind_r (read_u16 mem opt) (\<lambda>magic. Inr (opt, magic))) of
        Inl e \<Rightarrow> Some (Inl e)
      | Inr (opt, magic) \<Rightarrow>
          (let img' = (if magic = OPTIONAL_HDR32_MAGIC then img\<lparr>ii_data_dirs := Some (opt + OPT32_DataDirectory)\<rparr>
                       else if magic = OPTIONAL_HDR64_MAGIC then img\<lparr>ii_data_dirs := Some (opt + OPT64_DataDirectory)\<rparr>
                       else img) in
           case ii_data_dirs img' of None \<Rightarrow> Some (Inr (img', grey, []))
           | Some dirs \<Rightarrow>
               (case analyze_directories mem img' magic opt dirs grey of None \<Rightarrow> None
                | Some (Inl e) \<Rightarrow> Some (Inl e)
                | Some (Inr (grey', log)) \<Rightarrow> Some (Inr (img', grey', log)))))"

subsection \<open>The contract of a table\<close>

text \<open>Memory in the lower half of the address space, as that of a process is.\<close>

definition user_memory :: "memory \<Rightarrow> bool" where
  "user_memory mem \<longleftrightarrow> (\<forall>(base, bs) \<in> set mem. unat base + length bs \<le> 2 ^ 31)"

lemma bytes_at_user: "user_memory mem \<Longrightarrow> bytes_at mem a \<noteq> [] \<Longrightarrow> unat a < 2 ^ 31"
proof (induction mem a rule: bytes_at.induct)
  case (2 base bs mem a)
  then have "unat base + length bs \<le> 2 ^ 31" and "user_memory mem" by (auto simp: user_memory_def)
  with 2 show ?case by (cases "base \<le> a") (auto simp: unat_diff_le word_le_nat_alt split: if_split_asm)
qed simp

text \<open>The words before the zero that ends a table.\<close>

fun table_at :: "(u32 \<Rightarrow> run_error + 'w::zero) \<Rightarrow> u32 \<Rightarrow> u32 \<Rightarrow> 'w list \<Rightarrow> bool" where
  "table_at rd step a [] \<longleftrightarrow> rd a = Inr 0"
| "table_at rd step a (v # vs) \<longleftrightarrow> rd a = Inr v \<and> v \<noteq> 0 \<and> table_at rd step (a + step) vs"

fun body_run ::
    "(u32 \<Rightarrow> 'w \<Rightarrow> 's \<Rightarrow> (run_error + 's) option) \<Rightarrow> u32 \<Rightarrow> u32 \<Rightarrow> 'w list \<Rightarrow> 's \<Rightarrow> 's \<Rightarrow> bool" where
  "body_run body step a [] s s' \<longleftrightarrow> s' = s"
| "body_run body step a (v # vs) s s' \<longleftrightarrow>
     (\<exists>s1. body a v s = Some (Inr s1) \<and> body_run body step (a + step) vs s1 s')"

lemma table_at_unique: "table_at rd step a vs \<Longrightarrow> table_at rd step a ws \<Longrightarrow> vs = ws"
proof (induction vs arbitrary: a ws)
  case Nil
  then show ?case by (cases ws) auto
next
  case (Cons v vs)
  then show ?case by (cases ws) auto
qed

lemma while_nonzero_run:
  assumes "while_nonzero rd step body a s = Some (Inr s')"
  shows "\<exists>vs. table_at rd step a vs \<and> body_run body step a vs s s'"
proof (rule while_nonzero.raw_induct [where P = "\<lambda>rd step body a s r. \<forall>s'. r = Inr s' \<longrightarrow>
    (\<exists>vs. table_at rd step a vs \<and> body_run body step a vs s s')", OF _ assms, rule_format, OF _ refl])
  fix rec rd step body a s r s'
  assume IH: "\<And>rd step body a s r s'. rec rd step body a s = Some r \<Longrightarrow> r = Inr s' \<Longrightarrow>
      \<exists>vs. table_at rd step a vs \<and> body_run body step a vs s s'"
    and run: "(case rd a of Inl e \<Rightarrow> Some (Inl e)
      | Inr v \<Rightarrow> if v = 0 then Some (Inr s)
          else (case body a v s of None \<Rightarrow> None | Some (Inl e) \<Rightarrow> Some (Inl e)
                | Some (Inr s') \<Rightarrow> rec rd step body (a + step) s')) = Some r"
    and r: "r = Inr s'"
  show "\<exists>vs. table_at rd step a vs \<and> body_run body step a vs s s'"
  proof (cases "\<exists>v. rd a = Inr v \<and> v \<noteq> 0")
    case True
    then obtain v where v: "rd a = Inr v" "v \<noteq> 0" by blast
    with run r obtain s1 where s1: "body a v s = Some (Inr s1)" "rec rd step body (a + step) s1 = Some r"
      by (auto split: option.splits sum.splits)
    from IH [OF s1(2) r] obtain vs where "table_at rd step (a + step) vs" "body_run body step (a + step) vs s1 s'"
      by blast
    with v s1(1) have "table_at rd step a (v # vs) \<and> body_run body step a (v # vs) s s'" by auto
    then show ?thesis by blast
  next
    case False
    with run r have "table_at rd step a [] \<and> body_run body step a [] s s'" by (auto split: sum.splits)
    then show ?thesis by blast
  qed
qed

locale null_table =
  fixes rd :: "memory \<Rightarrow> u32 \<Rightarrow> run_error + 'w::zero" and step :: u32
  assumes rd_below: "user_memory mem \<Longrightarrow> rd mem a = Inr v \<Longrightarrow> unat a < 2 ^ 31"
    and step_pos: "0 < unat step" and step_small: "unat step < 2 ^ 31"
begin

text \<open>A scan of user memory ends: it meets a zero or leaves what is mapped.\<close>

lemma scan_ends:
  assumes user: "user_memory mem" and body: "\<And>a v s. \<exists>r. body a v s = Some r"
  shows "\<exists>r. while_nonzero (rd mem) step body a s = Some r"
proof (induction "2 ^ 31 - unat a" arbitrary: a s rule: less_induct)
  case less
  show ?case
  proof (cases "\<exists>v. rd mem a = Inr v \<and> v \<noteq> 0")
    case True
    then obtain v where v: "rd mem a = Inr v" "v \<noteq> 0" by blast
    from rd_below [OF user v(1)] have a: "unat a < 2 ^ 31" .
    then have "unat (a + step) = unat a + unat step" using step_small by (simp add: unat_word_ariths)
    with a step_pos have less_a: "2 ^ 31 - unat (a + step) < 2 ^ 31 - unat a" by simp
    obtain r where r: "body a v s = Some r" using body by blast
    show ?thesis
    proof (cases r)
      case (Inr s1)
      from less [OF less_a, of s1] v r Inr show ?thesis by (subst while_nonzero.simps) simp
    qed (use v r in \<open>subst while_nonzero.simps, simp\<close>)
  next
    case False
    then show ?thesis by (subst while_nonzero.simps) (auto split: sum.splits)
  qed
qed

text \<open>Where it ends well, the table is there, and its body has run once for each entry.\<close>

lemma scan_counts:
  assumes "while_nonzero (rd mem) step (count_entry step entry) a (0, []) = Some (Inr (sz, log))"
  shows "\<exists>vs. table_at (rd mem) step a vs \<and> sz = of_nat (length vs) * step"
proof -
  have "n' = n + of_nat (length vs) * st" if "body_run (count_entry st entry) st b vs (n, l) (n', l')"
    for st b vs n l n' l'
    using that
  proof (induction vs arbitrary: b n l)
    case (Cons v vs)
    then obtain s1 where 1: "count_entry st entry b v (n, l) = Some (Inr s1)"
      and run: "body_run (count_entry st entry) st (b + st) vs s1 (n', l')" by auto
    from 1 obtain l1 where "s1 = (n + st, l1)" by (auto simp: count_entry_def bind_r_eq_Inr)
    with run have "body_run (count_entry st entry) st (b + st) vs (n + st, l1) (n', l')" by simp
    from Cons.IH [OF this] show ?case by (simp add: algebra_simps)
  qed simp
  with while_nonzero_run [OF assms] show ?thesis by fastforce
qed

end

lemma read_u32_mapped: "read_u32 mem a = Inr v \<Longrightarrow> bytes_at mem a \<noteq> []"
  by (auto simp: read_u32_def FETCH32_def FETCH8_def)

lemma read_u32_user: "user_memory mem \<Longrightarrow> read_u32 mem a = Inr v \<Longrightarrow> unat a < 2 ^ 31"
  by (erule bytes_at_user) (rule read_u32_mapped)

lemma read_u64_user: "user_memory mem \<Longrightarrow> read_u64 mem a = Inr v \<Longrightarrow> unat a < 2 ^ 31"
  unfolding read_u64_def bind_r_eq_Inr by (blast intro: read_u32_user)

interpretation words32: null_table read_u32 4
  by unfold_locales (rule read_u32_user, simp_all)

interpretation words64: null_table read_u64 8
  by unfold_locales (rule read_u64_user, simp_all)

interpretation import_table: null_table read_u32 IMPORT_DESCRIPTOR_size
  by unfold_locales (rule read_u32_user, simp_all add: layout_defs)

subsection \<open>The areas of the import tables\<close>

definition table_extent :: "memory \<Rightarrow> ImageInfo \<Rightarrow> u16 \<Rightarrow> u32 \<Rightarrow> u32 \<Rightarrow> bool" where
  "table_extent mem img magic a sz \<longleftrightarrow>
     (if \<not> IsAddrWithinModule img a then sz = 0
      else if magic = OPTIONAL_HDR32_MAGIC then \<exists>vs. table_at (read_u32 mem) 4 a vs \<and> sz = of_nat (length vs) * 4
      else if magic = OPTIONAL_HDR64_MAGIC then \<exists>vs. table_at (read_u64 mem) 8 a vs \<and> sz = of_nat (length vs) * 8
      else sz = 0)"

lemma scan_table_ends: "user_memory mem \<Longrightarrow> \<exists>r. scan_table mem img magic e32 e64 a = Some r"
  unfolding scan_table_def
  by (auto simp: count_entry_def intro!: words32.scan_ends words64.scan_ends)

lemma scan_table_extent:
  "scan_table mem img magic e32 e64 a = Some (Inr (sz, log)) \<Longrightarrow> table_extent mem img magic a sz"
  unfolding scan_table_def table_extent_def
  by (auto split: if_split_asm dest: words32.scan_counts words64.scan_counts)

text \<open>The two areas of each import descriptor, the lookup table and the address table.\<close>

fun import_areas :: "memory \<Rightarrow> ImageInfo \<Rightarrow> u16 \<Rightarrow> u32 \<Rightarrow> u32 list \<Rightarrow> areas \<Rightarrow> bool" where
  "import_areas mem img magic ide [] xs \<longleftrightarrow> xs = []"
| "import_areas mem img magic ide (oft # vs) xs \<longleftrightarrow>
     (\<exists>ft s1 s2 ys. read_u32 mem (ide + IMPORT_FirstThunk) = Inr ft \<and>
        table_extent mem img magic (ii_address img + oft) s1 \<and> table_extent mem img magic (ii_address img + ft) s2 \<and>
        xs = (ii_address img + oft, s1) # (ii_address img + ft, s2) # ys \<and>
        import_areas mem img magic (ide + IMPORT_DESCRIPTOR_size) vs ys)"

lemma import_entry_ends: "user_memory mem \<Longrightarrow> \<exists>r. import_entry mem img magic ide oft s = Some r"
proof -
  assume user: "user_memory mem"
  have ends: "(scan_table mem img magic e32 e64 a = None) = False" for e32 e64 a
    using scan_table_ends [OF user, of img magic e32 e64 a] by auto
  show ?thesis
    by (cases s) (auto simp: import_entry_def Let_def ends simp del: not_None_eq split: sum.splits option.splits)
qed

lemma import_entry_areas:
  assumes "import_entry mem img magic ide oft (grey, log) = Some (Inr (grey', log'))"
  shows "\<exists>ft s1 s2. read_u32 mem (ide + IMPORT_FirstThunk) = Inr ft \<and>
    table_extent mem img magic (ii_address img + oft) s1 \<and> table_extent mem img magic (ii_address img + ft) s2 \<and>
    grey' = grey @ [(ii_address img + oft, s1), (ii_address img + ft, s2)]"
proof -
  from assms obtain ft name s1 log1 s2 log2 where "read_u32 mem (ide + IMPORT_FirstThunk) = Inr ft"
    and "scan_table mem img magic (ilt_entry32 mem img) (ilt_entry64 mem img) (ii_address img + oft) = Some (Inr (s1, log1))"
    and "scan_table mem img magic iat_entry32 iat_entry64 (ii_address img + ft) = Some (Inr (s2, log2))"
    and "grey' = grey @ [(ii_address img + oft, s1), (ii_address img + ft, s2)]"
    by (auto simp: import_entry_def Let_def bind_r_eq_Inr split: sum.splits option.splits)
  then show ?thesis by (blast dest: scan_table_extent)
qed

lemma import_run_areas:
  "body_run (import_entry mem img magic) IMPORT_DESCRIPTOR_size ide vs (grey, log) (grey', log') \<Longrightarrow>
   \<exists>xs. grey' = grey @ xs \<and> import_areas mem img magic ide vs xs"
proof (induction vs arbitrary: ide grey log)
  case (Cons oft vs)
  then obtain grey1 log1 where 1: "import_entry mem img magic ide oft (grey, log) = Some (Inr (grey1, log1))"
    and run: "body_run (import_entry mem img magic) IMPORT_DESCRIPTOR_size (ide + IMPORT_DESCRIPTOR_size) vs
      (grey1, log1) (grey', log')" by auto
  from Cons.IH [OF run] obtain xs where "grey' = grey1 @ xs"
    "import_areas mem img magic (ide + IMPORT_DESCRIPTOR_size) vs xs" by blast
  with import_entry_areas [OF 1] show ?case by fastforce
qed simp

lemma import_loop_ends: "user_memory mem \<Longrightarrow> \<exists>r. import_loop mem img magic ide s = Some r"
  unfolding import_loop_def by (rule import_table.scan_ends) (auto intro: import_entry_ends)

lemma import_loop_areas:
  assumes "import_loop mem img magic ide (grey, log) = Some (Inr (grey', log'))"
  shows "\<exists>vs xs. table_at (read_u32 mem) IMPORT_DESCRIPTOR_size ide vs \<and> grey' = grey @ xs \<and>
    import_areas mem img magic ide vs xs"
  using while_nonzero_run [OF assms [unfolded import_loop_def]] import_run_areas by blast

subsection \<open>The areas of the data directories\<close>

definition used_directories :: "ImageInfo \<Rightarrow> (u32 \<times> u32) list \<Rightarrow> areas" where
  "used_directories img ds = map (\<lambda>(va, sz). (ii_address img + va, sz)) (filter (\<lambda>d. d \<noteq> (0, 0)) ds)"

lemma data_dir_loop_result:
  assumes "data_dir_loop mem img dirs i n = Inr (grey, log)" and "unat i + n < 2 ^ 32"
  shows "\<exists>ds. length ds = n \<and> (\<forall>k<n. dir_at mem dirs (i + of_nat k) = Inr (ds ! k)) \<and>
    (n = 0 \<or> unat i + n \<le> 19) \<and> grey = used_directories img ds"
  using assms
proof (induction n arbitrary: i grey log)
  case (Suc n)
  then obtain d name grey1 log1 where d: "dir_at mem dirs i = Inr d" and name: "data_dir_name i = Inr name"
    and rec: "data_dir_loop mem img dirs (i + 1) n = Inr (grey1, log1)"
    and grey: "grey = fst (data_dir_entry img i name d) @ grey1"
    by (auto simp: bind_r_eq_Inr prod.case_eq_if simp del: split_paired_Ex)
  have i1: "unat (i + 1) = unat i + 1" using Suc.prems(2) by (simp add: unat_word_ariths)
  with Suc.prems(2) have "unat (i + 1) + n < 2 ^ 32" by simp
  from Suc.IH [OF rec this] obtain ds where ds: "length ds = n" "\<forall>k<n. dir_at mem dirs (i + 1 + of_nat k) = Inr (ds ! k)"
    "n = 0 \<or> unat (i + 1) + n \<le> 19" "grey1 = used_directories img ds" by blast
  have "dir_at mem dirs (i + of_nat k) = Inr ((d # ds) ! k)" if "k < Suc n" for k
    using that d ds(2) by (cases k) (auto simp: algebra_simps)
  moreover have "unat i < 19" using name by (simp add: data_dir_name_def data_dir_names_def split: if_split_asm)
  moreover have "grey = used_directories img (d # ds)"
    using grey ds(4) by (cases d) (auto simp: data_dir_entry_def used_directories_def)
  ultimately show ?case using ds i1 by (intro exI [of _ "d # ds"]) auto
qed (simp add: used_directories_def)

subsection \<open>The whole analysis\<close>

lemma image_frame [simp]:
  "IsAddrWithinModule (img\<lparr>ii_data_dirs := d\<rparr>) a = IsAddrWithinModule img a"
  "table_extent mem (img\<lparr>ii_data_dirs := d\<rparr>) magic a sz = table_extent mem img magic a sz"
  "used_directories (img\<lparr>ii_data_dirs := d\<rparr>) ds = used_directories img ds"
  by (simp_all add: IsAddrWithinModule_def IsAddrMapped_Imp_def table_extent_def used_directories_def)

lemma import_areas_frame [simp]:
  "import_areas mem (img\<lparr>ii_data_dirs := d\<rparr>) magic ide vs xs = import_areas mem img magic ide vs xs"
  by (induction vs arbitrary: ide xs) simp_all

lemma analyze_directories_ends: "user_memory mem \<Longrightarrow> \<exists>r. analyze_directories mem img magic opt dirs grey = Some r"
  using import_loop_ends [of mem img magic]
  by (auto simp: analyze_directories_def split: sum.splits)

text \<open>What the areas are: the directories that are not empty, then two tables for each import descriptor.\<close>

definition directory_areas :: "memory \<Rightarrow> ImageInfo \<Rightarrow> u16 \<Rightarrow> u32 \<Rightarrow> nat \<Rightarrow> areas \<Rightarrow> bool" where
  "directory_areas mem img magic dirs n xs \<longleftrightarrow>
     (\<exists>ds va sz imports. length ds = n \<and> (\<forall>k<n. dir_at mem dirs (of_nat k) = Inr (ds ! k)) \<and>
        dir_at mem dirs DIRECTORY_ENTRY_IMPORT = Inr (va, sz) \<and> xs = used_directories img ds @ imports \<and>
        (if IsAddrWithinModule img (ii_address img + va)
         then \<exists>vs. table_at (read_u32 mem) IMPORT_DESCRIPTOR_size (ii_address img + va) vs \<and>
                import_areas mem img magic (ii_address img + va) vs imports
         else imports = []))"

lemma analyze_directories_areas:
  assumes "analyze_directories mem img magic opt dirs grey = Some (Inr (grey', log))"
    and n: "read_u32 mem (opt + OPT_NumberOfRvaAndSizes) = Inr n"
  shows "unat n \<le> 19 \<and> (\<exists>xs. grey' = grey @ xs \<and> directory_areas mem img magic dirs (unat n) xs)"
proof -
  from assms obtain grey1 log1 va sz where loop: "data_dir_loop mem img dirs 0 (unat n) = Inr (grey1, log1)"
    and imp: "dir_at mem dirs DIRECTORY_ENTRY_IMPORT = Inr (va, sz)"
    and res: "(if IsAddrWithinModule img (ii_address img + va)
      then import_loop mem img magic (ii_address img + va) (grey @ grey1, log1)
      else Some (Inr (grey @ grey1, log1))) = Some (Inr (grey', log))"
    by (auto simp: analyze_directories_def bind_r_eq_Inr split: sum.splits)
  have "unat (0 :: u32) + unat n < 2 ^ 32" using u32_bound [of n] by simp
  from data_dir_loop_result [OF loop this] obtain ds where ds: "length ds = unat n"
    "\<forall>k<unat n. dir_at mem dirs (of_nat k) = Inr (ds ! k)" "unat n \<le> 19" "grey1 = used_directories img ds" by auto
  let ?ide = "ii_address img + va"
  have "\<exists>imports. grey' = grey @ grey1 @ imports \<and>
      (if IsAddrWithinModule img ?ide
       then \<exists>vs. table_at (read_u32 mem) IMPORT_DESCRIPTOR_size ?ide vs \<and> import_areas mem img magic ?ide vs imports
       else imports = [])"
    using res by (auto split: if_split_asm dest!: import_loop_areas)
  with ds imp show ?thesis unfolding directory_areas_def by blast
qed

text \<open>C15. On the memory of a process the analysis of a 32-bit image always ends, whatever the headers and tables
  hold. Where it does not fail, the header names at most the 19 directories there are names for, and the areas are
  those of the directories that are not empty, followed, for each descriptor of the import table up to
  the empty one, by its lookup table and its address table, each as long as its entries before the first zero.\<close>

theorem grey_areas_are_the_tables:
  assumes user: "user_memory mem" and lfanew: "read_u32 mem (ii_address img + DOS_e_lfanew) = Inr lfanew"
    and opt: "opt = ii_address img + lfanew + 24" and magic: "read_u16 mem opt = Inr OPTIONAL_HDR32_MAGIC"
    and n: "read_u32 mem (opt + OPT_NumberOfRvaAndSizes) = Inr n"
  shows "\<exists>r. AnalyzeDataDirectory mem img grey = Some r \<and>
    (\<forall>img' grey' log. r = Inr (img', grey', log) \<longrightarrow>
       unat n \<le> 19 \<and> img' = img\<lparr>ii_data_dirs := Some (opt + OPT32_DataDirectory)\<rparr> \<and>
       (\<exists>xs. grey' = grey @ xs \<and>
          directory_areas mem img OPTIONAL_HDR32_MAGIC (opt + OPT32_DataDirectory) (unat n) xs))"
proof -
  let ?img = "img\<lparr>ii_data_dirs := Some (opt + OPT32_DataDirectory)\<rparr>" and ?dirs = "opt + OPT32_DataDirectory"
  have dirs: "directory_areas mem ?img m d k xs = directory_areas mem img m d k xs" for m d k xs
    by (simp add: directory_areas_def)
  obtain r where r: "analyze_directories mem ?img OPTIONAL_HDR32_MAGIC opt ?dirs grey = Some r"
    using analyze_directories_ends [OF user] by blast
  then have run: "AnalyzeDataDirectory mem img grey = Some (case r of Inl e \<Rightarrow> Inl e | Inr (grey', log) \<Rightarrow> Inr (?img, grey', log))"
    by (auto simp: AnalyzeDataDirectory_def lfanew magic opt [symmetric] Let_def split: sum.splits)
  show ?thesis
  proof (cases r)
    case (Inr x)
    obtain grey' log where x: "x = (grey', log)" by force
    from analyze_directories_areas [OF r [unfolded Inr x] n] run Inr x show ?thesis by (simp add: dirs)
  qed (use run in simp)
qed

text \<open>A header with an empty export directory and an import directory with one descriptor, for one ordinal.\<close>

definition example_pe :: memory where
  "example_pe = [(0x1000, replicate 0x3C 0 @ le32 0x28 @ [0x0b, 1] @ replicate 90 0 @ le32 2 @ le32 0 @ le32 0 @
     le32 0xB0 @ le32 40 @ le32 0xD8 @ le32 0 @ le32 0 @ le32 0xE8 @ le32 0xE0 @ replicate 20 0 @
     le32 0x80000001 @ le32 0 @ le32 0x7C801234 @ le32 0 @ [0x61, 0])]"

definition example_pe_img :: ImageInfo where
  "example_pe_img = \<lparr>ii_name = ''a.exe'', ii_address = 0x1000, ii_size = 0x100, ii_entry = 0x1000,
     ii_main_executable = True, ii_static_executable = False, ii_data_dirs = None, ii_reloc_targets = [],
     ii_sections = []\<rparr>"

lemma example_pe_reads:
  "read_u32 example_pe 0x103C = Inr 0x28" "read_u16 example_pe 0x1040 = Inr 0x10b" "read_u32 example_pe 0x109C = Inr 2"
  "dir_at example_pe 0x10A0 0 = Inr (0, 0)" "dir_at example_pe 0x10A0 1 = Inr (0xB0, 40)"
  "read_u32 example_pe 0x10B0 = Inr 0xD8" "read_u32 example_pe 0x10C0 = Inr 0xE0" "read_u32 example_pe 0x10BC = Inr 0xE8"
  "read_u32 example_pe 0x10C4 = Inr 0" "read_u32 example_pe 0x10D8 = Inr 0x80000001" "read_u32 example_pe 0x10DC = Inr 0"
  "read_u32 example_pe 0x10E0 = Inr 0x7C801234" "read_u32 example_pe 0x10E4 = Inr 0"
  by code_simp+

lemma example_pe_run:
  "\<exists>log. AnalyzeDataDirectory example_pe example_pe_img [] =
     Some (Inr (example_pe_img\<lparr>ii_data_dirs := Some 0x10A0\<rparr>, [(0x10B0, 40), (0x10D8, 4), (0x10E0, 4)], log))"
proof -
  let ?img = "example_pe_img\<lparr>ii_data_dirs := Some 0x10A0\<rparr>"
  have img: "ii_address example_pe_img = 0x1000" "ii_size example_pe_img = 0x100" "ii_data_dirs example_pe_img = None"
    by (simp_all add: example_pe_img_def)
  have "data_dir_loop example_pe ?img 0x10A0 0 (Suc (Suc 0)) = Inr ([(0x10B0, 40)], log)
      \<Longrightarrow> data_dir_loop example_pe ?img 0x10A0 0 2 = Inr ([(0x10B0, 40)], log)" for log
    by (simp add: numeral_2_eq_2)
  moreover have "\<exists>log. data_dir_loop example_pe ?img 0x10A0 0 (Suc (Suc 0)) = Inr ([(0x10B0, 40)], log)"
    by (simp add: data_dir_entry_def data_dir_name_def data_dir_names_def example_pe_reads img)
  ultimately obtain log where "data_dir_loop example_pe ?img 0x10A0 0 2 = Inr ([(0x10B0, 40)], log)" by blast
  then show ?thesis
    by (simp add: AnalyzeDataDirectory_def analyze_directories_def import_loop_def import_entry_def scan_table_def
        while_nonzero.simps count_entry_def ilt_entry32_def iat_entry32_def layout_defs example_pe_reads
        IsAddrWithinModule_def IsAddrMapped_Imp_def img Let_def)
qed

theorem grey_areas_are_the_tables_witness:
  "directory_areas example_pe example_pe_img 0x10b 0x10A0 2 [(0x10B0, 40), (0x10D8, 4), (0x10E0, 4)]"
proof -
  have user: "user_memory example_pe" by (simp add: user_memory_def example_pe_def le32_def)
  have "ii_address example_pe_img = 0x1000" by (simp add: example_pe_img_def)
  then have heads: "read_u32 example_pe (ii_address example_pe_img + DOS_e_lfanew) = Inr 0x28"
    "0x1040 = ii_address example_pe_img + 0x28 + 24" "read_u16 example_pe 0x1040 = Inr OPTIONAL_HDR32_MAGIC"
    "read_u32 example_pe (0x1040 + OPT_NumberOfRvaAndSizes) = Inr 2"
    by (simp_all add: layout_defs example_pe_reads)
  obtain log where run: "AnalyzeDataDirectory example_pe example_pe_img [] =
     Some (Inr (example_pe_img\<lparr>ii_data_dirs := Some 0x10A0\<rparr>, [(0x10B0, 40), (0x10D8, 4), (0x10E0, 4)], log))"
    using example_pe_run by blast
  obtain r where r: "AnalyzeDataDirectory example_pe example_pe_img [] = Some r"
    and areas: "\<And>img' grey' log. r = Inr (img', grey', log) \<Longrightarrow> \<exists>xs. grey' = [] @ xs \<and>
       directory_areas example_pe example_pe_img OPTIONAL_HDR32_MAGIC (0x1040 + OPT32_DataDirectory) (unat (2 :: u32)) xs"
    using grey_areas_are_the_tables [OF user heads, of "[]"] by blast
  have "r = Inr (example_pe_img\<lparr>ii_data_dirs := Some 0x10A0\<rparr>, [(0x10B0, 40), (0x10D8, 4), (0x10E0, 4)], log)"
    using r run by simp
  from areas [OF this] show ?thesis by (simp add: layout_defs)
qed

end
