(* ===== verification/Sweep_Grey.thy ===== *)
theory Sweep_Grey
  imports Sweep_Gaps "HOL-Library.Multiset"
begin

text \<open>
  \<^verbatim>\<open>CodeSectionSweeper::spotGaps\<close> with grey areas. A gap with an area inside it is cut in two, and the second
  half is pushed onto the vector that is being walked. The loop over that vector ends, because what is pushed is
  shorter than the gap it comes from. What is left of a gap with several areas is not what is
  outside of them.
\<close>

subsection \<open>What trimming does to a gap of any shape\<close>

text \<open>The section leaves room for a trampoline below the end of the address space, so no address wraps around.\<close>

definition section_fits :: "Sweeper \<Rightarrow> bool" where
  "section_fits sw \<longleftrightarrow> unat (sw_code_section_start sw) + unat (sw_code_section_size sw) + 5 \<le> 2 ^ 32"

lemma code_end_fits:
  assumes "section_fits sw" "sweeper_IsAddrCode sw a"
  shows "unat a + 5 < 2 ^ 32"
proof -
  have "unat (sw_code_section_start sw + sw_code_section_size sw) = unat (sw_code_section_start sw) + unat (sw_code_section_size sw)"
    using assms(1) unfolding section_fits_def by (subst unat_add_lem [THEN iffD1]) simp_all
  with assms show ?thesis by (simp add: section_fits_def sweeper_IsAddrCode_def word_less_nat_alt)
qed

lemma section_fits_grows: "grows sw sw' \<Longrightarrow> section_fits sw \<Longrightarrow> section_fits sw'"
  by (simp add: section_fits_def grows_def)

lemma step_up: "section_fits sw \<Longrightarrow> sweeper_IsAddrCode sw a \<Longrightarrow> a \<le> a + 1 \<and> a \<le> a + 5"
  using code_end_fits [of sw a] by (auto simp: word_le_nat_alt unat_word_ariths)

lemma step_down:
  assumes "section_fits sw" "sweeper_IsAddrCode sw (e - 1)"
  shows "e - 1 \<le> e"
proof (cases "e = 0")
  case True
  have "unat (- 1 :: u32) = 2 ^ 32 - 1" by (simp add: unsigned_minus_1_eq_mask mask_eq_exp_minus_1)
  with True code_end_fits [of sw "e - 1"] assms show ?thesis by simp
next
  case False
  then show ?thesis by (simp add: word_le_nat_alt unat_minus_one)
qed

lemma padding_start_up:
  "padding_start_loop n mem sw i = Inr (c, s) \<Longrightarrow> section_fits sw \<Longrightarrow> i \<le> s"
proof (induction n arbitrary: i c)
  case (Suc n)
  then show ?case using step_up [of sw i]
    by (auto simp: bind_r_eq_Inr split: if_splits intro: order_trans)
qed simp

lemma padding_end_down:
  "padding_end_loop n mem sw e = Inr (c, s) \<Longrightarrow> section_fits sw \<Longrightarrow> s \<le> e"
proof (induction n arbitrary: e c)
  case (Suc n)
  then show ?case using step_down [of sw e]
    by (auto simp: bind_r_eq_Inr split: if_splits intro: order_trans)
qed simp

lemma combo_up:
  "IsRangeComboTrampoline fuel mem sw start e = Inr (c, s, sw') \<Longrightarrow> section_fits sw \<Longrightarrow> start \<le> s"
proof (induction fuel arbitrary: sw start c)
  case (Suc fuel)
  from Suc.prems(1) obtain f s1 sw1 where single: "IsRangeSingleTrampoline mem sw start e = Inr (f, s1, sw1)"
    and rest: "(if f then bind_r (IsRangeComboTrampoline fuel mem sw1 s1 e) (\<lambda>(_, s, w). Inr (True, s, w))
      else Inr (False, s1, sw1)) = Inr (c, s, sw')" by (auto simp: bind_r_eq_Inr IsRangeComboTrampoline.simps(2))
  have up: "start \<le> s1"
    using single step_up [OF Suc.prems(2), of start]
    by (auto simp: IsRangeSingleTrampoline_def bind_r_eq_Inr Let_def split: if_splits)
  show ?case
  proof (cases f)
    case True
    with rest obtain c' where rec: "IsRangeComboTrampoline fuel mem sw1 s1 e = Inr (c', s, sw')" by (auto simp: bind_r_eq_Inr)
    have "section_fits sw1" using trampoline_dec [OF single] Suc.prems(2) section_fits_grows by blast
    from Suc.IH [OF rec this] up show ?thesis by simp
  qed (use rest up in auto)
qed simp

lemma trim_step_shrinks:
  assumes run: "trim_step mem sw start e0 = Inr (go_on, s, e, sw')" and fits: "section_fits sw"
  shows "start \<le> s \<and> e \<le> e0"
proof -
  have pad: "a \<le> s'" if "IsRangeAlignPaddingStart mem w a b = Inr (c, s')" "section_fits w" for w a b c s'
    using that padding_start_up [of _ mem w a c s'] by (auto simp: IsRangeAlignPaddingStart_def split: if_splits)
  have tl: "s' \<le> b" if "IsRangeAlignPaddingEnd mem w a b = Inr (c, s')" "section_fits w" for w a b c s'
    using that padding_end_down [of _ mem w b c s'] by (auto simp: IsRangeAlignPaddingEnd_def split: if_splits)
  have f': "section_fits sw'" using trim_step_dec [OF run] fits section_fits_grows by blast
  from run show ?thesis
  proof (cases rule: trim_step_cases)
    case trampolines
    with combo_up [OF trampolines(1) fits] show ?thesis by simp
  next
    case (padding s1)
    with combo_up [OF padding(1) fits] pad [OF padding(2) f'] show ?thesis by simp
  next
    case (tail s1 c)
    with combo_up [OF tail(1) fits] pad [OF tail(2) f'] tl [OF tail(3) f'] show ?thesis by simp
  qed
qed

lemma trim_loop_shrinks:
  "trim_loop fuel mem sw start e0 = Inr (s, e, sw') \<Longrightarrow> section_fits sw \<Longrightarrow> start \<le> s \<and> e \<le> e0"
proof (induction fuel arbitrary: sw start e0)
  case (Suc fuel)
  from Suc.prems(1) obtain g s1 e1 sw1 where step: "trim_step mem sw start e0 = Inr (g, s1, e1, sw1)"
    and rest: "(if g then trim_loop fuel mem sw1 s1 e1 else Inr (s1, e1, sw1)) = Inr (s, e, sw')"
    by (auto simp: bind_r_eq_Inr)
  have "section_fits sw1" using trim_step_dec [OF step] Suc.prems(2) section_fits_grows by blast
  with Suc.IH [of sw1 s1 e1] rest trim_step_shrinks [OF step Suc.prems(2)] show ?case by (cases g) auto
qed simp

subsection \<open>The parts of the gap loop\<close>

lemma linearSweepGap_grows: "linearSweepGap mem sw s e = Inr sw' \<Longrightarrow> grows sw sw'"
  unfolding linearSweepGap_def by (rule linear_sweep_grows)

lemma linearSweepGap_no_fuel:
  assumes wf: "wf_memory mem"
  shows "linearSweepGap mem w s e \<noteq> Inl Out_Of_Fuel"
proof (cases "s < e")
  case True
  then have "unat e - unat s < unat (e - s) + 1" by (simp add: unat_diff_le)
  then show ?thesis unfolding linearSweepGap_def by (rule linear_sweep_no_fuel [OF wf])
qed (simp add: linearSweepGap_def)

lemma process_gap_result:
  assumes "process_gap mem g sw = Inr (pushed, sw')"
  shows "grows sw sw'" "m_grey_areas sw = [] \<Longrightarrow> pushed = []"
proof -
  from assms obtain c s e sw1 where trim: "TrimGap mem sw (fst g) (snd g) = Inr (c, s, e, sw1)"
    and rest: "(if c then Inr ([], sw1)
      else let (covered, pushed, s', e') = IsRangeIntersectedWithGreyArea sw1 s e
           in if covered then Inr (pushed, sw1)
              else bind_r (linearSweepGap mem sw1 s' e') (\<lambda>sw2. Inr (pushed, sw2))) = Inr (pushed, sw')"
    by (auto simp: process_gap_def bind_r_eq_Inr)
  have g1: "grows sw sw1" using trim_loop_grows TrimGap_loop [OF trim] by blast
  obtain cov p s' e' where grey: "IsRangeIntersectedWithGreyArea sw1 s e = (cov, p, s', e')" by (metis prod_cases4)
  have "grows sw sw' \<and> (m_grey_areas sw = [] \<longrightarrow> pushed = [])"
  proof (cases c)
    case True
    with rest g1 show ?thesis by simp
  next
    case False
    with rest grey have p: "pushed = p" and "grows sw1 sw'"
      by (auto simp: bind_r_eq_Inr intro: linearSweepGap_grows split: if_splits)
    moreover have "p = []" if "m_grey_areas sw = []"
      using grey g1 that by (auto simp: IsRangeIntersectedWithGreyArea_def grows_def split: if_splits)
    ultimately show ?thesis using g1 by (blast intro: grows_trans)
  qed
  then show "grows sw sw'" "m_grey_areas sw = [] \<Longrightarrow> pushed = []" by auto
qed

lemma process_gap_no_fuel:
  assumes wf: "wf_memory mem"
  shows "process_gap mem g sw \<noteq> Inl Out_Of_Fuel"
  using TrimGap_no_fuel linearSweepGap_no_fuel [OF wf] by (auto simp: process_gap_def bind_r_eq_Inl Let_def split: if_splits prod.splits)

subsection \<open>What is pushed is shorter\<close>

definition gap_length :: "u32 \<times> u32 \<Rightarrow> nat" where
  "gap_length g = unat (snd g) - unat (fst g)"

definition proper_area :: "StaticTrace \<Rightarrow> bool" where
  "proper_area g \<longleftrightarrow> GetStart g < GetEnd g"

text \<open>No area is empty or wraps around; if there is one, the section fits.\<close>

definition grey_areas_ok :: "Sweeper \<Rightarrow> bool" where
  "grey_areas_ok sw \<longleftrightarrow> (\<forall>a\<in>set (m_grey_areas sw). proper_area a) \<and> (m_grey_areas sw \<noteq> [] \<longrightarrow> section_fits sw)"

lemma grey_areas_ok_grows: "grows sw sw' \<Longrightarrow> grey_areas_ok sw \<Longrightarrow> grey_areas_ok sw'"
  by (auto simp: grey_areas_ok_def section_fits_def grows_def)

lemma grey_loop_pushes:
  assumes "grey_loop gs s e start end_addr res gaps = (c, p, s', e')"
    and "\<forall>g\<in>set gs. proper_area g" and "end_addr \<le> e" and "\<forall>q\<in>set gaps. gap_length q < gap_length (s, e)"
  shows "\<forall>q\<in>set p. gap_length q < gap_length (s, e)"
  using assms
proof (induction gs arbitrary: start end_addr res gaps)
  case (Cons g gs)
  have g: "m_start g < m_start g + m_size g" using Cons.prems(2) by (simp add: proper_area_def GetStart_def GetEnd_def)
  consider (contains) "Contains g s (e - s)" | (pertains) "\<not> Contains g s (e - s)" "Pertains g s (e - s)"
    | (meets) "\<not> Contains g s (e - s)" "\<not> Pertains g s (e - s)" "Intersect g s (e - s)"
    | (apart) "\<not> Contains g s (e - s)" "\<not> Pertains g s (e - s)" "\<not> Intersect g s (e - s)" by blast
  then show ?case
  proof cases
    case pertains
    then have in_gap: "s \<le> m_start g" "m_start g + m_size g \<le> e" by (simp_all add: Pertains_def)
    with g have "gap_length (GetEnd g, end_addr) < gap_length (s, e)" "GetStart g \<le> e"
      using Cons.prems(3) by (auto simp: gap_length_def GetStart_def GetEnd_def word_le_nat_alt word_less_nat_alt)
    with Cons.IH [of start "GetStart g" res "gaps @ [(GetEnd g, end_addr)]"] Cons.prems pertains show ?thesis by auto
  next
    case meets
    then have "GetStart g \<le> e" by (auto simp: Intersect_def GetStart_def not_le)
    with Cons.IH [of "GetEnd g" end_addr res gaps] Cons.IH [of start "GetStart g" res gaps] Cons.prems meets
    show ?thesis by (auto split: if_splits)
  qed (use Cons in auto)
qed simp

lemma process_gap_pushes:
  assumes run: "process_gap mem g sw = Inr (pushed, sw')" and ok: "grey_areas_ok sw"
  shows "\<forall>q\<in>set pushed. gap_length q < gap_length g"
proof (cases "m_grey_areas sw = []")
  case False
  with ok have fits: "section_fits sw" and areas: "\<forall>a\<in>set (m_grey_areas sw). proper_area a"
    by (simp_all add: grey_areas_ok_def)
  from run obtain c s e sw1 where trim: "TrimGap mem sw (fst g) (snd g) = Inr (c, s, e, sw1)"
    and rest: "(if c then Inr ([], sw1)
      else let (covered, pushed, s', e') = IsRangeIntersectedWithGreyArea sw1 s e
           in if covered then Inr (pushed, sw1)
              else bind_r (linearSweepGap mem sw1 s' e') (\<lambda>sw2. Inr (pushed, sw2))) = Inr (pushed, sw')"
    by (auto simp: process_gap_def bind_r_eq_Inr)
  have grey: "m_grey_areas sw1 = m_grey_areas sw"
    using trim_loop_grows TrimGap_loop [OF trim] unfolding grows_def by blast
  have "fst g \<le> s" "e \<le> snd g" using trim_loop_shrinks [OF _ fits] TrimGap_loop [OF trim] by blast+
  then have le: "gap_length (s, e) \<le> gap_length g" by (simp add: gap_length_def word_le_nat_alt)
  obtain cov p s' e' where area: "IsRangeIntersectedWithGreyArea sw1 s e = (cov, p, s', e')" by (metis prod_cases4)
  have "\<forall>q\<in>set p. gap_length q < gap_length (s, e)"
    using grey_loop_pushes [of "m_grey_areas sw1" s e s e False "[]" cov p s' e'] area areas grey
    by (auto simp: IsRangeIntersectedWithGreyArea_def split: if_splits)
  moreover have "pushed = [] \<or> pushed = p" using rest area by (auto simp: bind_r_eq_Inr split: if_splits)
  ultimately show ?thesis using le by auto
qed (use process_gap_result(2) [OF run] in simp)

subsection \<open>The gap loop ends\<close>

lemma gap_loop_total:
  assumes wf: "wf_memory mem"
  shows "grey_areas_ok sw \<Longrightarrow>
    \<exists>r. gap_loop re mem n gaps sw = Some r \<and> r \<noteq> Inl Out_Of_Fuel \<and> (\<forall>sw'. r = Inr sw' \<longrightarrow> grows sw sw')"
proof (induction "mset (map gap_length gaps)" arbitrary: gaps n sw rule: wf_induct_rule [OF wf_mult [OF wf_less_than]])
  case (1 gaps)
  show ?case
  proof (cases gaps)
    case Nil
    then show ?thesis by (subst gap_loop.simps) simp
  next
    case gaps: (Cons g rest)
    show ?thesis
    proof (cases "process_gap mem g sw")
      case (Inl e)
      with process_gap_no_fuel [OF wf, of g sw] gaps show ?thesis by (subst gap_loop.simps) simp
    next
      case (Inr r)
      obtain p sw1 where r: "r = (p, sw1)" by (cases r)
      have g: "grows sw sw1" using process_gap_result(1) [OF Inr [unfolded r]] .
      have step: "gap_loop re mem n gaps sw =
          (if list_ex re [n..<n + length p] then Some (Inl Invalid_Iterator) else gap_loop re mem (n + length p) (rest @ p) sw1)"
        using Inr r gaps by (subst gap_loop.simps) simp
      have "\<forall>q\<in>set p. gap_length q < gap_length g" using process_gap_pushes [OF Inr [unfolded r] 1(2)] .
      then have "(mset (map gap_length rest) + mset (map gap_length p), mset (map gap_length rest) + {#gap_length g#}) \<in> mult less_than"
        by (intro one_step_implies_mult) auto
      then have "(mset (map gap_length (rest @ p)), mset (map gap_length gaps)) \<in> mult less_than" by (simp add: gaps)
      moreover have "grey_areas_ok sw1" using 1(2) g grey_areas_ok_grows by blast
      ultimately obtain r' where "gap_loop re mem (n + length p) (rest @ p) sw1 = Some r'" "r' \<noteq> Inl Out_Of_Fuel"
        "\<And>sw'. r' = Inr sw' \<Longrightarrow> grows sw1 sw'" using 1(1) by blast
      with step g show ?thesis by (cases "list_ex re [n..<n + length p]") (auto intro: grows_trans)
    qed
  qed
qed

lemma sweep_step_starts: "wf_memory mem \<Longrightarrow> sweep_step mem sw sw' \<Longrightarrow> m_start ` set (m_traces sw) \<subseteq> m_start ` set (m_traces sw')"
  by (erule sweep_stepE, erule process_target_Inr) (auto simp: trace_set.ins_keys)

lemma sweep_steps_starts:
  "(sweep_step mem)\<^sup>*\<^sup>* sw sw' \<Longrightarrow> wf_memory mem \<Longrightarrow> m_start ` set (m_traces sw) \<subseteq> m_start ` set (m_traces sw')"
  by (induction rule: rtranclp_induct) (use sweep_step_starts in blast)+

lemma sweep_steps_inv: "(sweep_step mem)\<^sup>*\<^sup>* sw sw' \<Longrightarrow> sweep_inv sw \<Longrightarrow> sweep_inv sw'"
  by (induction rule: rtranclp_induct) (auto intro: sweep_step_inv)

lemma sweep_inv_adjust: "sweep_inv sw \<Longrightarrow> sweep_inv (sw\<lparr>m_traces := adjust_ends (m_traces sw)\<rparr>)"
proof -
  have "m_start ` set (adjust_ends (m_traces sw)) = m_start ` set (m_traces sw)"
    using adjust_ends_starts by (metis list.set_map)
  then show "sweep_inv sw \<Longrightarrow> ?thesis"
    using set_inv_map [OF _ adjust_ends_starts] by (simp add: sweep_inv_def)
qed

lemma sweeper_process_result:
  assumes wf: "wf_memory mem" and inv: "sweep_inv sw"
  obtains (fault) "sweeper_process mem sw = Some (Inl Access_Violation)"
  | (empty) "sweeper_process mem sw = Some (Inl Invalid_Iterator)"
  | (ok) sw' where "sweeper_process mem sw = Some (Inr sw')" "sweep_inv sw'" "m_pending_targets sw' = []"
      "m_start ` set (m_traces sw) \<subseteq> m_start ` set (m_traces sw')"
  using process_worklist_ends [OF wf inv]
proof
  assume "process_worklist mem sw = Some (Inl Access_Violation)"
  with fault show ?thesis by (simp add: sweeper_process_def)
next
  assume "\<exists>sw'. process_worklist mem sw = Some (Inr sw')"
  then obtain sw1 where run: "process_worklist mem sw = Some (Inr sw1)" ..
  from process_worklist_steps [OF run] have steps: "(sweep_step mem)\<^sup>*\<^sup>* sw sw1" and nil: "m_pending_targets sw1 = []" by blast+
  show ?thesis
  proof (cases "m_traces sw1 = []")
    case True
    with run empty show ?thesis by (simp add: sweeper_process_def)
  next
    case False
    let ?sw = "sw1\<lparr>m_traces := adjust_ends (m_traces sw1)\<rparr>"
    have "m_start ` set (m_traces ?sw) = m_start ` set (m_traces sw1)"
      using adjust_ends_starts by (simp, metis list.set_map)
    then show ?thesis
      using ok [of ?sw] False run nil sweep_inv_adjust [OF sweep_steps_inv [OF steps inv]] sweep_steps_starts [OF steps wf]
      by (simp add: sweeper_process_def)
  qed
qed

text \<open>C20. If no grey area is empty or wraps around, the whole gap analysis always ends, for traces of any shape
  and however the vector of gaps grows: it faults on unmapped bytes, on an iterator the growing vector has
  invalidated or, with no trace at all, on that of the empty set; otherwise the state is well-formed, nothing is
  pending and no trace start is lost.\<close>

theorem spotGaps_total:
  assumes wf: "wf_memory mem" and inv: "sweep_inv sw" and grey: "grey_areas_ok sw"
  shows "\<exists>r. spotGaps re mem sw = Some r \<and> r \<noteq> Inl Out_Of_Fuel \<and>
    (\<forall>sw'. r = Inr sw' \<longrightarrow> sweep_inv sw' \<and> m_pending_targets sw' = [] \<and>
       m_start ` set (m_traces sw) \<subseteq> m_start ` set (m_traces sw'))"
proof -
  from gap_loop_total [OF wf grey] obtain r where r: "gap_loop re mem (length (vec_gaps sw)) (vec_gaps sw) sw = Some r"
    and nf: "r \<noteq> Inl Out_Of_Fuel" and g: "\<And>sw'. r = Inr sw' \<Longrightarrow> grows sw sw'" by blast
  show ?thesis
  proof (cases r)
    case (Inl e)
    with r nf show ?thesis by (simp add: spotGaps_def)
  next
    case (Inr sw1)
    from g [OF Inr] inv have inv1: "sweep_inv sw1" and st: "m_start ` set (m_traces sw) \<subseteq> m_start ` set (m_traces sw1)"
      by (simp_all add: grows_def)
    from r Inr have sg: "spotGaps re mem sw = sweeper_process mem sw1" by (simp add: spotGaps_def)
    from wf inv1 show ?thesis
      by (cases rule: sweeper_process_result) (use sg st in auto)
  qed
qed

text \<open>Eight returns, with grey areas over the second and third and over the fifth and sixth.\<close>

definition two_areas :: Sweeper where
  "two_areas = markGreyArea (markGreyArea (new_CodeSectionSweeper 0x1000 [] [] 0x1000 8) 0x1001 2) 0x1004 2"

definition rets :: memory where "rets = [(0x1000, replicate 8 0xc3)]"

lemma two_areas_areas [simp]: "m_grey_areas two_areas = [AssembleTrace 0x1001 2 0x1000 8, AssembleTrace 0x1004 2 0x1000 8]"
  by code_simp

lemma spotGaps_total_witness:
  "\<exists>r. spotGaps (\<lambda>n. n > 3) rets two_areas = Some r \<and> r \<noteq> Inl Out_Of_Fuel"
proof -
  have "wf_memory rets" by (simp add: wf_memory_def rets_def)
  moreover have "sweep_inv two_areas"
    by (simp add: sweep_inv_def two_areas_def markGreyArea_def new_CodeSectionSweeper_def appendTarget_def
        sweeper_IsAddrCode_def addr_set.ins_inv)
  moreover have "section_fits two_areas"
    by (simp add: section_fits_def two_areas_def markGreyArea_def new_CodeSectionSweeper_def appendTarget_def)
  then have "grey_areas_ok two_areas"
    by (simp add: grey_areas_ok_def proper_area_def GetStart_def GetEnd_def AssembleTrace_def new_StaticTrace_def)
  ultimately show ?thesis using spotGaps_total by blast
qed

subsection \<open>Several areas in one gap\<close>

definition pushed_gaps :: "StaticTrace list \<Rightarrow> u32 \<Rightarrow> (u32 \<times> u32) list" where
  "pushed_gaps gs e = zip (map GetEnd gs) (e # map GetStart (butlast gs))"

lemma pushed_gaps_Cons: "pushed_gaps (g # gs) e = (GetEnd g, e) # pushed_gaps gs (GetStart g)"
  by (cases gs) (simp_all add: pushed_gaps_def)

definition area_inside :: "u32 \<Rightarrow> u32 \<Rightarrow> StaticTrace \<Rightarrow> bool" where
  "area_inside s e g \<longleftrightarrow> s \<le> GetStart g \<and> GetStart g < GetEnd g \<and> GetEnd g \<le> e \<and> (s < GetStart g \<or> GetEnd g < e)"

lemma grey_loop_inside:
  "\<forall>g\<in>set gs. area_inside s e g \<Longrightarrow>
   grey_loop gs s e start end_addr res gaps =
     (res, gaps @ pushed_gaps gs end_addr, start, if gs = [] then end_addr else GetStart (last gs))"
proof (induction gs arbitrary: end_addr gaps)
  case (Cons g gs)
  then have "area_inside s e g" by simp
  then have "\<not> Contains g s (e - s)" "Pertains g s (e - s)"
    by (auto simp: area_inside_def Contains_def Pertains_def GetStart_def GetEnd_def)
  with Cons show ?case by (simp add: pushed_gaps_Cons)
qed (simp add: pushed_gaps_def)

text \<open>C22. When what trimming leaves of a gap has grey areas inside, in order and disjoint, the linear sweep gets everything
  up to the last of them: it sweeps over all the others, and pushes, for each area, the range from its end to
  the start of the one before, of which only the first is in order.\<close>

theorem only_the_last_grey_area_is_left_out:
  assumes trim: "TrimGap mem sw s0 e0 = Inr (False, s, e, sw1)" and range: "signed_range s e"
    and areas: "m_grey_areas sw \<noteq> []" "\<forall>g\<in>set (m_grey_areas sw). area_inside s e g"
      "sorted_wrt (\<lambda>a b. GetEnd a \<le> GetStart b) (m_grey_areas sw)"
  shows "process_gap mem (s0, e0) sw =
      bind_r (linearSweepGap mem sw1 s (GetStart (last (m_grey_areas sw))))
        (\<lambda>sw2. Inr (pushed_gaps (m_grey_areas sw) e, sw2)) \<and>
    (\<forall>g\<in>set (butlast (m_grey_areas sw)). s \<le> GetStart g \<and> GetEnd g \<le> GetStart (last (m_grey_areas sw)))"
proof
  have grey: "m_grey_areas sw1 = m_grey_areas sw"
    using trim_loop_grows TrimGap_loop [OF trim] unfolding grows_def by blast
  show "process_gap mem (s0, e0) sw =
      bind_r (linearSweepGap mem sw1 s (GetStart (last (m_grey_areas sw))))
        (\<lambda>sw2. Inr (pushed_gaps (m_grey_areas sw) e, sw2))"
    using range areas(1) by (simp add: process_gap_def trim IsRangeIntersectedWithGreyArea_def grey grey_loop_inside [OF areas(2)])
  have "m_grey_areas sw = butlast (m_grey_areas sw) @ [last (m_grey_areas sw)]" using areas(1) by simp
  then have "sorted_wrt (\<lambda>a b. GetEnd a \<le> GetStart b) (butlast (m_grey_areas sw) @ [last (m_grey_areas sw)])"
    using areas(3) by simp
  then have "\<forall>g\<in>set (butlast (m_grey_areas sw)). GetEnd g \<le> GetStart (last (m_grey_areas sw))"
    by (simp add: sorted_wrt_append)
  with areas(2) show "\<forall>g\<in>set (butlast (m_grey_areas sw)). s \<le> GetStart g \<and> GetEnd g \<le> GetStart (last (m_grey_areas sw))"
    by (auto simp: area_inside_def dest: in_set_butlastD)
qed

lemma only_the_last_grey_area_is_left_out_witness:
  "\<exists>pushed sw2. process_gap rets (0x1000, 0x1008) two_areas = Inr (pushed, sw2) \<and> 0x1001 \<in> m_start ` set (m_traces sw2)"
proof -
  have trim: "TrimGap rets two_areas 0x1000 0x1008 = Inr (False, 0x1000, 0x1008, two_areas)" by code_simp
  have "signed_range 0x1000 0x1008" by code_simp
  moreover have "\<forall>g\<in>set (m_grey_areas two_areas). area_inside 0x1000 0x1008 g"
    "sorted_wrt (\<lambda>a b. GetEnd a \<le> GetStart b) (m_grey_areas two_areas)"
    by (simp_all add: area_inside_def GetStart_def GetEnd_def AssembleTrace_def new_StaticTrace_def)
  ultimately have "process_gap rets (0x1000, 0x1008) two_areas =
      bind_r (linearSweepGap rets two_areas 0x1000 (GetStart (last (m_grey_areas two_areas))))
        (\<lambda>sw2. Inr (pushed_gaps (m_grey_areas two_areas) 0x1008, sw2))"
    using only_the_last_grey_area_is_left_out [OF trim] by simp
  moreover have "case linearSweepGap rets two_areas 0x1000 0x1004 of Inl e \<Rightarrow> False | Inr sw2 \<Rightarrow> 0x1001 \<in> m_start ` set (m_traces sw2)"
    by code_simp
  ultimately show ?thesis
    by (auto simp: GetStart_def AssembleTrace_def new_StaticTrace_def split: sum.splits)
qed

end
