(* ===== verification/Sweep_Linear.thy ===== *)
theory Sweep_Linear
  imports Sweep_Grey
begin

text \<open>
  \<^verbatim>\<open>CodeSectionSweeper::linearSweepGap\<close>: what the linear sweep of a gap adds. Its traces are runs of instructions
  decoded one behind the other, its targets those of direct branches it came across, and it fails only where the
  decoder runs off the mapped bytes.
\<close>

subsection \<open>Runs of instructions\<close>

text \<open>The instructions decoded one behind the other from an address on, all inside of the code section.\<close>

fun insns_from :: "memory \<Rightarrow> Sweeper \<Rightarrow> u32 \<Rightarrow> INSTRUCTION list \<Rightarrow> u32 \<Rightarrow> bool" where
  "insns_from mem sw a [] e \<longleftrightarrow> e = a"
| "insns_from mem sw a (i # is) e \<longleftrightarrow> sweeper_IsAddrCode sw a \<and> get_instruction (bytes_at mem a) MODE_32 = Inr i \<and>
     insns_from mem sw (a + of_nat (ilength i)) is e"

fun insn_starts :: "u32 \<Rightarrow> INSTRUCTION list \<Rightarrow> u32 list" where
  "insn_starts a [] = []"
| "insn_starts a (i # is) = a # insn_starts (a + of_nat (ilength i)) is"

definition straight :: "INSTRUCTION list \<Rightarrow> bool" where
  "straight is \<longleftrightarrow> (\<forall>i\<in>set is. \<not> ends_trace i)"

text \<open>A trace of the sweep: straight code up to an instruction that ends a trace, or up to a byte of padding.\<close>

definition swept_trace :: "memory \<Rightarrow> Sweeper \<Rightarrow> u32 \<Rightarrow> u32 \<Rightarrow> StaticTrace \<Rightarrow> bool" where
  "swept_trace mem sw gap_start gap_end t \<longleftrightarrow> gap_start \<le> m_start t \<and> m_start t \<le> gap_end \<and>
     ((\<exists>is i. insns_from mem sw (m_start t) (is @ [i]) (GetEnd t) \<and> straight is \<and> ends_trace i) \<or>
      (\<exists>is. insns_from mem sw (m_start t) is (GetEnd t) \<and> straight is \<and> read_byte mem (GetEnd t) = Inr 0xcc))"

definition swept_target :: "memory \<Rightarrow> Sweeper \<Rightarrow> u32 \<Rightarrow> u32 \<Rightarrow> bool" where
  "swept_target mem sw gap_start target \<longleftrightarrow> (\<exists>a i. gap_start \<le> a \<and> sweeper_IsAddrCode sw a \<and>
     get_instruction (bytes_at mem a) MODE_32 = Inr i \<and>
     (itype i = INSTRUCTION_TYPE_JMP \<or> itype i = INSTRUCTION_TYPE_JMPC) \<and> target \<in> set (direct_target a i))"

definition same_section :: "Sweeper \<Rightarrow> Sweeper \<Rightarrow> bool" where
  "same_section sw sw' \<longleftrightarrow> sw_code_section_start sw' = sw_code_section_start sw \<and>
     sw_code_section_size sw' = sw_code_section_size sw"

lemma same_section_code: "same_section sw sw' \<Longrightarrow> sweeper_IsAddrCode sw' a = sweeper_IsAddrCode sw a"
  by (simp add: same_section_def sweeper_IsAddrCode_def)

lemma same_section_grows: "same_section sw sw1 \<Longrightarrow> grows sw1 sw2 \<Longrightarrow> same_section sw sw2"
  by (simp add: same_section_def grows_def)

lemma insns_from_append:
  "insns_from mem sw a (is @ [i]) e \<longleftrightarrow>
   (\<exists>b. insns_from mem sw a is b \<and> sweeper_IsAddrCode sw b \<and> get_instruction (bytes_at mem b) MODE_32 = Inr i \<and>
     e = b + of_nat (ilength i))"
  by (induction "is" arbitrary: a) auto

subsection \<open>One turn of the sweep\<close>

text \<open>What an added trace and the new targets of a turn are.\<close>

definition sweep_adds :: "memory \<Rightarrow> Sweeper \<Rightarrow> u32 \<Rightarrow> u32 \<Rightarrow> Sweeper \<Rightarrow> Sweeper \<Rightarrow> bool" where
  "sweep_adds mem sw gap_start gap_end sw1 sw2 \<longleftrightarrow> same_section sw sw2 \<and>
     (\<forall>t\<in>set (m_traces sw2). t \<in> set (m_traces sw1) \<or> swept_trace mem sw gap_start gap_end t) \<and>
     (\<forall>a\<in>set (m_pending_targets sw2). a \<in> set (m_pending_targets sw1) \<or> swept_target mem sw gap_start a)"

lemma sweep_adds_refl: "same_section sw sw1 \<Longrightarrow> sweep_adds mem sw gs ge sw1 sw1"
  by (simp add: sweep_adds_def)

lemma sweep_adds_trans: "sweep_adds mem sw gs ge a b \<Longrightarrow> sweep_adds mem sw gs ge b c \<Longrightarrow> sweep_adds mem sw gs ge a c"
  by (auto simp: sweep_adds_def)

lemma sweep_adds_trace:
  "swept_trace mem sw gs ge t \<Longrightarrow> same_section sw sw1 \<Longrightarrow> sweep_adds mem sw gs ge sw1 (add_trace t sw1)"
  by (auto simp: sweep_adds_def add_trace_def same_section_def dest: trace_set.ins_origin)

lemma sweep_adds_targets:
  "same_section sw sw1 \<Longrightarrow> \<forall>a\<in>set as. swept_target mem sw gs a \<Longrightarrow>
   sweep_adds mem sw gs ge sw1 (sw1\<lparr>m_pending_targets := fold insert_addr as (m_pending_targets sw1)\<rparr>)"
  by (auto simp: sweep_adds_def same_section_def insert_addr_fold_set)

lemma AssembleTrace_simps [simp]:
  "m_start (AssembleTrace a n b c) = a" "GetEnd (AssembleTrace a n b c) = a + n"
  by (simp_all add: AssembleTrace_def new_StaticTrace_def GetEnd_def)

lemma linear_sweep_turn:
  assumes run: "linear_sweep_loop (Suc fuel) mem gap_end start pre pre sw = Inr sw'" and less: "pre < gap_end"
  obtains c pre' s1 sw1 where "IsRangeAlignPaddingStart mem sw pre gap_end = Inr (c, pre')"
    "(s1, sw1) = (if c then (pre', add_trace (AssembleTrace start (pre - start)
       (sw_code_section_start sw) (sw_code_section_size sw)) sw) else (start, sw))"
    "linear_sweep_loop fuel mem gap_end (pre' + 1) (pre' + 1) (pre' + 1) sw1 = Inr sw' \<or>
     (\<exists>i s2 sw2. sweeper_IsAddrCode sw1 pre' \<and> get_instruction (bytes_at mem pre') MODE_32 = Inr i \<and>
       sweep_insn pre' i s1 sw1 = (s2, sw2) \<and>
       linear_sweep_loop fuel mem gap_end s2 (pre' + of_nat (ilength i)) (pre' + of_nat (ilength i)) sw2 = Inr sw')"
proof -
  from run less obtain c pre' where pad: "IsRangeAlignPaddingStart mem sw pre gap_end = Inr (c, pre')"
    by (auto simp: bind_r_eq_Inr)
  have same: "\<not> c \<Longrightarrow> pre' = pre" using padding_start_range [OF pad] less by auto
  obtain s1 sw1 where st: "(s1, sw1) = (if c then (pre', add_trace (AssembleTrace start (pre - start)
       (sw_code_section_start sw) (sw_code_section_size sw)) sw) else (start, sw))" by (metis surj_pair)
  show thesis
  proof (rule that [OF pad st])
    show "linear_sweep_loop fuel mem gap_end (pre' + 1) (pre' + 1) (pre' + 1) sw1 = Inr sw' \<or>
     (\<exists>i s2 sw2. sweeper_IsAddrCode sw1 pre' \<and> get_instruction (bytes_at mem pre') MODE_32 = Inr i \<and>
       sweep_insn pre' i s1 sw1 = (s2, sw2) \<and>
       linear_sweep_loop fuel mem gap_end s2 (pre' + of_nat (ilength i)) (pre' + of_nat (ilength i)) sw2 = Inr sw')"
      using run less pad st same
      by (auto simp: Let_def split: if_split_asm sum.split_asm prod.split_asm)
  qed
qed

lemma padding_starts_with_int3:
  assumes "IsRangeAlignPaddingStart mem sw a e = Inr (True, s)"
  shows "read_byte mem a = Inr 0xcc"
proof -
  from assms have "padding_start_loop (unat (e - a)) mem sw a = Inr (True, s)"
    by (simp add: IsRangeAlignPaddingStart_def split: if_split_asm)
  from padding_start_loop_result [OF this] show ?thesis by auto
qed

lemma sweep_insn_adds:
  assumes insn: "sweep_insn pre i start sw1 = (s2, sw2)" and same: "same_section sw sw1"
    and code: "sweeper_IsAddrCode sw pre" and i: "get_instruction (bytes_at mem pre) MODE_32 = Inr i"
    and run: "insns_from mem sw start is pre" "straight is" and gs: "gs \<le> start" "start \<le> pre" "start \<le> ge"
  shows "sweep_adds mem sw gs ge sw1 sw2"
    and "s2 = pre + of_nat (ilength i) \<or> s2 = start \<and> \<not> ends_trace i"
proof -
  let ?t = "AssembleTrace start (pre + of_nat (ilength i) - start) (sw_code_section_start sw1) (sw_code_section_size sw1)"
  have t: "swept_trace mem sw gs ge ?t" if "ends_trace i"
    using that run code i gs unfolding swept_trace_def insns_from_append by auto
  let ?p = "sw1\<lparr>m_pending_targets := fold insert_addr (direct_target pre i) (m_pending_targets sw1)\<rparr>"
  have p: "sweep_adds mem sw gs ge sw1 ?p" if "itype i = INSTRUCTION_TYPE_JMP \<or> itype i = INSTRUCTION_TYPE_JMPC"
    using that code i gs same order_trans [OF gs(1,2)] by (intro sweep_adds_targets) (auto simp: swept_target_def)
  have "same_section sw ?p" using same by (simp add: same_section_def)
  then show "sweep_adds mem sw gs ge sw1 sw2"
    using insn t p same
    by (auto simp: sweep_insn_def Let_def ends_trace_def sweep_adds_refl intro!: sweep_adds_trans [OF _ sweep_adds_trace] sweep_adds_trace
        split: if_split_asm)
  show "s2 = pre + of_nat (ilength i) \<or> s2 = start \<and> \<not> ends_trace i"
    using insn control_types by (auto simp: sweep_insn_def Let_def ends_trace_def split: if_split_asm)
qed

lemma linear_sweep_adds:
  assumes wf: "wf_memory mem"
  shows "linear_sweep_loop fuel mem ge start pre pre sw1 = Inr sw2 \<Longrightarrow> same_section sw sw1 \<Longrightarrow>
    insns_from mem sw start is pre \<Longrightarrow> straight is \<Longrightarrow> gs \<le> start \<Longrightarrow> start \<le> pre \<Longrightarrow> sweep_adds mem sw gs ge sw1 sw2"
proof (induction fuel arbitrary: start pre sw1 "is")
  case (Suc fuel)
  show ?case
  proof (cases "pre < ge")
    case False
    with Suc.prems(1,2) show ?thesis by (simp add: sweep_adds_refl)
  next
    case True
    from Suc.prems(1) this obtain c pre' s1 w where pad: "IsRangeAlignPaddingStart mem sw1 pre ge = Inr (c, pre')"
      and st: "(s1, w) = (if c then (pre', add_trace (AssembleTrace start (pre - start)
         (sw_code_section_start sw1) (sw_code_section_size sw1)) sw1) else (start, sw1))"
      and rest: "linear_sweep_loop fuel mem ge (pre' + 1) (pre' + 1) (pre' + 1) w = Inr sw2 \<or>
       (\<exists>i s2 w2. sweeper_IsAddrCode w pre' \<and> get_instruction (bytes_at mem pre') MODE_32 = Inr i \<and>
         sweep_insn pre' i s1 w = (s2, w2) \<and>
         linear_sweep_loop fuel mem ge s2 (pre' + of_nat (ilength i)) (pre' + of_nat (ilength i)) w2 = Inr sw2)"
      by (rule linear_sweep_turn)
    from padding_start_range [OF pad order_less_imp_le [OF True]]
    have r: "pre \<le> pre'" "pre' \<le> ge" "\<not> c \<Longrightarrow> pre' = pre" by auto
    have gs: "gs \<le> pre'" "start \<le> ge" using Suc.prems(5,6) r(1) True by auto
    have w: "sweep_adds mem sw gs ge sw1 w"
    proof (cases c)
      case True
      with pad padding_starts_with_int3 [of mem sw1 pre ge pre'] have "read_byte mem pre = Inr 0xcc" by simp
      with True st Suc.prems gs show ?thesis by (auto simp: swept_trace_def intro!: sweep_adds_trace)
    qed (use st Suc.prems(2) sweep_adds_refl in auto)
    then have same: "same_section sw w" by (simp add: sweep_adds_def)
    obtain is1 where run: "insns_from mem sw s1 is1 pre'" "straight is1" and s1: "gs \<le> s1" "s1 \<le> pre'" "s1 \<le> ge"
      using st Suc.prems(3-6) r gs that [of "[]"] that [of "is"] by (cases c) (auto simp: straight_def)
    from rest show ?thesis
    proof (elim disjE exE conjE)
      assume loop: "linear_sweep_loop fuel mem ge (pre' + 1) (pre' + 1) (pre' + 1) w = Inr sw2"
      have "gs \<le> pre' + 1"
        using sweep_next_illegal [OF pad True] Suc.prems(5,6) by (auto simp: word_le_nat_alt)
      with Suc.IH [OF loop same, of "[]"] w show ?thesis by (auto simp: straight_def intro: sweep_adds_trans)
    next
      fix i s2 w2
      assume code: "sweeper_IsAddrCode w pre'" and i: "get_instruction (bytes_at mem pre') MODE_32 = Inr i"
        and insn: "sweep_insn pre' i s1 w = (s2, w2)"
        and loop: "linear_sweep_loop fuel mem ge s2 (pre' + of_nat (ilength i)) (pre' + of_nat (ilength i)) w2 = Inr sw2"
      have code': "sweeper_IsAddrCode sw pre'" using code by (simp add: same_section_code [OF same])
      note add = sweep_insn_adds [OF insn same code' i run s1]
      have same2: "same_section sw w2" using add(1) by (simp add: sweep_adds_def)
      have next_le: "pre' \<le> pre' + of_nat (ilength i)" using insn_step [OF wf i] by (simp add: word_le_nat_alt)
      obtain is2 where "insns_from mem sw s2 is2 (pre' + of_nat (ilength i))" "straight is2" "gs \<le> s2"
        "s2 \<le> pre' + of_nat (ilength i)"
      proof (cases "s2 = start \<and> False")
        case False
        from add(2) show thesis
        proof
          assume "s2 = pre' + of_nat (ilength i)"
          with gs(1) next_le show thesis by (intro that [of "[]"]) (auto simp: straight_def)
        next
          assume s2: "s2 = s1 \<and> \<not> ends_trace i"
          with run s1 next_le code' i show thesis
            by (intro that [of "is1 @ [i]"]) (auto simp: straight_def insns_from_append)
        qed
      qed simp
      from Suc.IH [OF loop same2 this] add(1) w show ?thesis by (blast intro: sweep_adds_trans)
    qed
  qed
qed simp

text \<open>The run in front: if the gap starts with straight code that ends a trace, and no padding is in between, the
  sweep has a trace there.\<close>

lemma linear_sweep_first_run:
  assumes i: "ends_trace i"
  shows "linear_sweep_loop fuel mem ge start pre pre sw1 = Inr sw2 \<Longrightarrow> same_section sw sw1 \<Longrightarrow>
    insns_from mem sw pre (is @ [i]) e \<Longrightarrow> straight is \<Longrightarrow>
    \<forall>a\<in>set (insn_starts pre (is @ [i])). a < ge \<and> read_byte mem a \<noteq> Inr 0xcc \<Longrightarrow>
    start \<in> m_start ` set (m_traces sw2)"
proof (induction fuel arbitrary: pre sw1 "is")
  case (Suc fuel)
  obtain j js where js: "is @ [i] = j # js" by (cases "is @ [i]") auto
  with Suc.prems(3,5) have code: "sweeper_IsAddrCode sw pre" and j: "get_instruction (bytes_at mem pre) MODE_32 = Inr j"
    and less: "pre < ge" and cc: "read_byte mem pre \<noteq> Inr 0xcc" by auto
  from Suc.prems(1) less obtain c pre' s1 w where pad: "IsRangeAlignPaddingStart mem sw1 pre ge = Inr (c, pre')"
    by (rule linear_sweep_turn)
  have c: "\<not> c" using padding_starts_with_int3 [of mem sw1 pre ge pre'] pad cc by (cases c) auto
  have pre': "pre' = pre" using padding_start_range [OF pad] less c by auto
  obtain s2 w2 where insn: "sweep_insn pre j start sw1 = (s2, w2)" by fastforce
  have loop: "linear_sweep_loop fuel mem ge s2 (pre + of_nat (ilength j)) (pre + of_nat (ilength j)) w2 = Inr sw2"
    using Suc.prems(1) less pad c pre' insn code j by (simp add: same_section_code [OF Suc.prems(2)] Let_def)
  have same: "same_section sw w2" using same_section_grows [OF Suc.prems(2) sweep_insn_grows [OF insn]] .
  show ?case
  proof (cases "is")
    case Nil
    with js i have "ends_trace j" by simp
    with insn control_types have "start \<in> m_start ` set (m_traces w2)"
      by (auto simp: sweep_insn_def Let_def ends_trace_def add_trace_def trace_set.ins_keys split: if_split_asm)
    with linear_sweep_grows [OF loop] show ?thesis by (auto simp: grows_def)
  next
    case (Cons k ks)
    with js Suc.prems(4) have k: "k = j" "js = ks @ [i]" "\<not> ends_trace j" "straight ks" by (auto simp: straight_def)
    with insn have "s2 = start" by (auto simp: sweep_insn_def Let_def ends_trace_def split: if_split_asm)
    with Suc.IH [of "pre + of_nat (ilength j)" w2 ks] loop same Suc.prems(3,5) js k show ?thesis by simp
  qed
qed simp

subsection \<open>Faults\<close>

definition undecodable :: "memory \<Rightarrow> Sweeper \<Rightarrow> bool" where
  "undecodable mem sw \<longleftrightarrow> (\<exists>a. sweeper_IsAddrCode sw a \<and> get_instruction (bytes_at mem a) MODE_32 = Inl ReadFault)"

lemma get_instruction_Nil: "get_instruction [] MODE_32 = Inl ReadFault"
  by code_simp

lemma padding_fault:
  "padding_start_loop n mem sw a = Inl e \<Longrightarrow> e = Access_Violation \<and> undecodable mem sw"
proof (induction n arbitrary: a)
  case (Suc n)
  show ?case
  proof (cases "sweeper_IsAddrCode sw a \<and> bytes_at mem a = []")
    case True
    with Suc.prems get_instruction_Nil show ?thesis by (auto simp: read_byte_def undecodable_def)
  next
    case False
    with Suc show ?thesis
      by (auto simp: read_byte_def bind_r_eq_Inl split: if_split_asm list.split_asm)
  qed
qed simp

lemma linear_sweep_fault:
  "linear_sweep_loop fuel mem ge start pre pre sw1 = Inl e \<Longrightarrow> e \<noteq> Out_Of_Fuel \<Longrightarrow> same_section sw sw1 \<Longrightarrow>
   e = Access_Violation \<and> undecodable mem sw"
proof (induction fuel arbitrary: start pre sw1)
  case (Suc fuel)
  have less: "pre < ge" using Suc.prems(1) by (simp split: if_split_asm)
  have code: "undecodable mem w = undecodable mem sw" if "same_section sw w" for w
    by (simp add: undecodable_def same_section_code [OF that])
  show ?case
  proof (cases "IsRangeAlignPaddingStart mem sw1 pre ge")
    case (Inl d)
    with padding_fault [of "unat (ge - pre)" mem sw1 pre d] have "d = Access_Violation \<and> undecodable mem sw1"
      by (simp add: IsRangeAlignPaddingStart_def split: if_split_asm)
    with Inl Suc.prems(1,3) less code show ?thesis by auto
  next
    case (Inr r)
    obtain c pre' where pad: "IsRangeAlignPaddingStart mem sw1 pre ge = Inr (c, pre')" using Inr by (cases r) auto
    have same: "\<not> c \<Longrightarrow> pre' = pre" using padding_start_range [OF pad] less by auto
    obtain s1 w where st: "(s1, w) = (if c then (pre', add_trace (AssembleTrace start (pre - start)
       (sw_code_section_start sw1) (sw_code_section_size sw1)) sw1) else (start, sw1))" by (metis surj_pair)
    have w: "same_section sw w"
      using st Suc.prems(3) by (auto simp: same_section_def add_trace_def split: if_split_asm)
    have step: "(case (if sweeper_IsAddrCode w pre' then get_instruction (bytes_at mem pre') MODE_32 else Inl IllegalInstruction) of
         Inr i \<Rightarrow> let (start', w2) = sweep_insn pre' i s1 w; nxt = pre' + of_nat (ilength i)
           in linear_sweep_loop fuel mem ge start' nxt nxt w2
       | Inl d \<Rightarrow> if d = IllegalInstruction then linear_sweep_loop fuel mem ge (pre' + 1) (pre' + 1) (pre' + 1) w
           else Inl Access_Violation) = Inl e"
      using Suc.prems(1) less pad st same by (cases c) (auto split del: if_split)
    show ?thesis
    proof (cases "if sweeper_IsAddrCode w pre' then get_instruction (bytes_at mem pre') MODE_32 else Inl IllegalInstruction")
      case (Inr i)
      obtain s2 w2 where insn: "sweep_insn pre' i s1 w = (s2, w2)" by fastforce
      with step Inr have "linear_sweep_loop fuel mem ge s2 (pre' + of_nat (ilength i)) (pre' + of_nat (ilength i)) w2 = Inl e"
        by (simp add: Let_def)
      from Suc.IH [OF this Suc.prems(2) same_section_grows [OF w sweep_insn_grows [OF insn]]] show ?thesis .
    next
      case (Inl d)
      show ?thesis
      proof (cases "d = IllegalInstruction")
        case True
        with step Inl have "linear_sweep_loop fuel mem ge (pre' + 1) (pre' + 1) (pre' + 1) w = Inl e" by simp
        from Suc.IH [OF this Suc.prems(2) w] show ?thesis .
      next
        case False
        with Inl get_instruction_errors [of "bytes_at mem pre'" MODE_32 d] have "undecodable mem w"
          by (auto simp: undecodable_def split: if_split_asm)
        with step Inl False code [OF w] show ?thesis by simp
      qed
    qed
  qed
qed simp

subsection \<open>Correctness\<close>

text \<open>C21. Linear sweep. It ends, and fails only at an address of the section where the mapped bytes run out. Every trace
  it adds starts inside the gap and is a run of consecutive decodable instructions of the section, of which only the last
  ends a trace, or which stops at a byte of padding; every target it adds is that of a direct branch decoded in the section
  from the start of the gap on; no trace start is lost; and where the gap begins with such a run, free of padding, there is
  a trace at its start afterwards.\<close>

theorem linear_sweep_finds_instruction_runs:
  assumes wf: "wf_memory mem"
  shows "case linearSweepGap mem sw gap_start gap_end of
     Inl e \<Rightarrow> e = Access_Violation \<and> undecodable mem sw
   | Inr sw' \<Rightarrow>
       (\<forall>t\<in>set (m_traces sw'). t \<in> set (m_traces sw) \<or> swept_trace mem sw gap_start gap_end t) \<and>
       (\<forall>a\<in>set (m_pending_targets sw'). a \<in> set (m_pending_targets sw) \<or> swept_target mem sw gap_start a) \<and>
       m_start ` set (m_traces sw) \<subseteq> m_start ` set (m_traces sw') \<and>
       (\<forall>is i e. insns_from mem sw gap_start (is @ [i]) e \<longrightarrow> straight is \<longrightarrow> ends_trace i \<longrightarrow>
          (\<forall>a\<in>set (insn_starts gap_start (is @ [i])). a < gap_end \<and> read_byte mem a \<noteq> Inr 0xcc) \<longrightarrow>
          gap_start \<in> m_start ` set (m_traces sw'))"
proof (cases "linearSweepGap mem sw gap_start gap_end")
  case (Inl e)
  with linear_sweep_fault [of "unat (gap_end - gap_start) + 1" mem gap_end gap_start gap_start sw e sw]
    linearSweepGap_no_fuel [OF wf, of sw gap_start gap_end]
  show ?thesis by (auto simp: linearSweepGap_def same_section_def)
next
  case (Inr sw')
  then have loop: "linear_sweep_loop (unat (gap_end - gap_start) + 1) mem gap_end gap_start gap_start gap_start sw = Inr sw'"
    by (simp only: linearSweepGap_def)
  have same: "same_section sw sw" by (simp add: same_section_def)
  have adds: "sweep_adds mem sw gap_start gap_end sw sw'"
    using linear_sweep_adds [OF wf loop same, of "[]" gap_start] by (simp add: straight_def)
  moreover have "m_start ` set (m_traces sw) \<subseteq> m_start ` set (m_traces sw')"
    using linear_sweep_grows [OF loop] by (simp add: grows_def)
  ultimately show ?thesis
    using linear_sweep_first_run [OF _ loop same] unfolding Inr sweep_adds_def by auto
qed

text \<open>\<open>ret\<close>, two bytes of padding, \<open>nop\<close> and \<open>ret\<close>.\<close>

definition padded_code :: memory where
  "padded_code = [(0x1000, [0xc3, 0xcc, 0xcc, 0x90, 0xc3, 0, 0, 0])]"

theorem linear_sweep_finds_instruction_runs_witness:
  "\<exists>sw'. linearSweepGap padded_code (new_CodeSectionSweeper 0 [] [] 0x1000 5) 0x1000 0x1005 = Inr sw' \<and>
     AssembleTrace 0x1003 2 0x1000 5 \<in> set (m_traces sw') \<and>
     swept_trace padded_code (new_CodeSectionSweeper 0 [] [] 0x1000 5) 0x1000 0x1005 (AssembleTrace 0x1003 2 0x1000 5)"
proof -
  let ?sw = "new_CodeSectionSweeper 0 [] [] 0x1000 5"
  have wf: "wf_memory padded_code" by (simp add: wf_memory_def padded_code_def)
  have "case linearSweepGap padded_code ?sw 0x1000 0x1005 of Inl e \<Rightarrow> False | Inr sw' \<Rightarrow>
      m_traces ?sw = [] \<and> AssembleTrace 0x1003 2 0x1000 5 \<in> set (m_traces sw')" by code_simp
  with linear_sweep_finds_instruction_runs [OF wf, of ?sw "0x1000" "0x1005"] show ?thesis
    by (fastforce split: sum.splits)
qed

text \<open>Padding behind an instruction that ended a trace: what is closed at the padding is then empty, and the sweeper
  has a trace without an instruction.\<close>

lemma sweep_makes_an_empty_trace:
  "case linearSweepGap padded_code (new_CodeSectionSweeper 0 [] [] 0x1000 5) 0x1000 0x1005 of
     Inl e \<Rightarrow> False | Inr sw' \<Rightarrow> AssembleTrace 0x1001 0 0x1000 5 \<in> set (m_traces sw')"
  by code_simp

text \<open>Padding up to the end of the gap: the loop does not look at the end again before it decodes, and the instruction
  behind the gap becomes a trace.\<close>

lemma sweep_leaves_the_gap:
  "case linearSweepGap [(0x1000, [0xc3, 0xcc, 0xcc, 0xc3])] (new_CodeSectionSweeper 0 [] [] 0x1000 4) 0x1000 0x1003 of
     Inl e \<Rightarrow> False | Inr sw' \<Rightarrow> AssembleTrace 0x1003 1 0x1000 4 \<in> set (m_traces sw')"
  by code_simp

end
