(* ===== verification/Sweep_Report.thy ===== *)
theory Sweep_Report
  imports Sweep_Linear Frames
begin

text \<open>
  What the static part reports through \<open>LOQ\<close>: lines under the entries \<open>exception\<close> (\<^verbatim>\<open>StaticTrace::process\<close>), \<open>lea\<close>
  (\<^verbatim>\<open>CodeSectionSweeper::postProcess\<close>) and \<open>summary\<close> (\<^verbatim>\<open>calculateCoverage\<close>), as lists of entry and line in the order
  they are written. The lines change no state of the sweep, so they stand beside the routines and not in them.
\<close>

subsection \<open>Traces\<close>

text \<open>The walk reports an address outside of the section, and ends there.\<close>

definition not_code_line :: "u32 \<Rightarrow> string \<times> string" where
  "not_code_line a = (''exception'', ''['' @ hex_field a @ ''] is not pointing to code sections!'' @ nl)"

fun process_reports :: "nat \<Rightarrow> memory \<Rightarrow> StaticTrace \<Rightarrow> u32 \<Rightarrow> log_calls" where
  "process_reports 0 mem t inst_va = []"
| "process_reports (Suc fuel) mem t inst_va =
     (if IsAddrCode t inst_va then
        (case get_instruction (bytes_at mem inst_va) MODE_32 of
           Inr i \<Rightarrow> if fst (process_insn inst_va i) then process_reports fuel mem t (inst_va + of_nat (ilength i)) else []
         | Inl e \<Rightarrow> [])
      else [not_code_line inst_va])"

text \<open>A walk that succeeds reports at most one line, and then of the address behind the bytes it took.\<close>

lemma IsAddrCode_size: "IsAddrCode (t\<lparr>m_size := n\<rparr>) a = IsAddrCode t a"
  by (simp add: IsAddrCode_def)

lemma process_reports_size: "process_reports fuel mem (t\<lparr>m_size := n\<rparr>) a = process_reports fuel mem t a"
  by (induction fuel arbitrary: a) (simp_all add: IsAddrCode_size split: sum.split)

lemma process_reports_end:
  "process_loop fuel mem t va gen lea = Inr (t', gen', lea') \<Longrightarrow>
   process_reports fuel mem t va = [] \<or>
   process_reports fuel mem t va = [not_code_line (va + (m_size t' - m_size t))] \<and>
     \<not> IsAddrCode t (va + (m_size t' - m_size t))"
proof (induction fuel arbitrary: t va gen lea)
  case (Suc fuel)
  show ?case
  proof (cases "IsAddrCode t va")
    case False
    with Suc.prems show ?thesis by auto
  next
    case code: True
    show ?thesis
    proof (cases "get_instruction (bytes_at mem va) MODE_32")
      case (Inl e)
      with code show ?thesis by simp
    next
      case (Inr i)
      obtain g ts l where insn: "process_insn va i = (g, ts, l)" by (metis surj_pair)
      let ?t = "t\<lparr>m_size := m_size t + of_nat (ilength i)\<rparr>"
      show ?thesis
      proof (cases g)
        case True
        with Suc.prems code Inr insn
        have "process_loop fuel mem ?t (va + of_nat (ilength i)) (gen @ ts) (set_insert_opt l lea) = Inr (t', gen', lea')"
          by (simp add: Let_def)
        from Suc.IH [OF this] code Inr insn True show ?thesis
          by (simp add: process_reports_size IsAddrCode_size algebra_simps)
      qed (use code Inr insn in simp)
    qed
  qed
qed simp

lemma process_trace_reports:
  assumes "process_trace mem t gen lea = Inr (t', gen', lea')" and "m_size t = 0"
  shows "process_reports (unat (m_code_section_size t) + 1) mem t (m_start t) = [] \<or>
    process_reports (unat (m_code_section_size t) + 1) mem t (m_start t) = [not_code_line (m_start t + m_size t')] \<and>
      \<not> IsAddrCode t (m_start t + m_size t')"
  using process_reports_end [OF assms(1) [unfolded process_trace_def]] assms(2) by auto

subsection \<open>Structure areas\<close>

definition lea_line :: "u32 \<Rightarrow> string \<times> string" where
  "lea_line a = (''lea'', ''lea target at ['' @ hex_field a @ '']'' @ nl)"

definition invalid_trace_line :: "StaticTrace \<Rightarrow> u32 \<Rightarrow> u32 \<Rightarrow> string \<times> string" where
  "invalid_trace_line t start end_addr =
     (''lea'', ''Invalid trace ['' @ hex_field (GetStart t) @ '' - '' @ hex_field (GetEnd t) @ ''] by lea range['' @
        hex_field start @ '' - '' @ hex_field end_addr @ '']'' @ nl)"

fun erase_reports :: "StaticTrace list \<Rightarrow> u32 \<Rightarrow> u32 \<Rightarrow> log_calls" where
  "erase_reports [] start end_addr = []"
| "erase_reports (t # ts) start end_addr =
     (if Intersect t start (end_addr - start) then [invalid_trace_line t start end_addr]
      else if BiggerThan t end_addr then [] else erase_reports ts start end_addr)"

text \<open>The run stops at a read outside of the mapped bytes and at an erased iterator.\<close>

fun postProcess_reports :: "memory \<Rightarrow> StaticTrace list \<Rightarrow> u32 list \<Rightarrow> log_calls" where
  "postProcess_reports mem ts [] = []"
| "postProcess_reports mem ts (lea # leas) =
     lea_line lea #
     (case lea_search 4097 mem (lea + MAX_LEA_PADDING_SEARCH_RANGE) lea 0 of
        Inl _ \<Rightarrow> []
      | Inr e \<Rightarrow>
          if e < lea + MAX_LEA_PADDING_SEARCH_RANGE then
            erase_reports ts lea e @ (case erase_loop ts lea e of Inl _ \<Rightarrow> [] | Inr _ \<Rightarrow> postProcess_reports mem ts leas)
          else postProcess_reports mem ts leas)"

lemma erase_reports_ok: "erase_loop ts start e = Inr u \<Longrightarrow> erase_reports ts start e = []"
  by (induction ts) (auto split: if_split_asm)

lemma erase_reports_error:
  "erase_loop ts start e = Inl err \<Longrightarrow>
   \<exists>t\<in>set ts. Intersect t start (e - start) \<and> erase_reports ts start e = [invalid_trace_line t start e]"
  by (induction ts) (auto split: if_split_asm)

text \<open>A run that succeeds names the structure addresses and no trace; one that ends at an erased trace names that trace last.\<close>

lemma postProcess_reports_ok:
  "postProcess_loop mem ts leas = Inr u \<Longrightarrow> postProcess_reports mem ts leas = map lea_line leas"
proof (induction leas)
  case (Cons lea leas)
  from Cons.prems obtain e where e: "lea_search 4097 mem (lea + MAX_LEA_PADDING_SEARCH_RANGE) lea 0 = Inr e"
    and erase: "e < lea + MAX_LEA_PADDING_SEARCH_RANGE \<Longrightarrow> \<exists>v. erase_loop ts lea e = Inr v"
    and rest: "postProcess_loop mem ts leas = Inr u"
    by (auto simp: Let_def bind_r_eq_Inr split: if_split_asm)
  from erase e Cons.IH [OF rest] show ?case
    by (auto dest: erase_reports_ok)
qed simp

lemma postProcess_reports_error:
  "postProcess_loop mem ts leas = Inl Invalid_Iterator \<Longrightarrow>
   \<exists>t\<in>set ts. \<exists>lea\<in>set leas. \<exists>e. Intersect t lea (e - lea) \<and>
     last (postProcess_reports mem ts leas) = invalid_trace_line t lea e"
proof (induction leas)
  case (Cons lea leas)
  have no: "lea_search n mem limit a k \<noteq> Inl Invalid_Iterator" for n limit a k
    by (induction n mem limit a k rule: lea_search.induct)
      (auto simp: bind_r_eq_Inl read_byte_def split: list.splits)
  show ?case
  proof (cases "lea_search 4097 mem (lea + MAX_LEA_PADDING_SEARCH_RANGE) lea 0")
    case (Inl d)
    with Cons.prems no show ?thesis by (auto simp: Let_def)
  next
    case (Inr e)
    show ?thesis
    proof (cases "e < lea + MAX_LEA_PADDING_SEARCH_RANGE \<and> (\<exists>d. erase_loop ts lea e = Inl d)")
      case True
      then obtain d where "erase_loop ts lea e = Inl d" by blast
      with erase_reports_error [OF this] Inr True show ?thesis by fastforce
    next
      case False
      then have "e < lea + MAX_LEA_PADDING_SEARCH_RANGE \<Longrightarrow> erase_loop ts lea e = Inr ()"
        by (cases "erase_loop ts lea e") auto
      with Cons.prems Inr have rest: "postProcess_loop mem ts leas = Inl Invalid_Iterator"
        and all: "postProcess_reports mem ts (lea # leas) = lea_line lea # postProcess_reports mem ts leas"
        by (auto simp: Let_def erase_reports_ok split: if_split_asm)
      from rest have "leas \<noteq> []" by auto
      then have "postProcess_reports mem ts leas \<noteq> []" by (cases leas) auto
      with Cons.IH [OF rest] all show ?thesis by auto
    qed
  qed
qed simp

subsection \<open>The summary\<close>

text \<open>\<open>percent\<close> is what the C library makes of the quotient for \<^verbatim>\<open>%.2f\<close>.\<close>

definition trace_line :: "StaticTrace \<Rightarrow> string \<times> string" where
  "trace_line t = (''summary'', ''['' @ hex_field (GetStart t) @ '' - '' @ hex_field (GetEnd t) @ '']'' @ nl)"

definition calculateCoverage_reports :: "(u32 \<Rightarrow> u32 \<Rightarrow> string) \<Rightarrow> Sweeper \<Rightarrow> log_calls" where
  "calculateCoverage_reports percent sw =
     (let (covered, size) = calculateCoverage sw in
      map trace_line (m_traces sw) @
      [(''summary'', ''Static Trace Coverage: '' @ percent covered size @ ''% ('' @ fmt_d covered @ ''/'' @ fmt_d size @ '')'' @ nl)])"

text \<open>From the summary the range of every trace can be read back, whatever the percentage looks like.\<close>

lemma trace_line_inject: "trace_line t = trace_line u \<longleftrightarrow> GetStart t = GetStart u \<and> GetEnd t = GetEnd u"
  by (auto simp: trace_line_def hex_field_def)

lemma trace_lines_inject:
  assumes eq: "map trace_line ts = map trace_line us"
  shows "map (\<lambda>t. (GetStart t, GetEnd t)) ts = map (\<lambda>t. (GetStart t, GetEnd t)) us"
proof (rule nth_equalityI)
  have len: "length ts = length us" using eq by (rule map_eq_imp_length_eq)
  then show "length (map (\<lambda>t. (GetStart t, GetEnd t)) ts) = length (map (\<lambda>t. (GetStart t, GetEnd t)) us)" by simp
  fix i assume "i < length (map (\<lambda>t. (GetStart t, GetEnd t)) ts)"
  then have i: "i < length ts" "i < length us" using len by simp_all
  have "trace_line (ts ! i) = trace_line (us ! i)"
    using arg_cong [OF eq, of "\<lambda>xs. xs ! i"] i by simp
  then show "map (\<lambda>t. (GetStart t, GetEnd t)) ts ! i = map (\<lambda>t. (GetStart t, GetEnd t)) us ! i"
    using i by (simp add: trace_line_inject)
qed

lemma summary_determines_ranges:
  assumes "calculateCoverage_reports percent sw = calculateCoverage_reports percent' sw'"
  shows "map (\<lambda>t. (GetStart t, GetEnd t)) (m_traces sw) = map (\<lambda>t. (GetStart t, GetEnd t)) (m_traces sw')"
proof -
  from assms have "map trace_line (m_traces sw) = map trace_line (m_traces sw')"
    by (simp add: calculateCoverage_reports_def split: prod.split_asm)
  then show ?thesis by (rule trace_lines_inject)
qed

end
