(* ===== verification/Sweep_Code.thy ===== *)
theory Sweep_Code
  imports Sweep_Process
begin

text \<open>
  What \<^verbatim>\<open>CodeSectionSweeper::process\<close> finds, in terms of the program it looks at: the instructions control flow
  reaches from the pending targets. \<open>executed\<close> says which these are, one instruction at a time and without traces.
\<close>

subsection \<open>The code that control flow reaches\<close>

text \<open>Addresses of the section that control can get to from the pending ones, instruction by instruction: on to the next
  one unless the instruction is a jump or a return (a call comes back), and to the target of a direct branch. Nothing here
  speaks of traces.\<close>

definition decodes :: "memory \<Rightarrow> u32 \<Rightarrow> INSTRUCTION \<Rightarrow> bool" where
  "decodes mem a i \<longleftrightarrow> get_instruction (bytes_at mem a) MODE_32 = Inr i"

inductive executed :: "memory \<Rightarrow> Sweeper \<Rightarrow> u32 \<Rightarrow> bool" for mem sw where
  entry: "a \<in> set (m_pending_targets sw) \<Longrightarrow> sweeper_IsAddrCode sw a \<Longrightarrow> executed mem sw a"
| behind: "executed mem sw a \<Longrightarrow> decodes mem a i \<Longrightarrow>
    itype i \<noteq> INSTRUCTION_TYPE_JMP \<Longrightarrow> itype i \<noteq> INSTRUCTION_TYPE_RET \<Longrightarrow>
    sweeper_IsAddrCode sw (a + of_nat (ilength i)) \<Longrightarrow> executed mem sw (a + of_nat (ilength i))"
| branch: "executed mem sw a \<Longrightarrow> decodes mem a i \<Longrightarrow> direct_branch i \<Longrightarrow>
    sweeper_IsAddrCode sw (a + of_nat (ilength i) + branch_displacement i) \<Longrightarrow>
    executed mem sw (a + of_nat (ilength i) + branch_displacement i)"

text \<open>Where traces begin: at what was pending, at targets of direct branches and behind calls.\<close>

definition leader :: "memory \<Rightarrow> Sweeper \<Rightarrow> u32 \<Rightarrow> bool" where
  "leader mem sw a \<longleftrightarrow> sweeper_IsAddrCode sw a \<and> (a \<in> set (m_pending_targets sw) \<or>
     (\<exists>c i. executed mem sw c \<and> decodes mem c i \<and>
        (direct_branch i \<and> a = c + of_nat (ilength i) + branch_displacement i \<or>
         itype i = INSTRUCTION_TYPE_CALL \<and> a = c + of_nat (ilength i))))"

lemma executed_code: "executed mem sw a \<Longrightarrow> sweeper_IsAddrCode sw a"
  by (induction rule: executed.induct)

lemma new_trace_code: "IsAddrCode (new_trace sw s) = sweeper_IsAddrCode sw"
  by (simp add: fun_eq_iff IsAddrCode_def sweeper_IsAddrCode_def new_trace_def new_StaticTrace_def)

lemma insn_targets_iff:
  "b \<in> set (insn_targets (c, i)) \<longleftrightarrow> direct_branch i \<and> b = c + of_nat (ilength i) + branch_displacement i \<or>
     itype i = INSTRUCTION_TYPE_CALL \<and> b = c + of_nat (ilength i)"
  by (auto simp: insn_targets_def insn_next_def)

lemma executed_target:
  assumes "executed mem sw c" "decodes mem c i" "b \<in> set (insn_targets (c, i))" "sweeper_IsAddrCode sw b"
  shows "executed mem sw b" "leader mem sw b"
  using assms control_types
  by (auto simp: insn_targets_iff leader_def libdasm_consts intro: executed.intros)

lemma executed_walk:
  "walk mem (new_trace sw s) a is \<Longrightarrow> executed mem sw a \<or> \<not> sweeper_IsAddrCode sw a \<Longrightarrow>
   \<forall>x\<in>set is. executed mem sw (fst x) \<and> decodes mem (fst x) (snd x)"
proof (induction rule: walk.induct)
  case (going va i "is")
  then have va: "executed mem sw va" "decodes mem va i" by (simp_all add: new_trace_code decodes_def)
  moreover have "executed mem sw (va + of_nat (ilength i)) \<or> \<not> sweeper_IsAddrCode sw (va + of_nat (ilength i))"
    using executed.behind [OF va] going(3) by (auto simp: ends_trace_def)
  ultimately show ?case using going.IH by simp
qed (simp_all add: new_trace_code decodes_def)

lemma reaches_executed: "reaches mem sw a \<Longrightarrow> executed mem sw a \<and> leader mem sw a"
proof (induction rule: reaches.induct)
  case (target a "is" b)
  then obtain c i where "(c, i) \<in> set is" "b \<in> set (insn_targets (c, i))" by auto
  with executed_walk [OF target(2)] target.IH target(4) show ?case by (fastforce dest: executed_target)
qed (auto simp: leader_def intro: executed.entry)

text \<open>If every reached trace could be walked to its end, every executed instruction stands on one of the walks.\<close>

definition on_walk :: "memory \<Rightarrow> Sweeper \<Rightarrow> u32 \<Rightarrow> bool" where
  "on_walk mem sw a \<longleftrightarrow> (\<exists>s xs ys. reaches mem sw s \<and> walk mem (new_trace sw s) s (xs @ ys) \<and> walk mem (new_trace sw s) a ys)"

lemma walk_decodes:
  assumes "walk mem (new_trace sw s) a ys" and "sweeper_IsAddrCode sw a" and "decodes mem a i"
  obtains zs where "ys = (a, i) # zs" "ends_trace i \<or> walk mem (new_trace sw s) (a + of_nat (ilength i)) zs"
  using assms by (cases rule: walk.cases) (auto simp: new_trace_code decodes_def)

lemma executed_on_walk:
  assumes walks: "\<And>s. reaches mem sw s \<Longrightarrow> \<exists>is. walk mem (new_trace sw s) s is"
  shows "executed mem sw a \<Longrightarrow> on_walk mem sw a"
proof (induction rule: executed.induct)
  have start: "on_walk mem sw s" if "reaches mem sw s" for s
  proof -
    from walks [OF that] obtain "is" where "walk mem (new_trace sw s) s is" ..
    with that show ?thesis unfolding on_walk_def by (intro exI [of _ s] exI [of _ "[]"] exI [of _ "is"]) simp
  qed
  have target: "on_walk mem sw b"
    if a: "executed mem sw a" "on_walk mem sw a" "decodes mem a i" and b: "b \<in> set (insn_targets (a, i))" "sweeper_IsAddrCode sw b"
    for a i b
  proof -
    from a(2) obtain s xs ys where s: "reaches mem sw s" "walk mem (new_trace sw s) s (xs @ ys)"
      "walk mem (new_trace sw s) a ys" unfolding on_walk_def by blast
    from walk_decodes [OF s(3) executed_code [OF a(1)] a(3)] obtain zs where "ys = (a, i) # zs" by blast
    with s b show ?thesis by (intro start reaches.target [OF s(1,2) _ b(2)]) auto
  qed
  {
    case (entry a)
    then show ?case by (intro start reaches.pending)
  next
    case (behind a i)
    show ?case
    proof (cases "itype i = INSTRUCTION_TYPE_CALL")
      case True
      then show ?thesis by (intro target [OF behind.hyps(1) behind.IH behind.hyps(2) _ behind.hyps(5)]) (simp add: insn_targets_iff)
    next
      case False
      with behind.hyps(3,4) have "\<not> ends_trace i" by (simp add: ends_trace_def)
      from behind.IH obtain s xs ys where s: "reaches mem sw s" "walk mem (new_trace sw s) s (xs @ ys)"
        "walk mem (new_trace sw s) a ys" unfolding on_walk_def by blast
      from walk_decodes [OF s(3) executed_code [OF behind.hyps(1)] behind.hyps(2)] \<open>\<not> ends_trace i\<close>
      obtain zs where "ys = (a, i) # zs" "walk mem (new_trace sw s) (a + of_nat (ilength i)) zs" by blast
      with s(1,2) show ?thesis unfolding on_walk_def
        by (intro exI [of _ s] exI [of _ "xs @ [(a, i)]"] exI [of _ zs]) simp
    qed
  next
    case (branch a i)
    show ?case by (rule target [OF branch.hyps(1) branch.IH branch.hyps(2) _ branch.hyps(4)]) (simp add: insn_targets_iff branch.hyps(3))
  }
qed

lemma executed_walked:
  assumes walks: "\<And>s. reaches mem sw s \<Longrightarrow> \<exists>is. walk mem (new_trace sw s) s is" and a: "executed mem sw a"
  shows "get_instruction (bytes_at mem a) MODE_32 \<noteq> Inl ReadFault"
    and "decodes mem a i \<Longrightarrow> \<exists>s is. reaches mem sw s \<and> walk mem (new_trace sw s) s is \<and> (a, i) \<in> set is"
proof -
  from executed_on_walk [OF walks a] obtain s xs ys where s: "reaches mem sw s" "walk mem (new_trace sw s) s (xs @ ys)"
    "walk mem (new_trace sw s) a ys" unfolding on_walk_def by blast
  from s(3) executed_code [OF a] show "get_instruction (bytes_at mem a) MODE_32 \<noteq> Inl ReadFault"
    by (cases rule: walk.cases) (auto simp: new_trace_code)
  show "\<exists>s is. reaches mem sw s \<and> walk mem (new_trace sw s) s is \<and> (a, i) \<in> set is" if "decodes mem a i"
    using walk_decodes [OF s(3) executed_code [OF a] that] s(1,2) by (metis in_set_conv_decomp)
qed

lemma leader_reaches:
  assumes walks: "\<And>s. reaches mem sw s \<Longrightarrow> \<exists>is. walk mem (new_trace sw s) s is" and a: "leader mem sw a"
  shows "reaches mem sw a"
proof (cases "a \<in> set (m_pending_targets sw)")
  case False
  with a obtain c i where c: "executed mem sw c" "decodes mem c i" "a \<in> set (insn_targets (c, i))"
    by (auto simp: leader_def insn_targets_iff)
  with executed_walked(2) [OF walks c(1,2)] obtain s "is" where "reaches mem sw s" "walk mem (new_trace sw s) s is"
    "(c, i) \<in> set is" by blast
  with c(3) a show ?thesis by (intro reaches.target [of mem sw s "is" a]) (auto simp: leader_def)
qed (use a in \<open>simp add: leader_def reaches.pending\<close>)

subsection \<open>Faults of the worklist\<close>

definition faulting :: "memory \<Rightarrow> Sweeper \<Rightarrow> bool" where
  "faulting mem sw \<longleftrightarrow> (\<exists>a. executed mem sw a \<and> get_instruction (bytes_at mem a) MODE_32 = Inl ReadFault)"

lemma process_loop_fault:
  "process_loop fuel mem t va gen lea = Inl Access_Violation \<Longrightarrow> IsAddrCode t = sweeper_IsAddrCode sw \<Longrightarrow>
   executed mem sw va \<or> \<not> sweeper_IsAddrCode sw va \<Longrightarrow> faulting mem sw"
proof (induction fuel arbitrary: t va gen lea)
  case (Suc fuel)
  have code: "IsAddrCode t va" using Suc.prems(1) by (auto split: if_split_asm)
  then have va: "executed mem sw va" using Suc.prems(2,3) by simp
  show ?case
  proof (cases "get_instruction (bytes_at mem va) MODE_32")
    case (Inl e)
    with Suc.prems(1) code have "e \<noteq> IllegalInstruction" by auto
    with Inl get_instruction_errors have "get_instruction (bytes_at mem va) MODE_32 = Inl ReadFault" by blast
    with va show ?thesis by (auto simp: faulting_def)
  next
    case (Inr i)
    let ?t = "t\<lparr>m_size := m_size t + of_nat (ilength i)\<rparr>"
    from Suc.prems(1) code Inr have go: "\<not> ends_trace i" by (auto simp: process_insn_split Let_def split: if_split_asm)
    with Suc.prems(1) code Inr have "process_loop fuel mem ?t (va + of_nat (ilength i)) (gen @ insn_targets (va, i))
        (set_insert_opt (insn_lea (va, i)) lea) = Inl Access_Violation"
      by (simp add: process_insn_split Let_def)
    moreover have "IsAddrCode ?t = sweeper_IsAddrCode sw" using Suc.prems(2) by (simp add: fun_eq_iff)
    moreover have "executed mem sw (va + of_nat (ilength i)) \<or> \<not> sweeper_IsAddrCode sw (va + of_nat (ilength i))"
      using executed.behind [OF va, of i] Inr go by (auto simp: decodes_def ends_trace_def)
    ultimately show ?thesis by (rule Suc.IH)
  qed
qed simp

lemma process_worklist_fault:
  assumes wf: "wf_memory mem"
  shows "sweep_inv sw \<Longrightarrow> sweep_progress mem sw0 sw \<Longrightarrow> process_worklist mem sw = Some (Inl e) \<Longrightarrow>
    e = Access_Violation \<and> faulting mem sw0"
proof (induction sw rule: wf_induct_rule [OF wf_measures [of "[card \<circ> untraced, length \<circ> m_pending_targets]"]])
  case (1 sw)
  show ?case
  proof (cases "m_pending_targets sw")
    case Nil
    with "1.prems"(3) show ?thesis by (subst (asm) process_worklist.simps) simp
  next
    case (Cons target rest)
    let ?sw = "sw\<lparr>m_pending_targets := rest\<rparr>"
    show ?thesis
    proof (cases "process_target mem target ?sw")
      case (Inl d)
      with Cons "1.prems"(3) have "e = d" by (subst (asm) process_worklist.simps) simp
      with process_target_errors [OF wf Inl] have e: "e = Access_Violation" "d = Access_Violation" by simp_all
      have sec: "sweeper_IsAddrCode ?sw = sweeper_IsAddrCode sw0" "new_trace ?sw = new_trace sw0"
        using same_section [of ?sw sw0] "1.prems"(2) by (simp_all add: sweep_progress_def)
      from Inl e(2) have code: "sweeper_IsAddrCode ?sw target"
        and run: "process_trace mem (new_trace ?sw target) [] (m_lea_targets ?sw) = Inl Access_Violation"
        by (auto simp: process_target_def bind_r_eq_Inl split: if_splits)
      have "reaches mem sw0 target" using code sec Cons "1.prems"(2) by (simp add: sweep_progress_def)
      then have "executed mem sw0 target" using reaches_executed by blast
      then have "faulting mem sw0"
        using process_loop_fault [OF run [unfolded process_trace_def], of sw0] sec by (simp add: new_trace_code)
      with e show ?thesis by simp
    next
      case (Inr sw1)
      have step: "sweep_step mem sw sw1" using Cons Inr by (rule sweep_step.step)
      have "process_worklist mem sw1 = Some (Inl e)"
        using Cons Inr "1.prems"(3) by (subst (asm) process_worklist.simps) simp
      with "1.IH" sweep_step_decreases [OF wf "1.prems"(1) step] sweep_step_inv [OF step "1.prems"(1)]
        sweep_step_progress [OF wf "1.prems"(1) step "1.prems"(2)]
      show ?thesis by blast
    qed
  qed
qed

subsection \<open>The traces process leaves\<close>

text \<open>A trace after the second loop: the walk from its start, or that walk cut where the next trace begins.\<close>

definition walk_or_cut :: "memory \<Rightarrow> Sweeper \<Rightarrow> StaticTrace list \<Rightarrow> StaticTrace \<Rightarrow> bool" where
  "walk_or_cut mem sw ts t \<longleftrightarrow> (\<exists>is. walk mem (new_trace sw (m_start t)) (m_start t) is \<and>
     (unat (GetEnd t) = unat (m_start t) + walk_bytes is \<or>
      (\<exists>u\<in>set ts. m_start t < m_start u \<and> GetEnd t = m_start u \<and> unat (m_start u) \<le> unat (m_start t) + walk_bytes is)))"

lemma adjust_ends_members:
  "set_inv m_start ts \<Longrightarrow> s \<in> set (adjust_ends ts) \<Longrightarrow> \<exists>t\<in>set ts. m_start s = m_start t \<and>
     (GetEnd s = GetEnd t \<or> (\<exists>u\<in>set ts. m_start t < m_start u \<and> GetEnd s = m_start u \<and> GetEnd u = GetEnd t))"
proof (induction ts rule: adjust_ends.induct)
  case (1 former latter ts)
  show ?case
  proof (cases "s \<in> set (adjust_ends (latter # ts))")
    case True
    with 1 show ?thesis by auto
  next
    case False
    with 1(3) have "s = (if GetEnd former = GetEnd latter then AdjustEnd former (GetStart latter) else former)" by simp
    with 1(2) show ?thesis by (auto simp: GetStart_def)
  qed
qed auto

lemma cut_traces:
  assumes wf: "wf_memory mem" and srt: "set_inv m_start ts" and at: "\<forall>t\<in>set ts. \<exists>is. trace_at mem sw t is"
    and s: "s \<in> set (adjust_ends ts)"
  shows "walk_or_cut mem sw (adjust_ends ts) s"
proof -
  have starts: "m_start ` set (adjust_ends ts) = m_start ` set ts" using adjust_ends_starts [of ts] by (metis list.set_map)
  from adjust_ends_members [OF srt s] obtain t where t: "t \<in> set ts" "m_start s = m_start t"
    and e: "GetEnd s = GetEnd t \<or> (\<exists>u\<in>set ts. m_start t < m_start u \<and> GetEnd s = m_start u \<and> GetEnd u = GetEnd t)"
    by blast
  from at t(1) obtain "is" where "is": "trace_at mem sw t is" by blast
  then have w: "walk mem (new_trace sw (m_start s)) (m_start s) is" using t(2) by (simp add: trace_at_def)
  note ends = trace_at_end [OF wf "is"]
  from e show ?thesis
  proof
    assume "GetEnd s = GetEnd t"
    with w ends t(2) show ?thesis by (auto simp: walk_or_cut_def)
  next
    assume "\<exists>u\<in>set ts. m_start t < m_start u \<and> GetEnd s = m_start u \<and> GetEnd u = GetEnd t"
    then obtain u where u: "u \<in> set ts" "m_start t < m_start u" "GetEnd s = m_start u" "GetEnd u = GetEnd t" by blast
    from at u(1) obtain js where "trace_at mem sw u js" by blast
    from trace_at_end(2) [OF wf this] u(4) ends(1) have "unat (m_start u) \<le> unat (m_start t) + walk_bytes is"
      by (simp add: word_le_nat_alt)
    moreover from u(1) starts obtain u' where "u' \<in> set (adjust_ends ts)" "m_start u' = m_start u" by (metis imageE imageI)
    ultimately show ?thesis using w u t(2) unfolding walk_or_cut_def by metis
  qed
qed

text \<open>The bytes of the executed instructions.\<close>

definition executed_bytes :: "memory \<Rightarrow> Sweeper \<Rightarrow> u32 set" where
  "executed_bytes mem sw = {b. \<exists>a i. executed mem sw a \<and> decodes mem a i \<and> a \<le> b \<and> unat b < unat a + ilength i}"

lemma walked_bytes:
  assumes wf: "wf_memory mem" and walks: "\<And>s. reaches mem sw s \<Longrightarrow> \<exists>is. walk mem (new_trace sw s) s is"
  shows "{b. \<exists>a is. reaches mem sw a \<and> walk mem (new_trace sw a) a is \<and> a \<le> b \<and> unat b < unat a + walk_bytes is} =
    executed_bytes mem sw" (is "?L = ?R")
proof (intro set_eqI iffI)
  fix b assume "b \<in> ?L"
  then obtain s "is" where s: "reaches mem sw s" "walk mem (new_trace sw s) s is" "s \<le> b" "unat b < unat s + walk_bytes is"
    by blast
  from walk_tiles [OF wf s(2), of "unat b"] s(3,4) obtain x where
    x: "x \<in> set is" "unat (fst x) \<le> unat b" "unat b < unat (fst x) + ilength (snd x)"
    by (auto simp: word_le_nat_alt)
  from executed_walk [OF s(2)] reaches_executed [OF s(1)] x(1)
  have "executed mem sw (fst x) \<and> decodes mem (fst x) (snd x)" by blast
  with x show "b \<in> ?R" unfolding executed_bytes_def by (auto simp: word_le_nat_alt)
next
  fix b assume "b \<in> ?R"
  then obtain a i where a: "executed mem sw a" "decodes mem a i" "a \<le> b" "unat b < unat a + ilength i"
    by (auto simp: executed_bytes_def)
  from executed_walked(2) [OF walks a(1,2)] obtain s "is" where
    s: "reaches mem sw s" "walk mem (new_trace sw s) s is" "(a, i) \<in> set is" by blast
  then obtain xs ys where "is": "is = xs @ (a, i) # ys" by (auto dest: split_list)
  with walk_position [OF wf] s(2) have "unat a = unat s + walk_bytes xs" by blast
  with "is" a(3,4) have "s \<le> b" "unat b < unat s + walk_bytes is" by (auto simp: word_le_nat_alt walk_bytes_def)
  with s show "b \<in> ?L" by blast
qed

lemma no_pending_no_leader:
  assumes "\<not> (\<exists>a. leader mem sw a)" "a \<in> set (m_pending_targets sw)" shows "\<not> sweeper_IsAddrCode sw a"
  using assms by (auto simp: leader_def)

text \<open>C1. \<open>CodeSectionSweeper::process\<close>, both loops, from a well-formed sweeper without traces. It always ends. It runs off the
  mapped bytes only at an address that control flow reaches from the pending targets; if no pending target lies in the
  section it goes on to increment the first iterator of an empty set; and otherwise nothing is pending, every reached
  address could be decoded or was rejected as no instruction, the traces start at exactly the pending addresses, branch targets
  and return addresses that control flow reaches, each is the walk from its start or that walk cut at the start of a later
  trace, and together they cover exactly the bytes of the instructions that control flow reaches.\<close>

theorem process_finds_reachable_code:
  assumes wf: "wf_memory mem" and inv: "sweep_inv sw" and fresh: "m_traces sw = []"
  shows "case sweeper_process mem sw of
     None \<Rightarrow> False
   | Some (Inl e) \<Rightarrow>
       e = Access_Violation \<and> (\<exists>a. executed mem sw a \<and> get_instruction (bytes_at mem a) MODE_32 = Inl ReadFault) \<or>
       e = Invalid_Iterator \<and> (\<forall>a\<in>set (m_pending_targets sw). \<not> sweeper_IsAddrCode sw a)
   | Some (Inr sw') \<Rightarrow> m_pending_targets sw' = [] \<and>
       (\<forall>a. executed mem sw a \<longrightarrow> get_instruction (bytes_at mem a) MODE_32 \<noteq> Inl ReadFault) \<and>
       m_start ` set (m_traces sw') = {a. leader mem sw a} \<and>
       (\<forall>t\<in>set (m_traces sw'). walk_or_cut mem sw (m_traces sw') t) \<and>
       \<Union> (extent ` set (m_traces sw')) = executed_bytes mem sw"
proof -
  from process_worklist_ends [OF wf inv] consider (fault) "process_worklist mem sw = Some (Inl Access_Violation)"
    | (ok) sw1 where "process_worklist mem sw = Some (Inr sw1)" by blast
  then show ?thesis
  proof cases
    case fault
    from process_worklist_fault [OF wf inv sweep_progress_refl [OF fresh] fault] fault show ?thesis
      by (simp add: sweeper_process_def faulting_def)
  next
    case (ok sw1)
    note post = worklist_result [OF wf inv fresh ok]
    let ?ts = "m_traces sw1"
    have srt: "set_inv m_start ?ts" using post(1) by (simp add: sweep_inv_def)
    have walks: "\<exists>is. walk mem (new_trace sw s) s is" if "reaches mem sw s" for s
    proof -
      from that post(3) have "s \<in> m_start ` set ?ts" by simp
      with post(4) show ?thesis by (auto simp: trace_at_def)
    qed
    have lead: "{a. reaches mem sw a} = {a. leader mem sw a}"
      using leader_reaches [OF walks] reaches_executed by blast
    show ?thesis
    proof (cases "?ts = []")
      case True
      with post(3) lead no_pending_no_leader [of mem sw] ok show ?thesis by (auto simp: sweeper_process_def)
    next
      case False
      have ends: "m_start t \<le> GetEnd t" if "t \<in> set ?ts" for t using post(4) that trace_at_end [OF wf] by blast
      have "\<Union> (extent ` set (adjust_ends ?ts)) = \<Union> (extent ` set ?ts)"
        using adjust_ends_extent [OF srt] ends by simp
      then have bytes: "\<Union> (extent ` set (adjust_ends ?ts)) = executed_bytes mem sw"
        using traces_extent [OF wf post(3,4)] walked_bytes [OF wf walks] by simp
      have "m_start ` set (adjust_ends ?ts) = {a. leader mem sw a}"
        using post(3) lead adjust_ends_starts [of ?ts] by (metis list.set_map)
      with bytes False ok cut_traces [OF wf srt post(4)] executed_walked(1) [OF walks] post(2) show ?thesis
        by (simp add: sweeper_process_def)
    qed
  qed
qed

text \<open>\<open>nop\<close> and a jump to itself, and at 0x1000 the entry: the trace of the \<open>nop\<close> is cut at the jump.\<close>

lemma process_finds_reachable_code_witness:
  "\<exists>sw'. sweeper_process [(0x1000, [0x90, 0xeb, 0xfe])] (new_CodeSectionSweeper 0x1000 [] [] 0x1000 3) = Some (Inr sw') \<and>
     m_traces sw' = [AssembleTrace 0x1000 1 0x1000 3, AssembleTrace 0x1001 2 0x1000 3] \<and>
     leader [(0x1000, [0x90, 0xeb, 0xfe])] (new_CodeSectionSweeper 0x1000 [] [] 0x1000 3) 0x1001"
proof -
  let ?mem = "[(0x1000, [0x90, 0xeb, 0xfe])] :: memory" and ?sw = "new_CodeSectionSweeper 0x1000 [] [] 0x1000 3"
  have wf: "wf_memory ?mem" by (simp add: wf_memory_def)
  have inv: "sweep_inv ?sw" "m_traces ?sw = []"
    by (simp_all add: sweep_inv_def new_CodeSectionSweeper_def appendTarget_def sweeper_IsAddrCode_def addr_set.ins_inv)
  have run: "case sweeper_process ?mem ?sw of Some (Inr sw') \<Rightarrow>
      m_traces sw' = [AssembleTrace 0x1000 1 0x1000 3, AssembleTrace 0x1001 2 0x1000 3] | _ \<Rightarrow> False"
    by code_simp
  then obtain sw' where sw': "sweeper_process ?mem ?sw = Some (Inr sw')"
    and ts: "m_traces sw' = [AssembleTrace 0x1000 1 0x1000 3, AssembleTrace 0x1001 2 0x1000 3]"
    by (auto split: option.splits sum.splits)
  have "m_start ` set (m_traces sw') = {a. leader ?mem ?sw a}"
    using process_finds_reachable_code [OF wf inv] sw' by simp
  moreover have "0x1001 \<in> m_start ` set (m_traces sw')" by (simp add: ts AssembleTrace_def new_StaticTrace_def)
  ultimately have "leader ?mem ?sw 0x1001" by blast
  with sw' ts show ?thesis by blast
qed

end
