(* ===== verification/Sweep_Post.thy ===== *)
theory Sweep_Post
  imports Sweep_Gaps
begin

text \<open>
  \<^verbatim>\<open>CodeSectionSweeper::postProcess\<close>: what its search for the end of a structure area finds, said of the bytes behind the
  structure address, and what the routine as a whole does.
\<close>

subsection \<open>Structure areas\<close>

text \<open>\<open>m\<close> bytes behind a structure address the search may stop: a 16-byte boundary with a byte other than 0xCC, right behind
  five bytes of 0xCC that all lie behind the structure address.\<close>

definition padded_boundary :: "memory \<Rightarrow> u32 \<Rightarrow> nat \<Rightarrow> bool" where
  "padded_boundary mem lea m \<longleftrightarrow> 5 < m \<and> (lea + of_nat m) AND 0xf = 0 \<and>
     (\<exists>b. read_byte mem (lea + of_nat m) = Inr b \<and> b \<noteq> 0xcc) \<and>
     (\<forall>j\<in>{1..5}. read_byte mem (lea + of_nat (m - j)) = Inr 0xcc)"

text \<open>The size of the area is that of the first such boundary less than 4096 bytes behind.\<close>

definition area_size :: "memory \<Rightarrow> u32 \<Rightarrow> nat \<Rightarrow> bool" where
  "area_size mem lea m \<longleftrightarrow> m < 4096 \<and> padded_boundary mem lea m \<and> (\<forall>j<m. \<not> padded_boundary mem lea j)"

text \<open>The search runs off the mapped bytes before it finds one.\<close>

definition search_unmapped :: "memory \<Rightarrow> u32 \<Rightarrow> bool" where
  "search_unmapped mem lea \<longleftrightarrow> (\<exists>m. 0 < m \<and> m \<le> 4096 \<and> bytes_at mem (lea + of_nat m) = [] \<and>
     (\<forall>j<m. \<not> padded_boundary mem lea j))"

definition trace_in_area :: "memory \<Rightarrow> StaticTrace list \<Rightarrow> u32 \<Rightarrow> bool" where
  "trace_in_area mem ts lea \<longleftrightarrow> (\<exists>m. area_size mem lea m \<and>
     (\<exists>t\<in>set ts. lea < GetEnd t \<and> m_start t < lea + of_nat m))"

lemma int3_count:
  fixes byte :: "nat \<Rightarrow> run_error + u8"
  assumes "n \<le> k" and run: "\<forall>j<n. byte (k - j) = Inr 0xcc" and maximal: "n = k \<or> byte (k - n) \<noteq> Inr 0xcc"
  shows "4 < n \<longleftrightarrow> 5 < Suc k \<and> (\<forall>j\<in>{1..5}. byte (Suc k - j) = Inr 0xcc)"
proof
  assume n: "4 < n"
  have "byte (Suc k - j) = Inr 0xcc" if "j \<in> {1..5}" for j
  proof -
    from that n have "j - 1 < n" "Suc k - j = k - (j - 1)" by auto
    with run show ?thesis by metis
  qed
  moreover have "5 < Suc k" using n assms(1) by linarith
  ultimately show "5 < Suc k \<and> (\<forall>j\<in>{1..5}. byte (Suc k - j) = Inr 0xcc)" by blast
next
  assume all: "5 < Suc k \<and> (\<forall>j\<in>{1..5}. byte (Suc k - j) = Inr 0xcc)"
  show "4 < n"
  proof (rule ccontr)
    assume n: "\<not> 4 < n"
    with all maximal have "byte (Suc k - Suc n) \<noteq> Inr 0xcc" by auto
    moreover have "Suc n \<in> {1..5}" using n by simp
    ultimately show False using all by blast
  qed
qed

lemma read_byte_cases: "bytes_at mem a = [] \<and> read_byte mem a = Inl Access_Violation \<or> (\<exists>b. bytes_at mem a \<noteq> [] \<and> read_byte mem a = Inr b)"
  by (simp add: read_byte_def split: list.split)

text \<open>The search from \<open>k\<close> bytes behind the structure address on, as a relation.\<close>

inductive search_result :: "memory \<Rightarrow> u32 \<Rightarrow> nat \<Rightarrow> run_error + u32 \<Rightarrow> bool" for mem lea where
  gives_up: "search_result mem lea 4096 (Inr (lea + 4097))"
| unmapped: "k < 4096 \<Longrightarrow> bytes_at mem (lea + of_nat (Suc k)) = [] \<Longrightarrow> search_result mem lea k (Inl Access_Violation)"
| found: "k < 4096 \<Longrightarrow> padded_boundary mem lea (Suc k) \<Longrightarrow> search_result mem lea k (Inr (lea + of_nat (Suc k)))"
| further: "k < 4096 \<Longrightarrow> bytes_at mem (lea + of_nat (Suc k)) \<noteq> [] \<Longrightarrow> \<not> padded_boundary mem lea (Suc k) \<Longrightarrow>
    search_result mem lea (Suc k) r \<Longrightarrow> search_result mem lea k r"

lemma lea_search_result:
  fixes lea :: u32
  assumes room: "unat lea + 4097 < 2 ^ 32"
  shows "k \<le> 4096 \<Longrightarrow> 4096 - k < fuel \<Longrightarrow> n \<le> k \<Longrightarrow> \<forall>j<n. read_byte mem (lea + of_nat (k - j)) = Inr 0xcc \<Longrightarrow>
    n = k \<or> read_byte mem (lea + of_nat (k - n)) \<noteq> Inr 0xcc \<Longrightarrow>
    search_result mem lea k (lea_search fuel mem (lea + 4096) (lea + of_nat k) n)"
proof (induction fuel arbitrary: k n)
  case (Suc fuel)
  have at: "unat (lea + of_nat j) = unat lea + j" if "j \<le> 4097" for j
    using that room by (intro unat_add_no_wrap) simp
  have lim: "unat (lea + 4096) = unat lea + 4096" using at [of 4096] by simp
  have less: "lea + of_nat k < lea + 4096 \<longleftrightarrow> k < 4096"
    using at [of k] lim Suc.prems(1) by (simp add: word_less_nat_alt)
  have next_: "lea + of_nat k + 1 = lea + of_nat (Suc k)" by (simp add: algebra_simps)
  show ?case
  proof (cases "k < 4096")
    case False
    with Suc.prems(1) have "k = 4096" by simp
    with less search_result.gives_up [of mem lea] show ?thesis by (simp add: algebra_simps)
  next
    case True
    let ?b = "read_byte mem (lea + of_nat (Suc k))"
    have step: "lea_search (Suc fuel) mem (lea + 4096) (lea + of_nat k) n =
        bind_r ?b (\<lambda>b. if b = 0xcc then lea_search fuel mem (lea + 4096) (lea + of_nat (Suc k)) (n + 1)
          else if (lea + of_nat (Suc k)) AND 0xf = 0 \<and> n > 4 then Inr (lea + of_nat (Suc k))
          else lea_search fuel mem (lea + 4096) (lea + of_nat (Suc k)) 0)"
      using True less by (simp only: lea_search.simps if_True next_)
    from read_byte_cases [of mem "lea + of_nat (Suc k)"]
    consider (unmapped) "bytes_at mem (lea + of_nat (Suc k)) = []" "?b = Inl Access_Violation"
      | (int3) "bytes_at mem (lea + of_nat (Suc k)) \<noteq> []" "?b = Inr 0xcc"
      | (other) b where "bytes_at mem (lea + of_nat (Suc k)) \<noteq> []" "?b = Inr b" "b \<noteq> 0xcc" by blast
    then show ?thesis
    proof cases
      case unmapped
      then show ?thesis unfolding step using True by (simp add: search_result.unmapped)
    next
      case int3
      have no: "\<not> padded_boundary mem lea (Suc k)" unfolding padded_boundary_def int3(2) by simp
      have run: "\<forall>j<n + 1. read_byte mem (lea + of_nat (Suc k - j)) = Inr 0xcc"
      proof (intro allI impI)
        fix j assume "j < n + 1"
        with int3(2) Suc.prems(4) show "read_byte mem (lea + of_nat (Suc k - j)) = Inr 0xcc" by (cases j) simp_all
      qed
      have "search_result mem lea (Suc k) (lea_search fuel mem (lea + 4096) (lea + of_nat (Suc k)) (n + 1))"
        by (rule Suc.IH) (use True Suc.prems(2,3,5) run in simp_all)
      with True int3(1) no show ?thesis unfolding step int3(2) by (simp add: search_result.further)
    next
      case (other b)
      have count: "4 < n \<longleftrightarrow> 5 < Suc k \<and> (\<forall>j\<in>{1..5}. read_byte mem (lea + of_nat (Suc k - j)) = Inr 0xcc)"
        using Suc.prems(3-5) by (rule int3_count)
      have pad: "padded_boundary mem lea (Suc k) \<longleftrightarrow> (lea + of_nat (Suc k)) AND 0xf = 0 \<and> 4 < n"
        unfolding padded_boundary_def count using other(2,3) by auto
      show ?thesis
      proof (cases "padded_boundary mem lea (Suc k)")
        case stop: True
        then have "bind_r ?b (\<lambda>b. if b = 0xcc then lea_search fuel mem (lea + 4096) (lea + of_nat (Suc k)) (n + 1)
          else if (lea + of_nat (Suc k)) AND 0xf = 0 \<and> n > 4 then Inr (lea + of_nat (Suc k))
          else lea_search fuel mem (lea + 4096) (lea + of_nat (Suc k)) 0) = Inr (lea + of_nat (Suc k))"
          using other(3) unfolding pad other(2) by simp
        with True stop show ?thesis unfolding step by (simp only: search_result.found)
      next
        case go: False
        have rest: "search_result mem lea (Suc k) (lea_search fuel mem (lea + 4096) (lea + of_nat (Suc k)) 0)"
          by (rule Suc.IH) (use True Suc.prems(2) other(2,3) in simp_all)
        have eq: "bind_r ?b (\<lambda>b. if b = 0xcc then lea_search fuel mem (lea + 4096) (lea + of_nat (Suc k)) (n + 1)
          else if (lea + of_nat (Suc k)) AND 0xf = 0 \<and> n > 4 then Inr (lea + of_nat (Suc k))
          else lea_search fuel mem (lea + 4096) (lea + of_nat (Suc k)) 0) =
            lea_search fuel mem (lea + 4096) (lea + of_nat (Suc k)) 0"
          using other(3) go unfolding pad other(2) by auto
        from search_result.further [OF True other(1) go rest] show ?thesis unfolding step eq .
      qed
    qed
  qed
qed simp

lemma search_result_meaning:
  "search_result mem lea k r \<Longrightarrow> \<forall>j\<le>k. \<not> padded_boundary mem lea j \<and> (0 < j \<longrightarrow> bytes_at mem (lea + of_nat j) \<noteq> []) \<Longrightarrow>
   r = Inl Access_Violation \<and> search_unmapped mem lea \<or>
   \<not> search_unmapped mem lea \<and>
     ((\<exists>m. area_size mem lea m \<and> r = Inr (lea + of_nat m)) \<or>
      (\<forall>m. \<not> area_size mem lea m) \<and> (r = Inr (lea + 4096) \<or> r = Inr (lea + 4097)))"
proof (induction rule: search_result.induct)
  case gives_up
  then have "\<forall>m. \<not> area_size mem lea m" "\<not> search_unmapped mem lea" by (auto simp: area_size_def search_unmapped_def)
  then show ?case by blast
next
  case (unmapped k)
  then have "\<forall>j<Suc k. \<not> padded_boundary mem lea j" by (simp add: less_Suc_eq_le)
  with unmapped(1,2) have "search_unmapped mem lea" unfolding search_unmapped_def by (intro exI [of _ "Suc k"]) simp
  then show ?case by blast
next
  case (found k)
  then have first: "\<forall>j<Suc k. \<not> padded_boundary mem lea j" by (simp add: less_Suc_eq_le)
  have "bytes_at mem (lea + of_nat (Suc k)) \<noteq> []"
    using found(2) read_byte_cases [of mem "lea + of_nat (Suc k)"] by (auto simp: padded_boundary_def)
  with found have mapped: "\<not> search_unmapped mem lea"
    unfolding search_unmapped_def by (metis less_Suc_eq_le not_less_eq linorder_neqE_nat)
  show ?case
  proof (cases "Suc k < 4096")
    case True
    with first found(2) have "area_size mem lea (Suc k)" by (simp add: area_size_def)
    with mapped show ?thesis by blast
  next
    case False
    with found(1) have k: "Suc k = 4096" by simp
    with first have "\<forall>m. \<not> area_size mem lea m" by (auto simp: area_size_def)
    moreover have "(of_nat (Suc k) :: u32) = 4096" unfolding k by simp
    ultimately show ?thesis using mapped by simp
  qed
next
  case (further k r)
  show ?case by (rule further.IH) (use further in \<open>auto simp: le_Suc_eq\<close>)
qed

subsection \<open>The outcome\<close>

lemma area_size_unique: "area_size mem lea m \<Longrightarrow> area_size mem lea m' \<Longrightarrow> m = m'"
  unfolding area_size_def by (metis linorder_neqE_nat)

lemma Intersect_area: "Intersect t lea (lea + of_nat m - lea) \<longleftrightarrow> lea < GetEnd t \<and> m_start t < lea + of_nat m"
  by (auto simp: Intersect_def GetEnd_def)

text \<open>What the body of the loop over the structure addresses does for one of them, and how it goes on.\<close>

lemma postProcess_turn:
  assumes srt: "set_inv m_start ts" and room: "unat lea + 4097 < 2 ^ 32"
  shows "bind_r (lea_search 4097 mem (lea + MAX_LEA_PADDING_SEARCH_RANGE) lea 0) (\<lambda>e.
      bind_r (if e < lea + MAX_LEA_PADDING_SEARCH_RANGE then erase_loop ts lea e else Inr ()) K) =
    (if search_unmapped mem lea then Inl Access_Violation
     else if trace_in_area mem ts lea then Inl Invalid_Iterator else K ())"
proof -
  have lim: "MAX_LEA_PADDING_SEARCH_RANGE = 4096" by (simp add: MAX_LEA_PADDING_SEARCH_RANGE_def)
  have at: "unat (lea + of_nat j) = unat lea + j" if "j \<le> 4097" for j
    using that room by (intro unat_add_no_wrap) simp
  have end_: "\<not> lea + 4096 < lea + 4096" "\<not> lea + 4097 < lea + 4096"
    using at [of 4096] at [of 4097] by (simp_all add: word_less_nat_alt)
  let ?r = "lea_search 4097 mem (lea + 4096) lea 0"
  have "search_result mem lea 0 ?r" using lea_search_result [OF room, of 0 4097 0 mem] by simp
  moreover have "\<not> padded_boundary mem lea 0" by (simp add: padded_boundary_def)
  ultimately have "?r = Inl Access_Violation \<and> search_unmapped mem lea \<or>
   \<not> search_unmapped mem lea \<and>
     ((\<exists>m. area_size mem lea m \<and> ?r = Inr (lea + of_nat m)) \<or>
      (\<forall>m. \<not> area_size mem lea m) \<and> (?r = Inr (lea + 4096) \<or> ?r = Inr (lea + 4097)))"
    by (intro search_result_meaning) auto
  then consider (unmapped) "?r = Inl Access_Violation" "search_unmapped mem lea"
    | (area) m where "\<not> search_unmapped mem lea" "area_size mem lea m" "?r = Inr (lea + of_nat m)"
    | (none) e where "\<not> search_unmapped mem lea" "\<forall>m. \<not> area_size mem lea m" "?r = Inr e" "\<not> e < lea + 4096"
    using end_ by blast
  then show ?thesis
  proof cases
    case (area m)
    have "lea + of_nat m < lea + 4096"
      using area(2) at [of m] at [of 4096] by (simp add: area_size_def word_less_nat_alt)
    moreover have "trace_in_area mem ts lea \<longleftrightarrow> (\<exists>t\<in>set ts. Intersect t lea (lea + of_nat m - lea))"
      unfolding trace_in_area_def Intersect_area using area(2) area_size_unique by blast
    ultimately show ?thesis using area(1,3) by (simp add: lim erase_loop_exact [OF srt] del: lea_search.simps)
  next
    case (none e)
    then show ?thesis by (simp add: lim trace_in_area_def del: lea_search.simps)
  qed (simp add: lim del: lea_search.simps)
qed

text \<open>C35. What \<open>postProcess\<close> does is decided by the first structure address at which it cannot go on. The area of a structure address
  reaches to the first 16-byte boundary behind five bytes of 0xCC, if there is one less than 4096 bytes behind. If the bytes run
  out before that, the run ends with a fault; if the area overlaps a trace, it ends with the increment of the erased
  iterator; and if neither ever happens, nothing is erased.\<close>

theorem postProcess_outcome:
  assumes inv: "sweep_inv sw" and room: "\<forall>lea\<in>set (m_lea_targets sw). unat lea + 4097 < 2 ^ 32"
  shows "postProcess mem sw =
    (case find (\<lambda>lea. search_unmapped mem lea \<or> trace_in_area mem (m_traces sw) lea) (m_lea_targets sw) of
       None \<Rightarrow> Inr sw
     | Some lea \<Rightarrow> Inl (if search_unmapped mem lea then Access_Violation else Invalid_Iterator))"
proof -
  have srt: "set_inv m_start (m_traces sw)" using inv by (simp add: sweep_inv_def)
  have "postProcess_loop mem (m_traces sw) leas =
    (case find (\<lambda>lea. search_unmapped mem lea \<or> trace_in_area mem (m_traces sw) lea) leas of
       None \<Rightarrow> Inr () | Some lea \<Rightarrow> Inl (if search_unmapped mem lea then Access_Violation else Invalid_Iterator))"
    if "\<forall>lea\<in>set leas. unat lea + 4097 < 2 ^ 32" for leas
    using that
  proof (induction leas)
    case (Cons lea leas)
    then show ?case by (simp add: Let_def postProcess_turn [OF srt] del: lea_search.simps)
  qed simp
  from this [OF room] show ?thesis by (simp add: postProcess_def split: option.split)
qed

text \<open>A trace that reaches into the padded area behind a structure at \<open>0x1008\<close>, which is 8 bytes long.\<close>

lemma postProcess_outcome_witness:
  "\<exists>mem sw. postProcess mem sw = Inl Invalid_Iterator \<and> m_lea_targets sw = [0x1008] \<and>
     trace_in_area mem (m_traces sw) 0x1008"
proof -
  let ?mem = "[(0x1000, replicate 16 0xcc @ [0x90])] :: memory"
  let ?sw = "(add_trace (AssembleTrace 0x1004 8 0x1000 16) (new_CodeSectionSweeper 0 [] [] 0x1000 16))\<lparr>m_lea_targets := [0x1008]\<rparr>"
  have inv: "sweep_inv ?sw"
  proof -
    have "sweep_inv (new_CodeSectionSweeper 0 [] [] 0x1000 16)"
      by (simp add: sweep_inv_def new_CodeSectionSweeper_def appendTarget_def sweeper_IsAddrCode_def)
    then show ?thesis by (simp only: sweep_inv_upd sweep_inv_add_trace)
  qed
  have run: "postProcess ?mem ?sw = Inl Invalid_Iterator" by code_simp
  have "\<forall>lea\<in>set (m_lea_targets ?sw). unat lea + 4097 < 2 ^ 32" by simp
  from postProcess_outcome [OF inv this, of ?mem] run have "trace_in_area ?mem (m_traces ?sw) 0x1008"
    by (simp split: if_split_asm del: add_trace_sel)
  with run show ?thesis by (intro exI [of _ ?mem] exI [of _ ?sw]) simp
qed

end
