(* ===== verification/Libdasm_Format.thy ===== *)
theory Libdasm_Format
  imports Libdasm_Decode Printf
begin

text \<open>
  The routines of \<^verbatim>\<open>libdasm/libdasm.cpp\<close> that print an instruction: \<open>get_operand_string\<close>,
  \<open>get_mnemonic_string\<close>, \<open>get_operands_string\<close> and \<open>get_instruction_string\<close>, and \<open>get_register_type\<close>.
  A printer takes the text the caller's buffer holds and returns the text it holds afterwards.
  \<^verbatim>\<open>libdasm.h\<close> defines \<open>snprintf\<close> to be \<open>sprintf_s\<close>, which treats a text that does not fit as an invalid
  parameter: it does not cut the text, it is an error. (For a buffer of size 0 the code would measure a text that was
  never written; there the model has an error as soon as something is printed.)
\<close>

subsection \<open>Names\<close>

datatype Format = FORMAT_ATT | FORMAT_INTEL

text \<open>A text that does not fit the buffer, a name looked up outside its table, a shift by a negative or
  too large amount, a null row pointer or mnemonic.\<close>

datatype format_error = Invalid_Parameter | Name_Overrun | Undefined_Shift | Null_String

definition rep_table :: "string list" where
  "rep_table = [''lock '', ''repne '', ''rep '']"

definition reg_table :: "string list list" where
  "reg_table =
    [[''eax'', ''ecx'', ''edx'', ''ebx'', ''esp'', ''ebp'', ''esi'', ''edi''],
     [''ax'', ''cx'', ''dx'', ''bx'', ''sp'', ''bp'', ''si'', ''di''],
     [''al'', ''cl'', ''dl'', ''bl'', ''ah'', ''ch'', ''dh'', ''bh''],
     [''es'', ''cs'', ''ss'', ''ds'', ''fs'', ''gs'', ''??'', ''??''],
     [''dr0'', ''dr1'', ''dr2'', ''dr3'', ''dr4'', ''dr5'', ''dr6'', ''dr7''],
     [''cr0'', ''cr1'', ''cr2'', ''cr3'', ''cr4'', ''cr5'', ''cr6'', ''cr7''],
     [''tr0'', ''tr1'', ''tr2'', ''tr3'', ''tr4'', ''tr5'', ''tr6'', ''tr7''],
     [''xmm0'', ''xmm1'', ''xmm2'', ''xmm3'', ''xmm4'', ''xmm5'', ''xmm6'', ''xmm7''],
     [''mm0'', ''mm1'', ''mm2'', ''mm3'', ''mm4'', ''mm5'', ''mm6'', ''mm7''],
     [''st(0)'', ''st(1)'', ''st(2)'', ''st(3)'', ''st(4)'', ''st(5)'', ''st(6)'', ''st(7)''],
     [''??'', ''(bnt)'', ''??'', ''(bt)'', ''??'', ''??'', ''??'', ''??'']]"

definition LIBDASM_REG_GEN_DWORD :: nat where "LIBDASM_REG_GEN_DWORD = 0"
definition LIBDASM_REG_GEN_WORD :: nat where "LIBDASM_REG_GEN_WORD = 1"
definition LIBDASM_REG_GEN_BYTE :: nat where "LIBDASM_REG_GEN_BYTE = 2"
definition LIBDASM_REG_SEGMENT :: nat where "LIBDASM_REG_SEGMENT = 3"
definition LIBDASM_REG_DEBUG :: nat where "LIBDASM_REG_DEBUG = 4"
definition LIBDASM_REG_CONTROL :: nat where "LIBDASM_REG_CONTROL = 5"
definition LIBDASM_REG_TEST :: nat where "LIBDASM_REG_TEST = 6"
definition LIBDASM_REG_XMM :: nat where "LIBDASM_REG_XMM = 7"
definition LIBDASM_REG_MMX :: nat where "LIBDASM_REG_MMX = 8"
definition LIBDASM_REG_FPU :: nat where "LIBDASM_REG_FPU = 9"
definition LIBDASM_REG_BRANCH :: nat where "LIBDASM_REG_BRANCH = 10"

lemmas name_index_defs = LIBDASM_REG_GEN_DWORD_def LIBDASM_REG_GEN_WORD_def LIBDASM_REG_GEN_BYTE_def
  LIBDASM_REG_SEGMENT_def LIBDASM_REG_DEBUG_def LIBDASM_REG_CONTROL_def LIBDASM_REG_TEST_def
  LIBDASM_REG_XMM_def LIBDASM_REG_MMX_def LIBDASM_REG_FPU_def LIBDASM_REG_BRANCH_def

definition reg_name :: "nat \<Rightarrow> nat \<Rightarrow> format_error + string" where
  "reg_name t r = (if t < length reg_table \<and> r < length (reg_table ! t) then Inr (reg_table ! t ! r)
                   else Inl Name_Overrun)"

definition rep_name :: "nat \<Rightarrow> format_error + string" where
  "rep_name r = (if r < length rep_table then Inr (rep_table ! r) else Inl Name_Overrun)"

subsection \<open>Printing into a buffer\<close>

type_synonym printer = "string \<Rightarrow> format_error + string"

text \<open>\<open>snprintf(string + strlen(string), length - strlen(string), ...)\<close>; the text needs a final NUL.\<close>

definition emit :: "nat \<Rightarrow> string \<Rightarrow> printer" where
  "emit n t s = (if length s + length t < n then Inr (s @ t) else Inl Invalid_Parameter)"

text \<open>The same with an argument whose evaluation can fail.\<close>

definition emit_r :: "nat \<Rightarrow> format_error + string \<Rightarrow> printer" where
  "emit_r n r s = bind_r r (\<lambda>t. emit n t s)"

definition no_print :: printer where "no_print s = Inr s"

fun prints :: "printer list \<Rightarrow> printer" where
  "prints [] s = Inr s"
| "prints (p # ps) s = bind_r (p s) (prints ps)"

subsection \<open>Operands\<close>

definition operand_regtype :: "u32 \<Rightarrow> nat" where
  "operand_regtype f =
     (let am = MASK_AM f in
      if am = AM_LIBDASM_REG then
        (if MASK_FLAGS f = F_r then LIBDASM_REG_SEGMENT
         else if MASK_FLAGS f = F_f then LIBDASM_REG_FPU
         else LIBDASM_REG_GEN_DWORD)
      else if am = AM_E \<or> am = AM_G \<or> am = AM_R then LIBDASM_REG_GEN_DWORD
      else if am = AM_C then LIBDASM_REG_CONTROL
      else if am = AM_D then LIBDASM_REG_DEBUG
      else if am = AM_S then LIBDASM_REG_SEGMENT
      else if am = AM_T then LIBDASM_REG_TEST
      else if am = AM_P \<or> am = AM_Q then LIBDASM_REG_MMX
      else if am = AM_V \<or> am = AM_W then LIBDASM_REG_XMM
      else 0)"

definition print_register :: "INSTRUCTION \<Rightarrow> OPERAND \<Rightarrow> Format \<Rightarrow> nat \<Rightarrow> printer" where
  "print_register inst op format n =
     (let mode = MODE_CHECK_OPERAND (imode inst) (iflags inst);
          regtype = operand_regtype (op_flags op); ot = MASK_OT (op_flags op) in
      prints
       [if format = FORMAT_ATT then emit n ''%'' else no_print,
        if regtype = LIBDASM_REG_GEN_DWORD then
          (if ot = OT_b then emit_r n (reg_name LIBDASM_REG_GEN_BYTE (reg op))
           else if ot = OT_v then
             emit_r n (if mode = MODE_32 then reg_name LIBDASM_REG_GEN_DWORD (reg op)
                       else reg_name LIBDASM_REG_GEN_WORD (reg op))
           else if ot = OT_w then emit_r n (reg_name LIBDASM_REG_GEN_WORD (reg op))
           else if ot = OT_d then emit_r n (reg_name LIBDASM_REG_GEN_DWORD (reg op))
           else no_print)
        else emit_r n (reg_name regtype (reg op))])"

text \<open>A format \<^verbatim>\<open>%s%s\<close> with a constant and a looked-up name.\<close>

definition after :: "string \<Rightarrow> format_error + string \<Rightarrow> format_error + string" where
  "after t r = bind_r r (\<lambda>u. Inr (t @ u))"

definition addr_reg :: "INSTRUCTION \<Rightarrow> nat \<Rightarrow> format_error + string" where
  "addr_reg inst r =
     (if MODE_CHECK_ADDR (imode inst) (iflags inst) = MODE_32 then reg_name LIBDASM_REG_GEN_DWORD r
      else reg_name LIBDASM_REG_GEN_WORD r)"

definition print_segment :: "INSTRUCTION \<Rightarrow> Format \<Rightarrow> nat \<Rightarrow> printer" where
  "print_segment inst format n =
     (let g2 = MASK_PREFIX_G2 (iflags inst) in
      if g2 \<noteq> 0 then
        emit_r n (bind_r (after (if format = FORMAT_ATT then ''%'' else [])
                            (reg_name LIBDASM_REG_SEGMENT (unat g2 - 1))) (\<lambda>t. Inr (t @ '':'')))
      else no_print)"

definition print_base :: "INSTRUCTION \<Rightarrow> OPERAND \<Rightarrow> Format \<Rightarrow> nat \<Rightarrow> printer" where
  "print_base inst op format n =
     (if basereg op \<noteq> LIBDASM_REGISTER_NOP then
        emit_r n (after (if format = FORMAT_ATT then ''%'' else []) (addr_reg inst (basereg op)))
      else no_print)"

definition print_scale :: "OPERAND \<Rightarrow> Format \<Rightarrow> nat \<Rightarrow> printer" where
  "print_scale op format n =
     (if op_scale op = 2 then emit n (if format = FORMAT_ATT then '',2'' else ''*2'')
      else if op_scale op = 4 then emit n (if format = FORMAT_ATT then '',4'' else ''*4'')
      else if op_scale op = 8 then emit n (if format = FORMAT_ATT then '',8'' else ''*8'')
      else no_print)"

definition print_index :: "INSTRUCTION \<Rightarrow> OPERAND \<Rightarrow> Format \<Rightarrow> nat \<Rightarrow> printer" where
  "print_index inst op format n =
     (if indexreg op \<noteq> LIBDASM_REGISTER_NOP then
        prints
         [if basereg op \<noteq> LIBDASM_REGISTER_NOP then
            emit_r n (after (if format = FORMAT_ATT then '',%'' else ''+'') (addr_reg inst (indexreg op)))
          else emit_r n (after (if format = FORMAT_ATT then ''%'' else []) (addr_reg inst (indexreg op))),
          print_scale op format n]
      else no_print)"

text \<open>\<open>1 << (dispbytes * 8 - 1)\<close> is not defined for no bytes and for more than four.\<close>

definition disp_sign :: "OPERAND \<Rightarrow> format_error + bool" where
  "disp_sign op =
     (if 1 \<le> op_dispbytes op \<and> op_dispbytes op \<le> 4
      then Inr (displacement op AND push_bit (op_dispbytes op * 8 - 1) 1 \<noteq> 0)
      else Inl Undefined_Shift)"

definition negated_disp :: "OPERAND \<Rightarrow> u32" where
  "negated_disp op =
     (if op_dispbytes op = 1 then NOT (displacement op) AND 0xff
      else if op_dispbytes op = 2 then NOT (displacement op) AND 0xffff
      else if op_dispbytes op = 4 then NOT (displacement op)
      else displacement op)"

definition intel_disp :: "OPERAND \<Rightarrow> format_error + string" where
  "intel_disp op =
     (if basereg op \<noteq> LIBDASM_REGISTER_NOP \<or> indexreg op \<noteq> LIBDASM_REGISTER_NOP then
        bind_r (disp_sign op) (\<lambda>neg.
          Inr (if neg then ''-0x'' @ fmt_x (negated_disp op + 1) else ''+0x'' @ fmt_x (displacement op)))
      else Inr (''0x'' @ fmt_x (displacement op)))"

definition MASK_PERMS :: "u32 \<Rightarrow> u32" where "MASK_PERMS x = x AND 0x0000f000"

definition print_memory :: "INSTRUCTION \<Rightarrow> OPERAND \<Rightarrow> Format \<Rightarrow> nat \<Rightarrow> printer" where
  "print_memory inst op format n =
     prints
      ([print_segment inst format n,
        if format = FORMAT_ATT \<and> MASK_PERMS (op_flags op) = P_x then emit n ''*'' else no_print,
        if format = FORMAT_ATT \<and> op_dispbytes op \<noteq> 0 then emit n (''0x'' @ fmt_x (displacement op))
        else no_print] @
       (if format = FORMAT_ATT \<and> basereg op = LIBDASM_REGISTER_NOP \<and> indexreg op = LIBDASM_REGISTER_NOP then []
        else
         [emit n (if format = FORMAT_ATT then ''('' else ''[''),
          print_base inst op format n,
          print_index inst op format n,
          if dispbytes inst \<noteq> 0 \<and> format \<noteq> FORMAT_ATT then emit_r n (intel_disp op) else no_print,
          emit n (if format = FORMAT_ATT then '')'' else '']'')]))"

definition print_immediate :: "INSTRUCTION \<Rightarrow> OPERAND \<Rightarrow> Format \<Rightarrow> u32 \<Rightarrow> nat \<Rightarrow> printer" where
  "print_immediate inst op format offset n =
     (let am = MASK_AM (op_flags op); d = (if format = FORMAT_ATT then ''$'' else []) in
      if am = AM_J then emit n (''0x'' @ fmt_x (immediate op + of_nat (ilength inst) + offset))
      else if am = AM_I1 \<or> am = AM_I then
        prints [if format = FORMAT_ATT then emit n ''$'' else no_print, emit n (''0x'' @ fmt_x (immediate op))]
      else if am = AM_A then
        emit n (d @ ''0x'' @ fmt_x (ucast (section_val op)) @ '':'' @ d @ ''0x'' @ fmt_x (displacement op))
      else no_print)"

text \<open>The return value and the text, which \<open>memset\<close> makes empty at first.\<close>

definition get_operand_string ::
    "INSTRUCTION \<Rightarrow> OPERAND \<Rightarrow> Format \<Rightarrow> u32 \<Rightarrow> nat \<Rightarrow> format_error + nat \<times> string" where
  "get_operand_string inst op format offset n =
     (case op_type op of
        OPERAND_TYPE_LIBDASM_REGISTER \<Rightarrow> bind_r (print_register inst op format n []) (\<lambda>s. Inr (1, s))
      | OPERAND_TYPE_MEMORY \<Rightarrow> bind_r (print_memory inst op format n []) (\<lambda>s. Inr (1, s))
      | OPERAND_TYPE_IMMEDIATE \<Rightarrow> bind_r (print_immediate inst op format offset n []) (\<lambda>s. Inr (1, s))
      | OPERAND_TYPE_NONE \<Rightarrow> Inr (0, []))"

subsection \<open>Mnemonic\<close>

definition row_of :: "INSTRUCTION \<Rightarrow> format_error + INST" where
  "row_of inst = (case ptr inst of None \<Rightarrow> Inl Null_String | Some row \<Rightarrow> Inr row)"

definition mnemonic_of :: "INSTRUCTION \<Rightarrow> format_error + string" where
  "mnemonic_of inst = bind_r (row_of inst) (\<lambda>row.
     case mnemonic row of None \<Rightarrow> Inl Null_String | Some s \<Rightarrow> Inr s)"

definition print_prefixes :: "INSTRUCTION \<Rightarrow> nat \<Rightarrow> printer" where
  "print_prefixes inst n =
     (let g1 = MASK_PREFIX_G1 (iflags inst); g2 = MASK_PREFIX_G2 (iflags inst) in
      prints
       [if g2 \<noteq> 0 \<and> op_type (op1 inst) \<noteq> OPERAND_TYPE_MEMORY \<and> op_type (op2 inst) \<noteq> OPERAND_TYPE_MEMORY then
          (if itype inst = INSTRUCTION_TYPE_JMPC then
             emit_r n (bind_r (reg_name LIBDASM_REG_BRANCH (unat g2 - 1)) (\<lambda>t. Inr (t @ '' '')))
           else emit_r n (bind_r (reg_name LIBDASM_REG_SEGMENT (unat g2 - 1)) (\<lambda>t. Inr (t @ '' ''))))
        else no_print,
        if g1 \<noteq> 0 \<and> MASK_EXT (iflags inst) \<noteq> EXT_T2 then emit_r n (rep_name (unat g1 - 1)) else no_print])"

definition print_mnemonic :: "INSTRUCTION \<Rightarrow> nat \<Rightarrow> printer" where
  "print_mnemonic inst n =
     (if itype inst = INSTRUCTION_TYPE_JMPC \<and> opcode inst = 0xe3 \<and> MASK_PREFIX_ADDR (iflags inst) = 1
      then emit n ''jcxz'' else emit_r n (mnemonic_of inst))"

definition print_byte :: "Format \<Rightarrow> nat \<Rightarrow> printer" where
  "print_byte format n = emit n (if format = FORMAT_ATT then ''b'' else '' byte'')"

definition print_word :: "Format \<Rightarrow> nat \<Rightarrow> printer" where
  "print_word format n = emit n (if format = FORMAT_ATT then ''w'' else '' word'')"

definition print_dword :: "Format \<Rightarrow> nat \<Rightarrow> printer" where
  "print_dword format n = emit n (if format = FORMAT_ATT then ''l'' else '' dword'')"

definition print_operand_size :: "INSTRUCTION \<Rightarrow> Format \<Rightarrow> nat \<Rightarrow> printer" where
  "print_operand_size inst format n =
     (if MODE_CHECK_OPERAND (imode inst) (iflags inst) = MODE_16 then print_word format n
      else print_dword format n)"

definition with_row :: "INSTRUCTION \<Rightarrow> (INST \<Rightarrow> printer) \<Rightarrow> printer" where
  "with_row inst p s = bind_r (row_of inst) (\<lambda>row. p row s)"

text \<open>The size behind the mnemonic: of a \<open>push\<close>, of a \<open>pop\<close>, of an immediate stored to memory.\<close>

definition print_size :: "INSTRUCTION \<Rightarrow> Format \<Rightarrow> nat \<Rightarrow> printer" where
  "print_size inst format n =
     (if itype inst = INSTRUCTION_TYPE_PUSH then
        (if op_type (op1 inst) = OPERAND_TYPE_IMMEDIATE then
           (if op_immbytes (op1 inst) = 1 then print_byte format n
            else if op_immbytes (op1 inst) = 2 then print_word format n
            else if op_immbytes (op1 inst) = 4 then print_dword format n
            else no_print)
         else if op_type (op1 inst) = OPERAND_TYPE_MEMORY then print_operand_size inst format n
         else no_print)
      else if itype inst = INSTRUCTION_TYPE_POP then
        (if op_type (op1 inst) = OPERAND_TYPE_MEMORY then print_operand_size inst format n else no_print)
      else with_row inst (\<lambda>row.
        if inst_modrm row \<and> MASK_MODRM_MOD (modrm inst) \<noteq> 3 \<and> MASK_AM (op_flags (op2 inst)) = AM_I then
          (let ot = MASK_OT (op_flags (op1 inst)) in
           if ot = OT_b then print_byte format n
           else if ot = OT_w then print_word format n
           else if ot = OT_d then print_dword format n
           else if ot = OT_v then
             (if imode inst = MODE_32 \<and> MASK_PREFIX_OPERAND (iflags inst) = 0 \<or>
                 imode inst = MODE_16 \<and> MASK_PREFIX_OPERAND (iflags inst) = 1
              then print_dword format n else print_word format n)
           else no_print)
        else no_print))"

definition get_mnemonic_string :: "INSTRUCTION \<Rightarrow> Format \<Rightarrow> nat \<Rightarrow> format_error + nat \<times> string" where
  "get_mnemonic_string inst format n =
     bind_r (prints [print_prefixes inst n, print_mnemonic inst n, print_size inst format n] [])
       (\<lambda>s. Inr (1, s))"

subsection \<open>The instruction\<close>

text \<open>One operand behind the text \<open>s\<close>, in what is left of the buffer; its return value is ignored.\<close>

definition print_operand :: "INSTRUCTION \<Rightarrow> OPERAND \<Rightarrow> Format \<Rightarrow> u32 \<Rightarrow> nat \<Rightarrow> printer" where
  "print_operand inst op format offset n s =
     bind_r (get_operand_string inst op format offset (n - length s)) (\<lambda>(_, t). Inr (s @ t))"

definition get_operands_string ::
    "INSTRUCTION \<Rightarrow> Format \<Rightarrow> u32 \<Rightarrow> nat \<Rightarrow> string \<Rightarrow> format_error + nat \<times> string" where
  "get_operands_string inst format offset n s =
     (let operand = (\<lambda>op. print_operand inst op format offset n);
          present = (\<lambda>op. op_type op \<noteq> OPERAND_TYPE_NONE) in
      bind_r (prints (case format of
          FORMAT_ATT \<Rightarrow>
            (if present (op3 inst) then [operand (op3 inst), emit n '','' ] else []) @
            (if present (op2 inst) then [operand (op2 inst), emit n '','' ] else []) @
            (if present (op1 inst) then [operand (op1 inst)] else [])
        | FORMAT_INTEL \<Rightarrow>
            (if present (op1 inst) then [operand (op1 inst)] else []) @
            (if present (op2 inst) then [emit n '','', operand (op2 inst)] else []) @
            (if present (op3 inst) then [emit n '','', operand (op3 inst)] else [])) s)
        (\<lambda>t. Inr (1, t)))"

definition get_instruction_string ::
    "INSTRUCTION \<Rightarrow> Format \<Rightarrow> u32 \<Rightarrow> nat \<Rightarrow> format_error + nat \<times> string" where
  "get_instruction_string inst format offset n =
     bind_r (get_mnemonic_string inst format n) (\<lambda>(_, m).
     bind_r (emit n '' '' m) (\<lambda>s.
     bind_r (get_operands_string inst format offset (n - length s) []) (\<lambda>(r, t).
     Inr (if r = 0 then 0 else 1, s @ t))))"

subsection \<open>Register types\<close>

definition LIBDASM_REGISTER_TYPE_GEN :: nat where "LIBDASM_REGISTER_TYPE_GEN = 1"
definition LIBDASM_REGISTER_TYPE_SEGMENT :: nat where "LIBDASM_REGISTER_TYPE_SEGMENT = 2"
definition LIBDASM_REGISTER_TYPE_DEBUG :: nat where "LIBDASM_REGISTER_TYPE_DEBUG = 3"
definition LIBDASM_REGISTER_TYPE_CONTROL :: nat where "LIBDASM_REGISTER_TYPE_CONTROL = 4"
definition LIBDASM_REGISTER_TYPE_TEST :: nat where "LIBDASM_REGISTER_TYPE_TEST = 5"
definition LIBDASM_REGISTER_TYPE_XMM :: nat where "LIBDASM_REGISTER_TYPE_XMM = 6"
definition LIBDASM_REGISTER_TYPE_MMX :: nat where "LIBDASM_REGISTER_TYPE_MMX = 7"
definition LIBDASM_REGISTER_TYPE_FPU :: nat where "LIBDASM_REGISTER_TYPE_FPU = 8"

definition get_register_type :: "OPERAND \<Rightarrow> nat" where
  "get_register_type op =
     (if op_type op \<noteq> OPERAND_TYPE_LIBDASM_REGISTER then 0
      else let am = MASK_AM (op_flags op) in
        if am = AM_LIBDASM_REG then
          (if MASK_FLAGS (op_flags op) = F_r then LIBDASM_REGISTER_TYPE_SEGMENT
           else if MASK_FLAGS (op_flags op) = F_f then LIBDASM_REGISTER_TYPE_FPU
           else LIBDASM_REGISTER_TYPE_GEN)
        else if am = AM_E \<or> am = AM_G \<or> am = AM_R then LIBDASM_REGISTER_TYPE_GEN
        else if am = AM_C then LIBDASM_REGISTER_TYPE_CONTROL
        else if am = AM_D then LIBDASM_REGISTER_TYPE_DEBUG
        else if am = AM_S then LIBDASM_REGISTER_TYPE_SEGMENT
        else if am = AM_T then LIBDASM_REGISTER_TYPE_TEST
        else if am = AM_P \<or> am = AM_Q then LIBDASM_REGISTER_TYPE_MMX
        else if am = AM_V \<or> am = AM_W then LIBDASM_REGISTER_TYPE_XMM
        else 0)"

end
