(* ===== verification/Libdasm_Types.thy ===== *)
theory Libdasm_Types
  imports Libdasm_Safety
begin

text \<open>
  The values the fields of a decoded operand can take: which register numbers, scales and sizes, by the operand's
  type, and how the displacement bytes the instruction counts relate to those of its operands. This is
  what the routines that print an instruction rely on.
\<close>

subsection \<open>The fields of one operand\<close>

lemma low_reg_less: "low_reg f \<Longrightarrow> MASK_LIBDASM_REG f < 8"
proof -
  assume "low_reg f"
  moreover have "f AND 15 = (f AND 8) OR (f AND 7)" by (simp add: bit.conj_disj_distrib [symmetric])
  ultimately have "f AND 15 = f AND 7" by (simp add: low_reg_def)
  then show ?thesis using word_and_le1 [of f 7] by (simp add: MASK_LIBDASM_REG_def word_le_nat_alt)
qed

definition modrm_regs :: "modrm_info \<Rightarrow> bool" where
  "modrm_regs mi \<longleftrightarrow> m_basereg mi \<le> 8 \<and> m_indexreg mi \<le> 8 \<and> disp_size (m_dispbytes mi)"

lemma no_modrm_regs: "modrm_regs no_modrm"
  by (simp add: modrm_regs_def no_modrm_def LIBDASM_REGISTER_NOP_def disp_size_def)

lemma modrm_fields_le:
  "MASK_MODRM_RM b \<le> 8" "MASK_MODRM_LIBDASM_REG b \<le> 8" "MASK_SIB_BASE b \<le> 8" "MASK_SIB_INDEX b \<le> 8"
  "LIBDASM_REGISTER_NOP \<le> 8"
  "MASK_MODRM_LIBDASM_REG b < 8"
  using MASK_MODRM_RM_less [of b] MASK_MODRM_REG_less [of b]
  by (simp_all add: MASK_SIB_BASE_def MASK_SIB_INDEX_def LIBDASM_REGISTER_NOP_def)

lemma base_index_16_le: "fst (base_index_16 b) \<le> 8 \<and> snd (base_index_16 b) \<le> 8"
proof -
  have "r \<le> 8" if "r \<in> {LIBDASM_REGISTER_EBX, LIBDASM_REGISTER_EBP, LIBDASM_REGISTER_ESI,
      LIBDASM_REGISTER_EDI, LIBDASM_REGISTER_NOP}" for r
    using that by (auto simp: libdasm_consts)
  with modrm_fields_le show ?thesis by (simp add: base_index_16_def Let_def)
qed

lemma parse_sib_regs:
  assumes "parse_sib bs off b instr = Inr (mi, instr')"
  shows "m_basereg mi \<le> 8 \<and> m_indexreg mi \<le> 8 \<and> m_reg mi < 8"
  using assms by (clarsimp simp: parse_sib_def Let_def bind_r_eq_Inr modrm_fields_le)

lemma parse_modrm_regs:
  assumes parse: "parse_modrm bs off pm instr = Inr (mi, instr')"
  shows "modrm_regs mi \<and> m_reg mi < 8"
proof -
  from parse obtain b where b: "FETCH8 bs off = Inr b" by (auto simp: parse_modrm_def bind_r_eq_Inr)
  have "m_basereg mi \<le> 8 \<and> m_indexreg mi \<le> 8 \<and> m_reg mi < 8"
  proof (cases "pm = MODE_32 \<and> MASK_MODRM_RM b = LIBDASM_REGISTER_ESP \<and> MASK_MODRM_MOD b \<noteq> 3")
    case True
    with parse b show ?thesis by (auto simp: parse_modrm_def Let_def dest: parse_sib_regs)
  next
    case False
    with parse b show ?thesis
      by (auto simp: parse_modrm_def Let_def modrm_fields_le base_index_16_le split: if_split_asm)
  qed
  with parse_modrm_Inr [OF parse] show ?thesis by (simp add: modrm_regs_def)
qed

text \<open>What the printers need of one operand, in terms of its flags and of the displacement bytes its
  decoding leaves in the instruction.\<close>

definition decoded_operand :: "u32 \<Rightarrow> nat \<Rightarrow> nat \<Rightarrow> OPERAND \<Rightarrow> bool" where
  "decoded_operand f d d' op \<longleftrightarrow>
     (op_type op = OPERAND_TYPE_LIBDASM_REGISTER \<longrightarrow> reg op < 8) \<and>
     (op_type op = OPERAND_TYPE_MEMORY \<longrightarrow> basereg op \<le> 8 \<and> indexreg op \<le> 8 \<and>
        (moves_disp f \<and> op_dispbytes op = d' \<and> d' \<le> 4 \<or> am_ind (MASK_AM f))) \<and>
     (moves_disp f \<or> d' = d)"

lemma memory_operand_decoded:
  assumes "memory_operand instr op bs off mi = Inr (opd, instr')" and "modrm_regs mi"
    and "am_mem (MASK_AM f)"
  shows "decoded_operand f d (dispbytes instr') opd"
  using assms
  by (auto simp: memory_operand_def Let_def bind_r_eq_Inr decoded_operand_def modrm_regs_def moves_disp_def
      disp_size_def LIBDASM_REGISTER_NOP_def split: if_split_asm)

lemma offset_operand_decoded:
  assumes "offset_operand f instr op bs off mode = Inr (opd, instr')" and "am_plain (MASK_AM f)"
    and "op_dispbytes op = 0" "basereg op \<le> 8" "indexreg op \<le> 8"
  shows "decoded_operand f d (dispbytes instr') opd"
  using assms
  by (auto simp: offset_operand_def Let_def bind_r_eq_Inr decoded_operand_def moves_disp_def split: if_split_asm)

lemma immediate_operand_decoded:
  assumes "immediate_operand row g instr op bs off mode fl mi = Inr (opd, instr')"
  shows "decoded_operand f (dispbytes instr) (dispbytes instr') opd"
  using assms
  by (auto simp: immediate_operand_def Let_def bind_r_eq_Inr decoded_operand_def)

lemma far_operand_decoded:
  assumes "far_operand instr op bs off mode fl = Inr (opd, instr')" and "am_plain (MASK_AM f)"
  shows "decoded_operand f d (dispbytes instr') opd"
  using assms by (auto simp: far_operand_def Let_def bind_r_eq_Inr decoded_operand_def moves_disp_def)

lemma operand_switch_decoded:
  assumes switch: "operand_switch row f instr op bs off mode fl mi = Inr (opd, instr')"
    and op: "op_type op = OPERAND_TYPE_NONE" "op_dispbytes op = 0" "basereg op \<le> 8" "indexreg op \<le> 8"
    and mi: "modrm_regs mi" "am_gen (MASK_AM f) \<Longrightarrow> m_reg mi < 8" and low: "low_reg f"
  shows "decoded_operand f (dispbytes instr) (dispbytes instr') opd"
proof -
  let ?am = "MASK_AM f"
  have rm: "MASK_MODRM_LIBDASM_REG b < 8" for b by (rule MASK_MODRM_REG_less)
  have low8: "MASK_LIBDASM_REG f < 8" "MASK_LIBDASM_REG f \<le> 8" using low_reg_less [OF low] by simp_all
  consider "am_mem ?am" | "?am = AM_O" | "?am = AM_A" | "?am = AM_I \<or> ?am = AM_J" | "?am = AM_IND"
    | "\<not> am_mem ?am \<and> ?am \<noteq> AM_O \<and> ?am \<noteq> AM_A \<and> ?am \<noteq> AM_I \<and> ?am \<noteq> AM_J \<and> ?am \<noteq> AM_IND"
    by blast
  then show ?thesis
  proof cases
    case 1
    with switch have "memory_operand instr op bs off mi = Inr (opd, instr')"
      by (auto simp: operand_switch_def Let_def bind_r_eq_Inr am_mem_def libdasm_consts split: if_split_asm)
    then show ?thesis using mi(1) 1 by (rule memory_operand_decoded)
  next
    case 2
    with switch have "offset_operand f instr op bs off mode = Inr (opd, instr')"
      by (simp add: operand_switch_def Let_def libdasm_consts)
    then show ?thesis using op 2 by (intro offset_operand_decoded) (auto simp: am_plain_def)
  next
    case 3
    with switch have "far_operand instr op bs off mode fl = Inr (opd, instr')"
      by (simp add: operand_switch_def Let_def libdasm_consts)
    then show ?thesis using 3 by (intro far_operand_decoded) (auto simp: am_plain_def)
  next
    case 4
    with switch obtain g where "immediate_operand row g instr op bs off mode fl mi = Inr (opd, instr')"
      by (auto simp: operand_switch_def Let_def libdasm_consts)
    then show ?thesis by (rule immediate_operand_decoded)
  next
    case 5
    with switch op low8 show ?thesis
      by (auto simp: operand_switch_def Let_def libdasm_consts decoded_operand_def am_ind_def)
  next
    case 6
    with switch op low8 rm mi(2) show ?thesis
      by (auto simp: operand_switch_def Let_def am_mem_def am_gen_def decoded_operand_def split: if_split_asm)
  qed
qed

lemma get_operand_decoded:
  assumes get: "get_operand row f instr zero_OPERAND bs off mode fl = Inr (opd, instr')"
    and low: "low_reg f" and gen: "inst_modrm row \<or> \<not> am_gen (MASK_AM f)"
  shows "decoded_operand f (dispbytes instr) (dispbytes instr') opd"
proof (cases "f = FLAGS_NONE")
  case True
  with get show ?thesis by (auto simp: get_operand_def decoded_operand_def)
next
  case False
  with get obtain mi instr1 where
    parse: "(if inst_modrm row then parse_modrm bs off (MODE_CHECK_ADDR mode fl) instr
             else Inr (no_modrm, instr)) = Inr (mi, instr1)"
    and switch: "operand_switch row f instr1 (zero_OPERAND\<lparr>op_flags := f, reg := LIBDASM_REGISTER_NOP,
       basereg := LIBDASM_REGISTER_NOP, indexreg := LIBDASM_REGISTER_NOP, dispoffset := 0, immoffset := 0\<rparr>)
       bs off mode fl mi = Inr (opd, instr')"
    by (auto simp: get_operand_def bind_r_eq_Inr)
  from parse gen have "dispbytes instr1 = dispbytes instr" "modrm_regs mi" "am_gen (MASK_AM f) \<Longrightarrow> m_reg mi < 8"
    by (auto simp: no_modrm_regs split: if_split_asm dest: parse_modrm_Inr parse_modrm_regs)
  then show ?thesis using operand_switch_decoded [OF switch] low
    by (simp add: zero_OPERAND_def LIBDASM_REGISTER_NOP_def)
qed

text \<open>Decoding an operand writes no operand of the instruction.\<close>

lemma operand_switch_frame:
  assumes "operand_switch row f instr op bs off mode fl mi = Inr (opd, instr')"
  shows "op1 instr' = op1 instr \<and> op2 instr' = op2 instr \<and> op3 instr' = op3 instr"
  using assms
proof (cases rule: operand_switch_cases)
  case mem
  then show ?thesis by (auto simp: memory_operand_def Let_def bind_r_eq_Inr split: if_split_asm)
next
  case (imm g)
  then show ?thesis by (auto simp: immediate_operand_def Let_def bind_r_eq_Inr)
next
  case far
  then show ?thesis by (auto simp: far_operand_def Let_def bind_r_eq_Inr)
next
  case offset
  then show ?thesis by (auto simp: offset_operand_def bind_r_eq_Inr)
qed simp

lemma get_operand_frame:
  assumes "get_operand row f instr op bs off mode fl = Inr (opd, instr')"
  shows "op1 instr' = op1 instr \<and> op2 instr' = op2 instr \<and> op3 instr' = op3 instr"
  using assms
  by (auto simp: get_operand_def bind_r_eq_Inr split: if_split_asm
      dest!: parse_modrm_frame operand_switch_frame)

text \<open>The three calls of \<open>get_operand\<close>, each on an operand that is still all zero.\<close>

lemma decode_row_calls:
  assumes dec: "decode_row bs mode row index flags instr = Inr i" and fresh: "fresh instr"
  obtains i0 i1 i1' i2 i2' i3 where
    "get_operand row (flags1 row) i0 zero_OPERAND bs index mode flags = Inr (op1 i, i1)"
    "get_operand row (flags2 row) i1' zero_OPERAND bs index mode flags = Inr (op2 i, i2)"
    "get_operand row (flags3 row) i2' zero_OPERAND bs index mode flags = Inr (op3 i, i3)"
    "dispbytes i0 = 0" "dispbytes i1' = dispbytes i1" "dispbytes i2' = dispbytes i2" "dispbytes i = dispbytes i3"
proof -
  define i0 where "i0 = instr\<lparr>modrm_offset := (if inst_modrm row then index else modrm_offset instr),
      itype := MASK_TYPE_VALUE (inst_type row), eflags_affected := inst_eflags_affected row,
      eflags_used := inst_eflags_used row, ptr := Some row\<rparr>"
  from dec obtain o1 i1 o2 i2 o3 i3 where
    g1: "get_operand row (flags1 row) i0 (op1 i0) bs index mode flags = Inr (o1, i1)" and
    g2: "get_operand row (flags2 row) (i1\<lparr>op1 := o1\<rparr>) (op2 i1) bs index mode flags = Inr (o2, i2)" and
    g3: "get_operand row (flags3 row) (i2\<lparr>op2 := o2\<rparr>) (op3 i2) bs index mode flags = Inr (o3, i3)" and
    i: "i = i3\<lparr>op3 := o3, iop_read := inst_iop_read row, iop_written := inst_iop_written row,
      ilength := ilength i3 + index + immbytes i3 + dispbytes i3, imode := mode, iflags := flags\<rparr>"
    by (auto simp: decode_row_def i0_def [symmetric] Let_def bind_r_eq_Inr split: if_splits)
  have zero: "op1 i0 = zero_OPERAND" "op2 i0 = zero_OPERAND" "op3 i0 = zero_OPERAND" "dispbytes i0 = 0"
    using fresh by (simp_all add: i0_def fresh_def)
  note f1 = get_operand_frame [OF g1] and f2 = get_operand_frame [OF g2] and f3 = get_operand_frame [OF g3]
  have "op2 i1 = zero_OPERAND" "op3 i2 = zero_OPERAND" "op1 i = o1" "op2 i = o2" "op3 i = o3"
    using f1 f2 f3 zero i by simp_all
  with g1 g2 g3 zero i show thesis
    by (intro that [of i0 i1 "i1\<lparr>op1 := o1\<rparr>" i2 "i2\<lparr>op2 := o2\<rparr>" i3]) simp_all
qed

lemma decode_row_operands:
  assumes dec: "decode_row bs mode row index flags instr = Inr i" and fresh: "fresh instr"
    and ok: "row_printable row"
  obtains d1 d2 where "decoded_operand (flags1 row) 0 d1 (op1 i)" "decoded_operand (flags2 row) d1 d2 (op2 i)"
    "decoded_operand (flags3 row) d2 (dispbytes i) (op3 i)"
proof -
  have low: "low_reg (flags1 row)" "low_reg (flags2 row)" "low_reg (flags3 row)"
    and gen: "inst_modrm row \<or> \<not> am_gen (MASK_AM (flags1 row))" "inst_modrm row \<or> \<not> am_gen (MASK_AM (flags2 row))"
      "inst_modrm row \<or> \<not> am_gen (MASK_AM (flags3 row))"
    using ok by (auto simp: row_printable_def)
  show thesis
  proof (rule decode_row_calls [OF dec fresh])
    fix i0 i1 i1' i2 i2' i3
    assume g1: "get_operand row (flags1 row) i0 zero_OPERAND bs index mode flags = Inr (op1 i, i1)"
      and g2: "get_operand row (flags2 row) i1' zero_OPERAND bs index mode flags = Inr (op2 i, i2)"
      and g3: "get_operand row (flags3 row) i2' zero_OPERAND bs index mode flags = Inr (op3 i, i3)"
      and d: "dispbytes i0 = 0" "dispbytes i1' = dispbytes i1" "dispbytes i2' = dispbytes i2"
        "dispbytes i = dispbytes i3"
    show thesis
      using get_operand_decoded [OF g1 low(1) gen(1)] get_operand_decoded [OF g2 low(2) gen(2)]
        get_operand_decoded [OF g3 low(3) gen(3)] d that by simp
  qed
qed

text \<open>A value that has no bytes is 0, so the accessor that asks for the bytes loses nothing.\<close>

lemma memory_operand_immediate:
  "memory_operand instr op bs off mi = Inr (opd, instr') \<Longrightarrow>
   op_immbytes opd = op_immbytes op \<and> immediate opd = immediate op"
  by (auto simp: memory_operand_def Let_def bind_r_eq_Inr split: if_split_asm)

lemma immediate_operand_immediate:
  assumes "immediate_operand row g instr op bs off mode fl mi = Inr (opd, instr')"
    and "op_immbytes op = 0" "immediate op = 0"
  shows "op_immbytes opd = 0 \<longrightarrow> immediate opd = 0"
  using assms
  by (auto simp: immediate_operand_def immediate_value_def Let_def bind_r_eq_Inr split: if_split_asm)

lemma get_operand_immediate_zero:
  assumes "get_operand row f instr zero_OPERAND bs off mode fl = Inr (opd, instr')"
  shows "op_immbytes opd = 0 \<longrightarrow> immediate opd = 0"
  using assms
  by (auto simp: get_operand_def operand_switch_def Let_def bind_r_eq_Inr far_operand_def offset_operand_def
      zero_OPERAND_def split: if_split_asm dest!: memory_operand_immediate immediate_operand_immediate)

lemma decoded_immediate_zero:
  assumes "get_instruction bs mode = Inr i" and "op_immbytes (op1 i) = 0"
  shows "immediate (op1 i) = 0"
  using assms(1)
proof (cases rule: get_instruction_cases [of bs mode])
  case (ok row index flags instr j)
  with assms(1) have "decode_row bs mode row (index + 1) flags instr = Inr i" by simp
  then show ?thesis using ok(4)
    by (rule decode_row_calls) (use assms(2) in \<open>auto dest: get_operand_immediate_zero\<close>)
qed simp_all

subsection \<open>Types of the fields\<close>

text \<open>What the fields of an operand can hold, by its type: register numbers index the register tables (8 stands
  for no register), scales and sizes are those of the encoding.\<close>

definition operand_typed :: "OPERAND \<Rightarrow> bool" where
  "operand_typed op \<longleftrightarrow>
     (case op_type op of
        OPERAND_TYPE_NONE \<Rightarrow> True
      | OPERAND_TYPE_LIBDASM_REGISTER \<Rightarrow> reg op < 8
      | OPERAND_TYPE_MEMORY \<Rightarrow> basereg op \<le> 8 \<and> indexreg op \<le> 8 \<and> op_scale op \<in> {0, 2, 4, 8} \<and>
          op_dispbytes op \<in> {0, 1, 2, 4} \<and> op_immbytes op = 0
      | OPERAND_TYPE_IMMEDIATE \<Rightarrow> op_immbytes op \<in> {0, 1, 2, 4} \<and> op_dispbytes op \<in> {0, 4, 6})"

lemma sib_scale: "MASK_SIB_SCALE s * 2 \<in> {0, 2, 4, 6}"
proof -
  have "MASK_SIB_SCALE s < 4" by (simp add: MASK_SIB_SCALE_def MASK_MODRM_MOD_less)
  then show ?thesis by (auto simp: numeral_eq_Suc less_Suc_eq)
qed

lemma parse_sib_scale:
  assumes "parse_sib bs off b instr = Inr (mi, instr')"
  shows "m_scale mi \<in> {0, 2, 4, 8}"
proof -
  from assms obtain s where "m_scale mi = (let scale0 = MASK_SIB_SCALE s * 2 in if scale0 = 6 then scale0 + 2 else scale0)"
    unfolding parse_sib_def bind_r_eq_Inr Let_def by fastforce
  with sib_scale [of s] show ?thesis by (auto simp: Let_def)
qed

lemma parse_modrm_scale: "parse_modrm bs off pm instr = Inr (mi, instr') \<Longrightarrow> m_scale mi \<in> {0, 2, 4, 8}"
  unfolding parse_modrm_def bind_r_eq_Inr Let_def
  by (auto split: if_split_asm dest!: parse_sib_scale)

lemma memory_operand_typed:
  assumes "memory_operand instr op bs off mi = Inr (opd, instr')" and "modrm_regs mi"
    and "m_scale mi \<in> {0, 2, 4, 8}" and "op_immbytes op = 0"
  shows "operand_typed opd"
  using assms
  by (auto simp: memory_operand_def Let_def bind_r_eq_Inr operand_typed_def modrm_regs_def disp_size_def
      LIBDASM_REGISTER_NOP_def split: if_split_asm)

lemma operand_switch_typed:
  assumes switch: "operand_switch row f instr op bs off mode fl mi = Inr (opd, instr')"
    and op: "op_type op = OPERAND_TYPE_NONE" "op_dispbytes op = 0" "op_immbytes op = 0" "op_scale op = 0"
      "basereg op \<le> 8" "indexreg op \<le> 8"
    and mi: "modrm_regs mi" "m_scale mi \<in> {0, 2, 4, 8}" "am_gen (MASK_AM f) \<Longrightarrow> m_reg mi < 8"
    and low: "low_reg f"
  shows "operand_typed opd"
proof -
  let ?am = "MASK_AM f"
  have rm: "MASK_MODRM_LIBDASM_REG b < 8" for b by (rule MASK_MODRM_REG_less)
  have low8: "MASK_LIBDASM_REG f < 8" "MASK_LIBDASM_REG f \<le> 8" using low_reg_less [OF low] by simp_all
  consider "am_mem ?am" | "?am = AM_O" | "?am = AM_A" | "?am = AM_I \<or> ?am = AM_J"
    | "\<not> am_mem ?am \<and> ?am \<noteq> AM_O \<and> ?am \<noteq> AM_A \<and> ?am \<noteq> AM_I \<and> ?am \<noteq> AM_J"
    by blast
  then show ?thesis
  proof cases
    case 1
    with switch have "memory_operand instr op bs off mi = Inr (opd, instr')"
      by (auto simp: operand_switch_def Let_def bind_r_eq_Inr am_mem_def libdasm_consts split: if_split_asm)
    then show ?thesis using mi op by (intro memory_operand_typed)
  next
    case 2
    with switch have "offset_operand f instr op bs off mode = Inr (opd, instr')"
      by (simp add: operand_switch_def Let_def libdasm_consts)
    then show ?thesis using op
      by (auto simp: offset_operand_def bind_r_eq_Inr operand_typed_def split: if_split_asm)
  next
    case 3
    with switch have "far_operand instr op bs off mode fl = Inr (opd, instr')"
      by (simp add: operand_switch_def Let_def libdasm_consts)
    then show ?thesis using op by (auto simp: far_operand_def Let_def bind_r_eq_Inr operand_typed_def)
  next
    case 4
    with switch obtain g where "immediate_operand row g instr op bs off mode fl mi = Inr (opd, instr')"
      by (auto simp: operand_switch_def Let_def libdasm_consts)
    then show ?thesis using op
      by (auto simp: immediate_operand_def immediate_value_def Let_def bind_r_eq_Inr operand_typed_def
          split: if_split_asm)
  next
    case 5
    with switch op low8 rm mi(3) show ?thesis
      by (auto simp: operand_switch_def Let_def am_mem_def am_gen_def operand_typed_def split: if_split_asm)
  qed
qed

lemma get_operand_typed:
  assumes get: "get_operand row f instr zero_OPERAND bs off mode fl = Inr (opd, instr')"
    and low: "low_reg f" and gen: "inst_modrm row \<or> \<not> am_gen (MASK_AM f)"
  shows "operand_typed opd"
proof (cases "f = FLAGS_NONE")
  case True
  with get show ?thesis by (auto simp: get_operand_def operand_typed_def)
next
  case False
  with get obtain mi instr1 where
    parse: "(if inst_modrm row then parse_modrm bs off (MODE_CHECK_ADDR mode fl) instr
             else Inr (no_modrm, instr)) = Inr (mi, instr1)"
    and switch: "operand_switch row f instr1 (zero_OPERAND\<lparr>op_flags := f, reg := LIBDASM_REGISTER_NOP,
       basereg := LIBDASM_REGISTER_NOP, indexreg := LIBDASM_REGISTER_NOP, dispoffset := 0, immoffset := 0\<rparr>)
       bs off mode fl mi = Inr (opd, instr')"
    by (auto simp: get_operand_def bind_r_eq_Inr)
  have "m_scale no_modrm \<in> {0, 2, 4, 8}" by (simp add: no_modrm_def)
  with parse gen have "modrm_regs mi" "am_gen (MASK_AM f) \<Longrightarrow> m_reg mi < 8" "m_scale mi \<in> {0, 2, 4, 8}"
    by (auto simp: no_modrm_regs split: if_split_asm dest: parse_modrm_regs parse_modrm_scale)
  then show ?thesis
    by (intro operand_switch_typed [OF switch]) (use low in \<open>auto simp: zero_OPERAND_def LIBDASM_REGISTER_NOP_def\<close>)
qed

text \<open>C11. Every operand of every decoded instruction is well-typed, in both modes and under every combination of
  prefixes; in particular a register operand names a register, never the value 8 that stands for none.\<close>

theorem decoded_operands_typed:
  assumes "get_instruction bs mode = Inr i"
  shows "operand_typed (op1 i) \<and> operand_typed (op2 i) \<and> operand_typed (op3 i)"
  using assms
proof (cases rule: get_instruction_cases [of bs mode])
  case (ok row index flags instr j)
  with assms have dec: "decode_row bs mode row (index + 1) flags instr = Inr i" by simp
  have "low_reg (flags1 row)" "low_reg (flags2 row)" "low_reg (flags3 row)"
    "inst_modrm row \<or> \<not> am_gen (MASK_AM (flags1 row))" "inst_modrm row \<or> \<not> am_gen (MASK_AM (flags2 row))"
    "inst_modrm row \<or> \<not> am_gen (MASK_AM (flags3 row))"
    using ok(3) by (auto simp: row_ok_def row_printable_def)
  then show ?thesis using dec ok(4) by - (rule decode_row_calls, auto dest: get_operand_typed)
qed simp_all

text \<open>\<open>mov word [ebx+esi*2+8], 0x1234\<close> with its size prefix.\<close>

lemma decoded_operands_typed_witness:
  "\<exists>i. get_instruction [0x66, 0xc7, 0x44, 0x73, 8, 0x34, 0x12] MODE_32 = Inr i \<and> operand_typed (op1 i)"
proof -
  let ?bs = "[0x66, 0xc7, 0x44, 0x73, 8, 0x34, 0x12] :: u8 list"
  have "get_instruction ?bs MODE_32 = Inr (projr (get_instruction ?bs MODE_32))" by code_simp
  from decoded_operands_typed [OF this] this show ?thesis by blast
qed

end
