(* ===== verification/Libdasm_Print.thy ===== *)
theory Libdasm_Print
  imports Libdasm_Format Libdasm_Types Static_Trace
begin

text \<open>
  What the printing routines guarantee: bounds for every part of the text, so that a buffer of 116 bytes is enough
  for every instruction the decoder returns, and the agreement of a printed branch with the target the
  static trace follows.
\<close>

subsection \<open>How long a text gets\<close>

text \<open>A printer that needs at most \<open>k\<close> more bytes: where they are there, it succeeds and appends.\<close>

definition within :: "nat \<Rightarrow> (nat \<Rightarrow> printer) \<Rightarrow> bool" where
  "within k p \<longleftrightarrow> (\<forall>n s. length s + k < n \<longrightarrow> (\<exists>t. p n s = Inr (s @ t) \<and> length t \<le> k))"

lemma withinD: "within k p \<Longrightarrow> length s + k < n \<Longrightarrow> \<exists>t. p n s = Inr (s @ t) \<and> length t \<le> k"
  by (auto simp: within_def)

lemma within_mono: "within j p \<Longrightarrow> j \<le> k \<Longrightarrow> within k p"
  unfolding within_def by (meson add_le_cancel_left le_less_trans le_trans)

lemma within_emit: "length t \<le> k \<Longrightarrow> within k (\<lambda>n. emit n t)"
  by (auto simp: within_def emit_def)

lemma within_emit_r: "r = Inr t \<Longrightarrow> length t \<le> k \<Longrightarrow> within k (\<lambda>n. emit_r n r)"
  by (auto simp: within_def emit_def emit_r_def)

lemma within_no_print: "within k (\<lambda>n. no_print)"
  by (auto simp: within_def no_print_def)

lemma within_if:
  "(c \<Longrightarrow> within k p) \<Longrightarrow> (\<not> c \<Longrightarrow> within k q) \<Longrightarrow> within k (\<lambda>n. if c then p n else q n)"
  by (cases c) simp_all

lemma within_then:
  assumes "within a p" and "within b q" and "a + b \<le> k"
  shows "within k (\<lambda>n s. bind_r (p n s) (q n))"
  unfolding within_def
proof (intro allI impI)
  fix n and s :: string
  assume n: "length s + k < n"
  with withinD [OF assms(1), of s n] assms(3) obtain t
    where t: "p n s = Inr (s @ t)" "length t \<le> a" by auto
  with withinD [OF assms(2), of "s @ t" n] n assms(3) obtain u
    where "q n (s @ t) = Inr ((s @ t) @ u)" "length u \<le> b" by auto
  with t assms(3) show "\<exists>t. bind_r (p n s) (q n) = Inr (s @ t) \<and> length t \<le> k"
    by (intro exI [of _ "t @ u"]) simp
qed

lemma within_Nil: "within k (\<lambda>n. prints [])"
  by (auto simp: within_def)

lemma within_Cons:
  assumes "within a p" and "within b (\<lambda>n. prints (ps n))" and "a + b \<le> k"
  shows "within k (\<lambda>n. prints (p n # ps n))"
proof -
  have "prints (p n # ps n) = (\<lambda>s. bind_r (p n s) (prints (ps n)))" for n by (rule ext) simp
  with within_then [OF assms] show ?thesis by simp
qed

lemma prints_append: "prints (xs @ ys) = (\<lambda>s. bind_r (prints xs s) (prints ys))"
proof
  show "prints (xs @ ys) s = bind_r (prints xs s) (prints ys)" for s
    by (induction xs arbitrary: s) (simp_all add: bind_r_def split: sum.splits)
qed

lemma within_append:
  assumes "within a (\<lambda>n. prints (ps n))" and "within b (\<lambda>n. prints (qs n))" and "a + b \<le> k"
  shows "within k (\<lambda>n. prints (ps n @ qs n))"
  using within_then [OF assms] by (simp add: prints_append)

subsection \<open>Names that exist\<close>

lemma reg_table_shape:
  "t < 11 \<Longrightarrow> r < 8 \<Longrightarrow> t < length reg_table \<and> r < length (reg_table ! t) \<and> length (reg_table ! t ! r) \<le> 5"
  by (auto simp: reg_table_def numeral_eq_Suc less_Suc_eq)

lemma reg_table_short:
  "t \<le> 1 \<Longrightarrow> r < 8 \<Longrightarrow> length (reg_table ! t ! r) \<le> 3"
  "r < 8 \<Longrightarrow> length (reg_table ! LIBDASM_REG_SEGMENT ! r) \<le> 2"
  by (auto simp: reg_table_def name_index_defs numeral_eq_Suc less_Suc_eq le_Suc_eq)

lemma reg_nameI:
  assumes "t < 11" "r < 8"
  obtains u where "reg_name t r = Inr u" "length u \<le> 5" "t \<le> 1 \<Longrightarrow> length u \<le> 3"
    "t = LIBDASM_REG_SEGMENT \<Longrightarrow> length u \<le> 2"
  using reg_table_shape [OF assms] reg_table_short(1) [of t r] reg_table_short(2) [of r] assms
  by (simp add: reg_name_def)

lemma rep_nameI:
  assumes "r < 3"
  obtains u where "rep_name r = Inr u" "length u \<le> 6"
proof -
  have "length (rep_table ! r) \<le> 6" using assms
    by (auto simp: rep_table_def numeral_eq_Suc less_Suc_eq)
  then show thesis using assms by (intro that) (auto simp: rep_name_def rep_table_def)
qed

lemma length_fmt_x: "length (fmt_x w) \<le> 8"
proof -
  have "unat w < 16 ^ 8" using unsigned_less [of w] by simp
  from length_base_str [OF _ this, of digit] show ?thesis by (simp add: fmt_x_def)
qed

lemma length_fmt_x16: "length (fmt_x (ucast (w :: u16))) \<le> 4"
proof -
  have "unat w < 65536" using unsigned_less [of w] by simp
  then have "unat (ucast w :: u32) < 16 ^ 4" by (simp add: unsigned_ucast_eq take_bit_nat_eq_self)
  from length_base_str [OF _ this, of digit] show ?thesis by (simp add: fmt_x_def)
qed

lemma addr_regI:
  assumes "r < 8"
  obtains u where "addr_reg inst r = Inr u" "length u \<le> 3"
proof -
  define t :: nat where "t = (if MODE_CHECK_ADDR (imode inst) (iflags inst) = MODE_32 then 0 else 1)"
  have "addr_reg inst r = reg_name t r" by (simp add: addr_reg_def t_def name_index_defs)
  moreover have "t < 11" "t \<le> 1" by (simp_all add: t_def)
  ultimately show thesis by (metis reg_nameI [of t r] assms that)
qed

lemma operand_regtype_less: "operand_regtype f < 11"
  by (simp add: operand_regtype_def Let_def name_index_defs)

subsection \<open>Every part of the text is bounded\<close>

lemma within_register:
  assumes "reg op < 8"
  shows "within 6 (\<lambda>n. print_register inst op format n)"
proof -
  have name: "within 5 (\<lambda>n. emit_r n (reg_name t (reg op)))" if "t < 11" for t
    by (rule reg_nameI [OF that assms]) (auto intro: within_emit_r)
  show ?thesis
    unfolding print_register_def Let_def
    by (rule within_Cons [of 1 _ 5], intro within_if within_emit within_no_print, simp,
        rule within_Cons [of 5 _ 0], intro within_if within_no_print name)
      (auto simp: name_index_defs within_Nil operand_regtype_less intro: name)
qed

text \<open>What a printer relies on: register numbers with a name, and a displacement whose size is that of
  the operand it belongs to.\<close>

definition sized_disp :: "INSTRUCTION \<Rightarrow> OPERAND \<Rightarrow> bool" where
  "sized_disp inst op \<longleftrightarrow> dispbytes inst = 0 \<or> 1 \<le> op_dispbytes op \<and> op_dispbytes op \<le> 4"

definition shown_operand :: "INSTRUCTION \<Rightarrow> OPERAND \<Rightarrow> bool" where
  "shown_operand inst op \<longleftrightarrow>
     (op_type op = OPERAND_TYPE_LIBDASM_REGISTER \<longrightarrow> reg op < 8) \<and>
     (op_type op = OPERAND_TYPE_MEMORY \<longrightarrow> basereg op \<le> 8 \<and> indexreg op \<le> 8 \<and> sized_disp inst op)"

definition shown_flags :: "u32 \<Rightarrow> bool" where
  "shown_flags f \<longleftrightarrow> unat (MASK_PREFIX_G1 f) \<le> 3 \<and> unat (MASK_PREFIX_G2 f) \<le> 6"

lemma after_Inr: "r = Inr u \<Longrightarrow> after t r = Inr (t @ u)"
  by (simp add: after_def)

lemma within_name:
  assumes "r < 8" and "length t + 3 \<le> k"
  shows "within k (\<lambda>n. emit_r n (after t (addr_reg inst r)))"
  by (rule addr_regI [OF assms(1), of inst]) (rule within_emit_r [OF after_Inr], use assms(2) in auto)

lemma within_segment:
  assumes "shown_flags (iflags inst)"
  shows "within (if format = FORMAT_ATT then 4 else 3) (\<lambda>n. print_segment inst format n)"
proof (cases "MASK_PREFIX_G2 (iflags inst) = 0")
  case False
  from assms have "unat (MASK_PREFIX_G2 (iflags inst)) - 1 < 8" by (auto simp: shown_flags_def)
  from reg_nameI [OF _ this, of LIBDASM_REG_SEGMENT] obtain u
    where "reg_name LIBDASM_REG_SEGMENT (unat (MASK_PREFIX_G2 (iflags inst)) - 1) = Inr u" "length u \<le> 2"
    by (auto simp: name_index_defs)
  then show ?thesis
    using False by (cases format) (auto simp: print_segment_def Let_def after_def intro!: within_emit_r)
qed (simp add: print_segment_def within_no_print)

lemma within_base:
  assumes "basereg op \<le> 8"
  shows "within 4 (\<lambda>n. print_base inst op format n)"
  unfolding print_base_def
  by (intro within_if within_no_print within_name)
    (use assms in \<open>auto simp: LIBDASM_REGISTER_NOP_def\<close>)

lemma within_scale: "within 2 (\<lambda>n. print_scale op format n)"
  unfolding print_scale_def by (intro within_if within_emit within_no_print) simp_all

lemma within_index:
  assumes "indexreg op \<le> 8"
  shows "within 7 (\<lambda>n. print_index inst op format n)"
proof (cases "indexreg op = LIBDASM_REGISTER_NOP")
  case False
  with assms have "indexreg op < 8" by (simp add: LIBDASM_REGISTER_NOP_def)
  then have "within 5 (\<lambda>n. if basereg op \<noteq> LIBDASM_REGISTER_NOP
      then emit_r n (after (if format = FORMAT_ATT then '',%'' else ''+'') (addr_reg inst (indexreg op)))
      else emit_r n (after (if format = FORMAT_ATT then ''%'' else []) (addr_reg inst (indexreg op))))"
    by (intro within_if within_name) simp_all
  from within_Cons [OF this within_Cons [OF within_scale within_Nil [of 0]], of 2 7] False
  show ?thesis by (simp add: print_index_def)
qed (simp add: print_index_def within_no_print)

lemma intel_dispI:
  assumes "sized_disp inst op" and "dispbytes inst \<noteq> 0"
  shows "\<exists>t. intel_disp op = Inr t \<and> length t \<le> 11"
proof -
  obtain neg where "disp_sign op = Inr neg" using assms by (auto simp: disp_sign_def sized_disp_def)
  moreover have "length (fmt_x w) \<le> 8" "length (fmt_x w) \<le> 9" for w using length_fmt_x [of w] by simp_all
  ultimately show ?thesis by (auto simp: intel_disp_def)
qed

lemma within_disp:
  assumes "sized_disp inst op"
  shows "within 11 (\<lambda>n. if dispbytes inst \<noteq> 0 \<and> format \<noteq> FORMAT_ATT then emit_r n (intel_disp op) else no_print)"
proof (rule within_if)
  assume "dispbytes inst \<noteq> 0 \<and> format \<noteq> FORMAT_ATT"
  then obtain t where "intel_disp op = Inr t" "length t \<le> 11" using intel_dispI [OF assms] by blast
  then show "within 11 (\<lambda>n. emit_r n (intel_disp op))" by (rule within_emit_r)
qed (rule within_no_print)

lemma within_memory:
  assumes flags: "shown_flags (iflags inst)"
    and op: "basereg op \<le> 8" "indexreg op \<le> 8" "sized_disp inst op"
  shows "within 28 (\<lambda>n. print_memory inst op format n)"
proof -
  let ?att = "format = FORMAT_ATT"
  have hex: "length (''0x'' @ fmt_x (displacement op)) \<le> 10" using length_fmt_x [of "displacement op"] by simp
  have front: "within (if ?att then 15 else 3) (\<lambda>n. prints
     [print_segment inst format n,
      if ?att \<and> MASK_PERMS (op_flags op) = P_x then emit n ''*'' else no_print,
      if ?att \<and> op_dispbytes op \<noteq> 0 then emit n (''0x'' @ fmt_x (displacement op)) else no_print])"
  proof (cases ?att)
    case True
    have "within 1 (\<lambda>n. if ?att \<and> MASK_PERMS (op_flags op) = P_x then emit n ''*'' else no_print)"
      by (intro within_if within_emit within_no_print) simp
    moreover have "within 10 (\<lambda>n. if ?att \<and> op_dispbytes op \<noteq> 0
        then emit n (''0x'' @ fmt_x (displacement op)) else no_print)"
      by (intro within_if within_emit within_no_print hex)
    moreover note within_segment [OF flags, of format]
    ultimately show ?thesis using True
      by (intro within_Cons [of 4 _ 11] within_Cons [of 1 _ 10] within_Cons [of 10 _ 0] within_Nil) simp_all
  next
    case False
    with within_segment [OF flags, of format] show ?thesis
      by (intro within_Cons [of 3 _ 0] within_Cons [of 0 _ 0] within_Nil) (simp_all add: within_no_print)
  qed
  have disp: "within (if ?att then 0 else 11) (\<lambda>n. if dispbytes inst \<noteq> 0 \<and> \<not> ?att
      then emit_r n (intel_disp op) else no_print)"
    using within_disp [OF op(3), of format] by (cases format) (simp_all add: within_no_print)
  have open_b: "within 1 (\<lambda>n. emit n (if ?att then ''('' else ''[''))"
    and close_b: "within 1 (\<lambda>n. emit n (if ?att then '')'' else '']''))"
    by (rule within_emit, simp)+
  have behind: "within (if ?att then 13 else 24) (\<lambda>n. prints
     [emit n (if ?att then ''('' else ''[''), print_base inst op format n, print_index inst op format n,
      if dispbytes inst \<noteq> 0 \<and> \<not> ?att then emit_r n (intel_disp op) else no_print,
      emit n (if ?att then '')'' else '']'')])"
    by (rule within_Cons [OF open_b within_Cons [OF within_base [OF op(1)] within_Cons [OF within_index [OF op(2)]
         within_Cons [OF disp within_Cons [OF close_b within_Nil [of 0]]]]]]) (rule order_refl | simp)+
  have "within 28 (\<lambda>n. prints ([print_segment inst format n,
      if ?att \<and> MASK_PERMS (op_flags op) = P_x then emit n ''*'' else no_print,
      if ?att \<and> op_dispbytes op \<noteq> 0 then emit n (''0x'' @ fmt_x (displacement op)) else no_print] @
     (if c then [] else [emit n (if ?att then ''('' else ''[''), print_base inst op format n,
        print_index inst op format n,
        if dispbytes inst \<noteq> 0 \<and> \<not> ?att then emit_r n (intel_disp op) else no_print,
        emit n (if ?att then '')'' else '']'')])))" for c
    by (cases c) (simp_all only: if_True if_False, rule within_append [OF front within_Nil [of 0]], simp,
        rule within_append [OF front behind], simp)
  then show ?thesis unfolding print_memory_def .
qed

lemma within_immediate: "within 28 (\<lambda>n. print_immediate inst op format offset n)"
proof -
  have hex: "length (''0x'' @ fmt_x w) \<le> 10" for w using length_fmt_x [of w] by simp
  have "within 11 (\<lambda>n. prints [if format = FORMAT_ATT then emit n ''$'' else no_print,
      emit n (''0x'' @ fmt_x (immediate op))])"
    by (intro within_Cons [of 1 _ 10] within_Cons [of 10 _ 0] within_if within_emit within_no_print
        within_Nil hex) simp_all
  moreover have "length (d @ ''0x'' @ fmt_x (ucast (section_val op)) @ '':'' @ d @ ''0x'' @ fmt_x (displacement op)) \<le> 28"
    if "length d \<le> 1" for d
    using that length_fmt_x16 [of "section_val op"] length_fmt_x [of "displacement op"] by simp
  ultimately show ?thesis
    unfolding print_immediate_def Let_def
    by (intro within_if within_emit within_no_print order_trans [OF hex]) (auto elim: within_mono)
qed

lemma within_operand:
  assumes flags: "shown_flags (iflags inst)" and op: "shown_operand inst op"
  shows "within 28 (\<lambda>n. print_operand inst op format offset n)"
  unfolding within_def
proof (intro allI impI)
  fix n and s :: string
  assume n: "length s + 28 < n"
  have inner: "\<exists>t. p (n - length s) [] = Inr t \<and> length t \<le> 28" if "within 28 p" for p
    using withinD [OF that, of "[]" "n - length s"] n by simp
  have "\<exists>r t. get_operand_string inst op format offset (n - length s) = Inr (r, t) \<and> length t \<le> 28"
  proof (cases "op_type op")
    case OPERAND_TYPE_MEMORY
    with op inner [OF within_memory [OF flags, of op format]] show ?thesis
      by (auto simp: shown_operand_def get_operand_string_def)
  next
    case OPERAND_TYPE_LIBDASM_REGISTER
    with op inner [OF within_mono [OF within_register], of op inst format] show ?thesis
      by (auto simp: shown_operand_def get_operand_string_def)
  next
    case OPERAND_TYPE_IMMEDIATE
    with inner [OF within_immediate, of inst op format offset] show ?thesis
      by (auto simp: get_operand_string_def)
  qed (simp add: get_operand_string_def)
  then show "\<exists>t. print_operand inst op format offset n s = Inr (s @ t) \<and> length t \<le> 28"
    by (auto simp: print_operand_def)
qed

definition shown_instruction :: "INSTRUCTION \<Rightarrow> bool" where
  "shown_instruction inst \<longleftrightarrow>
     shown_flags (iflags inst) \<and> shown_operand inst (op1 inst) \<and> shown_operand inst (op2 inst) \<and>
     shown_operand inst (op3 inst) \<and>
     (\<exists>row m. ptr inst = Some row \<and> mnemonic row = Some m \<and> length m \<le> 10)"

lemma within_operands:
  assumes "shown_instruction inst"
  shows "\<forall>n > 86. \<exists>t. get_operands_string inst format offset n [] = Inr (1, t) \<and> length t \<le> 86"
proof -
  have op: "within 28 (\<lambda>n. print_operand inst x format offset n)"
    if "x = op1 inst \<or> x = op2 inst \<or> x = op3 inst" for x
    using assms that by (auto simp: shown_instruction_def intro: within_operand)
  have comma: "within 1 (\<lambda>n. emit n '','')" by (rule within_emit) simp
  have one: "within 28 (\<lambda>n. prints (if c then [print_operand inst x format offset n] else []))"
    if "x = op1 inst \<or> x = op2 inst \<or> x = op3 inst" for x c
    by (cases c) (simp_all only: if_True if_False within_Nil,
      rule within_Cons [OF op [OF that] within_Nil [of 0]], simp)
  have before: "within 29 (\<lambda>n. prints (if c then [print_operand inst x format offset n, emit n '',''] else []))"
    if "x = op1 inst \<or> x = op2 inst \<or> x = op3 inst" for x c
    by (cases c) (simp_all only: if_True if_False within_Nil,
      rule within_Cons [OF op [OF that] within_Cons [OF comma within_Nil [of 0]]], (rule order_refl | simp)+)
  have behind: "within 29 (\<lambda>n. prints (if c then [emit n '','', print_operand inst x format offset n] else []))"
    if "x = op1 inst \<or> x = op2 inst \<or> x = op3 inst" for x c
    by (cases c) (simp_all only: if_True if_False within_Nil,
      rule within_Cons [OF comma within_Cons [OF op [OF that] within_Nil [of 0]]], (rule order_refl | simp)+)
  let ?c = "\<lambda>op. op_type op \<noteq> OPERAND_TYPE_NONE"
  let ?o = "\<lambda>x n. print_operand inst x format offset n"
  have att: "within 86 (\<lambda>n. prints ((if ?c (op3 inst) then [?o (op3 inst) n, emit n '',''] else []) @
      (if ?c (op2 inst) then [?o (op2 inst) n, emit n '',''] else []) @
      (if ?c (op1 inst) then [?o (op1 inst) n] else [])))"
    by (rule within_append [OF before within_append [OF before one]]) (rule order_refl | simp)+
  have intel: "within 86 (\<lambda>n. prints ((if ?c (op1 inst) then [?o (op1 inst) n] else []) @
      (if ?c (op2 inst) then [emit n '','', ?o (op2 inst) n] else []) @
      (if ?c (op3 inst) then [emit n '','', ?o (op3 inst) n] else [])))"
    by (rule within_append [OF one within_append [OF behind behind]]) (rule order_refl | simp)+
  show ?thesis
  proof (intro allI impI)
    fix n :: nat
    assume "86 < n"
    with withinD [OF att, of "[]" n] withinD [OF intel, of "[]" n]
    show "\<exists>t. get_operands_string inst format offset n [] = Inr (1, t) \<and> length t \<le> 86"
      by (cases format) (auto simp: get_operands_string_def)
  qed
qed

lemma within_prefixes:
  assumes flags: "shown_flags (iflags inst)"
  shows "within 12 (\<lambda>n. print_prefixes inst n)"
proof -
  let ?g1 = "MASK_PREFIX_G1 (iflags inst)" and ?g2 = "MASK_PREFIX_G2 (iflags inst)"
  have name: "within 6 (\<lambda>n. emit_r n (bind_r (reg_name t (unat ?g2 - 1)) (\<lambda>t. Inr (t @ '' ''))))"
    if "t < 11" for t
  proof -
    have "unat ?g2 - 1 < 8" using flags unfolding shown_flags_def by linarith
    from reg_nameI [OF that this] obtain u
      where "reg_name t (unat ?g2 - 1) = Inr u" "length u \<le> 5" by blast
    then show ?thesis by (intro within_emit_r [of _ "u @ '' ''"]) simp_all
  qed
  have rep: "within 6 (\<lambda>n. emit_r n (rep_name (unat ?g1 - 1)))"
  proof -
    have "unat ?g1 - 1 < 3" using flags unfolding shown_flags_def by linarith
    from rep_nameI [OF this] obtain u where "rep_name (unat ?g1 - 1) = Inr u" "length u \<le> 6" by blast
    then show ?thesis by (rule within_emit_r)
  qed
  show ?thesis
    unfolding print_prefixes_def Let_def
    by (intro within_Cons [of 6 _ 6] within_Cons [of 6 _ 0] within_Nil within_if name rep within_no_print)
      (simp_all add: name_index_defs)
qed

lemma within_size:
  assumes "ptr inst = Some row"
  shows "within 6 (\<lambda>n. print_size inst format n)"
proof -
  have sizes: "within 6 (\<lambda>n. print_byte format n)" "within 6 (\<lambda>n. print_word format n)"
      "within 6 (\<lambda>n. print_dword format n)"
    by (simp_all add: print_byte_def print_word_def print_dword_def within_emit)
  have row: "with_row inst p = p row" for p
    using assms by (auto simp: row_of_def with_row_def)
  have osize: "within 6 (\<lambda>n. print_operand_size inst format n)"
    unfolding print_operand_size_def by (intro within_if sizes)
  show ?thesis
    unfolding print_size_def Let_def row
    by (intro within_if sizes osize within_no_print)
qed

lemma within_mnemonic_string:
  assumes "shown_instruction inst"
  shows "\<forall>n > 28. \<exists>t. get_mnemonic_string inst format n = Inr (1, t) \<and> length t \<le> 28"
proof -
  from assms obtain row m where row: "ptr inst = Some row" "mnemonic row = Some m" "length m \<le> 10"
    and flags: "shown_flags (iflags inst)" by (auto simp: shown_instruction_def)
  have "mnemonic_of inst = Inr m" using row by (simp add: mnemonic_of_def row_of_def)
  then have "within 10 (\<lambda>n. print_mnemonic inst n)"
    unfolding print_mnemonic_def using row by (intro within_if within_emit within_emit_r) auto
  from within_Cons [OF within_prefixes [OF flags] within_Cons [OF this
        within_Cons [OF within_size [OF row(1)] within_Nil [of 0]]], of 6 16 28 format]
  have "within 28 (\<lambda>n. prints [print_prefixes inst n, print_mnemonic inst n, print_size inst format n])"
    by simp
  then show ?thesis
    by (intro allI impI) (drule withinD [where s = "[]"], simp, auto simp: get_mnemonic_string_def simp del: prints.simps)
qed

lemma shown_instruction_prints:
  assumes "shown_instruction inst" and "115 < n"
  shows "\<exists>t. get_instruction_string inst format offset n = Inr (1, t) \<and> length t \<le> 115"
proof -
  have "28 < n" using assms(2) by simp
  with within_mnemonic_string [OF assms(1)] obtain m
    where m: "get_mnemonic_string inst format n = Inr (1, m)" "length m \<le> 28" by blast
  then have "86 < n - (length m + 1)" using assms(2) by simp
  with within_operands [OF assms(1)] obtain t
    where "get_operands_string inst format offset (n - (length m + 1)) [] = Inr (1, t)" "length t \<le> 86" by blast
  with m assms(2) show ?thesis by (simp add: get_instruction_string_def emit_def)
qed

subsection \<open>What the decoder returns can be shown\<close>

named_theorems prefix_simps \<open>the prefix fields of an instruction's flags\<close>

lemma MASK_G_OR [prefix_simps]:
  "MASK_PREFIX_G1 (x OR y) = MASK_PREFIX_G1 x OR MASK_PREFIX_G1 y"
  "MASK_PREFIX_G2 (x OR y) = MASK_PREFIX_G2 x OR MASK_PREFIX_G2 y"
  by (simp_all add: MASK_PREFIX_G1_def MASK_PREFIX_G2_def and.commute [of _ "0xff000000"]
      and.commute [of _ "0x00ff0000"] bit.conj_disj_distrib)

lemma MASK_G_AND [prefix_simps]:
  "MASK_PREFIX_G1 (x AND 0xff00ffff) = MASK_PREFIX_G1 x" "MASK_PREFIX_G2 (x AND 0xff00ffff) = 0"
  "MASK_PREFIX_G1 (x AND 0x00ffffff) = 0" "MASK_PREFIX_G2 (x AND 0x00ffffff) = MASK_PREFIX_G2 x"
  "MASK_PREFIX_G1 (x AND 0xffffff00) = MASK_PREFIX_G1 x" "MASK_PREFIX_G2 (x AND 0xffffff00) = MASK_PREFIX_G2 x"
  by (simp_all add: MASK_PREFIX_G1_def MASK_PREFIX_G2_def and.assoc)

lemma MASK_G_prefix [prefix_simps]:
  "MASK_PREFIX_G1 PREFIX_CS_OVERRIDE = 0" "MASK_PREFIX_G2 PREFIX_CS_OVERRIDE = 2"
  "MASK_PREFIX_G1 PREFIX_SS_OVERRIDE = 0" "MASK_PREFIX_G2 PREFIX_SS_OVERRIDE = 3"
  "MASK_PREFIX_G1 PREFIX_DS_OVERRIDE = 0" "MASK_PREFIX_G2 PREFIX_DS_OVERRIDE = 4"
  "MASK_PREFIX_G1 PREFIX_ES_OVERRIDE = 0" "MASK_PREFIX_G2 PREFIX_ES_OVERRIDE = 1"
  "MASK_PREFIX_G1 PREFIX_FS_OVERRIDE = 0" "MASK_PREFIX_G2 PREFIX_FS_OVERRIDE = 5"
  "MASK_PREFIX_G1 PREFIX_GS_OVERRIDE = 0" "MASK_PREFIX_G2 PREFIX_GS_OVERRIDE = 6"
  "MASK_PREFIX_G1 PREFIX_OPERAND_SIZE_OVERRIDE = 0" "MASK_PREFIX_G2 PREFIX_OPERAND_SIZE_OVERRIDE = 0"
  "MASK_PREFIX_G1 PREFIX_ADDR_SIZE_OVERRIDE = 0" "MASK_PREFIX_G2 PREFIX_ADDR_SIZE_OVERRIDE = 0"
  "MASK_PREFIX_G1 PREFIX_LOCK = 1" "MASK_PREFIX_G2 PREFIX_LOCK = 0"
  "MASK_PREFIX_G1 PREFIX_REPNE = 2" "MASK_PREFIX_G2 PREFIX_REPNE = 0"
  "MASK_PREFIX_G1 PREFIX_REP = 3" "MASK_PREFIX_G2 PREFIX_REP = 0"
  by (simp_all add: MASK_PREFIX_G1_def MASK_PREFIX_G2_def libdasm_consts)

lemma MASK_G_extension:
  "MASK_PREFIX_G1 (snd (opcode_extension b)) = 0 \<and> MASK_PREFIX_G2 (snd (opcode_extension b)) = 0"
  by (simp add: opcode_extension_def MASK_PREFIX_G1_def MASK_PREFIX_G2_def libdasm_consts)

lemma MASK_G_get_real_instruction2:
  "MASK_PREFIX_G1 (get_real_instruction2 b f) = MASK_PREFIX_G1 f"
  "MASK_PREFIX_G2 (get_real_instruction2 b f) = MASK_PREFIX_G2 f"
proof -
  have "MASK_PREFIX_G1 e = 0 \<and> MASK_PREFIX_G2 e = 0"
    if "e \<in> {EXT_G6, EXT_G7, EXT_G8, EXT_G9, EXT_GC, EXT_GD, EXT_GE, EXT_GF}" for e
    using that by (auto simp: MASK_PREFIX_G1_def MASK_PREFIX_G2_def libdasm_consts)
  then show "MASK_PREFIX_G1 (get_real_instruction2 b f) = MASK_PREFIX_G1 f"
    "MASK_PREFIX_G2 (get_real_instruction2 b f) = MASK_PREFIX_G2 f"
    by (simp_all add: get_real_instruction2_def prefix_simps)
qed

lemma prefix_flags_shown: "prefix_flags b f = Some f' \<Longrightarrow> shown_flags f \<Longrightarrow> shown_flags f'"
  by (auto simp: prefix_flags_def shown_flags_def prefix_simps split: if_splits)

lemma get_real_instruction_shown:
  "get_real_instruction bs i f = Inr (j, f') \<Longrightarrow> shown_flags f \<Longrightarrow> shown_flags f'"
proof (induction bs i f rule: get_real_instruction.induct)
  case (2 b bs index flags)
  show ?case
  proof (cases "prefix_flags b flags")
    case None
    with 2 MASK_G_extension [of b] show ?thesis by (auto simp: shown_flags_def prefix_simps)
  next
    case (Some fl)
    with 2 show ?thesis by (auto dest: prefix_flags_shown)
  qed
qed simp

lemma select_table_shown:
  assumes "select_table bs i f instr = Inr (p, i', f', instr')" and "shown_flags f"
  shows "shown_flags f'"
  using assms
  by (auto simp: select_table_def Let_def bind_r_eq_Inr shown_flags_def MASK_G_get_real_instruction2
      split: if_split_asm)

lemma decode_row_flags: "decode_row bs mode row index flags instr = Inr i \<Longrightarrow> iflags i = flags"
  by (auto simp: decode_row_def Let_def bind_r_eq_Inr split: if_split_asm)

lemma decoded_flags_shown:
  assumes "get_instruction bs mode = Inr i"
  shows "shown_flags (iflags i)"
proof -
  from assms obtain index flags p index2 flags2 instr row index3 flags3 instr3 where
    "get_real_instruction bs 0 0 = Inr (index, flags)"
    "select_table bs index flags zero_INSTRUCTION = Inr (p, index2, flags2, instr)"
    "select_extension bs (p, index2, flags2, instr) = Inr (Some row, index3, flags3, instr3)"
    "decode_row bs mode row (index3 + 1) flags3 instr3 = Inr i"
    by (auto simp: get_instruction_def bind_r_eq_Inr split: option.splits)
  moreover from this have "flags3 = flags2"
    by (auto simp: select_extension_def bind_r_eq_Inr split: if_split_asm)
  moreover have "shown_flags 0" by (simp add: shown_flags_def MASK_PREFIX_G1_def MASK_PREFIX_G2_def)
  ultimately show ?thesis
    by (auto dest!: get_real_instruction_shown select_table_shown decode_row_flags)
qed

lemma decoded_operands_shown:
  assumes o1: "decoded_operand (flags1 row) 0 d1 (op1 i)" and o2: "decoded_operand (flags2 row) d1 d2 (op2 i)"
    and o3: "decoded_operand (flags3 row) d2 (dispbytes i) (op3 i)" and ok: "row_printable row"
  shows "shown_operand i (op1 i) \<and> shown_operand i (op2 i) \<and> shown_operand i (op3 i)"
proof -
  have moved: "moves_disp (flags1 row) \<Longrightarrow> dispbytes i = d1" "moves_disp (flags2 row) \<Longrightarrow> dispbytes i = d2"
    "am_ind (MASK_AM (flags1 row)) \<or> am_ind (MASK_AM (flags2 row)) \<or> am_ind (MASK_AM (flags3 row)) \<Longrightarrow> dispbytes i = 0"
    using ok o1 o2 o3 by (auto simp: row_printable_def decoded_operand_def)
  have shown: "shown_operand i op" if "decoded_operand f d d' op" "moves_disp f \<Longrightarrow> dispbytes i = d'"
    "am_ind (MASK_AM f) \<Longrightarrow> dispbytes i = 0" for f d d' op
    using that by (auto simp: decoded_operand_def shown_operand_def sized_disp_def)
  show ?thesis
    using moved by (intro conjI shown [OF o1] shown [OF o2] shown [OF o3]) auto
qed

lemma decoded_is_shown:
  assumes "get_instruction bs mode = Inr i"
  shows "shown_instruction i"
  using assms
proof (cases rule: get_instruction_cases [of bs mode])
  case (ok row index flags instr j)
  with assms have dec: "decode_row bs mode row (index + 1) flags instr = Inr i" by simp
  have print: "row_printable row" using ok(3) by (simp add: row_ok_def)
  from ok have "index + 1 \<le> length bs" by simp
  from decode_row_Inr [OF dec ok(3) this ok(4)] obtain m where "ptr i = Some row" "mnemonic row = Some m" by auto
  moreover have "length m \<le> 10"
    using print \<open>mnemonic row = Some m\<close> by (simp add: row_printable_def short_mnemonic_def)
  moreover obtain d1 d2 where "decoded_operand (flags1 row) 0 d1 (op1 i)"
      "decoded_operand (flags2 row) d1 d2 (op2 i)" "decoded_operand (flags3 row) d2 (dispbytes i) (op3 i)"
    by (rule decode_row_operands [OF dec ok(4) print])
  note decoded_operands_shown [OF this print]
  ultimately show ?thesis using decoded_flags_shown [OF assms] by (simp add: shown_instruction_def)
qed simp_all

subsection \<open>Every decoded instruction can be printed\<close>

text \<open>C10. Every instruction the decoder returns can be printed, in both formats: with a buffer of 116 bytes
  no \<open>sprintf_s\<close> runs out of room, no register or prefix name is read outside its table, no shift is
  undefined, and the text has at most 115 characters.\<close>

theorem decoded_instructions_print:
  assumes "get_instruction bs mode = Inr i" and "116 \<le> n"
  shows "\<exists>t. get_instruction_string i format offset n = Inr (1, t) \<and> length t \<le> 115"
  using shown_instruction_prints [OF decoded_is_shown [OF assms(1)], of n format offset] assms(2) by simp

text \<open>For the witness, \<open>lock inc dword fs:[eax+ecx*4-2]\<close>.\<close>

lemma decoded_instructions_print_witness:
  "\<exists>i t. get_instruction [0xf0, 0x64, 0xff, 0x44, 0x88, 0xfe] MODE_32 = Inr i \<and>
     get_instruction_string i FORMAT_INTEL 0 116 = Inr (1, t)"
proof -
  let ?bs = "[0xf0, 0x64, 0xff, 0x44, 0x88, 0xfe] :: u8 list"
  have "get_instruction ?bs MODE_32 = Inr (projr (get_instruction ?bs MODE_32))" by code_simp
  from decoded_instructions_print [OF this, of 116 FORMAT_INTEL 0] this show ?thesis by auto
qed

subsection \<open>The target of a branch\<close>

lemma fmt_x_read [simp]: "read_base 16 (fmt_x w) = unat w"
  by (simp add: fmt_x_def read_base_base_str)

text \<open>C12. The text of a relative branch agrees with the static trace: printed with the address of the branch as
  the offset, in either format, the operand is \<open>0x\<close> and the hexadecimal digits of the very target that
  \<open>StaticTrace::process\<close> puts among the addresses the trace leads to.\<close>

theorem printed_branch_target:
  assumes "get_instruction bs mode = Inr i" and "direct_target va i = [target]"
    and "MASK_AM (op_flags (op1 i)) = AM_J" and "11 \<le> n"
  shows "\<exists>t. get_operand_string i (op1 i) format va n = Inr (1, ''0x'' @ t) \<and> read_base 16 t = unat target"
proof -
  have imm: "op_type (op1 i) = OPERAND_TYPE_IMMEDIATE" and t: "target = branch_target va i"
    using assms(2) by (simp_all add: direct_target_def split: if_split_asm)
  have "target = immediate (op1 i) + of_nat (ilength i) + va"
    using decoded_immediate_zero [OF assms(1)] t by (simp add: branch_target_def get_operand_immediate_def)
  then have "print_immediate i (op1 i) format va n [] = emit n (''0x'' @ fmt_x target) []"
    by (simp add: print_immediate_def assms(3))
  moreover have "length (fmt_x target) < n - 2" using length_fmt_x [of target] assms(4) by linarith
  ultimately show ?thesis
    by (simp add: get_operand_string_def imm emit_def less_diff_conv)
qed

lemma printed_branch_target_witness:
  "\<exists>i t. get_instruction [0x74, 0xfe] MODE_32 = Inr i \<and>
     get_operand_string i (op1 i) FORMAT_ATT 0x401000 11 = Inr (1, ''0x'' @ t) \<and> read_base 16 t = 0x401000"
proof -
  let ?i = "projr (get_instruction [0x74, 0xfe] MODE_32)"
  have "get_instruction [0x74, 0xfe] MODE_32 = Inr ?i" "direct_target 0x401000 ?i = [0x401000]"
    "MASK_AM (op_flags (op1 ?i)) = AM_J" by code_simp+
  from printed_branch_target [OF this, of 11 FORMAT_ATT] this(1) show ?thesis by auto
qed

end
