(* ===== verification/Libdasm_Address.thy ===== *)
theory Libdasm_Address
  imports Libdasm_Print
begin

text \<open>
  The meaning of a printed memory operand. A reader for the text between the brackets (names of registers, a factor,
  hexadecimal numbers, their sum) gives the address it stands for under given register contents; for every operand
  of a decoded instruction this is the address the decoded fields describe, modulo the address size. So the
  disassembly loses nothing of base, index, factor and signed displacement.
\<close>

subsection \<open>Reading an operand\<close>

definition gpr_names :: "string list" where
  "gpr_names = [''eax'', ''ecx'', ''edx'', ''ebx'', ''esp'', ''ebp'', ''esi'', ''edi'']"

text \<open>The value of the register a name stands for, of its low half for a 16-bit name.\<close>

definition register_value :: "(nat \<Rightarrow> u32) \<Rightarrow> string \<Rightarrow> u32 option" where
  "register_value regs name =
     (case map_of (zip gpr_names [0, 1, 2, 3, 4, 5, 6, 7]) name of
        Some r \<Rightarrow> Some (regs r)
      | None \<Rightarrow> map_option (\<lambda>r. take_bit 16 (regs r)) (map_of (zip (map tl gpr_names) [0, 1, 2, 3, 4, 5, 6, 7]) name))"

text \<open>A sum is split at its signs; \<open>True\<close> marks a term that is subtracted.\<close>

fun split_sum :: "bool \<Rightarrow> string \<Rightarrow> string \<Rightarrow> (bool \<times> string) list" where
  "split_sum neg acc [] = [(neg, acc)]"
| "split_sum neg acc (c # cs) =
     (if c = CHR ''+'' \<or> c = CHR ''-'' then (neg, acc) # split_sum (c = CHR ''-'') [] cs
      else split_sum neg (acc @ [c]) cs)"

definition read_term :: "(nat \<Rightarrow> u32) \<Rightarrow> string \<Rightarrow> u32 option" where
  "read_term regs t =
     (if t = [] then Some 0
      else if take 2 t = ''0x'' then Some (word_of_nat (read_base 16 (drop 2 t)))
      else let r = takeWhile (\<lambda>c. c \<noteq> CHR ''*'') t; k = drop (length r + 1) t in
        map_option (\<lambda>v. v * (if k = [] then 1 else word_of_nat (read_base 10 k))) (register_value regs r))"

fun read_sum :: "(nat \<Rightarrow> u32) \<Rightarrow> (bool \<times> string) list \<Rightarrow> u32 option" where
  "read_sum regs [] = Some 0"
| "read_sum regs ((neg, t) # ts) =
     (case (read_term regs t, read_sum regs ts) of
        (Some v, Some w) \<Rightarrow> Some ((if neg then - v else v) + w)
      | _ \<Rightarrow> None)"

definition read_address :: "(nat \<Rightarrow> u32) \<Rightarrow> string \<Rightarrow> u32 option" where
  "read_address regs s =
     read_sum regs (split_sum False [] (takeWhile (\<lambda>c. c \<noteq> CHR '']'') (tl (dropWhile (\<lambda>c. c \<noteq> CHR ''['') s))))"

text \<open>The address the fields of an operand describe, and the width it is computed in.\<close>

definition effective_address :: "(nat \<Rightarrow> u32) \<Rightarrow> OPERAND \<Rightarrow> u32" where
  "effective_address regs op =
     (if basereg op = LIBDASM_REGISTER_NOP then 0 else regs (basereg op)) +
     (if indexreg op = LIBDASM_REGISTER_NOP then 0 else regs (indexreg op) * of_nat (max 1 (op_scale op))) +
     displacement op"

definition address_bits :: "INSTRUCTION \<Rightarrow> nat" where
  "address_bits inst = (if MODE_CHECK_ADDR (imode inst) (iflags inst) = MODE_32 then 32 else 16)"


subsection \<open>The displacement of a decoded operand\<close>

definition has_register :: "OPERAND \<Rightarrow> bool" where
  "has_register op \<longleftrightarrow> basereg op \<noteq> LIBDASM_REGISTER_NOP \<or> indexreg op \<noteq> LIBDASM_REGISTER_NOP"

text \<open>Behind a register a displacement of one byte is sign-extended, one of two bytes occurs with
  16-bit addresses only, and where there is none the field is zero.\<close>

definition disp_decoded :: "u32 \<Rightarrow> Mode \<Rightarrow> OPERAND \<Rightarrow> bool" where
  "disp_decoded f am op \<longleftrightarrow> op_type op = OPERAND_TYPE_MEMORY \<longrightarrow>
     (am_ind (MASK_AM f) \<longrightarrow> op_dispbytes op = 0) \<and>
     (op_dispbytes op = 0 \<longrightarrow> displacement op = 0) \<and>
     (has_register op \<longrightarrow> (op_dispbytes op = 1 \<longrightarrow> (\<exists>b. displacement op = sign_extend8 b)) \<and>
        (op_dispbytes op = 2 \<longrightarrow> (\<exists>v :: u16. displacement op = ucast v) \<and> am = MODE_16))"

lemma parse_modrm_word_disp:
  assumes parse: "parse_modrm bs off am instr = Inr (mi, instr')" and two: "m_dispbytes mi = 2"
  shows "am = MODE_16"
proof (rule ccontr)
  assume "am \<noteq> MODE_16"
  then have am: "am = MODE_32" by (cases am) simp_all
  from parse obtain b where b: "FETCH8 bs off = Inr b" by (auto simp: parse_modrm_def bind_r_eq_Inr)
  have sib: "m_dispbytes m = 4 \<or> m_dispbytes m = modrm_dispbytes MODE_32 b"
    if "parse_sib bs off b j = Inr (m, j')" for j m j'
  proof -
    from that obtain s where "m_dispbytes m = (if MASK_SIB_BASE s = LIBDASM_REGISTER_EBP \<and> MASK_MODRM_MOD b = 0
        then 4 else modrm_dispbytes MODE_32 b)"
      unfolding parse_sib_def bind_r_eq_Inr Let_def by fastforce
    then show ?thesis by (simp split: if_split_asm)
  qed
  have "m_dispbytes mi = 4 \<or> m_dispbytes mi = modrm_dispbytes MODE_32 b"
    using parse b am by (auto simp: parse_modrm_def Let_def dest: sib split: if_split_asm)
  then show False using two by (simp add: modrm_dispbytes_def split: if_split_asm)
qed

lemma memory_operand_disp:
  assumes "memory_operand instr op bs off mi = Inr (opd, instr')" and "displacement op = 0"
    and "m_dispbytes mi = 2 \<Longrightarrow> am = MODE_16" and "am_mem (MASK_AM f)"
  shows "disp_decoded f am opd"
proof -
  have "\<not> am_ind (MASK_AM f)" using assms(4) by (auto simp: am_mem_def am_ind_def libdasm_consts)
  with assms show ?thesis
    by (auto simp: memory_operand_def Let_def bind_r_eq_Inr disp_decoded_def split: if_split_asm)
qed

lemma operand_switch_disp:
  assumes switch: "operand_switch row f instr op bs off mode fl mi = Inr (opd, instr')"
    and op: "op_type op = OPERAND_TYPE_NONE" "op_dispbytes op = 0" "displacement op = 0"
      "basereg op = LIBDASM_REGISTER_NOP" "indexreg op = LIBDASM_REGISTER_NOP"
    and mi: "m_dispbytes mi = 2 \<Longrightarrow> am = MODE_16"
  shows "disp_decoded f am opd"
proof -
  let ?am = "MASK_AM f"
  consider "am_mem ?am" | "?am = AM_O" | "?am = AM_A" | "?am = AM_I \<or> ?am = AM_J" | "?am = AM_IND"
    | "\<not> am_mem ?am \<and> ?am \<noteq> AM_O \<and> ?am \<noteq> AM_A \<and> ?am \<noteq> AM_I \<and> ?am \<noteq> AM_J \<and> ?am \<noteq> AM_IND"
    by blast
  then show ?thesis
  proof cases
    case 1
    with switch have "memory_operand instr op bs off mi = Inr (opd, instr')"
      by (auto simp: operand_switch_def Let_def bind_r_eq_Inr am_mem_def libdasm_consts split: if_split_asm)
    then show ?thesis using op(3) mi 1 by (rule memory_operand_disp)
  next
    case 2
    with switch have "offset_operand f instr op bs off mode = Inr (opd, instr')" and "\<not> am_ind ?am"
      by (simp_all add: operand_switch_def Let_def libdasm_consts am_ind_def)
    then show ?thesis using op
      by (auto simp: offset_operand_def bind_r_eq_Inr disp_decoded_def has_register_def split: if_split_asm)
  next
    case 3
    with switch have "far_operand instr op bs off mode fl = Inr (opd, instr')"
      by (simp add: operand_switch_def Let_def libdasm_consts)
    then show ?thesis by (auto simp: far_operand_def Let_def bind_r_eq_Inr disp_decoded_def)
  next
    case 4
    with switch obtain g where "immediate_operand row g instr op bs off mode fl mi = Inr (opd, instr')"
      by (auto simp: operand_switch_def Let_def libdasm_consts)
    then show ?thesis by (auto simp: immediate_operand_def Let_def bind_r_eq_Inr disp_decoded_def)
  next
    case 5
    with switch op show ?thesis
      by (auto simp: operand_switch_def Let_def libdasm_consts disp_decoded_def)
  next
    case 6
    with switch op show ?thesis
      by (auto simp: operand_switch_def Let_def am_mem_def disp_decoded_def split: if_split_asm)
  qed
qed

lemma get_operand_disp:
  assumes get: "get_operand row f instr zero_OPERAND bs off mode fl = Inr (opd, instr')"
  shows "disp_decoded f (MODE_CHECK_ADDR mode fl) opd"
proof (cases "f = FLAGS_NONE")
  case True
  with get show ?thesis by (auto simp: get_operand_def disp_decoded_def)
next
  case False
  with get obtain mi instr1 where
    parse: "(if inst_modrm row then parse_modrm bs off (MODE_CHECK_ADDR mode fl) instr
             else Inr (no_modrm, instr)) = Inr (mi, instr1)"
    and switch: "operand_switch row f instr1 (zero_OPERAND\<lparr>op_flags := f, reg := LIBDASM_REGISTER_NOP,
       basereg := LIBDASM_REGISTER_NOP, indexreg := LIBDASM_REGISTER_NOP, dispoffset := 0, immoffset := 0\<rparr>)
       bs off mode fl mi = Inr (opd, instr')"
    by (auto simp: get_operand_def bind_r_eq_Inr)
  have "MODE_CHECK_ADDR mode fl = MODE_16" if "m_dispbytes mi = 2"
    using parse that parse_modrm_word_disp by (auto simp: no_modrm_def split: if_split_asm)
  then show ?thesis by (intro operand_switch_disp [OF switch]) (simp_all add: zero_OPERAND_def)
qed

text \<open>What printing an address relies on.\<close>

definition addressed :: "INSTRUCTION \<Rightarrow> OPERAND \<Rightarrow> bool" where
  "addressed i op \<longleftrightarrow> basereg op \<le> 8 \<and> indexreg op \<le> 8 \<and> op_scale op \<in> {0, 2, 4, 8} \<and> op_dispbytes op \<in> {0, 1, 2, 4} \<and>
     op_dispbytes op = dispbytes i \<and> (op_dispbytes op = 0 \<longrightarrow> displacement op = 0) \<and>
     (has_register op \<longrightarrow> (op_dispbytes op = 1 \<longrightarrow> (\<exists>b. displacement op = sign_extend8 b)) \<and>
        (op_dispbytes op = 2 \<longrightarrow> (\<exists>v :: u16. displacement op = ucast v) \<and> address_bits i = 16))"

lemma decoded_operand_disp_moved:
  assumes o1: "decoded_operand (flags1 row) 0 d1 (op1 i)" and o2: "decoded_operand (flags2 row) d1 d2 (op2 i)"
    and o3: "decoded_operand (flags3 row) d2 (dispbytes i) (op3 i)" and ok: "row_printable row"
    and t: "op_type op = OPERAND_TYPE_MEMORY" and op: "(f, op) \<in> {(flags1 row, op1 i), (flags2 row, op2 i), (flags3 row, op3 i)}"
  shows "op_dispbytes op = dispbytes i \<or> am_ind (MASK_AM f) \<and> dispbytes i = 0"
  using assms by (auto simp: row_printable_def decoded_operand_def)

lemma decode_row_mode: "decode_row bs mode row index flags instr = Inr i \<Longrightarrow> imode i = mode"
  by (auto simp: decode_row_def Let_def bind_r_eq_Inr split: if_split_asm)

lemma decoded_addressed:
  assumes i: "get_instruction bs mode = Inr i" and op: "op \<in> {op1 i, op2 i, op3 i}"
    and mem: "op_type op = OPERAND_TYPE_MEMORY"
  shows "addressed i op"
  using i
proof (cases rule: get_instruction_cases [of bs mode])
  case (ok row index flags instr j)
  with i have dec: "decode_row bs mode row (index + 1) flags instr = Inr i" by simp
  have print: "row_printable row" using ok(3) by (simp add: row_ok_def)
  have "low_reg (flags1 row)" "low_reg (flags2 row)" "low_reg (flags3 row)"
    "inst_modrm row \<or> \<not> am_gen (MASK_AM (flags1 row))" "inst_modrm row \<or> \<not> am_gen (MASK_AM (flags2 row))"
    "inst_modrm row \<or> \<not> am_gen (MASK_AM (flags3 row))"
    using print by (auto simp: row_printable_def)
  then have typed: "operand_typed op"
    using op by - (rule decode_row_calls [OF dec ok(4)], auto dest: get_operand_typed)
  obtain f where f: "(f, op) \<in> {(flags1 row, op1 i), (flags2 row, op2 i), (flags3 row, op3 i)}" using op by blast
  then have disp: "disp_decoded f (MODE_CHECK_ADDR mode flags) op"
    by - (rule decode_row_calls [OF dec ok(4)], auto dest: get_operand_disp)
  have "op_dispbytes op = dispbytes i \<or> am_ind (MASK_AM f) \<and> dispbytes i = 0"
    by (rule decode_row_operands [OF dec ok(4) print], rule decoded_operand_disp_moved [OF _ _ _ print mem f])
  then show ?thesis
    using typed disp mem decode_row_flags [OF dec] decode_row_mode [OF dec]
    by (auto simp: addressed_def operand_typed_def disp_decoded_def address_bits_def)
qed simp_all

subsection \<open>Arithmetic modulo the address size\<close>

lemma take_bit_word_add: "take_bit 16 (take_bit 16 (a :: u32) + b) = take_bit 16 (a + b)"
  by (rule word_unat_eq_iff [THEN iffD2])
    (simp add: unsigned_take_bit_eq unat_word_ariths take_bit_eq_mod mod_mod_cancel mod_simps)

lemma take_bit_word_mult: "take_bit 16 (take_bit 16 (a :: u32) * b) = take_bit 16 (a * b)"
  by (rule word_unat_eq_iff [THEN iffD2])
    (simp add: unsigned_take_bit_eq unat_word_ariths take_bit_eq_mod mod_mod_cancel mod_simps)

subsection \<open>Terms\<close>

definition reg_text :: "INSTRUCTION \<Rightarrow> nat \<Rightarrow> string" where
  "reg_text inst r = (if address_bits inst = 32 then gpr_names ! r else tl (gpr_names ! r))"

text \<open>The eight names, each with its 16-bit form.\<close>

lemma less_8: "r < 8 \<Longrightarrow> r \<in> {0, 1, 2, 3, 4, 5, 6, 7 :: nat}"
  by auto

lemma gpr_table:
  assumes "r < 8"
  shows "reg_name LIBDASM_REG_GEN_DWORD r = Inr (gpr_names ! r)" "reg_name LIBDASM_REG_GEN_WORD r = Inr (tl (gpr_names ! r))"
  using less_8 [OF assms] by (auto simp: reg_name_def reg_table_def gpr_names_def name_index_defs)

lemma addr_reg_text: "r < 8 \<Longrightarrow> addr_reg inst r = Inr (reg_text inst r)"
  using gpr_table [of r] by (simp add: addr_reg_def reg_text_def address_bits_def)

lemma reg_text_chars:
  "r < 8 \<Longrightarrow> c \<in> {CHR ''+'', CHR ''-'', CHR '']'', CHR ''*''} \<Longrightarrow> c \<notin> set (reg_text inst r)"
  by (drule less_8) (auto simp: reg_text_def gpr_names_def)

definition reg_value :: "(nat \<Rightarrow> u32) \<Rightarrow> INSTRUCTION \<Rightarrow> nat \<Rightarrow> u32" where
  "reg_value regs inst r = (if address_bits inst = 32 then regs r else take_bit 16 (regs r))"

lemma gpr_lookup:
  "\<forall>r\<in>{0, 1, 2, 3, 4, 5, 6, 7}. map_of (zip gpr_names [0, 1, 2, 3, 4, 5, 6, 7]) (gpr_names ! r) = Some r \<and>
     map_of (zip gpr_names [0, 1, 2, 3, 4, 5, 6, 7]) (tl (gpr_names ! r)) = (None :: nat option) \<and>
     map_of (zip (map tl gpr_names) [0, 1, 2, 3, 4, 5, 6, 7]) (tl (gpr_names ! r)) = Some r"
  by code_simp

lemma register_value_text: "r < 8 \<Longrightarrow> register_value regs (reg_text inst r) = Some (reg_value regs inst r)"
  using bspec [OF gpr_lookup less_8] by (simp add: register_value_def reg_text_def reg_value_def)

lemma reg_text_start: "r < 8 \<Longrightarrow> reg_text inst r \<noteq> [] \<and> take 2 (reg_text inst r @ t) \<noteq> ''0x''"
  by (drule less_8) (auto simp: reg_text_def gpr_names_def)

definition scale_text :: "OPERAND \<Rightarrow> string" where
  "scale_text op = (if op_scale op = 2 then ''*2'' else if op_scale op = 4 then ''*4''
     else if op_scale op = 8 then ''*8'' else [])"

lemma read_term_reg:
  assumes "r < 8"
  shows "read_term regs (reg_text inst r) = Some (reg_value regs inst r)"
proof -
  have tw: "takeWhile (\<lambda>c. c \<noteq> CHR ''*'') (reg_text inst r) = reg_text inst r"
    using reg_text_chars [OF assms, of "CHR ''*''" inst] by (subst takeWhile_eq_all_conv) auto
  with register_value_text [OF assms, of regs inst] reg_text_start [OF assms, of inst "[]"] show ?thesis
    by (simp add: read_term_def Let_def tw)
qed

lemma read_term_scaled:
  assumes r: "r < 8" and s: "op_scale op \<in> {0, 2, 4, 8}"
  shows "read_term regs (reg_text inst r @ scale_text op) = Some (reg_value regs inst r * of_nat (max 1 (op_scale op)))"
proof (cases "op_scale op = 0")
  case True
  with read_term_reg [OF r] show ?thesis by (simp add: scale_text_def)
next
  case False
  with s obtain d where d: "scale_text op = [CHR ''*'', d]" "read_base 10 [d] = op_scale op"
    by (auto simp: scale_text_def read_base_def digit_value_def)
  have star: "\<forall>x\<in>set (reg_text inst r). x \<noteq> CHR ''*''" using reg_text_chars [OF r] by auto
  have tw: "takeWhile (\<lambda>c. c \<noteq> CHR ''*'') (reg_text inst r @ scale_text op) = reg_text inst r"
    using star by (subst takeWhile_append2) (auto simp: d(1))
  with register_value_text [OF r, of regs inst] reg_text_start [OF r, of inst "scale_text op"] False d show ?thesis
    by (simp add: read_term_def Let_def max_def tw)
qed

lemma fmt_x_chars: "c \<in> set (fmt_x w) \<Longrightarrow> hex_char c"
  using set_base_str [of 16 digit "unat w"] by (auto simp: fmt_x_def hex_char_def digit_def)

lemma hex_text_chars:
  "c \<in> {CHR ''+'', CHR ''-'', CHR '']''} \<Longrightarrow> c \<notin> set (''0x'' @ fmt_x w)"
  using fmt_x_chars [of c w] by (auto simp: hex_char_def)

lemma read_term_hex: "read_term regs (''0x'' @ fmt_x w) = Some w"
  by (simp add: read_term_def)

subsection \<open>Sums\<close>

lemma split_sum_one:
  "CHR ''+'' \<notin> set t \<Longrightarrow> CHR ''-'' \<notin> set t \<Longrightarrow> split_sum neg acc t = [(neg, acc @ t)]"
  by (induction t arbitrary: acc) auto

lemma split_sum_more:
  "CHR ''+'' \<notin> set t \<Longrightarrow> CHR ''-'' \<notin> set t \<Longrightarrow> c \<in> {CHR ''+'', CHR ''-''} \<Longrightarrow>
   split_sum neg acc (t @ c # u) = (neg, acc @ t) # split_sum (c = CHR ''-'') [] u"
  by (induction t arbitrary: acc) auto

subsection \<open>The text of a memory operand\<close>

definition base_text :: "INSTRUCTION \<Rightarrow> OPERAND \<Rightarrow> string" where
  "base_text inst op = (if basereg op = LIBDASM_REGISTER_NOP then [] else reg_text inst (basereg op))"

definition index_text :: "INSTRUCTION \<Rightarrow> OPERAND \<Rightarrow> string" where
  "index_text inst op =
     (if indexreg op = LIBDASM_REGISTER_NOP then []
      else (if basereg op = LIBDASM_REGISTER_NOP then [] else ''+'') @ reg_text inst (indexreg op) @ scale_text op)"

definition negative :: "OPERAND \<Rightarrow> bool" where
  "negative op \<longleftrightarrow> displacement op AND push_bit (op_dispbytes op * 8 - 1) 1 \<noteq> 0"

definition disp_text :: "OPERAND \<Rightarrow> string" where
  "disp_text op =
     (if op_dispbytes op = 0 then []
      else if has_register op then
        (if negative op then CHR ''-'' # ''0x'' @ fmt_x (negated_disp op + 1) else CHR ''+'' # ''0x'' @ fmt_x (displacement op))
      else ''0x'' @ fmt_x (displacement op))"

lemma emit_Inr: "emit n t s = Inr u \<Longrightarrow> u = s @ t"
  by (simp add: emit_def split: if_split_asm)

lemma emit_r_Inr: "emit_r n r s = Inr u \<Longrightarrow> \<exists>t. r = Inr t \<and> u = s @ t"
  by (auto simp: emit_r_def bind_r_eq_Inr dest: emit_Inr)

lemma print_base_text:
  assumes "basereg op \<le> 8" and "print_base inst op FORMAT_INTEL n s = Inr u"
  shows "u = s @ base_text inst op"
  using assms addr_reg_text [of "basereg op" inst]
  by (auto simp: print_base_def base_text_def no_print_def after_def LIBDASM_REGISTER_NOP_def
      dest!: emit_r_Inr split: if_split_asm)

lemma print_index_text:
  assumes "indexreg op \<le> 8" and "print_index inst op FORMAT_INTEL n s = Inr u"
  shows "u = s @ index_text inst op"
proof -
  have scale: "v = x @ scale_text op" if "print_scale op FORMAT_INTEL n x = Inr v" for x v
    using that by (auto simp: print_scale_def scale_text_def no_print_def dest!: emit_Inr split: if_split_asm)
  show ?thesis
    using assms addr_reg_text [of "indexreg op" inst]
    by (auto simp: print_index_def index_text_def no_print_def after_def LIBDASM_REGISTER_NOP_def bind_r_eq_Inr
        dest!: emit_r_Inr scale split: if_split_asm)
qed

lemma intel_disp_text: "op_dispbytes op \<noteq> 0 \<Longrightarrow> intel_disp op = Inr t \<Longrightarrow> t = disp_text op"
  by (auto simp: intel_disp_def disp_text_def disp_sign_def has_register_def negative_def bind_r_eq_Inr
      split: if_split_asm)

lemma print_segment_text:
  assumes "print_segment inst FORMAT_INTEL n s = Inr u"
  shows "\<exists>seg. u = s @ seg \<and> CHR ''['' \<notin> set seg"
proof -
  have "CHR ''['' \<notin> set t" if "reg_name LIBDASM_REG_SEGMENT r = Inr t" for r t
  proof -
    have r: "r < 8" and t: "t = reg_table ! 3 ! r"
      using that by (auto simp: reg_name_def reg_table_def name_index_defs split: if_split_asm)
    show ?thesis using less_8 [OF r] by (auto simp: t reg_table_def)
  qed
  then show ?thesis using assms
    by (fastforce simp: print_segment_def Let_def no_print_def after_def bind_r_eq_Inr dest!: emit_r_Inr
        split: if_split_asm)
qed

lemma print_memory_text:
  assumes ad: "addressed inst op" and run: "print_memory inst op FORMAT_INTEL n [] = Inr t"
  shows "\<exists>seg. t = seg @ ''['' @ base_text inst op @ index_text inst op @ disp_text op @ '']'' \<and> CHR ''['' \<notin> set seg"
proof -
  from run obtain s1 s2 s3 s4 s5 where
    1: "print_segment inst FORMAT_INTEL n [] = Inr s1" and 2: "emit n ''['' s1 = Inr s2"
    and 3: "print_base inst op FORMAT_INTEL n s2 = Inr s3" and 4: "print_index inst op FORMAT_INTEL n s3 = Inr s4"
    and 5: "(if dispbytes inst \<noteq> 0 then emit_r n (intel_disp op) else no_print) s4 = Inr s5"
    and 6: "emit n '']'' s5 = Inr t"
    by (auto simp: print_memory_def no_print_def bind_r_eq_Inr)
  from print_segment_text [OF 1] obtain seg where seg: "s1 = seg" "CHR ''['' \<notin> set seg" by auto
  have le: "basereg op \<le> 8" "indexreg op \<le> 8" and db: "op_dispbytes op = dispbytes inst"
    using ad by (simp_all add: addressed_def)
  have "s5 = s4 @ disp_text op"
  proof (cases "dispbytes inst = 0")
    case True
    with 5 db show ?thesis by (simp add: no_print_def disp_text_def)
  next
    case False
    with db have "op_dispbytes op \<noteq> 0" by simp
    moreover from False 5 obtain d where "intel_disp op = Inr d" "s5 = s4 @ d" by (auto dest!: emit_r_Inr)
    ultimately show ?thesis using intel_disp_text by simp
  qed
  with seg emit_Inr [OF 2] print_base_text [OF le(1) 3] print_index_text [OF le(2) 4] emit_Inr [OF 6]
  show ?thesis by auto
qed

subsection \<open>What the text says\<close>

lemma neg_not: "- (NOT (d :: u32) + 1) = d"
  by (simp add: not_eq_complement)

lemma sign_extend8_low:
  assumes "sign_extend8 b AND push_bit 7 1 \<noteq> (0 :: u32)"
  shows "NOT (sign_extend8 b) AND 0xff = NOT (sign_extend8 b)"
proof -
  have "bit (sign_extend8 b) n" if "8 \<le> n" "n < 32" for n
  proof -
    have "bit (sign_extend8 b) 7" using assms by (auto simp: bit_iff_and_push_bit_not_eq_0)
    then have b7: "bit b 7"
      by (auto simp: sign_extend8_def Let_def bit_simps split: if_split_asm)
    have "(0x80 :: u32) \<le> ucast b"
    proof (rule ccontr)
      assume small: "\<not> 0x80 \<le> (ucast b :: u32)"
      have "unat b < 256" using unsigned_less [of b, where ?'a = nat] by simp
      then have "unat (ucast b :: u32) = unat b" by (simp add: unsigned_ucast_eq take_bit_nat_eq_self)
      with small have "unat b < 128" by (simp add: word_le_nat_alt)
      then have "take_bit 7 b = b" by (simp add: word_unat_eq_iff unsigned_take_bit_eq take_bit_nat_eq_self)
      with b7 have "bit (take_bit 7 b) 7" by simp
      then show False by (simp add: bit_take_bit_iff)
    qed
    have m: "(0xffffff00 :: u32) = push_bit 8 (mask 24)" by (simp add: mask_eq_exp_minus_1 push_bit_eq_mult)
    moreover have "n - 8 < 24" "n - 8 < 32" using that by arith+
    ultimately show ?thesis using \<open>(0x80 :: u32) \<le> ucast b\<close> that
      by (simp add: sign_extend8_def Let_def bit_simps m)
  qed
  then have "NOT (sign_extend8 b) AND mask 8 = NOT (sign_extend8 b)"
    by (intro bit_word_eqI) (auto simp: bit_simps, meson not_le)
  then show ?thesis by (simp add: mask_eq_exp_minus_1)
qed

lemma take_bit_word_minus: "take_bit 16 (- take_bit 16 (a :: u32)) = take_bit 16 (- a)"
  using take_bit_word_mult [of a "- 1"] by simp

lemma take_bit_neg_low: "take_bit 16 (- ((NOT (d :: u32) AND 0xffff) + 1)) = take_bit 16 d"
proof -
  have "NOT d AND 0xffff = take_bit 16 (NOT d)" by (simp add: take_bit_eq_mask mask_eq_exp_minus_1)
  then have "take_bit 16 (- ((NOT d AND 0xffff) + 1)) = take_bit 16 (- (take_bit 16 (NOT d) + 1))" by simp
  also have "\<dots> = take_bit 16 (- (take_bit 16 (take_bit 16 (NOT d) + 1)))" by (simp only: take_bit_word_minus)
  also have "\<dots> = take_bit 16 (- (take_bit 16 (NOT d + 1)))" by (simp only: take_bit_word_add)
  also have "\<dots> = take_bit 16 d" by (simp only: take_bit_word_minus neg_not)
  finally show ?thesis .
qed

lemma negative_disp_value:
  assumes ad: "addressed inst op" and reg: "has_register op" and neg: "negative op"
  shows "take_bit (address_bits inst) (- (negated_disp op + 1)) = take_bit (address_bits inst) (displacement op)"
proof -
  from ad consider "op_dispbytes op = 0" | "op_dispbytes op = 1" | "op_dispbytes op = 2" | "op_dispbytes op = 4"
    by (auto simp: addressed_def)
  then show ?thesis
  proof cases
    case 1
    with ad neg show ?thesis by (simp add: addressed_def negative_def)
  next
    case 2
    with ad reg obtain b where b: "displacement op = sign_extend8 b" by (auto simp: addressed_def)
    with neg 2 have "negated_disp op = NOT (displacement op)"
      by (simp add: negative_def negated_disp_def sign_extend8_low)
    then show ?thesis by (simp only: neg_not)
  next
    case 3
    with ad reg have "address_bits inst = 16" by (simp add: addressed_def)
    with 3 show ?thesis by (simp add: negated_disp_def take_bit_neg_low del: minus_add_distrib)
  next
    case 4
    then show ?thesis by (simp add: negated_disp_def neg_not del: minus_add_distrib)
  qed
qed

definition disp_value :: "OPERAND \<Rightarrow> u32" where
  "disp_value op = (if op_dispbytes op = 0 then 0 else if has_register op \<and> negative op then - (negated_disp op + 1)
     else displacement op)"

definition sign_free :: "string \<Rightarrow> bool" where
  "sign_free t \<longleftrightarrow> CHR ''+'' \<notin> set t \<and> CHR ''-'' \<notin> set t"

lemma sign_free_hex: "sign_free (''0x'' @ fmt_x w)"
  unfolding sign_free_def by (intro conjI hex_text_chars) simp_all

lemma sign_free_reg: "r < 8 \<Longrightarrow> sign_free (reg_text inst r)"
  unfolding sign_free_def by (intro conjI reg_text_chars) simp_all

lemma sign_free_scaled: "r < 8 \<Longrightarrow> sign_free (reg_text inst r @ scale_text op)"
  using sign_free_reg [of r inst] by (auto simp: sign_free_def scale_text_def)

lemma split_last: "sign_free t \<Longrightarrow> split_sum neg [] t = [(neg, t)]"
  by (simp add: sign_free_def split_sum_one)

lemma split_next:
  "sign_free t \<Longrightarrow> c \<in> {CHR ''+'', CHR ''-''} \<Longrightarrow> split_sum neg [] (t @ c # u) = (neg, t) # split_sum (c = CHR ''-'') [] u"
  using split_sum_more [of t c neg "[]" u] by (simp add: sign_free_def)

lemma read_last:
  assumes t: "sign_free t" "read_term regs t = Some v" and reg: "has_register op"
  shows "read_sum regs (split_sum False [] (t @ disp_text op)) = Some (v + disp_value op)"
proof (cases "op_dispbytes op = 0")
  case True
  with t split_last [of t] show ?thesis by (simp add: disp_text_def disp_value_def)
next
  case False
  let ?w = "if negative op then negated_disp op + 1 else displacement op"
  let ?c = "if negative op then CHR ''-'' else CHR ''+''"
  have d: "disp_text op = ?c # ''0x'' @ fmt_x ?w"
    using False reg by (simp add: disp_text_def)
  have "split_sum False [] (t @ disp_text op) = [(False, t), (negative op, ''0x'' @ fmt_x ?w)]"
    unfolding d using split_next [OF t(1), of ?c False "''0x'' @ fmt_x ?w"] split_last [OF sign_free_hex, of _ ?w]
    by (cases "negative op") simp_all
  with t(2) read_term_hex [of regs ?w] False reg show ?thesis
    by (simp add: disp_value_def)
qed

lemma read_body:
  assumes ad: "addressed inst op"
  shows "read_sum regs (split_sum False [] (base_text inst op @ index_text inst op @ disp_text op)) =
     Some ((if basereg op = LIBDASM_REGISTER_NOP then 0 else reg_value regs inst (basereg op)) +
       (if indexreg op = LIBDASM_REGISTER_NOP then 0
        else reg_value regs inst (indexreg op) * of_nat (max 1 (op_scale op))) + disp_value op)"
    (is "?read = Some (?b + ?i + _)")
proof -
  have b: "basereg op \<noteq> LIBDASM_REGISTER_NOP \<Longrightarrow> basereg op < 8"
    and i: "indexreg op \<noteq> LIBDASM_REGISTER_NOP \<Longrightarrow> indexreg op < 8" and s: "op_scale op \<in> {0, 2, 4, 8}"
    using ad by (auto simp: addressed_def LIBDASM_REGISTER_NOP_def)
  show ?thesis
  proof (cases "has_register op")
    case False
    then have none: "basereg op = LIBDASM_REGISTER_NOP" "indexreg op = LIBDASM_REGISTER_NOP"
      by (auto simp: has_register_def)
    show ?thesis
    proof (cases "op_dispbytes op = 0")
      case True
      with none show ?thesis
        by (simp add: base_text_def index_text_def disp_text_def disp_value_def read_term_def)
    next
      case nz: False
      with none False have "split_sum False [] (base_text inst op @ index_text inst op @ disp_text op) =
          [(False, ''0x'' @ fmt_x (displacement op))]"
        using split_last [OF sign_free_hex] by (simp add: base_text_def index_text_def disp_text_def)
      with read_term_hex [of regs "displacement op"] none nz False show ?thesis
        by (simp add: disp_value_def)
    qed
  next
    case reg: True
    show ?thesis
    proof (cases "indexreg op = LIBDASM_REGISTER_NOP")
      case True
      with reg have nb: "basereg op \<noteq> LIBDASM_REGISTER_NOP" by (simp add: has_register_def)
      from read_last [OF sign_free_reg [OF b [OF nb]] read_term_reg [OF b [OF nb]] reg] True nb
      show ?thesis by (simp add: base_text_def index_text_def)
    next
      case ni: False
      note last = read_last [OF sign_free_scaled [OF i [OF ni]] read_term_scaled [OF i [OF ni] s] reg]
      show ?thesis
      proof (cases "basereg op = LIBDASM_REGISTER_NOP")
        case True
        with last ni show ?thesis by (simp add: base_text_def index_text_def)
      next
        case nb: False
        have "split_sum False [] (base_text inst op @ index_text inst op @ disp_text op) =
            (False, reg_text inst (basereg op)) #
              split_sum False [] ((reg_text inst (indexreg op) @ scale_text op) @ disp_text op)"
          using split_next [OF sign_free_reg [OF b [OF nb]], of "CHR ''+''"] nb ni
          by (simp add: base_text_def index_text_def)
        with last read_term_reg [OF b [OF nb], of regs inst] nb ni show ?thesis by (simp add: add.assoc)
      qed
    qed
  qed
qed

lemma body_closed:
  assumes ad: "addressed inst op"
  shows "CHR '']'' \<notin> set (base_text inst op @ index_text inst op @ disp_text op)"
proof -
  have "r \<noteq> LIBDASM_REGISTER_NOP \<Longrightarrow> r \<le> 8 \<Longrightarrow> CHR '']'' \<notin> set (reg_text inst r)" for r
    by (rule reg_text_chars) (auto simp: LIBDASM_REGISTER_NOP_def)
  moreover have "CHR '']'' \<notin> set (''0x'' @ fmt_x w)" for w by (rule hex_text_chars) simp
  ultimately show ?thesis using ad
    by (auto simp: base_text_def index_text_def disp_text_def scale_text_def addressed_def)
qed

lemma read_printed:
  assumes ad: "addressed inst op" and seg: "CHR ''['' \<notin> set seg"
  shows "read_address regs (seg @ ''['' @ base_text inst op @ index_text inst op @ disp_text op @ '']'') =
     read_sum regs (split_sum False [] (base_text inst op @ index_text inst op @ disp_text op))"
proof -
  let ?b = "base_text inst op @ index_text inst op @ disp_text op"
  have "dropWhile (\<lambda>c. c \<noteq> CHR ''['') (seg @ ''['' @ ?b @ '']'') = ''['' @ ?b @ '']''"
    using seg by (subst dropWhile_append2) auto
  moreover have "takeWhile (\<lambda>c. c \<noteq> CHR '']'') (?b @ '']'') = ?b"
    using body_closed [OF ad] by (subst takeWhile_append2) auto
  ultimately show ?thesis by (simp add: read_address_def)
qed

lemma address_bits_cases: "address_bits inst = 32 \<or> address_bits inst = 16"
  by (simp add: address_bits_def)

lemma take_bit_32 [simp]: "take_bit 32 (w :: u32) = w"
  by (rule take_bit_word_eq_self) simp

text \<open>Whatever the address size, an addend may be replaced by one with the same low bits.\<close>

lemma take_bit_sum_cong:
  assumes "n = 32 \<or> n = (16 :: nat)" and "take_bit n a = take_bit n a'" and "take_bit n b = take_bit n b'"
  shows "take_bit n (a + b :: u32) = take_bit n (a' + b')"
  using assms take_bit_word_add by (metis add.commute take_bit_32)

lemma reg_value_low: "take_bit (address_bits inst) (reg_value regs inst r * k) = take_bit (address_bits inst) (regs r * k)"
  using address_bits_cases [of inst] take_bit_word_mult by (auto simp: reg_value_def)

lemma disp_value_low:
  assumes "addressed inst op"
  shows "take_bit (address_bits inst) (disp_value op) = take_bit (address_bits inst) (displacement op)"
proof (cases "op_dispbytes op = 0 \<or> \<not> (has_register op \<and> negative op)")
  case True
  with assms show ?thesis by (auto simp: disp_value_def addressed_def)
next
  case False
  with negative_disp_value [OF assms] show ?thesis by (simp add: disp_value_def)
qed

lemma printed_address:
  assumes ad: "addressed inst op" and run: "print_memory inst op FORMAT_INTEL n [] = Inr t"
  shows "\<exists>a. read_address regs t = Some a \<and>
     take_bit (address_bits inst) a = take_bit (address_bits inst) (effective_address regs op)"
proof -
  let ?n = "address_bits inst"
  from print_memory_text [OF ad run] obtain seg where
    t: "t = seg @ ''['' @ base_text inst op @ index_text inst op @ disp_text op @ '']''" "CHR ''['' \<notin> set seg" by auto
  have "take_bit ?n ((if basereg op = LIBDASM_REGISTER_NOP then 0 else reg_value regs inst (basereg op)) +
       (if indexreg op = LIBDASM_REGISTER_NOP then 0
        else reg_value regs inst (indexreg op) * of_nat (max 1 (op_scale op))) + disp_value op) =
     take_bit ?n (effective_address regs op)"
    unfolding effective_address_def
    using reg_value_low [of inst regs "basereg op" 1]
    by (intro take_bit_sum_cong [OF address_bits_cases] disp_value_low [OF ad]) (simp_all add: reg_value_low)
  with read_body [OF ad, of regs] read_printed [OF ad t(2), of regs] t(1) show ?thesis by simp
qed

text \<open>A locked \<open>inc\<close> of \<open>fs:[eax+ecx*4-0x2]\<close>.\<close>

definition indexed_branch :: "u8 list" where
  "indexed_branch = [0xf0, 0x64, 0xff, 0x44, 0x88, 0xfe]"

subsection \<open>Correctness\<close>

text \<open>C13. Printing loses nothing of an address: the Intel text of any memory operand of any decoded instruction,
  read back as a sum of registers, a multiple of a register and a signed number, has under all register contents the
  value the decoded base, index, scale and displacement describe, up to the address size of the instruction.
  Negative displacements are printed as magnitudes of one, two or four bytes and come back with their sign.\<close>

theorem printed_address_denotes_operand:
  assumes i: "get_instruction bs mode = Inr i" and op: "op \<in> {op1 i, op2 i, op3 i}"
    and mem: "op_type op = OPERAND_TYPE_MEMORY" and n: "29 \<le> n"
  shows "\<exists>t a. get_operand_string i op FORMAT_INTEL offset n = Inr (1, t) \<and> read_address regs t = Some a \<and>
     take_bit (address_bits i) a = take_bit (address_bits i) (effective_address regs op)"
proof -
  have flags: "shown_flags (iflags i)" and shown: "shown_operand i op"
    using decoded_is_shown [OF i] op by (auto simp: shown_instruction_def)
  then have "within 28 (\<lambda>n. print_memory i op FORMAT_INTEL n)"
    using mem by (intro within_memory) (simp_all add: shown_operand_def)
  with n obtain t where t: "print_memory i op FORMAT_INTEL n [] = Inr t"
    using withinD [of 28 "\<lambda>n. print_memory i op FORMAT_INTEL n" "[]" n] by auto
  with printed_address [OF decoded_addressed [OF i op mem] t] mem show ?thesis
    by (simp add: get_operand_string_def)
qed

theorem printed_address_denotes_operand_witness:
  "\<exists>t a. get_operand_string (projr (get_instruction indexed_branch MODE_32)) (op1 (projr (get_instruction indexed_branch MODE_32)))
       FORMAT_INTEL 0 32 = Inr (1, t) \<and> read_address (\<lambda>r. 0x1000) t = Some a \<and>
     take_bit (address_bits (projr (get_instruction indexed_branch MODE_32))) a =
       take_bit (address_bits (projr (get_instruction indexed_branch MODE_32)))
         (effective_address (\<lambda>r. 0x1000) (op1 (projr (get_instruction indexed_branch MODE_32))))"
proof (rule printed_address_denotes_operand)
  show "get_instruction indexed_branch MODE_32 = Inr (projr (get_instruction indexed_branch MODE_32))" by code_simp
  show "op_type (op1 (projr (get_instruction indexed_branch MODE_32))) = OPERAND_TYPE_MEMORY" by code_simp
qed simp_all

end
