(* ===== verification/Libdasm_Extent.thy ===== *)
theory Libdasm_Extent
  imports Libdasm_Safety
begin

text \<open>
  Which bytes the decoder reads: exactly the ones its length counts. A buffer that agrees with
  another on the bytes of an instruction (\<open>agree\<close>) decodes to the same instruction, and a buffer
  that ends inside the instruction is a read fault. So the reported length, the places of the
  operands and the order in which they are taken fit together for every row of the tables.
\<close>

subsection \<open>Rows whose operands stand in a MODRM byte\<close>

text \<open>A memory operand of the tables always has a MODRM byte; the rows the MODRM byte itself selects
  (the groups and the first eight rows of the floating-point tables) always parse it.\<close>

definition row_mem :: "INST \<Rightarrow> bool" where
  "row_mem r \<longleftrightarrow> mnemonic r = None \<or> inst_modrm r \<or>
     \<not> am_mem (MASK_AM (flags1 r)) \<and> \<not> am_mem (MASK_AM (flags2 r)) \<and> \<not> am_mem (MASK_AM (flags3 r))"

definition row_modrm :: "INST \<Rightarrow> bool" where
  "row_modrm r \<longleftrightarrow> mnemonic r = None \<or> inst_modrm r \<and> flags1 r \<noteq> FLAGS_NONE"

lemma row_mem_simps [simp]:
  "row_mem (NO_INST t)"
  "row_mem (INST t m f1 f2 f3 md ea eu iw ir) \<longleftrightarrow>
     m = None \<or> md \<or> \<not> am_mem (MASK_AM f1) \<and> \<not> am_mem (MASK_AM f2) \<and> \<not> am_mem (MASK_AM f3)"
  by (simp_all add: row_mem_def flag_simps)

lemma row_mem_inst_table1: "list_all row_mem inst_table1"
  by (simp add: inst_table1_def inst_table1_lo_def inst_table1_hi_def flag_simps)

lemma row_mem_inst_table2: "list_all row_mem inst_table2"
  by (simp add: inst_table2_def inst_table2_lo_def inst_table2_hi_def flag_simps)

lemma row_mem_inst_table3:
  "list_all row_mem inst_table3_66" "list_all row_mem inst_table3_f2" "list_all row_mem inst_table3_f3"
  by (simp_all add: inst_table3_66_def inst_table3_66_lo_def inst_table3_66_hi_def
      inst_table3_f2_def inst_table3_f2_lo_def inst_table3_f2_hi_def
      inst_table3_f3_def inst_table3_f3_lo_def inst_table3_f3_hi_def flag_simps)

lemma row_mem_inst_table4: "list_all (list_all row_mem) inst_table4"
  by (simp add: inst_table4_def inst_table_fpu_d8_def inst_table_fpu_d9_def inst_table_fpu_da_def
      inst_table_fpu_db_def inst_table_fpu_dc_def inst_table_fpu_dd_def inst_table_fpu_de_def
      inst_table_fpu_df_def flag_simps)

lemma row_modrm_inst_table_ext: "list_all (list_all row_modrm) inst_table_ext"
  by code_simp

lemma row_modrm_ext_groups:
  "list_all row_modrm inst_table_ext12" "list_all row_modrm inst_table_ext12_66"
  "list_all row_modrm inst_table_ext13" "list_all row_modrm inst_table_ext13_66"
  "list_all row_modrm inst_table_ext14" "list_all row_modrm inst_table_ext14_66"
  "list_all row_modrm inst_table_ext7"
  by code_simp+

lemma row_modrm_inst_table4: "list_all (\<lambda>t. list_all row_modrm (take 8 t)) inst_table4"
  by code_simp

lemma row_modrm_mem: "row_modrm r \<Longrightarrow> row_mem r"
  by (auto simp: row_modrm_def row_mem_def)

subsection \<open>Buffers that agree\<close>

definition agree :: "nat \<Rightarrow> u8 list \<Rightarrow> u8 list \<Rightarrow> bool" where
  "agree n bs cs \<longleftrightarrow> (\<forall>k<n. FETCH8 cs k = FETCH8 bs k)"

lemma agree_take: "agree n bs (take n bs @ rest)" if "n \<le> length bs"
  using that by (simp add: agree_def FETCH8_def nth_append)

lemma agree_FETCH:
  assumes "agree n bs cs"
  shows "k + 1 \<le> n \<Longrightarrow> FETCH8 cs k = FETCH8 bs k"
    and "k + 2 \<le> n \<Longrightarrow> FETCH16 cs k = FETCH16 bs k"
    and "k + 4 \<le> n \<Longrightarrow> FETCH32 cs k = FETCH32 bs k"
  using assms by (simp_all add: agree_def FETCH16_def FETCH32_def)

lemma agree_get_real_instruction:
  assumes "get_real_instruction bs i fl = Inr r" and "agree n bs cs" and "prefix_count bs < n"
  shows "get_real_instruction cs i fl = Inr r"
  using assms
proof (induction bs i fl arbitrary: n cs rule: get_real_instruction.induct)
  case (2 b bs index flags)
  have "FETCH8 cs 0 = Inr b"
    using "2.prems"(2,3) by (auto simp: agree_def FETCH8_def)
  then obtain cs' where cs: "cs = b # cs'"
    by (cases cs) (auto simp: FETCH8_def)
  show ?case
  proof (cases "prefix_flags b flags")
    case None
    with "2.prems"(1) show ?thesis by (simp add: cs)
  next
    case (Some fl)
    then have "is_prefix b" using prefix_flags_None_iff [of b flags] by auto
    then have "prefix_count bs < n - 1" using "2.prems"(3) by (simp add: prefix_count_def)
    moreover have "FETCH8 cs' k = FETCH8 bs k" if "k < n - 1" for k
    proof -
      have "FETCH8 cs (Suc k) = FETCH8 (b # bs) (Suc k)"
        using "2.prems"(2) that by (simp add: agree_def)
      then show ?thesis by (auto simp: cs FETCH8_def split: if_splits)
    qed
    ultimately show ?thesis
      using "2.IH" [OF Some, of "n - 1" cs'] "2.prems"(1) Some by (simp add: cs agree_def)
  qed
qed simp

subsection \<open>One operand\<close>

lemma agree_parse_modrm:
  assumes parse: "parse_modrm bs off pm instr = Inr (mi, instr')"
    and same: "agree n bs cs" and reach: "off + 1 + of_bool (m_sib mi) \<le> n"
  shows "parse_modrm cs off pm instr = Inr (mi, instr')"
proof -
  have eq: "FETCH8 cs off = FETCH8 bs off"
    using reach by (intro agree_FETCH(1) [OF same]) simp
  show ?thesis
  proof (cases "has_sib pm (bs ! off)")
    case True
    with parse_modrm_Inr [OF parse] reach have "off + 1 + 1 \<le> n" by simp
    then have eq2: "FETCH8 cs (off + 1) = FETCH8 bs (off + 1)" by (rule agree_FETCH(1) [OF same])
    show ?thesis using parse unfolding parse_modrm_def parse_sib_def eq eq2 .
  next
    case False
    have "FETCH8 bs off = Inr (bs ! off)" using parse_modrm_Inr [OF parse] by (simp add: FETCH8_def)
    then have "parse_modrm cs off pm instr = parse_modrm bs off pm instr"
      using False unfolding parse_modrm_def eq has_sib_def by (auto simp: Let_def)
    then show ?thesis using parse by simp
  qed
qed

lemma agree_memory_operand:
  assumes "memory_operand instr op bs off mi = Inr (opd, instr')"
    and "agree n bs cs" and "off + 1 + of_bool (m_sib mi) + dispbytes instr' \<le> n"
  shows "memory_operand instr op cs off mi = Inr (opd, instr')"
proof -
  have "dispbytes instr' = m_dispbytes mi"
    using assms(1) by (auto simp: memory_operand_def Let_def bind_r_eq_Inr split: if_splits)
  with assms(3) have reads: "off + 1 + of_bool (m_sib mi) + m_dispbytes mi \<le> n" by simp
  have "m_dispbytes mi = 1 \<Longrightarrow> FETCH8 cs (off + 1 + of_bool (m_sib mi)) = FETCH8 bs (off + 1 + of_bool (m_sib mi))"
    "m_dispbytes mi = 2 \<Longrightarrow> FETCH16 cs (off + 1 + of_bool (m_sib mi)) = FETCH16 bs (off + 1 + of_bool (m_sib mi))"
    "m_dispbytes mi = 4 \<Longrightarrow> FETCH32 cs (off + 1 + of_bool (m_sib mi)) = FETCH32 bs (off + 1 + of_bool (m_sib mi))"
    using reads by (auto intro: agree_FETCH [OF assms(2)])
  then have "memory_operand instr op cs off mi = memory_operand instr op bs off mi"
    unfolding memory_operand_def Let_def by (simp cong: if_cong)
  then show ?thesis using assms(1) by simp
qed

lemma agree_immediate_operand:
  assumes "immediate_operand row f instr op bs off mode fl mi = Inr (opd, instr')"
    and "agree n bs cs"
    and "off + (of_bool (inst_modrm row) + of_bool (m_sib mi)) + immbytes instr' + dispbytes instr' \<le> n"
  shows "immediate_operand row f instr op cs off mode fl mi = Inr (opd, instr')"
proof -
  let ?at = "off + (of_bool (inst_modrm row) + of_bool (m_sib mi) + immbytes instr + dispbytes instr)"
  let ?mode = "MODE_CHECK_OPERAND mode fl"
  from assms(1) obtain k v where val: "immediate_value f op bs ?at ?mode = Inr (k, v)"
    and instr': "instr' = instr\<lparr>immbytes := immbytes instr + k\<rparr>"
    by (auto simp: immediate_operand_def Let_def bind_r_eq_Inr)
  have "immediate_value f op cs ?at ?mode = immediate_value f op bs ?at ?mode"
    using val assms(3) instr'
    by (auto simp: immediate_value_def bind_r_eq_Inr agree_FETCH [OF assms(2)] split: if_splits)
  then show ?thesis using assms(1) by (simp add: immediate_operand_def Let_def)
qed

lemma agree_far_operand:
  assumes "far_operand instr op bs off mode fl = Inr (opd, instr')"
    and "agree n bs cs" and "off + dispbytes instr' \<le> n"
  shows "far_operand instr op cs off mode fl = Inr (opd, instr')"
  using assms(1,3)
  by (auto simp: far_operand_def Let_def bind_r_eq_Inr agree_FETCH [OF assms(2)] split: if_splits)

lemma agree_offset_operand:
  assumes "offset_operand f instr op bs off mode = Inr (opd, instr')"
    and "agree n bs cs" and "off + dispbytes instr' \<le> n"
  shows "offset_operand f instr op cs off mode = Inr (opd, instr')"
  using assms(1,3)
  by (auto simp: offset_operand_def Let_def bind_r_eq_Inr agree_FETCH [OF assms(2)] split: if_splits)

lemma operand_switch_grows:
  assumes "operand_switch row f instr op bs off mode fl mi = Inr (opd, instr')"
  shows "ilength instr' = ilength instr \<and> immbytes instr \<le> immbytes instr' \<and>
    (dispbytes instr' = dispbytes instr \<or> moves_disp f)"
  using assms
proof (cases rule: operand_switch_cases)
  case mem
  then show ?thesis
    by (auto simp: moves_disp_def memory_operand_def Let_def bind_r_eq_Inr split: if_splits)
next
  case (imm g)
  then show ?thesis by (auto simp: immediate_operand_def Let_def bind_r_eq_Inr)
next
  case far
  then show ?thesis by (auto simp: moves_disp_def far_operand_def Let_def bind_r_eq_Inr)
next
  case offset
  then show ?thesis by (auto simp: moves_disp_def offset_operand_def Let_def bind_r_eq_Inr)
qed simp

text \<open>The branches of the switch that read bytes, one by one.\<close>

lemma operand_switch_reads:
  "MASK_AM f = AM_M \<Longrightarrow> operand_switch row f instr op xs off mode fl mi =
     bind_r (FETCH8 xs off) (\<lambda>b. if MASK_MODRM_MOD b = 3 then Inl IllegalInstruction
       else memory_operand instr op xs off mi)"
  "MASK_AM f = AM_R \<Longrightarrow> operand_switch row f instr op xs off mode fl mi =
     bind_r (FETCH8 xs off) (\<lambda>b. if MASK_MODRM_MOD b \<noteq> 3 then Inl IllegalInstruction
       else memory_operand instr op xs off mi)"
  "MASK_AM f \<in> {AM_Q, AM_W, AM_E} \<Longrightarrow> operand_switch row f instr op xs off mode fl mi =
     memory_operand instr op xs off mi"
  "MASK_AM f = AM_J \<Longrightarrow> operand_switch row f instr op xs off mode fl mi =
     immediate_operand row (f OR F_s) instr op xs off mode fl mi"
  "MASK_AM f = AM_I \<Longrightarrow> operand_switch row f instr op xs off mode fl mi =
     immediate_operand row f instr op xs off mode fl mi"
  "MASK_AM f = AM_A \<Longrightarrow> operand_switch row f instr op xs off mode fl mi =
     far_operand instr op xs off mode fl"
  "MASK_AM f = AM_O \<Longrightarrow> operand_switch row f instr op xs off mode fl mi =
     offset_operand f instr op xs off mode"
  by (auto simp: operand_switch_def Let_def libdasm_consts)

lemma operand_switch_keeps:
  "MASK_AM f \<notin> {AM_M, AM_R, AM_Q, AM_W, AM_E, AM_J, AM_I, AM_A, AM_O} \<Longrightarrow>
   operand_switch row f instr op cs off mode fl mi = operand_switch row f instr op bs off mode fl mi"
  by (simp add: operand_switch_def Let_def)

lemma agree_operand_switch:
  assumes switch: "operand_switch row f instr op bs off mode fl mi = Inr (opd, instr')"
    and same: "agree n bs cs"
    and reach: "off + (of_bool (inst_modrm row) + of_bool (m_sib mi)) + immbytes instr' + dispbytes instr' \<le> n"
    and mem: "am_mem (MASK_AM f) \<Longrightarrow> inst_modrm row"
  shows "operand_switch row f instr op cs off mode fl mi = Inr (opd, instr')"
proof -
  have modrm: "off + 1 + of_bool (m_sib mi) + dispbytes instr' \<le> n" "FETCH8 cs off = FETCH8 bs off"
    if "am_mem (MASK_AM f)"
    using mem [OF that] reach by (auto intro: agree_FETCH(1) [OF same])
  have behind: "off + dispbytes instr' \<le> n" using reach by simp
  consider (m) "MASK_AM f = AM_M" | (r) "MASK_AM f = AM_R" | (qwe) "MASK_AM f \<in> {AM_Q, AM_W, AM_E}"
    | (j) "MASK_AM f = AM_J" | (i) "MASK_AM f = AM_I" | (a) "MASK_AM f = AM_A" | (o) "MASK_AM f = AM_O"
    | (rest) "MASK_AM f \<notin> {AM_M, AM_R, AM_Q, AM_W, AM_E, AM_J, AM_I, AM_A, AM_O}" by blast
  then show ?thesis
  proof cases
    case m
    then have "am_mem (MASK_AM f)" by (simp add: am_mem_def)
    note reads = modrm [OF this]
    from switch m obtain b where "FETCH8 bs off = Inr b" "MASK_MODRM_MOD b \<noteq> 3"
      "memory_operand instr op bs off mi = Inr (opd, instr')"
      by (auto simp: operand_switch_reads(1) bind_r_eq_Inr split: if_splits)
    with agree_memory_operand [OF this(3) same reads(1)] reads(2) m show ?thesis
      by (simp add: operand_switch_reads(1))
  next
    case r
    then have "am_mem (MASK_AM f)" by (simp add: am_mem_def)
    note reads = modrm [OF this]
    from switch r obtain b where "FETCH8 bs off = Inr b" "MASK_MODRM_MOD b = 3"
      "memory_operand instr op bs off mi = Inr (opd, instr')"
      by (auto simp: operand_switch_reads(2) bind_r_eq_Inr split: if_splits)
    with agree_memory_operand [OF this(3) same reads(1)] reads(2) r show ?thesis
      by (simp add: operand_switch_reads(2))
  next
    case qwe
    then have "am_mem (MASK_AM f)" by (auto simp: am_mem_def)
    from modrm(1) [OF this] switch qwe show ?thesis
      by (simp only: operand_switch_reads(3)) (rule agree_memory_operand [OF _ same])
  next
    case j
    from switch reach show ?thesis
      unfolding operand_switch_reads(4) [OF j] by (rule agree_immediate_operand [OF _ same])
  next
    case i
    from switch reach show ?thesis
      unfolding operand_switch_reads(5) [OF i] by (rule agree_immediate_operand [OF _ same])
  next
    case a
    from switch behind show ?thesis
      unfolding operand_switch_reads(6) [OF a] by (rule agree_far_operand [OF _ same])
  next
    case o
    from switch behind show ?thesis
      unfolding operand_switch_reads(7) [OF o] by (rule agree_offset_operand [OF _ same])
  next
    case rest
    from switch show ?thesis
      unfolding operand_switch_keeps [where bs = bs and cs = cs, OF rest] .
  qed
qed

lemma get_operand_cases:
  assumes "get_operand row f instr op bs off mode fl = Inr (opd, instr')"
  obtains (none) "f = FLAGS_NONE" "instr' = instr" "opd = op\<lparr>op_type := OPERAND_TYPE_NONE\<rparr>"
  | (read) mi instr1 where "f \<noteq> FLAGS_NONE"
      "(if inst_modrm row then parse_modrm bs off (MODE_CHECK_ADDR mode fl) instr
        else Inr (no_modrm, instr)) = Inr (mi, instr1)"
      "operand_switch row f instr1 (op\<lparr>op_flags := f, reg := LIBDASM_REGISTER_NOP,
         basereg := LIBDASM_REGISTER_NOP, indexreg := LIBDASM_REGISTER_NOP, dispoffset := 0, immoffset := 0\<rparr>)
         bs off mode fl mi = Inr (opd, instr')"
      "ilength instr \<le> ilength instr1" "immbytes instr1 = immbytes instr" "dispbytes instr1 = dispbytes instr"
      "of_bool (inst_modrm row) + of_bool (m_sib mi) \<le> ilength instr1"
proof (cases "f = FLAGS_NONE")
  case True
  with assms none show thesis by (simp add: get_operand_def)
next
  case False
  with assms obtain mi instr1 where
    parse: "(if inst_modrm row then parse_modrm bs off (MODE_CHECK_ADDR mode fl) instr
             else Inr (no_modrm, instr)) = Inr (mi, instr1)"
    and switch: "operand_switch row f instr1 (op\<lparr>op_flags := f, reg := LIBDASM_REGISTER_NOP,
       basereg := LIBDASM_REGISTER_NOP, indexreg := LIBDASM_REGISTER_NOP, dispoffset := 0, immoffset := 0\<rparr>)
       bs off mode fl mi = Inr (opd, instr')"
    by (auto simp: get_operand_def bind_r_eq_Inr)
  have "ilength instr \<le> ilength instr1 \<and> immbytes instr1 = immbytes instr \<and> dispbytes instr1 = dispbytes instr \<and>
      of_bool (inst_modrm row) + of_bool (m_sib mi) \<le> ilength instr1"
    using parse by (auto simp: no_modrm_def split: if_splits dest!: parse_modrm_Inr)
  then show thesis by (intro read [OF False parse switch]) simp_all
qed

lemma get_operand_grows:
  assumes "get_operand row f instr op bs off mode fl = Inr (opd, instr')"
  shows "ilength instr \<le> ilength instr' \<and> immbytes instr \<le> immbytes instr' \<and>
    (dispbytes instr' = dispbytes instr \<or> moves_disp f) \<and>
    (f \<noteq> FLAGS_NONE \<and> inst_modrm row \<longrightarrow> 1 \<le> ilength instr')"
  using assms
proof (cases rule: get_operand_cases)
  case (read mi instr1)
  with operand_switch_grows [OF read(3)] show ?thesis by auto
qed simp

lemma agree_get_operand:
  assumes get: "get_operand row f instr op bs off mode fl = Inr (opd, instr')"
    and same: "agree n bs cs" and reach: "off + ilength instr' + immbytes instr' + dispbytes instr' \<le> n"
    and mem: "am_mem (MASK_AM f) \<Longrightarrow> inst_modrm row"
  shows "get_operand row f instr op cs off mode fl = Inr (opd, instr')"
  using get
proof (cases rule: get_operand_cases)
  case none
  then show ?thesis by (simp add: get_operand_def)
next
  case (read mi instr1)
  have "ilength instr' = ilength instr1" using operand_switch_grows [OF read(3)] by simp
  with read(7) reach
  have bytes: "off + (of_bool (inst_modrm row) + of_bool (m_sib mi)) + immbytes instr' + dispbytes instr' \<le> n"
    by simp
  have "(if inst_modrm row then parse_modrm cs off (MODE_CHECK_ADDR mode fl) instr
         else Inr (no_modrm, instr)) = Inr (mi, instr1)"
    using read(2) bytes by (auto intro!: agree_parse_modrm [OF _ same] split: if_splits)
  with agree_operand_switch [OF read(3) same bytes mem] read(1) show ?thesis
    by (simp add: get_operand_def)
qed

subsection \<open>The row and the operands\<close>

lemma agree_decode_row:
  assumes dec: "decode_row bs mode row index flags instr = Inr i"
    and ok: "row_ok row" "row_mem row" and zero: "dispbytes instr = 0"
  shows "agree (ilength i) bs cs \<Longrightarrow> decode_row cs mode row index flags instr = Inr i"
    and "row_modrm row \<Longrightarrow> index + 1 \<le> ilength i"
proof -
  define instr0 where "instr0 = instr\<lparr>modrm_offset := (if inst_modrm row then index else modrm_offset instr),
      itype := MASK_TYPE_VALUE (inst_type row), eflags_affected := inst_eflags_affected row,
      eflags_used := inst_eflags_used row, ptr := Some row\<rparr>"
  from dec obtain o1 instr1 o2 instr2 o3 instr3 where
    g1: "get_operand row (flags1 row) instr0 (op1 instr0) bs index mode flags = Inr (o1, instr1)" and
    g2: "get_operand row (flags2 row) (instr1\<lparr>op1 := o1\<rparr>) (op2 instr1) bs index mode flags = Inr (o2, instr2)" and
    g3: "get_operand row (flags3 row) (instr2\<lparr>op2 := o2\<rparr>) (op3 instr2) bs index mode flags = Inr (o3, instr3)" and
    i: "i = instr3\<lparr>op3 := o3, iop_read := inst_iop_read row, iop_written := inst_iop_written row,
      ilength := ilength instr3 + index + immbytes instr3 + dispbytes instr3, imode := mode, iflags := flags\<rparr>"
    and mn: "mnemonic row \<noteq> None"
    by (auto simp: decode_row_def instr0_def [symmetric] Let_def bind_r_eq_Inr split: if_splits)
  have len: "ilength i = index + ilength instr3 + immbytes instr3 + dispbytes instr3" by (simp add: i)
  have disp0: "dispbytes instr0 = 0" using zero by (simp add: instr0_def)
  have single: "moves_disp (flags1 row) \<Longrightarrow> \<not> moves_disp (flags2 row) \<and> \<not> moves_disp (flags3 row)"
    "moves_disp (flags2 row) \<Longrightarrow> \<not> moves_disp (flags3 row)"
    using ok(1) by (auto simp: row_ok_def row_printable_def)
  note grow = get_operand_grows [OF g1] get_operand_grows [OF g2, simplified] get_operand_grows [OF g3, simplified]
  have disp: "dispbytes instr1 \<le> dispbytes instr3" "dispbytes instr2 \<le> dispbytes instr3"
    using grow disp0 single by auto
  have reach: "index + ilength instr1 + immbytes instr1 + dispbytes instr1 \<le> ilength i"
    "index + ilength instr2 + immbytes instr2 + dispbytes instr2 \<le> ilength i"
    "index + ilength instr3 + immbytes instr3 + dispbytes instr3 \<le> ilength i"
    using len grow disp by auto
  have mem: "am_mem (MASK_AM (flags1 row)) \<Longrightarrow> inst_modrm row" "am_mem (MASK_AM (flags2 row)) \<Longrightarrow> inst_modrm row"
    "am_mem (MASK_AM (flags3 row)) \<Longrightarrow> inst_modrm row"
    using ok(2) mn by (auto simp: row_mem_def)
  show "decode_row cs mode row index flags instr = Inr i" if same: "agree (ilength i) bs cs"
    using agree_get_operand [OF g1 same reach(1) mem(1)] agree_get_operand [OF g2 same reach(2) mem(2)]
      agree_get_operand [OF g3 same reach(3) mem(3)] mn
    by (simp add: decode_row_def instr0_def [symmetric] Let_def i)
  show "index + 1 \<le> ilength i" if "row_modrm row"
    using that mn grow len by (auto simp: row_modrm_def)
qed

subsection \<open>The choice of the row\<close>

lemma table_row_all: "table_row t k = Inr r \<Longrightarrow> list_all P t \<Longrightarrow> P r"
  by (auto simp: table_row_Inr list_all_length)

lemma extension_row_reads:
  assumes "extension_row flags m index = Inr (row, index')"
  shows "row_mem row \<and> (index' = index + 1 \<or> index' = index \<and> row_modrm row)"
proof -
  have special: "row_mem inst_monitor" "row_mem inst_mwait"
    by (simp_all add: inst_monitor_def inst_mwait_def flag_simps)
  have "(row = inst_monitor \<or> row = inst_mwait) \<and> index' = index + 1 \<or> index' = index \<and> row_modrm row"
    using assms unfolding extension_row_def Let_def bind_r_eq_Inr
    by (auto simp: bind_r_eq_Inr row_modrm_ext_groups split: if_split_asm
        dest!: table_row_all [OF _ row_modrm_inst_table_ext] table_row_all [of _ _ _ row_modrm])
  with special row_modrm_mem show ?thesis by blast
qed

lemma select_table_reads:
  assumes sel: "select_table bs index flags instr0 = Inr (p, ix, fl, instr)" and zero: "dispbytes instr0 = 0"
  shows "dispbytes instr = 0" and "p = Some row \<Longrightarrow> row_mem row"
    and "agree n bs cs \<Longrightarrow> ix + 1 \<le> n \<Longrightarrow> (\<And>row. p = Some row \<Longrightarrow> row_modrm row \<Longrightarrow> ix + 2 \<le> n) \<Longrightarrow>
         select_table cs index flags instr0 = Inr (p, ix, fl, instr)"
proof -
  consider (none) "MASK_EXT flags = 0" | (cp) "MASK_EXT flags = EXT_CP" | (t2) "MASK_EXT flags = EXT_T2"
    | (group) "MASK_EXT flags \<noteq> 0" "MASK_EXT flags \<noteq> EXT_CP" "MASK_EXT flags \<noteq> EXT_T2" by blast
  then have "dispbytes instr = 0 \<and> (p = Some row \<longrightarrow> row_mem row) \<and> (agree n bs cs \<and> ix + 1 \<le> n \<and>
      (\<forall>row. p = Some row \<and> row_modrm row \<longrightarrow> ix + 2 \<le> n) \<longrightarrow>
      select_table cs index flags instr0 = Inr (p, ix, fl, instr))"
  proof cases
    case none
    with sel obtain b r where "FETCH8 bs index = Inr b" "table_row inst_table1 (unat b) = Inr r"
      "p = Some r" "ix = index" "fl = flags" "instr = instr0\<lparr>opcode := b\<rparr>"
      by (auto simp: select_table_def bind_r_eq_Inr)
    with none zero table_row_all [OF _ row_mem_inst_table1] show ?thesis
      by (auto simp: select_table_def agree_FETCH(1))
  next
    case cp
    with sel obtain b esc fpu r where reads: "FETCH8 bs index = Inr b" "FETCH8 bs (index - 1) = Inr esc"
      and rows: "table_row inst_table4 (unat esc - 0xd8) = Inr fpu"
        "table_row fpu (if b < 0xc0 then MASK_MODRM_LIBDASM_REG b else unat b - 0xb8) = Inr r"
      and result: "p = Some r" "ix = (if b < 0xc0 then index - 1 else index)" "fl = flags"
        "instr = instr0\<lparr>fpuindex := unat esc - 0xd8, opcode := b\<rparr>"
      by (auto simp: select_table_def bind_r_eq_Inr)
    have "row_mem r"
      by (rule table_row_all [OF rows(2) table_row_all [OF rows(1) row_mem_inst_table4]])
    moreover have "row_modrm r" if "b < 0xc0"
    proof -
      have "MASK_MODRM_LIBDASM_REG b < 8" by (rule MASK_MODRM_REG_less)
      with rows(2) that have "table_row (take 8 fpu) (MASK_MODRM_LIBDASM_REG b) = Inr r"
        by (auto simp: table_row_Inr)
      then show ?thesis by (rule table_row_all) (rule table_row_all [OF rows(1) row_modrm_inst_table4])
    qed
    moreover have "FETCH8 cs index = Inr b \<and> FETCH8 cs (index - 1) = Inr esc"
      if "agree n bs cs" "index + 1 \<le> n"
      using that reads agree_FETCH(1) [OF that(1), of index] agree_FETCH(1) [OF that(1), of "index - 1"] by simp
    ultimately show ?thesis
      using cp zero result rows by (auto simp: select_table_def split: if_splits)
  next
    case t2
    have pull: "bind_r (if c then x else y) f = (if c then bind_r x f else bind_r y f)" for c x y and f :: "INST \<Rightarrow> _"
      by simp
    from t2 sel obtain b where b: "FETCH8 bs index = Inr b" "ix = index" "dispbytes instr = dispbytes instr0"
      by (auto simp: select_table_def bind_r_eq_Inr Let_def)
    have "select_table cs index flags instr0 = select_table bs index flags instr0"
      if "FETCH8 cs index = FETCH8 bs index" using t2 that by (simp add: select_table_def)
    moreover have "row_mem row" if "p = Some row"
      using sel t2 that table_row_all [OF _ row_mem_inst_table2] table_row_all [OF _ row_mem_inst_table3(1)]
        table_row_all [OF _ row_mem_inst_table3(2)] table_row_all [OF _ row_mem_inst_table3(3)]
      by (auto simp: select_table_def bind_r_eq_Inr Let_def split: if_split_asm)
    ultimately show ?thesis using b sel zero by (auto simp: agree_FETCH(1))
  next
    case group
    with sel zero show ?thesis by (auto simp: select_table_def)
  qed
  then show "dispbytes instr = 0" "p = Some row \<Longrightarrow> row_mem row"
    "agree n bs cs \<Longrightarrow> ix + 1 \<le> n \<Longrightarrow> (\<And>row. p = Some row \<Longrightarrow> row_modrm row \<Longrightarrow> ix + 2 \<le> n) \<Longrightarrow>
         select_table cs index flags instr0 = Inr (p, ix, fl, instr)"
    by blast+
qed

lemma select_reads:
  assumes sel: "select_table bs index flags instr0 = Inr sel" and zero: "dispbytes instr0 = 0"
    and ext: "select_extension bs sel = Inr (Some row, index', flags', instr)"
  shows "dispbytes instr = 0" and "row_mem row"
    and "agree n bs cs \<Longrightarrow> index' + 1 \<le> n \<Longrightarrow> (row_modrm row \<Longrightarrow> index' + 2 \<le> n) \<Longrightarrow>
      select_table cs index flags instr0 = Inr sel \<and>
      select_extension cs sel = Inr (Some row, index', flags', instr)"
proof -
  obtain p ix fl ins where s: "sel = (p, ix, fl, ins)" by (cases sel)
  note table = select_table_reads [OF sel [unfolded s] zero]
  have "dispbytes instr = 0 \<and> row_mem row \<and>
      (agree n bs cs \<and> index' + 1 \<le> n \<and> (row_modrm row \<longrightarrow> index' + 2 \<le> n) \<longrightarrow>
       select_table cs index flags instr0 = Inr sel \<and>
       select_extension cs sel = Inr (Some row, index', flags', instr))"
  proof (cases "MASK_EXT fl \<noteq> 0 \<and> MASK_EXT fl < EXT_T2")
    case True
    with ext s obtain b m where reads: "FETCH8 bs ix = Inr b" "FETCH8 bs (ix + 1) = Inr m"
      and row: "extension_row fl m ix = Inr (row, index')"
      and result: "flags' = fl" "instr = ins\<lparr>opcode := b, extindex := MASK_MODRM_LIBDASM_REG m\<rparr>"
      by (auto simp: select_extension_def bind_r_eq_Inr)
    have "select_table cs index flags instr0 = Inr sel \<and>
        select_extension cs sel = Inr (Some row, index', flags', instr)"
      if same: "agree n bs cs" and n: "index' + 1 \<le> n" "row_modrm row \<longrightarrow> index' + 2 \<le> n"
    proof -
      have bytes: "ix + 2 \<le> n" using extension_row_reads [OF row] n by auto
      have "FETCH8 cs ix = Inr b" "FETCH8 cs (ix + 1) = Inr m"
        using agree_FETCH(1) [OF same, of ix] agree_FETCH(1) [OF same, of "ix + 1"] bytes reads by simp_all
      moreover have "select_table cs index flags instr0 = Inr sel"
        unfolding s by (rule table(3) [OF same]) (use bytes in simp_all)
      ultimately show ?thesis using True row result s by (simp add: select_extension_def)
    qed
    with table(1) result extension_row_reads [OF row] show ?thesis by simp
  next
    case False
    with ext s have eq: "p = Some row" "ix = index'" "fl = flags'" "ins = instr"
      by (auto simp: select_extension_def)
    have "select_extension cs sel = Inr (Some row, index', flags', instr)"
      using False s eq by (auto simp: select_extension_def)
    with table eq s show ?thesis by auto
  qed
  then show "dispbytes instr = 0" "row_mem row"
    "agree n bs cs \<Longrightarrow> index' + 1 \<le> n \<Longrightarrow> (row_modrm row \<Longrightarrow> index' + 2 \<le> n) \<Longrightarrow>
      select_table cs index flags instr0 = Inr sel \<and>
      select_extension cs sel = Inr (Some row, index', flags', instr)"
    by blast+
qed

subsection \<open>The decoder\<close>

lemma agree_get_instruction:
  assumes get: "get_instruction bs mode = Inr i" and same: "agree (ilength i) bs cs"
  shows "get_instruction cs mode = Inr i"
proof -
  from get obtain index flags sel row index' flags' instr where
    real: "get_real_instruction bs 0 0 = Inr (index, flags)" and
    sel: "select_table bs index flags zero_INSTRUCTION = Inr sel" and
    ext: "select_extension bs sel = Inr (Some row, index', flags', instr)" and
    dec: "decode_row bs mode row (index' + 1) flags' instr = Inr i"
    by (auto simp: get_instruction_def bind_r_eq_Inr split: option.splits)
  have zero: "dispbytes zero_INSTRUCTION = 0" by (simp add: zero_INSTRUCTION_def)
  note chosen = select_reads [OF sel zero ext]
  have good: "row_ok row \<and> fresh instr \<and> index' < length bs"
    using select_table_ok [OF real] select_extension_ok [of bs sel] sel ext by auto
  then have "index' + 1 \<le> length bs" by simp
  from decode_row_Inr [OF dec _ this] good have "index' + 1 \<le> ilength i" by simp
  note row = agree_decode_row [OF dec conjunct1 [OF good] chosen(2,1)]
  have "select_table cs index flags zero_INSTRUCTION = Inr sel \<and>
      select_extension cs sel = Inr (Some row, index', flags', instr)"
    by (rule chosen(3) [OF same \<open>index' + 1 \<le> ilength i\<close>]) (use row(2) in simp)
  moreover have "get_real_instruction cs 0 0 = Inr (index, flags)"
    by (rule agree_get_real_instruction [OF real same]) (use get_instruction_length [OF get] in simp)
  ultimately show ?thesis using row(1) [OF same] by (simp add: get_instruction_def)
qed

text \<open>C33. The length the decoder reports is the exact extent of what it reads: whatever stands behind
  those bytes, it decodes the same instruction, with the same operands; and with any fewer of them
  it runs into unmapped memory.\<close>

theorem decoder_reads_exactly_its_bytes:
  assumes get: "get_instruction bs mode = Inr i"
  shows "get_instruction (take (ilength i) bs @ rest) mode = Inr i \<and>
    (\<forall>n < ilength i. get_instruction (take n bs) mode = Inl ReadFault)"
proof (intro conjI allI impI)
  have len: "ilength i \<le> length bs" using get_instruction_length [OF get] by simp
  then show "get_instruction (take (ilength i) bs @ rest) mode = Inr i"
    by (intro agree_get_instruction [OF get] agree_take)
  fix n assume n: "n < ilength i"
  show "get_instruction (take n bs) mode = Inl ReadFault"
  proof (rule ccontr)
    assume "get_instruction (take n bs) mode \<noteq> Inl ReadFault"
    then have "get_instruction (take n bs @ drop n bs) mode = get_instruction (take n bs) mode"
      using stable_get_instruction [of "take n bs" mode "drop n bs"] by (simp add: stable_def)
    with get have "get_instruction (take n bs) mode = Inr i" by simp
    from get_instruction_length [OF this] n show False by simp
  qed
qed

text \<open>\<open>mov word [ebx+esi*2+8], 0x1234\<close> with its size prefix, before and behind other bytes.\<close>

lemma decoder_reads_exactly_its_bytes_witness:
  "\<exists>i. ilength i = 7 \<and>
     get_instruction [0x66, 0xc7, 0x44, 0x73, 8, 0x34, 0x12, 0xcc, 0xcc] MODE_32 = Inr i \<and>
     get_instruction [0x66, 0xc7, 0x44, 0x73, 8, 0x34, 0x12] MODE_32 = Inr i \<and>
     get_instruction [0x66, 0xc7, 0x44, 0x73, 8, 0x34, 0x12, 0x90] MODE_32 = Inr i \<and>
     get_instruction [0x66, 0xc7, 0x44, 0x73, 8, 0x34] MODE_32 = Inl ReadFault"
proof -
  let ?bs = "[0x66, 0xc7, 0x44, 0x73, 8, 0x34, 0x12, 0xcc, 0xcc] :: u8 list"
  let ?i = "projr (get_instruction ?bs MODE_32)"
  have get: "get_instruction ?bs MODE_32 = Inr ?i" by code_simp
  have len: "ilength ?i = 7" by code_simp
  have whole: "get_instruction (take 7 ?bs @ rest) MODE_32 = Inr ?i \<and>
      (\<forall>n < 7. get_instruction (take n ?bs) MODE_32 = Inl ReadFault)" for rest
    using decoder_reads_exactly_its_bytes [OF get, of rest] unfolding len .
  have "get_instruction (take 6 ?bs) MODE_32 = Inl ReadFault" using whole [of "[]"] by (auto simp only:)
  with whole [of "[]"] whole [of "[0x90]"] get len show ?thesis
    by (intro exI [of _ ?i]) simp
qed

end
