(* ===== verification/Trace_Block.thy ===== *)
theory Trace_Block
  imports Blocks
begin

text \<open>
  Two files that nothing includes. \<^verbatim>\<open>replay/Trace.h\<close> declares an earlier class \<open>Block\<close>: without thread and address, and
  with another separator behind each line. Constructor and \<open>Serialize\<close> have no body there. \<^verbatim>\<open>replay/MemoryInfo.h\<close>
  declares kinds of memory regions and two classes without members.
\<close>

subsection \<open>Blocks of \<open>Trace.h\<close>\<close>

record Trace_Block =
  t_frames :: "u32 list"
  t_disasm :: string
  t_raw :: string
  t_id :: u32

definition Trace_AddFrame :: "u32 \<Rightarrow> Trace_Block \<Rightarrow> Trace_Block" where
  "Trace_AddFrame frame_id b = b\<lparr>t_frames := insert_addr frame_id (t_frames b)\<rparr>"

definition Trace_AddDisasmLine :: "string \<Rightarrow> Trace_Block \<Rightarrow> Trace_Block" where
  "Trace_AddDisasmLine disasm_line b = b\<lparr>t_disasm := (t_disasm b @ disasm_line) @ '' [_LINE_] ''\<rparr>"

definition Trace_AddRawLine :: "string \<Rightarrow> Trace_Block \<Rightarrow> Trace_Block" where
  "Trace_AddRawLine raw_line b = b\<lparr>t_raw := (t_raw b @ raw_line) @ '' [_LINE_] ''\<rparr>"

definition Trace_GetBid :: "Trace_Block \<Rightarrow> u32" where "Trace_GetBid b = t_id b"

text \<open>The frames are kept as a set; adding them in any order, and more than once, gives the same block.\<close>

lemma Trace_AddFrame_frames:
  assumes "set_inv (\<lambda>a. a) (t_frames b)"
  shows "set_inv (\<lambda>a. a) (t_frames (fold Trace_AddFrame ids b))" "set (t_frames (fold Trace_AddFrame ids b)) = set ids \<union> set (t_frames b)"
proof -
  have "t_frames (fold Trace_AddFrame ids b) = fold insert_addr ids (t_frames b)"
    by (induction ids arbitrary: b) (simp_all add: Trace_AddFrame_def)
  then show "set_inv (\<lambda>a. a) (t_frames (fold Trace_AddFrame ids b))"
    "set (t_frames (fold Trace_AddFrame ids b)) = set ids \<union> set (t_frames b)"
    using addr_set.fold_ins_inv [OF assms] by (simp_all add: insert_addr_fold_set)
qed

lemma Trace_AddFrame_order:
  assumes "set_inv (\<lambda>a. a) (t_frames b)" and "set ids = set ids'"
  shows "t_frames (fold Trace_AddFrame ids b) = t_frames (fold Trace_AddFrame ids' b)"
proof -
  note a = Trace_AddFrame_frames [OF assms(1)]
  have "sorted (t_frames (fold Trace_AddFrame js b)) \<and> distinct (t_frames (fold Trace_AddFrame js b))" for js
    using a(1) [of js] by (simp add: set_inv_alt)
  with a(2) assms(2) show ?thesis by (intro sorted_distinct_set_unique) simp_all
qed

text \<open>Lines are kept in the order they are added; no other operation touches them, and none the id.\<close>

lemma Trace_lines:
  "t_disasm (fold Trace_AddDisasmLine ls b) = t_disasm b @ concat (map (\<lambda>l. l @ '' [_LINE_] '') ls)"
  "t_raw (fold Trace_AddRawLine ls b) = t_raw b @ concat (map (\<lambda>l. l @ '' [_LINE_] '') ls)"
  by (induction ls arbitrary: b) (simp_all add: Trace_AddDisasmLine_def Trace_AddRawLine_def)

lemma Trace_GetBid_kept:
  "Trace_GetBid (Trace_AddFrame f b) = Trace_GetBid b" "Trace_GetBid (Trace_AddDisasmLine l b) = Trace_GetBid b"
  "Trace_GetBid (Trace_AddRawLine l b) = Trace_GetBid b"
  by (simp_all add: Trace_GetBid_def Trace_AddFrame_def Trace_AddDisasmLine_def Trace_AddRawLine_def)

subsection \<open>Kinds of memory regions\<close>

datatype MemoryRegionType =
    MemoryRegionType_None
  | MemoryRegionType_Mapped_Image
  | MemoryRegionType_Mapped_Empty
  | MemoryRegionType_Stack
  | MemoryRegionType_Heap
  | MemoryRegionType_Mapped_Data

end
