(* ===== verification/Regexd.thy ===== *)
theory Regexd
  imports Printf "HOL-Library.Sublist"
begin

text \<open>
  \<^verbatim>\<open>regexd/regexd.cpp\<close>, the tool that finds out how much of a regular expression fits a text: it drops characters from
  the end of the pattern until a search succeeds, then from the end of the text until a match does.
  \<^verbatim>\<open>boost::regex\<close> is a parameter. What the tool prints is one list of texts in order (it mixes \<^verbatim>\<open>printf\<close>
  and \<^verbatim>\<open>std::cout\<close>, which share the standard output). The two loops have one contract, the locale \<open>shrinking\<close>.
\<close>

subsection \<open>What boost::regex does\<close>

text \<open>Compiling a pattern gives an expression, or throws \<open>regex_error\<close>; searching and matching give the matched
  groups, find nothing, or throw one of the three exceptions the code names.\<close>

datatype regex_result = Regex_Error | Runtime_Error | Regex_Bad_Alloc | No_Match | Groups "string list"

record 'r regex_api =
  regex_compile :: "string \<Rightarrow> 'r option"
  regex_search :: "string \<Rightarrow> 'r \<Rightarrow> regex_result"
  regex_match :: "string \<Rightarrow> 'r \<Rightarrow> regex_result"

subsection \<open>Search and match\<close>

definition nl_spaces :: string where "nl_spaces = ''    '' @ [CHR 0x0A]"

definition rule_line :: string where "rule_line = replicate 40 CHR ''-''"

definition fmt_6s :: "string \<Rightarrow> string" where "fmt_6s s = pad_left 6 CHR '' '' s"

definition group_lines :: "string list \<Rightarrow> string list" where
  "group_lines gs =
     [rule_line @ nl_spaces @ [CHR 0x09] @ ''Groups:'' @ nl_spaces] @
     map (\<lambda>(i, g). ''      $'' @ base_str digit 10 i @ '' = \"'' @ g @ ''\"'' @ nl_spaces) (enumerate 0 gs) @
     [rule_line @ nl_spaces]"

definition verdict_line :: "string \<Rightarrow> string \<Rightarrow> string" where
  "verdict_line verdict subject = ''* '' @ fmt_6s verdict @ '': '' @ subject @ nl_spaces"

text \<open>The common part of \<open>search\<close> and \<open>match\<close>: an exception is a silent failure.\<close>

definition report_outcome :: "string \<Rightarrow> regex_result \<Rightarrow> bool \<times> string list" where
  "report_outcome subject r =
     (case r of
        Groups gs \<Rightarrow> (True, [verdict_line ''OK'' subject] @ group_lines gs)
      | No_Match \<Rightarrow> (False, [verdict_line ''FAIL'' subject])
      | _ \<Rightarrow> (False, []))"

definition regexd_search :: "'r regex_api \<Rightarrow> string \<Rightarrow> string \<Rightarrow> bool \<times> string list" where
  "regexd_search api pattern content =
     (case regex_compile api pattern of None \<Rightarrow> (False, [])
      | Some exp \<Rightarrow> report_outcome pattern (regex_search api content exp))"

definition regexd_match :: "'r regex_api \<Rightarrow> string \<Rightarrow> string \<Rightarrow> bool \<times> string list" where
  "regexd_match api pattern content =
     (case regex_compile api pattern of None \<Rightarrow> (False, [])
      | Some exp \<Rightarrow> report_outcome content (regex_match api content exp))"

subsection \<open>The two loops\<close>

function search_loop :: "'r regex_api \<Rightarrow> string \<Rightarrow> string \<Rightarrow> string \<times> string list" where
  "search_loop api pattern content =
     (case regexd_search api pattern content of
        (True, out) \<Rightarrow> (pattern, out)
      | (False, out) \<Rightarrow>
          if 1 < length pattern
          then (case search_loop api (butlast pattern) content of (p, rest) \<Rightarrow> (p, out @ rest))
          else (pattern, out))"
  by pat_completeness auto
termination by (relation "measure (\<lambda>(api, pattern, content). length pattern)") auto

function match_loop :: "'r regex_api \<Rightarrow> string \<Rightarrow> string \<Rightarrow> string \<times> string list" where
  "match_loop api pattern content =
     (case regexd_match api pattern content of
        (True, out) \<Rightarrow> (content, out)
      | (False, out) \<Rightarrow>
          if 1 < length content
          then (case match_loop api pattern (butlast content) of (c, rest) \<Rightarrow> (c, out @ rest))
          else (content, out))"
  by pat_completeness auto
termination by (relation "measure (\<lambda>(api, pattern, content). length content)") auto

declare search_loop.simps [simp del] match_loop.simps [simp del]

subsection \<open>The program\<close>

definition phase_head :: "string \<Rightarrow> string list" where
  "phase_head t = [[CHR 0x0A] @ t @ nl_spaces, rule_line @ nl_spaces]"

definition final_lines :: "string \<Rightarrow> string \<Rightarrow> string \<Rightarrow> string \<Rightarrow> string list" where
  "final_lines init_pattern init_content pattern content =
     phase_head ''##Final Match'' @
     [''***Pattern***: **'' @ pattern @ ''**['' @ drop (length pattern) init_pattern @ '']   '' @ [CHR 0x0A],
      ''***Content***: **'' @ content @ ''**['' @ drop (length content) init_content @ '']   '' @ [CHR 0x0A]]"

definition regexd_main :: "'r regex_api \<Rightarrow> string list \<Rightarrow> string list" where
  "regexd_main api argv =
     (if length argv \<noteq> 3 then [''Usage: regexd pattern content'' @ [CHR 0x0A]]
      else let init_pattern = argv ! 1; init_content = argv ! 2 in
        [''#RegExd Analysis#'' @ nl_spaces @ [CHR 0x0A]] @
        phase_head ''##Phase 0: Initialize'' @
        [''***Pattern***: '' @ init_pattern @ nl_spaces, ''***Content***: '' @ init_content @ nl_spaces] @
        phase_head ''##Phase 1: Search'' @
        (case search_loop api init_pattern init_content of (pattern, out) \<Rightarrow>
           out @
           (if pattern = [] then [verdict_line ''PANIC'' ''Definitely Wrong Pattern!'']
            else phase_head ''##Phase 2: Match'' @
              (case match_loop api pattern init_content of (content, out2) \<Rightarrow>
                 out2 @
                 (if content \<noteq> [] then final_lines init_pattern init_content pattern content else [])))))"

subsection \<open>The contract of a shrinking loop\<close>

text \<open>A loop that drops the last character until a test holds, but keeps the last one.\<close>

locale shrinking =
  fixes test :: "string \<Rightarrow> bool" and shrink :: "string \<Rightarrow> string"
  assumes shrink_step: "shrink s = (if test s \<or> length s \<le> 1 then s else shrink (butlast s))"
begin

text \<open>The prefixes of a text, longest first, are the text and those of the text without its last character.\<close>

lemma shrink_induct [case_names stop drop]:
  assumes stop: "\<And>s. test s \<or> length s \<le> 1 \<Longrightarrow> P s"
    and drop: "\<And>s. \<not> test s \<Longrightarrow> 1 < length s \<Longrightarrow> P (butlast s) \<Longrightarrow> P s"
  shows "P s"
proof (induction "length s" arbitrary: s rule: less_induct)
  case less
  show ?case
  proof (cases "test s \<or> length s \<le> 1")
    case False
    then have "length (butlast s) < length s" by (cases s) auto
    with less False drop show ?thesis by (meson not_le)
  qed (rule stop)
qed

lemma shrink_stop: "test s \<or> length s \<le> 1 \<Longrightarrow> shrink s = s"
  by (subst shrink_step) simp

lemma shrink_drop: "\<not> test s \<Longrightarrow> 1 < length s \<Longrightarrow> shrink s = shrink (butlast s)"
  by (subst shrink_step) simp

lemma shrink_prefix: "prefix (shrink s) s"
proof (induction s rule: shrink_induct)
  case (drop s)
  then have "prefix (butlast s) s" by (metis append_butlast_last_id less_nat_zero_code list.size(3) prefixI)
  with drop show ?case by (simp add: shrink_drop prefix_order.trans [OF drop(3)])
qed (simp add: shrink_stop)

lemma shrink_not_Nil: "s \<noteq> [] \<Longrightarrow> shrink s \<noteq> []"
proof (induction s rule: shrink_induct)
  case (drop s)
  then have "butlast s \<noteq> []" by (cases s rule: rev_cases) auto
  with drop show ?case by (simp add: shrink_drop)
qed (simp add: shrink_stop)

text \<open>What passes the test among the prefixes is found, and nothing longer than the result does.\<close>

lemma shrink_longest: "prefix q s \<Longrightarrow> q \<noteq> [] \<Longrightarrow> test q \<Longrightarrow> test (shrink s) \<and> length q \<le> length (shrink s)"
proof (induction s rule: shrink_induct)
  case (stop s)
  show ?case
  proof (cases "test s")
    case False
    from stop(2) obtain r where r: "s = q @ r" by (auto simp: prefix_def)
    with stop(1,3) False have "r = []" by (cases q) auto
    with r have "q = s" by simp
    with False stop show ?thesis by simp
  qed (use stop prefix_length_le in \<open>auto simp: shrink_stop\<close>)
next
  case (drop s)
  then have "q \<noteq> s" by auto
  with drop(4) have "prefix q (butlast s)"
    by (metis append_butlast_last_id drop(2) less_nat_zero_code list.size(3) prefix_snoc)
  with drop show ?case by (simp add: shrink_drop)
qed

lemma shrink_none: "\<not> test (shrink s) \<Longrightarrow> length (shrink s) \<le> 1"
proof (induction s rule: shrink_induct)
  case (stop s)
  then show ?case by (auto simp: shrink_stop)
next
  case (drop s)
  then show ?case by (simp add: shrink_drop)
qed

end

text \<open>Both loops of the program keep it.\<close>

definition found :: "'r regex_api \<Rightarrow> string \<Rightarrow> string \<Rightarrow> bool" where
  "found api pattern content \<longleftrightarrow>
     (\<exists>exp gs. regex_compile api pattern = Some exp \<and> regex_search api content exp = Groups gs)"

definition matched :: "'r regex_api \<Rightarrow> string \<Rightarrow> string \<Rightarrow> bool" where
  "matched api pattern content \<longleftrightarrow>
     (\<exists>exp gs. regex_compile api pattern = Some exp \<and> regex_match api content exp = Groups gs)"

lemma report_result: "fst (report_outcome subject r) \<longleftrightarrow> (\<exists>gs. r = Groups gs)"
  by (cases r) (simp_all add: report_outcome_def)

lemma regexd_search_found: "fst (regexd_search api pattern content) \<longleftrightarrow> found api pattern content"
  by (auto simp: regexd_search_def found_def report_result split: option.splits)

lemma regexd_match_matched: "fst (regexd_match api pattern content) \<longleftrightarrow> matched api pattern content"
  by (auto simp: regexd_match_def matched_def report_result split: option.splits)

interpretation searching: shrinking "\<lambda>p. found api p content" "\<lambda>p. fst (search_loop api p content)" for api content
proof
  show "fst (search_loop api s content) =
      (if found api s content \<or> length s \<le> 1 then s else fst (search_loop api (butlast s) content))" for s
    by (subst search_loop.simps)
      (auto simp: regexd_search_found [symmetric] split: prod.splits bool.splits)
qed

interpretation matching: shrinking "\<lambda>c. matched api pattern c" "\<lambda>c. fst (match_loop api pattern c)" for api pattern
proof
  show "fst (match_loop api pattern s) =
      (if matched api pattern s \<or> length s \<le> 1 then s else fst (match_loop api pattern (butlast s)))" for s
    by (subst match_loop.simps)
      (auto simp: regexd_match_matched [symmetric] split: prod.splits bool.splits)
qed

subsection \<open>What the tool reports\<close>

text \<open>\<open>s'\<close> is the longest prefix of \<open>s\<close> that passes; when none but the empty one does, the first character.\<close>

definition best_prefix :: "(string \<Rightarrow> bool) \<Rightarrow> string \<Rightarrow> string \<Rightarrow> bool" where
  "best_prefix P s s' \<longleftrightarrow> prefix s' s \<and> s' \<noteq> [] \<and>
     (if \<exists>q. prefix q s \<and> q \<noteq> [] \<and> P q
      then P s' \<and> (\<forall>q. prefix q s \<and> P q \<longrightarrow> length q \<le> length s')
      else length s' = 1)"

lemma best_prefix_found:
  "best_prefix P s s' \<Longrightarrow> prefix q s \<Longrightarrow> q \<noteq> [] \<Longrightarrow> P q \<Longrightarrow> prefix s' s \<and> P s' \<and> length q \<le> length s'"
  unfolding best_prefix_def by (auto split: if_split_asm)

lemma best_prefix_none:
  "best_prefix P s s' \<Longrightarrow> (\<And>q. prefix q s \<Longrightarrow> q \<noteq> [] \<Longrightarrow> \<not> P q) \<Longrightarrow> length s' = 1"
  unfolding best_prefix_def by (auto split: if_split_asm)

context shrinking begin

lemma shrink_best: "s \<noteq> [] \<Longrightarrow> best_prefix test s (shrink s)"
proof -
  assume s: "s \<noteq> []"
  then have ne: "shrink s \<noteq> []" by (rule shrink_not_Nil)
  show ?thesis
  proof (cases "\<exists>q. prefix q s \<and> q \<noteq> [] \<and> test q")
    case True
    then have "test (shrink s)" using shrink_longest by blast
    moreover have "length q \<le> length (shrink s)" if "prefix q s" "test q" for q
      using that shrink_longest [of q s] by (cases q) auto
    ultimately show ?thesis using True ne shrink_prefix by (simp add: best_prefix_def)
  next
    case False
    then have "\<not> test (shrink s)" using ne shrink_prefix by blast
    then have "length (shrink s) = 1" using shrink_none [of s] ne by (cases "shrink s") auto
    with False ne shrink_prefix show ?thesis by (auto simp: best_prefix_def)
  qed
qed

end

text \<open>C24. For any regular expression library and any pattern and text that are not empty, the tool ends, and the last thing
  it prints splits the pattern at the longest prefix that is found in the text and the text at the longest prefix
  that this pattern matches. It prints such a final match even where nothing is found or matched:
  then it claims the first character, and the branch for a wrong pattern is not taken.\<close>

theorem regexd_reports_longest_prefixes:
  assumes "p \<noteq> []" and "c \<noteq> []"
  shows "\<exists>out p' c'. regexd_main api [prog, p, c] = out @ final_lines p c p' c' \<and>
    best_prefix (\<lambda>p. found api p c) p p' \<and> best_prefix (matched api p') c c'"
proof -
  obtain p' out1 where s: "search_loop api p c = (p', out1)" by force
  obtain c' out2 where m: "match_loop api p' c = (c', out2)" by force
  have p': "best_prefix (\<lambda>p. found api p c) p p'"
    using searching.shrink_best [OF assms(1), of api c] s by simp
  have c': "best_prefix (matched api p') c c'"
    using matching.shrink_best [OF assms(2), of api p'] m by simp
  from p' c' have "p' \<noteq> []" "c' \<noteq> []" by (simp_all add: best_prefix_def)
  then have "regexd_main api [prog, p, c] =
      ([''#RegExd Analysis#'' @ nl_spaces @ [CHR 0x0A]] @ phase_head ''##Phase 0: Initialize'' @
       [''***Pattern***: '' @ p @ nl_spaces, ''***Content***: '' @ c @ nl_spaces] @
       phase_head ''##Phase 1: Search'' @ out1 @ phase_head ''##Phase 2: Match'' @ out2) @ final_lines p c p' c'"
    using s m by (simp add: regexd_main_def)
  with p' c' show ?thesis by blast
qed

text \<open>A library that only knows literal patterns: \<open>ab[\<close> fits \<open>xabx\<close> up to the bracket, and nothing matches.\<close>

lemma regexd_reports_longest_prefixes_witness:
  "\<exists>api :: string regex_api. \<exists>out p' c'. regexd_main api [''regexd'', ''ab['', ''xabx''] = out @ final_lines ''ab['' ''xabx'' p' c' \<and>
     p' = ''ab'' \<and> length c' = 1"
proof -
  let ?api = "\<lparr>regex_compile = (\<lambda>p. if CHR ''['' \<in> set p then None else Some p),
     regex_search = (\<lambda>c p. if sublist p c then Groups [p] else No_Match),
     regex_match = (\<lambda>c p. if p = c then Groups [p] else No_Match)\<rparr>"
  obtain out p' c' where
    main: "regexd_main ?api [''regexd'', ''ab['', ''xabx''] = out @ final_lines ''ab['' ''xabx'' p' c'"
    and p': "best_prefix (\<lambda>p. found ?api p ''xabx'') ''ab['' p'" and c': "best_prefix (matched ?api p') ''xabx'' c'"
    using regexd_reports_longest_prefixes [of "''ab[''" "''xabx''" ?api "''regexd''"] by auto
  have ab: "found ?api ''ab'' ''xabx''" by (simp add: found_def) (simp add: sublist_def, metis append_Cons append_Nil)
  have found_p': "prefix p' ''ab['' \<and> found ?api p' ''xabx'' \<and> length ''ab'' \<le> length p'"
    by (rule best_prefix_found [OF p' _ _ ab]) simp_all
  then have "p' = ''ab''" by (auto simp: prefix_Cons found_def)
  moreover have "\<not> matched ?api ''ab'' q" if "prefix q ''xabx''" "q \<noteq> []" for q
    using that by (auto simp: prefix_Cons matched_def)
  ultimately have "length c' = 1" using best_prefix_none [OF c'] by simp
  with main \<open>p' = ''ab''\<close> show ?thesis by blast
qed

end
