(* ===== verification/Tools.thy ===== *)
theory Tools
  imports Printf
begin

text \<open>
  The two small tools: \<^verbatim>\<open>sendmsg/sendmsg.cpp\<close>, which sends a window message, and \<^verbatim>\<open>launch/launch.cpp\<close>, which opens a file.
  Their effects are a list: what they print, and the one call of the system each makes.
  \<^verbatim>\<open>sendmsg\<close> reads its numbers with \<^verbatim>\<open>strtol\<close>, which saturates at the range of a 32-bit \<^verbatim>\<open>long\<close>.
\<close>

datatype tool_action =
    Print string
  | Send_Message u32 u32 u32 u32
  | Shell_Execute string string

subsection \<open>strtol in base 16\<close>

definition is_space :: "char \<Rightarrow> bool" where
  "is_space c \<longleftrightarrow> (let n = of_char c :: nat in n = 32 \<or> 9 \<le> n \<and> n \<le> 13)"

definition is_hex :: "char \<Rightarrow> bool" where
  "is_hex c \<longleftrightarrow> (let n = of_char c :: nat in 48 \<le> n \<and> n < 58 \<or> 65 \<le> n \<and> n < 71 \<or> 97 \<le> n \<and> n < 103)"

text \<open>A prefix \<^verbatim>\<open>0x\<close> counts when a digit follows.\<close>

fun strip_0x :: "string \<Rightarrow> string" where
  "strip_0x (z # x # d # s) =
     (if z = CHR ''0'' \<and> (x = CHR ''x'' \<or> x = CHR ''X'') \<and> is_hex d then d # s else z # x # d # s)"
| "strip_0x s = s"

definition hex_prefix :: "string \<Rightarrow> nat" where
  "hex_prefix s = read_base 16 (takeWhile is_hex (strip_0x s))"

definition clamp_long :: "int \<Rightarrow> int" where
  "clamp_long v = (if v > 2 ^ 31 - 1 then 2 ^ 31 - 1 else if v < - (2 ^ 31) then - (2 ^ 31) else v)"

definition strtol_16 :: "string \<Rightarrow> int" where
  "strtol_16 s =
     (case dropWhile is_space s of
        [] \<Rightarrow> 0
      | c # t \<Rightarrow>
          clamp_long (if c = CHR ''-'' then - int (hex_prefix t)
                      else if c = CHR ''+'' then int (hex_prefix t)
                      else int (hex_prefix (c # t))))"

subsection \<open>The programs\<close>

definition fmt_02x :: "u32 \<Rightarrow> string" where "fmt_02x w = pad_left 2 CHR ''0'' (fmt_x w)"

definition sendmsg_main :: "string list \<Rightarrow> tool_action list" where
  "sendmsg_main argv =
     (if length argv \<noteq> 5 then [Print (''Usage: sendmsg hwnd msg wparam lparam'' @ [CHR 0x0A])]
      else let num = (\<lambda>i. word_of_int (strtol_16 (argv ! i)) :: u32);
               hwnd = num 1; msg = num 2; wparam = num 3; lparam = num 4 in
        [Print (''SendMessage(0x'' @ fmt_08x hwnd @ '', 0x'' @ fmt_02x msg @ '', '' @ fmt_d wparam @ '', '' @
                fmt_d lparam @ '');'' @ [CHR 0x0A]),
         Send_Message hwnd msg wparam lparam])"

text \<open>The parameters after the file name are not passed on.\<close>

definition launch_main :: "string list \<Rightarrow> tool_action list" where
  "launch_main argv =
     (if length argv < 2 then [Print (''Usage: launch filename [parameters]'' @ [CHR 0x0A])]
      else [Shell_Execute ''open'' (argv ! 1)])"

subsection \<open>Reading back what is written in hexadecimal\<close>

lemma fmt_x_hex: "c \<in> set (fmt_x w) \<Longrightarrow> hex_char c"
  using set_base_str [of 16 digit "unat w"] by (auto simp: fmt_x_def hex_char_def digit_def)

lemma hex_char_is_hex:
  assumes "hex_char c"
  shows "is_hex c" and "\<not> is_space c" and "c \<noteq> CHR ''-''" and "c \<noteq> CHR ''+''" and "c \<noteq> CHR ''x''" and "c \<noteq> CHR ''X''"
  using assms by (auto simp: hex_char_def is_hex_def is_space_def Let_def)

lemma strip_0x_hex: "\<forall>c\<in>set s. hex_char c \<Longrightarrow> strip_0x s = s"
  by (cases s rule: strip_0x.cases) (auto dest: hex_char_is_hex)

lemma strtol_16_hex:
  assumes "s \<noteq> []" and "\<forall>c\<in>set s. hex_char c"
  shows "strtol_16 s = clamp_long (int (read_base 16 s))"
proof -
  obtain c t where s: "s = c # t" using assms(1) by (cases s) auto
  with assms(2) have "hex_char c" by simp
  note c = hex_char_is_hex [OF this]
  have "takeWhile is_hex (strip_0x s) = s"
    using assms(2) by (simp add: strip_0x_hex takeWhile_eq_all_conv hex_char_is_hex(1))
  with c s show ?thesis by (simp add: strtol_16_def hex_prefix_def)
qed

text \<open>A number printed in hexadecimal arrives at the window, unless its highest bit is set.\<close>

definition saturated :: "u32 \<Rightarrow> u32" where
  "saturated w = (if unat w < 2 ^ 31 then w else 0x7FFFFFFF)"

lemma strtol_16_fmt_x: "word_of_int (strtol_16 (fmt_x w)) = saturated w"
proof -
  have "fmt_x w \<noteq> []" by (simp add: fmt_x_def)
  moreover have "\<forall>c\<in>set (fmt_x w). hex_char c" by (blast dest: fmt_x_hex)
  ultimately have "strtol_16 (fmt_x w) = clamp_long (int (read_base 16 (fmt_x w)))" by (rule strtol_16_hex)
  then have "strtol_16 (fmt_x w) = clamp_long (int (unat w))"
    by (simp add: fmt_x_def read_base_base_str)
  moreover have "clamp_long (int n) = (if n < 2 ^ 31 then int n else 2 ^ 31 - 1)" for n
    by (simp add: clamp_long_def)
  ultimately have "strtol_16 (fmt_x w) = (if unat w < 2 ^ 31 then int (unat w) else 2 ^ 31 - 1)" by (simp only:)
  then show ?thesis by (simp add: saturated_def)
qed

lemma sendmsg_sends_its_numbers:
  "\<exists>text. sendmsg_main [prog, fmt_x hwnd, fmt_x msg, fmt_x wparam, fmt_x lparam] =
     [Print text, Send_Message (saturated hwnd) (saturated msg) (saturated wparam) (saturated lparam)]"
  by (simp add: sendmsg_main_def strtol_16_fmt_x Let_def)

end
