(* ===== verification/Spec2Isabelle.thy ===== *)
theory Spec2Isabelle
  imports Replay Image_Reloc Image_Directory Sweep_Report Sweep_Code Sweep_Post Libdasm_Address Libdasm_Extent
    Trace_Block Regexd Tools
begin

text \<open>
  PE-Replay is a Pin tool: it runs a 32-bit Windows program under Pin and writes two tables, \<^verbatim>\<open>blocks.csv\<close> (the code
  blocks of the main module) and \<^verbatim>\<open>frames.csv\<close> (registers and stack at chosen block entries). Beside that path the
  repository holds a static part, which sweeps a code section for traces with its own disassembler, and checks of control
  transfers that are mostly switched off. This development models both parts from the sources under \<^verbatim>\<open>src/\<close>.

  The static part, from the bytes up:
  \<^item> \<open>Libdasm_Base\<close>, \<open>Opcode_Table1\<close>, \<open>Opcode_Table2\<close>, \<open>Opcode_Table3\<close>, \<open>Opcode_Table_Ext\<close>, \<open>Opcode_Table_Fpu\<close>:
    \<^verbatim>\<open>libdasm/libdasm.h\<close> and \<^verbatim>\<open>libdasm/opcode_tables.h\<close>, every table row by row; \<open>Libdasm_Rows\<close> what the rows have in
    common.
  \<^item> \<open>Libdasm_Decode\<close>: \<open>get_instruction\<close> of \<^verbatim>\<open>libdasm/libdasm.cpp\<close>. \<open>Libdasm_Safety\<close>: it indexes no table out of range,
    follows no null row, and its length is bounded. \<open>Libdasm_Extent\<close>: that length is the exact number of bytes it reads.
  \<^item> \<open>Libdasm_Types\<close>: the values the fields of a decoded operand take. \<open>Libdasm_Format\<close>, \<open>Libdasm_Print\<close>: the routines
    that print an instruction, and that 116 bytes are enough for every instruction the decoder returns.
    \<open>Libdasm_Address\<close>: the printed text of a memory operand, read back, is the address its fields describe.
  \<^item> \<open>Static_Trace\<close>: \<^verbatim>\<open>replay/StaticTrace\<close>. The loop of \<open>process\<close> computes a walk over consecutive instructions, with the
    targets and structure addresses their decoded fields describe; the targets of near and conditional branches are those
    the displacements were made for.
  \<^item> \<open>Std_Set\<close>: \<^verbatim>\<open>std::set\<close> as a locale, interpreted for addresses and traces. \<open>Sweep_Process\<close>, \<open>Sweep_Gaps\<close>,
    \<open>Sweep_Grey\<close> and \<open>Sweep_Linear\<close>: \<^verbatim>\<open>replay/CodeSectionSweeper\<close>. The worklist ends; gaps, trimming, linear sweep and
    coverage; the analysis of the gaps ends also with grey areas; what the linear sweep adds is a run of instructions.
    \<open>Sweep_Code\<close>: what \<open>process\<close> as a whole finds, against an execution relation on single instructions that does not
    mention traces or the worklist. \<open>Sweep_Post\<close>: the outcome of the post-processing, decided by the areas of the structure
    addresses. \<open>Sweep_Report\<close>: the lines this part logs.

  The dynamic part:
  \<^item> \<open>Printf\<close>, \<open>Std_Map\<close>: the conversions of the format strings, and \<^verbatim>\<open>std::map\<close> as a locale.
  \<^item> \<open>Text_Log\<close>, \<open>Config_Log\<close>: \<^verbatim>\<open>replay/Config\<close> and \<^verbatim>\<open>replay/Logger\<close>. A logger is a buffer over numbered files with a
    mutex; what it is given is what the files hold in the end. The locale \<open>text_log\<close> is what the rest of the program
    relies on, calls that append to the text of a name; one logger provides it, and all of them together.
  \<^item> \<open>Image\<close>, \<open>Image_Reloc\<close>: \<^verbatim>\<open>replay/ImageInfo\<close>, \<^verbatim>\<open>ImageSection\<close>, \<^verbatim>\<open>ImageSectionRoutine\<close>: lookups, relocations, dumps.
    \<open>Image_Directory\<close>: \<open>AnalyzeDataDirectory\<close>, the tables of an image named by its header; the locale \<open>null_table\<close> is
    the contract of a loop over a table up to its zero entry, interpreted for the three kinds of table. On the memory
    of a process the analysis ends, and its areas are those tables.
  \<^item> \<open>Shadow_Stack\<close>: \<^verbatim>\<open>replay/ShadowStack\<close>, refined to one abstract stack per thread.
  \<^item> \<open>Frames\<close>, \<open>Blocks\<close>: \<^verbatim>\<open>replay/Frame\<close>, \<^verbatim>\<open>replay/Block\<close> and the two routines of \<^verbatim>\<open>replay/REProgramInfo\<close> that write them;
    the filter over arrays is a condition on the history of block entries.
  \<^item> \<open>Instrument\<close>: the rest of \<^verbatim>\<open>replay/REProgramInfo\<close>: which calls are inserted at an instruction and what they do.
  \<^item> \<open>Replay\<close>: \<^verbatim>\<open>replay/main.cpp\<close> and the whole session. A record of all static members is the state, the registered
    callbacks are its steps, \<open>session_run\<close> the relation of the sessions events lead to. Its theorems follow the rows from
    the first image to the disk: they can always be logged, they arrive complete and in order, each row of the frames
    names the row of its block, and the frames are those the history condition keeps.

  \<^item> \<open>Trace_Block\<close>: \<^verbatim>\<open>replay/Trace.h\<close>, an earlier class \<open>Block\<close>, and the enumeration of \<^verbatim>\<open>replay/MemoryInfo.h\<close>; no file
    includes either.

  The small programs:
  \<^item> \<open>Regexd\<close>: \<^verbatim>\<open>regexd/regexd.cpp\<close>, which shortens a pattern and a text until they match; the locale \<open>shrinking\<close> is
    such a loop. \<open>Tools\<close>: \<^verbatim>\<open>sendmsg/sendmsg.cpp\<close> and \<^verbatim>\<open>launch/launch.cpp\<close>, what they print and which call they make.

  How code is represented: classes are records, their static members are passed along or collected in a record; what a
  routine logs is a list of pairs of file or entry and text; machine integers are words of their width; memory is a list of
  mapped areas, and reading outside of them, leaving a buffer, using an iterator that is not valid and an exception are
  values of \<open>run_error\<close> or \<open>log_error\<close>. A loop that may not end is \<open>partial_function (option)\<close>: the worklist, the gaps
  while new ones are pushed, the relocation blocks and items, and the tables of an image. Another carries fuel, which is
  proved to be enough: that of \<open>process_loop\<close> is one more than the section has bytes; those of \<open>trim_loop\<close>,
  \<open>IsRangeComboTrampoline\<close>, \<open>linear_sweep_loop\<close> and \<open>justify_loop\<close> are one or two more than the bytes of their range; that of
  \<open>lea_search\<close> is the constant of the code, and that of \<open>format_loop\<close> the 26 doublings after which a 32-bit \<^verbatim>\<open>int\<close> has
  overflowed.

  Parameters, because the code is not in the repository: \<open>iequals\<close> (\<^verbatim>\<open>boost::iequals\<close>), \<open>filesystem_api\<close>
  (\<^verbatim>\<open>boost::filesystem\<close>), \<open>regex_api\<close> (\<^verbatim>\<open>boost::regex\<close>), the reports and events of Pin (images, sections,
  routines, instructions, contexts, memory), and the text of a percentage (\<^verbatim>\<open>%.2f\<close>).
  The structures of a PE file, which \<^verbatim>\<open>Windows.h\<close> declares, are offsets. The C library, streams and the allocator are
  taken to work; in particular the stream of a new log file opens also where \<^verbatim>\<open>Config::Initialize\<close> could not make the report
  folder, where the code would go on with a failed stream and lose the rows.

  The events of a session are atomic and come one after another. Pin may run \<open>Instrument_BBL\<close> in several threads at the same
  time, and the arrays and counters it works on have no lock; interleavings inside an event are not modelled.

  Not modelled: the message of the worklist where an allocation fails; the Pin kit under \<^verbatim>\<open>InstLib\<close>, \<^verbatim>\<open>extras\<close>, \<^verbatim>\<open>include\<close>, \<^verbatim>\<open>ia32\<close> and \<^verbatim>\<open>intel64\<close>, which is vendored.
\<close>

end
